(* ===== verification/Prelude.thy ===== *)
theory Prelude
  imports Main "HOL-Library.Word" "HOL-Library.Sublist"
begin

unbundle bit_operations_syntax

text \<open>
  Shared vocabulary of the development: machine integers and byte strings, Rust results and
  stateful computations that may fail, the standard-library routines the sources use
  (big-endian encoding of integers, UTF-8 validation, decimal printing and parsing, slicing)
  and the generic lemmas the component theories rest on.

  A Rust \<open>&str\<close> or \<open>String\<close> is its UTF-8 byte string, so \<open>len\<close> counts bytes as the code
  does. A \<open>usize\<close> that only counts or indexes is a \<open>nat\<close>; counters that wrap are words.
  An \<open>i32\<close> option value is an \<open>int\<close>; where the code saturates or casts it the rule is
  written out.
\<close>

named_theorems result_simps \<open>unfolding of results and stateful computations\<close>
named_theorems codec_simps \<open>lengths and round trips of encoders\<close>

type_synonym byte = "8 word"
type_synonym bytes = "byte list"
type_synonym u16 = "16 word"
type_synonym u32 = "32 word"
type_synonym u64 = "64 word"
type_synonym i32 = int
type_synonym i64 = int

abbreviation i32_min :: int where "i32_min \<equiv> - 2147483648"
abbreviation i32_max :: int where "i32_max \<equiv> 2147483647"

definition is_i32 :: "int \<Rightarrow> bool" where
  "is_i32 v \<longleftrightarrow> i32_min \<le> v \<and> v \<le> i32_max"

definition lit :: "string \<Rightarrow> bytes" where
  "lit s = map of_char s"

lemma length_lit [simp]: "length (lit s) = length s"
  by (simp add: lit_def)

lemma lit_Nil [simp]: "lit [] = []"
  by (simp add: lit_def)

lemma lit_Cons: "lit (c # cs) = of_char c # lit cs"
  by (simp add: lit_def)


section \<open>Results and stateful computations\<close>

text \<open>
  \<open>Inl e\<close> is \<open>Err(e)\<close> and \<open>Inr x\<close> is \<open>Ok(x)\<close>. A stateful operation returns its result
  together with the state it leaves behind, also when it fails: Rust does not undo the
  assignments made before an early return.
\<close>

type_synonym ('s, 'e, 'a) comp = "'s \<Rightarrow> ('e + 'a) \<times> 's"

definition and_then :: "'e + 'a \<Rightarrow> ('a \<Rightarrow> 'e + 'b) \<Rightarrow> 'e + 'b" where
  "and_then r f = (case r of Inl e \<Rightarrow> Inl e | Inr x \<Rightarrow> f x)"

definition map_ok :: "('a \<Rightarrow> 'b) \<Rightarrow> 'e + 'a \<Rightarrow> 'e + 'b" where
  "map_ok f r = (case r of Inl e \<Rightarrow> Inl e | Inr x \<Rightarrow> Inr (f x))"

definition ok_or :: "'e \<Rightarrow> 'a option \<Rightarrow> 'e + 'a" where
  "ok_or e x = (case x of None \<Rightarrow> Inl e | Some y \<Rightarrow> Inr y)"

definition ret :: "'a \<Rightarrow> ('s, 'e, 'a) comp" where
  "ret x = (\<lambda>s. (Inr x, s))"

definition throw :: "'e \<Rightarrow> ('s, 'e, 'a) comp" where
  "throw e = (\<lambda>s. (Inl e, s))"

definition bnd :: "('s, 'e, 'a) comp \<Rightarrow> ('a \<Rightarrow> ('s, 'e, 'b) comp) \<Rightarrow> ('s, 'e, 'b) comp" where
  "bnd m f = (\<lambda>s. case m s of (Inl e, s') \<Rightarrow> (Inl e, s') | (Inr x, s') \<Rightarrow> f x s')"

definition gets :: "('s \<Rightarrow> 'a) \<Rightarrow> ('s, 'e, 'a) comp" where
  "gets f = (\<lambda>s. (Inr (f s), s))"

definition modify :: "('s \<Rightarrow> 's) \<Rightarrow> ('s, 'e, unit) comp" where
  "modify f = (\<lambda>s. (Inr (), f s))"

definition lift :: "'e + 'a \<Rightarrow> ('s, 'e, 'a) comp" where
  "lift r = (\<lambda>s. (r, s))"

fun for_each :: "'x list \<Rightarrow> ('x \<Rightarrow> ('s, 'e, unit) comp) \<Rightarrow> ('s, 'e, unit) comp" where
  "for_each [] f = ret ()"
| "for_each (x # xs) f = bnd (f x) (\<lambda>_. for_each xs f)"

text \<open>A computation run a number of times, its results collected.\<close>

fun repeated :: "nat \<Rightarrow> ('s, 'e, 'a) comp \<Rightarrow> ('s, 'e, 'a list) comp" where
  "repeated 0 m = ret []"
| "repeated (Suc k) m = bnd m (\<lambda>x. bnd (repeated k m) (\<lambda>xs. ret (x # xs)))"

lemma and_then_simps [simp]: "and_then (Inl e) f = Inl e" "and_then (Inr x) f = f x"
  by (simp_all add: and_then_def)

lemma and_then_Inr: "and_then r f = Inr y \<longleftrightarrow> (\<exists>x. r = Inr x \<and> f x = Inr y)"
  by (cases r) auto

lemma map_ok_simps [simp]: "map_ok f (Inl e) = Inl e" "map_ok f (Inr x) = Inr (f x)"
  by (simp_all add: map_ok_def)

lemma map_ok_Inr: "map_ok f r = Inr y \<longleftrightarrow> (\<exists>x. r = Inr x \<and> y = f x)"
  by (cases r) auto

lemma ok_or_simps [simp]: "ok_or e None = Inl e" "ok_or e (Some x) = Inr x"
  by (simp_all add: ok_or_def)

lemma ok_or_Inr: "ok_or e x = Inr y \<longleftrightarrow> x = Some y"
  by (cases x) auto

lemma ret_apply [simp, result_simps]: "ret x s = (Inr x, s)"
  by (simp add: ret_def)

lemma throw_apply [simp, result_simps]: "throw e s = (Inl e, s)"
  by (simp add: throw_def)

lemma gets_apply [simp, result_simps]: "gets f s = (Inr (f s), s)"
  by (simp add: gets_def)

lemma modify_apply [simp, result_simps]: "modify f s = (Inr (), f s)"
  by (simp add: modify_def)

lemma lift_apply [simp, result_simps]: "lift r s = (r, s)"
  by (simp add: lift_def)

lemma bnd_apply [result_simps]:
  "bnd m f s = (case fst (m s) of Inl e \<Rightarrow> (Inl e, snd (m s)) | Inr x \<Rightarrow> f x (snd (m s)))"
  by (simp add: bnd_def split: prod.split sum.split)

lemma bnd_ok [simp]: "m s = (Inr x, s') \<Longrightarrow> bnd m f s = f x s'"
  by (simp add: bnd_def)

lemma bnd_err [simp]: "m s = (Inl e, s') \<Longrightarrow> bnd m f s = (Inl e, s')"
  by (simp add: bnd_def)

lemma bnd_pure [simp]:
  "bnd (gets g) f s = f (g s) s"
  "bnd (ret x) f s = f x s"
  "bnd (modify h) k s = k () (h s)"
  "bnd (throw e) l s = (Inl e, s)"
  by (simp_all add: bnd_def)

text \<open>A state predicate that every step of a loop keeps holds after the loop.\<close>

definition preserves :: "('s \<Rightarrow> bool) \<Rightarrow> ('s, 'e, 'a) comp \<Rightarrow> bool" where
  "preserves P m \<longleftrightarrow> (\<forall>s. P s \<longrightarrow> P (snd (m s)))"

lemma preservesI: "(\<And>s. P s \<Longrightarrow> P (snd (m s))) \<Longrightarrow> preserves P m"
  by (simp add: preserves_def)

lemma preservesD: "preserves P m \<Longrightarrow> P s \<Longrightarrow> P (snd (m s))"
  by (simp add: preserves_def)

lemma preserves_pure [simp, intro]:
  "preserves P (ret x)" "preserves P (throw e)" "preserves P (gets f)" "preserves P (lift r)"
  by (simp_all add: preserves_def)

lemma preserves_modify: "(\<And>s. P s \<Longrightarrow> P (f s)) \<Longrightarrow> preserves P (modify f)"
  by (simp add: preserves_def)

lemma preserves_bnd:
  assumes "preserves P m" and "\<And>x. preserves P (f x)"
  shows "preserves P (bnd m f)"
  using assms by (auto simp: preserves_def bnd_apply split: sum.split)

lemma preserves_for_each: "(\<And>x. x \<in> set xs \<Longrightarrow> preserves P (f x)) \<Longrightarrow> preserves P (for_each xs f)"
  by (induction xs) (auto intro!: preserves_bnd)


section \<open>Big-endian integers\<close>

text \<open>\<open>to_be n v\<close> is \<open>to_be_bytes\<close> of the \<open>n\<close>-byte integer \<open>v\<close>, \<open>from_be\<close> is \<open>from_be_bytes\<close>.\<close>

fun to_be :: "nat \<Rightarrow> nat \<Rightarrow> bytes" where
  "to_be 0 v = []"
| "to_be (Suc n) v = word_of_nat (v div 256 ^ n) # to_be n v"

fun from_be_acc :: "nat \<Rightarrow> bytes \<Rightarrow> nat" where
  "from_be_acc a [] = a"
| "from_be_acc a (b # bs) = from_be_acc (a * 256 + unat b) bs"

definition from_be :: "bytes \<Rightarrow> nat" where
  "from_be bs = from_be_acc 0 bs"

lemma length_to_be [simp, codec_simps]: "length (to_be n v) = n"
  by (induction n) auto

lemma unat_byte_less [simp]: "unat (b :: byte) < 256"
  using unsigned_less [of b] by simp

lemma unat_byte_of_nat [simp]: "unat (word_of_nat v :: byte) = v mod 256"
  by (simp add: unat_of_nat)

lemma byte_256: "(256 :: byte) = 0"
  by (simp add: word_unat_eq_iff)

lemma from_be_acc_append: "from_be_acc a (xs @ ys) = from_be_acc (from_be_acc a xs) ys"
  by (induction xs arbitrary: a) auto

lemma from_be_acc_shift: "from_be_acc a bs = a * 256 ^ length bs + from_be_acc 0 bs"
proof (induction bs arbitrary: a)
  case Nil
  then show ?case by simp
next
  case (Cons b bs)
  show ?case
    using Cons.IH [of "a * 256 + unat b"] Cons.IH [of "unat b"]
    by (simp add: algebra_simps)
qed

lemma from_be_Nil [simp]: "from_be [] = 0"
  by (simp add: from_be_def)

lemma from_be_Cons: "from_be (b # bs) = unat b * 256 ^ length bs + from_be bs"
  using from_be_acc_shift [of "unat b" bs] by (simp add: from_be_def)

lemma from_be_less: "from_be bs < 256 ^ length bs"
proof (induction bs)
  case Nil
  then show ?case by simp
next
  case (Cons b bs)
  have "unat b * 256 ^ length bs + from_be bs < (unat b + 1) * 256 ^ length bs"
    using Cons.IH by simp
  also have "\<dots> \<le> 256 * 256 ^ length bs"
    using unat_byte_less [of b] by (intro mult_le_mono) linarith+
  finally show ?case by (simp add: from_be_Cons)
qed

lemma from_be_to_be [codec_simps]: "from_be (to_be n v) = v mod 256 ^ n"
proof (induction n)
  case 0
  then show ?case by simp
next
  case (Suc n)
  have "from_be (to_be (Suc n) v) = v div 256 ^ n mod 256 * 256 ^ n + v mod 256 ^ n"
    using Suc.IH by (simp add: from_be_Cons)
  also have "\<dots> = v mod 256 ^ Suc n"
    using mod_mult2_eq [of v "256 ^ n" 256] by (simp add: algebra_simps)
  finally show ?case .
qed

lemma from_be_to_be_id: "v < 256 ^ n \<Longrightarrow> from_be (to_be n v) = v"
  by (simp add: from_be_to_be)

lemma to_be_add_multiple: "to_be n (k * 256 ^ n + v) = to_be n v"
proof -
  have "to_be m (k * 256 ^ n + v) = to_be m v" if "m \<le> n" for m
    using that
  proof (induction m)
    case 0
    then show ?case by simp
  next
    case (Suc m)
    then have p: "(256::nat) ^ n = 256 ^ (n - Suc m) * 256 * 256 ^ m"
      by (metis le_add_diff_inverse2 mult.assoc power_Suc power_add)
    have "(k * 256 ^ n + v) div 256 ^ m = k * 256 ^ (n - Suc m) * 256 + v div 256 ^ m"
      unfolding p by (simp add: mult.assoc [symmetric])
    then have "(word_of_nat ((k * 256 ^ n + v) div 256 ^ m) :: byte) = word_of_nat (v div 256 ^ m)"
      by (simp add: byte_256)
    with Suc show ?case by simp
  qed
  then show ?thesis by simp
qed

lemma to_be_from_be [codec_simps]: "to_be (length bs) (from_be bs) = bs"
proof (induction bs)
  case Nil
  then show ?case by simp
next
  case (Cons b bs)
  have d: "(unat b * 256 ^ length bs + from_be bs) div 256 ^ length bs = unat b"
    using from_be_less [of bs] by simp
  show ?case
    using Cons.IH by (simp add: from_be_Cons d to_be_add_multiple)
qed

lemma to_be_from_be_id: "length bs = n \<Longrightarrow> to_be n (from_be bs) = bs"
  using to_be_from_be by blast



section \<open>Chunks of a slice\<close>

text \<open>\<open>chunks_exact\<close>: whole chunks from the front, a shorter rest is left out.\<close>

function chunks_exact :: "nat \<Rightarrow> 'a list \<Rightarrow> 'a list list" where
  "chunks_exact n xs =
     (if n = 0 \<or> length xs < n then [] else take n xs # chunks_exact n (drop n xs))"
  by pat_completeness auto
termination
  by (relation "measure (\<lambda>(n, xs). length xs)") auto

declare chunks_exact.simps [simp del]

lemma chunks_exact_Nil [simp]: "chunks_exact n [] = []"
  by (subst chunks_exact.simps) auto

lemma chunks_exact_append:
  "length c = n \<Longrightarrow> 0 < n \<Longrightarrow> chunks_exact n (c @ xs) = c # chunks_exact n xs"
  by (subst chunks_exact.simps) simp

lemma chunks_exact_concat:
  "0 < n \<Longrightarrow> (\<And>c. c \<in> set cs \<Longrightarrow> length c = n) \<Longrightarrow> chunks_exact n (concat cs) = cs"
  by (induction cs) (simp_all add: chunks_exact_append)

lemma chunks_exact_length: "c \<in> set (chunks_exact n xs) \<Longrightarrow> length c = n"
proof (induction n xs rule: chunks_exact.induct)
  case (1 n xs)
  then show ?case
    by (subst (asm) (2) chunks_exact.simps) (auto split: if_splits)
qed

lemma concat_chunks_exact: "0 < n \<Longrightarrow> n dvd length xs \<Longrightarrow> concat (chunks_exact n xs) = xs"
proof (induction n xs rule: chunks_exact.induct)
  case (1 n xs)
  show ?case
  proof (cases "length xs < n")
    case True
    with "1.prems" have "xs = []"
      using dvd_imp_le by fastforce
    then show ?thesis by simp
  next
    case False
    with "1.prems" have "n dvd length (drop n xs)"
      by (simp add: dvd_diff_nat)
    with "1.IH" "1.prems" False show ?thesis
      by (subst chunks_exact.simps) simp
  qed
qed

section \<open>Slices\<close>

text \<open>\<open>&xs[a..b]\<close> for \<open>a \<le> b \<le> xs.len()\<close>; the sources check the bounds first.\<close>

definition slice :: "nat \<Rightarrow> nat \<Rightarrow> 'a list \<Rightarrow> 'a list" where
  "slice a b xs = take (b - a) (drop a xs)"

lemma length_slice: "b \<le> length xs \<Longrightarrow> length (slice a b xs) = b - a"
  by (simp add: slice_def)

lemma drop_slice: "a \<le> b \<Longrightarrow> drop a xs = slice a b xs @ drop b xs"
  by (metis append_take_drop_id drop_drop le_add_diff_inverse2 slice_def)


section \<open>Position of an element\<close>

fun position :: "('a \<Rightarrow> bool) \<Rightarrow> 'a list \<Rightarrow> nat option" where
  "position P [] = None"
| "position P (x # xs) = (if P x then Some 0 else map_option Suc (position P xs))"

lemma position_Some: "position P xs = Some i \<Longrightarrow> i < length xs \<and> P (xs ! i)"
  by (induction xs arbitrary: i) (auto split: if_splits)

lemma position_nth: "distinct xs \<Longrightarrow> i < length xs \<Longrightarrow> position (\<lambda>c. c = xs ! i) xs = Some i"
proof (induction xs arbitrary: i)
  case Nil
  then show ?case by simp
next
  case (Cons x xs)
  then show ?case by (cases i) auto
qed

end
