(* ===== verification/Constants.thy ===== *)
theory Constants
  imports Prelude
begin

text \<open>
  The numeric constants of \<open>crates/libzmq-core/src/constants.rs\<close>, one abbreviation each, in the
  order of the source. Option numbers are compared as \<open>i32\<close> values, so they are integers.
\<close>

abbreviation (input) ZMQ_VERSION_MAJOR :: i32 where "ZMQ_VERSION_MAJOR \<equiv> 4"
abbreviation (input) ZMQ_VERSION_MINOR :: i32 where "ZMQ_VERSION_MINOR \<equiv> 3"
abbreviation (input) ZMQ_VERSION_PATCH :: i32 where "ZMQ_VERSION_PATCH \<equiv> 6"

abbreviation (input) ZMQ_HAUSNUMERO :: i32 where "ZMQ_HAUSNUMERO \<equiv> 156384712"
abbreviation (input) ENOTSUP :: i32 where "ENOTSUP \<equiv> ZMQ_HAUSNUMERO + 1"
abbreviation (input) EPROTONOSUPPORT :: i32 where "EPROTONOSUPPORT \<equiv> ZMQ_HAUSNUMERO + 2"
abbreviation (input) ENOBUFS :: i32 where "ENOBUFS \<equiv> ZMQ_HAUSNUMERO + 3"
abbreviation (input) ENETDOWN :: i32 where "ENETDOWN \<equiv> ZMQ_HAUSNUMERO + 4"
abbreviation (input) EADDRINUSE :: i32 where "EADDRINUSE \<equiv> ZMQ_HAUSNUMERO + 5"
abbreviation (input) EADDRNOTAVAIL :: i32 where "EADDRNOTAVAIL \<equiv> ZMQ_HAUSNUMERO + 6"
abbreviation (input) ECONNREFUSED :: i32 where "ECONNREFUSED \<equiv> ZMQ_HAUSNUMERO + 7"
abbreviation (input) EINPROGRESS :: i32 where "EINPROGRESS \<equiv> ZMQ_HAUSNUMERO + 8"
abbreviation (input) ENOTSOCK :: i32 where "ENOTSOCK \<equiv> ZMQ_HAUSNUMERO + 9"
abbreviation (input) EMSGSIZE :: i32 where "EMSGSIZE \<equiv> ZMQ_HAUSNUMERO + 10"
abbreviation (input) EAFNOSUPPORT :: i32 where "EAFNOSUPPORT \<equiv> ZMQ_HAUSNUMERO + 11"
abbreviation (input) ENETUNREACH :: i32 where "ENETUNREACH \<equiv> ZMQ_HAUSNUMERO + 12"
abbreviation (input) ECONNABORTED :: i32 where "ECONNABORTED \<equiv> ZMQ_HAUSNUMERO + 13"
abbreviation (input) ECONNRESET :: i32 where "ECONNRESET \<equiv> ZMQ_HAUSNUMERO + 14"
abbreviation (input) ENOTCONN :: i32 where "ENOTCONN \<equiv> ZMQ_HAUSNUMERO + 15"
abbreviation (input) ETIMEDOUT :: i32 where "ETIMEDOUT \<equiv> ZMQ_HAUSNUMERO + 16"
abbreviation (input) EHOSTUNREACH :: i32 where "EHOSTUNREACH \<equiv> ZMQ_HAUSNUMERO + 17"
abbreviation (input) ENETRESET :: i32 where "ENETRESET \<equiv> ZMQ_HAUSNUMERO + 18"
abbreviation (input) EFSM :: i32 where "EFSM \<equiv> ZMQ_HAUSNUMERO + 51"
abbreviation (input) ENOCOMPATPROTO :: i32 where "ENOCOMPATPROTO \<equiv> ZMQ_HAUSNUMERO + 52"
abbreviation (input) ETERM :: i32 where "ETERM \<equiv> ZMQ_HAUSNUMERO + 53"
abbreviation (input) EMTHREAD :: i32 where "EMTHREAD \<equiv> ZMQ_HAUSNUMERO + 54"

abbreviation (input) EINVAL :: i32 where "EINVAL \<equiv> 22"
abbreviation (input) ENOMEM :: i32 where "ENOMEM \<equiv> 12"
abbreviation (input) EFAULT :: i32 where "EFAULT \<equiv> 14"
abbreviation (input) EAGAIN :: i32 where "EAGAIN \<equiv> 11"

abbreviation (input) ZMQ_PAIR :: i32 where "ZMQ_PAIR \<equiv> 0"
abbreviation (input) ZMQ_PUB :: i32 where "ZMQ_PUB \<equiv> 1"
abbreviation (input) ZMQ_SUB :: i32 where "ZMQ_SUB \<equiv> 2"
abbreviation (input) ZMQ_REQ :: i32 where "ZMQ_REQ \<equiv> 3"
abbreviation (input) ZMQ_REP :: i32 where "ZMQ_REP \<equiv> 4"
abbreviation (input) ZMQ_DEALER :: i32 where "ZMQ_DEALER \<equiv> 5"
abbreviation (input) ZMQ_ROUTER :: i32 where "ZMQ_ROUTER \<equiv> 6"
abbreviation (input) ZMQ_PULL :: i32 where "ZMQ_PULL \<equiv> 7"
abbreviation (input) ZMQ_PUSH :: i32 where "ZMQ_PUSH \<equiv> 8"
abbreviation (input) ZMQ_XPUB :: i32 where "ZMQ_XPUB \<equiv> 9"
abbreviation (input) ZMQ_XSUB :: i32 where "ZMQ_XSUB \<equiv> 10"
abbreviation (input) ZMQ_STREAM :: i32 where "ZMQ_STREAM \<equiv> 11"
abbreviation (input) ZMQ_SERVER :: i32 where "ZMQ_SERVER \<equiv> 12"
abbreviation (input) ZMQ_CLIENT :: i32 where "ZMQ_CLIENT \<equiv> 13"
abbreviation (input) ZMQ_RADIO :: i32 where "ZMQ_RADIO \<equiv> 14"
abbreviation (input) ZMQ_DISH :: i32 where "ZMQ_DISH \<equiv> 15"
abbreviation (input) ZMQ_GATHER :: i32 where "ZMQ_GATHER \<equiv> 16"
abbreviation (input) ZMQ_SCATTER :: i32 where "ZMQ_SCATTER \<equiv> 17"
abbreviation (input) ZMQ_DGRAM :: i32 where "ZMQ_DGRAM \<equiv> 18"
abbreviation (input) ZMQ_PEER :: i32 where "ZMQ_PEER \<equiv> 19"
abbreviation (input) ZMQ_CHANNEL :: i32 where "ZMQ_CHANNEL \<equiv> 20"

abbreviation (input) ZMQ_DONTWAIT :: i32 where "ZMQ_DONTWAIT \<equiv> 1"
abbreviation (input) ZMQ_SNDMORE :: i32 where "ZMQ_SNDMORE \<equiv> 2"
abbreviation (input) ZMQ_MORE :: i32 where "ZMQ_MORE \<equiv> 1"
abbreviation (input) ZMQ_SRCFD :: i32 where "ZMQ_SRCFD \<equiv> 2"
abbreviation (input) ZMQ_SHARED :: i32 where "ZMQ_SHARED \<equiv> 3"
abbreviation (input) ZMQ_GROUP_MAX_LENGTH :: i32 where "ZMQ_GROUP_MAX_LENGTH \<equiv> 255"

abbreviation (input) ZMQ_IO_THREADS :: i32 where "ZMQ_IO_THREADS \<equiv> 1"
abbreviation (input) ZMQ_MAX_SOCKETS :: i32 where "ZMQ_MAX_SOCKETS \<equiv> 2"
abbreviation (input) ZMQ_SOCKET_LIMIT :: i32 where "ZMQ_SOCKET_LIMIT \<equiv> 3"
abbreviation (input) ZMQ_THREAD_PRIORITY :: i32 where "ZMQ_THREAD_PRIORITY \<equiv> 3"
abbreviation (input) ZMQ_THREAD_SCHED_POLICY :: i32 where "ZMQ_THREAD_SCHED_POLICY \<equiv> 4"
abbreviation (input) ZMQ_MAX_MSGSZ :: i32 where "ZMQ_MAX_MSGSZ \<equiv> 5"
abbreviation (input) ZMQ_MSG_T_SIZE :: i32 where "ZMQ_MSG_T_SIZE \<equiv> 6"
abbreviation (input) ZMQ_THREAD_AFFINITY_CPU_ADD :: i32 where "ZMQ_THREAD_AFFINITY_CPU_ADD \<equiv> 7"
abbreviation (input) ZMQ_THREAD_AFFINITY_CPU_REMOVE :: i32 where "ZMQ_THREAD_AFFINITY_CPU_REMOVE \<equiv> 8"
abbreviation (input) ZMQ_THREAD_NAME_PREFIX :: i32 where "ZMQ_THREAD_NAME_PREFIX \<equiv> 9"
abbreviation (input) ZMQ_ZERO_COPY_RECV :: i32 where "ZMQ_ZERO_COPY_RECV \<equiv> 10"

abbreviation (input) ZMQ_IO_THREADS_DFLT :: i32 where "ZMQ_IO_THREADS_DFLT \<equiv> 1"
abbreviation (input) ZMQ_MAX_SOCKETS_DFLT :: i32 where "ZMQ_MAX_SOCKETS_DFLT \<equiv> 1023"
abbreviation (input) ZMQ_THREAD_PRIORITY_DFLT :: i32 where "ZMQ_THREAD_PRIORITY_DFLT \<equiv> - 1"
abbreviation (input) ZMQ_THREAD_SCHED_POLICY_DFLT :: i32 where "ZMQ_THREAD_SCHED_POLICY_DFLT \<equiv> - 1"

abbreviation (input) ZMQ_AFFINITY :: i32 where "ZMQ_AFFINITY \<equiv> 4"
abbreviation (input) ZMQ_RATE :: i32 where "ZMQ_RATE \<equiv> 8"
abbreviation (input) ZMQ_RECOVERY_IVL :: i32 where "ZMQ_RECOVERY_IVL \<equiv> 9"
abbreviation (input) ZMQ_SNDBUF :: i32 where "ZMQ_SNDBUF \<equiv> 11"
abbreviation (input) ZMQ_RCVBUF :: i32 where "ZMQ_RCVBUF \<equiv> 12"
abbreviation (input) ZMQ_ROUTING_ID :: i32 where "ZMQ_ROUTING_ID \<equiv> 5"
abbreviation (input) ZMQ_SUBSCRIBE :: i32 where "ZMQ_SUBSCRIBE \<equiv> 6"
abbreviation (input) ZMQ_UNSUBSCRIBE :: i32 where "ZMQ_UNSUBSCRIBE \<equiv> 7"
abbreviation (input) ZMQ_RCVMORE :: i32 where "ZMQ_RCVMORE \<equiv> 13"
abbreviation (input) ZMQ_FD :: i32 where "ZMQ_FD \<equiv> 14"
abbreviation (input) ZMQ_EVENTS :: i32 where "ZMQ_EVENTS \<equiv> 15"
abbreviation (input) ZMQ_TYPE :: i32 where "ZMQ_TYPE \<equiv> 16"
abbreviation (input) ZMQ_LINGER :: i32 where "ZMQ_LINGER \<equiv> 17"
abbreviation (input) ZMQ_RECONNECT_IVL :: i32 where "ZMQ_RECONNECT_IVL \<equiv> 18"
abbreviation (input) ZMQ_BACKLOG :: i32 where "ZMQ_BACKLOG \<equiv> 19"
abbreviation (input) ZMQ_RECONNECT_IVL_MAX :: i32 where "ZMQ_RECONNECT_IVL_MAX \<equiv> 21"
abbreviation (input) ZMQ_MAXMSGSIZE :: i32 where "ZMQ_MAXMSGSIZE \<equiv> 22"
abbreviation (input) ZMQ_MULTICAST_HOPS :: i32 where "ZMQ_MULTICAST_HOPS \<equiv> 25"
abbreviation (input) ZMQ_LAST_ENDPOINT :: i32 where "ZMQ_LAST_ENDPOINT \<equiv> 32"
abbreviation (input) ZMQ_SNDHWM :: i32 where "ZMQ_SNDHWM \<equiv> 23"
abbreviation (input) ZMQ_RCVHWM :: i32 where "ZMQ_RCVHWM \<equiv> 24"
abbreviation (input) ZMQ_RCVTIMEO :: i32 where "ZMQ_RCVTIMEO \<equiv> 27"
abbreviation (input) ZMQ_SNDTIMEO :: i32 where "ZMQ_SNDTIMEO \<equiv> 28"
abbreviation (input) ZMQ_ROUTER_MANDATORY :: i32 where "ZMQ_ROUTER_MANDATORY \<equiv> 33"
abbreviation (input) ZMQ_TCP_KEEPALIVE :: i32 where "ZMQ_TCP_KEEPALIVE \<equiv> 34"
abbreviation (input) ZMQ_TCP_KEEPALIVE_CNT :: i32 where "ZMQ_TCP_KEEPALIVE_CNT \<equiv> 35"
abbreviation (input) ZMQ_TCP_KEEPALIVE_IDLE :: i32 where "ZMQ_TCP_KEEPALIVE_IDLE \<equiv> 36"
abbreviation (input) ZMQ_TCP_KEEPALIVE_INTVL :: i32 where "ZMQ_TCP_KEEPALIVE_INTVL \<equiv> 37"
abbreviation (input) ZMQ_IMMEDIATE :: i32 where "ZMQ_IMMEDIATE \<equiv> 39"
abbreviation (input) ZMQ_XPUB_VERBOSE :: i32 where "ZMQ_XPUB_VERBOSE \<equiv> 40"
abbreviation (input) ZMQ_ROUTER_RAW :: i32 where "ZMQ_ROUTER_RAW \<equiv> 41"
abbreviation (input) ZMQ_IPV6 :: i32 where "ZMQ_IPV6 \<equiv> 42"
abbreviation (input) ZMQ_MECHANISM :: i32 where "ZMQ_MECHANISM \<equiv> 43"
abbreviation (input) ZMQ_PLAIN_SERVER :: i32 where "ZMQ_PLAIN_SERVER \<equiv> 44"
abbreviation (input) ZMQ_PLAIN_USERNAME :: i32 where "ZMQ_PLAIN_USERNAME \<equiv> 45"
abbreviation (input) ZMQ_PLAIN_PASSWORD :: i32 where "ZMQ_PLAIN_PASSWORD \<equiv> 46"
abbreviation (input) ZMQ_CURVE_SERVER :: i32 where "ZMQ_CURVE_SERVER \<equiv> 47"
abbreviation (input) ZMQ_CURVE_PUBLICKEY :: i32 where "ZMQ_CURVE_PUBLICKEY \<equiv> 48"
abbreviation (input) ZMQ_CURVE_SECRETKEY :: i32 where "ZMQ_CURVE_SECRETKEY \<equiv> 49"
abbreviation (input) ZMQ_CURVE_SERVERKEY :: i32 where "ZMQ_CURVE_SERVERKEY \<equiv> 50"
abbreviation (input) ZMQ_PROBE_ROUTER :: i32 where "ZMQ_PROBE_ROUTER \<equiv> 51"
abbreviation (input) ZMQ_REQ_CORRELATE :: i32 where "ZMQ_REQ_CORRELATE \<equiv> 52"
abbreviation (input) ZMQ_REQ_RELAXED :: i32 where "ZMQ_REQ_RELAXED \<equiv> 53"
abbreviation (input) ZMQ_CONFLATE :: i32 where "ZMQ_CONFLATE \<equiv> 54"
abbreviation (input) ZMQ_ZAP_DOMAIN :: i32 where "ZMQ_ZAP_DOMAIN \<equiv> 55"
abbreviation (input) ZMQ_ROUTER_HANDOVER :: i32 where "ZMQ_ROUTER_HANDOVER \<equiv> 56"
abbreviation (input) ZMQ_TOS :: i32 where "ZMQ_TOS \<equiv> 57"
abbreviation (input) ZMQ_CONNECT_ROUTING_ID :: i32 where "ZMQ_CONNECT_ROUTING_ID \<equiv> 61"
abbreviation (input) ZMQ_GSSAPI_SERVER :: i32 where "ZMQ_GSSAPI_SERVER \<equiv> 62"
abbreviation (input) ZMQ_GSSAPI_PRINCIPAL :: i32 where "ZMQ_GSSAPI_PRINCIPAL \<equiv> 63"
abbreviation (input) ZMQ_GSSAPI_SERVICE_PRINCIPAL :: i32 where "ZMQ_GSSAPI_SERVICE_PRINCIPAL \<equiv> 64"
abbreviation (input) ZMQ_GSSAPI_PLAINTEXT :: i32 where "ZMQ_GSSAPI_PLAINTEXT \<equiv> 65"
abbreviation (input) ZMQ_HANDSHAKE_IVL :: i32 where "ZMQ_HANDSHAKE_IVL \<equiv> 66"
abbreviation (input) ZMQ_SOCKS_PROXY :: i32 where "ZMQ_SOCKS_PROXY \<equiv> 68"
abbreviation (input) ZMQ_XPUB_NODROP :: i32 where "ZMQ_XPUB_NODROP \<equiv> 69"
abbreviation (input) ZMQ_BLOCKY :: i32 where "ZMQ_BLOCKY \<equiv> 70"
abbreviation (input) ZMQ_XPUB_MANUAL :: i32 where "ZMQ_XPUB_MANUAL \<equiv> 71"
abbreviation (input) ZMQ_XPUB_WELCOME_MSG :: i32 where "ZMQ_XPUB_WELCOME_MSG \<equiv> 72"
abbreviation (input) ZMQ_STREAM_NOTIFY :: i32 where "ZMQ_STREAM_NOTIFY \<equiv> 73"
abbreviation (input) ZMQ_INVERT_MATCHING :: i32 where "ZMQ_INVERT_MATCHING \<equiv> 74"
abbreviation (input) ZMQ_HEARTBEAT_IVL :: i32 where "ZMQ_HEARTBEAT_IVL \<equiv> 75"
abbreviation (input) ZMQ_HEARTBEAT_TTL :: i32 where "ZMQ_HEARTBEAT_TTL \<equiv> 76"
abbreviation (input) ZMQ_HEARTBEAT_TIMEOUT :: i32 where "ZMQ_HEARTBEAT_TIMEOUT \<equiv> 77"
abbreviation (input) ZMQ_XPUB_VERBOSER :: i32 where "ZMQ_XPUB_VERBOSER \<equiv> 78"
abbreviation (input) ZMQ_CONNECT_TIMEOUT :: i32 where "ZMQ_CONNECT_TIMEOUT \<equiv> 79"
abbreviation (input) ZMQ_TCP_MAXRT :: i32 where "ZMQ_TCP_MAXRT \<equiv> 80"
abbreviation (input) ZMQ_THREAD_SAFE :: i32 where "ZMQ_THREAD_SAFE \<equiv> 81"
abbreviation (input) ZMQ_MULTICAST_MAXTPDU :: i32 where "ZMQ_MULTICAST_MAXTPDU \<equiv> 84"
abbreviation (input) ZMQ_USE_FD :: i32 where "ZMQ_USE_FD \<equiv> 89"
abbreviation (input) ZMQ_GSSAPI_PRINCIPAL_NAMETYPE :: i32 where "ZMQ_GSSAPI_PRINCIPAL_NAMETYPE \<equiv> 90"
abbreviation (input) ZMQ_GSSAPI_SERVICE_PRINCIPAL_NAMETYPE :: i32 where "ZMQ_GSSAPI_SERVICE_PRINCIPAL_NAMETYPE \<equiv> 91"
abbreviation (input) ZMQ_BINDTODEVICE :: i32 where "ZMQ_BINDTODEVICE \<equiv> 92"
abbreviation (input) ZMQ_ZAP_ENFORCE_DOMAIN :: i32 where "ZMQ_ZAP_ENFORCE_DOMAIN \<equiv> 93"
abbreviation (input) ZMQ_LOOPBACK_FASTPATH :: i32 where "ZMQ_LOOPBACK_FASTPATH \<equiv> 94"
abbreviation (input) ZMQ_MULTICAST_LOOP :: i32 where "ZMQ_MULTICAST_LOOP \<equiv> 96"
abbreviation (input) ZMQ_XPUB_MANUAL_LAST_VALUE :: i32 where "ZMQ_XPUB_MANUAL_LAST_VALUE \<equiv> 98"
abbreviation (input) ZMQ_SOCKS_USERNAME :: i32 where "ZMQ_SOCKS_USERNAME \<equiv> 99"
abbreviation (input) ZMQ_SOCKS_PASSWORD :: i32 where "ZMQ_SOCKS_PASSWORD \<equiv> 100"
abbreviation (input) ZMQ_IN_BATCH_SIZE :: i32 where "ZMQ_IN_BATCH_SIZE \<equiv> 101"
abbreviation (input) ZMQ_OUT_BATCH_SIZE :: i32 where "ZMQ_OUT_BATCH_SIZE \<equiv> 102"
abbreviation (input) ZMQ_ONLY_FIRST_SUBSCRIBE :: i32 where "ZMQ_ONLY_FIRST_SUBSCRIBE \<equiv> 108"
abbreviation (input) ZMQ_RECONNECT_STOP :: i32 where "ZMQ_RECONNECT_STOP \<equiv> 109"
abbreviation (input) ZMQ_HELLO_MSG :: i32 where "ZMQ_HELLO_MSG \<equiv> 110"
abbreviation (input) ZMQ_DISCONNECT_MSG :: i32 where "ZMQ_DISCONNECT_MSG \<equiv> 111"
abbreviation (input) ZMQ_PRIORITY :: i32 where "ZMQ_PRIORITY \<equiv> 112"
abbreviation (input) ZMQ_BUSY_POLL :: i32 where "ZMQ_BUSY_POLL \<equiv> 113"
abbreviation (input) ZMQ_HICCUP_MSG :: i32 where "ZMQ_HICCUP_MSG \<equiv> 114"
abbreviation (input) ZMQ_XSUB_VERBOSE_UNSUBSCRIBE :: i32 where "ZMQ_XSUB_VERBOSE_UNSUBSCRIBE \<equiv> 115"
abbreviation (input) ZMQ_TOPICS_COUNT :: i32 where "ZMQ_TOPICS_COUNT \<equiv> 116"
abbreviation (input) ZMQ_NORM_MODE :: i32 where "ZMQ_NORM_MODE \<equiv> 117"
abbreviation (input) ZMQ_NORM_UNICAST_NACK :: i32 where "ZMQ_NORM_UNICAST_NACK \<equiv> 118"
abbreviation (input) ZMQ_NORM_BUFFER_SIZE :: i32 where "ZMQ_NORM_BUFFER_SIZE \<equiv> 119"
abbreviation (input) ZMQ_NORM_SEGMENT_SIZE :: i32 where "ZMQ_NORM_SEGMENT_SIZE \<equiv> 120"
abbreviation (input) ZMQ_NORM_BLOCK_SIZE :: i32 where "ZMQ_NORM_BLOCK_SIZE \<equiv> 121"
abbreviation (input) ZMQ_NORM_NUM_PARITY :: i32 where "ZMQ_NORM_NUM_PARITY \<equiv> 122"
abbreviation (input) ZMQ_NORM_NUM_AUTOPARITY :: i32 where "ZMQ_NORM_NUM_AUTOPARITY \<equiv> 123"
abbreviation (input) ZMQ_NORM_PUSH :: i32 where "ZMQ_NORM_PUSH \<equiv> 124"

abbreviation (input) ZMQ_NORM_FIXED :: i32 where "ZMQ_NORM_FIXED \<equiv> 0"
abbreviation (input) ZMQ_NORM_CC :: i32 where "ZMQ_NORM_CC \<equiv> 1"
abbreviation (input) ZMQ_NORM_CCL :: i32 where "ZMQ_NORM_CCL \<equiv> 2"
abbreviation (input) ZMQ_NORM_CCE :: i32 where "ZMQ_NORM_CCE \<equiv> 3"
abbreviation (input) ZMQ_NORM_CCE_ECNONLY :: i32 where "ZMQ_NORM_CCE_ECNONLY \<equiv> 4"

abbreviation (input) ZMQ_NULL :: i32 where "ZMQ_NULL \<equiv> 0"
abbreviation (input) ZMQ_PLAIN :: i32 where "ZMQ_PLAIN \<equiv> 1"
abbreviation (input) ZMQ_CURVE :: i32 where "ZMQ_CURVE \<equiv> 2"
abbreviation (input) ZMQ_GSSAPI :: i32 where "ZMQ_GSSAPI \<equiv> 3"

abbreviation (input) ZMQ_GSSAPI_NT_HOSTBASED :: i32 where "ZMQ_GSSAPI_NT_HOSTBASED \<equiv> 0"
abbreviation (input) ZMQ_GSSAPI_NT_USER_NAME :: i32 where "ZMQ_GSSAPI_NT_USER_NAME \<equiv> 1"
abbreviation (input) ZMQ_GSSAPI_NT_KRB5_PRINCIPAL :: i32 where "ZMQ_GSSAPI_NT_KRB5_PRINCIPAL \<equiv> 2"

abbreviation (input) ZMQ_POLLIN :: i32 where "ZMQ_POLLIN \<equiv> 1"
abbreviation (input) ZMQ_POLLOUT :: i32 where "ZMQ_POLLOUT \<equiv> 2"
abbreviation (input) ZMQ_POLLERR :: i32 where "ZMQ_POLLERR \<equiv> 4"
abbreviation (input) ZMQ_POLLPRI :: i32 where "ZMQ_POLLPRI \<equiv> 8"

abbreviation (input) ZMQ_EVENT_CONNECTED :: i32 where "ZMQ_EVENT_CONNECTED \<equiv> 0x0001"
abbreviation (input) ZMQ_EVENT_LISTENING :: i32 where "ZMQ_EVENT_LISTENING \<equiv> 0x0008"
abbreviation (input) ZMQ_EVENT_CLOSED :: i32 where "ZMQ_EVENT_CLOSED \<equiv> 0x0080"
abbreviation (input) ZMQ_EVENT_DISCONNECTED :: i32 where "ZMQ_EVENT_DISCONNECTED \<equiv> 0x0200"
abbreviation (input) ZMQ_EVENT_ALL :: i32 where "ZMQ_EVENT_ALL \<equiv> 0xFFFF"
abbreviation (input) ZMQ_EVENT_PIPES_STATS :: i32 where "ZMQ_EVENT_PIPES_STATS \<equiv> 0x10000"

end
