(* ===== verification/Errors.thy ===== *)
theory Errors
  imports Constants
begin

text \<open>
  \<open>crates/libzmq-core/src/error.rs\<close>: the error enum every fallible operation returns and the
  errno the C interface reports for it. A Rust \<open>Result<T>\<close> of this crate is \<open>error + 'a\<close>.
\<close>

datatype error =
  InvalidArgument
| InvalidContext
| InvalidSocket
| NotSupported
| ProtocolNotSupported
| Terminated
| Again
| InvalidState
| HostUnreachable
| OutOfMemory
| NotImplemented string

type_synonym 'a result = "error + 'a"

fun errno :: "error \<Rightarrow> i32" where
  "errno InvalidArgument = EINVAL"
| "errno InvalidContext = EFAULT"
| "errno InvalidSocket = ENOTSOCK"
| "errno NotSupported = ENOTSUP"
| "errno (NotImplemented _) = ENOTSUP"
| "errno ProtocolNotSupported = EPROTONOSUPPORT"
| "errno Terminated = ETERM"
| "errno Again = EAGAIN"
| "errno InvalidState = EFSM"
| "errno HostUnreachable = EHOSTUNREACH"
| "errno OutOfMemory = ENOMEM"

text \<open>What the C interface can tell apart: only the unsupported and unimplemented cases collapse.\<close>

lemma errno_eq_iff:
  "errno e = errno e' \<longleftrightarrow>
     e = e' \<or> {e, e'} \<subseteq> {NotSupported} \<union> range NotImplemented"
  by (cases e; cases e') auto

lemma errno_pos: "0 < errno e"
  by (cases e) auto

end
