(* ===== verification/Pipe.thy ===== *)
theory Pipe
  imports Errors
begin

text \<open>
  \<open>crates/libzmq-core/src/pipe.rs\<close>: the unbounded queue \<open>YQueue\<close>, the bounded pipe \<open>YPipe\<close>
  with its high-water mark, conflation and termination, and the command \<open>Mailbox\<close>.
  A locale states the FIFO contract both queues promise; the pipe's runs are a step relation.
\<close>

datatype 'a pipe_frame = Item 'a | Delimiter

record 'a yqueue =
  yq_items :: "'a list"

definition yqueue_new :: "'a yqueue" where
  "yqueue_new = \<lparr>yq_items = []\<rparr>"

definition yqueue_push_back :: "'a \<Rightarrow> 'a yqueue \<Rightarrow> 'a yqueue" where
  "yqueue_push_back x q = q\<lparr>yq_items := yq_items q @ [x]\<rparr>"

definition yqueue_pop_front :: "'a yqueue \<Rightarrow> 'a option \<times> 'a yqueue" where
  "yqueue_pop_front q =
     (case yq_items q of [] \<Rightarrow> (None, q) | x # xs \<Rightarrow> (Some x, q\<lparr>yq_items := xs\<rparr>))"

definition yqueue_clear :: "'a yqueue \<Rightarrow> 'a yqueue" where
  "yqueue_clear q = q\<lparr>yq_items := []\<rparr>"

definition yqueue_len :: "'a yqueue \<Rightarrow> nat" where
  "yqueue_len q = length (yq_items q)"

definition yqueue_is_empty :: "'a yqueue \<Rightarrow> bool" where
  "yqueue_is_empty q = (yq_items q = [])"

record 'a ypipe =
  yp_queue :: "'a yqueue"
  yp_hwm :: nat
  yp_conflate :: bool
  yp_terminated :: bool

definition ypipe_new :: "nat \<Rightarrow> 'a ypipe" where
  "ypipe_new hwm = \<lparr>yp_queue = yqueue_new, yp_hwm = hwm, yp_conflate = False,
     yp_terminated = False\<rparr>"

definition set_conflate :: "bool \<Rightarrow> 'a ypipe \<Rightarrow> 'a ypipe" where
  "set_conflate b p = p\<lparr>yp_conflate := b\<rparr>"

definition ypipe_write :: "'a \<Rightarrow> 'a ypipe \<Rightarrow> unit result \<times> 'a ypipe" where
  "ypipe_write x p =
     (if yp_terminated p then (Inl InvalidSocket, p)
      else if yp_conflate p then
        (Inr (), p\<lparr>yp_queue := yqueue_push_back x (yqueue_clear (yp_queue p))\<rparr>)
      else if yp_hwm p > 0 \<and> yqueue_len (yp_queue p) \<ge> yp_hwm p then (Inl Again, p)
      else (Inr (), p\<lparr>yp_queue := yqueue_push_back x (yp_queue p)\<rparr>))"

definition ypipe_read :: "'a ypipe \<Rightarrow> 'a option \<times> 'a ypipe" where
  "ypipe_read p =
     (case yqueue_pop_front (yp_queue p) of (r, q) \<Rightarrow> (r, p\<lparr>yp_queue := q\<rparr>))"

definition ypipe_terminate :: "'a ypipe \<Rightarrow> 'a ypipe" where
  "ypipe_terminate p = p\<lparr>yp_terminated := True, yp_queue := yqueue_clear (yp_queue p)\<rparr>"

definition ypipe_len :: "'a ypipe \<Rightarrow> nat" where
  "ypipe_len p = yqueue_len (yp_queue p)"

definition write_item :: "'a \<Rightarrow> 'a pipe_frame ypipe \<Rightarrow> unit result \<times> 'a pipe_frame ypipe" where
  "write_item x p = ypipe_write (Item x) p"

definition write_delimiter :: "'a pipe_frame ypipe \<Rightarrow> unit result \<times> 'a pipe_frame ypipe" where
  "write_delimiter p =
     (if yp_terminated p then (Inl InvalidSocket, p)
      else (Inr (), p\<lparr>yp_queue := yqueue_push_back Delimiter (yp_queue p), yp_terminated := True\<rparr>))"

record 'a mailbox =
  mb_commands :: "'a list"

definition mailbox_new :: "'a mailbox" where
  "mailbox_new = \<lparr>mb_commands = []\<rparr>"

definition mailbox_send :: "'a \<Rightarrow> 'a mailbox \<Rightarrow> 'a mailbox" where
  "mailbox_send c m = m\<lparr>mb_commands := mb_commands m @ [c]\<rparr>"

definition mailbox_recv :: "'a mailbox \<Rightarrow> 'a option \<times> 'a mailbox" where
  "mailbox_recv m =
     (case mb_commands m of [] \<Rightarrow> (None, m) | x # xs \<Rightarrow> (Some x, m\<lparr>mb_commands := xs\<rparr>))"

definition mailbox_len :: "'a mailbox \<Rightarrow> nat" where
  "mailbox_len m = length (mb_commands m)"


section \<open>The FIFO contract\<close>

text \<open>What a client of an unbounded queue may rely on, over the list of queued elements.\<close>

locale fifo_queue =
  fixes new_q :: 'q
    and enq :: "'a \<Rightarrow> 'q \<Rightarrow> 'q"
    and deq :: "'q \<Rightarrow> 'a option \<times> 'q"
    and items :: "'q \<Rightarrow> 'a list"
  assumes items_new: "items new_q = []"
    and items_enq: "items (enq x q) = items q @ [x]"
    and deq_empty: "items q = [] \<Longrightarrow> deq q = (None, q)"
    and deq_cons: "items q = x # xs \<Longrightarrow> fst (deq q) = Some x \<and> items (snd (deq q)) = xs"
begin

fun enq_all :: "'a list \<Rightarrow> 'q \<Rightarrow> 'q" where
  "enq_all [] q = q"
| "enq_all (x # xs) q = enq_all xs (enq x q)"

fun deq_n :: "nat \<Rightarrow> 'q \<Rightarrow> 'a option list \<times> 'q" where
  "deq_n 0 q = ([], q)"
| "deq_n (Suc n) q = (case deq q of (r, q') \<Rightarrow> case deq_n n q' of (rs, q'') \<Rightarrow> (r # rs, q''))"

lemma items_enq_all: "items (enq_all xs q) = items q @ xs"
  by (induction xs arbitrary: q) (auto simp: items_enq)

lemma deq_n_prefix:
  "n \<le> length (items q) \<Longrightarrow>
     fst (deq_n n q) = map Some (take n (items q)) \<and> items (snd (deq_n n q)) = drop n (items q)"
proof (induction n arbitrary: q)
  case 0
  then show ?case by simp
next
  case (Suc n)
  then obtain x xs where q: "items q = x # xs" by (cases "items q") auto
  from deq_cons [OF q] obtain q' where q': "deq q = (Some x, q')" "items q' = xs"
    by (cases "deq q") auto
  with Suc.IH [of q'] Suc.prems q show ?case
    by (auto split: prod.split)
qed

text \<open>Everything sent into a new queue comes out in the order it was sent.\<close>

lemma enq_all_deq_all:
  "fst (deq_n (length xs) (enq_all xs new_q)) = map Some xs
     \<and> items (snd (deq_n (length xs) (enq_all xs new_q))) = []"
  using deq_n_prefix [of "length xs" "enq_all xs new_q"] by (simp add: items_enq_all items_new)

end

interpretation yqueue: fifo_queue yqueue_new yqueue_push_back yqueue_pop_front yq_items
  by unfold_locales
    (auto simp: yqueue_new_def yqueue_push_back_def yqueue_pop_front_def)

interpretation mailbox: fifo_queue mailbox_new mailbox_send mailbox_recv mb_commands
  by unfold_locales
    (auto simp: mailbox_new_def mailbox_send_def mailbox_recv_def)


section \<open>Runs of a pipe\<close>

text \<open>The operations a pipe's owner may call, and one step of the pipe under one of them.\<close>

datatype 'a pipe_op = Write 'a | WriteDelimiter | Read | Terminate | SetConflate bool

abbreviation pipe_items :: "'a ypipe \<Rightarrow> 'a list" where
  "pipe_items p \<equiv> yq_items (yp_queue p)"

fun pipe_step :: "'a pipe_op \<Rightarrow> 'a pipe_frame ypipe \<Rightarrow> 'a pipe_frame ypipe" where
  "pipe_step (Write x) p = snd (write_item x p)"
| "pipe_step WriteDelimiter p = snd (write_delimiter p)"
| "pipe_step Read p = snd (ypipe_read p)"
| "pipe_step Terminate p = ypipe_terminate p"
| "pipe_step (SetConflate b) p = set_conflate b p"

inductive pipe_reachable :: "nat \<Rightarrow> 'a pipe_frame ypipe \<Rightarrow> bool" for hwm where
  pipe_start: "pipe_reachable hwm (ypipe_new hwm)"
| pipe_next: "pipe_reachable hwm p \<Longrightarrow> pipe_reachable hwm (pipe_step oper p)"

lemmas pipe_defs = ypipe_new_def set_conflate_def ypipe_write_def ypipe_read_def
  ypipe_terminate_def write_item_def write_delimiter_def yqueue_new_def yqueue_push_back_def
  yqueue_pop_front_def yqueue_clear_def yqueue_len_def ypipe_len_def

text \<open>The bound the high-water mark gives, with room for the one delimiter that ends a pipe.\<close>

definition pipe_inv :: "nat \<Rightarrow> 'a pipe_frame ypipe \<Rightarrow> bool" where
  "pipe_inv hwm p \<longleftrightarrow> yp_hwm p = hwm
     \<and> (hwm > 0 \<longrightarrow> ypipe_len p \<le> hwm + (if yp_terminated p then 1 else 0))
     \<and> (\<not> yp_terminated p \<longrightarrow> Delimiter \<notin> set (pipe_items p))
     \<and> count_list (pipe_items p) Delimiter \<le> 1
     \<and> (Delimiter \<in> set (pipe_items p) \<longrightarrow> last (pipe_items p) = Delimiter)"

lemma pipe_inv_new: "pipe_inv hwm (ypipe_new hwm)"
  by (simp add: pipe_inv_def pipe_defs)

lemma pipe_inv_write: "pipe_inv hwm p \<Longrightarrow> pipe_inv hwm (snd (write_item x p))"
  by (auto simp: pipe_inv_def pipe_defs)

lemma pipe_inv_delimiter: "pipe_inv hwm p \<Longrightarrow> pipe_inv hwm (snd (write_delimiter p))"
  by (auto simp: pipe_inv_def pipe_defs count_list_0_iff)

lemma pipe_inv_read: "pipe_inv hwm p \<Longrightarrow> pipe_inv hwm (snd (ypipe_read p))"
  by (cases "pipe_items p") (auto simp: pipe_inv_def pipe_defs split: if_splits)

lemma pipe_inv_step: "pipe_inv hwm p \<Longrightarrow> pipe_inv hwm (pipe_step oper p)"
  by (cases oper)
    (simp_all add: pipe_inv_write pipe_inv_delimiter pipe_inv_read,
      simp_all add: pipe_inv_def pipe_defs)

lemma pipe_reachable_inv: "pipe_reachable hwm p \<Longrightarrow> pipe_inv hwm p"
  by (induction rule: pipe_reachable.induct) (auto intro: pipe_inv_new pipe_inv_step)

text \<open>Once terminated a pipe stays terminated, so every later write is refused.\<close>

lemma pipe_step_terminated: "yp_terminated p \<Longrightarrow> yp_terminated (pipe_step oper p)"
  by (cases oper) (auto simp: pipe_defs split: prod.splits list.splits)

lemma fold_pipe_step_terminated:
  "yp_terminated p \<Longrightarrow> yp_terminated (fold pipe_step ops p)"
  by (induction ops arbitrary: p) (auto intro: pipe_step_terminated)


text \<open>A run that records what the writer got accepted and what the reader took out.\<close>

fun accepted_by :: "'a pipe_op \<Rightarrow> 'a pipe_frame ypipe \<Rightarrow> 'a pipe_frame list" where
  "accepted_by (Write x) p = (case fst (write_item x p) of Inr _ \<Rightarrow> [Item x] | Inl _ \<Rightarrow> [])"
| "accepted_by WriteDelimiter p = (case fst (write_delimiter p) of Inr _ \<Rightarrow> [Delimiter] | Inl _ \<Rightarrow> [])"
| "accepted_by _ p = []"

fun received_by :: "'a pipe_op \<Rightarrow> 'a pipe_frame ypipe \<Rightarrow> 'a pipe_frame list" where
  "received_by Read p = (case fst (ypipe_read p) of Some x \<Rightarrow> [x] | None \<Rightarrow> [])"
| "received_by _ p = []"

fun pipe_history ::
  "'a pipe_op list \<Rightarrow> 'a pipe_frame ypipe \<Rightarrow> 'a pipe_frame list \<times> 'a pipe_frame list \<times> 'a pipe_frame ypipe" where
  "pipe_history [] p = ([], [], p)"
| "pipe_history (oper # ops) p =
     (case pipe_history ops (pipe_step oper p) of (ws, rs, p') \<Rightarrow>
        (accepted_by oper p @ ws, received_by oper p @ rs, p'))"

fun keeps_items :: "'a pipe_op \<Rightarrow> bool" where
  "keeps_items Terminate = False"
| "keeps_items (SetConflate b) = (\<not> b)"
| "keeps_items _ = True"

lemma pipe_step_not_conflate:
  "\<not> yp_conflate p \<Longrightarrow> keeps_items oper \<Longrightarrow> \<not> yp_conflate (pipe_step oper p)"
  by (cases oper) (auto simp: pipe_defs split: list.splits)

lemma pipe_step_items:
  "\<not> yp_conflate p \<Longrightarrow> keeps_items oper \<Longrightarrow>
     pipe_items p @ accepted_by oper p = received_by oper p @ pipe_items (pipe_step oper p)"
  by (cases oper; cases "pipe_items p") (auto simp: pipe_defs)

lemma pipe_history_fifo:
  assumes "\<not> yp_conflate p" and "list_all keeps_items ops"
  shows "case pipe_history ops p of (ws, rs, p') \<Rightarrow> pipe_items p @ ws = rs @ pipe_items p'"
  using assms
proof (induction ops arbitrary: p)
  case Nil
  then show ?case by simp
next
  case (Cons oper ops)
  then have "case pipe_history ops (pipe_step oper p) of (ws, rs, p') \<Rightarrow>
      pipe_items (pipe_step oper p) @ ws = rs @ pipe_items p'"
    using pipe_step_not_conflate [of p oper] by simp
  with Cons.prems pipe_step_items [of p oper] show ?case
    by (auto split: prod.splits) (metis append.assoc)
qed


section \<open>Properties\<close>

text \<open>In every state a pipe can reach from \<open>YPipe::new(hwm)\<close> by any sequence of writes, delimiter
  writes, reads, conflation switches and terminations, a non-zero high-water mark bounds the
  number of queued frames; only the delimiter that ends the pipe may exceed it by one.\<close>

theorem ypipe_hwm_bound:
  "pipe_reachable hwm p \<Longrightarrow> 0 < hwm \<Longrightarrow> ypipe_len p \<le> hwm + (if yp_terminated p then 1 else 0)"
  using pipe_reachable_inv [of hwm p] by (simp add: pipe_inv_def)

theorem ypipe_hwm_bound_witness:
  "ypipe_len (pipe_step WriteDelimiter (pipe_step (Write True) (pipe_step (Write False) (ypipe_new 1)))) \<le> 1 + 1"
proof -
  let ?p = "pipe_step WriteDelimiter (pipe_step (Write True) (pipe_step (Write False) (ypipe_new 1)))"
  have "pipe_reachable 1 ?p"
    by (intro pipe_next pipe_start)
  from ypipe_hwm_bound [OF this] show ?thesis
    by (simp split: if_splits)
qed

text \<open>A pipe that neither conflates nor is terminated loses, duplicates and reorders nothing: over
  any run from a new pipe, the frames accepted from the writer are exactly the frames handed to
  the reader followed by the frames still queued.\<close>

theorem ypipe_fifo:
  assumes "list_all keeps_items ops"
    and "pipe_history ops (ypipe_new hwm) = (accepted, received, p)"
  shows "accepted = received @ pipe_items p"
proof -
  have "\<not> yp_conflate (ypipe_new hwm :: 'a pipe_frame ypipe)" "pipe_items (ypipe_new hwm :: 'a pipe_frame ypipe) = []"
    by (simp_all add: pipe_defs)
  with pipe_history_fifo [OF _ assms(1), of "ypipe_new hwm"] assms(2) show ?thesis
    by simp
qed

theorem ypipe_fifo_witness:
  "[Item 1, Item 2, Delimiter] =
     [Item (1::nat)] @ pipe_items (snd (snd (pipe_history
       [Write 1, Write 2, Write 3, Read, WriteDelimiter, Write 4] (ypipe_new 2))))"
proof -
  let ?ops = "[Write 1, Write 2, Write (3::nat), Read, WriteDelimiter, Write 4]"
  have h: "pipe_history ?ops (ypipe_new 2) =
      ([Item 1, Item 2, Delimiter], [Item 1], snd (snd (pipe_history ?ops (ypipe_new 2))))"
    by (simp add: pipe_defs)
  show ?thesis
    by (rule ypipe_fifo [OF _ h]) simp
qed

text \<open>Termination is final: once \<open>terminate\<close> has run, whatever the owner does afterwards, every write
  of an item or a delimiter is refused with \<open>InvalidSocket\<close> and changes nothing.\<close>

theorem ypipe_terminated_refuses:
  "write_item x (fold pipe_step ops (ypipe_terminate p)) =
     (Inl InvalidSocket, fold pipe_step ops (ypipe_terminate p))
   \<and> write_delimiter (fold pipe_step ops (ypipe_terminate p)) =
     (Inl InvalidSocket, fold pipe_step ops (ypipe_terminate p))"
proof -
  have "yp_terminated (ypipe_terminate p)"
    by (simp add: ypipe_terminate_def)
  then have "yp_terminated (fold pipe_step ops (ypipe_terminate p))"
    by (rule fold_pipe_step_terminated)
  then show ?thesis
    by (simp add: write_item_def write_delimiter_def ypipe_write_def)
qed

text \<open>Commands leave a mailbox in the order they were sent, and the mailbox is then empty.\<close>

theorem mailbox_in_order:
  "fst (mailbox.deq_n (length cs) (fold mailbox_send cs mailbox_new)) = map Some cs
   \<and> mailbox_recv (snd (mailbox.deq_n (length cs) (fold mailbox_send cs mailbox_new))) =
       (None, snd (mailbox.deq_n (length cs) (fold mailbox_send cs mailbox_new)))"
proof -
  have "mailbox.enq_all cs m = fold mailbox_send cs m" for m
    by (induction cs arbitrary: m) simp_all
  then show ?thesis
    using mailbox.enq_all_deq_all [of cs] mailbox.deq_empty by metis
qed

end
