(* ===== verification/Rust_Std.thy ===== *)
theory Rust_Std
  imports Prelude
begin

text \<open>
  The parts of Rust's standard library the sources call on strings: UTF-8 validation
  (\<open>std::str::from_utf8\<close>), prefix and separator splitting, decimal printing (\<open>to_string\<close>,
  \<open>format!\<close>) and parsing (\<open>str::parse\<close> of unsigned integers), and the address parser behind
  \<open>SocketAddr::from_str\<close> and \<open>IpAddr\<close>'s \<open>parse\<close>. Nothing here is code of the repository;
  the lemmas are the laws its theories use.
\<close>

section \<open>UTF-8\<close>

abbreviation utf8_cont :: "byte \<Rightarrow> bool" where
  "utf8_cont b \<equiv> 0x80 \<le> b \<and> b \<le> 0xBF"

text \<open>The well-formed byte sequences of the Unicode standard, which \<open>from_utf8\<close> accepts.\<close>

fun utf8_valid :: "bytes \<Rightarrow> bool" where
  "utf8_valid [] = True"
| "utf8_valid (b # bs) =
     (if b < 0x80 then utf8_valid bs
      else if 0xC2 \<le> b \<and> b \<le> 0xDF then
        (case bs of c # r \<Rightarrow> utf8_cont c \<and> utf8_valid r | _ \<Rightarrow> False)
      else if 0xE0 \<le> b \<and> b \<le> 0xEF then
        (case bs of c # d # r \<Rightarrow>
           (if b = 0xE0 then 0xA0 \<le> c else 0x80 \<le> c) \<and> (if b = 0xED then c \<le> 0x9F else c \<le> 0xBF)
             \<and> utf8_cont d \<and> utf8_valid r
         | _ \<Rightarrow> False)
      else if 0xF0 \<le> b \<and> b \<le> 0xF4 then
        (case bs of c # d # e # r \<Rightarrow>
           (if b = 0xF0 then 0x90 \<le> c else 0x80 \<le> c) \<and> (if b = 0xF4 then c \<le> 0x8F else c \<le> 0xBF)
             \<and> utf8_cont d \<and> utf8_cont e \<and> utf8_valid r
         | _ \<Rightarrow> False)
      else False)"

lemma utf8_valid_ascii: "(\<And>b. b \<in> set bs \<Longrightarrow> b < 0x80) \<Longrightarrow> utf8_valid bs"
  by (induction bs) auto


section \<open>Prefixes and separators\<close>

definition starts_with :: "bytes \<Rightarrow> bytes \<Rightarrow> bool" where
  "starts_with p s \<longleftrightarrow> take (length p) s = p"

definition strip_prefix :: "bytes \<Rightarrow> bytes \<Rightarrow> bytes option" where
  "strip_prefix p s = (if starts_with p s then Some (drop (length p) s) else None)"

definition strip_suffix :: "bytes \<Rightarrow> bytes \<Rightarrow> bytes option" where
  "strip_suffix p s = map_option rev (strip_prefix (rev p) (rev s))"

fun split_once :: "byte \<Rightarrow> bytes \<Rightarrow> (bytes \<times> bytes) option" where
  "split_once c [] = None"
| "split_once c (b # bs) =
     (if b = c then Some ([], bs) else map_option (\<lambda>(x, y). (b # x, y)) (split_once c bs))"

definition rsplit_once :: "byte \<Rightarrow> bytes \<Rightarrow> (bytes \<times> bytes) option" where
  "rsplit_once c s = map_option (\<lambda>(x, y). (rev y, rev x)) (split_once c (rev s))"

lemma starts_with_prefix: "starts_with p s \<longleftrightarrow> prefix p s"
  by (metis append_eq_conv_conj append_take_drop_id prefixE prefixI starts_with_def)

lemma starts_with_append [simp]: "starts_with p (p @ s)"
  by (simp add: starts_with_def)

lemma strip_prefix_append [simp]: "strip_prefix p (p @ s) = Some s"
  by (simp add: strip_prefix_def)

lemma strip_prefix_Some: "strip_prefix p s = Some r \<longleftrightarrow> s = p @ r"
  by (auto simp: strip_prefix_def starts_with_def) (metis append_take_drop_id)

lemma strip_suffix_append [simp]: "strip_suffix p (s @ p) = Some s"
  by (simp add: strip_suffix_def)

lemma split_once_Some:
  "split_once c s = Some (x, y) \<longleftrightarrow> s = x @ c # y \<and> c \<notin> set x"
proof (induction s arbitrary: x)
  case Nil
  then show ?case by simp
next
  case (Cons b bs)
  then show ?case by (cases x) auto
qed

lemma split_once_None: "split_once c s = None \<longleftrightarrow> c \<notin> set s"
  by (induction s) auto

lemma rsplit_once_Some:
  "rsplit_once c s = Some (x, y) \<longleftrightarrow> s = x @ c # y \<and> c \<notin> set y"
proof
  assume "rsplit_once c s = Some (x, y)"
  then have "split_once c (rev s) = Some (rev y, rev x)"
    by (auto simp: rsplit_once_def)
  then have "rev s = rev y @ c # rev x" and "c \<notin> set y"
    by (simp_all add: split_once_Some)
  then show "s = x @ c # y \<and> c \<notin> set y"
    by (metis append.assoc append_Cons append_Nil rev.simps(2) rev_append rev_rev_ident)
next
  assume *: "s = x @ c # y \<and> c \<notin> set y"
  then have "split_once c (rev s) = Some (rev y, rev x)"
    by (simp add: split_once_Some)
  then show "rsplit_once c s = Some (x, y)"
    by (simp add: rsplit_once_def)
qed

lemma rsplit_once_None: "rsplit_once c s = None \<longleftrightarrow> c \<notin> set s"
  by (simp add: rsplit_once_def split_once_None)


section \<open>Decimal numbers\<close>

definition is_digit :: "byte \<Rightarrow> bool" where
  "is_digit b \<longleftrightarrow> 48 \<le> b \<and> b \<le> 57"

definition digit_value :: "byte \<Rightarrow> nat" where
  "digit_value b = unat b - 48"

definition digit :: "nat \<Rightarrow> byte" where
  "digit n = word_of_nat (48 + n)"

fun dec :: "nat \<Rightarrow> bytes" where
  "dec n = (if n < 10 then [digit n] else dec (n div 10) @ [digit (n mod 10)])"

declare dec.simps [simp del]

definition dec_int :: "int \<Rightarrow> bytes" where
  "dec_int v = (if v < 0 then 45 # dec (nat (- v)) else dec (nat v))"

definition dec_value :: "bytes \<Rightarrow> nat" where
  "dec_value ds = foldl (\<lambda>a d. a * 10 + digit_value d) 0 ds"

text \<open>\<open>parse::<uN>()\<close>: an optional \<open>+\<close>, then digits only, no overflow.\<close>

definition parse_uint :: "nat \<Rightarrow> bytes \<Rightarrow> nat option" where
  "parse_uint max_value s =
     (let ds = (case s of b # r \<Rightarrow> if b = 43 \<and> r \<noteq> [] then r else s | [] \<Rightarrow> s)
      in if ds = [] \<or> \<not> list_all is_digit ds \<or> dec_value ds > max_value then None
         else Some (dec_value ds))"

lemma unat_digit: "n < 10 \<Longrightarrow> unat (digit n) = 48 + n"
  unfolding digit_def unat_byte_of_nat by simp

lemma is_digit_unat: "is_digit b \<longleftrightarrow> 48 \<le> unat b \<and> unat b \<le> 57"
  by (simp add: is_digit_def word_le_nat_alt)

lemma is_digit_digit: "n < 10 \<Longrightarrow> is_digit (digit n)"
  by (simp add: is_digit_unat unat_digit)

lemma digit_value_digit: "n < 10 \<Longrightarrow> digit_value (digit n) = n"
  by (simp add: digit_value_def unat_digit)

lemma dec_value_snoc: "dec_value (ds @ [d]) = dec_value ds * 10 + digit_value d"
  by (simp add: dec_value_def)

lemma dec_digits: "list_all is_digit (dec n)"
proof (induction n rule: dec.induct)
  case (1 n)
  then show ?case
    by (subst dec.simps) (simp add: is_digit_digit)
qed

lemma dec_nonempty [simp]: "dec n \<noteq> []"
  by (subst dec.simps) simp

lemma dec_value_dec [simp]: "dec_value (dec n) = n"
proof (induction n rule: dec.induct)
  case (1 n)
  show ?case
  proof (cases "n < 10")
    case True
    then show ?thesis
      by (subst dec.simps) (simp add: dec_value_def digit_value_digit)
  next
    case False
    with "1.IH" show ?thesis
      by (subst dec.simps) (simp add: dec_value_snoc digit_value_digit)
  qed
qed

lemma dec_hd_digit: "is_digit (hd (dec n))"
  using dec_digits [of n] by (cases "dec n") auto

lemma dec_not_mem: "\<not> is_digit c \<Longrightarrow> c \<notin> set (dec n)"
  using dec_digits [of n] by (auto simp: list_all_iff)

lemma dec_no_sign: "dec n = b # r \<Longrightarrow> b \<noteq> 43 \<and> b \<noteq> 45"
  using dec_hd_digit [of n] by (auto simp: is_digit_def)

lemma parse_uint_dec: "n \<le> max_value \<Longrightarrow> parse_uint max_value (dec n) = Some n"
  using dec_digits [of n] dec_no_sign [of n] dec_value_dec [of n]
  by (cases "dec n") (auto simp: parse_uint_def Let_def)

lemma parse_uint_bound: "parse_uint max_value s = Some v \<Longrightarrow> v \<le> max_value"
  by (auto simp: parse_uint_def Let_def split: if_splits)


section \<open>Socket addresses\<close>

text \<open>
  The parser of \<open>core::net\<close>. \<open>read_number\<close> reads the longest run of digits; it fails on an
  empty run, on a run longer than \<open>max_digits\<close>, on a forbidden leading zero and on overflow.
\<close>

definition to_digit :: "nat \<Rightarrow> byte \<Rightarrow> nat option" where
  "to_digit radix b =
     (let n = unat b;
          v = (if 48 \<le> n \<and> n \<le> 57 then n - 48 else if 97 \<le> n \<and> n \<le> 122 then n - 87
               else if 65 \<le> n \<and> n \<le> 90 then n - 55 else radix)
      in if v < radix then Some v else None)"

definition read_number :: "nat \<Rightarrow> nat option \<Rightarrow> bool \<Rightarrow> nat \<Rightarrow> bytes \<Rightarrow> (nat \<times> bytes) option" where
  "read_number radix max_digits allow_zero_prefix bound s =
     (let ds = takeWhile (\<lambda>b. to_digit radix b \<noteq> None) s;
          v = foldl (\<lambda>a d. a * radix + the (to_digit radix d)) 0 ds
      in if ds = [] \<or> (case max_digits of None \<Rightarrow> False | Some m \<Rightarrow> m < length ds)
            \<or> (\<not> allow_zero_prefix \<and> hd ds = 48 \<and> 1 < length ds) \<or> bound < v then None
         else Some (v, drop (length ds) s))"

definition read_given_char :: "byte \<Rightarrow> bytes \<Rightarrow> bytes option" where
  "read_given_char c s = (case s of b # r \<Rightarrow> if b = c then Some r else None | [] \<Rightarrow> None)"

definition read_separator ::
  "byte \<Rightarrow> nat \<Rightarrow> (bytes \<Rightarrow> ('a \<times> bytes) option) \<Rightarrow> bytes \<Rightarrow> ('a \<times> bytes) option" where
  "read_separator sep i p s =
     (if i > 0 then Option.bind (read_given_char sep s) p else p s)"

definition read_octet :: "nat \<Rightarrow> bytes \<Rightarrow> (nat \<times> bytes) option" where
  "read_octet i = read_separator 46 i (read_number 10 (Some 3) False 255)"

definition read_ipv4_addr :: "bytes \<Rightarrow> (nat list \<times> bytes) option" where
  "read_ipv4_addr s =
     Option.bind (read_octet 0 s) (\<lambda>(a, s1).
     Option.bind (read_octet 1 s1) (\<lambda>(b, s2).
     Option.bind (read_octet 2 s2) (\<lambda>(c, s3).
     Option.bind (read_octet 3 s3) (\<lambda>(d, s4). Some ([a, b, c, d], s4)))))"

text \<open>\<open>read_groups\<close> with \<open>k = limit - i\<close> groups left: how many were read, and whether the
  last two came from an embedded IPv4 address.\<close>

fun read_groups :: "nat \<Rightarrow> nat \<Rightarrow> bytes \<Rightarrow> nat \<times> bool \<times> bytes" where
  "read_groups i 0 s = (i, False, s)"
| "read_groups i (Suc k) s =
     (case (if k > 0 then read_separator 58 i read_ipv4_addr s else None) of
        Some (_, r) \<Rightarrow> (i + 2, True, r)
      | None \<Rightarrow>
          (case read_separator 58 i (read_number 16 (Some 4) True 65535) s of
             Some (_, r) \<Rightarrow> read_groups (i + 1) k r
           | None \<Rightarrow> (i, False, s)))"

definition read_ipv6_addr :: "bytes \<Rightarrow> bytes option" where
  "read_ipv6_addr s =
     (case read_groups 0 8 s of (head_size, head_ipv4, r) \<Rightarrow>
        if head_size = 8 then Some r
        else if head_ipv4 then None
        else Option.bind (read_given_char 58 r) (\<lambda>r1.
             Option.bind (read_given_char 58 r1) (\<lambda>r2.
               (case read_groups 0 (8 - (head_size + 1)) r2 of (_, _, r3) \<Rightarrow> Some r3))))"

definition read_port :: "bytes \<Rightarrow> (nat \<times> bytes) option" where
  "read_port s = Option.bind (read_given_char 58 s) (read_number 10 None True 65535)"

definition read_scope_id :: "bytes \<Rightarrow> bytes" where
  "read_scope_id s =
     (case Option.bind (read_given_char 37 s) (read_number 10 None True 4294967295) of
        Some (_, r) \<Rightarrow> r | None \<Rightarrow> s)"

datatype socket_addr = V4 nat | V6 nat

definition read_socket_addr :: "bytes \<Rightarrow> (socket_addr \<times> bytes) option" where
  "read_socket_addr s =
     (case Option.bind (read_ipv4_addr s) (\<lambda>(_, r). read_port r) of
        Some (port, r) \<Rightarrow> Some (V4 port, r)
      | None \<Rightarrow>
          map_option (\<lambda>(port, r). (V6 port, r))
            (Option.bind (read_given_char 91 s) (\<lambda>r1.
             Option.bind (read_ipv6_addr r1) (\<lambda>r2.
             Option.bind (read_given_char 93 (read_scope_id r2)) read_port))))"

text \<open>The address \<open>SocketAddr::from_str\<close> returns; only its family and port are kept.\<close>

definition socket_addr_from_str :: "bytes \<Rightarrow> socket_addr option" where
  "socket_addr_from_str s =
     (case read_socket_addr s of Some (a, []) \<Rightarrow> Some a | _ \<Rightarrow> None)"

definition ipv4_from_ip_str :: "bytes \<Rightarrow> nat list option" where
  "ipv4_from_ip_str s = (case read_ipv4_addr s of Some (a, []) \<Rightarrow> Some a | _ \<Rightarrow> None)"

lemma read_number_bound: "read_number radix m z bound s = Some (v, r) \<Longrightarrow> v \<le> bound"
  by (auto simp: read_number_def Let_def split: if_splits)

lemma read_port_bound: "read_port s = Some (v, r) \<Longrightarrow> v \<le> 65535"
  by (auto simp: read_port_def bind_eq_Some_conv dest: read_number_bound)

lemma read_socket_addr_cases:
  assumes "read_socket_addr s = Some (a, r)"
  obtains (v4) x r1 p where "read_ipv4_addr s = Some (x, r1)" "read_port r1 = Some (p, r)" "a = V4 p"
  | (v6) r1 r2 p where "read_given_char 91 s = Some r1" "read_port r2 = Some (p, r)" "a = V6 p"
proof (cases "Option.bind (read_ipv4_addr s) (\<lambda>(_, r). read_port r)")
  case None
  with assms show ?thesis
    by (auto simp: read_socket_addr_def bind_eq_Some_conv intro: v6)
next
  case (Some y)
  then obtain x r1 where x: "read_ipv4_addr s = Some (x, r1)" and y: "read_port r1 = Some y"
    by (auto simp: bind_eq_Some_conv)
  obtain p r' where "y = (p, r')"
    by (cases y)
  with Some assms have "a = V4 p" and "y = (p, r)"
    by (simp_all add: read_socket_addr_def)
  with x y show ?thesis
    using v4 by blast
qed

lemma socket_addr_from_str_Some:
  "socket_addr_from_str s = Some a \<longleftrightarrow> read_socket_addr s = Some (a, [])"
  by (auto simp: socket_addr_from_str_def split: option.splits list.splits)

definition addr_port :: "socket_addr \<Rightarrow> nat" where
  "addr_port a = (case a of V4 p \<Rightarrow> p | V6 p \<Rightarrow> p)"

lemma socket_addr_port_bound: "socket_addr_from_str s = Some a \<Longrightarrow> addr_port a \<le> 65535"
  unfolding socket_addr_from_str_Some
  by (erule read_socket_addr_cases) (auto simp: addr_port_def dest: read_port_bound)

lemma read_number_start:
  assumes "read_number radix m z bound s = Some (v, r)"
  obtains b t where "s = b # t" and "to_digit radix b \<noteq> None"
  using assms by (cases s) (auto simp: read_number_def Let_def split: if_splits)

lemma read_ipv4_start: "read_ipv4_addr s = Some x \<Longrightarrow> \<exists>b t. s = b # t \<and> is_digit b"
  by (auto simp: read_ipv4_addr_def read_octet_def read_separator_def bind_eq_Some_conv
      to_digit_def Let_def is_digit_unat elim!: read_number_start split: if_splits)

text \<open>An address literal starts with a digit or an opening bracket, so any other text is a name.\<close>

lemma socket_addr_start:
  assumes "socket_addr_from_str s = Some a"
  shows "\<exists>b t. s = b # t \<and> (is_digit b \<or> b = 91)"
  using assms unfolding socket_addr_from_str_Some
  by (rule read_socket_addr_cases)
    (auto dest: read_ipv4_start simp: read_given_char_def split: list.splits if_splits)

end
