(* ===== verification/Message.thy ===== *)
theory Message
  imports Errors Rust_Std
begin

text \<open>
  \<open>crates/libzmq-core/src/message.rs\<close>: a message owns its payload, inline in a 32-byte buffer
  when it is short enough and on the heap otherwise, a \<open>more\<close> flag, a routing id, an optional
  group and an association list of metadata. The representation invariant \<open>message_wf\<close> says
  the inline buffer has its declared size and the metadata keys are distinct, non-empty and
  NUL-free; every operation keeps it.
\<close>

definition INLINE_CAPACITY :: nat where
  "INLINE_CAPACITY = 32"

datatype message_data = Inline byte bytes | Heap bytes

definition data_empty :: message_data where
  "data_empty = Inline 0 (replicate INLINE_CAPACITY 0)"

text \<open>A fresh zeroed buffer with the first bytes overwritten (\<open>copy_from_slice\<close>).\<close>

definition data_from_vec :: "bytes \<Rightarrow> message_data" where
  "data_from_vec d =
     (if length d \<le> INLINE_CAPACITY
      then Inline (word_of_nat (length d)) (d @ drop (length d) (replicate INLINE_CAPACITY 0))
      else Heap d)"

definition data_from_slice :: "bytes \<Rightarrow> message_data" where
  "data_from_slice d =
     (if length d \<le> INLINE_CAPACITY
      then Inline (word_of_nat (length d)) (d @ drop (length d) (replicate INLINE_CAPACITY 0))
      else Heap d)"

fun as_slice :: "message_data \<Rightarrow> bytes" where
  "as_slice (Inline len buf) = take (unat len) buf"
| "as_slice (Heap d) = d"

text \<open>Storing \<open>d\<close> through the slice \<open>as_mut_slice\<close> returns; the slice cannot change its length.\<close>

fun write_mut_slice :: "message_data \<Rightarrow> bytes \<Rightarrow> message_data" where
  "write_mut_slice (Inline len buf) d = Inline len (take (unat len) d @ drop (unat len) buf)"
| "write_mut_slice (Heap h) d = Heap (take (length h) d)"

fun is_inline_data :: "message_data \<Rightarrow> bool" where
  "is_inline_data (Inline _ _) = True"
| "is_inline_data (Heap _) = False"

record message =
  msg_data :: message_data
  msg_more :: bool
  msg_routing_id :: u32
  msg_group :: "bytes option"
  msg_metadata :: "(bytes \<times> bytes) list"

definition message_new :: message where
  "message_new = \<lparr>msg_data = data_empty, msg_more = False, msg_routing_id = 0,
     msg_group = None, msg_metadata = []\<rparr>"

definition message_from_vec :: "bytes \<Rightarrow> message" where
  "message_from_vec d = \<lparr>msg_data = data_from_vec d, msg_more = False, msg_routing_id = 0,
     msg_group = None, msg_metadata = []\<rparr>"

definition message_from_slice :: "bytes \<Rightarrow> message" where
  "message_from_slice d = \<lparr>msg_data = data_from_slice d, msg_more = False, msg_routing_id = 0,
     msg_group = None, msg_metadata = []\<rparr>"

definition data :: "message \<Rightarrow> bytes" where
  "data m = as_slice (msg_data m)"

definition data_mut_write :: "message \<Rightarrow> bytes \<Rightarrow> message" where
  "data_mut_write m d = m\<lparr>msg_data := write_mut_slice (msg_data m) d\<rparr>"

definition message_len :: "message \<Rightarrow> nat" where
  "message_len m = length (data m)"

definition is_inline :: "message \<Rightarrow> bool" where
  "is_inline m = is_inline_data (msg_data m)"

definition set_more :: "bool \<Rightarrow> message \<Rightarrow> message" where
  "set_more b m = m\<lparr>msg_more := b\<rparr>"

definition set_routing_id :: "u32 \<Rightarrow> message \<Rightarrow> message" where
  "set_routing_id rid m = m\<lparr>msg_routing_id := rid\<rparr>"

definition set_group :: "bytes \<Rightarrow> message \<Rightarrow> message result" where
  "set_group g m =
     (if length g > nat ZMQ_GROUP_MAX_LENGTH \<or> 0 \<in> set g then Inl InvalidArgument
      else Inr (m\<lparr>msg_group := Some g\<rparr>))"

text \<open>\<open>set_metadata\<close> overwrites the first entry of the key in place or appends a new one.\<close>

fun put_first :: "'k \<Rightarrow> 'v \<Rightarrow> ('k \<times> 'v) list \<Rightarrow> ('k \<times> 'v) list option" where
  "put_first k v [] = None"
| "put_first k v ((k', v') # kvs) =
     (if k' = k then Some ((k', v) # kvs) else map_option (\<lambda>r. (k', v') # r) (put_first k v kvs))"

definition set_metadata :: "bytes \<Rightarrow> bytes \<Rightarrow> message \<Rightarrow> message result" where
  "set_metadata key value m =
     (if key = [] \<or> 0 \<in> set key \<or> 0 \<in> set value then Inl InvalidArgument
      else Inr (m\<lparr>msg_metadata :=
        (case put_first key value (msg_metadata m) of
           Some kvs \<Rightarrow> kvs
         | None \<Rightarrow> msg_metadata m @ [(key, value)])\<rparr>))"

definition metadata :: "message \<Rightarrow> bytes \<Rightarrow> bytes option" where
  "metadata m key = map_option snd (List.find (\<lambda>(k, _). k = key) (msg_metadata m))"


section \<open>Payload\<close>

lemma as_slice_from_vec [simp]: "as_slice (data_from_vec d) = d"
  by (auto simp: data_from_vec_def INLINE_CAPACITY_def unat_of_nat)

lemma data_from_slice_eq: "data_from_slice d = data_from_vec d"
  by (simp add: data_from_slice_def data_from_vec_def)

lemma data_message_from_vec [simp]: "data (message_from_vec d) = d"
  by (simp add: data_def message_from_vec_def)

lemma data_message_from_slice [simp]: "data (message_from_slice d) = d"
  by (simp add: data_def message_from_slice_def data_from_slice_eq)

lemma data_message_new [simp]: "data message_new = []"
  by (simp add: data_def message_new_def data_empty_def)

lemma message_len_from_vec [simp]: "message_len (message_from_vec d) = length d"
  by (simp add: message_len_def)

lemma from_vec_fields [simp]:
  "msg_more (message_from_vec d) = False" "msg_routing_id (message_from_vec d) = 0"
  "msg_group (message_from_vec d) = None" "msg_metadata (message_from_vec d) = []"
  by (simp_all add: message_from_vec_def)

lemma data_setters [simp]:
  "data (set_more b m) = data m" "data (set_routing_id r m) = data m"
  "msg_more (set_more b m) = b" "msg_routing_id (set_routing_id r m) = r"
  "msg_more (set_routing_id r m) = msg_more m" "msg_routing_id (set_more b m) = msg_routing_id m"
  "msg_group (set_more b m) = msg_group m" "msg_group (set_routing_id r m) = msg_group m"
  "msg_metadata (set_more b m) = msg_metadata m"
  "msg_metadata (set_routing_id r m) = msg_metadata m"
  by (simp_all add: data_def set_more_def set_routing_id_def)

lemma data_metadata_update [simp]: "data (m\<lparr>msg_metadata := kvs\<rparr>) = data m"
  by (simp add: data_def)


section \<open>Representation invariant\<close>

fun message_data_wf :: "message_data \<Rightarrow> bool" where
  "message_data_wf (Inline len buf) \<longleftrightarrow> length buf = INLINE_CAPACITY \<and> unat len \<le> INLINE_CAPACITY"
| "message_data_wf (Heap d) \<longleftrightarrow> INLINE_CAPACITY < length d"

definition metadata_wf :: "(bytes \<times> bytes) list \<Rightarrow> bool" where
  "metadata_wf kvs \<longleftrightarrow> distinct (map fst kvs) \<and> (\<forall>(k, v) \<in> set kvs. k \<noteq> [] \<and> 0 \<notin> set k \<and> 0 \<notin> set v)"

definition message_wf :: "message \<Rightarrow> bool" where
  "message_wf m \<longleftrightarrow> message_data_wf (msg_data m) \<and> metadata_wf (msg_metadata m)
     \<and> (case msg_group m of None \<Rightarrow> True | Some g \<Rightarrow> length g \<le> 255 \<and> 0 \<notin> set g)"

lemma data_from_vec_wf [simp]: "message_data_wf (data_from_vec d)"
  by (auto simp: data_from_vec_def INLINE_CAPACITY_def unat_of_nat)

lemma message_wf_basic [simp]:
  "message_wf message_new" "message_wf (message_from_vec d)" "message_wf (message_from_slice d)"
  by (simp_all add: message_wf_def message_new_def message_from_vec_def message_from_slice_def
      data_empty_def metadata_wf_def data_from_slice_eq INLINE_CAPACITY_def)

lemma message_wf_setters [simp]:
  "message_wf (set_more b m) = message_wf m" "message_wf (set_routing_id r m) = message_wf m"
  by (simp_all add: message_wf_def set_more_def set_routing_id_def)

lemma write_mut_slice_wf:
  "message_data_wf x \<Longrightarrow> length d = length (as_slice x) \<Longrightarrow> message_data_wf (write_mut_slice x d)"
  by (cases x) auto

lemma as_slice_write_mut:
  "message_data_wf x \<Longrightarrow> length d = length (as_slice x) \<Longrightarrow> as_slice (write_mut_slice x d) = d"
  by (cases x) auto

lemma put_first_None: "put_first k v kvs = None \<longleftrightarrow> k \<notin> fst ` set kvs"
  by (induction kvs) (auto split: if_splits)

lemma put_first_keys: "put_first k v kvs = Some r \<Longrightarrow> map fst r = map fst kvs"
  by (induction kvs arbitrary: r) (auto split: if_splits)

lemma put_first_set: "put_first k v kvs = Some r \<Longrightarrow> set r \<subseteq> insert (k, v) (set kvs)"
  by (induction kvs arbitrary: r) (fastforce split: if_splits)+

lemma put_first_map_of: "put_first k v kvs = Some r \<Longrightarrow> map_of r = (map_of kvs)(k \<mapsto> v)"
  by (induction kvs arbitrary: r) (auto simp: fun_upd_twist split: if_splits)

lemma put_first_wf:
  assumes "metadata_wf kvs" "put_first k v kvs = Some r" "k \<noteq> []" "0 \<notin> set k" "0 \<notin> set v"
  shows "metadata_wf r"
  using assms put_first_keys [OF assms(2)] put_first_set [OF assms(2)]
  by (fastforce simp: metadata_wf_def)

lemma append_wf:
  assumes "metadata_wf kvs" "put_first k v kvs = None" "k \<noteq> []" "0 \<notin> set k" "0 \<notin> set v"
  shows "metadata_wf (kvs @ [(k, v)])"
  using assms by (auto simp: metadata_wf_def put_first_None)

lemma set_metadata_wf: "message_wf m \<Longrightarrow> set_metadata k v m = Inr m' \<Longrightarrow> message_wf m'"
  by (auto simp: message_wf_def set_metadata_def split: if_splits option.splits
      dest: put_first_wf append_wf)

lemma set_group_wf: "message_wf m \<Longrightarrow> set_group g m = Inr m' \<Longrightarrow> message_wf m'"
  by (auto simp: message_wf_def set_group_def split: if_splits)

lemma metadata_map_of: "metadata m key = map_of (msg_metadata m) key"
proof -
  have "map_option snd (List.find (\<lambda>(k, _). k = key) kvs) = map_of kvs key" for kvs :: "(bytes \<times> bytes) list"
    by (induction kvs) auto
  then show ?thesis by (simp add: metadata_def)
qed

lemma set_metadata_lookup:
  "set_metadata k v m = Inr m' \<Longrightarrow> metadata m' = (metadata m)(k \<mapsto> v)"
  by (auto simp: fun_eq_iff metadata_map_of set_metadata_def map_add_def put_first_None
        map_of_eq_None_iff [symmetric]
      split: if_splits option.splits dest: put_first_map_of)

lemma set_metadata_frame:
  "set_metadata k v m = Inr m' \<Longrightarrow>
     data m' = data m \<and> msg_more m' = msg_more m \<and> msg_routing_id m' = msg_routing_id m
     \<and> msg_group m' = msg_group m"
  by (auto simp: set_metadata_def data_def split: if_splits)

end
