(* ===== verification/Socket_Type.thy ===== *)
theory Socket_Type
  imports Errors
begin

text \<open>
  The socket types of \<open>crates/libzmq-core/src/socket.rs\<close> with their numbers in the C interface, and
  the compatibility relation of \<open>crates/libzmq-core/src/context.rs\<close> that decides which types may
  talk over an in-process endpoint.
\<close>

datatype socket_type =
  Pair | Pub | Sub | Req | Rep | Dealer | Router | Pull | Push | Xpub | Xsub | Stream
| Server | Client | Radio | Dish | Gather | Scatter | Dgram | Peer | Channel

fun socket_type_number :: "socket_type \<Rightarrow> i32" where
  "socket_type_number Pair = ZMQ_PAIR"
| "socket_type_number Pub = ZMQ_PUB"
| "socket_type_number Sub = ZMQ_SUB"
| "socket_type_number Req = ZMQ_REQ"
| "socket_type_number Rep = ZMQ_REP"
| "socket_type_number Dealer = ZMQ_DEALER"
| "socket_type_number Router = ZMQ_ROUTER"
| "socket_type_number Pull = ZMQ_PULL"
| "socket_type_number Push = ZMQ_PUSH"
| "socket_type_number Xpub = ZMQ_XPUB"
| "socket_type_number Xsub = ZMQ_XSUB"
| "socket_type_number Stream = ZMQ_STREAM"
| "socket_type_number Server = ZMQ_SERVER"
| "socket_type_number Client = ZMQ_CLIENT"
| "socket_type_number Radio = ZMQ_RADIO"
| "socket_type_number Dish = ZMQ_DISH"
| "socket_type_number Gather = ZMQ_GATHER"
| "socket_type_number Scatter = ZMQ_SCATTER"
| "socket_type_number Dgram = ZMQ_DGRAM"
| "socket_type_number Peer = ZMQ_PEER"
| "socket_type_number Channel = ZMQ_CHANNEL"

definition socket_type_try_from :: "i32 \<Rightarrow> socket_type result" where
  "socket_type_try_from value =
     (if value = ZMQ_PAIR then Inr Pair
      else if value = ZMQ_PUB then Inr Pub
      else if value = ZMQ_SUB then Inr Sub
      else if value = ZMQ_REQ then Inr Req
      else if value = ZMQ_REP then Inr Rep
      else if value = ZMQ_DEALER then Inr Dealer
      else if value = ZMQ_ROUTER then Inr Router
      else if value = ZMQ_PULL then Inr Pull
      else if value = ZMQ_PUSH then Inr Push
      else if value = ZMQ_XPUB then Inr Xpub
      else if value = ZMQ_XSUB then Inr Xsub
      else if value = ZMQ_STREAM then Inr Stream
      else if value = ZMQ_SERVER then Inr Server
      else if value = ZMQ_CLIENT then Inr Client
      else if value = ZMQ_RADIO then Inr Radio
      else if value = ZMQ_DISH then Inr Dish
      else if value = ZMQ_GATHER then Inr Gather
      else if value = ZMQ_SCATTER then Inr Scatter
      else if value = ZMQ_DGRAM then Inr Dgram
      else if value = ZMQ_PEER then Inr Peer
      else if value = ZMQ_CHANNEL then Inr Channel
      else Inl InvalidArgument)"

definition inproc_types_compatible :: "socket_type \<Rightarrow> socket_type \<Rightarrow> bool" where
  "inproc_types_compatible a b \<longleftrightarrow>
     (a, b) \<in> {(Pair, Pair), (Push, Pull), (Pull, Push), (Dealer, Router), (Router, Dealer),
       (Req, Rep), (Rep, Req), (Server, Client), (Client, Server), (Pub, Sub), (Sub, Pub),
       (Xpub, Xsub), (Xsub, Xpub), (Stream, Stream), (Channel, Channel), (Peer, Peer),
       (Radio, Dish), (Dish, Radio), (Scatter, Gather), (Gather, Scatter)}"

text \<open>The number of a socket type and the type of a number are inverse to each other.\<close>

lemma socket_type_try_from_iff: "socket_type_try_from v = Inr t \<longleftrightarrow> v = socket_type_number t"
  by (cases t) (auto simp: socket_type_try_from_def split: if_splits)

text \<open>Compatibility is symmetric, so it does not matter which side binds, and every type has at most
  one partner type.\<close>

lemma inproc_types_compatible_sym: "inproc_types_compatible a b \<longleftrightarrow> inproc_types_compatible b a"
  by (cases a) (auto simp: inproc_types_compatible_def)

lemma inproc_types_compatible_partner:
  "inproc_types_compatible a b \<Longrightarrow> inproc_types_compatible a c \<Longrightarrow> b = c"
  by (cases a) (auto simp: inproc_types_compatible_def)

end
