(* ===== verification/Subscription.thy ===== *)
theory Subscription
  imports Rust_Std "HOL-Library.AList_Mapping"
begin

text \<open>
  \<open>SubscriptionState\<close> of \<open>crates/libzmq-core/src/context.rs\<close>: the reference-counted set of topic
  prefixes a SUB, XSUB or DISH socket holds. Besides the exact counts the code keeps an index
  (the first bytes in use, the prefix lengths in use, whether the empty prefix is present)
  that \<open>matches_prefix_of\<close> consults instead of scanning the prefixes. The locale
  \<open>topic_filter\<close> is the contract the sockets rely on; its interpretation shows that the
  indexed implementation meets it.
\<close>

record subscription_state =
  sub_prefixes :: "bytes list"
  sub_exact :: "(bytes, nat) mapping"
  sub_first_bytes :: "bool list"
  sub_lengths :: "nat list"
  sub_has_empty :: bool

definition subscription_default :: subscription_state where
  "subscription_default = \<lparr>sub_prefixes = [], sub_exact = Mapping.empty,
     sub_first_bytes = replicate 256 False, sub_lengths = [], sub_has_empty = False\<rparr>"

definition mark_first :: "bytes \<Rightarrow> bool list \<Rightarrow> bool list" where
  "mark_first p fb = (case p of [] \<Rightarrow> fb | b # _ \<Rightarrow> fb[unat b := True])"

definition push_length :: "bytes \<Rightarrow> nat list \<Rightarrow> nat list" where
  "push_length p ls = (if length p \<in> set ls then ls else ls @ [length p])"

definition sub_insert :: "bytes \<Rightarrow> subscription_state \<Rightarrow> bool \<times> subscription_state" where
  "sub_insert p s =
     (case Mapping.lookup (sub_exact s) p of
        Some n \<Rightarrow> (False, s\<lparr>sub_exact := Mapping.update p (n + 1) (sub_exact s)\<rparr>)
      | None \<Rightarrow>
          (True, s\<lparr>sub_exact := Mapping.update p 1 (sub_exact s),
                   sub_has_empty := sub_has_empty s \<or> p = [],
                   sub_first_bytes := mark_first p (sub_first_bytes s),
                   sub_lengths := push_length p (sub_lengths s),
                   sub_prefixes := sub_prefixes s @ [p]\<rparr>))"

definition sub_remove :: "bytes \<Rightarrow> subscription_state \<Rightarrow> bool \<times> subscription_state" where
  "sub_remove p s =
     (case Mapping.lookup (sub_exact s) p of
        None \<Rightarrow> (False, s)
      | Some n \<Rightarrow>
          if n > 1 then (False, s\<lparr>sub_exact := Mapping.update p (n - 1) (sub_exact s)\<rparr>)
          else let exact = Mapping.delete p (sub_exact s);
                   prefixes = filter (\<lambda>stored. stored \<noteq> p) (sub_prefixes s)
               in (True, s\<lparr>sub_exact := exact,
                           sub_prefixes := prefixes,
                           sub_has_empty := (Mapping.lookup exact [] \<noteq> None),
                           sub_first_bytes := fold mark_first prefixes (replicate 256 False),
                           sub_lengths := fold push_length prefixes []\<rparr>))"

definition matches_prefix_of :: "subscription_state \<Rightarrow> bytes \<Rightarrow> bool" where
  "matches_prefix_of s d =
     (if sub_has_empty s then True
      else case d of
             [] \<Rightarrow> False
           | first # _ \<Rightarrow>
               if \<not> sub_first_bytes s ! unat first then False
               else list_ex (\<lambda>len. len \<le> length d
                      \<and> Mapping.lookup (sub_exact s) (take len d) \<noteq> None) (sub_lengths s))"

definition sub_count :: "subscription_state \<Rightarrow> nat" where
  "sub_count s = Mapping.size (sub_exact s)"

definition contains_exact :: "subscription_state \<Rightarrow> bytes \<Rightarrow> bool" where
  "contains_exact s v = (Mapping.lookup (sub_exact s) v \<noteq> None)"


section \<open>The contract\<close>

text \<open>
  A topic filter counts, per topic, how often it is subscribed. Subscribing answers whether the
  topic is new, unsubscribing whether it is gone, and a message passes when one of the
  subscribed topics is a prefix of it.
\<close>

locale topic_filter =
  fixes empty_f :: 'f
    and subscribe_f :: "bytes \<Rightarrow> 'f \<Rightarrow> bool \<times> 'f"
    and unsubscribe_f :: "bytes \<Rightarrow> 'f \<Rightarrow> bool \<times> 'f"
    and passes :: "'f \<Rightarrow> bytes \<Rightarrow> bool"
    and refs :: "'f \<Rightarrow> bytes \<Rightarrow> nat"
    and inv :: "'f \<Rightarrow> bool"
  assumes inv_empty: "inv empty_f"
    and refs_empty: "refs empty_f t = 0"
    and inv_subscribe: "inv f \<Longrightarrow> inv (snd (subscribe_f t f))"
    and inv_unsubscribe: "inv f \<Longrightarrow> inv (snd (unsubscribe_f t f))"
    and refs_subscribe: "inv f \<Longrightarrow> refs (snd (subscribe_f t f)) = (refs f)(t := refs f t + 1)"
    and new_subscribe: "inv f \<Longrightarrow> fst (subscribe_f t f) \<longleftrightarrow> refs f t = 0"
    and refs_unsubscribe: "inv f \<Longrightarrow> refs (snd (unsubscribe_f t f)) = (refs f)(t := refs f t - 1)"
    and gone_unsubscribe: "inv f \<Longrightarrow> fst (unsubscribe_f t f) \<longleftrightarrow> refs f t = 1"
    and passes_iff: "inv f \<Longrightarrow> passes f d \<longleftrightarrow> (\<exists>t. 0 < refs f t \<and> prefix t d)"
begin

fun run :: "(bool \<times> bytes) list \<Rightarrow> 'f \<Rightarrow> 'f" where
  "run [] f = f"
| "run ((sub, t) # ops) f = run ops (snd (if sub then subscribe_f t f else unsubscribe_f t f))"

fun refs_after :: "(bool \<times> bytes) list \<Rightarrow> bytes \<Rightarrow> nat \<Rightarrow> nat" where
  "refs_after [] t n = n"
| "refs_after ((sub, t') # ops) t n =
     refs_after ops t (if t' = t then (if sub then n + 1 else n - 1) else n)"

lemma inv_run: "inv f \<Longrightarrow> inv (run ops f)"
  by (induction ops arbitrary: f) (auto simp: inv_subscribe inv_unsubscribe)

lemma refs_run: "inv f \<Longrightarrow> refs (run ops f) t = refs_after ops t (refs f t)"
proof (induction ops arbitrary: f)
  case Nil
  then show ?case by simp
next
  case (Cons op ops)
  obtain sub t' where "op = (sub, t')"
    by (cases op)
  with Cons show ?case
    by (auto simp: inv_subscribe inv_unsubscribe refs_subscribe refs_unsubscribe)
qed

text \<open>After any history a message passes exactly when a topic with a positive count is a prefix.\<close>

lemma passes_run: "passes (run ops empty_f) d \<longleftrightarrow> (\<exists>t. 0 < refs_after ops t 0 \<and> prefix t d)"
  by (simp add: passes_iff inv_run inv_empty refs_run refs_empty)

text \<open>Subscribing and unsubscribing again leaves what passes unchanged.\<close>

lemma passes_undo:
  "inv f \<Longrightarrow> passes (snd (unsubscribe_f t (snd (subscribe_f t f)))) d \<longleftrightarrow> passes f d"
  by (simp add: passes_iff inv_subscribe inv_unsubscribe refs_subscribe refs_unsubscribe fun_upd_idem)

end


section \<open>The indexed implementation\<close>

definition sub_refs :: "subscription_state \<Rightarrow> bytes \<Rightarrow> nat" where
  "sub_refs s t = (case Mapping.lookup (sub_exact s) t of None \<Rightarrow> 0 | Some n \<Rightarrow> n)"

text \<open>The representation invariant: the index describes exactly the stored prefixes.\<close>

definition sub_inv :: "subscription_state \<Rightarrow> bool" where
  "sub_inv s \<longleftrightarrow>
     distinct (sub_prefixes s)
   \<and> set (sub_prefixes s) = Mapping.keys (sub_exact s)
   \<and> (\<forall>t n. Mapping.lookup (sub_exact s) t = Some n \<longrightarrow> 0 < n)
   \<and> length (sub_first_bytes s) = 256
   \<and> (\<forall>b :: byte. sub_first_bytes s ! unat b \<longleftrightarrow> (\<exists>p \<in> set (sub_prefixes s). p \<noteq> [] \<and> hd p = b))
   \<and> set (sub_lengths s) = length ` set (sub_prefixes s)
   \<and> distinct (sub_lengths s)
   \<and> (sub_has_empty s \<longleftrightarrow> [] \<in> set (sub_prefixes s))"

lemma mem_keys: "p \<in> Mapping.keys m \<longleftrightarrow> Mapping.lookup m p \<noteq> None"
  by (simp add: keys_dom_lookup domIff)

lemma length_mark_first [simp]: "length (mark_first p fb) = length fb"
  by (auto simp: mark_first_def split: list.splits)

lemma mark_first_nth:
  "length fb = 256 \<Longrightarrow> mark_first p fb ! unat (b :: byte) \<longleftrightarrow> fb ! unat b \<or> (p \<noteq> [] \<and> hd p = b)"
  by (cases p) (auto simp: mark_first_def nth_list_update word_unat_eq_iff)

lemma fold_mark_first:
  "length fb = 256 \<Longrightarrow> length (fold mark_first ps fb) = 256 \<and>
     (fold mark_first ps fb ! unat (b :: byte) \<longleftrightarrow> fb ! unat b \<or> (\<exists>p \<in> set ps. p \<noteq> [] \<and> hd p = b))"
  by (induction ps arbitrary: fb) (auto simp: mark_first_nth)

lemma push_length_set: "set (push_length p ls) = insert (length p) (set ls)"
  by (auto simp: push_length_def)

lemma push_length_distinct: "distinct ls \<Longrightarrow> distinct (push_length p ls)"
  by (auto simp: push_length_def)

lemma fold_push_length:
  "distinct ls \<Longrightarrow> set (fold push_length ps ls) = set ls \<union> length ` set ps \<and> distinct (fold push_length ps ls)"
  by (induction ps arbitrary: ls) (auto simp: push_length_set push_length_distinct)

lemma sub_inv_default: "sub_inv subscription_default"
  by (simp add: sub_inv_def subscription_default_def lookup_default_empty Mapping.lookup_empty)

lemma sub_inv_insert: "sub_inv s \<Longrightarrow> sub_inv (snd (sub_insert p s))"
  by (auto simp: sub_inv_def sub_insert_def Mapping.lookup_update' mem_keys mark_first_nth
      push_length_set push_length_distinct split: option.splits if_splits)

lemma lookup_delete_if:
  "Mapping.lookup (Mapping.delete k m) k' = (if k = k' then None else Mapping.lookup m k')"
  by (simp add: Mapping.lookup_delete Mapping.lookup_delete_neq)

lemma sub_inv_remove:
  assumes "sub_inv s"
  shows "sub_inv (snd (sub_remove p s))"
  using assms fold_mark_first [of "replicate 256 False" "filter (\<lambda>stored. stored \<noteq> p) (sub_prefixes s)"]
    fold_push_length [of "[]" "filter (\<lambda>stored. stored \<noteq> p) (sub_prefixes s)"]
  by (auto simp: sub_inv_def sub_remove_def Mapping.lookup_update' lookup_delete_if mem_keys Let_def
      split: option.splits if_splits)

lemma sub_refs_pos: "sub_inv s \<Longrightarrow> 0 < sub_refs s t \<longleftrightarrow> t \<in> set (sub_prefixes s)"
  by (auto simp: sub_inv_def sub_refs_def mem_keys split: option.splits)

lemma sub_insert_refs:
  "sub_refs (snd (sub_insert t s)) = (sub_refs s)(t := sub_refs s t + 1)"
  by (rule ext) (auto simp: sub_refs_def sub_insert_def Mapping.lookup_update' split: option.splits)

lemma sub_insert_new: "sub_inv s \<Longrightarrow> fst (sub_insert t s) \<longleftrightarrow> sub_refs s t = 0"
  by (auto simp: sub_insert_def sub_refs_def sub_inv_def split: option.splits)

lemma sub_remove_refs:
  "sub_inv s \<Longrightarrow> sub_refs (snd (sub_remove t s)) = (sub_refs s)(t := sub_refs s t - 1)"
  by (rule ext) (auto simp: sub_refs_def sub_remove_def sub_inv_def Mapping.lookup_update'
      lookup_delete_if Let_def split: option.splits)

lemma sub_remove_gone: "sub_inv s \<Longrightarrow> fst (sub_remove t s) \<longleftrightarrow> sub_refs s t = 1"
proof (cases "Mapping.lookup (sub_exact s) t")
  case (Some n)
  moreover assume "sub_inv s"
  ultimately have "0 < n"
    by (auto simp: sub_inv_def)
  with Some show ?thesis
    by (simp add: sub_remove_def sub_refs_def Let_def)
qed (simp add: sub_remove_def sub_refs_def)

lemma matches_prefix_of_iff:
  assumes "sub_inv s"
  shows "matches_prefix_of s d \<longleftrightarrow> (\<exists>p \<in> set (sub_prefixes s). prefix p d)"
proof (cases "[] \<in> set (sub_prefixes s)")
  case True
  then have "\<exists>p \<in> set (sub_prefixes s). prefix p d"
    using Nil_prefix by blast
  with True assms show ?thesis
    by (simp add: matches_prefix_of_def sub_inv_def)
next
  case False
  have key: "Mapping.lookup (sub_exact s) q \<noteq> None \<longleftrightarrow> q \<in> set (sub_prefixes s)" for q
    using assms by (simp add: sub_inv_def mem_keys)
  show ?thesis
  proof (cases d)
    case Nil
    with False assms show ?thesis
      by (auto simp: matches_prefix_of_def sub_inv_def)
  next
    case (Cons b bs)
    have "(\<exists>p \<in> set (sub_prefixes s). prefix p d) \<longleftrightarrow>
        sub_first_bytes s ! unat b \<and> (\<exists>len \<in> set (sub_lengths s). len \<le> length d \<and> take len d \<in> set (sub_prefixes s))"
      (is "?L \<longleftrightarrow> ?R")
    proof
      assume ?L
      then obtain p where p: "p \<in> set (sub_prefixes s)" "prefix p d"
        by blast
      moreover from p False have "p \<noteq> []" "hd p = b"
        using Cons by (auto simp: prefix_def) (metis hd_append2 list.sel(1))
      moreover have "take (length p) d = p" "length p \<le> length d"
        using p by (auto simp: prefix_def)
      ultimately show ?R
        using assms by (auto simp: sub_inv_def)
    next
      assume ?R
      then show ?L
        using take_is_prefix by blast
    qed
    with False assms Cons key show ?thesis
      by (simp add: matches_prefix_of_def sub_inv_def list_ex_iff)
  qed
qed

interpretation subs: topic_filter subscription_default sub_insert sub_remove matches_prefix_of sub_refs sub_inv
proof unfold_locales
  show "sub_inv f \<Longrightarrow> matches_prefix_of f d \<longleftrightarrow> (\<exists>t. 0 < sub_refs f t \<and> prefix t d)" for f d
    by (auto simp: matches_prefix_of_iff sub_refs_pos)
  show "sub_refs subscription_default t = 0" for t
    by (simp add: sub_refs_def subscription_default_def Mapping.lookup_empty)
qed (simp_all add: sub_inv_default sub_inv_insert sub_inv_remove sub_insert_refs sub_insert_new
    sub_remove_refs sub_remove_gone)


section \<open>Properties\<close>

text \<open>C22. The indexed matcher is a prefix test: after any sequence of subscriptions and unsubscriptions
  starting from the empty state, \<open>matches_prefix_of\<close> accepts a message exactly when some topic
  subscribed more often than unsubscribed (counting from the front, never below zero) is a
  prefix of it.\<close>

theorem subscription_matches_history:
  "matches_prefix_of (subs.run ops subscription_default) d \<longleftrightarrow>
     (\<exists>t. 0 < subs.refs_after ops t 0 \<and> prefix t d)"
  by (rule subs.passes_run)

text \<open>Reference counting: in every reachable state the answers of \<open>insert\<close> and \<open>remove\<close> say exactly
  whether the topic was new and whether it is gone, both change the count of their own topic by
  one and of no other, and the number of topics \<open>count\<close> reports is the number of topics with a
  positive count.\<close>

theorem subscription_reference_counts:
  fixes ops p
  defines "s \<equiv> subs.run ops subscription_default"
  shows "fst (sub_insert p s) = (sub_refs s p = 0)
     \<and> sub_refs (snd (sub_insert p s)) = (sub_refs s)(p := sub_refs s p + 1)
     \<and> fst (sub_remove p s) = (sub_refs s p = 1)
     \<and> sub_refs (snd (sub_remove p s)) = (sub_refs s)(p := sub_refs s p - 1)
     \<and> sub_count s = card {t. 0 < sub_refs s t}
     \<and> contains_exact s p = (0 < sub_refs s p)"
proof -
  have inv: "sub_inv s"
    unfolding s_def by (rule subs.inv_run [OF sub_inv_default])
  have keys: "{t. 0 < sub_refs s t} = Mapping.keys (sub_exact s)"
    using inv by (auto simp: sub_refs_pos) (auto simp: sub_inv_def)
  then have "contains_exact s p = (0 < sub_refs s p)"
    by (metis (mono_tags) contains_exact_def mem_Collect_eq mem_keys)
  with inv keys show ?thesis
    by (simp add: sub_insert_new sub_insert_refs sub_remove_gone sub_remove_refs sub_count_def Mapping.size_def)
qed

end
