(* ===== verification/Inproc.thy ===== *)
theory Inproc
  imports Message Socket_Type Subscription
begin

text \<open>
  \<open>InprocEndpoint\<close> of \<open>crates/libzmq-core/src/context.rs\<close>: the rendezvous object a binding socket
  creates and its peers share. The queues, subscription sets and lifecycle messages of the
  sockets are shared by reference (\<open>Arc<Mutex<_>>\<close>), so the model keeps them in a heap: a
  reference is a number, and a socket's five shared cells are found under references of its
  own. An operation runs with its locks held and is one atomic step; a lock is never poisoned,
  so an operation whose only error is a poisoned lock is a plain state transformer.

  Maps keyed by topic are \<open>mapping\<close>s. The code iterates over them only to collect a set of
  peer ids or to test existence, so the order of a \<open>HashMap\<close> is not observable.
\<close>

type_synonym ref = nat
type_synonym topics = "(bytes, u64 set) mapping"

record xpub_policy =
  verbose_subscribe :: bool
  verbose_unsubscribe :: bool
  manual :: bool
  manual_last_value :: bool

definition xpub_policy_default :: xpub_policy where
  "xpub_policy_default = \<lparr>verbose_subscribe = False, verbose_unsubscribe = False, manual = False,
     manual_last_value = False\<rparr>"

record inproc_peer =
  peer_id :: u64
  peer_inbox :: ref
  peer_socket_type :: socket_type
  peer_subscriptions :: ref

record inproc_binder =
  bd_inbox :: ref
  bd_socket_type :: socket_type
  bd_subscriptions :: ref
  bd_disconnect_msg :: ref
  bd_welcome :: ref
  bd_xpub_policy :: ref

record inproc_endpoint =
  ep_binder_inbox :: ref
  ep_binder_type :: socket_type
  ep_binder_subscriptions :: ref
  ep_binder_disconnect_msg :: ref
  ep_binder_welcome :: ref
  ep_binder_xpub_policy :: ref
  ep_xpub_peer_topics :: topics
  ep_xpub_manual_topics :: topics
  ep_xpub_last_peer :: "u64 option"
  ep_peers :: "inproc_peer list"
  ep_next_peer :: u64

record heap =
  queues :: "ref \<Rightarrow> message list"
  subscriptions :: "ref \<Rightarrow> subscription_state"
  lifecycle_msgs :: "ref \<Rightarrow> bytes"
  welcomes :: "ref \<Rightarrow> bytes option"
  policies :: "ref \<Rightarrow> xpub_policy"
  endpoints :: "ref \<Rightarrow> inproc_endpoint"
  next_ref :: ref

definition push_back :: "ref \<Rightarrow> message \<Rightarrow> 'z heap_scheme \<Rightarrow> 'z heap_scheme" where
  "push_back q m h = h\<lparr>queues := (queues h)(q := queues h q @ [m])\<rparr>"

definition update_endpoint ::
  "ref \<Rightarrow> (inproc_endpoint \<Rightarrow> inproc_endpoint) \<Rightarrow> 'z heap_scheme \<Rightarrow> 'z heap_scheme" where
  "update_endpoint e f h = h\<lparr>endpoints := (endpoints h)(e := f (endpoints h e))\<rparr>"

definition endpoint_new :: "inproc_binder \<Rightarrow> inproc_endpoint" where
  "endpoint_new b =
     \<lparr>ep_binder_inbox = bd_inbox b, ep_binder_type = bd_socket_type b,
      ep_binder_subscriptions = bd_subscriptions b, ep_binder_disconnect_msg = bd_disconnect_msg b,
      ep_binder_welcome = bd_welcome b, ep_binder_xpub_policy = bd_xpub_policy b,
      ep_xpub_peer_topics = Mapping.empty, ep_xpub_manual_topics = Mapping.empty,
      ep_xpub_last_peer = None, ep_peers = [], ep_next_peer = 0\<rparr>"

definition socket_type_accepts_message ::
  "socket_type \<Rightarrow> ref \<Rightarrow> message \<Rightarrow> 'z heap_scheme \<Rightarrow> bool" where
  "socket_type_accepts_message t s m h =
     (case t of
        Sub \<Rightarrow> matches_prefix_of (subscriptions h s) (data m)
      | Xsub \<Rightarrow> matches_prefix_of (subscriptions h s) (data m)
      | Dish \<Rightarrow> (case msg_group m of None \<Rightarrow> False | Some g \<Rightarrow> contains_exact (subscriptions h s) g)
      | _ \<Rightarrow> True)"

definition binder_accepts :: "ref \<Rightarrow> message \<Rightarrow> 'z heap_scheme \<Rightarrow> bool" where
  "binder_accepts e m h =
     socket_type_accepts_message (ep_binder_type (endpoints h e))
       (ep_binder_subscriptions (endpoints h e)) m h"


section \<open>Subscription notifications to an XPUB binder\<close>

definition topic_peers :: "topics \<Rightarrow> bytes \<Rightarrow> u64 set" where
  "topic_peers ts p = (case Mapping.lookup ts p of None \<Rightarrow> {} | Some s \<Rightarrow> s)"

text \<open>\<open>entry(p).or_default().insert(id)\<close>.\<close>

definition topic_insert :: "bytes \<Rightarrow> u64 \<Rightarrow> topics \<Rightarrow> topics" where
  "topic_insert p i ts = Mapping.update p (insert i (topic_peers ts p)) ts"

text \<open>\<open>get_mut(p)\<close>, \<open>remove(id)\<close>, and the entry goes away with its last peer.\<close>

definition topic_remove :: "bytes \<Rightarrow> u64 \<Rightarrow> topics \<Rightarrow> topics" where
  "topic_remove p i ts =
     (case Mapping.lookup ts p of
        None \<Rightarrow> ts
      | Some s \<Rightarrow> if s - {i} = {} then Mapping.delete p ts else Mapping.update p (s - {i}) ts)"

definition set_last_peer :: "ref \<Rightarrow> u64 \<Rightarrow> 'z heap_scheme \<Rightarrow> 'z heap_scheme" where
  "set_last_peer e i = update_endpoint e (\<lambda>ep. ep\<lparr>ep_xpub_last_peer := Some i\<rparr>)"

definition endpoint_policy :: "ref \<Rightarrow> 'z heap_scheme \<Rightarrow> xpub_policy" where
  "endpoint_policy e h = policies h (ep_binder_xpub_policy (endpoints h e))"

definition should_replay_subscription ::
  "ref \<Rightarrow> u64 \<Rightarrow> bytes \<Rightarrow> bool \<Rightarrow> 'z heap_scheme \<Rightarrow> bool \<times> 'z heap_scheme" where
  "should_replay_subscription e i p duplicate_from_peer h =
     (if ep_binder_type (endpoints h e) \<noteq> Xpub then (False, h)
      else let policy = endpoint_policy e h
           in if duplicate_from_peer then
                let notify = (verbose_subscribe policy \<or> manual policy)
                in (notify, if notify then set_last_peer e i h else h)
              else
                let h1 = update_endpoint e (\<lambda>ep. ep\<lparr>ep_xpub_peer_topics :=
                           topic_insert p i (ep_xpub_peer_topics ep)\<rparr>) h;
                    peers = topic_peers (ep_xpub_peer_topics (endpoints h1 e)) p;
                    notify = (card peers = 1 \<or> verbose_subscribe policy \<or> manual policy)
                in (notify, if notify then set_last_peer e i h1 else h1))"

definition should_replay_unsubscription ::
  "ref \<Rightarrow> u64 \<Rightarrow> bytes \<Rightarrow> bool \<Rightarrow> 'z heap_scheme \<Rightarrow> bool \<times> 'z heap_scheme" where
  "should_replay_unsubscription e i p unmatched_from_peer h =
     (if ep_binder_type (endpoints h e) \<noteq> Xpub then (False, h)
      else let policy = endpoint_policy e h
           in if unmatched_from_peer then (True, set_last_peer e i h)
              else case Mapping.lookup (ep_xpub_peer_topics (endpoints h e)) p of
                     None \<Rightarrow> (True, h)
                   | Some s \<Rightarrow>
                       let h1 = update_endpoint e (\<lambda>ep. ep\<lparr>ep_xpub_peer_topics :=
                                  topic_remove p i (ep_xpub_peer_topics ep)\<rparr>) h
                       in if s - {i} = {} then (True, set_last_peer e i h1)
                          else let notify = (verbose_unsubscribe policy \<or> manual policy)
                               in (notify, if notify then set_last_peer e i h1 else h1))"

definition subscription_frame :: "bool \<Rightarrow> bytes \<Rightarrow> message" where
  "subscription_frame subscribe p = message_from_vec (of_bool subscribe # p)"

definition replay_subscription_change ::
  "ref \<Rightarrow> bool \<Rightarrow> bytes \<Rightarrow> 'z heap_scheme \<Rightarrow> 'z heap_scheme" where
  "replay_subscription_change e subscribe p h =
     (if ep_binder_type (endpoints h e) \<noteq> Xpub then h
      else push_back (ep_binder_inbox (endpoints h e)) (subscription_frame subscribe p) h)"

definition replay_subscription :: "ref \<Rightarrow> u64 \<Rightarrow> bytes \<Rightarrow> 'z heap_scheme \<Rightarrow> 'z heap_scheme" where
  "replay_subscription e i p h =
     (case should_replay_subscription e i p False h of
        (notify, h1) \<Rightarrow> if \<not> notify then h1 else replay_subscription_change e True p h1)"

definition replay_duplicate_subscription ::
  "ref \<Rightarrow> u64 \<Rightarrow> bytes \<Rightarrow> 'z heap_scheme \<Rightarrow> 'z heap_scheme" where
  "replay_duplicate_subscription e i p h =
     (case should_replay_subscription e i p True h of
        (notify, h1) \<Rightarrow> if \<not> notify then h1 else replay_subscription_change e True p h1)"

definition replay_unsubscription ::
  "ref \<Rightarrow> u64 \<Rightarrow> bytes \<Rightarrow> bool \<Rightarrow> 'z heap_scheme \<Rightarrow> 'z heap_scheme" where
  "replay_unsubscription e i p unmatched_from_peer h =
     (case should_replay_unsubscription e i p unmatched_from_peer h of
        (notify, h1) \<Rightarrow> if \<not> notify then h1 else replay_subscription_change e False p h1)"

definition replay_xsub_subscriptions :: "ref \<Rightarrow> inproc_peer \<Rightarrow> 'z heap_scheme \<Rightarrow> 'z heap_scheme" where
  "replay_xsub_subscriptions e p h =
     (if ep_binder_type (endpoints h e) \<noteq> Xpub \<or> peer_socket_type p \<noteq> Xsub then h
      else fold (replay_subscription e (peer_id p))
             (sub_prefixes (subscriptions h (peer_subscriptions p))) h)"

definition send_welcome_to_xsub :: "ref \<Rightarrow> inproc_peer \<Rightarrow> 'z heap_scheme \<Rightarrow> 'z heap_scheme" where
  "send_welcome_to_xsub e p h =
     (if ep_binder_type (endpoints h e) \<noteq> Xpub \<or> peer_socket_type p \<noteq> Xsub then h
      else case welcomes h (ep_binder_welcome (endpoints h e)) of
             None \<Rightarrow> h
           | Some w \<Rightarrow> push_back (peer_inbox p) (message_from_vec w) h)"


section \<open>Peers\<close>

definition add_peer ::
  "ref \<Rightarrow> u64 \<Rightarrow> ref \<Rightarrow> socket_type \<Rightarrow> ref \<Rightarrow> ('z heap_scheme, error, unit) comp" where
  "add_peer e i inbox t subs h =
     (if \<not> inproc_types_compatible (ep_binder_type (endpoints h e)) t then (Inl NotSupported, h)
      else let p = \<lparr>peer_id = i, peer_inbox = inbox, peer_socket_type = t, peer_subscriptions = subs\<rparr>;
               h1 = update_endpoint e (\<lambda>ep. ep\<lparr>ep_peers := ep_peers ep @ [p]\<rparr>) h
           in (Inr (), send_welcome_to_xsub e p (replay_xsub_subscriptions e p h1)))"

definition send_disconnect_message :: "ref \<Rightarrow> u32 \<Rightarrow> 'z heap_scheme \<Rightarrow> 'z heap_scheme" where
  "send_disconnect_message e rid h =
     (let ep = endpoints h e; d = lifecycle_msgs h (ep_binder_disconnect_msg ep)
      in if d = [] then h
         else push_back (ep_binder_inbox ep)
                (if ep_binder_type ep \<in> {Router, Rep, Server, Peer}
                 then set_routing_id rid (message_from_vec d) else message_from_vec d) h)"

definition remove_xsub_peer_subscriptions ::
  "ref \<Rightarrow> inproc_peer \<Rightarrow> 'z heap_scheme \<Rightarrow> 'z heap_scheme" where
  "remove_xsub_peer_subscriptions e p h =
     (if ep_binder_type (endpoints h e) \<noteq> Xpub then h
      else let prefixes = sub_prefixes (subscriptions h (peer_subscriptions p));
               h1 = fold (\<lambda>pre. replay_unsubscription e (peer_id p) pre False) prefixes h
           in update_endpoint e (\<lambda>ep. ep\<lparr>ep_xpub_manual_topics :=
                fold (\<lambda>pre. topic_remove pre (peer_id p)) prefixes (ep_xpub_manual_topics ep)\<rparr>) h1)"

text \<open>\<open>peer_id as u32\<close> keeps the low 32 bits of the id.\<close>

definition remove_peer :: "ref \<Rightarrow> u64 \<Rightarrow> bool \<Rightarrow> 'z heap_scheme \<Rightarrow> bool \<times> 'z heap_scheme" where
  "remove_peer e i notify_disconnect h =
     (let removed_peer = List.find (\<lambda>p. peer_id p = i) (ep_peers (endpoints h e));
          h1 = update_endpoint e (\<lambda>ep. ep\<lparr>ep_peers := filter (\<lambda>p. peer_id p \<noteq> i) (ep_peers ep)\<rparr>) h;
          removed = (length (ep_peers (endpoints h1 e)) \<noteq> length (ep_peers (endpoints h e)));
          h2 = (case removed_peer of
                  Some p \<Rightarrow> if peer_socket_type p = Xsub then remove_xsub_peer_subscriptions e p h1 else h1
                | None \<Rightarrow> h1);
          h3 = (if removed \<and> notify_disconnect then send_disconnect_message e (ucast i) h2 else h2)
      in (removed, h3))"

definition first_peer :: "ref \<Rightarrow> 'z heap_scheme \<Rightarrow> ref option" where
  "first_peer e h = (case ep_peers (endpoints h e) of [] \<Rightarrow> None | p # _ \<Rightarrow> Some (peer_inbox p))"

definition peer_count :: "ref \<Rightarrow> 'z heap_scheme \<Rightarrow> nat" where
  "peer_count e h = length (ep_peers (endpoints h e))"

definition peer_queue_depths :: "ref \<Rightarrow> 'z heap_scheme \<Rightarrow> nat list" where
  "peer_queue_depths e h = map (\<lambda>p. length (queues h (peer_inbox p))) (ep_peers (endpoints h e))"

text \<open>Round robin: \<open>fetch_add\<close> wraps at the width of the counter.\<close>

definition next_peer :: "ref \<Rightarrow> 'z heap_scheme \<Rightarrow> ref option \<times> 'z heap_scheme" where
  "next_peer e h =
     (let ps = ep_peers (endpoints h e); n = ep_next_peer (endpoints h e)
      in if ps = [] then (None, h)
         else (Some (peer_inbox (ps ! (unat n mod length ps))),
               update_endpoint e (\<lambda>ep. ep\<lparr>ep_next_peer := n + 1\<rparr>) h))"

definition peer_by_id :: "ref \<Rightarrow> u64 \<Rightarrow> 'z heap_scheme \<Rightarrow> ref option" where
  "peer_by_id e i h = map_option peer_inbox (List.find (\<lambda>p. peer_id p = i) (ep_peers (endpoints h e)))"

definition manual_matching_peer_ids ::
  "ref \<Rightarrow> message \<Rightarrow> bool \<Rightarrow> 'z heap_scheme \<Rightarrow> u64 set \<times> 'z heap_scheme" where
  "manual_matching_peer_ids e m last_value h =
     (let ts = ep_xpub_manual_topics (endpoints h e);
          last = (if last_value then ep_xpub_last_peer (endpoints h e) else None);
          h1 = (if last_value then update_endpoint e (\<lambda>ep. ep\<lparr>ep_xpub_last_peer := None\<rparr>) h else h)
      in (case last of
            Some i \<Rightarrow>
              if \<exists>p \<in> Mapping.keys ts. i \<in> topic_peers ts p \<and> length p \<le> message_len m \<and> starts_with p (data m)
              then {i} else {}
          | None \<Rightarrow>
              \<Union> ((\<lambda>p. if length p \<le> message_len m \<and> starts_with p (data m) then topic_peers ts p else {})
                    ` Mapping.keys ts), h1))"

definition matching_peers :: "ref \<Rightarrow> message \<Rightarrow> 'z heap_scheme \<Rightarrow> ref list \<times> 'z heap_scheme" where
  "matching_peers e m h =
     (let ep = endpoints h e; policy = endpoint_policy e h
      in if ep_binder_type ep = Xpub \<and> manual policy then
           (case manual_matching_peer_ids e m (manual_last_value policy) h of
              (ids, h1) \<Rightarrow> (map peer_inbox (filter (\<lambda>p. peer_id p \<in> ids) (ep_peers ep)), h1))
         else
           (map peer_inbox (filter (\<lambda>p. socket_type_accepts_message (peer_socket_type p)
                                          (peer_subscriptions p) m h) (ep_peers ep)), h))"

definition manual_subscribe_last_peer :: "ref \<Rightarrow> bytes \<Rightarrow> ('z heap_scheme, error, unit) comp" where
  "manual_subscribe_last_peer e p h =
     (if ep_binder_type (endpoints h e) \<noteq> Xpub then (Inl NotSupported, h)
      else case ep_xpub_last_peer (endpoints h e) of
             None \<Rightarrow> (Inr (), h)
           | Some i \<Rightarrow> (Inr (), update_endpoint e (\<lambda>ep. ep\<lparr>ep_xpub_manual_topics :=
                         topic_insert p i (ep_xpub_manual_topics ep)\<rparr>) h))"

definition manual_unsubscribe_last_peer :: "ref \<Rightarrow> bytes \<Rightarrow> ('z heap_scheme, error, unit) comp" where
  "manual_unsubscribe_last_peer e p h =
     (if ep_binder_type (endpoints h e) \<noteq> Xpub then (Inl NotSupported, h)
      else case ep_xpub_last_peer (endpoints h e) of
             None \<Rightarrow> (Inr (), h)
           | Some i \<Rightarrow> (Inr (), update_endpoint e (\<lambda>ep. ep\<lparr>ep_xpub_manual_topics :=
                         topic_remove p i (ep_xpub_manual_topics ep)\<rparr>) h))"

text \<open>The loop of \<open>send_owned_to_matching_peers\<close>; a single peer takes the message without a copy.\<close>

fun send_loop :: "message \<Rightarrow> inproc_peer list \<Rightarrow> nat \<Rightarrow> 'z heap_scheme \<Rightarrow> nat \<times> 'z heap_scheme" where
  "send_loop m [] sent h = (sent, h)"
| "send_loop m (p # ps) sent h =
     (if socket_type_accepts_message (peer_socket_type p) (peer_subscriptions p) m h
      then send_loop m ps (sent + 1) (push_back (peer_inbox p) m h)
      else send_loop m ps sent h)"

definition send_owned_to_matching_peers :: "ref \<Rightarrow> message \<Rightarrow> 'z heap_scheme \<Rightarrow> nat \<times> 'z heap_scheme" where
  "send_owned_to_matching_peers e m h =
     (case ep_peers (endpoints h e) of
        [p] \<Rightarrow>
          if socket_type_accepts_message (peer_socket_type p) (peer_subscriptions p) m h
          then (1, push_back (peer_inbox p) m h) else (0, h)
      | ps \<Rightarrow> send_loop m ps 0 h)"


section \<open>What the operations leave alone\<close>

lemma push_back_simps [simp]:
  "subscriptions (push_back q m h) = subscriptions h"
  "lifecycle_msgs (push_back q m h) = lifecycle_msgs h"
  "welcomes (push_back q m h) = welcomes h"
  "policies (push_back q m h) = policies h"
  "endpoints (push_back q m h) = endpoints h"
  "next_ref (push_back q m h) = next_ref h"
  "heap.more (push_back q m h) = heap.more h"
  "queues (push_back q m h) = (queues h)(q := queues h q @ [m])"
  by (simp_all add: push_back_def)

lemma update_endpoint_simps [simp]:
  "subscriptions (update_endpoint e f h) = subscriptions h"
  "lifecycle_msgs (update_endpoint e f h) = lifecycle_msgs h"
  "welcomes (update_endpoint e f h) = welcomes h"
  "policies (update_endpoint e f h) = policies h"
  "queues (update_endpoint e f h) = queues h"
  "next_ref (update_endpoint e f h) = next_ref h"
  "heap.more (update_endpoint e f h) = heap.more h"
  "endpoints (update_endpoint e f h) = (endpoints h)(e := f (endpoints h e))"
  by (simp_all add: update_endpoint_def)

lemma set_last_peer_simps [simp]:
  "subscriptions (set_last_peer e i h) = subscriptions h"
  "lifecycle_msgs (set_last_peer e i h) = lifecycle_msgs h"
  "welcomes (set_last_peer e i h) = welcomes h"
  "policies (set_last_peer e i h) = policies h"
  "queues (set_last_peer e i h) = queues h"
  "next_ref (set_last_peer e i h) = next_ref h"
  "heap.more (set_last_peer e i h) = heap.more h"
  "endpoints (set_last_peer e i h) =
     (endpoints h)(e := (endpoints h e)\<lparr>ep_xpub_last_peer := Some i\<rparr>)"
  by (simp_all add: set_last_peer_def)

lemma accepts_cong: "subscriptions h = subscriptions h' \<Longrightarrow>
    socket_type_accepts_message t s m h = socket_type_accepts_message t s m h'"
  by (cases t) (simp_all add: socket_type_accepts_message_def split: option.split)

text \<open>The fields of an endpoint that are fixed when it is created, and those its peers keep.\<close>

definition same_binder :: "inproc_endpoint \<Rightarrow> inproc_endpoint \<Rightarrow> bool" where
  "same_binder ep ep' \<longleftrightarrow>
     ep_binder_inbox ep' = ep_binder_inbox ep \<and> ep_binder_type ep' = ep_binder_type ep
     \<and> ep_binder_subscriptions ep' = ep_binder_subscriptions ep
     \<and> ep_binder_disconnect_msg ep' = ep_binder_disconnect_msg ep
     \<and> ep_binder_welcome ep' = ep_binder_welcome ep
     \<and> ep_binder_xpub_policy ep' = ep_binder_xpub_policy ep"

lemma same_binder_refl [simp]: "same_binder ep ep"
  by (simp add: same_binder_def)

lemma same_binder_trans: "same_binder a b \<Longrightarrow> same_binder b c \<Longrightarrow> same_binder a c"
  by (auto simp: same_binder_def)

text \<open>A notification step: it may touch the binder's queue and the endpoint's topic bookkeeping only.\<close>

definition notifies :: "ref \<Rightarrow> 'z heap_scheme \<Rightarrow> 'z heap_scheme \<Rightarrow> bool" where
  "notifies e h h' \<longleftrightarrow>
     subscriptions h' = subscriptions h \<and> lifecycle_msgs h' = lifecycle_msgs h \<and> welcomes h' = welcomes h
     \<and> policies h' = policies h \<and> next_ref h' = next_ref h \<and> heap.more h' = heap.more h
     \<and> (\<forall>e'. e' \<noteq> e \<longrightarrow> endpoints h' e' = endpoints h e')
     \<and> same_binder (endpoints h e) (endpoints h' e)
     \<and> ep_peers (endpoints h' e) = ep_peers (endpoints h e)
     \<and> ep_next_peer (endpoints h' e) = ep_next_peer (endpoints h e)
     \<and> ep_xpub_manual_topics (endpoints h' e) = ep_xpub_manual_topics (endpoints h e)
     \<and> (\<forall>q. q \<noteq> ep_binder_inbox (endpoints h e) \<longrightarrow> queues h' q = queues h q)
     \<and> (\<exists>ms. queues h' (ep_binder_inbox (endpoints h e)) = queues h (ep_binder_inbox (endpoints h e)) @ ms)"

lemma notifies_refl [simp]: "notifies e h h"
  by (simp add: notifies_def)

lemma notifies_trans: "notifies e h h' \<Longrightarrow> notifies e h' h'' \<Longrightarrow> notifies e h h''"
  by (auto simp: notifies_def same_binder_def)

lemma notifies_fold: "(\<And>x h. x \<in> set xs \<Longrightarrow> notifies e h (f x h)) \<Longrightarrow> notifies e h (fold f xs h)"
  by (induction xs arbitrary: h) (auto intro: notifies_trans)

lemma should_replay_subscription_notifies:
  "should_replay_subscription e i p d h = (b, h') \<Longrightarrow> notifies e h h'"
  by (auto simp: should_replay_subscription_def notifies_def same_binder_def Let_def split: if_splits)

lemma should_replay_unsubscription_notifies:
  "should_replay_unsubscription e i p u h = (b, h') \<Longrightarrow> notifies e h h'"
  by (auto simp: should_replay_unsubscription_def notifies_def same_binder_def Let_def
      split: if_splits option.splits)

lemma replay_subscription_change_notifies: "notifies e h (replay_subscription_change e b p h)"
  by (auto simp: replay_subscription_change_def notifies_def)

lemma replay_notifies:
  "notifies e h (replay_subscription e i p h)"
  "notifies e h (replay_duplicate_subscription e i p h)"
  "notifies e h (replay_unsubscription e i p u h)"
  by (auto simp: replay_subscription_def replay_duplicate_subscription_def replay_unsubscription_def
      split: prod.splits
      intro: should_replay_subscription_notifies should_replay_unsubscription_notifies
        notifies_trans [OF _ replay_subscription_change_notifies])

lemma replay_xsub_subscriptions_notifies: "notifies e h (replay_xsub_subscriptions e p h)"
  by (auto simp: replay_xsub_subscriptions_def intro!: notifies_fold replay_notifies)


section \<open>Delivery to matching peers\<close>

lemma send_loop_spec:
  "send_loop m ps n h =
     (let qs = map peer_inbox (filter (\<lambda>p. socket_type_accepts_message (peer_socket_type p)
                                           (peer_subscriptions p) m h) ps)
      in (n + length qs, fold (\<lambda>q. push_back q m) qs h))"
proof (induction ps arbitrary: n h)
  case Nil
  then show ?case by simp
next
  case (Cons p ps)
  have "socket_type_accepts_message t s m (push_back q m h) = socket_type_accepts_message t s m h"
    for t s q and h :: "'a heap_scheme"
    by (rule accepts_cong) simp
  with Cons.IH show ?case
    by (simp add: Let_def)
qed

lemma send_owned_spec:
  "send_owned_to_matching_peers e m h =
     (let qs = map peer_inbox (filter (\<lambda>p. socket_type_accepts_message (peer_socket_type p)
                                           (peer_subscriptions p) m h) (ep_peers (endpoints h e)))
      in (length qs, fold (\<lambda>q. push_back q m) qs h))"
  by (simp add: send_owned_to_matching_peers_def send_loop_spec Let_def split: list.split)

lemma fold_push_back_queues:
  "queues (fold (\<lambda>q. push_back q m) qs h) q = queues h q @ replicate (count_list qs q) m"
  by (induction qs arbitrary: h) (auto simp: replicate_append_same [symmetric])

lemma fold_push_back_rest [simp]:
  "endpoints (fold (\<lambda>q. push_back q m) qs h) = endpoints h"
  "subscriptions (fold (\<lambda>q. push_back q m) qs h) = subscriptions h"
  "policies (fold (\<lambda>q. push_back q m) qs h) = policies h"
  "heap.more (fold (\<lambda>q. push_back q m) qs h) = heap.more h"
  by (induction qs arbitrary: h) simp_all


section \<open>Round robin\<close>

fun next_peers :: "nat \<Rightarrow> ref \<Rightarrow> 'z heap_scheme \<Rightarrow> ref option list" where
  "next_peers 0 e h = []"
| "next_peers (Suc n) e h = (case next_peer e h of (r, h') \<Rightarrow> r # next_peers n e h')"

lemma next_peer_Some:
  assumes "ep_peers (endpoints h e) \<noteq> []"
  shows "next_peer e h =
     (Some (peer_inbox (ep_peers (endpoints h e) ! (unat (ep_next_peer (endpoints h e)) mod length (ep_peers (endpoints h e))))),
      update_endpoint e (\<lambda>ep. ep\<lparr>ep_next_peer := ep_next_peer (endpoints h e) + 1\<rparr>) h)"
  using assms by (simp add: next_peer_def Let_def)

lemma next_peers_nth:
  assumes "ps \<noteq> []" "ep_peers (endpoints h e) = ps"
    and "unat (ep_next_peer (endpoints h e)) + n < 2 ^ 64"
  shows "next_peers n e h =
     map (\<lambda>k. Some (peer_inbox (ps ! ((unat (ep_next_peer (endpoints h e)) + k) mod length ps)))) [0..<n]"
  using assms
proof (induction n arbitrary: h)
  case 0
  then show ?case by simp
next
  case (Suc n)
  let ?c = "ep_next_peer (endpoints h e)"
  let ?h = "update_endpoint e (\<lambda>ep. ep\<lparr>ep_next_peer := ?c + 1\<rparr>) h"
  have c: "unat (?c + 1) = unat ?c + 1"
    using Suc.prems(3) by (simp add: unat_word_ariths)
  have "next_peers n e ?h = map (\<lambda>k. Some (peer_inbox (ps ! ((unat (?c + 1) + k) mod length ps)))) [0..<n]"
    using Suc.IH [of ?h] Suc.prems c by simp
  also have "\<dots> = map (\<lambda>k. Some (peer_inbox (ps ! ((unat ?c + k) mod length ps)))) (map Suc [0..<n])"
    by (simp add: c)
  finally show ?case
    using Suc.prems by (simp add: next_peer_Some map_Suc_upt upt_conv_Cons del: upt_Suc)
qed

lemma map_nth_rotate:
  "xs \<noteq> [] \<Longrightarrow> map (\<lambda>k. xs ! ((c + k) mod length xs)) [0..<length xs] = rotate c xs"
  by (rule nth_equalityI) (simp_all add: nth_rotate add.commute)



section \<open>Topic bookkeeping\<close>

text \<open>The abstract state behind the topic map: which peer holds which topic.\<close>

definition topics_rel :: "topics \<Rightarrow> (bytes \<times> u64) set" where
  "topics_rel ts = {(p, i). i \<in> topic_peers ts p}"

definition topics_wf :: "topics \<Rightarrow> bool" where
  "topics_wf ts \<longleftrightarrow> (\<forall>p. Mapping.lookup ts p \<noteq> Some {})"

lemma topics_empty [simp]: "topics_wf Mapping.empty" "topics_rel Mapping.empty = {}"
  by (simp_all add: topics_wf_def topics_rel_def topic_peers_def)

lemma topic_peers_insert:
  "topic_peers (topic_insert p i ts) p' = (if p' = p then insert i (topic_peers ts p) else topic_peers ts p')"
  by (auto simp: topic_peers_def topic_insert_def Mapping.lookup_update')

lemma topic_peers_remove:
  "topic_peers (topic_remove p i ts) p' = (if p' = p then topic_peers ts p - {i} else topic_peers ts p')"
  by (auto simp: topic_peers_def topic_remove_def Mapping.lookup_update' lookup_delete_if split: option.splits)

lemma topics_wf_insert: "topics_wf ts \<Longrightarrow> topics_wf (topic_insert p i ts)"
  by (simp add: topics_wf_def topic_insert_def Mapping.lookup_update')

lemma topics_wf_remove: "topics_wf ts \<Longrightarrow> topics_wf (topic_remove p i ts)"
  by (auto simp: topics_wf_def topic_remove_def Mapping.lookup_update' lookup_delete_if split: option.splits)

lemma topics_rel_insert: "topics_rel (topic_insert p i ts) = insert (p, i) (topics_rel ts)"
  by (auto simp: topics_rel_def topic_peers_insert split: if_splits)

lemma topics_rel_remove: "topics_rel (topic_remove p i ts) = topics_rel ts - {(p, i)}"
  by (auto simp: topics_rel_def topic_peers_remove split: if_splits)

lemma topic_peers_fold_remove:
  "topic_peers (fold (\<lambda>pre. topic_remove pre i) ps ts) p =
     (if p \<in> set ps then topic_peers ts p - {i} else topic_peers ts p)"
  by (induction ps arbitrary: ts) (auto simp: topic_peers_remove)

text \<open>The set of topics an application sees by applying the notification frames in order.\<close>

definition apply_frame :: "message \<Rightarrow> bytes set \<Rightarrow> bytes set" where
  "apply_frame m V = (case data m of [] \<Rightarrow> V | b # p \<Rightarrow> if b = 1 then insert p V else if b = 0 then V - {p} else V)"

lemma apply_frame_subscription [simp]:
  "apply_frame (subscription_frame True p) V = insert p V"
  "apply_frame (subscription_frame False p) V = V - {p}"
  by (simp_all add: apply_frame_def subscription_frame_def)

text \<open>One event an XSUB peer causes at the endpoint: subscribe (\<open>True\<close>) or unsubscribe.\<close>

fun topic_event :: "ref \<Rightarrow> bool \<times> u64 \<times> bytes \<Rightarrow> 'z heap_scheme \<Rightarrow> 'z heap_scheme" where
  "topic_event e (True, i, p) h = replay_subscription e i p h"
| "topic_event e (False, i, p) h = replay_unsubscription e i p False h"

fun rel_event :: "bool \<times> u64 \<times> bytes \<Rightarrow> (bytes \<times> u64) set \<Rightarrow> (bytes \<times> u64) set" where
  "rel_event (True, i, p) R = insert (p, i) R"
| "rel_event (False, i, p) R = R - {(p, i)}"

definition unit_policy :: "ref \<Rightarrow> 'z heap_scheme \<Rightarrow> bool" where
  "unit_policy e h \<longleftrightarrow> ep_binder_type (endpoints h e) = Xpub
     \<and> \<not> verbose_unsubscribe (endpoint_policy e h) \<and> \<not> manual (endpoint_policy e h)"

lemma unit_policy_notifies: "notifies e h h' \<Longrightarrow> unit_policy e h' = unit_policy e h"
  by (simp add: unit_policy_def notifies_def same_binder_def endpoint_policy_def)

text \<open>Each event updates the relation and appends the frames that carry the change of the view.\<close>

lemma replay_subscription_step:
  fixes e i p and h :: "'z heap_scheme"
  assumes "unit_policy e h" and wf: "topics_wf (ep_xpub_peer_topics (endpoints h e))"
  defines "ts \<equiv> ep_xpub_peer_topics (endpoints h e)" and "h' \<equiv> replay_subscription e i p h"
  shows "ep_xpub_peer_topics (endpoints h' e) = topic_insert p i ts"
    and "\<exists>ms. queues h' (ep_binder_inbox (endpoints h e)) = queues h (ep_binder_inbox (endpoints h e)) @ ms
           \<and> fold apply_frame ms (Domain (topics_rel ts)) = insert p (Domain (topics_rel ts))"
proof -
  show "ep_xpub_peer_topics (endpoints h' e) = topic_insert p i ts"
    using assms by (simp add: replay_subscription_def should_replay_subscription_def
        replay_subscription_change_def unit_policy_def Let_def)
  show "\<exists>ms. queues h' (ep_binder_inbox (endpoints h e)) = queues h (ep_binder_inbox (endpoints h e)) @ ms
           \<and> fold apply_frame ms (Domain (topics_rel ts)) = insert p (Domain (topics_rel ts))"
  proof (cases "card (insert i (topic_peers ts p)) = 1 \<or> verbose_subscribe (endpoint_policy e h)")
    case True
    then show ?thesis
      using assms by (intro exI [of _ "[subscription_frame True p]"])
        (simp add: replay_subscription_def should_replay_subscription_def
          replay_subscription_change_def unit_policy_def topic_peers_insert Let_def)
  next
    case False
    then have "topic_peers ts p \<noteq> {}"
      by auto
    then have "p \<in> Domain (topics_rel ts)"
      by (auto simp: topics_rel_def)
    with False show ?thesis
      using assms by (intro exI [of _ "[]"])
        (auto simp: replay_subscription_def should_replay_subscription_def
          replay_subscription_change_def unit_policy_def topic_peers_insert Let_def)
  qed
qed

lemma replay_unsubscription_step:
  fixes e i p and h :: "'z heap_scheme"
  assumes "unit_policy e h" and wf: "topics_wf (ep_xpub_peer_topics (endpoints h e))"
  defines "ts \<equiv> ep_xpub_peer_topics (endpoints h e)" and "h' \<equiv> replay_unsubscription e i p False h"
  shows "ep_xpub_peer_topics (endpoints h' e) = topic_remove p i ts"
    and "\<exists>ms. queues h' (ep_binder_inbox (endpoints h e)) = queues h (ep_binder_inbox (endpoints h e)) @ ms
           \<and> fold apply_frame ms (Domain (topics_rel ts)) = Domain (topics_rel (topic_remove p i ts))"
proof -
  show "ep_xpub_peer_topics (endpoints h' e) = topic_remove p i ts"
    using assms by (auto simp: replay_unsubscription_def should_replay_unsubscription_def
        replay_subscription_change_def unit_policy_def topic_remove_def Let_def split: option.splits)
  show "\<exists>ms. queues h' (ep_binder_inbox (endpoints h e)) = queues h (ep_binder_inbox (endpoints h e)) @ ms
           \<and> fold apply_frame ms (Domain (topics_rel ts)) = Domain (topics_rel (topic_remove p i ts))"
  proof (cases "topic_peers ts p - {i} = {}")
    case True
    then have "Domain (topics_rel ts) - {p} = Domain (topics_rel (topic_remove p i ts))"
      by (auto simp: topics_rel_def topic_peers_remove split: if_splits)
    with True show ?thesis
      using assms by (intro exI [of _ "[subscription_frame False p]"])
        (auto simp: replay_unsubscription_def should_replay_unsubscription_def topic_peers_def
          replay_subscription_change_def unit_policy_def Let_def split: option.splits)
  next
    case False
    then have "Domain (topics_rel ts) = Domain (topics_rel (topic_remove p i ts))"
      by (auto simp: topics_rel_def topic_peers_remove split: if_splits)
    with False show ?thesis
      using assms by (intro exI [of _ "[]"])
        (auto simp: replay_unsubscription_def should_replay_unsubscription_def topic_peers_def
          replay_subscription_change_def unit_policy_def Let_def split: option.splits)
  qed
qed

lemma topic_event_notifies: "notifies e h (topic_event e ev h)"
  by (cases "(e, ev, h)" rule: topic_event.cases) (simp_all add: replay_notifies)

lemma topic_event_step:
  fixes e ev and h :: "'z heap_scheme"
  assumes "unit_policy e h" and "topics_wf (ep_xpub_peer_topics (endpoints h e))"
  defines "ts \<equiv> ep_xpub_peer_topics (endpoints h e)" and "h' \<equiv> topic_event e ev h"
  shows "topics_wf (ep_xpub_peer_topics (endpoints h' e))"
    and "topics_rel (ep_xpub_peer_topics (endpoints h' e)) = rel_event ev (topics_rel ts)"
    and "\<exists>ms. queues h' (ep_binder_inbox (endpoints h e)) = queues h (ep_binder_inbox (endpoints h e)) @ ms
           \<and> fold apply_frame ms (Domain (topics_rel ts)) = Domain (rel_event ev (topics_rel ts))"
proof -
  obtain b i p where ev: "ev = (b, i, p)"
    by (cases ev)
  show "topics_wf (ep_xpub_peer_topics (endpoints h' e))"
    and "topics_rel (ep_xpub_peer_topics (endpoints h' e)) = rel_event ev (topics_rel ts)"
    and "\<exists>ms. queues h' (ep_binder_inbox (endpoints h e)) = queues h (ep_binder_inbox (endpoints h e)) @ ms
           \<and> fold apply_frame ms (Domain (topics_rel ts)) = Domain (rel_event ev (topics_rel ts))"
    using replay_subscription_step [OF assms(1,2), of i p] replay_unsubscription_step [OF assms(1,2), of i p] assms(2)
    unfolding h'_def ts_def ev
    by (cases b; simp add: topics_wf_insert topics_wf_remove topics_rel_insert topics_rel_remove)+
qed

lemma topic_events_run:
  fixes e evs and h :: "'z heap_scheme"
  assumes "unit_policy e h" and "topics_wf (ep_xpub_peer_topics (endpoints h e))"
  defines "ts \<equiv> ep_xpub_peer_topics (endpoints h e)" and "h' \<equiv> fold (topic_event e) evs h"
  shows "topics_rel (ep_xpub_peer_topics (endpoints h' e)) = fold rel_event evs (topics_rel ts)
    \<and> (\<exists>ms. queues h' (ep_binder_inbox (endpoints h e)) = queues h (ep_binder_inbox (endpoints h e)) @ ms
         \<and> fold apply_frame ms (Domain (topics_rel ts)) = Domain (fold rel_event evs (topics_rel ts)))"
  using assms(1,2) unfolding ts_def h'_def
proof (induction evs arbitrary: h)
  case Nil
  then show ?case by simp
next
  case (Cons ev evs)
  let ?h = "topic_event e ev h"
  note step = topic_event_step [OF Cons.prems, of ev]
  have n: "notifies e h ?h"
    by (rule topic_event_notifies)
  then have inbox: "ep_binder_inbox (endpoints ?h e) = ep_binder_inbox (endpoints h e)"
    by (simp add: notifies_def same_binder_def)
  from step(3) obtain ms where ms:
    "queues ?h (ep_binder_inbox (endpoints h e)) = queues h (ep_binder_inbox (endpoints h e)) @ ms"
    "fold apply_frame ms (Domain (topics_rel (ep_xpub_peer_topics (endpoints h e)))) =
       Domain (rel_event ev (topics_rel (ep_xpub_peer_topics (endpoints h e))))"
    by blast
  have "unit_policy e ?h"
    using Cons.prems(1) unit_policy_notifies [OF n] by simp
  from Cons.IH [OF this step(1)] obtain ms' where
    "topics_rel (ep_xpub_peer_topics (endpoints (fold (topic_event e) evs ?h) e)) =
       fold rel_event evs (rel_event ev (topics_rel (ep_xpub_peer_topics (endpoints h e))))"
    "queues (fold (topic_event e) evs ?h) (ep_binder_inbox (endpoints h e)) =
       queues ?h (ep_binder_inbox (endpoints h e)) @ ms'"
    "fold apply_frame ms' (Domain (rel_event ev (topics_rel (ep_xpub_peer_topics (endpoints h e))))) =
       Domain (fold rel_event evs (rel_event ev (topics_rel (ep_xpub_peer_topics (endpoints h e)))))"
    unfolding step(2) inbox by blast
  with ms show ?case
    by (intro conjI exI [of _ "ms @ ms'"]) simp_all
qed



section \<open>Adding and removing peers\<close>

lemma send_welcome_rest [simp]:
  "endpoints (send_welcome_to_xsub e p h) = endpoints h"
  "subscriptions (send_welcome_to_xsub e p h) = subscriptions h"
  "policies (send_welcome_to_xsub e p h) = policies h"
  "lifecycle_msgs (send_welcome_to_xsub e p h) = lifecycle_msgs h"
  "welcomes (send_welcome_to_xsub e p h) = welcomes h"
  "next_ref (send_welcome_to_xsub e p h) = next_ref h"
  "heap.more (send_welcome_to_xsub e p h) = heap.more h"
  by (auto simp: send_welcome_to_xsub_def split: option.split)

lemma add_peer_err: "\<not> inproc_types_compatible (ep_binder_type (endpoints h e)) t \<Longrightarrow>
    add_peer e i q t s h = (Inl NotSupported, h)"
  by (simp add: add_peer_def)

lemma add_peer_ok:
  assumes "inproc_types_compatible (ep_binder_type (endpoints h e)) t"
  obtains h' where "add_peer e i q t s h = (Inr (), h')"
    "ep_peers (endpoints h' e) = ep_peers (endpoints h e) @
       [\<lparr>peer_id = i, peer_inbox = q, peer_socket_type = t, peer_subscriptions = s\<rparr>]"
    "same_binder (endpoints h e) (endpoints h' e)"
    "\<And>e'. e' \<noteq> e \<Longrightarrow> endpoints h' e' = endpoints h e'"
    "subscriptions h' = subscriptions h" "policies h' = policies h" "lifecycle_msgs h' = lifecycle_msgs h"
    "welcomes h' = welcomes h" "next_ref h' = next_ref h" "heap.more h' = heap.more h"
proof -
  let ?p = "\<lparr>peer_id = i, peer_inbox = q, peer_socket_type = t, peer_subscriptions = s\<rparr>"
  let ?h1 = "update_endpoint e (\<lambda>ep. ep\<lparr>ep_peers := ep_peers ep @ [?p]\<rparr>) h"
  have n: "notifies e ?h1 (replay_xsub_subscriptions e ?p ?h1)"
    by (rule replay_xsub_subscriptions_notifies)
  have "same_binder (endpoints h e) (endpoints ?h1 e)"
    by (simp add: same_binder_def)
  with n have "same_binder (endpoints h e) (endpoints (replay_xsub_subscriptions e ?p ?h1) e)"
    by (auto simp: notifies_def intro: same_binder_trans)
  then show ?thesis
    using assms n by (intro that [of "send_welcome_to_xsub e ?p (replay_xsub_subscriptions e ?p ?h1)"])
      (auto simp: add_peer_def Let_def notifies_def)
qed

text \<open>Between peers that are not XSUB sockets nothing is announced: only the peer list changes.\<close>

lemma add_peer_plain:
  "inproc_types_compatible (ep_binder_type (endpoints h e)) t \<Longrightarrow> t \<noteq> Xsub \<Longrightarrow>
     add_peer e i q t s h = (Inr (), update_endpoint e (\<lambda>ep. ep\<lparr>ep_peers := ep_peers ep @
       [\<lparr>peer_id = i, peer_inbox = q, peer_socket_type = t, peer_subscriptions = s\<rparr>]\<rparr>) h)"
  by (simp add: add_peer_def Let_def replay_xsub_subscriptions_def send_welcome_to_xsub_def)

lemma length_filter_neq: "length (filter P xs) \<noteq> length xs \<longleftrightarrow> (\<exists>x \<in> set xs. \<not> P x)"
  using length_filter_less [of _ xs P] filter_id_conv [of P xs] by fastforce

lemma remove_xsub_endpoint:
  fixes e p t and h :: "'z heap_scheme"
  defines "h' \<equiv> remove_xsub_peer_subscriptions e p h"
  shows "ep_peers (endpoints h' e) = ep_peers (endpoints h e)"
    and "same_binder (endpoints h e) (endpoints h' e)"
    and "lifecycle_msgs h' = lifecycle_msgs h"
    and "\<exists>ms. queues h' (ep_binder_inbox (endpoints h e)) = queues h (ep_binder_inbox (endpoints h e)) @ ms"
    and "topic_peers (ep_xpub_manual_topics (endpoints h' e)) t =
      (if ep_binder_type (endpoints h e) = Xpub \<and> t \<in> set (sub_prefixes (subscriptions h (peer_subscriptions p)))
       then topic_peers (ep_xpub_manual_topics (endpoints h e)) t - {peer_id p}
       else topic_peers (ep_xpub_manual_topics (endpoints h e)) t)"
proof -
  let ?ps = "sub_prefixes (subscriptions h (peer_subscriptions p))"
  let ?h1 = "fold (\<lambda>pre. replay_unsubscription e (peer_id p) pre False) ?ps h"
  have n: "notifies e h ?h1"
    by (rule notifies_fold) (rule replay_notifies)
  show "ep_peers (endpoints h' e) = ep_peers (endpoints h e)"
    "same_binder (endpoints h e) (endpoints h' e)"
    "lifecycle_msgs h' = lifecycle_msgs h"
    "\<exists>ms. queues h' (ep_binder_inbox (endpoints h e)) = queues h (ep_binder_inbox (endpoints h e)) @ ms"
    "topic_peers (ep_xpub_manual_topics (endpoints h' e)) t =
      (if ep_binder_type (endpoints h e) = Xpub \<and> t \<in> set ?ps
       then topic_peers (ep_xpub_manual_topics (endpoints h e)) t - {peer_id p}
       else topic_peers (ep_xpub_manual_topics (endpoints h e)) t)"
    using n unfolding h'_def
    by (simp_all add: remove_xsub_peer_subscriptions_def Let_def notifies_def same_binder_def
        topic_peers_fold_remove)
qed

lemma find_None_ids: "List.find (\<lambda>p. peer_id p = i) ps = None \<longleftrightarrow> i \<notin> peer_id ` set ps"
  by (auto simp: find_None_iff)

lemma find_Some_id: "List.find (\<lambda>p. peer_id p = i) ps = Some p \<Longrightarrow> p \<in> set ps \<and> peer_id p = i"
  by (auto simp: find_Some_iff)


lemma set_routing_id_zero [simp]: "set_routing_id 0 (message_from_vec d) = message_from_vec d"
  by (simp add: set_routing_id_def message_from_vec_def)

text \<open>The state between dropping the peer from the list and sending the disconnect message.\<close>

definition after_removal :: "ref \<Rightarrow> u64 \<Rightarrow> 'z heap_scheme \<Rightarrow> 'z heap_scheme" where
  "after_removal e i h =
     (let h1 = update_endpoint e (\<lambda>ep. ep\<lparr>ep_peers := filter (\<lambda>p. peer_id p \<noteq> i) (ep_peers ep)\<rparr>) h
      in case List.find (\<lambda>p. peer_id p = i) (ep_peers (endpoints h e)) of
           Some p \<Rightarrow> if peer_socket_type p = Xsub then remove_xsub_peer_subscriptions e p h1 else h1
         | None \<Rightarrow> h1)"

lemma remove_peer_eq:
  "remove_peer e i notify h =
     (i \<in> peer_id ` set (ep_peers (endpoints h e)),
      if i \<in> peer_id ` set (ep_peers (endpoints h e)) \<and> notify
      then send_disconnect_message e (ucast i) (after_removal e i h) else after_removal e i h)"
proof -
  have "(length (filter (\<lambda>p. peer_id p \<noteq> i) ps) = length ps) = (i \<notin> peer_id ` set ps)" for ps :: "inproc_peer list"
    using length_filter_neq [of "\<lambda>p. peer_id p \<noteq> i" ps] by auto
  then show ?thesis
    by (simp add: remove_peer_def after_removal_def Let_def)
qed

lemma fst_remove_peer: "fst (remove_peer e i notify h) = (i \<in> peer_id ` set (ep_peers (endpoints h e)))"
  by (simp add: remove_peer_eq)

lemma after_removal_endpoint:
  fixes e i t and h :: "'z heap_scheme"
  defines "h' \<equiv> after_removal e i h"
  shows "ep_peers (endpoints h' e) = filter (\<lambda>p. peer_id p \<noteq> i) (ep_peers (endpoints h e))"
    and "same_binder (endpoints h e) (endpoints h' e)"
    and "lifecycle_msgs h' = lifecycle_msgs h"
    and "\<exists>ms. queues h' (ep_binder_inbox (endpoints h e)) = queues h (ep_binder_inbox (endpoints h e)) @ ms"
    and "List.find (\<lambda>p. peer_id p = i) (ep_peers (endpoints h e)) = Some p \<Longrightarrow>
      t \<notin> set (sub_prefixes (subscriptions h (peer_subscriptions p))) \<Longrightarrow>
      topic_peers (ep_xpub_manual_topics (endpoints h' e)) t = topic_peers (ep_xpub_manual_topics (endpoints h e)) t"
proof -
  let ?h1 = "update_endpoint e (\<lambda>ep. ep\<lparr>ep_peers := filter (\<lambda>p. peer_id p \<noteq> i) (ep_peers ep)\<rparr>) h"
  note r = remove_xsub_endpoint [where e = e and h = ?h1]
  have sb: "same_binder (endpoints h e) (endpoints ?h1 e)"
    by (simp add: same_binder_def)
  show "ep_peers (endpoints h' e) = filter (\<lambda>p. peer_id p \<noteq> i) (ep_peers (endpoints h e))"
    using r(1) by (auto simp: h'_def after_removal_def Let_def split: option.split)
  show "same_binder (endpoints h e) (endpoints h' e)"
    using r(2) sb by (auto simp: h'_def after_removal_def Let_def split: option.split intro: same_binder_trans)
  show "lifecycle_msgs h' = lifecycle_msgs h"
    using r(3) by (auto simp: h'_def after_removal_def Let_def split: option.split)
  show "\<exists>ms. queues h' (ep_binder_inbox (endpoints h e)) = queues h (ep_binder_inbox (endpoints h e)) @ ms"
    using r(4) by (auto simp: h'_def after_removal_def Let_def split: option.split)
  show "List.find (\<lambda>p. peer_id p = i) (ep_peers (endpoints h e)) = Some p \<Longrightarrow>
      t \<notin> set (sub_prefixes (subscriptions h (peer_subscriptions p))) \<Longrightarrow>
      topic_peers (ep_xpub_manual_topics (endpoints h' e)) t = topic_peers (ep_xpub_manual_topics (endpoints h e)) t"
    using r(5) [where p = p and t = t] by (auto simp: h'_def after_removal_def Let_def)
qed

lemma after_removal_rest:
  fixes e i and h :: "'z heap_scheme"
  shows "e' \<noteq> e \<Longrightarrow> endpoints (after_removal e i h) e' = endpoints h e'"
    and "next_ref (after_removal e i h) = next_ref h"
    and "heap.more (after_removal e i h) = heap.more h"
proof -
  have n: "notifies e g (fold (\<lambda>pre. replay_unsubscription e j pre False) ps g)" for j ps and g :: "'z heap_scheme"
    by (rule notifies_fold) (rule replay_notifies)
  show "e' \<noteq> e \<Longrightarrow> endpoints (after_removal e i h) e' = endpoints h e'"
    "next_ref (after_removal e i h) = next_ref h" "heap.more (after_removal e i h) = heap.more h"
    using n by (auto simp: after_removal_def remove_xsub_peer_subscriptions_def notifies_def Let_def
        split: option.split)
qed

lemma send_disconnect_rest [simp]:
  "endpoints (send_disconnect_message e r h) = endpoints h"
  "next_ref (send_disconnect_message e r h) = next_ref h"
  "heap.more (send_disconnect_message e r h) = heap.more h"
  by (simp_all add: send_disconnect_message_def Let_def)

lemma remove_peer_frame:
  fixes e i n and h :: "'z heap_scheme"
  defines "h' \<equiv> snd (remove_peer e i n h)"
  shows "ep_peers (endpoints h' e) = filter (\<lambda>p. peer_id p \<noteq> i) (ep_peers (endpoints h e))"
    and "same_binder (endpoints h e) (endpoints h' e)"
    and "e' \<noteq> e \<Longrightarrow> endpoints h' e' = endpoints h e'"
    and "next_ref h' = next_ref h" and "heap.more h' = heap.more h"
  unfolding h'_def by (simp_all add: remove_peer_eq after_removal_endpoint after_removal_rest)

lemma send_disconnect_queue:
  "queues (send_disconnect_message e r h) (ep_binder_inbox (endpoints h e)) =
     queues h (ep_binder_inbox (endpoints h e)) @
       (if lifecycle_msgs h (ep_binder_disconnect_msg (endpoints h e)) \<noteq> []
        then [set_routing_id (if ep_binder_type (endpoints h e) \<in> {Router, Rep, Server, Peer} then r else 0)
                (message_from_vec (lifecycle_msgs h (ep_binder_disconnect_msg (endpoints h e))))]
        else [])"
  by (simp add: send_disconnect_message_def Let_def)


section \<open>Properties\<close>

text \<open>C24. Publishing to the peers of an endpoint: \<open>send_owned_to_matching_peers\<close> returns the number of peers
  that accept the message and appends one copy of it to the queue of each of them, in every
  case (none, one or several peers), and changes nothing else.\<close>

theorem publish_delivers_to_matching:
  fixes e m and h :: "'z heap_scheme"
  defines "accepting \<equiv> filter (\<lambda>p. socket_type_accepts_message (peer_socket_type p) (peer_subscriptions p) m h)
                               (ep_peers (endpoints h e))"
  shows "fst (send_owned_to_matching_peers e m h) = length accepting
    \<and> (\<forall>q. queues (snd (send_owned_to_matching_peers e m h)) q =
           queues h q @ replicate (count_list (map peer_inbox accepting) q) m)
    \<and> (snd (send_owned_to_matching_peers e m h))\<lparr>queues := queues h\<rparr> = h"
proof -
  have "(fold (\<lambda>q. push_back q m) qs h')\<lparr>queues := queues h\<rparr> = h'\<lparr>queues := queues h\<rparr>" for qs and h' :: "'z heap_scheme"
    by (induction qs arbitrary: h') (simp_all add: push_back_def)
  then show ?thesis
    by (simp add: send_owned_spec accepting_def Let_def fold_push_back_queues)
qed

text \<open>Load balancing is fair: for an endpoint with \<open>n\<close> peers, \<open>n\<close> consecutive picks of \<open>next_peer\<close>
  visit every peer exactly once, in the order of the peer list rotated to the counter, as long
  as the 64-bit counter does not wrap in between.\<close>

theorem round_robin_fair:
  assumes "ep_peers (endpoints h e) = ps" and "ps \<noteq> []"
    and "unat (ep_next_peer (endpoints h e)) + length ps < 2 ^ 64"
  shows "next_peers (length ps) e h =
     map (\<lambda>p. Some (peer_inbox p)) (rotate (unat (ep_next_peer (endpoints h e))) ps)"
proof -
  let ?c = "unat (ep_next_peer (endpoints h e))"
  have "next_peers (length ps) e h = map (\<lambda>k. Some (peer_inbox (ps ! ((?c + k) mod length ps)))) [0..<length ps]"
    using next_peers_nth [OF assms(2,1,3)] .
  also have "\<dots> = map (\<lambda>p. Some (peer_inbox p)) (map (\<lambda>k. ps ! ((?c + k) mod length ps)) [0..<length ps])"
    by simp
  finally show ?thesis
    using map_nth_rotate [OF assms(2), of ?c] by simp
qed

definition heap_example :: "inproc_endpoint \<Rightarrow> heap" where
  "heap_example ep = \<lparr>queues = (\<lambda>_. []), subscriptions = (\<lambda>_. subscription_default), lifecycle_msgs = (\<lambda>_. []),
     welcomes = (\<lambda>_. None), policies = (\<lambda>_. xpub_policy_default), endpoints = (\<lambda>_. ep), next_ref = 4\<rparr>"

definition endpoint_example :: "socket_type \<Rightarrow> inproc_endpoint" where
  "endpoint_example t = endpoint_new \<lparr>bd_inbox = 0, bd_socket_type = t, bd_subscriptions = 0,
     bd_disconnect_msg = 0, bd_welcome = 0, bd_xpub_policy = 0\<rparr>"

definition peer_example :: "nat \<Rightarrow> socket_type \<Rightarrow> inproc_peer" where
  "peer_example n t = \<lparr>peer_id = word_of_nat n, peer_inbox = n, peer_socket_type = t, peer_subscriptions = n\<rparr>"

theorem round_robin_fair_witness:
  "next_peers 3 1 (heap_example ((endpoint_example Push)\<lparr>ep_peers := [peer_example 1 Pull, peer_example 2 Pull, peer_example 3 Pull],
       ep_next_peer := 7\<rparr>)) = [Some 2, Some 3, Some 1]"
proof -
  let ?ps = "[peer_example 1 Pull, peer_example 2 Pull, peer_example 3 Pull]"
  let ?h = "heap_example ((endpoint_example Push)\<lparr>ep_peers := ?ps, ep_next_peer := 7\<rparr>)"
  have eq: "next_peers (length ?ps) 1 ?h = map (\<lambda>p. Some (peer_inbox p)) (rotate (unat (ep_next_peer (endpoints ?h 1))) ?ps)"
    by (rule round_robin_fair) (simp_all add: heap_example_def)
  have l: "length ?ps = 3" and c: "unat (ep_next_peer (endpoints ?h 1)) = 7"
    by (simp_all add: heap_example_def)
  have r: "rotate 7 ?ps = [peer_example 2 Pull, peer_example 3 Pull, peer_example 1 Pull]"
    by (subst rotate_conv_mod) simp
  show ?thesis
    using eq unfolding l c r by (simp add: peer_example_def)
qed

text \<open>C23. Aggregation of subscriptions at an XPUB endpoint (without manual mode and verbose
  unsubscriptions): after any interleaving of subscriptions and unsubscriptions of any peers,
  the endpoint records exactly which peer holds which topic, and the notifications it put into
  the XPUB queue describe exactly the topics held by at least one peer.\<close>

theorem xpub_topics_aggregate:
  fixes h :: "'z heap_scheme"
  assumes "unit_policy e h" and "ep_xpub_peer_topics (endpoints h e) = Mapping.empty"
  shows "topics_rel (ep_xpub_peer_topics (endpoints (fold (topic_event e) evs h) e)) = fold rel_event evs {}
    \<and> (\<exists>ms. queues (fold (topic_event e) evs h) (ep_binder_inbox (endpoints h e)) =
              queues h (ep_binder_inbox (endpoints h e)) @ ms
         \<and> fold apply_frame ms {} = Domain (fold rel_event evs {}))"
  using topic_events_run [OF assms(1), of evs] assms(2) by simp

theorem xpub_topics_aggregate_witness:
  "topics_rel (ep_xpub_peer_topics (endpoints
       (fold (topic_event 1) [(True, 5, [97]), (True, 6, [97]), (False, 5, [97])] (heap_example (endpoint_example Xpub))) 1)) =
       fold rel_event [(True, 5, [97]), (True, 6, [97]), (False, 5, [97])] {}
    \<and> (\<exists>ms. queues (fold (topic_event 1) [(True, 5, [97]), (True, 6, [97]), (False, 5, [97])] (heap_example (endpoint_example Xpub)))
              (ep_binder_inbox (endpoints (heap_example (endpoint_example Xpub)) 1)) =
              queues (heap_example (endpoint_example Xpub)) (ep_binder_inbox (endpoints (heap_example (endpoint_example Xpub)) 1)) @ ms
         \<and> fold apply_frame ms {} = Domain (fold rel_event [(True, 5, [97]), (True, 6, [97]), (False, 5, [97])] {}))"
  by (rule xpub_topics_aggregate)
    (simp_all add: unit_policy_def endpoint_policy_def heap_example_def endpoint_example_def endpoint_new_def
      xpub_policy_default_def)

text \<open>Removing a peer: the answer says whether a peer with the id was connected, no peer with that id
  remains and the others stay in order, and the binder gets its disconnect message exactly when
  a peer was removed, notification was asked for and a message is configured; a routing binder
  finds the low 32 bits of the peer id in it.\<close>

theorem remove_peer_spec:
  fixes h :: "'z heap_scheme" and e :: ref and i :: u64 and notify :: bool
  defines "h' \<equiv> snd (remove_peer e i notify h)" and "ep \<equiv> endpoints h e"
  shows "fst (remove_peer e i notify h) = (i \<in> peer_id ` set (ep_peers ep))
    \<and> ep_peers (endpoints h' e) = filter (\<lambda>p. peer_id p \<noteq> i) (ep_peers ep)
    \<and> (\<exists>ms. queues h' (ep_binder_inbox ep) = queues h (ep_binder_inbox ep) @ ms @
         (if i \<in> peer_id ` set (ep_peers ep) \<and> notify \<and> lifecycle_msgs h (ep_binder_disconnect_msg ep) \<noteq> []
          then [set_routing_id (if ep_binder_type ep \<in> {Router, Rep, Server, Peer} then ucast i else 0)
                  (message_from_vec (lifecycle_msgs h (ep_binder_disconnect_msg ep)))]
          else []))"
proof -
  let ?h1 = "after_removal e i h"
  note r = after_removal_endpoint [where e = e and i = i and h = h]
  from r(2) have b: "ep_binder_inbox (endpoints ?h1 e) = ep_binder_inbox ep"
    "ep_binder_type (endpoints ?h1 e) = ep_binder_type ep"
    "ep_binder_disconnect_msg (endpoints ?h1 e) = ep_binder_disconnect_msg ep"
    by (simp_all add: same_binder_def ep_def)
  from r(4) obtain ms where ms: "queues ?h1 (ep_binder_inbox ep) = queues h (ep_binder_inbox ep) @ ms"
    by (auto simp: ep_def)
  have "queues (send_disconnect_message e (ucast i) ?h1) (ep_binder_inbox ep) =
      queues ?h1 (ep_binder_inbox ep) @
       (if lifecycle_msgs h (ep_binder_disconnect_msg ep) \<noteq> []
        then [set_routing_id (if ep_binder_type ep \<in> {Router, Rep, Server, Peer} then ucast i else 0)
                (message_from_vec (lifecycle_msgs h (ep_binder_disconnect_msg ep)))] else [])"
    using send_disconnect_queue [of e "ucast i" ?h1] b r(3) by simp
  then show ?thesis
    using r(1) ms by (auto simp: remove_peer_eq h'_def ep_def)
qed

text \<open>A manual XPUB subscription can outlive its subscriber: disconnecting an XSUB peer clears its id
  only from the manual topics it had subscribed to itself, so a topic the application granted
  it under another name stays granted to that id.\<close>

theorem manual_topic_survives_disconnect:
  assumes "t \<notin> set (sub_prefixes (subscriptions h (peer_subscriptions p)))"
    and "List.find (\<lambda>p. peer_id p = i) (ep_peers (endpoints h e)) = Some p"
  shows "topic_peers (ep_xpub_manual_topics (endpoints (snd (remove_peer e i notify h)) e)) t =
         topic_peers (ep_xpub_manual_topics (endpoints h e)) t"
  using after_removal_endpoint(5) [OF assms(2,1)] by (simp add: remove_peer_eq)

theorem manual_topic_survives_disconnect_witness:
  "topic_peers (ep_xpub_manual_topics (endpoints (snd (remove_peer 1 2 True
       (heap_example ((endpoint_example Xpub)\<lparr>ep_peers := [peer_example 2 Xsub],
          ep_xpub_manual_topics := topic_insert [98] 2 Mapping.empty\<rparr>)))) 1)) [98] =
   topic_peers (ep_xpub_manual_topics (endpoints (heap_example ((endpoint_example Xpub)\<lparr>ep_peers := [peer_example 2 Xsub],
          ep_xpub_manual_topics := topic_insert [98] 2 Mapping.empty\<rparr>)) 1)) [98]"
  by (rule manual_topic_survives_disconnect [where p = "peer_example 2 Xsub"])
    (simp_all add: heap_example_def subscription_default_def peer_example_def)

end
