(* ===== verification/Zmq_Context.thy ===== *)
theory Zmq_Context
  imports Inproc
begin

text \<open>
  \<open>Context\<close> and \<open>ContextShared\<close> of \<open>crates/libzmq-core/src/context.rs\<close>: the life cycle of a
  context, its options, and the registry of in-process endpoints with the peers that connected
  before anybody bound the name. The context extends the heap of the shared cells.
\<close>

abbreviation STATE_RUNNING :: byte where "STATE_RUNNING \<equiv> 0"
abbreviation STATE_SHUTTING_DOWN :: byte where "STATE_SHUTTING_DOWN \<equiv> 1"
abbreviation STATE_TERMINATED :: byte where "STATE_TERMINATED \<equiv> 2"

record context_options =
  co_io_threads :: i32
  co_max_sockets :: i32
  co_max_msgsz :: i32
  co_thread_priority :: i32
  co_thread_sched_policy :: i32
  co_zero_copy_recv :: i32
  co_thread_name_prefix :: bytes
  co_thread_affinity_cpus :: "i32 set"
  co_ipv6 :: bool
  co_blocky :: bool

definition context_options_default :: context_options where
  "context_options_default =
     \<lparr>co_io_threads = ZMQ_IO_THREADS_DFLT, co_max_sockets = ZMQ_MAX_SOCKETS_DFLT,
      co_max_msgsz = i32_max, co_thread_priority = ZMQ_THREAD_PRIORITY_DFLT,
      co_thread_sched_policy = ZMQ_THREAD_SCHED_POLICY_DFLT, co_zero_copy_recv = 1,
      co_thread_name_prefix = [], co_thread_affinity_cpus = {}, co_ipv6 = False, co_blocky = True\<rparr>"

record context_socket_defaults =
  sd_ipv6 :: bool
  sd_blocky :: bool

record context_shared = heap +
  ctx_state :: byte
  ctx_next_socket_id :: u64
  ctx_options :: context_options
  ctx_inproc_endpoints :: "bytes \<rightharpoonup> ref"
  ctx_pending_inproc :: "bytes \<rightharpoonup> inproc_peer list"


section \<open>Life cycle and options\<close>

text \<open>An empty heap holds default cells; no reference below \<open>next_ref\<close> is in use yet.\<close>

definition context_new :: context_shared where
  "context_new =
     \<lparr>queues = (\<lambda>_. []), subscriptions = (\<lambda>_. subscription_default), lifecycle_msgs = (\<lambda>_. []),
      welcomes = (\<lambda>_. None), policies = (\<lambda>_. xpub_policy_default),
      endpoints = (\<lambda>_. endpoint_new \<lparr>bd_inbox = 0, bd_socket_type = Pair, bd_subscriptions = 0,
                     bd_disconnect_msg = 0, bd_welcome = 0, bd_xpub_policy = 0\<rparr>),
      next_ref = 0,
      ctx_state = STATE_RUNNING, ctx_next_socket_id = 1, ctx_options = context_options_default,
      ctx_inproc_endpoints = Map.empty, ctx_pending_inproc = Map.empty\<rparr>"

definition shutdown :: "'z context_shared_scheme \<Rightarrow> 'z context_shared_scheme" where
  "shutdown c = c\<lparr>ctx_state := STATE_SHUTTING_DOWN\<rparr>"

definition terminate :: "'z context_shared_scheme \<Rightarrow> 'z context_shared_scheme" where
  "terminate c = c\<lparr>ctx_state := STATE_TERMINATED\<rparr>"

definition is_terminated :: "'z context_shared_scheme \<Rightarrow> bool" where
  "is_terminated c = (ctx_state c = STATE_TERMINATED)"

definition ensure_running :: "'z context_shared_scheme \<Rightarrow> unit result" where
  "ensure_running c =
     (if ctx_state c = STATE_RUNNING then Inr ()
      else if ctx_state c = STATE_SHUTTING_DOWN \<or> ctx_state c = STATE_TERMINATED then Inl Terminated
      else Inl InvalidContext)"

definition socket_defaults :: "'z context_shared_scheme \<Rightarrow> context_socket_defaults" where
  "socket_defaults c = \<lparr>sd_ipv6 = co_ipv6 (ctx_options c), sd_blocky = co_blocky (ctx_options c)\<rparr>"

text \<open>\<open>fetch_add\<close> on the id counter.\<close>

definition next_transient_socket_id :: "'z context_shared_scheme \<Rightarrow> u64 \<times> 'z context_shared_scheme" where
  "next_transient_socket_id c =
     (ctx_next_socket_id c, c\<lparr>ctx_next_socket_id := ctx_next_socket_id c + 1\<rparr>)"

text \<open>
  \<open>atoi_i32\<close>: leading white space, an optional sign, then digits with saturating arithmetic.
\<close>

definition saturating_i32 :: "int \<Rightarrow> i32" where
  "saturating_i32 v = (if v < i32_min then i32_min else if v > i32_max then i32_max else v)"

definition is_atoi_space :: "byte \<Rightarrow> bool" where
  "is_atoi_space b \<longleftrightarrow> b = 32 \<or> b = 9 \<or> b = 10 \<or> b = 13 \<or> b = 0x0b \<or> b = 0x0c"

fun atoi_digits :: "bytes \<Rightarrow> i32 \<Rightarrow> i32" where
  "atoi_digits [] v = v"
| "atoi_digits (b # bs) v =
     (if is_digit b
      then atoi_digits bs (saturating_i32 (saturating_i32 (v * 10) + int (digit_value b)))
      else v)"

definition atoi_i32 :: "bytes \<Rightarrow> i32" where
  "atoi_i32 bs =
     (let r = dropWhile is_atoi_space bs;
          (sign, ds) = (case r of
              b # r' \<Rightarrow> if b = 45 then (- 1, r') else if b = 43 then (1, r') else (1, r)
            | [] \<Rightarrow> (1, r))
      in saturating_i32 (atoi_digits ds 0 * sign))"

definition context_set_option :: "i32 \<Rightarrow> i32 \<Rightarrow> context_options \<Rightarrow> unit result \<times> context_options" where
  "context_set_option opt v os =
     (if opt \<in> {ZMQ_IO_THREADS, ZMQ_MAX_MSGSZ, ZMQ_THREAD_PRIORITY, ZMQ_THREAD_SCHED_POLICY,
                ZMQ_THREAD_AFFINITY_CPU_ADD, ZMQ_THREAD_AFFINITY_CPU_REMOVE, ZMQ_ZERO_COPY_RECV,
                ZMQ_IPV6, ZMQ_BLOCKY} \<and> v < 0 then (Inl InvalidArgument, os)
      else if opt = ZMQ_MAX_SOCKETS \<and> v < 1 then (Inl InvalidArgument, os)
      else if opt = ZMQ_IO_THREADS then (Inr (), os\<lparr>co_io_threads := v\<rparr>)
      else if opt = ZMQ_MAX_SOCKETS then (Inr (), os\<lparr>co_max_sockets := v\<rparr>)
      else if opt = ZMQ_MAX_MSGSZ then (Inr (), os\<lparr>co_max_msgsz := v\<rparr>)
      else if opt = ZMQ_IPV6 then (Inr (), os\<lparr>co_ipv6 := (v \<noteq> 0)\<rparr>)
      else if opt = ZMQ_BLOCKY then (Inr (), os\<lparr>co_blocky := (v \<noteq> 0)\<rparr>)
      else if opt = ZMQ_THREAD_PRIORITY then (Inr (), os\<lparr>co_thread_priority := v\<rparr>)
      else if opt = ZMQ_THREAD_SCHED_POLICY then (Inr (), os\<lparr>co_thread_sched_policy := v\<rparr>)
      else if opt = ZMQ_ZERO_COPY_RECV then (Inr (), os\<lparr>co_zero_copy_recv := of_bool (v \<noteq> 0)\<rparr>)
      else if opt = ZMQ_THREAD_AFFINITY_CPU_ADD then
        (Inr (), os\<lparr>co_thread_affinity_cpus := insert v (co_thread_affinity_cpus os)\<rparr>)
      else if opt = ZMQ_THREAD_AFFINITY_CPU_REMOVE then
        (if v \<notin> co_thread_affinity_cpus os then (Inl InvalidArgument, os)
         else (Inr (), os\<lparr>co_thread_affinity_cpus := co_thread_affinity_cpus os - {v}\<rparr>))
      else if opt = ZMQ_THREAD_NAME_PREFIX then (Inr (), os\<lparr>co_thread_name_prefix := dec_int v\<rparr>)
      else (Inl InvalidArgument, os))"

definition context_set_option_bytes :: "i32 \<Rightarrow> bytes \<Rightarrow> context_options \<Rightarrow> unit result \<times> context_options" where
  "context_set_option_bytes opt v os =
     (if opt = ZMQ_THREAD_NAME_PREFIX \<and> v \<noteq> [] \<and> length v \<le> 16
      then (Inr (), os\<lparr>co_thread_name_prefix := v\<rparr>)
      else (Inl InvalidArgument, os))"

definition context_get_option :: "i32 \<Rightarrow> context_options \<Rightarrow> i32 result" where
  "context_get_option opt os =
     (if opt = ZMQ_IO_THREADS then Inr (co_io_threads os)
      else if opt = ZMQ_MAX_SOCKETS then Inr (co_max_sockets os)
      else if opt = ZMQ_SOCKET_LIMIT then Inr 65535
      else if opt = ZMQ_MAX_MSGSZ then Inr (co_max_msgsz os)
      else if opt = ZMQ_MSG_T_SIZE then Inr 64
      else if opt = ZMQ_IPV6 then Inr (of_bool (co_ipv6 os))
      else if opt = ZMQ_BLOCKY then Inr (of_bool (co_blocky os))
      else if opt = ZMQ_THREAD_SCHED_POLICY then Inr (co_thread_sched_policy os)
      else if opt = ZMQ_THREAD_NAME_PREFIX then Inr (atoi_i32 (co_thread_name_prefix os))
      else if opt = ZMQ_ZERO_COPY_RECV then Inr (co_zero_copy_recv os)
      else Inl InvalidArgument)"

definition context_get_option_bytes :: "i32 \<Rightarrow> context_options \<Rightarrow> bytes result" where
  "context_get_option_bytes opt os =
     (if opt = ZMQ_THREAD_NAME_PREFIX then Inr (co_thread_name_prefix os) else Inl InvalidArgument)"


section \<open>The registry of in-process endpoints\<close>

definition inproc_endpoint_of :: "bytes \<Rightarrow> 'z context_shared_scheme \<Rightarrow> ref option" where
  "inproc_endpoint_of name c = ctx_inproc_endpoints c name"

definition add_pending :: "ref \<Rightarrow> inproc_peer \<Rightarrow> ('z context_shared_scheme, error, unit) comp" where
  "add_pending e p = add_peer e (peer_id p) (peer_inbox p) (peer_socket_type p) (peer_subscriptions p)"

text \<open>
  \<open>bind_inproc\<close>: the endpoint object is allocated, the waiting peers leave the pending list and
  are added one by one, and the name is registered last. An incompatible waiting peer ends the
  operation after the pending list is gone and before the name is registered.
\<close>

definition bind_inproc :: "bytes \<Rightarrow> inproc_binder \<Rightarrow> ('z context_shared_scheme, error, ref) comp" where
  "bind_inproc name b c =
     (if ctx_inproc_endpoints c name \<noteq> None then (Inl InvalidArgument, c)
      else let e = next_ref c;
               pending = (case ctx_pending_inproc c name of None \<Rightarrow> [] | Some ps \<Rightarrow> ps);
               c1 = c\<lparr>endpoints := (endpoints c)(e := endpoint_new b), next_ref := e + 1,
                      ctx_pending_inproc := (ctx_pending_inproc c)(name := None)\<rparr>
           in bnd (for_each pending (add_pending e)) (\<lambda>_.
              bnd (modify (\<lambda>c. c\<lparr>ctx_inproc_endpoints := (ctx_inproc_endpoints c)(name \<mapsto> e)\<rparr>)) (\<lambda>_.
                ret e)) c1)"

definition connect_inproc ::
  "bytes \<Rightarrow> u64 \<Rightarrow> ref \<Rightarrow> socket_type \<Rightarrow> ref \<Rightarrow> ('z context_shared_scheme, error, ref option) comp" where
  "connect_inproc name i inbox t subs c =
     (case ctx_inproc_endpoints c name of
        Some e \<Rightarrow> bnd (add_peer e i inbox t subs) (\<lambda>_. ret (Some e)) c
      | None \<Rightarrow>
          let ps = (case ctx_pending_inproc c name of None \<Rightarrow> [] | Some ps \<Rightarrow> ps);
              p = \<lparr>peer_id = i, peer_inbox = inbox, peer_socket_type = t, peer_subscriptions = subs\<rparr>
          in (Inr None, c\<lparr>ctx_pending_inproc := (ctx_pending_inproc c)(name \<mapsto> ps @ [p])\<rparr>))"

definition unbind_inproc :: "bytes \<Rightarrow> ('z context_shared_scheme, error, ref) comp" where
  "unbind_inproc name c =
     (case ctx_inproc_endpoints c name of
        None \<Rightarrow> (Inl InvalidArgument, c)
      | Some e \<Rightarrow> (Inr e, c\<lparr>ctx_inproc_endpoints := (ctx_inproc_endpoints c)(name := None)\<rparr>))"

definition disconnect_inproc :: "bytes \<Rightarrow> u64 \<Rightarrow> ('z context_shared_scheme, error, unit) comp" where
  "disconnect_inproc name i c =
     (let (removed1, c1) = (case ctx_inproc_endpoints c name of
                              None \<Rightarrow> (False, c) | Some e \<Rightarrow> remove_peer e i True c);
          (removed2, c2) = (case ctx_pending_inproc c1 name of
              None \<Rightarrow> (False, c1)
            | Some ps \<Rightarrow>
                let ps' = filter (\<lambda>p. peer_id p \<noteq> i) ps
                in (length ps' \<noteq> length ps,
                    c1\<lparr>ctx_pending_inproc := (ctx_pending_inproc c1)(name := (if ps' = [] then None else Some ps'))\<rparr>))
      in if removed1 \<or> removed2 then (Inr (), c2) else (Inl InvalidArgument, c2))"


section \<open>Updates outside the heap\<close>

text \<open>
  The heap operations neither read nor write the fields a record adds to the heap. The locale
  captures such an update once; each registry update is an instance of it.
\<close>

locale frame_update =
  fixes U :: "'z heap_scheme \<Rightarrow> 'z heap_scheme"
  assumes U_queues: "queues (U h) = queues h"
    and U_subscriptions: "subscriptions (U h) = subscriptions h"
    and U_welcomes: "welcomes (U h) = welcomes h"
    and U_policies: "policies (U h) = policies h"
    and U_endpoints: "endpoints (U h) = endpoints h"
    and U_queues_update: "U (h\<lparr>queues := q\<rparr>) = (U h)\<lparr>queues := q\<rparr>"
    and U_endpoints_update: "U (h\<lparr>endpoints := eps\<rparr>) = (U h)\<lparr>endpoints := eps\<rparr>"
begin

lemmas U_reads = U_queues U_subscriptions U_welcomes U_policies U_endpoints

lemma U_push_back: "push_back q m (U h) = U (push_back q m h)"
  by (simp add: push_back_def U_reads U_queues_update)

lemma U_update_endpoint: "update_endpoint e f (U h) = U (update_endpoint e f h)"
  by (simp add: update_endpoint_def U_reads U_endpoints_update)

lemma U_set_last_peer: "set_last_peer e i (U h) = U (set_last_peer e i h)"
  by (simp add: set_last_peer_def U_update_endpoint)

lemma U_endpoint_policy: "endpoint_policy e (U h) = endpoint_policy e h"
  by (simp add: endpoint_policy_def U_reads)

lemma U_should_replay_subscription:
  "should_replay_subscription e i p d (U h) = map_prod id U (should_replay_subscription e i p d h)"
  by (simp add: should_replay_subscription_def U_reads U_endpoint_policy U_set_last_peer U_update_endpoint
      Let_def del: update_endpoint_simps)

lemma U_replay_subscription_change:
  "replay_subscription_change e b p (U h) = U (replay_subscription_change e b p h)"
  by (simp add: replay_subscription_change_def U_reads U_push_back)

lemma U_replay_subscription: "replay_subscription e i p (U h) = U (replay_subscription e i p h)"
  by (simp add: replay_subscription_def U_should_replay_subscription U_replay_subscription_change
      case_prod_beta)

lemma U_fold_replay: "fold (replay_subscription e i) ps (U h) = U (fold (replay_subscription e i) ps h)"
  by (induction ps arbitrary: h) (simp_all add: U_replay_subscription)

lemma U_replay_xsub: "replay_xsub_subscriptions e p (U h) = U (replay_xsub_subscriptions e p h)"
  by (simp add: replay_xsub_subscriptions_def U_reads U_fold_replay)

lemma U_welcome: "send_welcome_to_xsub e p (U h) = U (send_welcome_to_xsub e p h)"
  by (simp add: send_welcome_to_xsub_def U_reads U_push_back split: option.split)

lemma U_add_peer: "add_peer e i q t s (U h) = map_prod id U (add_peer e i q t s h)"
  by (simp add: add_peer_def U_reads U_update_endpoint U_replay_xsub U_welcome Let_def
      del: update_endpoint_simps)

end

interpretation registry: frame_update "\<lambda>c. ctx_inproc_endpoints_update f c" for f
  by unfold_locales simp_all

interpretation pending: frame_update "\<lambda>c. ctx_pending_inproc_update f c" for f
  by unfold_locales simp_all


section \<open>Waiting peers\<close>

definition binder_accepts_type :: "ref \<Rightarrow> 'z heap_scheme \<Rightarrow> inproc_peer \<Rightarrow> bool" where
  "binder_accepts_type e h p = inproc_types_compatible (ep_binder_type (endpoints h e)) (peer_socket_type p)"

lemma add_pending_cases:
  "add_pending e p c =
     (if binder_accepts_type e c p then (Inr (), snd (add_pending e p c)) else (Inl NotSupported, c))"
  by (auto simp: add_pending_def add_peer_def binder_accepts_type_def Let_def)

text \<open>What adding a peer to \<open>e\<close> keeps of the context.\<close>

definition adds_peers :: "ref \<Rightarrow> inproc_peer list \<Rightarrow> 'z context_shared_scheme \<Rightarrow> 'z context_shared_scheme \<Rightarrow> bool" where
  "adds_peers e ps c c' \<longleftrightarrow>
     ep_peers (endpoints c' e) = ep_peers (endpoints c e) @ ps
     \<and> same_binder (endpoints c e) (endpoints c' e)
     \<and> (\<forall>e'. e' \<noteq> e \<longrightarrow> endpoints c' e' = endpoints c e')
     \<and> next_ref c' = next_ref c \<and> heap.more c' = heap.more c"

lemma adds_peers_refl: "adds_peers e [] c c"
  by (simp add: adds_peers_def)

lemma adds_peers_trans: "adds_peers e ps c c' \<Longrightarrow> adds_peers e qs c' c'' \<Longrightarrow> adds_peers e (ps @ qs) c c''"
  by (auto simp: adds_peers_def intro: same_binder_trans)

lemma add_peer_adds:
  assumes "add_peer e i q t s c = (Inr (), c')"
  shows "adds_peers e [\<lparr>peer_id = i, peer_inbox = q, peer_socket_type = t, peer_subscriptions = s\<rparr>] c c'"
proof (cases "inproc_types_compatible (ep_binder_type (endpoints c e)) t")
  case True
  then show ?thesis
    by (rule add_peer_ok [where i = i and q = q and s = s]) (use assms in \<open>auto simp: adds_peers_def\<close>)
qed (use assms in \<open>simp add: add_peer_def\<close>)

lemma add_pending_adds:
  assumes "binder_accepts_type e c p"
  shows "adds_peers e [p] c (snd (add_pending e p c))"
proof -
  have "add_pending e p c = (Inr (), snd (add_pending e p c))"
    using assms add_pending_cases [of e p c] by simp
  then have "adds_peers e [\<lparr>peer_id = peer_id p, peer_inbox = peer_inbox p,
      peer_socket_type = peer_socket_type p, peer_subscriptions = peer_subscriptions p\<rparr>] c (snd (add_pending e p c))"
    unfolding add_pending_def by (rule add_peer_adds)
  then show ?thesis
    by (cases p) simp
qed

lemma adds_peers_type: "adds_peers e ps c c' \<Longrightarrow> binder_accepts_type e c' p = binder_accepts_type e c p"
  by (simp add: adds_peers_def same_binder_def binder_accepts_type_def)

lemma for_each_pending_ok:
  assumes "\<forall>p \<in> set ps. binder_accepts_type e c p"
  shows "\<exists>c'. for_each ps (add_pending e) c = (Inr (), c') \<and> adds_peers e ps c c'"
  using assms
proof (induction ps arbitrary: c)
  case Nil
  then show ?case by (simp add: adds_peers_refl)
next
  case (Cons p ps)
  let ?c = "snd (add_pending e p c)"
  have s: "add_pending e p c = (Inr (), ?c)" and a: "adds_peers e [p] c ?c"
    using Cons.prems add_pending_cases [of e p c] add_pending_adds [of e c p] by simp_all
  from Cons.IH [of ?c] Cons.prems adds_peers_type [OF a] obtain c' where
    "for_each ps (add_pending e) ?c = (Inr (), c')" "adds_peers e ps ?c c'"
    by auto
  with s a show ?case
    using adds_peers_trans [OF a] by fastforce
qed

lemma for_each_pending_err:
  assumes "\<exists>p \<in> set ps. \<not> binder_accepts_type e c p"
  shows "\<exists>c' qs. for_each ps (add_pending e) c = (Inl NotSupported, c') \<and> adds_peers e qs c c'"
  using assms
proof (induction ps arbitrary: c)
  case Nil
  then show ?case by simp
next
  case (Cons p ps)
  let ?c = "snd (add_pending e p c)"
  show ?case
  proof (cases "binder_accepts_type e c p")
    case True
    then have s: "add_pending e p c = (Inr (), ?c)" and a: "adds_peers e [p] c ?c"
      using add_pending_cases [of e p c] add_pending_adds [of e c p] by simp_all
    from Cons.IH [of ?c] Cons.prems True adds_peers_type [OF a] obtain c' qs where
      "for_each ps (add_pending e) ?c = (Inl NotSupported, c')" "adds_peers e qs ?c c'"
      by auto
    with s a show ?thesis
      using adds_peers_trans [OF a] by fastforce
  next
    case False
    then have "add_pending e p c = (Inl NotSupported, c)"
      using add_pending_cases [of e p c] by simp
    then show ?thesis
      using adds_peers_refl by fastforce
  qed
qed



section \<open>Binding and connecting\<close>

definition pending_peers :: "bytes \<Rightarrow> 'z context_shared_scheme \<Rightarrow> inproc_peer list" where
  "pending_peers name c = (case ctx_pending_inproc c name of None \<Rightarrow> [] | Some ps \<Rightarrow> ps)"

text \<open>The context in which the waiting peers are added to the new endpoint.\<close>

definition with_endpoint :: "bytes \<Rightarrow> inproc_binder \<Rightarrow> 'z context_shared_scheme \<Rightarrow> 'z context_shared_scheme" where
  "with_endpoint name b c =
     c\<lparr>endpoints := (endpoints c)(next_ref c := endpoint_new b), next_ref := next_ref c + 1,
       ctx_pending_inproc := (ctx_pending_inproc c)(name := None)\<rparr>"

lemma with_endpoint_simps [simp]:
  "endpoints (with_endpoint name b c) = (endpoints c)(next_ref c := endpoint_new b)"
  "next_ref (with_endpoint name b c) = next_ref c + 1"
  "ctx_pending_inproc (with_endpoint name b c) = (ctx_pending_inproc c)(name := None)"
  "ctx_inproc_endpoints (with_endpoint name b c) = ctx_inproc_endpoints c"
  "ctx_state (with_endpoint name b c) = ctx_state c"
  by (simp_all add: with_endpoint_def)

lemma bind_inproc_eq:
  "ctx_inproc_endpoints c name = None \<Longrightarrow>
     bind_inproc name b c =
       (case for_each (pending_peers name c) (add_pending (next_ref c)) (with_endpoint name b c) of
          (Inl err, c') \<Rightarrow> (Inl err, c')
        | (Inr _, c') \<Rightarrow> (Inr (next_ref c),
            c'\<lparr>ctx_inproc_endpoints := (ctx_inproc_endpoints c')(name \<mapsto> next_ref c)\<rparr>))"
  by (auto simp: bind_inproc_def pending_peers_def with_endpoint_def Let_def bnd_def
      split: option.split prod.split sum.split)

lemma accepts_with_endpoint:
  "binder_accepts_type (next_ref c) (with_endpoint name b c) p =
     inproc_types_compatible (bd_socket_type b) (peer_socket_type p)"
  by (simp add: binder_accepts_type_def endpoint_new_def)

lemma context_more_eq:
  assumes "heap.more c' = heap.more (c :: 'z context_shared_scheme)"
  shows "ctx_state c' = ctx_state c" "ctx_next_socket_id c' = ctx_next_socket_id c"
    "ctx_options c' = ctx_options c" "ctx_inproc_endpoints c' = ctx_inproc_endpoints c"
    "ctx_pending_inproc c' = ctx_pending_inproc c"
    "context_shared.more c' = context_shared.more c"
  using assms by (cases c; cases c'; simp)+

text \<open>The two outcomes of binding a free name.\<close>

lemma bind_inproc_ok:
  assumes free: "ctx_inproc_endpoints c name = None"
    and compat: "\<forall>p \<in> set (pending_peers name c). inproc_types_compatible (bd_socket_type b) (peer_socket_type p)"
  obtains c' where "for_each (pending_peers name c) (add_pending (next_ref c)) (with_endpoint name b c) = (Inr (), c')"
    "adds_peers (next_ref c) (pending_peers name c) (with_endpoint name b c) c'"
    "bind_inproc name b c = (Inr (next_ref c), c'\<lparr>ctx_inproc_endpoints := (ctx_inproc_endpoints c)(name \<mapsto> next_ref c)\<rparr>)"
proof -
  from for_each_pending_ok [of "pending_peers name c" "next_ref c" "with_endpoint name b c"] compat
  obtain c' where c': "for_each (pending_peers name c) (add_pending (next_ref c)) (with_endpoint name b c) = (Inr (), c')"
    "adds_peers (next_ref c) (pending_peers name c) (with_endpoint name b c) c'"
    by (auto simp: accepts_with_endpoint)
  moreover have "ctx_inproc_endpoints c' = ctx_inproc_endpoints c"
    using c'(2) context_more_eq(4) [of c' "with_endpoint name b c"] by (simp add: adds_peers_def)
  ultimately show ?thesis
    using that bind_inproc_eq [OF free, of b] by simp
qed

lemma bind_inproc_refused:
  assumes free: "ctx_inproc_endpoints c name = None"
    and "\<exists>p \<in> set (pending_peers name c). \<not> inproc_types_compatible (bd_socket_type b) (peer_socket_type p)"
  obtains c' qs where "bind_inproc name b c = (Inl NotSupported, c')"
    "adds_peers (next_ref c) qs (with_endpoint name b c) c'"
proof -
  from for_each_pending_err [of "pending_peers name c" "next_ref c" "with_endpoint name b c"] assms(2)
  obtain c' qs where c': "for_each (pending_peers name c) (add_pending (next_ref c)) (with_endpoint name b c) = (Inl NotSupported, c')"
    "adds_peers (next_ref c) qs (with_endpoint name b c) c'"
    by (auto simp: accepts_with_endpoint)
  then show ?thesis
    using that bind_inproc_eq [OF free, of b] by simp
qed

lemma for_each_append: "for_each (xs @ ys) f = bnd (for_each xs f) (\<lambda>_. for_each ys f)"
  by (induction xs) (auto simp: fun_eq_iff bnd_def split: prod.split sum.split)



lemma connect_unbound:
  "ctx_inproc_endpoints c name = None \<Longrightarrow>
     connect_inproc name i q t s c = (Inr None, c\<lparr>ctx_pending_inproc := (ctx_pending_inproc c)(name \<mapsto>
       pending_peers name c @ [\<lparr>peer_id = i, peer_inbox = q, peer_socket_type = t, peer_subscriptions = s\<rparr>])\<rparr>)"
  by (simp add: connect_inproc_def pending_peers_def Let_def)

lemma connect_bound:
  "ctx_inproc_endpoints c name = Some e \<Longrightarrow>
     connect_inproc name i q t s c = map_prod (map_ok (\<lambda>_. Some e)) id (add_peer e i q t s c)"
  by (simp add: connect_inproc_def bnd_def split: prod.split sum.split)

lemma bind_after_connect:
  assumes free: "ctx_inproc_endpoints c name = None"
    and compat: "\<forall>p \<in> set (pending_peers name c). inproc_types_compatible (bd_socket_type b) (peer_socket_type p)"
    and new: "inproc_types_compatible (bd_socket_type b) t"
  shows "\<exists>c'. bind_inproc name b c = (Inr (next_ref c), c')
    \<and> connect_inproc name i q t s c' = (Inr (Some (next_ref c)), snd (connect_inproc name i q t s c'))
    \<and> bind_inproc name b (snd (connect_inproc name i q t s c)) =
        (Inr (next_ref c), snd (connect_inproc name i q t s c'))"
proof -
  let ?p = "\<lparr>peer_id = i, peer_inbox = q, peer_socket_type = t, peer_subscriptions = s\<rparr>"
  let ?e = "next_ref c" and ?ps = "pending_peers name c"
  let ?reg = "\<lambda>c. c\<lparr>ctx_inproc_endpoints := (ctx_inproc_endpoints c)(name \<mapsto> next_ref c - 1)\<rparr>"
  let ?c1 = "snd (connect_inproc name i q t s c)"
  from bind_inproc_ok [OF free compat] obtain c' where
    loop: "for_each ?ps (add_pending ?e) (with_endpoint name b c) = (Inr (), c')"
    and adds: "adds_peers ?e ?ps (with_endpoint name b c) c'"
    and bind: "bind_inproc name b c = (Inr ?e, c'\<lparr>ctx_inproc_endpoints := (ctx_inproc_endpoints c)(name \<mapsto> ?e)\<rparr>)"
    by blast
  have acc: "inproc_types_compatible (ep_binder_type (endpoints c' ?e)) t"
    using adds new by (simp add: adds_peers_def same_binder_def endpoint_new_def)
  then obtain c'' where c'': "add_peer ?e i q t s c' = (Inr (), c'')"
    by (metis add_peer_ok)
  have more: "heap.more c'' = heap.more (with_endpoint name b c)"
    using adds add_peer_adds [OF c''] by (simp add: adds_peers_def)
  have reg: "ctx_inproc_endpoints c'' = ctx_inproc_endpoints c"
    using context_more_eq(4) [OF more] by simp
  have "with_endpoint name b ?c1 = with_endpoint name b c" "pending_peers name ?c1 = ?ps @ [?p]"
    "next_ref ?c1 = ?e" "ctx_inproc_endpoints ?c1 name = None"
    using free by (simp_all add: connect_unbound with_endpoint_def pending_peers_def)
  moreover have "for_each (?ps @ [?p]) (add_pending ?e) (with_endpoint name b c) = (Inr (), c'')"
    using loop c'' by (simp add: for_each_append add_pending_def bnd_def)
  ultimately have b1: "bind_inproc name b ?c1 = (Inr ?e, c''\<lparr>ctx_inproc_endpoints := (ctx_inproc_endpoints c)(name \<mapsto> ?e)\<rparr>)"
    using bind_inproc_eq [of ?c1 name b] reg by simp
  have "add_peer ?e i q t s (c'\<lparr>ctx_inproc_endpoints := (ctx_inproc_endpoints c)(name \<mapsto> ?e)\<rparr>) =
      (Inr (), c''\<lparr>ctx_inproc_endpoints := (ctx_inproc_endpoints c)(name \<mapsto> ?e)\<rparr>)"
    using registry.U_add_peer [of ?e i q t s "\<lambda>_. (ctx_inproc_endpoints c)(name \<mapsto> ?e)" c'] c'' by simp
  then have "connect_inproc name i q t s (c'\<lparr>ctx_inproc_endpoints := (ctx_inproc_endpoints c)(name \<mapsto> ?e)\<rparr>) =
      (Inr (Some ?e), c''\<lparr>ctx_inproc_endpoints := (ctx_inproc_endpoints c)(name \<mapsto> ?e)\<rparr>)"
    using connect_bound [of "c'\<lparr>ctx_inproc_endpoints := (ctx_inproc_endpoints c)(name \<mapsto> ?e)\<rparr>" name ?e] by simp
  with bind b1 show ?thesis
    by simp
qed


section \<open>Context options\<close>

lemma saturating_id: "is_i32 v \<Longrightarrow> saturating_i32 v = v"
  by (simp add: saturating_i32_def is_i32_def)

lemma atoi_digits_append:
  "list_all is_digit ds \<Longrightarrow> atoi_digits (ds @ r) v = atoi_digits r (atoi_digits ds v)"
  by (induction ds arbitrary: v) auto

lemma saturating_step:
  assumes "0 \<le> k" "0 \<le> r" "r < 10"
  shows "saturating_i32 (saturating_i32 (min k i32_max * 10) + r) = min (k * 10 + r) i32_max"
  using assms by (cases "k \<le> 214748364") (simp_all add: saturating_i32_def min_def)

lemma atoi_dec: "atoi_digits (dec n) 0 = min (int n) i32_max"
proof (induction n rule: dec.induct)
  case (1 n)
  show ?case
  proof (cases "n < 10")
    case True
    then show ?thesis
      by (subst dec.simps) (simp add: is_digit_digit digit_value_digit saturating_i32_def)
  next
    case False
    let ?v = "min (int (n div 10)) i32_max"
    have "atoi_digits (dec n) 0 = saturating_i32 (saturating_i32 (?v * 10) + int (n mod 10))"
      using False 1 by (subst dec.simps)
        (simp add: atoi_digits_append dec_digits is_digit_digit digit_value_digit)
    also have "\<dots> = min (int n) i32_max"
    proof -
      have "int n = int (n div 10) * 10 + int (n mod 10)"
        using div_mult_mod_eq [of n 10] by linarith
      then show ?thesis
        using saturating_step [of "int (n div 10)" "int (n mod 10)"] by simp
    qed
    finally show ?thesis .
  qed
qed

lemma dec_not_space: "dropWhile is_atoi_space (dec n) = dec n"
  using dec_hd_digit [of n] by (cases "dec n") (auto simp: is_digit_def is_atoi_space_def)

lemma atoi_dec_int: "is_i32 v \<Longrightarrow> atoi_i32 (dec_int v) = max v (- i32_max)"
proof -
  assume v: "is_i32 v"
  show ?thesis
  proof (cases "v < 0")
    case True
    then have "atoi_i32 (dec_int v) = saturating_i32 (- min (- v) i32_max)"
      by (simp add: atoi_i32_def dec_int_def is_atoi_space_def Let_def atoi_dec)
    with v True show ?thesis
      by (simp add: saturating_i32_def is_i32_def min_def max_def)
  next
    case False
    obtain b r where d: "dec (nat v) = b # r"
      by (metis dec_nonempty list.exhaust)
    with dec_no_sign [OF d] have "atoi_i32 (dec_int v) = saturating_i32 (atoi_digits (dec (nat v)) 0)"
      using False dec_not_space [of "nat v"] by (simp add: atoi_i32_def dec_int_def Let_def)
    with False v show ?thesis
      by (simp add: atoi_dec saturating_i32_def is_i32_def min_def max_def)
  qed
qed



lemma context_set_option_cases:
  assumes "context_set_option opt v os = (Inr (), os')"
  shows "opt = ZMQ_IO_THREADS \<and> os' = os\<lparr>co_io_threads := v\<rparr>
    \<or> opt = ZMQ_MAX_SOCKETS \<and> os' = os\<lparr>co_max_sockets := v\<rparr>
    \<or> opt = ZMQ_MAX_MSGSZ \<and> os' = os\<lparr>co_max_msgsz := v\<rparr>
    \<or> opt = ZMQ_IPV6 \<and> os' = os\<lparr>co_ipv6 := (v \<noteq> 0)\<rparr>
    \<or> opt = ZMQ_BLOCKY \<and> os' = os\<lparr>co_blocky := (v \<noteq> 0)\<rparr>
    \<or> opt = ZMQ_THREAD_PRIORITY \<and> os' = os\<lparr>co_thread_priority := v\<rparr>
    \<or> opt = ZMQ_THREAD_SCHED_POLICY \<and> os' = os\<lparr>co_thread_sched_policy := v\<rparr>
    \<or> opt = ZMQ_ZERO_COPY_RECV \<and> os' = os\<lparr>co_zero_copy_recv := of_bool (v \<noteq> 0)\<rparr>
    \<or> opt = ZMQ_THREAD_AFFINITY_CPU_ADD \<and>
        os' = os\<lparr>co_thread_affinity_cpus := insert v (co_thread_affinity_cpus os)\<rparr>
    \<or> opt = ZMQ_THREAD_AFFINITY_CPU_REMOVE \<and>
        os' = os\<lparr>co_thread_affinity_cpus := co_thread_affinity_cpus os - {v}\<rparr>
    \<or> opt = ZMQ_THREAD_NAME_PREFIX \<and> os' = os\<lparr>co_thread_name_prefix := dec_int v\<rparr>"
  using assms unfolding context_set_option_def
  by (clarsimp split: if_split_asm)

section \<open>Registry invariant\<close>

text \<open>
  Every registered name has its own endpoint object, nobody waits for a name that is bound, and
  an endpoint's peers all have a type that may talk to the binder.
\<close>

definition ctx_inv :: "'z context_shared_scheme \<Rightarrow> bool" where
  "ctx_inv c \<longleftrightarrow>
     (\<forall>name e. ctx_inproc_endpoints c name = Some e \<longrightarrow> e < next_ref c)
   \<and> (\<forall>name name' e. ctx_inproc_endpoints c name = Some e \<and> ctx_inproc_endpoints c name' = Some e \<longrightarrow> name = name')
   \<and> (\<forall>name ps. ctx_pending_inproc c name = Some ps \<longrightarrow> ps \<noteq> [] \<and> ctx_inproc_endpoints c name = None)
   \<and> (\<forall>name e. ctx_inproc_endpoints c name = Some e \<longrightarrow>
        (\<forall>p \<in> set (ep_peers (endpoints c e)). binder_accepts_type e c p))"

inductive ctx_step :: "context_shared \<Rightarrow> context_shared \<Rightarrow> bool" where
  bind: "ctx_step c (snd (bind_inproc name b c))"
| connect: "ctx_step c (snd (connect_inproc name i q t s c))"
| unbind: "ctx_step c (snd (unbind_inproc name c))"
| disconnect: "ctx_step c (snd (disconnect_inproc name i c))"
| transient_id: "ctx_step c (snd (next_transient_socket_id c))"
| shutdown: "ctx_step c (shutdown c)"
| terminate: "ctx_step c (terminate c)"

inductive_cases ctx_stepE: "ctx_step c c'"

lemma ctx_inv_new: "ctx_inv context_new"
  by (simp add: ctx_inv_def context_new_def)

lemma adds_peers_accepts:
  "adds_peers e ps c c' \<Longrightarrow> binder_accepts_type e' c' p = binder_accepts_type e' c p"
  by (cases "e' = e") (auto simp: adds_peers_def same_binder_def binder_accepts_type_def)

lemma ctx_inv_adds:
  assumes "ctx_inv c" "adds_peers e ps c c'"
    and "\<And>name p. ctx_inproc_endpoints c name = Some e \<Longrightarrow> p \<in> set ps \<Longrightarrow> binder_accepts_type e c p"
  shows "ctx_inv c'"
proof -
  have m: "heap.more c' = heap.more c"
    using assms(2) by (simp add: adds_peers_def)
  have "\<forall>p \<in> set (ep_peers (endpoints c' e')). binder_accepts_type e' c' p"
    if "ctx_inproc_endpoints c name = Some e'" for name e'
    using assms that unfolding adds_peers_accepts [OF assms(2)]
    by (cases "e' = e") (auto simp: ctx_inv_def adds_peers_def)
  then show ?thesis
    using assms(1,2) unfolding ctx_inv_def by (simp add: context_more_eq [OF m] adds_peers_def)
qed

lemma ctx_inv_connect: "ctx_inv c \<Longrightarrow> ctx_inv (snd (connect_inproc name i q t s c))"
proof (cases "ctx_inproc_endpoints c name")
  case None
  assume "ctx_inv c"
  with None show ?thesis
    by (auto simp: connect_unbound ctx_inv_def binder_accepts_type_def)
next
  case (Some e)
  assume c: "ctx_inv c"
  show ?thesis
  proof (cases "inproc_types_compatible (ep_binder_type (endpoints c e)) t")
    case True
    then obtain c' where c': "add_peer e i q t s c = (Inr (), c')"
      by (metis add_peer_ok)
    have "ctx_inv c'"
      by (rule ctx_inv_adds [OF c add_peer_adds [OF c']]) (simp add: True binder_accepts_type_def)
    with c' Some show ?thesis
      by (simp add: connect_bound)
  next
    case False
    with c Some show ?thesis
      by (simp add: connect_bound add_peer_err)
  qed
qed

lemma ctx_inv_fresh: "ctx_inv c \<Longrightarrow> ctx_inproc_endpoints c name \<noteq> Some (next_ref c)"
  by (auto simp: ctx_inv_def)

lemma ctx_inv_with_endpoint: "ctx_inv c \<Longrightarrow> ctx_inv (with_endpoint name b c)"
  by (auto simp: ctx_inv_def binder_accepts_type_def with_endpoint_def intro: less_SucI)

lemma ctx_inv_register:
  assumes "ctx_inv c" "e < next_ref c" "\<And>n. ctx_inproc_endpoints c n \<noteq> Some e"
    "ctx_pending_inproc c name = None" "\<forall>p \<in> set (ep_peers (endpoints c e)). binder_accepts_type e c p"
  shows "ctx_inv (c\<lparr>ctx_inproc_endpoints := (ctx_inproc_endpoints c)(name \<mapsto> e)\<rparr>)"
  using assms by (auto simp: ctx_inv_def binder_accepts_type_def split: if_splits)

lemma ctx_inv_bind:
  assumes c: "ctx_inv c"
  shows "ctx_inv (snd (bind_inproc name b c))"
proof (cases "ctx_inproc_endpoints c name")
  case (Some e)
  with c show ?thesis
    by (simp add: bind_inproc_def)
next
  case free: None
  have w: "ctx_inv (with_endpoint name b c)"
    by (rule ctx_inv_with_endpoint [OF c])
  show ?thesis
  proof (cases "\<forall>p \<in> set (pending_peers name c). inproc_types_compatible (bd_socket_type b) (peer_socket_type p)")
    case True
    from bind_inproc_ok [OF free True] obtain c' where
      adds: "adds_peers (next_ref c) (pending_peers name c) (with_endpoint name b c) c'"
      and bind: "bind_inproc name b c = (Inr (next_ref c), c'\<lparr>ctx_inproc_endpoints := (ctx_inproc_endpoints c)(name \<mapsto> next_ref c)\<rparr>)"
      by blast
    have m: "heap.more c' = heap.more (with_endpoint name b c)"
      using adds by (simp add: adds_peers_def)
    have acc: "\<forall>p \<in> set (pending_peers name c). binder_accepts_type (next_ref c) (with_endpoint name b c) p"
      using True by (simp add: accepts_with_endpoint)
    have "ctx_inv c'"
      by (rule ctx_inv_adds [OF w adds]) (use acc in blast)
    moreover have "\<forall>p \<in> set (ep_peers (endpoints c' (next_ref c))). binder_accepts_type (next_ref c) c' p"
      using adds acc unfolding adds_peers_accepts [OF adds] by (simp add: adds_peers_def endpoint_new_def)
    ultimately have "ctx_inv (c'\<lparr>ctx_inproc_endpoints := (ctx_inproc_endpoints c')(name \<mapsto> next_ref c)\<rparr>)"
      using adds ctx_inv_fresh [OF c]
      by (intro ctx_inv_register) (simp_all add: context_more_eq [OF m] adds_peers_def)
    with bind show ?thesis
      by (simp add: context_more_eq [OF m])
  next
    case False
    then obtain c' qs where bind: "bind_inproc name b c = (Inl NotSupported, c')"
      and adds: "adds_peers (next_ref c) qs (with_endpoint name b c) c'"
      using bind_inproc_refused [OF free, of b] by blast
    have "ctx_inv c'"
      by (rule ctx_inv_adds [OF w adds]) (use ctx_inv_fresh [OF c] in simp)
    with bind show ?thesis
      by simp
  qed
qed

lemma ctx_inv_unbind: "ctx_inv c \<Longrightarrow> ctx_inv (snd (unbind_inproc name c))"
  by (auto simp: unbind_inproc_def ctx_inv_def binder_accepts_type_def split: option.split if_splits)

lemma ctx_inv_remove_peer:
  assumes "ctx_inv c"
  shows "ctx_inv (snd (remove_peer e i n c))"
proof -
  let ?c = "snd (remove_peer e i n c)"
  note r = remove_peer_frame [where e = e and i = i and n = n and h = c]
  have m: "heap.more ?c = heap.more c"
    by (rule r(5))
  have "binder_accepts_type e' ?c p = binder_accepts_type e' c p" for e' p
    using r(2,3) by (cases "e' = e") (auto simp: binder_accepts_type_def same_binder_def)
  moreover have "set (ep_peers (endpoints ?c e')) \<subseteq> set (ep_peers (endpoints c e'))" for e'
    using r(1,3) by (cases "e' = e") auto
  ultimately show ?thesis
    using assms r(4) unfolding ctx_inv_def by (simp add: context_more_eq [OF m]) blast
qed

lemma ctx_inv_pending_filter:
  assumes "ctx_inv c" "ctx_pending_inproc c name = Some ps" "set ps' \<subseteq> set ps"
  shows "ctx_inv (c\<lparr>ctx_pending_inproc := (ctx_pending_inproc c)(name := (if ps' = [] then None else Some ps'))\<rparr>)"
  using assms by (auto simp: ctx_inv_def binder_accepts_type_def)

lemma ctx_inv_disconnect:
  assumes "ctx_inv c"
  shows "ctx_inv (snd (disconnect_inproc name i c))"
proof -
  let ?c1 = "snd (case ctx_inproc_endpoints c name of None \<Rightarrow> (False, c) | Some e \<Rightarrow> remove_peer e i True c)"
  have c1: "ctx_inv ?c1"
    using assms by (simp add: ctx_inv_remove_peer split: option.split)
  show ?thesis
  proof (cases "ctx_pending_inproc ?c1 name")
    case None
    with c1 show ?thesis
      by (simp add: disconnect_inproc_def case_prod_beta Let_def)
  next
    case (Some ps)
    with c1 ctx_inv_pending_filter [OF c1 Some, of "filter (\<lambda>p. peer_id p \<noteq> i) ps"] show ?thesis
      by (simp add: disconnect_inproc_def case_prod_beta Let_def)
  qed
qed

lemma ctx_inv_step: "ctx_step c c' \<Longrightarrow> ctx_inv c \<Longrightarrow> ctx_inv c'"
  by (erule ctx_stepE) (auto simp: ctx_inv_bind ctx_inv_connect ctx_inv_unbind ctx_inv_disconnect,
      auto simp: ctx_inv_def binder_accepts_type_def next_transient_socket_id_def shutdown_def terminate_def)

lemma ctx_inv_reachable: "ctx_step\<^sup>*\<^sup>* c c' \<Longrightarrow> ctx_inv c \<Longrightarrow> ctx_inv c'"
  by (induction rule: rtranclp_induct) (auto intro: ctx_inv_step)



section \<open>Disconnecting\<close>

text \<open>The second half of \<open>disconnect_inproc\<close>: drop the waiting peers with the id.\<close>

definition drop_pending :: "bytes \<Rightarrow> u64 \<Rightarrow> 'z context_shared_scheme \<Rightarrow> bool \<times> 'z context_shared_scheme" where
  "drop_pending name i c =
     (case ctx_pending_inproc c name of
        None \<Rightarrow> (False, c)
      | Some ps \<Rightarrow>
          let ps' = filter (\<lambda>p. peer_id p \<noteq> i) ps
          in (length ps' \<noteq> length ps,
              c\<lparr>ctx_pending_inproc := (ctx_pending_inproc c)(name := (if ps' = [] then None else Some ps'))\<rparr>))"

lemma drop_pending_spec:
  "fst (drop_pending name i c) = (i \<in> peer_id ` set (pending_peers name c))"
  "pending_peers name (snd (drop_pending name i c)) = filter (\<lambda>p. peer_id p \<noteq> i) (pending_peers name c)"
  "ctx_inproc_endpoints (snd (drop_pending name i c)) = ctx_inproc_endpoints c"
  "endpoints (snd (drop_pending name i c)) = endpoints c"
  using length_filter_neq [of "\<lambda>p. peer_id p \<noteq> i" "pending_peers name c"]
  by (auto simp: drop_pending_def pending_peers_def Let_def split: option.splits)

lemma disconnect_unbound:
  "ctx_inproc_endpoints c name = None \<Longrightarrow>
     disconnect_inproc name i c =
       (if i \<in> peer_id ` set (pending_peers name c) then Inr () else Inl InvalidArgument, snd (drop_pending name i c))
     \<and> ctx_inproc_endpoints (snd (drop_pending name i c)) = ctx_inproc_endpoints c
     \<and> pending_peers name (snd (drop_pending name i c)) = filter (\<lambda>p. peer_id p \<noteq> i) (pending_peers name c)"
  using drop_pending_spec(1) [of name i c]
  by (simp add: disconnect_inproc_def drop_pending_def [symmetric] drop_pending_spec case_prod_beta Let_def)

lemma disconnect_bound:
  "ctx_inproc_endpoints c name = Some e \<Longrightarrow>
     disconnect_inproc name i c =
       (let c1 = snd (remove_peer e i True c)
        in (if fst (remove_peer e i True c) \<or> i \<in> peer_id ` set (pending_peers name c1)
            then Inr () else Inl InvalidArgument, snd (drop_pending name i c1)))"
  using drop_pending_spec(1) [of name i "snd (remove_peer e i True c)"]
  by (simp add: disconnect_inproc_def drop_pending_def [symmetric] case_prod_beta Let_def)

lemma remove_peer_registry:
  "ctx_inproc_endpoints (snd (remove_peer e i n c)) = ctx_inproc_endpoints c"
  "pending_peers name (snd (remove_peer e i n c)) = pending_peers name c"
  using context_more_eq [OF remove_peer_frame(5) [where e = e and i = i and n = n and h = c]]
  by (simp_all add: pending_peers_def)


section \<open>Properties\<close>

text \<open>C33. In every state the context operations can reach, the registry is consistent: each bound name has
  its own endpoint object, no peer waits for a bound name, waiting lists are not empty, and all
  peers of an endpoint have a type compatible with its binder.\<close>

theorem registry_invariant:
  assumes "ctx_step\<^sup>*\<^sup>* context_new c"
  shows "ctx_inv c"
  using ctx_inv_reachable [OF assms ctx_inv_new] .

definition binder_example :: "socket_type \<Rightarrow> inproc_binder" where
  "binder_example t = \<lparr>bd_inbox = 0, bd_socket_type = t, bd_subscriptions = 0, bd_disconnect_msg = 0,
     bd_welcome = 0, bd_xpub_policy = 0\<rparr>"

theorem registry_invariant_witness:
  "ctx_inv (snd (bind_inproc [97] (binder_example Pull) (snd (connect_inproc [97] 2 1 Push 1 context_new))))"
proof (rule registry_invariant)
  show "ctx_step\<^sup>*\<^sup>* context_new
      (snd (bind_inproc [97] (binder_example Pull) (snd (connect_inproc [97] 2 1 Push 1 context_new))))"
    by (rule rtranclp.rtrancl_into_rtrancl [OF rtranclp.rtrancl_into_rtrancl [OF rtranclp.rtrancl_refl]])
      (rule ctx_step.intros)+
qed

text \<open>C34. Connecting before binding is the same as connecting after: on a free name, when the new peer and
  all peers already waiting are compatible with the binder, connect-then-bind and
  bind-then-connect both succeed, give the same endpoint and leave the context in the same state.\<close>

theorem connect_bind_commute:
  assumes "ctx_inproc_endpoints c name = None"
    and "\<forall>p \<in> set (pending_peers name c). inproc_types_compatible (bd_socket_type b) (peer_socket_type p)"
    and "inproc_types_compatible (bd_socket_type b) t"
  shows "\<exists>c'. bind_inproc name b c = (Inr (next_ref c), c')
    \<and> connect_inproc name i q t s c' = (Inr (Some (next_ref c)), snd (connect_inproc name i q t s c'))
    \<and> bind_inproc name b (snd (connect_inproc name i q t s c)) =
        (Inr (next_ref c), snd (connect_inproc name i q t s c'))"
  by (rule bind_after_connect [OF assms])

theorem connect_bind_commute_witness:
  "\<exists>c'. bind_inproc [97] (binder_example Xpub) context_new = (Inr (next_ref context_new), c')
    \<and> connect_inproc [97] 2 1 Xsub 1 c' = (Inr (Some (next_ref context_new)), snd (connect_inproc [97] 2 1 Xsub 1 c'))
    \<and> bind_inproc [97] (binder_example Xpub) (snd (connect_inproc [97] 2 1 Xsub 1 context_new)) =
        (Inr (next_ref context_new), snd (connect_inproc [97] 2 1 Xsub 1 c'))"
  by (rule connect_bind_commute)
    (simp_all add: context_new_def pending_peers_def binder_example_def inproc_types_compatible_def)

text \<open>A bind that finds an incompatible waiting peer fails with \<open>NotSupported\<close>, registers nothing, and yet
  forgets every peer that was waiting for the name, the compatible ones included.\<close>

theorem bind_refused_forgets_waiting:
  assumes "ctx_inproc_endpoints c name = None" and "p \<in> set (pending_peers name c)"
    and "\<not> inproc_types_compatible (bd_socket_type b) (peer_socket_type p)"
  shows "fst (bind_inproc name b c) = Inl NotSupported
    \<and> ctx_inproc_endpoints (snd (bind_inproc name b c)) = ctx_inproc_endpoints c
    \<and> pending_peers name (snd (bind_inproc name b c)) = []"
proof -
  obtain c' qs where bind: "bind_inproc name b c = (Inl NotSupported, c')"
    and adds: "adds_peers (next_ref c) qs (with_endpoint name b c) c'"
    using bind_inproc_refused [OF assms(1), of b] assms(2,3) by blast
  have m: "heap.more c' = heap.more (with_endpoint name b c)"
    using adds by (simp add: adds_peers_def)
  with bind show ?thesis
    by (simp add: context_more_eq [OF m] pending_peers_def)
qed

theorem bind_refused_forgets_waiting_witness:
  fixes c defines "c \<equiv> snd (connect_inproc [97] 2 1 Push 1 (snd (connect_inproc [97] 3 2 Req 2 context_new)))"
  shows "fst (bind_inproc [97] (binder_example Pull) c) = Inl NotSupported
    \<and> ctx_inproc_endpoints (snd (bind_inproc [97] (binder_example Pull) c)) = ctx_inproc_endpoints c
    \<and> pending_peers [97] (snd (bind_inproc [97] (binder_example Pull) c)) = []"
  by (rule bind_refused_forgets_waiting
      [where p = "\<lparr>peer_id = 3, peer_inbox = 2, peer_socket_type = Req, peer_subscriptions = 2\<rparr>"])
    (simp_all add: c_def connect_inproc_def context_new_def pending_peers_def binder_example_def
      inproc_types_compatible_def)

text \<open>Disconnecting removes the peer everywhere: it succeeds exactly when the id was connected to or
  waiting for the name, and afterwards it is neither, while all other peers keep their place.\<close>

theorem disconnect_inproc_spec:
  fixes c :: "'z context_shared_scheme" and name :: bytes and i :: u64
  defines "peers \<equiv> \<lambda>c :: 'z context_shared_scheme. (case ctx_inproc_endpoints c name of
      None \<Rightarrow> [] | Some e \<Rightarrow> ep_peers (endpoints c e))"
    and "c' \<equiv> snd (disconnect_inproc name i c)"
  shows "fst (disconnect_inproc name i c) =
      (if i \<in> peer_id ` set (peers c) \<or> i \<in> peer_id ` set (pending_peers name c) then Inr () else Inl InvalidArgument)
    \<and> peers c' = filter (\<lambda>p. peer_id p \<noteq> i) (peers c)
    \<and> pending_peers name c' = filter (\<lambda>p. peer_id p \<noteq> i) (pending_peers name c)"
proof (cases "ctx_inproc_endpoints c name")
  case None
  then show ?thesis
    unfolding peers_def c'_def by (simp add: disconnect_unbound)
next
  case (Some e)
  then show ?thesis
    unfolding peers_def c'_def
    using remove_peer_frame(1) [where e = e and i = i and n = True and h = c]
    by (simp add: disconnect_bound remove_peer_registry drop_pending_spec fst_remove_peer Let_def)
qed

text \<open>The life cycle of a context: once \<open>shutdown\<close> or \<open>terminate\<close> has been called, creating a socket fails
  with \<open>Terminated\<close> whatever is called later, but \<open>is_terminated\<close> reports only the last of the two
  calls, so a late \<open>shutdown\<close> hides an earlier \<open>terminate\<close>.\<close>

theorem context_lifecycle:
  fixes c :: "'z context_shared_scheme"
  defines "run \<equiv> fold (\<lambda>t. if t then terminate else shutdown)"
  shows "ensure_running (run (calls @ [t]) c) = Inl Terminated
    \<and> is_terminated (run (calls @ [t]) c) = t"
  by (simp add: run_def ensure_running_def is_terminated_def terminate_def shutdown_def)

text \<open>Setting a context option and reading it back: the value is returned, normalised to 0 or 1 for the
  flags, raised to the smallest value whose negation is representable for the thread name prefix,
  replaced by 65535 for the thread priority (its number is that of the socket limit), and the
  affinity requests cannot be read. Every other option keeps its value.\<close>

theorem context_option_round_trip:
  assumes "context_set_option opt v os = (Inr (), os')" and "is_i32 v"
  shows "context_get_option opt os' =
      (if opt \<in> {ZMQ_THREAD_AFFINITY_CPU_ADD, ZMQ_THREAD_AFFINITY_CPU_REMOVE} then Inl InvalidArgument
       else if opt = ZMQ_THREAD_PRIORITY then Inr 65535
       else if opt \<in> {ZMQ_IPV6, ZMQ_BLOCKY, ZMQ_ZERO_COPY_RECV} then Inr (of_bool (v \<noteq> 0))
       else if opt = ZMQ_THREAD_NAME_PREFIX then Inr (max v (- i32_max))
       else Inr v)
    \<and> (\<forall>opt'. opt' = opt \<or> context_get_option opt' os' = context_get_option opt' os)"
  using context_set_option_cases [OF assms(1)] atoi_dec_int [OF assms(2)]
  by (elim disjE conjE) (simp_all add: context_get_option_def)

theorem context_option_round_trip_witness:
  "context_get_option ZMQ_THREAD_NAME_PREFIX
      (snd (context_set_option ZMQ_THREAD_NAME_PREFIX i32_min context_options_default)) = Inr (- i32_max)"
  using context_option_round_trip [of ZMQ_THREAD_NAME_PREFIX i32_min context_options_default]
  by (simp add: context_set_option_def is_i32_def)

end
