(* ===== verification/Socket_Options.thy ===== *)
theory Socket_Options
  imports Zmq_Context
begin

text \<open>
  The options of a socket (\<open>SocketOptions\<close> and \<open>SecurityOptions\<close> of
  \<open>crates/libzmq-core/src/socket.rs\<close>), their defaults, setters and getters. A setter may also
  write the cells a socket shares with its in-process endpoint (the XPUB notification policy,
  the welcome message, the disconnect message) and the flag that enables the fast in-process
  send path; the record \<open>option_cells\<close> collects what a setter can touch.

  The source is one \<open>match\<close> whose arms name distinct option numbers, each with a guard on the
  value or the socket type; an option whose guard fails falls through to an arm that returns
  \<open>InvalidArgument\<close>. The arms are translated in the order of the source, in four groups.
\<close>

record security_options =
  sec_plain_server :: bool
  sec_plain_username :: bytes
  sec_plain_password :: bytes
  sec_curve_server :: bool
  sec_curve_publickey :: bytes
  sec_curve_secretkey :: bytes
  sec_curve_serverkey :: bytes
  sec_zap_domain :: bytes
  sec_gssapi_server :: bool
  sec_gssapi_principal :: bytes
  sec_gssapi_service_principal :: bytes
  sec_gssapi_plaintext :: bool
  sec_gssapi_principal_nametype :: i32
  sec_gssapi_service_principal_nametype :: i32
  sec_zap_enforce_domain :: bool

record socket_options =
  opt_linger :: i32
  opt_sndhwm :: i32
  opt_rcvhwm :: i32
  opt_affinity :: u64
  opt_maxmsgsize :: i64
  opt_routing_id :: bytes
  opt_connect_routing_id :: bytes
  opt_last_endpoint :: bytes
  opt_socks_proxy :: bytes
  opt_socks_username :: bytes
  opt_socks_password :: bytes
  opt_bind_to_device :: bytes
  opt_hello_msg :: bytes
  opt_disconnect_msg :: bytes
  opt_hiccup_msg :: bytes
  opt_rate :: i32
  opt_recovery_ivl :: i32
  opt_sndbuf :: i32
  opt_rcvbuf :: i32
  opt_reconnect_ivl :: i32
  opt_reconnect_ivl_max :: i32
  opt_reconnect_stop :: i32
  opt_backlog :: i32
  opt_priority :: i32
  opt_in_batch_size :: i32
  opt_out_batch_size :: i32
  opt_busy_poll :: i32
  opt_multicast_hops :: i32
  opt_multicast_maxtpdu :: i32
  opt_multicast_loop :: bool
  opt_tos :: i32
  opt_connect_timeout :: i32
  opt_tcp_maxrt :: i32
  opt_tcp_keepalive :: i32
  opt_tcp_keepalive_cnt :: i32
  opt_tcp_keepalive_idle :: i32
  opt_tcp_keepalive_intvl :: i32
  opt_handshake_ivl :: i32
  opt_heartbeat_ivl :: i32
  opt_heartbeat_ttl :: i32
  opt_heartbeat_timeout :: i32
  opt_use_fd :: i32
  opt_sndtimeo :: i32
  opt_rcvtimeo :: i32
  opt_ipv6 :: bool
  opt_immediate :: bool
  opt_invert_matching :: bool
  opt_loopback_fastpath :: bool
  opt_conflate :: bool
  opt_probe_router :: bool
  opt_router_raw :: bool
  opt_router_mandatory :: bool
  opt_router_handover :: bool
  opt_stream_notify :: bool
  opt_req_correlate :: bool
  opt_req_relaxed :: bool
  opt_xpub_verbose :: bool
  opt_xpub_verboser :: bool
  opt_xpub_nodrop :: bool
  opt_xpub_manual :: bool
  opt_xpub_manual_last_value :: bool
  opt_xsub_verbose_unsubscribe :: bool
  opt_only_first_subscribe :: bool
  opt_norm_mode :: i32
  opt_norm_unicast_nack :: bool
  opt_norm_buffer_size :: i32
  opt_norm_segment_size :: i32
  opt_norm_block_size :: i32
  opt_norm_num_parity :: i32
  opt_norm_num_autoparity :: i32
  opt_norm_push :: bool
  opt_security :: security_options

definition security_options_default :: security_options where
  "security_options_default =
     \<lparr>sec_plain_server = False, sec_plain_username = [], sec_plain_password = [], sec_curve_server =
      False, sec_curve_publickey = [], sec_curve_secretkey = [], sec_curve_serverkey = [],
      sec_zap_domain = [], sec_gssapi_server = False, sec_gssapi_principal = [],
      sec_gssapi_service_principal = [], sec_gssapi_plaintext = False, sec_gssapi_principal_nametype
      = ZMQ_GSSAPI_NT_HOSTBASED, sec_gssapi_service_principal_nametype = ZMQ_GSSAPI_NT_HOSTBASED,
      sec_zap_enforce_domain = False\<rparr>"

definition socket_options_default :: socket_options where
  "socket_options_default =
     \<lparr>opt_linger = - 1, opt_sndhwm = 1000, opt_rcvhwm = 1000, opt_affinity = 0, opt_maxmsgsize = - 1,
      opt_routing_id = [], opt_connect_routing_id = [], opt_last_endpoint = [], opt_socks_proxy = [],
      opt_socks_username = [], opt_socks_password = [], opt_bind_to_device = [], opt_hello_msg = [],
      opt_disconnect_msg = [], opt_hiccup_msg = [], opt_rate = 100, opt_recovery_ivl = 10000,
      opt_sndbuf = - 1, opt_rcvbuf = - 1, opt_reconnect_ivl = 100, opt_reconnect_ivl_max = 0,
      opt_reconnect_stop = 0, opt_backlog = 100, opt_priority = 0, opt_in_batch_size = 8192,
      opt_out_batch_size = 8192, opt_busy_poll = 0, opt_multicast_hops = 1, opt_multicast_maxtpdu =
      1500, opt_multicast_loop = True, opt_tos = 0, opt_connect_timeout = 0, opt_tcp_maxrt = 0,
      opt_tcp_keepalive = - 1, opt_tcp_keepalive_cnt = - 1, opt_tcp_keepalive_idle = - 1,
      opt_tcp_keepalive_intvl = - 1, opt_handshake_ivl = 30000, opt_heartbeat_ivl = 0,
      opt_heartbeat_ttl = 0, opt_heartbeat_timeout = - 1, opt_use_fd = - 1, opt_sndtimeo = - 1,
      opt_rcvtimeo = - 1, opt_ipv6 = False, opt_immediate = False, opt_invert_matching = False,
      opt_loopback_fastpath = False, opt_conflate = False, opt_probe_router = False, opt_router_raw =
      False, opt_router_mandatory = False, opt_router_handover = False, opt_stream_notify = True,
      opt_req_correlate = False, opt_req_relaxed = False, opt_xpub_verbose = False, opt_xpub_verboser
      = False, opt_xpub_nodrop = False, opt_xpub_manual = False, opt_xpub_manual_last_value = False,
      opt_xsub_verbose_unsubscribe = False, opt_only_first_subscribe = False, opt_norm_mode =
      ZMQ_NORM_CC, opt_norm_unicast_nack = False, opt_norm_buffer_size = 2048, opt_norm_segment_size
      = 1400, opt_norm_block_size = 16, opt_norm_num_parity = 4, opt_norm_num_autoparity = 0,
      opt_norm_push = False, opt_security = security_options_default\<rparr>"

record option_cells =
  oc_options :: socket_options
  oc_fast_send :: bool
  oc_policy :: xpub_policy
  oc_welcome :: "bytes option"
  oc_disconnect_msg :: bytes

definition is_valid_gssapi_nametype :: "i32 \<Rightarrow> bool" where
  "is_valid_gssapi_nametype v \<longleftrightarrow>
     v = ZMQ_GSSAPI_NT_HOSTBASED \<or> v = ZMQ_GSSAPI_NT_USER_NAME \<or> v = ZMQ_GSSAPI_NT_KRB5_PRINCIPAL"

definition mechanism :: "security_options \<Rightarrow> i32" where
  "mechanism s =
     (if sec_gssapi_server s \<or> sec_gssapi_principal s \<noteq> [] \<or> sec_gssapi_service_principal s \<noteq> []
      then ZMQ_GSSAPI
      else if sec_curve_server s \<or> sec_curve_publickey s \<noteq> [] \<or> sec_curve_secretkey s \<noteq> []
              \<or> sec_curve_serverkey s \<noteq> []
      then ZMQ_CURVE
      else if sec_plain_server s \<or> sec_plain_username s \<noteq> [] \<or> sec_plain_password s \<noteq> []
      then ZMQ_PLAIN
      else ZMQ_NULL)"

definition mechanism_name :: "security_options \<Rightarrow> bytes" where
  "mechanism_name s =
     (if mechanism s = ZMQ_PLAIN then lit ''PLAIN''
      else if mechanism s = ZMQ_CURVE then lit ''CURVE''
      else if mechanism s = ZMQ_GSSAPI then lit ''GSSAPI''
      else lit ''NULL'')"


section \<open>Integer options\<close>

definition set_i32_basic :: "i32 \<Rightarrow> i32 \<Rightarrow> option_cells \<Rightarrow> option_cells option" where
  "set_i32_basic opt v oc =
     (let os = oc_options oc in
      if opt = ZMQ_LINGER \<and> v \<ge> - 1 then Some (oc\<lparr>oc_options := os\<lparr>opt_linger := v\<rparr>\<rparr>)
      else if opt = ZMQ_SNDHWM \<and> v \<ge> 0 then Some (oc\<lparr>oc_options := os\<lparr>opt_sndhwm := v\<rparr>, oc_fast_send := False\<rparr>)
      else if opt = ZMQ_RCVHWM \<and> v \<ge> 0 then Some (oc\<lparr>oc_options := os\<lparr>opt_rcvhwm := v\<rparr>\<rparr>)
      else if opt = ZMQ_RATE \<and> v > 0 then Some (oc\<lparr>oc_options := os\<lparr>opt_rate := v\<rparr>\<rparr>)
      else if opt = ZMQ_RECOVERY_IVL \<and> v \<ge> 0 then Some (oc\<lparr>oc_options := os\<lparr>opt_recovery_ivl := v\<rparr>\<rparr>)
      else if opt = ZMQ_SNDBUF \<and> v \<ge> - 1 then Some (oc\<lparr>oc_options := os\<lparr>opt_sndbuf := v\<rparr>\<rparr>)
      else if opt = ZMQ_RCVBUF \<and> v \<ge> - 1 then Some (oc\<lparr>oc_options := os\<lparr>opt_rcvbuf := v\<rparr>\<rparr>)
      else if opt = ZMQ_RECONNECT_IVL \<and> v \<ge> - 1 then Some (oc\<lparr>oc_options := os\<lparr>opt_reconnect_ivl := v\<rparr>\<rparr>)
      else if opt = ZMQ_RECONNECT_IVL_MAX \<and> v \<ge> 0 then Some (oc\<lparr>oc_options := os\<lparr>opt_reconnect_ivl_max := v\<rparr>\<rparr>)
      else if opt = ZMQ_RECONNECT_STOP then Some (oc\<lparr>oc_options := os\<lparr>opt_reconnect_stop := v\<rparr>\<rparr>)
      else if opt = ZMQ_BACKLOG \<and> v \<ge> 0 then Some (oc\<lparr>oc_options := os\<lparr>opt_backlog := v\<rparr>\<rparr>)
      else if opt = ZMQ_PRIORITY \<and> v \<ge> 0 then Some (oc\<lparr>oc_options := os\<lparr>opt_priority := v\<rparr>\<rparr>)
      else if opt = ZMQ_IN_BATCH_SIZE \<and> v > 0 then Some (oc\<lparr>oc_options := os\<lparr>opt_in_batch_size := v\<rparr>\<rparr>)
      else if opt = ZMQ_OUT_BATCH_SIZE \<and> v > 0 then Some (oc\<lparr>oc_options := os\<lparr>opt_out_batch_size := v\<rparr>\<rparr>)
      else if opt = ZMQ_BUSY_POLL then Some (oc\<lparr>oc_options := os\<lparr>opt_busy_poll := v\<rparr>\<rparr>)
      else if opt = ZMQ_MULTICAST_HOPS \<and> v > 0 then Some (oc\<lparr>oc_options := os\<lparr>opt_multicast_hops := v\<rparr>\<rparr>)
      else if opt = ZMQ_MULTICAST_MAXTPDU \<and> v > 0 then Some (oc\<lparr>oc_options := os\<lparr>opt_multicast_maxtpdu := v\<rparr>\<rparr>)
      else None)"

definition set_i32_tcp :: "i32 \<Rightarrow> i32 \<Rightarrow> option_cells \<Rightarrow> option_cells option" where
  "set_i32_tcp opt v oc =
     (let os = oc_options oc in
      if opt = ZMQ_MULTICAST_LOOP then Some (oc\<lparr>oc_options := os\<lparr>opt_multicast_loop := (v \<noteq> 0)\<rparr>\<rparr>)
      else if opt = ZMQ_TOS \<and> v \<ge> 0 then Some (oc\<lparr>oc_options := os\<lparr>opt_tos := v\<rparr>\<rparr>)
      else if opt = ZMQ_CONNECT_TIMEOUT \<and> v \<ge> 0 then Some (oc\<lparr>oc_options := os\<lparr>opt_connect_timeout := v\<rparr>\<rparr>)
      else if opt = ZMQ_TCP_MAXRT \<and> v \<ge> 0 then Some (oc\<lparr>oc_options := os\<lparr>opt_tcp_maxrt := v\<rparr>\<rparr>)
      else if opt = ZMQ_TCP_KEEPALIVE \<and> - 1 \<le> v \<and> v \<le> 1 then Some (oc\<lparr>oc_options := os\<lparr>opt_tcp_keepalive := v\<rparr>\<rparr>)
      else if opt = ZMQ_TCP_KEEPALIVE_CNT \<and> v \<ge> - 1 then Some (oc\<lparr>oc_options := os\<lparr>opt_tcp_keepalive_cnt := v\<rparr>\<rparr>)
      else if opt = ZMQ_TCP_KEEPALIVE_IDLE \<and> v \<ge> - 1 then Some (oc\<lparr>oc_options := os\<lparr>opt_tcp_keepalive_idle := v\<rparr>\<rparr>)
      else if opt = ZMQ_TCP_KEEPALIVE_INTVL \<and> v \<ge> - 1 then Some (oc\<lparr>oc_options := os\<lparr>opt_tcp_keepalive_intvl := v\<rparr>\<rparr>)
      else if opt = ZMQ_HANDSHAKE_IVL \<and> v \<ge> 0 then Some (oc\<lparr>oc_options := os\<lparr>opt_handshake_ivl := v\<rparr>\<rparr>)
      else if opt = ZMQ_HEARTBEAT_IVL \<and> v \<ge> 0 then Some (oc\<lparr>oc_options := os\<lparr>opt_heartbeat_ivl := v\<rparr>\<rparr>)
      else if opt = ZMQ_HEARTBEAT_TTL \<and> v \<ge> 0 \<and> v div 100 \<le> 65535 then Some (oc\<lparr>oc_options := os\<lparr>opt_heartbeat_ttl := v div 100 * 100\<rparr>\<rparr>)
      else if opt = ZMQ_HEARTBEAT_TIMEOUT \<and> v \<ge> 0 then Some (oc\<lparr>oc_options := os\<lparr>opt_heartbeat_timeout := v\<rparr>\<rparr>)
      else if opt = ZMQ_USE_FD \<and> v \<ge> - 1 then Some (oc\<lparr>oc_options := os\<lparr>opt_use_fd := v\<rparr>\<rparr>)
      else if opt = ZMQ_SNDTIMEO \<and> v \<ge> - 1 then Some (oc\<lparr>oc_options := os\<lparr>opt_sndtimeo := v\<rparr>\<rparr>)
      else if opt = ZMQ_RCVTIMEO \<and> v \<ge> - 1 then Some (oc\<lparr>oc_options := os\<lparr>opt_rcvtimeo := v\<rparr>\<rparr>)
      else if opt = ZMQ_IPV6 \<and> (v = 0 \<or> v = 1) then Some (oc\<lparr>oc_options := os\<lparr>opt_ipv6 := (v \<noteq> 0)\<rparr>\<rparr>)
      else if opt = ZMQ_IMMEDIATE \<and> (v = 0 \<or> v = 1) then Some (oc\<lparr>oc_options := os\<lparr>opt_immediate := (v \<noteq> 0)\<rparr>\<rparr>)
      else if opt = ZMQ_INVERT_MATCHING then Some (oc\<lparr>oc_options := os\<lparr>opt_invert_matching := (v \<noteq> 0)\<rparr>\<rparr>)
      else if opt = ZMQ_LOOPBACK_FASTPATH then Some (oc\<lparr>oc_options := os\<lparr>opt_loopback_fastpath := (v \<noteq> 0)\<rparr>\<rparr>)
      else if opt = ZMQ_CONFLATE then Some (oc\<lparr>oc_options := os\<lparr>opt_conflate := (v \<noteq> 0)\<rparr>, oc_fast_send := False\<rparr>)
      else None)"

definition set_i32_pattern :: "socket_type \<Rightarrow> i32 \<Rightarrow> i32 \<Rightarrow> option_cells \<Rightarrow> option_cells option" where
  "set_i32_pattern st opt v oc =
     (let os = oc_options oc in
      if opt = ZMQ_PROBE_ROUTER \<and> (st = Dealer \<or> st = Router) \<and> v \<ge> 0 then Some (oc\<lparr>oc_options := os\<lparr>opt_probe_router := (v \<noteq> 0)\<rparr>\<rparr>)
      else if opt = ZMQ_ROUTER_RAW \<and> st = Router \<and> v \<ge> 0 then Some (oc\<lparr>oc_options := os\<lparr>opt_router_raw := (v \<noteq> 0)\<rparr>\<rparr>)
      else if opt = ZMQ_ROUTER_MANDATORY then Some (oc\<lparr>oc_options := os\<lparr>opt_router_mandatory := (v \<noteq> 0)\<rparr>\<rparr>)
      else if opt = ZMQ_ROUTER_HANDOVER then Some (oc\<lparr>oc_options := os\<lparr>opt_router_handover := (v \<noteq> 0)\<rparr>\<rparr>)
      else if opt = ZMQ_STREAM_NOTIFY \<and> st = Stream \<and> (v = 0 \<or> v = 1) then Some (oc\<lparr>oc_options := os\<lparr>opt_stream_notify := (v \<noteq> 0)\<rparr>\<rparr>)
      else if opt = ZMQ_REQ_CORRELATE then Some (oc\<lparr>oc_options := os\<lparr>opt_req_correlate := (v \<noteq> 0)\<rparr>\<rparr>)
      else if opt = ZMQ_REQ_RELAXED then Some (oc\<lparr>oc_options := os\<lparr>opt_req_relaxed := (v \<noteq> 0)\<rparr>\<rparr>)
      else if opt = ZMQ_XPUB_VERBOSE then Some (oc\<lparr>oc_options := os\<lparr>opt_xpub_verbose := (v \<noteq> 0)\<rparr>,
          oc_policy := (oc_policy oc)\<lparr>verbose_subscribe := (v \<noteq> 0), verbose_unsubscribe := False\<rparr>\<rparr>)
      else if opt = ZMQ_XPUB_VERBOSER then Some (oc\<lparr>oc_options := os\<lparr>opt_xpub_verboser := (v \<noteq> 0)\<rparr>,
          oc_policy := (oc_policy oc)\<lparr>verbose_subscribe := (v \<noteq> 0), verbose_unsubscribe := (v \<noteq> 0)\<rparr>\<rparr>)
      else if opt = ZMQ_XPUB_NODROP then Some (oc\<lparr>oc_options := os\<lparr>opt_xpub_nodrop := (v \<noteq> 0)\<rparr>\<rparr>)
      else if opt = ZMQ_XPUB_MANUAL then Some (oc\<lparr>oc_options := os\<lparr>opt_xpub_manual := (v \<noteq> 0)\<rparr>,
          oc_policy := (oc_policy oc)\<lparr>manual := (v \<noteq> 0), manual_last_value := False\<rparr>\<rparr>)
      else if opt = ZMQ_XPUB_MANUAL_LAST_VALUE \<and> st = Xpub \<and> v \<ge> 0 then Some (oc\<lparr>oc_options := os\<lparr>opt_xpub_manual := (v \<noteq> 0), opt_xpub_manual_last_value := (v \<noteq> 0)\<rparr>,
          oc_policy := (oc_policy oc)\<lparr>manual := (v \<noteq> 0), manual_last_value := (v \<noteq> 0)\<rparr>\<rparr>)
      else if opt = ZMQ_ONLY_FIRST_SUBSCRIBE \<and> (st = Xpub \<or> st = Xsub) \<and> v \<ge> 0 then Some (oc\<lparr>oc_options := os\<lparr>opt_only_first_subscribe := (v \<noteq> 0)\<rparr>\<rparr>)
      else if opt = ZMQ_XSUB_VERBOSE_UNSUBSCRIBE \<and> st = Xsub then Some (oc\<lparr>oc_options := os\<lparr>opt_xsub_verbose_unsubscribe := (v \<noteq> 0)\<rparr>\<rparr>)
      else None)"

definition set_i32_norm_security :: "i32 \<Rightarrow> i32 \<Rightarrow> option_cells \<Rightarrow> option_cells option" where
  "set_i32_norm_security opt v oc =
     (let os = oc_options oc in
      if opt = ZMQ_NORM_MODE \<and> ZMQ_NORM_FIXED \<le> v \<and> v \<le> ZMQ_NORM_CCE_ECNONLY then Some (oc\<lparr>oc_options := os\<lparr>opt_norm_mode := v\<rparr>\<rparr>)
      else if opt = ZMQ_NORM_UNICAST_NACK then Some (oc\<lparr>oc_options := os\<lparr>opt_norm_unicast_nack := (v \<noteq> 0)\<rparr>\<rparr>)
      else if opt = ZMQ_NORM_BUFFER_SIZE \<and> v > 0 then Some (oc\<lparr>oc_options := os\<lparr>opt_norm_buffer_size := v\<rparr>\<rparr>)
      else if opt = ZMQ_NORM_SEGMENT_SIZE \<and> v > 0 then Some (oc\<lparr>oc_options := os\<lparr>opt_norm_segment_size := v\<rparr>\<rparr>)
      else if opt = ZMQ_NORM_BLOCK_SIZE \<and> v > 0 \<and> v \<le> 255 then Some (oc\<lparr>oc_options := os\<lparr>opt_norm_block_size := v\<rparr>\<rparr>)
      else if opt = ZMQ_NORM_NUM_PARITY \<and> 0 \<le> v \<and> v < 255 then Some (oc\<lparr>oc_options := os\<lparr>opt_norm_num_parity := v\<rparr>\<rparr>)
      else if opt = ZMQ_NORM_NUM_AUTOPARITY \<and> 0 \<le> v \<and> v < 255 then Some (oc\<lparr>oc_options := os\<lparr>opt_norm_num_autoparity := v\<rparr>\<rparr>)
      else if opt = ZMQ_NORM_PUSH then Some (oc\<lparr>oc_options := os\<lparr>opt_norm_push := (v \<noteq> 0)\<rparr>\<rparr>)
      else if opt = ZMQ_PLAIN_SERVER then Some (oc\<lparr>oc_options := os\<lparr>opt_security := (opt_security os)\<lparr>sec_plain_server := (v \<noteq> 0)\<rparr>\<rparr>\<rparr>)
      else if opt = ZMQ_CURVE_SERVER then Some (oc\<lparr>oc_options := os\<lparr>opt_security := (opt_security os)\<lparr>sec_curve_server := (v \<noteq> 0)\<rparr>\<rparr>\<rparr>)
      else if opt = ZMQ_GSSAPI_SERVER then Some (oc\<lparr>oc_options := os\<lparr>opt_security := (opt_security os)\<lparr>sec_gssapi_server := (v \<noteq> 0)\<rparr>\<rparr>\<rparr>)
      else if opt = ZMQ_GSSAPI_PLAINTEXT then Some (oc\<lparr>oc_options := os\<lparr>opt_security := (opt_security os)\<lparr>sec_gssapi_plaintext := (v \<noteq> 0)\<rparr>\<rparr>\<rparr>)
      else if opt = ZMQ_GSSAPI_PRINCIPAL_NAMETYPE \<and> is_valid_gssapi_nametype v then Some (oc\<lparr>oc_options := os\<lparr>opt_security := (opt_security os)\<lparr>sec_gssapi_principal_nametype := v\<rparr>\<rparr>\<rparr>)
      else if opt = ZMQ_GSSAPI_SERVICE_PRINCIPAL_NAMETYPE \<and> is_valid_gssapi_nametype v then Some (oc\<lparr>oc_options := os\<lparr>opt_security := (opt_security os)\<lparr>sec_gssapi_service_principal_nametype := v\<rparr>\<rparr>\<rparr>)
      else if opt = ZMQ_ZAP_ENFORCE_DOMAIN then Some (oc\<lparr>oc_options := os\<lparr>opt_security := (opt_security os)\<lparr>sec_zap_enforce_domain := (v \<noteq> 0)\<rparr>\<rparr>\<rparr>)
      else None)"

definition set_option_i32 ::
  "socket_type \<Rightarrow> i32 \<Rightarrow> i32 \<Rightarrow> option_cells \<Rightarrow> unit result \<times> option_cells" where
  "set_option_i32 st opt v oc =
     (case set_i32_basic opt v oc of
        Some oc' \<Rightarrow> (Inr (), oc')
      | None \<Rightarrow>
          (case set_i32_tcp opt v oc of
             Some oc' \<Rightarrow> (Inr (), oc')
           | None \<Rightarrow>
               (case set_i32_pattern st opt v oc of
                  Some oc' \<Rightarrow> (Inr (), oc')
                | None \<Rightarrow>
                    (case set_i32_norm_security opt v oc of
                       Some oc' \<Rightarrow> (Inr (), oc')
                     | None \<Rightarrow> (Inl InvalidArgument, oc)))))"

text \<open>
  The getter's arms that read nothing but the options; the arms for the socket type, the topic
  count, the poll events and the more flag need the socket.
\<close>

definition get_i32_transport :: "i32 \<Rightarrow> socket_options \<Rightarrow> i32 option" where
  "get_i32_transport opt os =
     (if opt = ZMQ_LINGER then Some (opt_linger os)
      else if opt = ZMQ_SNDHWM then Some (opt_sndhwm os)
      else if opt = ZMQ_RCVHWM then Some (opt_rcvhwm os)
      else if opt = ZMQ_RATE then Some (opt_rate os)
      else if opt = ZMQ_RECOVERY_IVL then Some (opt_recovery_ivl os)
      else if opt = ZMQ_SNDBUF then Some (opt_sndbuf os)
      else if opt = ZMQ_RCVBUF then Some (opt_rcvbuf os)
      else if opt = ZMQ_RECONNECT_IVL then Some (opt_reconnect_ivl os)
      else if opt = ZMQ_RECONNECT_IVL_MAX then Some (opt_reconnect_ivl_max os)
      else if opt = ZMQ_RECONNECT_STOP then Some (opt_reconnect_stop os)
      else if opt = ZMQ_BACKLOG then Some (opt_backlog os)
      else if opt = ZMQ_PRIORITY then Some (opt_priority os)
      else if opt = ZMQ_IN_BATCH_SIZE then Some (opt_in_batch_size os)
      else if opt = ZMQ_OUT_BATCH_SIZE then Some (opt_out_batch_size os)
      else if opt = ZMQ_MULTICAST_HOPS then Some (opt_multicast_hops os)
      else if opt = ZMQ_MULTICAST_MAXTPDU then Some (opt_multicast_maxtpdu os)
      else if opt = ZMQ_MULTICAST_LOOP then Some (of_bool (opt_multicast_loop os))
      else if opt = ZMQ_TOS then Some (opt_tos os)
      else if opt = ZMQ_CONNECT_TIMEOUT then Some (opt_connect_timeout os)
      else if opt = ZMQ_TCP_MAXRT then Some (opt_tcp_maxrt os)
      else if opt = ZMQ_TCP_KEEPALIVE then Some (opt_tcp_keepalive os)
      else if opt = ZMQ_TCP_KEEPALIVE_CNT then Some (opt_tcp_keepalive_cnt os)
      else if opt = ZMQ_TCP_KEEPALIVE_IDLE then Some (opt_tcp_keepalive_idle os)
      else if opt = ZMQ_TCP_KEEPALIVE_INTVL then Some (opt_tcp_keepalive_intvl os)
      else if opt = ZMQ_HANDSHAKE_IVL then Some (opt_handshake_ivl os)
      else if opt = ZMQ_HEARTBEAT_IVL then Some (opt_heartbeat_ivl os)
      else if opt = ZMQ_HEARTBEAT_TTL then Some (opt_heartbeat_ttl os)
      else if opt = ZMQ_HEARTBEAT_TIMEOUT then Some (opt_heartbeat_timeout os)
      else if opt = ZMQ_USE_FD then Some (opt_use_fd os)
      else if opt = ZMQ_SNDTIMEO then Some (opt_sndtimeo os)
      else if opt = ZMQ_RCVTIMEO then Some (opt_rcvtimeo os)
      else if opt = ZMQ_IPV6 then Some (of_bool (opt_ipv6 os))
      else if opt = ZMQ_IMMEDIATE then Some (of_bool (opt_immediate os))
      else if opt = ZMQ_INVERT_MATCHING then Some (of_bool (opt_invert_matching os))
      else if opt = ZMQ_LOOPBACK_FASTPATH then Some (of_bool (opt_loopback_fastpath os))
      else if opt = ZMQ_CONFLATE then Some (of_bool (opt_conflate os))
      else None)"

definition get_i32_pattern :: "i32 \<Rightarrow> socket_options \<Rightarrow> i32 option" where
  "get_i32_pattern opt os =
     (if opt = ZMQ_ROUTER_MANDATORY then Some (of_bool (opt_router_mandatory os))
      else if opt = ZMQ_ROUTER_HANDOVER then Some (of_bool (opt_router_handover os))
      else if opt = ZMQ_REQ_CORRELATE then Some (of_bool (opt_req_correlate os))
      else if opt = ZMQ_REQ_RELAXED then Some (of_bool (opt_req_relaxed os))
      else if opt = ZMQ_XPUB_VERBOSE then Some (of_bool (opt_xpub_verbose os))
      else if opt = ZMQ_XPUB_VERBOSER then Some (of_bool (opt_xpub_verboser os))
      else if opt = ZMQ_XPUB_NODROP then Some (of_bool (opt_xpub_nodrop os))
      else if opt = ZMQ_XPUB_MANUAL then Some (of_bool (opt_xpub_manual os))
      else if opt = ZMQ_NORM_MODE then Some (opt_norm_mode os)
      else if opt = ZMQ_NORM_UNICAST_NACK then Some (of_bool (opt_norm_unicast_nack os))
      else if opt = ZMQ_NORM_BUFFER_SIZE then Some (opt_norm_buffer_size os)
      else if opt = ZMQ_NORM_SEGMENT_SIZE then Some (opt_norm_segment_size os)
      else if opt = ZMQ_NORM_BLOCK_SIZE then Some (opt_norm_block_size os)
      else if opt = ZMQ_NORM_NUM_PARITY then Some (opt_norm_num_parity os)
      else if opt = ZMQ_NORM_NUM_AUTOPARITY then Some (opt_norm_num_autoparity os)
      else if opt = ZMQ_NORM_PUSH then Some (of_bool (opt_norm_push os))
      else if opt = ZMQ_PLAIN_SERVER then Some (of_bool (sec_plain_server (opt_security os)))
      else if opt = ZMQ_CURVE_SERVER then Some (of_bool (sec_curve_server (opt_security os)))
      else if opt = ZMQ_GSSAPI_SERVER then Some (of_bool (sec_gssapi_server (opt_security os)))
      else if opt = ZMQ_GSSAPI_PLAINTEXT then Some (of_bool (sec_gssapi_plaintext (opt_security os)))
      else if opt = ZMQ_GSSAPI_PRINCIPAL_NAMETYPE then Some (sec_gssapi_principal_nametype (opt_security os))
      else if opt = ZMQ_ZAP_ENFORCE_DOMAIN then Some (of_bool (sec_zap_enforce_domain (opt_security os)))
      else if opt = ZMQ_GSSAPI_SERVICE_PRINCIPAL_NAMETYPE then Some (sec_gssapi_service_principal_nametype (opt_security os))
      else None)"

definition get_option_i32 :: "i32 \<Rightarrow> socket_options \<Rightarrow> i32 result" where
  "get_option_i32 opt os =
     (case get_i32_transport opt os of
        Some v \<Rightarrow> Inr v
      | None \<Rightarrow>
          (case get_i32_pattern opt os of
             Some v \<Rightarrow> Inr v
           | None \<Rightarrow>
               if opt = ZMQ_MECHANISM then Inr (mechanism (opt_security os))
               else if opt = ZMQ_FD then Inr (- 1)
               else if opt = ZMQ_THREAD_SAFE then Inr 0
               else Inl InvalidArgument))"

definition set_option_u64 :: "i32 \<Rightarrow> u64 \<Rightarrow> option_cells \<Rightarrow> unit result \<times> option_cells" where
  "set_option_u64 opt v oc =
     (if opt = ZMQ_AFFINITY then (Inr (), oc\<lparr>oc_options := (oc_options oc)\<lparr>opt_affinity := v\<rparr>\<rparr>)
      else (Inl InvalidArgument, oc))"

definition set_option_i64 :: "i32 \<Rightarrow> i64 \<Rightarrow> option_cells \<Rightarrow> unit result \<times> option_cells" where
  "set_option_i64 opt v oc =
     (if opt = ZMQ_MAXMSGSIZE then (Inr (), oc\<lparr>oc_options := (oc_options oc)\<lparr>opt_maxmsgsize := v\<rparr>\<rparr>)
      else (Inl InvalidArgument, oc))"

definition get_option_u64 :: "i32 \<Rightarrow> socket_options \<Rightarrow> u64 result" where
  "get_option_u64 opt os = (if opt = ZMQ_AFFINITY then Inr (opt_affinity os) else Inl InvalidArgument)"

definition get_option_i64 :: "i32 \<Rightarrow> socket_options \<Rightarrow> i64 result" where
  "get_option_i64 opt os = (if opt = ZMQ_MAXMSGSIZE then Inr (opt_maxmsgsize os) else Inl InvalidArgument)"


section \<open>Byte-string options\<close>

text \<open>The key a CURVE option holds after the attempt: 32 raw bytes or 40 Z85 characters.\<close>

definition set_curve_key :: "bytes \<Rightarrow> bytes \<Rightarrow> unit result \<times> bytes" where
  "set_curve_key target value =
     (if \<not> (length value = 32 \<or> length value = 40) then (Inl InvalidArgument, target)
      else (Inr (), value))"

definition c_string_option :: "bytes \<Rightarrow> bytes" where
  "c_string_option value = value @ [0]"

definition set_option_bytes :: "socket_type \<Rightarrow> i32 \<Rightarrow> bytes \<Rightarrow> option_cells \<Rightarrow> unit result \<times> option_cells" where
  "set_option_bytes st opt value oc =
     (let os = oc_options oc in
      if opt = ZMQ_ROUTING_ID then
        (if value \<noteq> [] \<and> length value \<le> 255
         then (Inr (), oc\<lparr>oc_options := os\<lparr>opt_routing_id := value\<rparr>\<rparr>) else (Inl InvalidArgument, oc))
      else if opt = ZMQ_CONNECT_ROUTING_ID then
        (if (st = Router \<or> st = Stream) \<and> value \<noteq> []
         then (Inr (), oc\<lparr>oc_options := os\<lparr>opt_connect_routing_id := value\<rparr>\<rparr>) else (Inl InvalidArgument, oc))
      else if opt = ZMQ_XPUB_WELCOME_MSG then
        (if st = Xpub then (Inr (), oc\<lparr>oc_welcome := Some value\<rparr>) else (Inl NotSupported, oc))
      else if opt = ZMQ_PLAIN_USERNAME then (Inr (), oc\<lparr>oc_options := os\<lparr>opt_security := (opt_security os)\<lparr>sec_plain_username := value\<rparr>\<rparr>\<rparr>)
      else if opt = ZMQ_PLAIN_PASSWORD then (Inr (), oc\<lparr>oc_options := os\<lparr>opt_security := (opt_security os)\<lparr>sec_plain_password := value\<rparr>\<rparr>\<rparr>)
      else if opt = ZMQ_CURVE_PUBLICKEY then
        map_prod id (\<lambda>k. oc\<lparr>oc_options := os\<lparr>opt_security := (opt_security os)\<lparr>sec_curve_publickey := k\<rparr>\<rparr>\<rparr>)
          (set_curve_key (sec_curve_publickey (opt_security os)) value)
      else if opt = ZMQ_CURVE_SECRETKEY then
        map_prod id (\<lambda>k. oc\<lparr>oc_options := os\<lparr>opt_security := (opt_security os)\<lparr>sec_curve_secretkey := k\<rparr>\<rparr>\<rparr>)
          (set_curve_key (sec_curve_secretkey (opt_security os)) value)
      else if opt = ZMQ_CURVE_SERVERKEY then
        map_prod id (\<lambda>k. oc\<lparr>oc_options := os\<lparr>opt_security := (opt_security os)\<lparr>sec_curve_serverkey := k\<rparr>\<rparr>\<rparr>)
          (set_curve_key (sec_curve_serverkey (opt_security os)) value)
      else if opt = ZMQ_ZAP_DOMAIN then (Inr (), oc\<lparr>oc_options := os\<lparr>opt_security := (opt_security os)\<lparr>sec_zap_domain := value\<rparr>\<rparr>\<rparr>)
      else if opt = ZMQ_GSSAPI_PRINCIPAL then (Inr (), oc\<lparr>oc_options := os\<lparr>opt_security := (opt_security os)\<lparr>sec_gssapi_principal := value\<rparr>\<rparr>\<rparr>)
      else if opt = ZMQ_GSSAPI_SERVICE_PRINCIPAL then (Inr (), oc\<lparr>oc_options := os\<lparr>opt_security := (opt_security os)\<lparr>sec_gssapi_service_principal := value\<rparr>\<rparr>\<rparr>)
      else if opt = ZMQ_SOCKS_PROXY then (Inr (), oc\<lparr>oc_options := os\<lparr>opt_socks_proxy := value\<rparr>\<rparr>)
      else if opt = ZMQ_SOCKS_USERNAME then (Inr (), oc\<lparr>oc_options := os\<lparr>opt_socks_username := value\<rparr>\<rparr>)
      else if opt = ZMQ_SOCKS_PASSWORD then (Inr (), oc\<lparr>oc_options := os\<lparr>opt_socks_password := value\<rparr>\<rparr>)
      else if opt = ZMQ_BINDTODEVICE then (Inr (), oc\<lparr>oc_options := os\<lparr>opt_bind_to_device := value\<rparr>\<rparr>)
      else if opt = ZMQ_HELLO_MSG then (Inr (), oc\<lparr>oc_options := os\<lparr>opt_hello_msg := value\<rparr>\<rparr>)
      else if opt = ZMQ_DISCONNECT_MSG then
        (Inr (), oc\<lparr>oc_options := os\<lparr>opt_disconnect_msg := value\<rparr>, oc_disconnect_msg := value\<rparr>)
      else if opt = ZMQ_HICCUP_MSG then (Inr (), oc\<lparr>oc_options := os\<lparr>opt_hiccup_msg := value\<rparr>\<rparr>)
      else (Inl InvalidArgument, oc))"

definition get_option_bytes :: "i32 \<Rightarrow> socket_options \<Rightarrow> bytes result" where
  "get_option_bytes opt os =
     (if opt = ZMQ_ROUTING_ID then Inr (opt_routing_id os)
      else if opt = ZMQ_PLAIN_USERNAME then Inr (sec_plain_username (opt_security os))
      else if opt = ZMQ_PLAIN_PASSWORD then Inr (sec_plain_password (opt_security os))
      else if opt = ZMQ_CURVE_PUBLICKEY then Inr (sec_curve_publickey (opt_security os))
      else if opt = ZMQ_CURVE_SECRETKEY then Inr (sec_curve_secretkey (opt_security os))
      else if opt = ZMQ_CURVE_SERVERKEY then Inr (sec_curve_serverkey (opt_security os))
      else if opt = ZMQ_ZAP_DOMAIN then Inr (sec_zap_domain (opt_security os))
      else if opt = ZMQ_GSSAPI_PRINCIPAL then Inr (sec_gssapi_principal (opt_security os))
      else if opt = ZMQ_GSSAPI_SERVICE_PRINCIPAL then Inr (sec_gssapi_service_principal (opt_security os))
      else if opt = ZMQ_LAST_ENDPOINT then Inr (opt_last_endpoint os @ [0])
      else if opt = ZMQ_SOCKS_PROXY then Inr (c_string_option (opt_socks_proxy os))
      else if opt = ZMQ_SOCKS_USERNAME then Inr (c_string_option (opt_socks_username os))
      else if opt = ZMQ_SOCKS_PASSWORD then Inr (c_string_option (opt_socks_password os))
      else if opt = ZMQ_BINDTODEVICE then Inr (c_string_option (opt_bind_to_device os))
      else Inl InvalidArgument)"


section \<open>Reading back what was set\<close>

text \<open>Options that can be written but not read.\<close>

definition write_only_options :: "i32 set" where
  "write_only_options = {ZMQ_BUSY_POLL, ZMQ_PROBE_ROUTER, ZMQ_ROUTER_RAW, ZMQ_STREAM_NOTIFY,
     ZMQ_XPUB_MANUAL_LAST_VALUE, ZMQ_ONLY_FIRST_SUBSCRIBE, ZMQ_XSUB_VERBOSE_UNSUBSCRIBE}"

definition flag_options :: "i32 set" where
  "flag_options = {ZMQ_MULTICAST_LOOP, ZMQ_IPV6, ZMQ_IMMEDIATE, ZMQ_INVERT_MATCHING,
     ZMQ_LOOPBACK_FASTPATH, ZMQ_CONFLATE, ZMQ_ROUTER_MANDATORY, ZMQ_ROUTER_HANDOVER,
     ZMQ_REQ_CORRELATE, ZMQ_REQ_RELAXED, ZMQ_XPUB_VERBOSE, ZMQ_XPUB_VERBOSER, ZMQ_XPUB_NODROP,
     ZMQ_XPUB_MANUAL, ZMQ_NORM_UNICAST_NACK, ZMQ_NORM_PUSH, ZMQ_PLAIN_SERVER, ZMQ_CURVE_SERVER,
     ZMQ_GSSAPI_SERVER, ZMQ_GSSAPI_PLAINTEXT, ZMQ_ZAP_ENFORCE_DOMAIN}"

definition stored_value :: "i32 \<Rightarrow> i32 \<Rightarrow> i32" where
  "stored_value opt v =
     (if opt \<in> flag_options then of_bool (v \<noteq> 0)
      else if opt = ZMQ_HEARTBEAT_TTL then v div 100 * 100 else v)"

definition reads_back :: "i32 \<Rightarrow> i32 \<Rightarrow> option_cells \<Rightarrow> bool" where
  "reads_back opt v oc \<longleftrightarrow> get_option_i32 opt (oc_options oc) =
     (if opt \<in> write_only_options then Inl InvalidArgument else Inr (stored_value opt v))"

lemmas reads_back_simps = reads_back_def get_option_i32_def get_i32_transport_def get_i32_pattern_def
  write_only_options_def stored_value_def flag_options_def

lemma set_i32_basic_reads_back: "set_i32_basic opt v oc = Some oc' \<Longrightarrow> reads_back opt v oc'"
  unfolding set_i32_basic_def Let_def
  by (clarsimp split: if_split_asm; simp add: reads_back_simps)

lemma set_i32_tcp_reads_back: "set_i32_tcp opt v oc = Some oc' \<Longrightarrow> reads_back opt v oc'"
  unfolding set_i32_tcp_def Let_def
  by (clarsimp split: if_split_asm; simp add: reads_back_simps)

lemma set_i32_pattern_reads_back: "set_i32_pattern st opt v oc = Some oc' \<Longrightarrow> reads_back opt v oc'"
  unfolding set_i32_pattern_def Let_def
  by (clarsimp split: if_split_asm; simp add: reads_back_simps)

lemma set_i32_norm_security_reads_back: "set_i32_norm_security opt v oc = Some oc' \<Longrightarrow> reads_back opt v oc'"
  unfolding set_i32_norm_security_def Let_def
  by (clarsimp split: if_split_asm; simp add: reads_back_simps)


text \<open>
  Setting one option leaves the value of the others, except that the reported mechanism follows
  from the security options and that the manual-last-value mode is a form of the manual mode.
\<close>

definition independent :: "i32 \<Rightarrow> i32 \<Rightarrow> bool" where
  "independent opt opt' \<longleftrightarrow> opt' \<noteq> opt \<and> opt' \<noteq> ZMQ_MECHANISM
     \<and> \<not> (opt = ZMQ_XPUB_MANUAL_LAST_VALUE \<and> opt' = ZMQ_XPUB_MANUAL)"

lemmas get_i32_simps = get_option_i32_def get_i32_transport_def get_i32_pattern_def

lemma set_i32_basic_frame:
  assumes "set_i32_basic opt v oc = Some oc'" "independent opt opt'"
  shows "get_option_i32 opt' (oc_options oc') = get_option_i32 opt' (oc_options oc)"
proof -
  have "get_i32_transport opt' (oc_options oc') = get_i32_transport opt' (oc_options oc)"
    using assms unfolding set_i32_basic_def Let_def
    by (clarsimp split: if_split_asm; simp add: get_i32_transport_def independent_def)
  moreover have "get_i32_pattern opt' (oc_options oc') = get_i32_pattern opt' (oc_options oc)"
    using assms(1) unfolding set_i32_basic_def Let_def
    by (clarsimp split: if_split_asm; simp add: get_i32_pattern_def)
  moreover have "opt_security (oc_options oc') = opt_security (oc_options oc)"
    using assms(1) unfolding set_i32_basic_def Let_def
    by (clarsimp split: if_split_asm; simp)
  ultimately show ?thesis
    by (simp only: get_option_i32_def)
qed

lemma set_i32_tcp_frame:
  assumes "set_i32_tcp opt v oc = Some oc'" "independent opt opt'"
  shows "get_option_i32 opt' (oc_options oc') = get_option_i32 opt' (oc_options oc)"
proof -
  have "get_i32_transport opt' (oc_options oc') = get_i32_transport opt' (oc_options oc)"
    using assms unfolding set_i32_tcp_def Let_def
    by (clarsimp split: if_split_asm; simp add: get_i32_transport_def independent_def)
  moreover have "get_i32_pattern opt' (oc_options oc') = get_i32_pattern opt' (oc_options oc)"
    using assms(1) unfolding set_i32_tcp_def Let_def
    by (clarsimp split: if_split_asm; simp add: get_i32_pattern_def)
  moreover have "opt_security (oc_options oc') = opt_security (oc_options oc)"
    using assms(1) unfolding set_i32_tcp_def Let_def
    by (clarsimp split: if_split_asm; simp)
  ultimately show ?thesis
    by (simp only: get_option_i32_def)
qed

lemma set_i32_pattern_frame:
  "set_i32_pattern st opt v oc = Some oc' \<Longrightarrow> independent opt opt' \<Longrightarrow>
     get_option_i32 opt' (oc_options oc') = get_option_i32 opt' (oc_options oc)"
  unfolding set_i32_pattern_def Let_def
  by (clarsimp split: if_split_asm; simp add: get_i32_simps independent_def)

lemma set_i32_norm_security_frame:
  "set_i32_norm_security opt v oc = Some oc' \<Longrightarrow> independent opt opt' \<Longrightarrow>
     get_option_i32 opt' (oc_options oc') = get_option_i32 opt' (oc_options oc)"
  unfolding set_i32_norm_security_def Let_def
  by (clarsimp split: if_split_asm; simp add: get_i32_simps independent_def)


section \<open>Ranges\<close>

text \<open>The ranges the rest of the socket relies on, e.g. a send mark that is a count.\<close>

definition options_wf :: "socket_options \<Rightarrow> bool" where
  "options_wf os \<longleftrightarrow>
     - 1 \<le> opt_linger os \<and> 0 \<le> opt_sndhwm os \<and> 0 \<le> opt_rcvhwm os \<and> 0 < opt_rate os
   \<and> 0 \<le> opt_recovery_ivl os \<and> - 1 \<le> opt_sndbuf os \<and> - 1 \<le> opt_rcvbuf os
   \<and> - 1 \<le> opt_reconnect_ivl os \<and> 0 \<le> opt_reconnect_ivl_max os \<and> 0 \<le> opt_backlog os
   \<and> 0 < opt_in_batch_size os \<and> 0 < opt_out_batch_size os \<and> 0 < opt_multicast_hops os
   \<and> 0 < opt_multicast_maxtpdu os \<and> - 1 \<le> opt_tcp_keepalive os \<and> opt_tcp_keepalive os \<le> 1
   \<and> 0 \<le> opt_handshake_ivl os \<and> 0 \<le> opt_heartbeat_ivl os
   \<and> 0 \<le> opt_heartbeat_ttl os \<and> opt_heartbeat_ttl os \<le> 6553500 \<and> 100 dvd opt_heartbeat_ttl os
   \<and> - 1 \<le> opt_sndtimeo os \<and> - 1 \<le> opt_rcvtimeo os
   \<and> 0 \<le> opt_priority os \<and> 0 \<le> opt_tos os \<and> 0 \<le> opt_connect_timeout os \<and> 0 \<le> opt_tcp_maxrt os
   \<and> - 1 \<le> opt_tcp_keepalive_cnt os \<and> - 1 \<le> opt_tcp_keepalive_idle os \<and> - 1 \<le> opt_tcp_keepalive_intvl os
   \<and> - 1 \<le> opt_heartbeat_timeout os \<and> - 1 \<le> opt_use_fd os
   \<and> ZMQ_NORM_FIXED \<le> opt_norm_mode os \<and> opt_norm_mode os \<le> ZMQ_NORM_CCE_ECNONLY
   \<and> 0 < opt_norm_buffer_size os \<and> 0 < opt_norm_segment_size os
   \<and> 0 < opt_norm_block_size os \<and> opt_norm_block_size os \<le> 255
   \<and> 0 \<le> opt_norm_num_parity os \<and> opt_norm_num_parity os < 255
   \<and> 0 \<le> opt_norm_num_autoparity os \<and> opt_norm_num_autoparity os < 255
   \<and> is_valid_gssapi_nametype (sec_gssapi_principal_nametype (opt_security os))
   \<and> is_valid_gssapi_nametype (sec_gssapi_service_principal_nametype (opt_security os))
   \<and> length (opt_routing_id os) \<le> 255
   \<and> length (sec_curve_publickey (opt_security os)) \<in> {0, 32, 40}
   \<and> length (sec_curve_secretkey (opt_security os)) \<in> {0, 32, 40}
   \<and> length (sec_curve_serverkey (opt_security os)) \<in> {0, 32, 40}"

lemma options_wf_default: "options_wf socket_options_default"
  by (simp add: options_wf_def socket_options_default_def security_options_default_def
      is_valid_gssapi_nametype_def)

lemma set_i32_basic_wf: "set_i32_basic opt v oc = Some oc' \<Longrightarrow> options_wf (oc_options oc) \<Longrightarrow> options_wf (oc_options oc')"
  unfolding set_i32_basic_def Let_def
  by (clarsimp split: if_split_asm; simp add: options_wf_def)

lemma set_i32_tcp_wf: "set_i32_tcp opt v oc = Some oc' \<Longrightarrow> options_wf (oc_options oc) \<Longrightarrow> options_wf (oc_options oc')"
  unfolding set_i32_tcp_def Let_def
  by (clarsimp split: if_split_asm; simp add: options_wf_def)

lemma set_i32_pattern_wf: "set_i32_pattern st opt v oc = Some oc' \<Longrightarrow> options_wf (oc_options oc) \<Longrightarrow> options_wf (oc_options oc')"
  unfolding set_i32_pattern_def Let_def
  by (clarsimp split: if_split_asm; simp add: options_wf_def)

lemma set_i32_norm_security_wf: "set_i32_norm_security opt v oc = Some oc' \<Longrightarrow> options_wf (oc_options oc) \<Longrightarrow> options_wf (oc_options oc')"
  unfolding set_i32_norm_security_def Let_def
  by (clarsimp split: if_split_asm; simp add: options_wf_def)

lemma set_option_bytes_wf:
  "set_option_bytes st opt value oc = (r, oc') \<Longrightarrow> options_wf (oc_options oc) \<Longrightarrow> options_wf (oc_options oc')"
  unfolding set_option_bytes_def Let_def set_curve_key_def
  by (clarsimp split: if_split_asm; simp add: options_wf_def)


lemma set_option_i32_cases:
  assumes "set_option_i32 st opt v oc = (Inr (), oc')"
  obtains "set_i32_basic opt v oc = Some oc'" | "set_i32_tcp opt v oc = Some oc'" | "set_i32_pattern st opt v oc = Some oc'"
  | "set_i32_norm_security opt v oc = Some oc'"
  using assms unfolding set_option_i32_def by (auto split: option.splits)

lemma set_option_i32_reads_back: "set_option_i32 st opt v oc = (Inr (), oc') \<Longrightarrow> reads_back opt v oc'"
  by (erule set_option_i32_cases)
    (auto dest: set_i32_basic_reads_back set_i32_tcp_reads_back set_i32_pattern_reads_back set_i32_norm_security_reads_back)

lemma set_option_i32_err: "set_option_i32 st opt v oc = (Inl e, oc') \<Longrightarrow> oc' = oc \<and> e = InvalidArgument"
  unfolding set_option_i32_def by (auto split: option.splits)

lemma set_option_i32_wf:
  assumes "set_option_i32 st opt v oc = (r, oc')" "options_wf (oc_options oc)"
  shows "options_wf (oc_options oc')"
proof (cases r)
  case (Inl e)
  with assms show ?thesis
    using set_option_i32_err by blast
next
  case (Inr x)
  with assms(1) have "set_option_i32 st opt v oc = (Inr (), oc')"
    by simp
  then show ?thesis
    using assms(2) by (cases rule: set_option_i32_cases)
      (auto dest: set_i32_basic_wf set_i32_tcp_wf set_i32_pattern_wf set_i32_norm_security_wf)
qed


section \<open>Properties\<close>

text \<open>C35. Integer options read back: after a successful set the option reads as the value given, reduced to
  0 or 1 for flags and to whole deciseconds for the heartbeat TTL (the seven write-only options
  are refused on read), every independent option keeps its value, and a refused set changes
  nothing.\<close>

theorem socket_option_round_trip:
  "case set_option_i32 st opt v oc of
     (Inr _, oc') \<Rightarrow> reads_back opt v oc' \<and>
        {opt'. independent opt opt'} \<subseteq>
        {opt'. get_option_i32 opt' (oc_options oc') = get_option_i32 opt' (oc_options oc)}
   | (Inl e, oc') \<Rightarrow> e = InvalidArgument \<and> oc' = oc"
proof -
  obtain r oc' where s: "set_option_i32 st opt v oc = (r, oc')"
    by (cases "set_option_i32 st opt v oc")
  show ?thesis
  proof (cases r)
    case (Inl e)
    then show ?thesis
      using s set_option_i32_err [of st opt v oc e oc'] by simp
  next
    case (Inr x)
    then have i: "set_option_i32 st opt v oc = (Inr (), oc')"
      using s by simp
    from i have "reads_back opt v oc'"
      by (rule set_option_i32_reads_back)
    moreover from i have "get_option_i32 opt' (oc_options oc') = get_option_i32 opt' (oc_options oc)"
      if "independent opt opt'" for opt'
      using that by (cases rule: set_option_i32_cases)
        (auto dest: set_i32_basic_frame set_i32_tcp_frame set_i32_pattern_frame set_i32_norm_security_frame)
    ultimately show ?thesis
      using i by auto
  qed
qed

text \<open>C36. Option ranges: whatever sequence of integer and byte-string options is set on a new socket, of any
  type and successfully or not, every option that the setters guard stays in its range: marks,
  intervals, backlog, priority, TOS, connect timeout and TCP retransmission time non-negative, rates,
  batch, hop, TPDU and NORM sizes positive, timeouts, buffer sizes, keepalive values and the
  descriptor at least -1, the heartbeat TTL a multiple of 100 up to 6553500, the NORM mode and block and
  parity numbers in their intervals, name types one of the three known, key lengths 0, 32 or 40, a
  routing id of at most 255 bytes.\<close>

theorem socket_options_in_range:
  assumes "options_wf (oc_options oc)"
  shows "options_wf (oc_options (fold (\<lambda>(opt, x) oc. snd (case x of
       Inl v \<Rightarrow> set_option_i32 st opt v oc | Inr bs \<Rightarrow> set_option_bytes st opt bs oc)) sets oc))"
  using assms
proof (induction sets arbitrary: oc)
  case Nil
  then show ?case by simp
next
  case (Cons x xs)
  have "options_wf (oc_options (snd (set_option_i32 st opt v oc)))" for opt v
    using set_option_i32_wf [OF _ Cons.prems] by (metis prod.collapse)
  moreover have "options_wf (oc_options (snd (set_option_bytes st opt bs oc)))" for opt bs
    using set_option_bytes_wf [OF _ Cons.prems] by (metis prod.collapse)
  ultimately show ?case
    by (auto intro!: Cons.IH split: prod.split sum.split)
qed

definition cells_example :: option_cells where
  "cells_example = \<lparr>oc_options = socket_options_default, oc_fast_send = True,
     oc_policy = xpub_policy_default, oc_welcome = None, oc_disconnect_msg = []\<rparr>"

theorem socket_options_in_range_witness:
  "options_wf (oc_options (fold (\<lambda>(opt, x) oc. snd (case x of
       Inl v \<Rightarrow> set_option_i32 Xpub opt v oc | Inr bs \<Rightarrow> set_option_bytes Xpub opt bs oc))
       [(ZMQ_SNDHWM, Inl 5), (ZMQ_SNDHWM, Inl (- 7)), (ZMQ_TOS, Inl (- 5)), (ZMQ_ROUTING_ID, Inr [1, 2])] cells_example))"
  by (rule socket_options_in_range) (simp add: cells_example_def options_wf_default)

end
