(* ===== verification/Socket.thy ===== *)
theory Socket
  imports Socket_Options
begin

text \<open>
  \<open>Socket\<close> of \<open>crates/libzmq-core/src/socket.rs\<close>: creation, the in-process bind, connect, unbind and
  disconnect, sending and receiving, subscriptions and groups, options, monitoring and polling.

  The world of one context is the context record extended by its sockets. A socket is found
  under a reference; its five shared cells (inbox, subscriptions, disconnect message, welcome
  message, notification policy) live in the heap under the same number. The transports that do
  I/O (TCP, IPC, UDP, NORM, WebSocket with and without TLS) keep their state in a component of
  their own and enter as the parameter \<open>W\<close>, a record of their operations: every definition
  below is for any such operations.
\<close>

section \<open>State\<close>

datatype pattern_state = ReadyToSend | ReadyToRecv

record inproc_state =
  ip_direct_outbox :: "ref option"
  ip_connected_endpoint :: "bytes option"
  ip_bound_endpoint_name :: "bytes option"
  ip_bound_endpoint :: "ref option"

definition inproc_state_default :: inproc_state where
  "inproc_state_default = \<lparr>ip_direct_outbox = None, ip_connected_endpoint = None,
     ip_bound_endpoint_name = None, ip_bound_endpoint = None\<rparr>"

record monitor_state =
  mon_endpoint_name :: bytes
  mon_events :: u64
  mon_event_version :: i32

record socket =
  sk_id :: u64
  sk_type :: socket_type
  sk_options :: socket_options
  sk_inbox :: ref
  sk_subscriptions :: ref
  sk_inproc_disconnect_msg :: ref
  sk_xpub_welcome :: ref
  sk_xpub_policy :: ref
  sk_inproc :: inproc_state
  sk_monitor :: "monitor_state option"
  sk_inproc_fast_send_enabled :: bool
  sk_last_recv_more :: bool
  sk_xsub_send_more :: bool
  sk_xsub_process_subscribe :: bool
  sk_last_recv_routing_id :: "u32 option"
  sk_pattern_state :: "pattern_state option"

record 'w world = context_shared +
  w_sockets :: "ref \<Rightarrow> socket"
  w_wire :: 'w

datatype wire = WireUdp | WireNorm | WireWs | WireWss | WireTcp | WireIpc

record 'w wires =
  wr_has :: "wire \<Rightarrow> ref \<Rightarrow> 'w \<Rightarrow> bool"
  wr_has_stream :: "wire \<Rightarrow> ref \<Rightarrow> 'w \<Rightarrow> bool"
  wr_send :: "wire \<Rightarrow> ref \<Rightarrow> message \<Rightarrow> ('w world, error, unit) comp"
  wr_recv :: "wire \<Rightarrow> ref \<Rightarrow> ('w world, error, message) comp"
  wr_bind :: "wire \<Rightarrow> ref \<Rightarrow> bytes \<Rightarrow> ('w world, error, unit) comp"
  wr_unbind :: "wire \<Rightarrow> ref \<Rightarrow> bytes \<Rightarrow> ('w world, error, unit) comp"
  wr_connect :: "wire \<Rightarrow> ref \<Rightarrow> bytes \<Rightarrow> ('w world, error, unit) comp"
  wr_disconnect :: "wire \<Rightarrow> ref \<Rightarrow> bytes \<Rightarrow> ('w world, error, unit) comp"
text \<open>A build without any I/O transport: no socket ever uses one, and its schemes are refused.\<close>

definition no_wires :: "'w wires" where
  "no_wires =
     \<lparr>wr_has = (\<lambda>_ _ _. False), wr_has_stream = (\<lambda>_ _ _. False),
      wr_send = (\<lambda>_ _ _. throw NotSupported), wr_recv = (\<lambda>_ _. throw NotSupported),
      wr_bind = (\<lambda>_ _ _. throw NotSupported), wr_unbind = (\<lambda>_ _ _. throw NotSupported),
      wr_connect = (\<lambda>_ _ _. throw NotSupported), wr_disconnect = (\<lambda>_ _ _. throw NotSupported)\<rparr>"

definition update_socket :: "ref \<Rightarrow> (socket \<Rightarrow> socket) \<Rightarrow> 'w world \<Rightarrow> 'w world" where
  "update_socket s f w = w\<lparr>w_sockets := (w_sockets w)(s := f (w_sockets w s))\<rparr>"

definition update_inproc :: "ref \<Rightarrow> (inproc_state \<Rightarrow> inproc_state) \<Rightarrow> 'w world \<Rightarrow> 'w world" where
  "update_inproc s f = update_socket s (\<lambda>k. k\<lparr>sk_inproc := f (sk_inproc k)\<rparr>)"


section \<open>Creation\<close>

definition socket_record :: "u64 \<Rightarrow> socket_type \<Rightarrow> ref \<Rightarrow> context_socket_defaults \<Rightarrow> socket" where
  "socket_record i t r d =
     \<lparr>sk_id = i, sk_type = t,
      sk_options = socket_options_default\<lparr>opt_linger := (if sd_blocky d then - 1 else 0), opt_ipv6 := sd_ipv6 d\<rparr>,
      sk_inbox = r, sk_subscriptions = r, sk_inproc_disconnect_msg = r, sk_xpub_welcome = r,
      sk_xpub_policy = r, sk_inproc = inproc_state_default, sk_monitor = None,
      sk_inproc_fast_send_enabled = True, sk_last_recv_more = False, sk_xsub_send_more = False,
      sk_xsub_process_subscribe = False, sk_last_recv_routing_id = None,
      sk_pattern_state = (case t of Req \<Rightarrow> Some ReadyToSend | Rep \<Rightarrow> Some ReadyToRecv | _ \<Rightarrow> None)\<rparr>"

text \<open>\<open>Arc::new\<close> of the five shared cells under one fresh number.\<close>

definition alloc_cells :: "'z heap_scheme \<Rightarrow> ref \<times> 'z heap_scheme" where
  "alloc_cells h =
     (let r = next_ref h
      in (r, h\<lparr>next_ref := r + 1, queues := (queues h)(r := []),
              subscriptions := (subscriptions h)(r := subscription_default),
              lifecycle_msgs := (lifecycle_msgs h)(r := []), welcomes := (welcomes h)(r := None),
              policies := (policies h)(r := xpub_policy_default)\<rparr>))"

definition socket_new :: "u64 \<Rightarrow> socket_type \<Rightarrow> context_socket_defaults \<Rightarrow> 'w world \<Rightarrow> ref \<times> 'w world" where
  "socket_new i t d w =
     (case alloc_cells w of (r, w1) \<Rightarrow> (r, update_socket r (\<lambda>_. socket_record i t r d) w1))"

definition context_socket :: "socket_type \<Rightarrow> ('w world, error, ref) comp" where
  "context_socket t w =
     (case ensure_running w of
        Inl e \<Rightarrow> (Inl e, w)
      | Inr _ \<Rightarrow>
          (case next_transient_socket_id w of
             (i, w1) \<Rightarrow> (case socket_new i t (socket_defaults w1) w1 of (s, w2) \<Rightarrow> (Inr s, w2))))"

text \<open>The world of a new context, before any socket exists.\<close>

definition world_new :: "'w \<Rightarrow> 'w world" where
  "world_new x =
     context_shared.extend context_new
       (world.fields (\<lambda>_. socket_record 0 Pair 0 \<lparr>sd_ipv6 = False, sd_blocky = True\<rparr>) x)"


section \<open>Routing\<close>

definition can_send :: "socket_type \<Rightarrow> bool" where
  "can_send t \<longleftrightarrow> t \<in> {Pair, Push, Dealer, Router, Req, Rep, Server, Client, Peer, Pub, Xpub, Xsub,
     Stream, Channel, Scatter, Radio, Dgram}"

definition can_recv :: "socket_type \<Rightarrow> bool" where
  "can_recv t \<longleftrightarrow> t \<in> {Pair, Pull, Dealer, Router, Req, Rep, Server, Client, Peer, Sub, Xpub, Xsub,
     Stream, Channel, Gather, Dish, Dgram}"

text \<open>The endpoint a connected socket finds under the name it connected to, if it is bound.\<close>

definition connected_bound :: "ref \<Rightarrow> 'w world \<Rightarrow> ref option" where
  "connected_bound s w =
     (case ip_connected_endpoint (sk_inproc (w_sockets w s)) of
        None \<Rightarrow> None | Some name \<Rightarrow> inproc_endpoint_of name w)"

text \<open>\<open>self.id as u32\<close> keeps the low 32 bits.\<close>

definition apply_outgoing_routing_id :: "ref \<Rightarrow> message \<Rightarrow> 'w world \<Rightarrow> message" where
  "apply_outgoing_routing_id s m w =
     (case connected_bound s w of
        None \<Rightarrow> m
      | Some e \<Rightarrow>
          if ep_binder_type (endpoints w e) \<in> {Router, Rep, Server, Peer}
          then set_routing_id (ucast (sk_id (w_sockets w s))) m else m)"

definition apply_reply_routing_id :: "ref \<Rightarrow> message \<Rightarrow> 'w world \<Rightarrow> message" where
  "apply_reply_routing_id s m w =
     (if sk_type (w_sockets w s) = Rep \<and> msg_routing_id m = 0 then
        (case sk_last_recv_routing_id (w_sockets w s) of None \<Rightarrow> m | Some r \<Rightarrow> set_routing_id r m)
      else m)"

text \<open>\<open>routing_id() as usize\<close> widens to 64 bits.\<close>

definition resolve_outboxes :: "ref \<Rightarrow> message \<Rightarrow> ('w world, error, ref list) comp" where
  "resolve_outboxes s m w =
     (let k = w_sockets w s; ip = sk_inproc k
      in case connected_bound s w of
           Some e \<Rightarrow>
             (Inr (if binder_accepts e m w then [ep_binder_inbox (endpoints w e)] else []), w)
         | None \<Rightarrow>
             (case ip_direct_outbox ip of
                Some q \<Rightarrow> (Inr [q], w)
              | None \<Rightarrow>
                  (case ip_bound_endpoint ip of
                     None \<Rightarrow> (Inl Again, w)
                   | Some e \<Rightarrow>
                       if sk_type k \<in> {Pub, Xpub, Radio} then map_prod Inr id (matching_peers e m w)
                       else if sk_type k \<in> {Router, Server, Peer} \<and> msg_routing_id m \<noteq> 0 then
                         (Inr (case peer_by_id e (ucast (msg_routing_id m)) w of None \<Rightarrow> [] | Some q \<Rightarrow> [q]), w)
                       else if sk_type k \<in> {Server, Peer} then (Inr [], w)
                       else if sk_type k = Rep \<and> msg_routing_id m \<noteq> 0 then
                         (Inr (case peer_by_id e (ucast (msg_routing_id m)) w of None \<Rightarrow> [] | Some q \<Rightarrow> [q]), w)
                       else if sk_type k \<in> {Push, Scatter} then
                         map_prod (\<lambda>r. Inr (case r of None \<Rightarrow> [] | Some q \<Rightarrow> [q])) id (next_peer e w)
                       else (Inr (case first_peer e w of None \<Rightarrow> [] | Some q \<Rightarrow> [q]), w))))"


section \<open>The request-reply pattern\<close>

definition ensure_can_send_for_pattern :: "socket \<Rightarrow> unit result" where
  "ensure_can_send_for_pattern k =
     (if sk_type k \<notin> {Req, Rep} then Inr ()
      else case sk_pattern_state k of
             Some ReadyToRecv \<Rightarrow>
               if sk_type k = Req \<and> opt_req_relaxed (sk_options k) then Inr () else Inl InvalidState
           | _ \<Rightarrow> Inr ())"

definition after_pattern_send :: "ref \<Rightarrow> bool \<Rightarrow> ('w world, error, unit) comp" where
  "after_pattern_send s has_more w =
     (let k = w_sockets w s
      in if sk_type k \<notin> {Req, Rep} then (Inr (), w)
         else case sk_pattern_state k of
                Some ReadyToSend \<Rightarrow>
                  (Inr (), if \<not> has_more then update_socket s (\<lambda>k. k\<lparr>sk_pattern_state := Some ReadyToRecv\<rparr>) w else w)
              | Some ReadyToRecv \<Rightarrow>
                  if sk_type k = Req \<and> opt_req_relaxed (sk_options k)
                  then (Inr (), update_socket s (\<lambda>k. k\<lparr>sk_pattern_state := Some ReadyToRecv\<rparr>) w)
                  else (Inl InvalidState, w)
              | None \<Rightarrow> (Inr (), w))"

definition ensure_can_recv_for_pattern :: "socket \<Rightarrow> unit result" where
  "ensure_can_recv_for_pattern k =
     (if sk_type k \<notin> {Req, Rep} then Inr ()
      else case sk_pattern_state k of Some ReadyToSend \<Rightarrow> Inl InvalidState | _ \<Rightarrow> Inr ())"

definition after_pattern_recv :: "ref \<Rightarrow> bool \<Rightarrow> ('w world, error, unit) comp" where
  "after_pattern_recv s has_more w =
     (let k = w_sockets w s
      in if sk_type k \<notin> {Req, Rep} then (Inr (), w)
         else case sk_pattern_state k of
                Some ReadyToRecv \<Rightarrow>
                  (Inr (), if \<not> has_more then update_socket s (\<lambda>k. k\<lparr>sk_pattern_state := Some ReadyToSend\<rparr>) w else w)
              | Some ReadyToSend \<Rightarrow> (Inl InvalidState, w)
              | None \<Rightarrow> (Inr (), w))"


section \<open>Sending\<close>

text \<open>
  An XSUB socket connected to an XPUB sends its subscriptions as messages: a first byte 1 or 0
  and the topic. The answer says whether the message was consumed that way.
\<close>

definition xsub_endpoint :: "ref \<Rightarrow> 'w world \<Rightarrow> ref option" where
  "xsub_endpoint s w =
     (if sk_type (w_sockets w s) \<noteq> Xsub then None
      else case connected_bound s w of
             None \<Rightarrow> None
           | Some e \<Rightarrow> if ep_binder_type (endpoints w e) \<noteq> Xpub then None else Some e)"

definition xsub_subscribe_command :: "ref \<Rightarrow> ref \<Rightarrow> bytes \<Rightarrow> 'w world \<Rightarrow> 'w world" where
  "xsub_subscribe_command s e p w =
     (let k = w_sockets w s; (inserted, subs) = sub_insert p (subscriptions w (sk_subscriptions k));
          w1 = w\<lparr>subscriptions := (subscriptions w)(sk_subscriptions k := subs)\<rparr>;
          w2 = update_socket s (\<lambda>k. k\<lparr>sk_xsub_process_subscribe := True\<rparr>) w1
      in if inserted then replay_subscription e (sk_id k) p w2
         else replay_duplicate_subscription e (sk_id k) p w2)"

definition xsub_unsubscribe_command :: "ref \<Rightarrow> ref \<Rightarrow> bytes \<Rightarrow> 'w world \<Rightarrow> 'w world" where
  "xsub_unsubscribe_command s e p w =
     (let k = w_sockets w s; (removed, subs) = sub_remove p (subscriptions w (sk_subscriptions k));
          verbose = opt_xsub_verbose_unsubscribe (sk_options k);
          w1 = w\<lparr>subscriptions := (subscriptions w)(sk_subscriptions k := subs)\<rparr>;
          w2 = update_socket s (\<lambda>k. k\<lparr>sk_xsub_process_subscribe := True\<rparr>) w1
      in if removed \<or> verbose then replay_unsubscription e (sk_id k) p (verbose \<and> \<not> removed) w2 else w2)"

definition try_process_xsub_subscription_send :: "ref \<Rightarrow> message \<Rightarrow> 'w world \<Rightarrow> bool \<times> 'w world" where
  "try_process_xsub_subscription_send s m w =
     (case xsub_endpoint s w of
        None \<Rightarrow> (False, w)
      | Some e \<Rightarrow>
          let k = w_sockets w s;
              first_part = (\<not> sk_xsub_send_more k);
              should_process = (first_part \<or> sk_xsub_process_subscribe k);
              only_first = opt_only_first_subscribe (sk_options k);
              w1 = update_socket s (\<lambda>k. k\<lparr>sk_xsub_process_subscribe :=
                       (if first_part then \<not> only_first else sk_xsub_process_subscribe k),
                     sk_xsub_send_more := msg_more m\<rparr>) w
          in if only_first \<or> \<not> should_process then (False, w1)
             else case data m of
                    [] \<Rightarrow> (False, w1)
                  | b # p \<Rightarrow>
                      if b = 1 then (True, xsub_subscribe_command s e p w1)
                      else if b = 0 then (True, xsub_unsubscribe_command s e p w1)
                      else (False, w1))"

text \<open>The answer is the message back when no fast path applies.\<close>

definition fast_outbox :: "ref \<Rightarrow> 'w world \<Rightarrow> ref option \<times> 'w world" where
  "fast_outbox s w =
     (let k = w_sockets w s
      in case ip_direct_outbox (sk_inproc k) of
           Some q \<Rightarrow> (Some q, w)
         | None \<Rightarrow>
             (case ip_bound_endpoint (sk_inproc k) of
                None \<Rightarrow> (None, w)
              | Some e \<Rightarrow>
                  if sk_type k = Push then next_peer e w
                  else if sk_type k \<in> {Pair, Channel} then (first_peer e w, w) else (None, w)))"

definition try_send_inproc_fast :: "ref \<Rightarrow> message \<Rightarrow> 'w world \<Rightarrow> message option \<times> 'w world" where
  "try_send_inproc_fast s m w =
     (let k = w_sockets w s
      in case (if sk_type k = Pub then ip_bound_endpoint (sk_inproc k) else None) of
           Some e \<Rightarrow> (None, snd (send_owned_to_matching_peers e m w))
         | None \<Rightarrow>
             if sk_type k \<notin> {Pair, Push, Channel} \<or> \<not> sk_inproc_fast_send_enabled k then (Some m, w)
             else (case fast_outbox s w of
                     (None, w1) \<Rightarrow> (Some m, w1)
                   | (Some q, w1) \<Rightarrow> (None, push_back q m w1)))"

text \<open>The loop over the outboxes: conflation empties a queue first, a full queue ends the send.\<close>

fun deliver :: "socket_options \<Rightarrow> message \<Rightarrow> ref list \<Rightarrow> ('w world, error, unit) comp" where
  "deliver os m [] w = (Inr (), w)"
| "deliver os m (q # qs) w =
     (if opt_conflate os then deliver os m qs (push_back q m (w\<lparr>queues := (queues w)(q := [])\<rparr>))
      else if opt_sndhwm os > 0 \<and> length (queues w q) \<ge> nat (opt_sndhwm os) then (Inl Again, w)
      else deliver os m qs (push_back q m w))"

definition send_resolved :: "ref \<Rightarrow> message \<Rightarrow> nat \<Rightarrow> ref list \<Rightarrow> ('w world, error, nat) comp" where
  "send_resolved s m nbytes outboxes w =
     (let k = w_sockets w s
      in if outboxes = [] then
           (if sk_type k \<in> {Pub, Xpub, Radio} then
              (if sk_type k = Xpub \<and> opt_xpub_nodrop (sk_options k) then (Inl Again, w)
               else bnd (after_pattern_send s (msg_more m)) (\<lambda>_. ret nbytes) w)
            else if sk_type k = Router \<and> msg_routing_id m \<noteq> 0 \<and> opt_router_mandatory (sk_options k)
            then (Inl HostUnreachable, w)
            else if sk_type k \<in> {Server, Peer} \<and> msg_routing_id m \<noteq> 0 then (Inl HostUnreachable, w)
            else (Inl Again, w))
         else bnd (deliver (sk_options k) m outboxes) (\<lambda>_.
              bnd (after_pattern_send s (msg_more m)) (\<lambda>_. ret nbytes)) w)"

definition send_slow :: "ref \<Rightarrow> message \<Rightarrow> nat \<Rightarrow> ('w world, error, nat) comp" where
  "send_slow s m nbytes = bnd (resolve_outboxes s m) (send_resolved s m nbytes)"

text \<open>The transports are asked in the order of the source; the first that is in use takes over.\<close>

definition active_wire :: "'w wires \<Rightarrow> ref \<Rightarrow> 'w world \<Rightarrow> wire option" where
  "active_wire W s w =
     List.find (\<lambda>x. wr_has W x s (w_wire w)) [WireUdp, WireNorm, WireWs, WireWss, WireTcp, WireIpc]"

definition send_transport :: "'w wires \<Rightarrow> ref \<Rightarrow> message \<Rightarrow> nat \<Rightarrow> ('w world, error, nat) comp" where
  "send_transport W s m nbytes w =
     (case active_wire W s w of
        Some x \<Rightarrow>
          bnd (wr_send W x s m) (\<lambda>_. bnd (after_pattern_send s (msg_more m)) (\<lambda>_. ret nbytes)) w
      | None \<Rightarrow> send_slow s m nbytes w)"

definition outgoing_message :: "ref \<Rightarrow> message \<Rightarrow> i32 \<Rightarrow> 'w world \<Rightarrow> message" where
  "outgoing_message s m flags w =
     apply_outgoing_routing_id s
       (apply_reply_routing_id s (set_more ((flags AND ZMQ_SNDMORE) \<noteq> 0) m) w) w"

definition send :: "'w wires \<Rightarrow> ref \<Rightarrow> message \<Rightarrow> i32 \<Rightarrow> ('w world, error, nat) comp" where
  "send W s m flags w =
     (let k = w_sockets w s
      in if \<not> can_send (sk_type k) then (Inl NotSupported, w)
         else case ensure_can_send_for_pattern k of
                Inl e \<Rightarrow> (Inl e, w)
              | Inr _ \<Rightarrow>
                  let nbytes = message_len m; m1 = outgoing_message s m flags w; has_more = msg_more m1
                  in case try_process_xsub_subscription_send s m1 w of
                       (True, w1) \<Rightarrow> bnd (after_pattern_send s has_more) (\<lambda>_. ret nbytes) w1
                     | (False, w1) \<Rightarrow>
                         (case try_send_inproc_fast s m1 w1 of
                            (None, w2) \<Rightarrow> bnd (after_pattern_send s has_more) (\<lambda>_. ret nbytes) w2
                          | (Some m2, w2) \<Rightarrow> send_transport W s m2 nbytes w2))"


section \<open>Receiving\<close>

definition record_recv_metadata :: "ref \<Rightarrow> message \<Rightarrow> 'w world \<Rightarrow> 'w world" where
  "record_recv_metadata s m =
     update_socket s (\<lambda>k. k\<lparr>sk_last_recv_more := msg_more m,
       sk_last_recv_routing_id :=
         (if msg_routing_id m \<noteq> 0 then Some (msg_routing_id m) else sk_last_recv_routing_id k)\<rparr>)"

definition pop_front :: "ref \<Rightarrow> 'z heap_scheme \<Rightarrow> message option \<times> 'z heap_scheme" where
  "pop_front q h =
     (case queues h q of
        [] \<Rightarrow> (None, h) | m # ms \<Rightarrow> (Some m, h\<lparr>queues := (queues h)(q := ms)\<rparr>))"

definition try_recv_inproc_fast :: "ref \<Rightarrow> 'w world \<Rightarrow> message option \<times> 'w world" where
  "try_recv_inproc_fast s w =
     (let k = w_sockets w s
      in case pop_front (sk_inbox k) w of
           (None, w1) \<Rightarrow> (None, w1)
         | (Some m, w1) \<Rightarrow>
             (Some m,
              if msg_more m \<or> msg_routing_id m \<noteq> 0 \<or> sk_last_recv_more k \<or> sk_type k = Rep
              then record_recv_metadata s m w1 else w1))"

definition recv_inbox :: "ref \<Rightarrow> ('w world, error, message) comp" where
  "recv_inbox s w =
     (case pop_front (sk_inbox (w_sockets w s)) w of
        (None, w1) \<Rightarrow> (Inl Again, w1)
      | (Some m, w1) \<Rightarrow>
          bnd (after_pattern_recv s (msg_more m)) (\<lambda>_. ret m) (record_recv_metadata s m w1))"

definition recv :: "'w wires \<Rightarrow> ref \<Rightarrow> i32 \<Rightarrow> ('w world, error, message) comp" where
  "recv W s flags w =
     (let k = w_sockets w s
      in if \<not> can_recv (sk_type k) then (Inl NotSupported, w)
         else case ensure_can_recv_for_pattern k of
                Inl e \<Rightarrow> (Inl e, w)
              | Inr _ \<Rightarrow>
                  (case try_recv_inproc_fast s w of
                     (Some m, w1) \<Rightarrow> bnd (after_pattern_recv s (msg_more m)) (\<lambda>_. ret m) w1
                   | (None, w1) \<Rightarrow>
                       (case active_wire W s w1 of
                          Some x \<Rightarrow>
                            bnd (wr_recv W x s) (\<lambda>m.
                            bnd (modify (record_recv_metadata s m)) (\<lambda>_.
                            bnd (after_pattern_recv s (msg_more m)) (\<lambda>_. ret m))) w1
                        | None \<Rightarrow> recv_inbox s w1)))"


section \<open>What the operations leave alone\<close>

lemma update_socket_simps [simp]:
  "queues (update_socket s f w) = queues w" "subscriptions (update_socket s f w) = subscriptions w"
  "lifecycle_msgs (update_socket s f w) = lifecycle_msgs w" "welcomes (update_socket s f w) = welcomes w"
  "policies (update_socket s f w) = policies w" "endpoints (update_socket s f w) = endpoints w"
  "next_ref (update_socket s f w) = next_ref w"
  "ctx_inproc_endpoints (update_socket s f w) = ctx_inproc_endpoints w"
  "ctx_pending_inproc (update_socket s f w) = ctx_pending_inproc w"
  "ctx_state (update_socket s f w) = ctx_state w" "ctx_options (update_socket s f w) = ctx_options w"
  "ctx_next_socket_id (update_socket s f w) = ctx_next_socket_id w"
  "w_sockets (update_socket s f w) = (w_sockets w)(s := f (w_sockets w s))"
  "w_wire (update_socket s f w) = w_wire w"
  by (simp_all add: update_socket_def)

text \<open>A heap operation does not see the sockets: it keeps everything that extends the heap.\<close>

lemma world_more_eq:
  assumes "heap.more w' = heap.more (w :: 'w world)"
  shows "w_sockets w' = w_sockets w" "w_wire w' = w_wire w"
    "ctx_inproc_endpoints w' = ctx_inproc_endpoints w" "ctx_pending_inproc w' = ctx_pending_inproc w"
    "ctx_state w' = ctx_state w"
  using assms by (cases w; cases w'; simp)+

lemma push_back_world [simp]:
  fixes w :: "'w world"
  shows "w_sockets (push_back q m w) = w_sockets w" "w_wire (push_back q m w) = w_wire w"
  "ctx_inproc_endpoints (push_back q m w) = ctx_inproc_endpoints w"
  using world_more_eq [of "push_back q m w" w] by simp_all

lemma next_peer_more: "heap.more (snd (next_peer e h)) = heap.more h"
  by (simp add: next_peer_def Let_def)

lemma matching_peers_more: "heap.more (snd (matching_peers e m h)) = heap.more h"
  by (simp add: matching_peers_def manual_matching_peer_ids_def Let_def split: option.split)

lemma resolve_outboxes_more: "heap.more (snd (resolve_outboxes s m w)) = heap.more w"
  by (simp add: resolve_outboxes_def Let_def next_peer_more matching_peers_more split: option.split)

lemma resolve_outboxes_queues: "queues (snd (resolve_outboxes s m w)) = queues w"
  by (simp add: resolve_outboxes_def Let_def next_peer_def matching_peers_def manual_matching_peer_ids_def
      split: option.split)

lemma deliver_more: "heap.more (snd (deliver os m qs w)) = heap.more w"
proof (induction os m qs w rule: deliver.induct)
  case (2 os m q qs w)
  then show ?case by (cases "opt_conflate os") simp_all
qed simp

lemmas resolve_outboxes_world [simp] = world_more_eq [OF resolve_outboxes_more]
lemmas deliver_world [simp] = world_more_eq [OF deliver_more]

lemma pop_front_world [simp]:
  "w_sockets (snd (pop_front q w)) = w_sockets w" "w_wire (snd (pop_front q w)) = w_wire w"
  by (simp_all add: pop_front_def split: list.split)

lemma record_recv_metadata_simps [simp]:
  "queues (record_recv_metadata s m w) = queues w" "w_wire (record_recv_metadata s m w) = w_wire w"
  by (simp_all add: record_recv_metadata_def)

lemma active_wire_cong: "w_wire w = w_wire w' \<Longrightarrow> active_wire W s w = active_wire W s w'"
  by (simp add: active_wire_def)

lemma active_wire_no_wires [simp]: "active_wire no_wires s w = None"
  by (simp add: active_wire_def no_wires_def)

lemma world_new_simps [simp]:
  "queues (world_new x) = (\<lambda>_. [])" "next_ref (world_new x) = 0" "ctx_state (world_new x) = STATE_RUNNING"
  "ctx_inproc_endpoints (world_new x) = Map.empty" "ctx_pending_inproc (world_new x) = Map.empty"
  "ctx_next_socket_id (world_new x) = 1" "w_wire (world_new x) = x"
  by (simp_all add: world_new_def context_new_def context_shared.defs world.defs)

lemma outgoing_message_simps [simp]:
  "data (outgoing_message s m flags w) = data m"
  "msg_more (outgoing_message s m flags w) = ((flags AND ZMQ_SNDMORE) \<noteq> 0)"
  by (auto simp: outgoing_message_def apply_outgoing_routing_id_def apply_reply_routing_id_def
      split: option.split)

end
