(* ===== verification/Socket_Endpoints.thy ===== *)
theory Socket_Endpoints
  imports Socket
begin

text \<open>
  The rest of \<open>impl Socket\<close> in \<open>crates/libzmq-core/src/socket.rs\<close>: binding, connecting and their
  inverses, the monitor and its event messages, subscriptions and groups, the option interface
  and the poll events.

  \<open>to_ne_bytes\<close> is the byte order of the machine; the model takes a little-endian one.
\<close>

section \<open>Monitor events\<close>

definition to_ne :: "nat \<Rightarrow> nat \<Rightarrow> bytes" where
  "to_ne n v = rev (to_be n v)"

definition more_message :: "bytes \<Rightarrow> message" where
  "more_message d = set_more True (message_from_vec d)"

definition push_all :: "ref \<Rightarrow> message list \<Rightarrow> 'z heap_scheme \<Rightarrow> 'z heap_scheme" where
  "push_all q ms h = fold (push_back q) ms h"

definition push_monitor_event_v2 ::
  "ref \<Rightarrow> u64 \<Rightarrow> u64 list \<Rightarrow> bytes \<Rightarrow> bytes \<Rightarrow> 'z heap_scheme \<Rightarrow> 'z heap_scheme" where
  "push_monitor_event_v2 q event values local_endpoint remote_endpoint =
     push_all q
       ([more_message (to_ne 8 (unat event)), more_message (to_ne 8 (length values))]
        @ map (\<lambda>v. more_message (to_ne 8 (unat v))) values
        @ [more_message local_endpoint, message_from_vec remote_endpoint])"

definition emit_monitor_event :: "ref \<Rightarrow> i32 \<Rightarrow> i32 \<Rightarrow> bytes \<Rightarrow> 'w world \<Rightarrow> 'w world" where
  "emit_monitor_event s event value endpoint w =
     (case sk_monitor (w_sockets w s) of
        None \<Rightarrow> w
      | Some mon \<Rightarrow>
          if mon_events mon AND word_of_int event = 0 \<and> mon_events mon \<noteq> word_of_int ZMQ_EVENT_ALL then w
          else case inproc_endpoint_of (mon_endpoint_name mon) w of
                 None \<Rightarrow> w
               | Some e \<Rightarrow>
                   (case first_peer e w of
                      None \<Rightarrow> w
                    | Some q \<Rightarrow>
                        if mon_event_version mon = 2
                        then push_monitor_event_v2 q (word_of_int event) [word_of_int value] endpoint [] w
                        else push_all q
                               [more_message (to_ne 2 (unat (word_of_int event :: u16))
                                              @ to_ne 4 (unat (word_of_int value :: u32))),
                                message_from_vec endpoint] w))"

definition stop_monitor :: "ref \<Rightarrow> 'w world \<Rightarrow> 'w world" where
  "stop_monitor s w =
     (case sk_monitor (w_sockets w s) of
        None \<Rightarrow> w
      | Some mon \<Rightarrow>
          snd (unbind_inproc (mon_endpoint_name mon) (update_socket s (\<lambda>k. k\<lparr>sk_monitor := None\<rparr>) w)))"

definition monitor :: "ref \<Rightarrow> bytes \<Rightarrow> u64 \<Rightarrow> i32 \<Rightarrow> i32 \<Rightarrow> ('w world, error, unit) comp" where
  "monitor s endpoint events event_version type_number w =
     (if event_version = 1 \<and> drop_bit 16 events \<noteq> 0 then (Inl InvalidArgument, w)
      else if type_number \<notin> {ZMQ_PAIR, ZMQ_PUB, ZMQ_PUSH} then (Inl InvalidArgument, w)
      else case socket_type_try_from type_number of
             Inl e \<Rightarrow> (Inl e, w)
           | Inr t \<Rightarrow>
               (case strip_prefix (lit ''inproc://'') endpoint of
                  None \<Rightarrow> (Inl ProtocolNotSupported, w)
                | Some name \<Rightarrow>
                    (case alloc_cells (stop_monitor s w) of
                       (r, w1) \<Rightarrow>
                         bnd (bind_inproc name \<lparr>bd_inbox = r, bd_socket_type = t, bd_subscriptions = r,
                                bd_disconnect_msg = r, bd_welcome = r, bd_xpub_policy = r\<rparr>) (\<lambda>_.
                           modify (update_socket s (\<lambda>k. k\<lparr>sk_monitor :=
                             Some \<lparr>mon_endpoint_name = name, mon_events = events, mon_event_version = event_version\<rparr>\<rparr>))) w1)))"

definition has_monitorable_pipe :: "'w wires \<Rightarrow> ref \<Rightarrow> 'w world \<Rightarrow> bool" where
  "has_monitorable_pipe W s w =
     (let ip = sk_inproc (w_sockets w s)
      in if ip_direct_outbox ip \<noteq> None then True
         else if connected_bound s w \<noteq> None then True
         else if (case ip_bound_endpoint ip of None \<Rightarrow> False | Some e \<Rightarrow> peer_count e w \<noteq> 0) then True
         else wr_has_stream W WireTcp s (w_wire w) \<or> wr_has_stream W WireIpc s (w_wire w))"

definition inproc_uri :: "bytes option \<Rightarrow> bytes" where
  "inproc_uri name = (case name of None \<Rightarrow> [] | Some n \<Rightarrow> lit ''inproc://'' @ n)"

definition emit_monitor_pipe_stats :: "'w wires \<Rightarrow> ref \<Rightarrow> ('w world, error, unit) comp" where
  "emit_monitor_pipe_stats W s w =
     (let k = w_sockets w s; ip = sk_inproc k; ev = word_of_int ZMQ_EVENT_PIPES_STATS
      in case sk_monitor k of
           None \<Rightarrow> (Inl InvalidArgument, w)
         | Some mon \<Rightarrow>
             (case Option.bind (inproc_endpoint_of (mon_endpoint_name mon) w) (\<lambda>e. first_peer e w) of
                None \<Rightarrow> (Inr (), w)
              | Some q \<Rightarrow>
                  (case ip_bound_endpoint ip of
                     Some e \<Rightarrow>
                       (let uri = inproc_uri (ip_bound_endpoint_name ip)
                        in (Inr (), fold (\<lambda>d. push_monitor_event_v2 q ev [word_of_nat d, 0] uri uri)
                              (peer_queue_depths e w) w))
                   | None \<Rightarrow>
                       (case ip_direct_outbox ip of
                          Some out \<Rightarrow>
                            (let uri = inproc_uri (ip_connected_endpoint ip)
                             in (Inr (), push_monitor_event_v2 q ev [word_of_nat (length (queues w out)), 0] uri uri w))
                        | None \<Rightarrow>
                            if wr_has_stream W WireTcp s (w_wire w) \<or> wr_has_stream W WireIpc s (w_wire w)
                            then (let uri = opt_last_endpoint (sk_options k)
                                  in (Inr (), push_monitor_event_v2 q ev [0, 0] uri uri w))
                            else (Inl NotSupported, w)))))"

definition monitor_pipes_stats :: "'w wires \<Rightarrow> ref \<Rightarrow> ('w world, error, unit) comp" where
  "monitor_pipes_stats W s w =
     (case sk_monitor (w_sockets w s) of
        None \<Rightarrow> (Inl InvalidArgument, w)
      | Some mon \<Rightarrow>
          if mon_events mon AND word_of_int ZMQ_EVENT_PIPES_STATS = 0 then (Inl InvalidArgument, w)
          else if \<not> has_monitorable_pipe W s w then (Inl Again, w)
          else emit_monitor_pipe_stats W s w)"


section \<open>Binding and connecting\<close>

definition set_last_endpoint :: "ref \<Rightarrow> bytes \<Rightarrow> 'w world \<Rightarrow> 'w world" where
  "set_last_endpoint s endpoint =
     update_socket s (\<lambda>k. k\<lparr>sk_options := (sk_options k)\<lparr>opt_last_endpoint := endpoint\<rparr>\<rparr>)"

text \<open>The prefix tests at the head of bind, unbind, connect and disconnect.\<close>

definition wire_scheme :: "bytes \<Rightarrow> wire option" where
  "wire_scheme endpoint =
     (if starts_with (lit ''tcp://'') endpoint then Some WireTcp
      else if starts_with (lit ''ipc://'') endpoint then Some WireIpc
      else if starts_with (lit ''udp://'') endpoint then Some WireUdp
      else if starts_with (lit ''norm://'') endpoint then Some WireNorm
      else if starts_with (lit ''ws://'') endpoint then Some WireWs
      else if starts_with (lit ''wss://'') endpoint then Some WireWss
      else None)"

definition inproc_binder_of :: "socket \<Rightarrow> inproc_binder" where
  "inproc_binder_of k =
     \<lparr>bd_inbox = sk_inbox k, bd_socket_type = sk_type k, bd_subscriptions = sk_subscriptions k,
      bd_disconnect_msg = sk_inproc_disconnect_msg k, bd_welcome = sk_xpub_welcome k,
      bd_xpub_policy = sk_xpub_policy k\<rparr>"

definition bind_socket_inproc :: "ref \<Rightarrow> bytes \<Rightarrow> bytes \<Rightarrow> ('w world, error, unit) comp" where
  "bind_socket_inproc s endpoint name w =
     bnd (bind_inproc name (inproc_binder_of (w_sockets w s))) (\<lambda>e.
     bnd (modify (update_inproc s (\<lambda>ip. ip\<lparr>ip_bound_endpoint_name := Some name, ip_bound_endpoint := Some e\<rparr>))) (\<lambda>_.
     bnd (modify (emit_monitor_event s ZMQ_EVENT_LISTENING 0 endpoint)) (\<lambda>_.
       modify (set_last_endpoint s endpoint)))) w"

definition bind :: "'w wires \<Rightarrow> ref \<Rightarrow> bytes \<Rightarrow> ('w world, error, unit) comp" where
  "bind W s endpoint w =
     (case wire_scheme endpoint of
        Some x \<Rightarrow> wr_bind W x s endpoint w
      | None \<Rightarrow>
          (case strip_prefix (lit ''inproc://'') endpoint of
             None \<Rightarrow> (Inl NotSupported, w)
           | Some name \<Rightarrow> bind_socket_inproc s endpoint name w))"

definition unbind_socket_inproc :: "ref \<Rightarrow> bytes \<Rightarrow> bytes \<Rightarrow> ('w world, error, unit) comp" where
  "unbind_socket_inproc s endpoint name w =
     (if ip_bound_endpoint_name (sk_inproc (w_sockets w s)) \<noteq> Some name then (Inl InvalidArgument, w)
      else bnd (unbind_inproc name) (\<lambda>_.
           bnd (modify (update_inproc s (\<lambda>ip. ip\<lparr>ip_bound_endpoint_name := None, ip_bound_endpoint := None\<rparr>))) (\<lambda>_.
             modify (emit_monitor_event s ZMQ_EVENT_CLOSED 0 endpoint))) w)"

definition unbind :: "'w wires \<Rightarrow> ref \<Rightarrow> bytes \<Rightarrow> ('w world, error, unit) comp" where
  "unbind W s endpoint w =
     (case wire_scheme endpoint of
        Some x \<Rightarrow> wr_unbind W x s endpoint w
      | None \<Rightarrow>
          (case strip_prefix (lit ''inproc://'') endpoint of
             None \<Rightarrow> (Inl NotSupported, w)
           | Some name \<Rightarrow> unbind_socket_inproc s endpoint name w))"

definition send_inproc_probe_router :: "ref \<Rightarrow> ('w world, error, unit) comp" where
  "send_inproc_probe_router s w =
     (let k = w_sockets w s
      in if sk_type k \<notin> {Dealer, Router} \<or> \<not> opt_probe_router (sk_options k) then (Inr (), w)
         else let probe = apply_outgoing_routing_id s message_new w
              in bnd (resolve_outboxes s probe) (\<lambda>outboxes. modify (fold (\<lambda>q. push_back q probe) outboxes)) w)"

definition send_inproc_lifecycle_message :: "ref \<Rightarrow> bytes \<Rightarrow> ('w world, error, unit) comp" where
  "send_inproc_lifecycle_message s d w =
     (if d = [] then (Inr (), w)
      else let m = apply_outgoing_routing_id s (message_from_vec d) w
           in case resolve_outboxes s m w of
                (Inr outboxes, w1) \<Rightarrow> (Inr (), fold (\<lambda>q. push_back q m) outboxes w1)
              | (Inl Again, w1) \<Rightarrow> (Inr (), w1)
              | (Inl e, w1) \<Rightarrow> (Inl e, w1))"

definition send_inproc_hello_message :: "ref \<Rightarrow> ('w world, error, unit) comp" where
  "send_inproc_hello_message s w =
     send_inproc_lifecycle_message s (opt_hello_msg (sk_options (w_sockets w s))) w"

definition connect_socket_inproc :: "ref \<Rightarrow> bytes \<Rightarrow> bytes \<Rightarrow> ('w world, error, unit) comp" where
  "connect_socket_inproc s endpoint name w =
     (let k = w_sockets w s
      in bnd (connect_inproc name (sk_id k) (sk_inbox k) (sk_type k) (sk_subscriptions k)) (\<lambda>bound.
         bnd (gets endpoints) (\<lambda>eps.
         bnd (modify (update_inproc s (\<lambda>ip. ip\<lparr>ip_connected_endpoint := Some name,
                ip_direct_outbox := map_option (\<lambda>e. ep_binder_inbox (eps e)) bound\<rparr>))) (\<lambda>_.
         bnd (send_inproc_probe_router s) (\<lambda>_.
         bnd (send_inproc_hello_message s) (\<lambda>_.
         bnd (modify (emit_monitor_event s ZMQ_EVENT_CONNECTED 0 endpoint)) (\<lambda>_.
           modify (set_last_endpoint s endpoint))))))) w)"

definition connect :: "'w wires \<Rightarrow> ref \<Rightarrow> bytes \<Rightarrow> ('w world, error, unit) comp" where
  "connect W s endpoint w =
     (case wire_scheme endpoint of
        Some x \<Rightarrow> wr_connect W x s endpoint w
      | None \<Rightarrow>
          (case strip_prefix (lit ''inproc://'') endpoint of
             None \<Rightarrow> (Inl NotSupported, w)
           | Some name \<Rightarrow> connect_socket_inproc s endpoint name w))"

definition disconnect_socket_inproc :: "ref \<Rightarrow> bytes \<Rightarrow> bytes \<Rightarrow> ('w world, error, unit) comp" where
  "disconnect_socket_inproc s endpoint name w =
     (if ip_connected_endpoint (sk_inproc (w_sockets w s)) \<noteq> Some name then (Inl InvalidArgument, w)
      else bnd (disconnect_inproc name (sk_id (w_sockets w s))) (\<lambda>_.
           bnd (modify (update_inproc s (\<lambda>ip. ip\<lparr>ip_connected_endpoint := None, ip_direct_outbox := None\<rparr>))) (\<lambda>_.
             modify (emit_monitor_event s ZMQ_EVENT_DISCONNECTED 0 endpoint))) w)"

definition disconnect :: "'w wires \<Rightarrow> ref \<Rightarrow> bytes \<Rightarrow> ('w world, error, unit) comp" where
  "disconnect W s endpoint w =
     (case wire_scheme endpoint of
        Some x \<Rightarrow> wr_disconnect W x s endpoint w
      | None \<Rightarrow>
          (case strip_prefix (lit ''inproc://'') endpoint of
             None \<Rightarrow> (Inl NotSupported, w)
           | Some name \<Rightarrow> disconnect_socket_inproc s endpoint name w))"

definition disconnect_peer :: "ref \<Rightarrow> u32 \<Rightarrow> ('w world, error, unit) comp" where
  "disconnect_peer s rid w =
     (let k = w_sockets w s
      in if sk_type k \<notin> {Server, Peer} then (Inl NotSupported, w)
         else case ip_bound_endpoint (sk_inproc k) of
                None \<Rightarrow> (Inl HostUnreachable, w)
              | Some e \<Rightarrow>
                  (case remove_peer e (ucast rid) False w of
                     (removed, w1) \<Rightarrow> (if removed then Inr () else Inl HostUnreachable, w1)))"

definition peer_state :: "ref \<Rightarrow> u32 \<Rightarrow> 'w world \<Rightarrow> i32 result" where
  "peer_state s rid w =
     (let k = w_sockets w s
      in if sk_type k \<noteq> Router then Inl NotSupported
         else case ip_bound_endpoint (sk_inproc k) of
                None \<Rightarrow> Inl HostUnreachable
              | Some e \<Rightarrow>
                  (case peer_by_id e (ucast rid) w of
                     None \<Rightarrow> Inl HostUnreachable
                   | Some q \<Rightarrow>
                       let hwm = opt_sndhwm (sk_options k)
                       in if hwm = 0 \<or> length (queues w q) < nat hwm then Inr ZMQ_POLLOUT else Inr 0))"


section \<open>Subscriptions and groups\<close>

definition subscribe :: "ref \<Rightarrow> bytes \<Rightarrow> ('w world, error, unit) comp" where
  "subscribe s p w =
     (let k = w_sockets w s
      in if sk_type k = Xpub \<and> opt_xpub_manual (sk_options k) then
           (case ip_bound_endpoint (sk_inproc k) of
              None \<Rightarrow> (Inr (), w) | Some e \<Rightarrow> manual_subscribe_last_peer e p w)
         else if sk_type k \<notin> {Sub, Xsub} then (Inl NotSupported, w)
         else let (inserted, subs) = sub_insert p (subscriptions w (sk_subscriptions k));
                  w1 = w\<lparr>subscriptions := (subscriptions w)(sk_subscriptions k := subs)\<rparr>
              in (Inr (), case connected_bound s w1 of
                            None \<Rightarrow> w1
                          | Some e \<Rightarrow>
                              if inserted then replay_subscription e (sk_id k) p w1
                              else replay_duplicate_subscription e (sk_id k) p w1))"

definition unsubscribe :: "ref \<Rightarrow> bytes \<Rightarrow> ('w world, error, unit) comp" where
  "unsubscribe s p w =
     (let k = w_sockets w s
      in if sk_type k = Xpub \<and> opt_xpub_manual (sk_options k) then
           (case ip_bound_endpoint (sk_inproc k) of
              None \<Rightarrow> (Inr (), w) | Some e \<Rightarrow> manual_unsubscribe_last_peer e p w)
         else if sk_type k \<notin> {Sub, Xsub} then (Inl NotSupported, w)
         else let (removed, subs) = sub_remove p (subscriptions w (sk_subscriptions k));
                  w1 = w\<lparr>subscriptions := (subscriptions w)(sk_subscriptions k := subs)\<rparr>
              in (Inr (), case connected_bound s w1 of
                            None \<Rightarrow> w1
                          | Some e \<Rightarrow>
                              let verbose_unmatched =
                                    (sk_type k = Xsub \<and> opt_xsub_verbose_unsubscribe (sk_options k))
                              in if removed \<or> verbose_unmatched
                                 then replay_unsubscription e (sk_id k) p (verbose_unmatched \<and> \<not> removed) w1
                                 else w1))"

definition valid_group :: "bytes \<Rightarrow> bool" where
  "valid_group g \<longleftrightarrow> \<not> (g = [] \<or> length g > nat ZMQ_GROUP_MAX_LENGTH \<or> 0 \<in> set g)"

definition join :: "ref \<Rightarrow> bytes \<Rightarrow> ('w world, error, unit) comp" where
  "join s g w =
     (let k = w_sockets w s
      in if sk_type k \<noteq> Dish then (Inl NotSupported, w)
         else if \<not> valid_group g then (Inl InvalidArgument, w)
         else (Inr (), w\<lparr>subscriptions := (subscriptions w)(sk_subscriptions k :=
                 snd (sub_insert g (subscriptions w (sk_subscriptions k))))\<rparr>))"

definition leave :: "ref \<Rightarrow> bytes \<Rightarrow> ('w world, error, unit) comp" where
  "leave s g w =
     (let k = w_sockets w s
      in if sk_type k \<noteq> Dish then (Inl NotSupported, w)
         else if \<not> valid_group g then (Inl InvalidArgument, w)
         else (Inr (), w\<lparr>subscriptions := (subscriptions w)(sk_subscriptions k :=
                 snd (sub_remove g (subscriptions w (sk_subscriptions k))))\<rparr>))"


section \<open>Polling and options\<close>

definition events :: "ref \<Rightarrow> 'w world \<Rightarrow> i32 \<times> 'w world" where
  "events s w =
     (let k = w_sockets w s;
          e1 = (if can_recv (sk_type k) \<and> queues w (sk_inbox k) \<noteq> [] then ZMQ_POLLIN else 0)
      in if can_send (sk_type k) then
           (case resolve_outboxes s message_new w of
              (Inr _, w1) \<Rightarrow> (e1 OR ZMQ_POLLOUT, w1)
            | (Inl _, w1) \<Rightarrow> (e1, w1))
         else (e1, w))"

text \<open>\<open>count() as i32\<close> wraps.\<close>

definition as_i32 :: "nat \<Rightarrow> i32" where
  "as_i32 n = (int n + 2 ^ 31) mod 2 ^ 32 - 2 ^ 31"

definition socket_get_option_i32 :: "ref \<Rightarrow> i32 \<Rightarrow> ('w world, error, i32) comp" where
  "socket_get_option_i32 s opt w =
     (let k = w_sockets w s
      in if opt = ZMQ_TYPE then (Inr (socket_type_number (sk_type k)), w)
         else if opt = ZMQ_TOPICS_COUNT \<and> sk_type k \<in> {Xpub, Xsub} then
           (Inr (as_i32 (sub_count (subscriptions w (sk_subscriptions k)))), w)
         else if opt = ZMQ_EVENTS then map_prod Inr id (events s w)
         else if opt = ZMQ_RCVMORE then (Inr (of_bool (sk_last_recv_more k)), w)
         else (get_option_i32 opt (sk_options k), w))"

definition socket_cells :: "ref \<Rightarrow> 'w world \<Rightarrow> option_cells" where
  "socket_cells s w =
     (let k = w_sockets w s
      in \<lparr>oc_options = sk_options k, oc_fast_send = sk_inproc_fast_send_enabled k,
          oc_policy = policies w (sk_xpub_policy k), oc_welcome = welcomes w (sk_xpub_welcome k),
          oc_disconnect_msg = lifecycle_msgs w (sk_inproc_disconnect_msg k)\<rparr>)"

definition store_cells :: "ref \<Rightarrow> option_cells \<Rightarrow> 'w world \<Rightarrow> 'w world" where
  "store_cells s oc w =
     (let k = w_sockets w s;
          w1 = update_socket s (\<lambda>k. k\<lparr>sk_options := oc_options oc,
                 sk_inproc_fast_send_enabled := oc_fast_send oc\<rparr>) w
      in w1\<lparr>policies := (policies w)(sk_xpub_policy k := oc_policy oc),
            welcomes := (welcomes w)(sk_xpub_welcome k := oc_welcome oc),
            lifecycle_msgs := (lifecycle_msgs w)(sk_inproc_disconnect_msg k := oc_disconnect_msg oc)\<rparr>)"

definition socket_set_option_i32 :: "ref \<Rightarrow> i32 \<Rightarrow> i32 \<Rightarrow> ('w world, error, unit) comp" where
  "socket_set_option_i32 s opt v w =
     map_prod id (\<lambda>oc. store_cells s oc w)
       (set_option_i32 (sk_type (w_sockets w s)) opt v (socket_cells s w))"

definition socket_set_option_bytes :: "ref \<Rightarrow> i32 \<Rightarrow> bytes \<Rightarrow> ('w world, error, unit) comp" where
  "socket_set_option_bytes s opt v w =
     map_prod id (\<lambda>oc. store_cells s oc w)
       (set_option_bytes (sk_type (w_sockets w s)) opt v (socket_cells s w))"

end
