(* ===== verification/Inproc_Delivery.thy ===== *)
theory Inproc_Delivery
  imports Socket_Endpoints
begin

text \<open>
  Whole conversations over in-process endpoints: two sockets are created, one binds, the other
  connects, and messages travel. The lemmas give the effect of \<open>context.socket\<close>, \<open>bind\<close> and
  \<open>connect\<close> on the parts of the world the later calls read.
\<close>

section \<open>Setting up\<close>

lemma context_socket_ok:
  fixes w :: "'w world"
  assumes "ctx_state w = STATE_RUNNING"
  obtains w' where "context_socket t w = (Inr (next_ref w), w')"
    "w_sockets w' = (w_sockets w)(next_ref w := socket_record (ctx_next_socket_id w) t (next_ref w) (socket_defaults w))"
    "queues w' = (queues w)(next_ref w := [])" "endpoints w' = endpoints w" "next_ref w' = next_ref w + 1"
    "ctx_next_socket_id w' = ctx_next_socket_id w + 1" "ctx_state w' = ctx_state w"
    "ctx_inproc_endpoints w' = ctx_inproc_endpoints w" "ctx_pending_inproc w' = ctx_pending_inproc w"
    "w_wire w' = w_wire w" "ctx_options w' = ctx_options w"
  using assms
  by (auto simp: context_socket_def ensure_running_def next_transient_socket_id_def socket_new_def alloc_cells_def
      Let_def update_socket_def socket_defaults_def)

lemma inproc_scheme [simp]:
  "wire_scheme (lit ''inproc://'' @ name) = None"
  "strip_prefix (lit ''inproc://'') (lit ''inproc://'' @ name) = Some name"
  by (simp add: wire_scheme_def starts_with_def lit_def) simp

lemma emit_unmonitored: "sk_monitor (w_sockets w s) = None \<Longrightarrow> emit_monitor_event s ev v ep w = w"
  by (simp add: emit_monitor_event_def)

lemma bind_free:
  fixes w :: "'w world"
  assumes "ctx_inproc_endpoints w name = None" "ctx_pending_inproc w name = None"
    and "sk_monitor (w_sockets w a) = None"
  obtains w' where "bind W a (lit ''inproc://'' @ name) w = (Inr (), w')"
    "w_sockets w' = (w_sockets w)(a := (w_sockets w a)
       \<lparr>sk_inproc := (sk_inproc (w_sockets w a))\<lparr>ip_bound_endpoint_name := Some name, ip_bound_endpoint := Some (next_ref w)\<rparr>,
        sk_options := (sk_options (w_sockets w a))\<lparr>opt_last_endpoint := lit ''inproc://'' @ name\<rparr>\<rparr>)"
    "endpoints w' = (endpoints w)(next_ref w := endpoint_new (inproc_binder_of (w_sockets w a)))"
    "ctx_inproc_endpoints w' = (ctx_inproc_endpoints w)(name \<mapsto> next_ref w)"
    "queues w' = queues w" "w_wire w' = w_wire w" "next_ref w' = next_ref w + 1"
    "ctx_pending_inproc w' = ctx_pending_inproc w" "ctx_state w' = ctx_state w"
proof -
  let ?b = "inproc_binder_of (w_sockets w a)"
  obtain w1 where w1: "bind_inproc name ?b w = (Inr (next_ref w), w1)"
    "w_sockets w1 = w_sockets w" "queues w1 = queues w" "w_wire w1 = w_wire w" "next_ref w1 = next_ref w + 1"
    "endpoints w1 = (endpoints w)(next_ref w := endpoint_new ?b)" "ctx_state w1 = ctx_state w"
    "ctx_inproc_endpoints w1 = (ctx_inproc_endpoints w)(name \<mapsto> next_ref w)"
    "ctx_pending_inproc w1 = ctx_pending_inproc w"
    using assms by (auto simp: bind_inproc_eq pending_peers_def with_endpoint_def fun_upd_idem)
  let ?w2 = "update_inproc a (\<lambda>ip. ip\<lparr>ip_bound_endpoint_name := Some name, ip_bound_endpoint := Some (next_ref w)\<rparr>) w1"
  let ?w3 = "set_last_endpoint a (lit ''inproc://'' @ name) ?w2"
  have "bind W a (lit ''inproc://'' @ name) w = (Inr (), ?w3)"
    using assms(3) w1 by (simp add: bind_def bind_socket_inproc_def emit_unmonitored update_inproc_def)
  then show ?thesis
    using w1 by - (rule that [of ?w3], simp_all add: update_inproc_def set_last_endpoint_def)
qed


lemma connect_bound_plain:
  fixes w :: "'w world"
  assumes "ctx_inproc_endpoints w name = Some e"
    and "inproc_types_compatible (ep_binder_type (endpoints w e)) (sk_type (w_sockets w b))"
    and "sk_type (w_sockets w b) \<noteq> Xsub" "sk_monitor (w_sockets w b) = None"
    and "opt_hello_msg (sk_options (w_sockets w b)) = []" "\<not> opt_probe_router (sk_options (w_sockets w b))"
  obtains w' where "connect W b (lit ''inproc://'' @ name) w = (Inr (), w')"
    "w_sockets w' = (w_sockets w)(b := (w_sockets w b)
       \<lparr>sk_inproc := (sk_inproc (w_sockets w b))\<lparr>ip_connected_endpoint := Some name,
          ip_direct_outbox := Some (ep_binder_inbox (endpoints w e))\<rparr>,
        sk_options := (sk_options (w_sockets w b))\<lparr>opt_last_endpoint := lit ''inproc://'' @ name\<rparr>\<rparr>)"
    "endpoints w' = (endpoints w)(e := (endpoints w e)\<lparr>ep_peers := ep_peers (endpoints w e) @
       [\<lparr>peer_id = sk_id (w_sockets w b), peer_inbox = sk_inbox (w_sockets w b),
         peer_socket_type = sk_type (w_sockets w b), peer_subscriptions = sk_subscriptions (w_sockets w b)\<rparr>]\<rparr>)"
    "ctx_inproc_endpoints w' = ctx_inproc_endpoints w"
    "queues w' = queues w" "w_wire w' = w_wire w" "next_ref w' = next_ref w"
    "ctx_pending_inproc w' = ctx_pending_inproc w" "ctx_state w' = ctx_state w"
proof -
  let ?k = "w_sockets w b"
  obtain w1 where w1: "connect_inproc name (sk_id ?k) (sk_inbox ?k) (sk_type ?k) (sk_subscriptions ?k) w = (Inr (Some e), w1)"
    "w_sockets w1 = w_sockets w" "queues w1 = queues w" "w_wire w1 = w_wire w" "next_ref w1 = next_ref w"
    "endpoints w1 = (endpoints w)(e := (endpoints w e)\<lparr>ep_peers := ep_peers (endpoints w e) @
       [\<lparr>peer_id = sk_id ?k, peer_inbox = sk_inbox ?k, peer_socket_type = sk_type ?k,
         peer_subscriptions = sk_subscriptions ?k\<rparr>]\<rparr>)" "ctx_state w1 = ctx_state w"
    "ctx_inproc_endpoints w1 = ctx_inproc_endpoints w" "ctx_pending_inproc w1 = ctx_pending_inproc w"
    using assms by (auto simp: connect_bound add_peer_plain update_endpoint_def)
  let ?w2 = "update_inproc b (\<lambda>ip. ip\<lparr>ip_connected_endpoint := Some name,
      ip_direct_outbox := Some (ep_binder_inbox (endpoints w e))\<rparr>) w1"
  let ?w3 = "set_last_endpoint b (lit ''inproc://'' @ name) ?w2"
  have "connect W b (lit ''inproc://'' @ name) w = (Inr (), ?w3)"
    using assms w1
    by (simp add: connect_def connect_socket_inproc_def emit_unmonitored update_inproc_def Let_def
        send_inproc_probe_router_def send_inproc_hello_message_def send_inproc_lifecycle_message_def)
  then show ?thesis
    using w1 by - (rule that [of ?w3], simp_all add: update_inproc_def set_last_endpoint_def)
qed


section \<open>A direct connection is a queue\<close>

text \<open>
  Two sockets joined over an endpoint: the connecting one, of a type that sends directly, and the
  bound one that reads. Nothing else is said of the world around them.
\<close>

definition direct_link :: "'w wires \<Rightarrow> ref \<Rightarrow> ref \<Rightarrow> 'w world \<Rightarrow> bool" where
  "direct_link W a b w \<longleftrightarrow>
     a \<noteq> b \<and> active_wire W a w = None
     \<and> can_recv (sk_type (w_sockets w a)) \<and> sk_type (w_sockets w a) \<notin> {Req, Rep, Router, Server, Peer}
     \<and> sk_type (w_sockets w b) \<in> {Pair, Push, Channel} \<and> sk_inproc_fast_send_enabled (w_sockets w b)
     \<and> ip_direct_outbox (sk_inproc (w_sockets w b)) = Some (sk_inbox (w_sockets w a))
     \<and> (case connected_bound b w of None \<Rightarrow> True
        | Some e \<Rightarrow> ep_binder_type (endpoints w e) = sk_type (w_sockets w a))"

abbreviation link_queue :: "ref \<Rightarrow> 'w world \<Rightarrow> message list" where
  "link_queue a w \<equiv> queues w (sk_inbox (w_sockets w a))"

text \<open>A conversation: the connected socket sends, the bound one receives, in any order.\<close>

datatype transfer = Put message i32 | Get i32

datatype outcome = Wrote "nat result" | Read "message result"

fun link_run :: "'w wires \<Rightarrow> ref \<Rightarrow> ref \<Rightarrow> transfer list \<Rightarrow> 'w world \<Rightarrow> outcome list \<times> 'w world" where
  "link_run W a b [] w = ([], w)"
| "link_run W a b (Put m flags # ts) w =
     (case send W b m flags w of (r, w1) \<Rightarrow> map_prod ((#) (Wrote r)) id (link_run W a b ts w1))"
| "link_run W a b (Get flags # ts) w =
     (case recv W a flags w of (r, w1) \<Rightarrow> map_prod ((#) (Read r)) id (link_run W a b ts w1))"

text \<open>The specification: an unbounded first-in first-out queue.\<close>

fun fifo_run :: "transfer list \<Rightarrow> message list \<Rightarrow> outcome list \<times> message list" where
  "fifo_run [] q = ([], q)"
| "fifo_run (Put m flags # ts) q =
     map_prod ((#) (Wrote (Inr (message_len m)))) id
       (fifo_run ts (q @ [set_more ((flags AND ZMQ_SNDMORE) \<noteq> 0) m]))"
| "fifo_run (Get flags # ts) [] = map_prod ((#) (Read (Inl Again))) id (fifo_run ts [])"
| "fifo_run (Get flags # ts) (m # q) = map_prod ((#) (Read (Inr m))) id (fifo_run ts q)"

lemma link_send:
  assumes "direct_link W a b w"
  shows "send W b m flags w =
    (Inr (message_len m), push_back (sk_inbox (w_sockets w a)) (set_more ((flags AND ZMQ_SNDMORE) \<noteq> 0) m) w)"
proof -
  let ?m = "set_more ((flags AND ZMQ_SNDMORE) \<noteq> 0) m" and ?k = "w_sockets w b"
  have t: "sk_type ?k \<in> {Pair, Push, Channel}" "sk_inproc_fast_send_enabled ?k"
    "ip_direct_outbox (sk_inproc ?k) = Some (sk_inbox (w_sockets w a))"
    using assms by (simp_all add: direct_link_def)
  have o: "outgoing_message b m flags w = ?m"
    using assms by (auto simp: outgoing_message_def apply_outgoing_routing_id_def apply_reply_routing_id_def
        direct_link_def split: option.splits)
  have x: "try_process_xsub_subscription_send b ?m w = (False, w)"
    using t by (auto simp: try_process_xsub_subscription_send_def xsub_endpoint_def)
  have f: "try_send_inproc_fast b ?m w = (None, push_back (sk_inbox (w_sockets w a)) ?m w)"
    using t by (auto simp: try_send_inproc_fast_def fast_outbox_def Let_def)
  show ?thesis
    using t o x f by (auto simp: send_def Let_def can_send_def ensure_can_send_for_pattern_def after_pattern_send_def)
qed

lemma direct_link_cong:
  assumes "w_sockets w' b = w_sockets w b" "sk_type (w_sockets w' a) = sk_type (w_sockets w a)"
    "sk_inbox (w_sockets w' a) = sk_inbox (w_sockets w a)" "w_wire w' = w_wire w"
    "endpoints w' = endpoints w" "ctx_inproc_endpoints w' = ctx_inproc_endpoints w"
  shows "direct_link W a b w' = direct_link W a b w"
proof -
  have "connected_bound b w' = connected_bound b w"
    using assms by (simp add: connected_bound_def inproc_endpoint_of_def cong: option.case_cong)
  then show ?thesis
    using assms active_wire_cong [OF assms(4), of W a] by (simp add: direct_link_def cong: option.case_cong)
qed

lemma link_recv:
  assumes l: "direct_link W a b w" and r: "recv W a flags w = (r, w')"
  shows "direct_link W a b w' \<and> sk_inbox (w_sockets w' a) = sk_inbox (w_sockets w a) \<and>
    (case link_queue a w of [] \<Rightarrow> r = Inl Again \<and> link_queue a w' = []
     | m # q \<Rightarrow> r = Inr m \<and> link_queue a w' = q)"
proof -
  have t: "can_recv (sk_type (w_sockets w a))" "sk_type (w_sockets w a) \<notin> {Req, Rep}" "a \<noteq> b" "active_wire W a w = None"
    using l by (auto simp: direct_link_def)
  have e: "ensure_can_recv_for_pattern (w_sockets w a) = Inr ()"
    using t by (simp add: ensure_can_recv_for_pattern_def)
  show ?thesis
  proof (cases "link_queue a w")
    case Nil
    then have "recv W a flags w = (Inl Again, w)"
      using t e by (simp add: recv_def Let_def try_recv_inproc_fast_def pop_front_def recv_inbox_def)
    with r l Nil show ?thesis
      by simp
  next
    case (Cons m q)
    let ?w1 = "w\<lparr>queues := (queues w)(sk_inbox (w_sockets w a) := q)\<rparr>"
    have "w' = ?w1 \<or> w' = record_recv_metadata a m ?w1" "r = Inr m"
      using r Cons t e
      by (auto simp: recv_def Let_def try_recv_inproc_fast_def pop_front_def after_pattern_recv_def
          record_recv_metadata_def split: if_splits)
    moreover from this have "direct_link W a b w' = direct_link W a b w"
      using t(3) by (intro direct_link_cong) (auto simp: record_recv_metadata_def)
    ultimately show ?thesis
      using Cons l by (auto simp: record_recv_metadata_def)
  qed
qed

lemma link_run_fifo:
  assumes "direct_link W a b w"
  shows "fst (link_run W a b ts w) = fst (fifo_run ts (link_queue a w))
    \<and> link_queue a (snd (link_run W a b ts w)) = snd (fifo_run ts (link_queue a w))"
  using assms
proof (induction W a b ts w rule: link_run.induct)
  case (2 W a b m flags ts w)
  have "direct_link W a b (push_back (sk_inbox (w_sockets w a)) (set_more ((flags AND ZMQ_SNDMORE) \<noteq> 0) m) w)"
    using 2(2) by (subst direct_link_cong [of _ b w]) simp_all
  with 2(1) [OF link_send [OF 2(2), symmetric]] show ?case
    by (simp add: link_send [OF 2(2)])
next
  case (3 W a b flags ts w)
  obtain r w1 where r: "recv W a flags w = (r, w1)"
    by (cases "recv W a flags w")
  with link_recv [OF 3(2) r] 3(1) [OF r [symmetric]] show ?case
    by (cases "link_queue a w") auto
qed simp


text \<open>Two sockets are created, the first binds to a name and the second connects to it.\<close>

definition open_link ::
  "'w wires \<Rightarrow> socket_type \<Rightarrow> socket_type \<Rightarrow> bytes \<Rightarrow> ('w world, error, ref \<times> ref) comp" where
  "open_link W t u endpoint =
     bnd (context_socket t) (\<lambda>a. bnd (context_socket u) (\<lambda>b.
     bnd (bind W a endpoint) (\<lambda>_. bnd (connect W b endpoint) (\<lambda>_. ret (a, b)))))"

lemma open_link_ok:
  fixes w :: "'w world"
  assumes run: "ctx_state w = STATE_RUNNING"
    and free: "ctx_inproc_endpoints w name = None" "ctx_pending_inproc w name = None"
    and c: "inproc_types_compatible t u" "u \<noteq> Xsub"
  obtains w' ka kb where
    "open_link W t u (lit ''inproc://'' @ name) w = (Inr (next_ref w, next_ref w + 1), w')"
    "w_sockets w' = (w_sockets w)(next_ref w := ka, next_ref w + 1 := kb)"
    "sk_type ka = t" "sk_inbox ka = next_ref w" "sk_id ka = ctx_next_socket_id w"
    "sk_type kb = u" "sk_inbox kb = next_ref w + 1" "sk_id kb = ctx_next_socket_id w + 1"
    "sk_inproc_fast_send_enabled ka" "sk_inproc_fast_send_enabled kb"
    "sk_pattern_state ka = (case t of Req \<Rightarrow> Some ReadyToSend | Rep \<Rightarrow> Some ReadyToRecv | _ \<Rightarrow> None)"
    "sk_pattern_state kb = (case u of Req \<Rightarrow> Some ReadyToSend | Rep \<Rightarrow> Some ReadyToRecv | _ \<Rightarrow> None)"
    "\<not> opt_req_relaxed (sk_options ka)" "\<not> opt_req_relaxed (sk_options kb)"
    "\<not> opt_conflate (sk_options ka)" "\<not> opt_conflate (sk_options kb)"
    "sk_inproc ka = \<lparr>ip_direct_outbox = None, ip_connected_endpoint = None,
       ip_bound_endpoint_name = Some name, ip_bound_endpoint = Some (next_ref w + 2)\<rparr>"
    "sk_inproc kb = \<lparr>ip_direct_outbox = Some (next_ref w), ip_connected_endpoint = Some name,
       ip_bound_endpoint_name = None, ip_bound_endpoint = None\<rparr>"
    "ctx_inproc_endpoints w' = (ctx_inproc_endpoints w)(name \<mapsto> next_ref w + 2)"
    "ep_binder_type (endpoints w' (next_ref w + 2)) = t" "ep_binder_inbox (endpoints w' (next_ref w + 2)) = next_ref w"
    "ep_peers (endpoints w' (next_ref w + 2)) = [\<lparr>peer_id = ctx_next_socket_id w + 1,
       peer_inbox = next_ref w + 1, peer_socket_type = u, peer_subscriptions = next_ref w + 1\<rparr>]"
    "queues w' = (queues w)(next_ref w := [], next_ref w + 1 := [])" "w_wire w' = w_wire w"
proof -
  obtain w1 where w1: "context_socket t w = (Inr (next_ref w), w1)"
    and s1: "w_sockets w1 = (w_sockets w)(next_ref w := socket_record (ctx_next_socket_id w) t (next_ref w) (socket_defaults w))"
    "queues w1 = (queues w)(next_ref w := [])" "next_ref w1 = next_ref w + 1"
    "ctx_next_socket_id w1 = ctx_next_socket_id w + 1" "ctx_state w1 = ctx_state w"
    "ctx_inproc_endpoints w1 = ctx_inproc_endpoints w" "ctx_pending_inproc w1 = ctx_pending_inproc w" "w_wire w1 = w_wire w"
    by (rule context_socket_ok [OF run, of t]) blast
  obtain w2 where w2: "context_socket u w1 = (Inr (next_ref w + 1), w2)"
    and s2: "w_sockets w2 = (w_sockets w1)(next_ref w + 1 := socket_record (ctx_next_socket_id w + 1) u (next_ref w + 1) (socket_defaults w1))"
    "queues w2 = (queues w)(next_ref w := [], next_ref w + 1 := [])" "next_ref w2 = next_ref w + 2"
    "ctx_inproc_endpoints w2 = ctx_inproc_endpoints w" "ctx_pending_inproc w2 = ctx_pending_inproc w" "w_wire w2 = w_wire w"
    by (rule context_socket_ok [of w1 u]) (use run s1 in simp_all)
  let ?ka = "w_sockets w2 (next_ref w)"
  have ka: "?ka = socket_record (ctx_next_socket_id w) t (next_ref w) (socket_defaults w)"
    using s1 s2 by simp
  obtain w3 where w3: "bind W (next_ref w) (lit ''inproc://'' @ name) w2 = (Inr (), w3)"
    and s3: "w_sockets w3 = (w_sockets w2)(next_ref w := ?ka
       \<lparr>sk_inproc := (sk_inproc ?ka)\<lparr>ip_bound_endpoint_name := Some name, ip_bound_endpoint := Some (next_ref w2)\<rparr>,
        sk_options := (sk_options ?ka)\<lparr>opt_last_endpoint := lit ''inproc://'' @ name\<rparr>\<rparr>)"
    "endpoints w3 = (endpoints w2)(next_ref w2 := endpoint_new (inproc_binder_of ?ka))"
    "ctx_inproc_endpoints w3 = (ctx_inproc_endpoints w)(name \<mapsto> next_ref w2)"
    "queues w3 = queues w2" "w_wire w3 = w_wire w"
    by (rule bind_free [of w2 name "next_ref w" W]) (use free s2 ka in \<open>simp_all add: socket_record_def\<close>)
  have kb: "w_sockets w3 (next_ref w + 1) = socket_record (ctx_next_socket_id w + 1) u (next_ref w + 1) (socket_defaults w1)"
    using s2 s3 by simp
  obtain w4 where w4: "connect W (next_ref w + 1) (lit ''inproc://'' @ name) w3 = (Inr (), w4)"
    and s4: "w_sockets w4 = (w_sockets w3)(next_ref w + 1 := (w_sockets w3 (next_ref w + 1))
       \<lparr>sk_inproc := (sk_inproc (w_sockets w3 (next_ref w + 1)))\<lparr>ip_connected_endpoint := Some name,
          ip_direct_outbox := Some (ep_binder_inbox (endpoints w3 (next_ref w2)))\<rparr>,
        sk_options := (sk_options (w_sockets w3 (next_ref w + 1)))\<lparr>opt_last_endpoint := lit ''inproc://'' @ name\<rparr>\<rparr>)"
    "endpoints w4 = (endpoints w3)(next_ref w2 := (endpoints w3 (next_ref w2))\<lparr>ep_peers := ep_peers (endpoints w3 (next_ref w2)) @
       [\<lparr>peer_id = sk_id (w_sockets w3 (next_ref w + 1)), peer_inbox = sk_inbox (w_sockets w3 (next_ref w + 1)),
         peer_socket_type = sk_type (w_sockets w3 (next_ref w + 1)),
         peer_subscriptions = sk_subscriptions (w_sockets w3 (next_ref w + 1))\<rparr>]\<rparr>)"
    "ctx_inproc_endpoints w4 = ctx_inproc_endpoints w3" "queues w4 = queues w3" "w_wire w4 = w_wire w3"
    by (rule connect_bound_plain [of w3 name "next_ref w2" "next_ref w + 1" W])
      (use c s2 s3 ka kb in \<open>simp_all add: endpoint_new_def inproc_binder_of_def socket_record_def socket_options_default_def\<close>)
  show ?thesis
    by (rule that [of w4 "w_sockets w4 (next_ref w)" "w_sockets w4 (next_ref w + 1)"])
      (use w1 w2 w3 w4 s1 s2 s3 s4 ka kb in
        \<open>simp_all add: open_link_def endpoint_new_def inproc_binder_of_def socket_record_def inproc_state_default_def
          socket_options_default_def\<close>)
qed

text \<open>
  C3. A direct in-process connection is a first-in first-out queue. In a running context, for any
  free name, a socket that binds and one of type PAIR, PUSH or CHANNEL that connects to it can be
  created and joined; from then on, for every interleaving of sends at the one and receives at the
  other, each send succeeds with the length of its message, each receive returns the oldest message
  not yet received, with its bytes, group, routing id and the more flag of its send, and a receive
  with nothing outstanding returns \<open>Again\<close>: no message is lost, duplicated or reordered.
\<close>

theorem inproc_link_is_fifo:
  assumes "ctx_state w = STATE_RUNNING" "ctx_inproc_endpoints w name = None" "ctx_pending_inproc w name = None"
    and "inproc_types_compatible t u" "u \<in> {Pair, Push, Channel}"
    and "\<forall>s. active_wire W s w = None"
  shows "\<exists>a b w'. open_link W t u (lit ''inproc://'' @ name) w = (Inr (a, b), w')
    \<and> (\<forall>ts. fst (link_run W a b ts w') = fst (fifo_run ts []))"
proof -
  have u: "u \<noteq> Xsub" and t: "can_recv t" "t \<notin> {Req, Rep, Router, Server, Peer}"
    using assms(4,5) by (auto simp: inproc_types_compatible_def can_recv_def)
  obtain w' ka kb where o: "open_link W t u (lit ''inproc://'' @ name) w = (Inr (next_ref w, next_ref w + 1), w')"
    and k: "w_sockets w' = (w_sockets w)(next_ref w := ka, next_ref w + 1 := kb)" "sk_type ka = t"
    "sk_inbox ka = next_ref w" "sk_type kb = u" "sk_inproc_fast_send_enabled kb"
    "sk_inproc kb = \<lparr>ip_direct_outbox = Some (next_ref w), ip_connected_endpoint = Some name,
       ip_bound_endpoint_name = None, ip_bound_endpoint = None\<rparr>"
    "ctx_inproc_endpoints w' = (ctx_inproc_endpoints w)(name \<mapsto> next_ref w + 2)"
    "ep_binder_type (endpoints w' (next_ref w + 2)) = t"
    "queues w' = (queues w)(next_ref w := [], next_ref w + 1 := [])" "w_wire w' = w_wire w"
    by (rule open_link_ok [OF assms(1,2,3,4) u, of W]) blast
  have "direct_link W (next_ref w) (next_ref w + 1) w'"
    using k t assms(5,6) active_wire_cong [OF k(10), of W "next_ref w"]
    by (auto simp: direct_link_def connected_bound_def inproc_endpoint_of_def)
  then have "\<forall>ts. fst (link_run W (next_ref w) (next_ref w + 1) ts w') = fst (fifo_run ts [])"
    using k by (simp add: link_run_fifo)
  with o show ?thesis
    by blast
qed

theorem inproc_link_is_fifo_witness:
  "\<exists>a b w'. open_link no_wires Pull Push (lit ''inproc://'' @ lit ''a'') (world_new ()) = (Inr (a, b), w')
    \<and> fst (link_run no_wires a b
             [Put (message_from_vec [1, 2]) 0, Put (message_from_vec [3]) 2, Get 0, Get 0, Get 0] w')
      = [Wrote (Inr 2), Wrote (Inr 1), Read (Inr (message_from_vec [1, 2])),
         Read (Inr (set_more True (message_from_vec [3]))), Read (Inl Again)]"
proof -
  have "fst (fifo_run [Put (message_from_vec [1, 2]) 0, Put (message_from_vec [3]) 2, Get 0, Get 0, Get 0] [])
      = [Wrote (Inr 2), Wrote (Inr 1), Read (Inr (message_from_vec [1, 2])),
         Read (Inr (set_more True (message_from_vec [3]))), Read (Inl Again)]"
    by code_simp
  moreover from inproc_link_is_fifo [of "world_new ()" "lit ''a''" Pull Push no_wires] obtain a b w' where
    "open_link no_wires Pull Push (lit ''inproc://'' @ lit ''a'') (world_new ()) = (Inr (a, b), w')"
    "\<forall>ts. fst (link_run no_wires a b ts w') = fst (fifo_run ts [])"
    by (auto simp: inproc_types_compatible_def)
  ultimately show ?thesis
    by metis
qed

end
