(* ===== verification/Request_Reply.thy ===== *)
theory Request_Reply
  imports Inproc_Delivery
begin

text \<open>
  The request-reply pattern of \<open>socket.rs\<close> (\<open>ensure_can_send_for_pattern\<close>, \<open>after_pattern_send\<close> and
  their receiving counterparts) seen through whole calls of \<open>send\<close> and \<open>recv\<close>: a socket without the
  relaxed mode behaves as a two-state automaton over its calls, whatever other sockets do between them.
\<close>

lemma resolve_outboxes_error:
  assumes "resolve_outboxes s m w = (Inl e, w')"
  shows "e = Again"
  using assms by (auto simp: resolve_outboxes_def Let_def map_prod_def split: option.splits if_splits prod.splits)

lemma deliver_error: "deliver os m qs w = (Inl e, w') \<Longrightarrow> e = Again"
  by (induction os m qs w rule: deliver.induct) (auto split: if_splits)

section \<open>The request-reply state machine\<close>

text \<open>The part of a socket the pattern depends on: REQ or REP, without the relaxed mode.\<close>

definition strict_pattern :: "socket \<Rightarrow> pattern_state \<Rightarrow> bool" where
  "strict_pattern k st \<longleftrightarrow> sk_type k \<in> {Req, Rep} \<and> sk_pattern_state k = Some st
     \<and> \<not> (sk_type k = Req \<and> opt_req_relaxed (sk_options k))"

definition after_send :: "bool \<Rightarrow> pattern_state" where
  "after_send has_more = (if has_more then ReadyToSend else ReadyToRecv)"

definition after_recv :: "bool \<Rightarrow> pattern_state" where
  "after_recv has_more = (if has_more then ReadyToRecv else ReadyToSend)"

lemma after_pattern_send_strict:
  assumes "strict_pattern (w_sockets w s) ReadyToSend"
  obtains w' where "after_pattern_send s b w = (Inr (), w')" "strict_pattern (w_sockets w' s) (after_send b)"
    "w_wire w' = w_wire w"
  using assms by (auto simp: after_pattern_send_def strict_pattern_def after_send_def Let_def)

lemma after_pattern_recv_strict:
  assumes "strict_pattern (w_sockets w s) ReadyToRecv"
  obtains w' where "after_pattern_recv s b w = (Inr (), w')" "strict_pattern (w_sockets w' s) (after_recv b)"
    "w_wire w' = w_wire w"
  using assms by (auto simp: after_pattern_recv_def strict_pattern_def after_recv_def Let_def)

lemma send_strict_refused:
  assumes "strict_pattern (w_sockets w s) ReadyToRecv"
  shows "send W s m flags w = (Inl InvalidState, w)"
  using assms by (auto simp: send_def strict_pattern_def can_send_def ensure_can_send_for_pattern_def Let_def)

lemma recv_strict_refused:
  assumes "strict_pattern (w_sockets w s) ReadyToSend"
  shows "recv W s flags w = (Inl InvalidState, w)"
  using assms by (auto simp: recv_def strict_pattern_def can_recv_def ensure_can_recv_for_pattern_def Let_def)

text \<open>REQ and REP take neither the subscription path nor the fast path.\<close>

lemma send_strict_eq:
  assumes "strict_pattern (w_sockets w s) ReadyToSend" "active_wire W s w = None"
  shows "send W s m flags w = send_slow s (outgoing_message s m flags w) (message_len m) w"
  using assms
  by (auto simp: send_def strict_pattern_def can_send_def ensure_can_send_for_pattern_def Let_def
      try_process_xsub_subscription_send_def xsub_endpoint_def try_send_inproc_fast_def send_transport_def)

lemma send_slow_strict:
  assumes k: "strict_pattern (w_sockets w s) ReadyToSend"
    and s: "send_slow s m n w = (r, w')"
  shows "w_wire w' = w_wire w \<and>
    (case r of Inl e \<Rightarrow> e \<noteq> InvalidState \<and> strict_pattern (w_sockets w' s) ReadyToSend
     | Inr x \<Rightarrow> x = n \<and> strict_pattern (w_sockets w' s) (after_send (msg_more m)))"
proof -
  obtain ro w1 where ro: "resolve_outboxes s m w = (ro, w1)"
    by (cases "resolve_outboxes s m w")
  have w1: "w_sockets w1 = w_sockets w" "w_wire w1 = w_wire w"
    using resolve_outboxes_world [of s m w] ro by simp_all
  show ?thesis
  proof (cases ro)
    case (Inl e)
    with s ro w1 k show ?thesis
      using resolve_outboxes_error [OF ro [unfolded Inl]] by (auto simp: send_slow_def)
  next
    case (Inr qs)
    obtain rd w2 where rd: "deliver (sk_options (w_sockets w1 s)) m qs w1 = (rd, w2)"
      by (cases "deliver (sk_options (w_sockets w1 s)) m qs w1")
    have w2: "w_sockets w2 = w_sockets w" "w_wire w2 = w_wire w"
      using deliver_world [of "sk_options (w_sockets w1 s)" m qs w1] w1 unfolding rd by simp_all
    have "strict_pattern (w_sockets w2 s) ReadyToSend"
      using k w2 by simp
    then obtain w3 where w3: "after_pattern_send s (msg_more m) w2 = (Inr (), w3)"
      "strict_pattern (w_sockets w3 s) (after_send (msg_more m))" "w_wire w3 = w_wire w"
      using after_pattern_send_strict w2(2) by metis
    have t: "sk_type (w_sockets w s) \<in> {Req, Rep}"
      using k by (simp add: strict_pattern_def)
    show ?thesis
      using s ro Inr k w1 w2 w3 rd t deliver_error [of "sk_options (w_sockets w1 s)" m qs w1]
      by (cases rd) (auto simp: send_slow_def send_resolved_def Let_def split: if_splits)
  qed
qed

lemma recv_strict:
  assumes k: "strict_pattern (w_sockets w s) ReadyToRecv" and a: "active_wire W s w = None"
    and r: "recv W s flags w = (r, w')"
  shows "w_wire w' = w_wire w \<and>
    (case r of Inl e \<Rightarrow> e \<noteq> InvalidState \<and> strict_pattern (w_sockets w' s) ReadyToRecv
     | Inr m \<Rightarrow> strict_pattern (w_sockets w' s) (after_recv (msg_more m)))"
proof (cases "queues w (sk_inbox (w_sockets w s))")
  case Nil
  then show ?thesis
    using k a r
    by (auto simp: recv_def strict_pattern_def can_recv_def ensure_can_recv_for_pattern_def Let_def
        try_recv_inproc_fast_def pop_front_def recv_inbox_def)
next
  case (Cons m ms)
  then obtain w1 where t: "try_recv_inproc_fast s w = (Some m, w1)" "w_wire w1 = w_wire w"
    "strict_pattern (w_sockets w1 s) ReadyToRecv"
    using k by (auto simp: try_recv_inproc_fast_def pop_front_def Let_def record_recv_metadata_def
        strict_pattern_def)
  from after_pattern_recv_strict [OF t(3), of "msg_more m"] obtain w2 where
    w2: "after_pattern_recv s (msg_more m) w1 = (Inr (), w2)"
      "strict_pattern (w_sockets w2 s) (after_recv (msg_more m))" "w_wire w2 = w_wire w1"
    by metis
  have "recv W s flags w = (Inr m, w2)"
    using k t(1) w2(1)
    by (auto simp: recv_def strict_pattern_def can_recv_def ensure_can_recv_for_pattern_def Let_def)
  with r w2 t show ?thesis
    by auto
qed


section \<open>Runs\<close>

text \<open>
  What one call did: for a send its flag for further parts and the outcome, for a receive the outcome.
  The automaton reads a log; None means that the log is not one of the pattern.
\<close>

datatype call = Sent bool "nat result" | Received "message result"

fun automaton_step :: "pattern_state \<Rightarrow> call \<Rightarrow> pattern_state option" where
  "automaton_step ReadyToSend (Sent has_more (Inr _)) = Some (after_send has_more)"
| "automaton_step ReadyToSend (Sent has_more (Inl e)) = (if e = InvalidState then None else Some ReadyToSend)"
| "automaton_step ReadyToSend (Received (Inl e)) = (if e = InvalidState then Some ReadyToSend else None)"
| "automaton_step ReadyToSend (Received (Inr _)) = None"
| "automaton_step ReadyToRecv (Sent has_more (Inl e)) = (if e = InvalidState then Some ReadyToRecv else None)"
| "automaton_step ReadyToRecv (Sent has_more (Inr _)) = None"
| "automaton_step ReadyToRecv (Received (Inl e)) = (if e = InvalidState then None else Some ReadyToRecv)"
| "automaton_step ReadyToRecv (Received (Inr m)) = Some (after_recv (msg_more m))"

fun automaton :: "pattern_state \<Rightarrow> call list \<Rightarrow> pattern_state option" where
  "automaton st [] = Some st"
| "automaton st (c # cs) = (case automaton_step st c of None \<Rightarrow> None | Some st' \<Rightarrow> automaton st' cs)"

lemma automaton_append:
  "automaton st (cs @ ds) = (case automaton st cs of None \<Rightarrow> None | Some st' \<Rightarrow> automaton st' ds)"
  by (induction cs arbitrary: st) (auto split: option.split)

text \<open>
  A run of one socket: its own calls in order, and between them any change of the world that is
  not to this socket's own record and leaves the transports as they are. Other sockets deliver into
  its inbox, bind, connect and go away in such steps.
\<close>

inductive pattern_run :: "'w wires \<Rightarrow> ref \<Rightarrow> 'w world \<Rightarrow> call list \<Rightarrow> 'w world \<Rightarrow> bool"
  for W :: "'w wires" and s :: ref and w0 :: "'w world" where
  run_start: "pattern_run W s w0 [] w0"
| run_others: "pattern_run W s w0 l w \<Longrightarrow> w_sockets w' s = w_sockets w s \<Longrightarrow> w_wire w' = w_wire w
    \<Longrightarrow> pattern_run W s w0 l w'"
| run_send: "pattern_run W s w0 l w \<Longrightarrow> send W s m flags w = (r, w')
    \<Longrightarrow> pattern_run W s w0 (l @ [Sent ((flags AND ZMQ_SNDMORE) \<noteq> 0) r]) w'"
| run_recv: "pattern_run W s w0 l w \<Longrightarrow> recv W s flags w = (r, w')
    \<Longrightarrow> pattern_run W s w0 (l @ [Received r]) w'"

lemma send_step:
  assumes k: "strict_pattern (w_sockets w s) st" and a: "active_wire W s w = None"
    and s: "send W s m flags w = (r, w')"
  shows "w_wire w' = w_wire w \<and>
    (\<exists>st'. automaton_step st (Sent ((flags AND ZMQ_SNDMORE) \<noteq> 0) r) = Some st' \<and> strict_pattern (w_sockets w' s) st')"
proof (cases st)
  case ReadyToSend
  have "send_slow s (outgoing_message s m flags w) (message_len m) w = (r, w')"
    using send_strict_eq [OF k [unfolded ReadyToSend] a] s by simp
  from send_slow_strict [OF k [unfolded ReadyToSend] this] ReadyToSend show ?thesis
    by (auto split: sum.splits)
next
  case ReadyToRecv
  with s send_strict_refused [OF k [unfolded ReadyToRecv], of W m flags] k show ?thesis
    by auto
qed

lemma recv_step:
  assumes k: "strict_pattern (w_sockets w s) st" and a: "active_wire W s w = None"
    and r: "recv W s flags w = (r, w')"
  shows "w_wire w' = w_wire w \<and>
    (\<exists>st'. automaton_step st (Received r) = Some st' \<and> strict_pattern (w_sockets w' s) st')"
proof (cases st)
  case ReadyToSend
  with r recv_strict_refused [OF k [unfolded ReadyToSend], of W flags] k show ?thesis
    by auto
next
  case ReadyToRecv
  from recv_strict [OF k [unfolded ReadyToRecv] a r] ReadyToRecv show ?thesis
    by (auto split: sum.splits)
qed

text \<open>
  C4. The request-reply pattern. A REQ or REP socket without \<open>ZMQ_REQ_RELAXED\<close> that has no wire
  transport follows the two-state automaton over its whole life: a message is sent, in one or more
  parts, only in the state \<open>ReadyToSend\<close> and one is received only in \<open>ReadyToRecv\<close>; the last part
  moves it on; a call in the wrong state, and only such a call, is answered \<open>InvalidState\<close>; any other
  failure leaves the state as it is. Other sockets may change the world between its calls.
\<close>

theorem request_reply_alternates:
  assumes "pattern_run W s w0 l w" and "strict_pattern (w_sockets w0 s) st" and "active_wire W s w0 = None"
  shows "\<exists>st'. automaton st l = Some st' \<and> strict_pattern (w_sockets w s) st'"
proof -
  from assms have "w_wire w = w_wire w0 \<and> (\<exists>st'. automaton st l = Some st' \<and> strict_pattern (w_sockets w s) st')"
  proof induction
    case (run_send l w m flags r w')
    then have "active_wire W s w = None"
      using active_wire_cong by metis
    with run_send send_step [of w s _ W m flags r w'] show ?case
      by (fastforce simp: automaton_append)
  next
    case (run_recv l w flags r w')
    then have "active_wire W s w = None"
      using active_wire_cong by metis
    with run_recv recv_step [of w s _ W flags r w'] show ?case
      by (fastforce simp: automaton_append)
  qed simp_all
  then show ?thesis
    by blast
qed

theorem request_reply_alternates_witness:
  "\<exists>a b w r1 w1 r2 w2 st'. open_link no_wires Rep Req (lit ''inproc://'' @ lit ''a'') (world_new ()) = (Inr (a, b), w)
    \<and> send no_wires b (message_from_vec [7]) 0 w = (r1, w1) \<and> recv no_wires b 0 w1 = (r2, w2)
    \<and> automaton ReadyToSend [Sent False r1, Received r2] = Some st' \<and> strict_pattern (w_sockets w2 b) st'"
proof -
  obtain w ka kb where o: "open_link no_wires Rep Req (lit ''inproc://'' @ lit ''a'') (world_new ()) = (Inr (0, 1), w)"
    and k: "w_sockets w 1 = kb" "sk_type kb = Req" "sk_pattern_state kb = Some ReadyToSend"
    "\<not> opt_req_relaxed (sk_options kb)"
    by (rule open_link_ok [of "world_new ()" "lit ''a''" Rep Req no_wires]) (auto simp: inproc_types_compatible_def)
  have s: "strict_pattern (w_sockets w 1) ReadyToSend"
    using k by (simp add: strict_pattern_def)
  obtain r1 w1 where 1: "send no_wires 1 (message_from_vec [7]) 0 w = (r1, w1)"
    by fastforce
  obtain r2 w2 where 2: "recv no_wires 1 0 w1 = (r2, w2)"
    by fastforce
  from run_recv [OF run_send [OF run_start 1] 2]
  have "pattern_run no_wires 1 w [Sent False r1, Received r2] w2"
    by simp
  from request_reply_alternates [OF this s] o 1 2 show ?thesis
    by auto
qed

end
