(* ===== verification/High_Water.thy ===== *)
theory High_Water
  imports Request_Reply
begin

text \<open>
  The send high-water mark of \<open>socket.rs\<close>: what the loop over the outboxes guarantees, what it
  leaves behind when it stops at a full queue, and that a socket whose mark was set keeps it
  over every sequence of sends.
\<close>

section \<open>The loop over the outboxes\<close>

lemma deliver_bound:
  assumes "0 < opt_sndhwm os"
  shows "length (queues (snd (deliver os m qs w)) q) \<le> max (length (queues w q)) (nat (opt_sndhwm os))"
  using assms
proof (induction os m qs w rule: deliver.induct)
  case (2 os m p qs w)
  moreover from this have "1 \<le> nat (opt_sndhwm os)"
    by linarith
  ultimately show ?case
    by (cases "opt_conflate os"; cases "length (queues w p) \<ge> nat (opt_sndhwm os)"; cases "q = p") (auto simp: max_def)
qed simp

text \<open>The queues that had room before the first full one.\<close>

definition has_room :: "socket_options \<Rightarrow> 'w world \<Rightarrow> ref \<Rightarrow> bool" where
  "has_room os w q \<longleftrightarrow> \<not> (opt_sndhwm os > 0 \<and> length (queues w q) \<ge> nat (opt_sndhwm os))"

lemma deliver_prefix:
  assumes "\<not> opt_conflate os" "distinct qs"
  shows "deliver os m qs w =
    (if \<forall>q \<in> set qs. has_room os w q then Inr () else Inl Again,
     fold (\<lambda>q. push_back q m) (takeWhile (has_room os w) qs) w)"
  using assms
proof (induction os m qs w rule: deliver.induct)
  case (2 os m p qs w)
  have "has_room os (push_back p m w) q = has_room os w q" if "q \<in> set qs" for q
    using that 2(4) by (auto simp: has_room_def)
  then have "takeWhile (has_room os (push_back p m w)) qs = takeWhile (has_room os w) qs"
    "(\<forall>q \<in> set qs. has_room os (push_back p m w) q) = (\<forall>q \<in> set qs. has_room os w q)"
    by (auto cong: takeWhile_cong)
  moreover have "deliver os m (p # qs) w =
      (if has_room os w p then deliver os m qs (push_back p m w) else (Inl Again, w))"
    using 2(3) by (simp add: has_room_def)
  moreover have "has_room os w p \<Longrightarrow> deliver os m qs (push_back p m w) =
      (if \<forall>q \<in> set qs. has_room os (push_back p m w) q then Inr () else Inl Again,
       fold (\<lambda>q. push_back q m) (takeWhile (has_room os (push_back p m w)) qs) (push_back p m w))"
    using 2(2-4) by (simp add: has_room_def [of os w p])
  ultimately show ?case
    by simp
qed simp


section \<open>What a send leaves of the socket\<close>

text \<open>The parts of a socket record that no send and no receive changes.\<close>

definition same_config :: "socket \<Rightarrow> socket \<Rightarrow> bool" where
  "same_config k k' \<longleftrightarrow> sk_type k' = sk_type k \<and> sk_options k' = sk_options k \<and> sk_inproc k' = sk_inproc k
     \<and> sk_inbox k' = sk_inbox k \<and> sk_inproc_fast_send_enabled k' = sk_inproc_fast_send_enabled k \<and> sk_id k' = sk_id k"

lemma same_config_refl [simp]: "same_config k k"
  by (simp add: same_config_def)

lemma same_config_trans: "same_config a b \<Longrightarrow> same_config b c \<Longrightarrow> same_config a c"
  by (simp add: same_config_def)

lemma after_pattern_send_frame:
  "queues (snd (after_pattern_send s b w)) = queues w \<and> w_wire (snd (after_pattern_send s b w)) = w_wire w
   \<and> same_config (w_sockets w s) (w_sockets (snd (after_pattern_send s b w)) s)"
  by (auto simp: after_pattern_send_def Let_def same_config_def split: option.split pattern_state.split)

lemma send_resolved_frame:
  assumes h: "0 < opt_sndhwm (sk_options (w_sockets w s))"
    and w': "w' = snd (send_resolved s m n qs w)"
  shows "length (queues w' q) \<le> max (length (queues w q)) (nat (opt_sndhwm (sk_options (w_sockets w s))))
    \<and> w_wire w' = w_wire w \<and> same_config (w_sockets w s) (w_sockets w' s)"
proof (cases "qs = []")
  case True
  then show ?thesis
    using after_pattern_send_frame [of s "msg_more m" w]
    by (auto simp: w' send_resolved_def Let_def bnd_apply split: sum.split)
next
  case False
  let ?d = "deliver (sk_options (w_sockets w s)) m qs w"
  have d: "w' = (case fst ?d of Inl e \<Rightarrow> snd ?d | Inr _ \<Rightarrow> snd (after_pattern_send s (msg_more m) (snd ?d)))"
    using False by (auto simp: w' send_resolved_def Let_def bnd_apply split: sum.split)
  show ?thesis
    using deliver_bound [OF h, of m qs w q] after_pattern_send_frame [of s "msg_more m" "snd ?d"]
    by (auto simp: d split: sum.split)
qed

lemma send_slow_frame:
  assumes h: "0 < opt_sndhwm (sk_options (w_sockets w s))"
    and w': "w' = snd (send_slow s m n w)"
  shows "length (queues w' q) \<le> max (length (queues w q)) (nat (opt_sndhwm (sk_options (w_sockets w s))))
    \<and> w_wire w' = w_wire w \<and> same_config (w_sockets w s) (w_sockets w' s)"
proof (cases "fst (resolve_outboxes s m w)")
  case (Inl e)
  then show ?thesis
    by (simp add: w' send_slow_def bnd_apply resolve_outboxes_queues)
next
  case (Inr qs)
  then have "w' = snd (send_resolved s m n qs (snd (resolve_outboxes s m w)))"
    by (simp add: w' send_slow_def bnd_apply)
  then show ?thesis
    using send_resolved_frame [OF _ refl, of "snd (resolve_outboxes s m w)" s m n qs q] h
    by (simp add: resolve_outboxes_queues)
qed

text \<open>The sockets whose sends all go through the bounded path.\<close>

definition bounded_sender :: "'w wires \<Rightarrow> ref \<Rightarrow> 'w world \<Rightarrow> bool" where
  "bounded_sender W s w \<longleftrightarrow>
     active_wire W s w = None \<and> sk_type (w_sockets w s) \<notin> {Pub, Xsub}
     \<and> (sk_type (w_sockets w s) \<in> {Pair, Push, Channel} \<longrightarrow> \<not> sk_inproc_fast_send_enabled (w_sockets w s))"

lemma send_bounded:
  assumes b: "bounded_sender W s w" and h: "0 < opt_sndhwm (sk_options (w_sockets w s))"
    and w': "w' = snd (send W s m flags w)"
  shows "length (queues w' q) \<le> max (length (queues w q)) (nat (opt_sndhwm (sk_options (w_sockets w s))))
    \<and> w_wire w' = w_wire w \<and> same_config (w_sockets w s) (w_sockets w' s)"
proof -
  have f: "try_process_xsub_subscription_send s m' w = (False, w)" "try_send_inproc_fast s m' w = (Some m', w)" for m'
    using b by (auto simp: bounded_sender_def try_process_xsub_subscription_send_def xsub_endpoint_def
        try_send_inproc_fast_def Let_def)
  have "w' = w \<or> (\<exists>m n. w' = snd (send_slow s m n w))"
    using b f by (auto simp: w' send_def Let_def send_transport_def bounded_sender_def split: sum.splits)
  then show ?thesis
    using send_slow_frame [OF h refl] by auto
qed

definition send_all :: "'w wires \<Rightarrow> ref \<Rightarrow> (message \<times> i32) list \<Rightarrow> 'w world \<Rightarrow> 'w world" where
  "send_all W s ms = fold (\<lambda>(m, flags) w. snd (send W s m flags w)) ms"

lemma send_all_bounded:
  assumes "bounded_sender W s w" and "0 < opt_sndhwm (sk_options (w_sockets w s))"
  shows "length (queues (send_all W s ms w) q)
    \<le> max (length (queues w q)) (nat (opt_sndhwm (sk_options (w_sockets w s))))"
  using assms
proof (induction ms arbitrary: w)
  case (Cons x ms)
  obtain m flags where x: "x = (m, flags)"
    by (cases x)
  let ?w = "snd (send W s m flags w)"
  have s: "length (queues ?w q) \<le> max (length (queues w q)) (nat (opt_sndhwm (sk_options (w_sockets w s))))"
    "w_wire ?w = w_wire w" "same_config (w_sockets w s) (w_sockets ?w s)"
    using send_bounded [OF Cons.prems refl] by auto
  have "bounded_sender W s ?w"
    using Cons.prems(1) s active_wire_cong [OF s(2), of W s] by (auto simp: bounded_sender_def same_config_def)
  with Cons.IH [of ?w] Cons.prems s show ?case
    by (simp add: send_all_def x same_config_def)
qed (simp add: send_all_def)


section \<open>Properties\<close>

text \<open>
  C18. The high-water mark is kept. Once \<open>ZMQ_SNDHWM\<close> has been set to a positive value on a socket
  that is neither PUB nor XSUB and uses no wire transport, the call succeeds and no sequence of
  sends on it, whatever their outcome, makes any queue longer than the mark or, if it was longer
  already, longer than it was.
\<close>

theorem sndhwm_is_kept:
  assumes "0 < v" and "sk_type (w_sockets w s) \<notin> {Pub, Xsub}" and "active_wire W s w = None"
    and "socket_set_option_i32 s ZMQ_SNDHWM v w = (r, w1)"
  shows "r = Inr () \<and> length (queues (send_all W s ms w1) q) \<le> max (length (queues w q)) (nat v)"
proof -
  have r: "r = Inr ()" "queues w1 = queues w" "w_wire w1 = w_wire w" "sk_type (w_sockets w1 s) = sk_type (w_sockets w s)"
    "opt_sndhwm (sk_options (w_sockets w1 s)) = v" "\<not> sk_inproc_fast_send_enabled (w_sockets w1 s)"
    using assms(1,4)
    by (auto simp: socket_set_option_i32_def set_option_i32_def set_i32_basic_def store_cells_def socket_cells_def Let_def)
  have "bounded_sender W s w1"
    using r assms(2,3) active_wire_cong [OF r(3), of W s] by (auto simp: bounded_sender_def)
  from send_all_bounded [OF this, of ms q] r assms(1) show ?thesis
    by simp
qed

theorem sndhwm_is_kept_witness:
  "\<exists>r w1. socket_set_option_i32 0 ZMQ_SNDHWM 2 (world_new ()) = (r, w1) \<and> r = Inr ()
    \<and> length (queues (send_all no_wires 0 [(message_new, 0), (message_new, 0), (message_new, 0)] w1) 0) \<le> 2"
proof -
  obtain r w1 where s: "socket_set_option_i32 0 ZMQ_SNDHWM 2 (world_new ()) = (r, w1)"
    by fastforce
  have "sk_type (w_sockets (world_new ()) 0) \<notin> {Pub, Xsub}"
    by (simp add: world_new_def context_shared.defs world.defs context_new_def socket_record_def)
  from sndhwm_is_kept [OF _ this active_wire_no_wires s, of "[(message_new, 0), (message_new, 0), (message_new, 0)]" 0]
  show ?thesis
    using s by auto
qed

text \<open>
  A bound XPUB or RADIO socket in automatic mode, without a wire, and the queues of the peers that a message it sends
  is for.
\<close>

definition publisher_on :: "'w wires \<Rightarrow> ref \<Rightarrow> ref \<Rightarrow> 'w world \<Rightarrow> bool" where
  "publisher_on W s e w \<longleftrightarrow>
     active_wire W s w = None \<and> sk_type (w_sockets w s) \<in> {Xpub, Radio}
     \<and> ip_connected_endpoint (sk_inproc (w_sockets w s)) = None \<and> ip_direct_outbox (sk_inproc (w_sockets w s)) = None
     \<and> ip_bound_endpoint (sk_inproc (w_sockets w s)) = Some e
     \<and> \<not> (ep_binder_type (endpoints w e) = Xpub \<and> manual (endpoint_policy e w))"

definition subscribers :: "ref \<Rightarrow> message \<Rightarrow> 'w world \<Rightarrow> ref list" where
  "subscribers e m w =
     map peer_inbox (filter (\<lambda>p. socket_type_accepts_message (peer_socket_type p) (peer_subscriptions p) m w) (ep_peers (endpoints w e)))"

lemma count_list_once: "distinct xs \<Longrightarrow> count_list xs x = (if x \<in> set xs then 1 else 0)"
  by (induction xs) auto

lemma fold_push_back_once:
  assumes "distinct qs"
  shows "fold (\<lambda>q. push_back q m) qs w = w\<lparr>queues := \<lambda>q. queues w q @ (if q \<in> set qs then [m] else [])\<rparr>"
proof -
  have "fold (\<lambda>q. push_back q m) qs w = w\<lparr>queues := queues (fold (\<lambda>q. push_back q m) qs w)\<rparr>"
    by (induction qs arbitrary: w) (simp, metis (no_types, lifting) fold_simps(2) push_back_def heap.fold_congs(1) heap.update_convs(1) heap.surjective)
  also have "queues (fold (\<lambda>q. push_back q m) qs w) = (\<lambda>q. queues w q @ (if q \<in> set qs then [m] else []))"
    using assms by (auto simp: fold_push_back_queues count_list_once)
  finally show ?thesis .
qed

lemma publisher_send:
  assumes "publisher_on W s e w"
  shows "send W s m flags w =
    (let m' = set_more ((flags AND ZMQ_SNDMORE) \<noteq> 0) m in send_resolved s m' (message_len m) (subscribers e m' w) w)"
proof -
  let ?m = "set_more ((flags AND ZMQ_SNDMORE) \<noteq> 0) m"
  have o: "outgoing_message s m flags w = ?m"
    using assms by (auto simp: publisher_on_def outgoing_message_def apply_outgoing_routing_id_def apply_reply_routing_id_def
        connected_bound_def)
  have f: "try_process_xsub_subscription_send s ?m w = (False, w)" "try_send_inproc_fast s ?m w = (Some ?m, w)"
    "can_send (sk_type (w_sockets w s))" "ensure_can_send_for_pattern (w_sockets w s) = Inr ()"
    using assms by (auto simp: publisher_on_def try_process_xsub_subscription_send_def xsub_endpoint_def
        try_send_inproc_fast_def Let_def can_send_def ensure_can_send_for_pattern_def)
  have "resolve_outboxes s ?m w = (Inr (subscribers e ?m w), w)"
    using assms by (auto simp: publisher_on_def resolve_outboxes_def connected_bound_def matching_peers_def subscribers_def Let_def)
  with f o show ?thesis
    using assms by (simp add: send_def send_transport_def publisher_on_def send_slow_def bnd_apply Let_def)
qed

text \<open>
  C38. A full peer interrupts a send to several. A publisher with a send high-water mark (XPUB or RADIO, bound, with
  no wire) sends a message for some of its peers: the queues of those peers are filled in their order up to the first that
  is full. When there is none the send returns the length, and otherwise \<open>Again\<close>, although the peers before the full one have
  got the message: a caller that repeats the send, as \<open>Again\<close> asks for, delivers it to them twice.
\<close>

theorem full_peer_interrupts_send:
  assumes "publisher_on W s e w" and "\<not> opt_conflate (sk_options (w_sockets w s))"
    and "m' = set_more ((flags AND ZMQ_SNDMORE) \<noteq> 0) m" and "qs = subscribers e m' w" "qs \<noteq> []" "distinct qs"
    and "room = has_room (sk_options (w_sockets w s)) w" and "reached = set (takeWhile room qs)"
    and "send W s m flags w = (r, w1)"
  shows "r = (if \<forall>q \<in> set qs. room q then Inr (message_len m) else Inl Again)
    \<and> w1 = w\<lparr>queues := \<lambda>q. queues w q @ (if q \<in> reached then [m'] else [])\<rparr>"
proof -
  have t: "sk_type (w_sockets w s) \<notin> {Req, Rep}"
    using assms(1) by (auto simp: publisher_on_def)
  have "send_resolved s m' (message_len m) qs w = (if \<forall>q \<in> set qs. room q then Inr (message_len m) else Inl Again,
      w\<lparr>queues := \<lambda>q. queues w q @ (if q \<in> reached then [m'] else [])\<rparr>)"
    using assms(5,7,8) deliver_prefix [OF assms(2,6), of m' w] t fold_push_back_once [OF distinct_takeWhile [OF assms(6)]]
    by (auto simp: send_resolved_def Let_def bnd_apply after_pattern_send_def)
  with assms(9) show ?thesis
    by (simp add: publisher_send [OF assms(1)] assms(3,4) Let_def split: if_splits)
qed

text \<open>
  Two subscribers, the second full: the send returns \<open>Again\<close>, the second reads one message and the send is repeated. The
  first subscriber has the message twice.
\<close>

definition full_second_peer :: "unit world" where
  "full_second_peer =
     update_endpoint 5 (\<lambda>ep. ep\<lparr>ep_binder_type := Xpub, ep_peers := [peer_example 1 Sub, peer_example 2 Sub]\<rparr>)
       (update_inproc 0 (\<lambda>ip. ip\<lparr>ip_bound_endpoint := Some 5\<rparr>)
         (update_socket 0 (\<lambda>k. k\<lparr>sk_type := Xpub, sk_options := (sk_options k)\<lparr>opt_sndhwm := 2\<rparr>\<rparr>)
           (push_back 2 message_new (push_back 2 message_new
             ((world_new ())\<lparr>subscriptions := (\<lambda>_. snd (sub_insert [] subscription_default))\<rparr>)))))"

lemma subscribers_queues: "subscribers e m (w\<lparr>queues := x\<rparr>) = subscribers e m w"
  by (simp add: subscribers_def socket_type_accepts_message_def cong: socket_type.case_cong option.case_cong)

definition read_one :: "unit world \<Rightarrow> unit world" where
  "read_one w = snd (pop_front 2 w)"

lemma full_second_peer_eqs:
  "publisher_on no_wires 0 5 full_second_peer" "opt_sndhwm (sk_options (w_sockets full_second_peer 0)) = 2"
  "\<not> opt_conflate (sk_options (w_sockets full_second_peer 0))" "queues full_second_peer = (\<lambda>_. [])(2 := [message_new, message_new])"
  "subscribers 5 m full_second_peer = [1, 2]"
  by (simp_all add: publisher_on_def active_wire_no_wires subscribers_def full_second_peer_def update_inproc_def update_endpoint_def
      update_socket_def world_new_def context_shared.defs world.defs context_new_def socket_record_def socket_options_default_def
      inproc_state_default_def peer_example_def endpoint_policy_def xpub_policy_default_def socket_type_accepts_message_def
      matches_prefix_of_def sub_insert_def subscription_default_def Mapping.lookup_empty)

theorem full_peer_interrupts_send_witness:
  "fst (send no_wires 0 (message_from_vec [9]) 0 full_second_peer) = Inl Again
   \<and> fst (send no_wires 0 (message_from_vec [9]) 0 (read_one (snd (send no_wires 0 (message_from_vec [9]) 0 full_second_peer)))) = Inr 1
   \<and> queues (snd (send no_wires 0 (message_from_vec [9]) 0 (read_one (snd (send no_wires 0 (message_from_vec [9]) 0 full_second_peer))))) 1
     = [message_from_vec [9], message_from_vec [9]]"
proof -
  let ?m = "message_from_vec [9]" and ?w = full_second_peer
  obtain r w1 r' w2 where s: "send no_wires 0 ?m 0 ?w = (r, w1)" "send no_wires 0 ?m 0 (read_one w1) = (r', w2)"
    by fastforce
  have m: "set_more ((0 AND ZMQ_SNDMORE) \<noteq> 0) ?m = ?m"
    by (simp add: message_from_vec_def set_more_def)
  have 1: "r = Inl Again" "w1 = ?w\<lparr>queues := (queues ?w)(1 := [?m])\<rparr>"
    using full_peer_interrupts_send [OF full_second_peer_eqs(1,3) m [symmetric] full_second_peer_eqs(5) [symmetric] _ _ refl refl s(1)]
    by (auto simp: full_second_peer_eqs has_room_def fun_eq_iff intro!: arg_cong [where f = "\<lambda>x. ?w\<lparr>queues := x\<rparr>"])
  then have e: "read_one w1 = ?w\<lparr>queues := (\<lambda>_. [])(1 := [?m], 2 := [message_new])\<rparr>"
    by (auto simp: read_one_def pop_front_def full_second_peer_eqs fun_upd_twist)
  have p: "publisher_on no_wires 0 5 (read_one w1)" "w_sockets (read_one w1) = w_sockets ?w"
     "subscribers 5 ?m (read_one w1) = [1, 2]"
    using full_second_peer_eqs(1) full_second_peer_eqs(5) [of ?m]
    by (simp_all add: e publisher_on_def subscribers_queues active_wire_no_wires endpoint_policy_def)
  have "r' = Inr 1" "queues w2 1 = [?m, ?m]"
    using full_peer_interrupts_send [OF p(1) _ m [symmetric] p(3) [symmetric] _ _ refl refl s(2)]
    by (auto simp: p(2) full_second_peer_eqs has_room_def e)
  with 1 s show ?thesis
    by simp
qed

end
