(* ===== verification/Reply_Routing.thy ===== *)
theory Reply_Routing
  imports High_Water
begin

text \<open>
  A request and its reply through the whole of \<open>send\<close> and \<open>recv\<close>: the requester's socket id travels as
  the routing id of the request, the replier records it and the reply goes back to that peer alone.
\<close>

section \<open>One step of either side\<close>

text \<open>A bound REP socket and its endpoint.\<close>

definition rep_server :: "ref \<Rightarrow> ref \<Rightarrow> 'w world \<Rightarrow> bool" where
  "rep_server a e w \<longleftrightarrow>
     sk_type (w_sockets w a) = Rep
     \<and> ip_connected_endpoint (sk_inproc (w_sockets w a)) = None \<and> ip_direct_outbox (sk_inproc (w_sockets w a)) = None
     \<and> ip_bound_endpoint (sk_inproc (w_sockets w a)) = Some e
     \<and> ep_binder_type (endpoints w e) = Rep \<and> ep_binder_inbox (endpoints w e) = sk_inbox (w_sockets w a)"

text \<open>A REQ socket connected to it; its id fits 32 bits and finds its own inbox.\<close>

definition req_client :: "ref \<Rightarrow> ref \<Rightarrow> 'w world \<Rightarrow> bool" where
  "req_client b e w \<longleftrightarrow>
     sk_type (w_sockets w b) = Req \<and> \<not> opt_req_relaxed (sk_options (w_sockets w b))
     \<and> connected_bound b w = Some e
     \<and> 0 < unat (sk_id (w_sockets w b)) \<and> unat (sk_id (w_sockets w b)) < 2 ^ 32
     \<and> peer_by_id e (sk_id (w_sockets w b)) w = Some (sk_inbox (w_sockets w b))"

definition rid_of :: "ref \<Rightarrow> 'w world \<Rightarrow> u32" where
  "rid_of b w = ucast (sk_id (w_sockets w b))"

definition single_part :: "u32 \<Rightarrow> message \<Rightarrow> message" where
  "single_part r m = set_routing_id r (set_more False m)"

lemma deliver_empty:
  assumes "queues w q = []" "\<not> opt_conflate os"
  shows "deliver os m [q] w = (Inr (), push_back q m w)"
  using assms by simp

lemma request_step:
  assumes "rep_server a e w" "req_client b e w" "sk_pattern_state (w_sockets w b) = Some ReadyToSend"
    and "active_wire W b w = None" "queues w (sk_inbox (w_sockets w a)) = []" "\<not> opt_conflate (sk_options (w_sockets w b))"
  shows "send W b m 0 w = (Inr (message_len m),
    update_socket b (\<lambda>k. k\<lparr>sk_pattern_state := Some ReadyToRecv\<rparr>)
      (push_back (sk_inbox (w_sockets w a)) (single_part (rid_of b w) m) w))"
proof -
  have o: "outgoing_message b m 0 w = single_part (rid_of b w) m"
    using assms(1,2) by (simp add: outgoing_message_def apply_outgoing_routing_id_def apply_reply_routing_id_def
        rep_server_def req_client_def single_part_def rid_of_def)
  have s: "strict_pattern (w_sockets w b) ReadyToSend"
    using assms(2,3) by (simp add: strict_pattern_def req_client_def)
  have r: "resolve_outboxes b m' w = (Inr [sk_inbox (w_sockets w a)], w)" for m'
    using assms(1,2) by (simp add: resolve_outboxes_def Let_def rep_server_def req_client_def binder_accepts_def
        socket_type_accepts_message_def)
  have mm: "\<not> msg_more (single_part (rid_of b w) m)"
    by (simp add: single_part_def)
  show ?thesis
    using assms(2,3,5,6) r mm
    by (simp add: send_strict_eq [OF s assms(4)] o send_slow_def send_resolved_def Let_def req_client_def
        after_pattern_send_def del: deliver.simps add: deliver_empty)
qed


lemma receive_step:
  assumes "sk_type (w_sockets w s) \<in> {Req, Rep}" "sk_pattern_state (w_sockets w s) = Some ReadyToRecv"
    and "queues w (sk_inbox (w_sockets w s)) = m # q" "\<not> msg_more m" "msg_routing_id m \<noteq> 0"
  shows "recv W s flags w = (Inr m,
    update_socket s (\<lambda>k. k\<lparr>sk_pattern_state := Some ReadyToSend\<rparr>)
      (record_recv_metadata s m (w\<lparr>queues := (queues w)(sk_inbox (w_sockets w s) := q)\<rparr>)))"
  using assms
  by (auto simp: recv_def Let_def can_recv_def ensure_can_recv_for_pattern_def try_recv_inproc_fast_def pop_front_def
      after_pattern_recv_def record_recv_metadata_def)

lemma rid_back:
  assumes "req_client b e w"
  shows "ucast (rid_of b w) = sk_id (w_sockets w b)" "rid_of b w \<noteq> 0"
proof -
  let ?i = "sk_id (w_sockets w b)"
  have i: "0 < unat ?i" "unat ?i < 2 ^ 32"
    using assms by (simp_all add: req_client_def)
  have u: "unat (rid_of b w) = unat ?i"
    using i(2) by (simp add: rid_of_def unsigned_ucast_eq take_bit_nat_eq_self)
  have "unat (ucast (rid_of b w) :: u64) = unat (rid_of b w)"
    by (simp add: unsigned_ucast_eq take_bit_nat_eq_self order_less_trans [OF unsigned_less])
  with u show "ucast (rid_of b w) = ?i"
    by (simp add: word_unat_eq_iff)
  show "rid_of b w \<noteq> 0"
    using u i(1) by auto
qed

lemma reply_step:
  assumes "rep_server a e w" "req_client b e w" "sk_pattern_state (w_sockets w a) = Some ReadyToSend"
    and "sk_last_recv_routing_id (w_sockets w a) = Some (rid_of b w)" "msg_routing_id m = 0"
    and "active_wire W a w = None" "queues w (sk_inbox (w_sockets w b)) = []" "\<not> opt_conflate (sk_options (w_sockets w a))"
  shows "send W a m 0 w = (Inr (message_len m),
    update_socket a (\<lambda>k. k\<lparr>sk_pattern_state := Some ReadyToRecv\<rparr>)
      (push_back (sk_inbox (w_sockets w b)) (single_part (rid_of b w) m) w))"
proof -
  let ?m = "single_part (rid_of b w) m"
  have n: "connected_bound a w = None"
    using assms(1) by (simp add: rep_server_def connected_bound_def)
  then have o: "outgoing_message a m 0 w = ?m"
    using assms(1,4,5) by (simp add: outgoing_message_def apply_outgoing_routing_id_def apply_reply_routing_id_def
        rep_server_def single_part_def)
  have s: "strict_pattern (w_sockets w a) ReadyToSend"
    using assms(1,3) by (simp add: strict_pattern_def rep_server_def)
  have m: "\<not> msg_more ?m" "msg_routing_id ?m = rid_of b w"
    by (simp_all add: single_part_def)
  have r: "resolve_outboxes a ?m w = (Inr [sk_inbox (w_sockets w b)], w)"
    using assms(1,2) n m rid_back [OF assms(2)] by (simp add: resolve_outboxes_def Let_def rep_server_def req_client_def)
  show ?thesis
    using assms(1,3,7,8) r m
    by (simp add: send_strict_eq [OF s assms(6)] o send_slow_def send_resolved_def Let_def rep_server_def
        after_pattern_send_def del: deliver.simps add: deliver_empty)
qed


section \<open>Both roles survive the other calls\<close>

definition same_routes :: "'w world \<Rightarrow> 'w world \<Rightarrow> bool" where
  "same_routes w w' \<longleftrightarrow> (\<forall>s. same_config (w_sockets w s) (w_sockets w' s)) \<and> endpoints w' = endpoints w
     \<and> ctx_inproc_endpoints w' = ctx_inproc_endpoints w \<and> w_wire w' = w_wire w"

lemma same_routes_step [simp]:
  "same_routes w (push_back q m w)"
  "same_routes w (w\<lparr>queues := Q\<rparr>)"
  "same_routes w (update_socket s (\<lambda>k. k\<lparr>sk_pattern_state := p\<rparr>) w)"
  "same_routes w (record_recv_metadata s m w)"
  by (simp_all add: same_routes_def same_config_def record_recv_metadata_def)

lemma same_routes_trans: "same_routes w w' \<Longrightarrow> same_routes w' w'' \<Longrightarrow> same_routes w w''"
  by (auto simp: same_routes_def intro: same_config_trans)

lemma same_routes_roles:
  assumes "same_routes w w'"
  shows "rep_server a e w' = rep_server a e w" "req_client b e w' = req_client b e w" "rid_of b w' = rid_of b w"
    "active_wire W s w' = active_wire W s w"
proof -
  have s: "same_config (w_sockets w x) (w_sockets w' x)" for x
    using assms by (simp add: same_routes_def)
  have "connected_bound b w' = connected_bound b w"
    using assms s [of b] by (simp add: connected_bound_def same_config_def inproc_endpoint_of_def same_routes_def
        cong: option.case_cong)
  then show "req_client b e w' = req_client b e w"
    using assms s [of b] by (simp add: req_client_def same_config_def peer_by_id_def same_routes_def)
  show "rep_server a e w' = rep_server a e w" "rid_of b w' = rid_of b w" "active_wire W s w' = active_wire W s w"
    using assms s [of a] s [of b]
    by (simp_all add: rep_server_def same_config_def rid_of_def same_routes_def active_wire_def)
qed


section \<open>The exchange\<close>

definition exchange ::
  "'w wires \<Rightarrow> ref \<Rightarrow> ref \<Rightarrow> message \<Rightarrow> message \<Rightarrow> ('w world, error, message \<times> message) comp" where
  "exchange W a b request reply =
     bnd (send W b request 0) (\<lambda>_. bnd (recv W a 0) (\<lambda>got.
     bnd (send W a reply 0) (\<lambda>_. bnd (recv W b 0) (\<lambda>answer. ret (got, answer)))))"

text \<open>
  C17. A reply reaches the socket that asked. Let a REP socket be bound to an endpoint and a REQ socket,
  one of any number of peers of that endpoint, be connected to it under a socket id that fits 32
  bits, both at the start of their cycle with empty inboxes and without conflation. Then the four calls
  request, receive, reply, receive all succeed: the replier gets the request's bytes, the requester gets
  the reply's bytes, both marked with the requester's routing id, no other queue changes, and both
  sockets are at the start of their cycle again.
\<close>

theorem reply_reaches_requester:
  assumes "rep_server a e w" "req_client b e w"
    and "sk_inbox (w_sockets w a) \<noteq> sk_inbox (w_sockets w b)"
    and "sk_pattern_state (w_sockets w a) = Some ReadyToRecv" "sk_pattern_state (w_sockets w b) = Some ReadyToSend"
    and "queues w (sk_inbox (w_sockets w a)) = []" "queues w (sk_inbox (w_sockets w b)) = []"
    and "\<not> opt_conflate (sk_options (w_sockets w a))" "\<not> opt_conflate (sk_options (w_sockets w b))"
    and "active_wire W a w = None" "active_wire W b w = None" "msg_routing_id reply = 0"
  shows "\<exists>w'. exchange W a b request reply w =
      (Inr (single_part (rid_of b w) request, single_part (rid_of b w) reply), w')
    \<and> queues w' = queues w \<and> same_routes w w'
    \<and> sk_pattern_state (w_sockets w' a) = Some ReadyToRecv \<and> sk_pattern_state (w_sockets w' b) = Some ReadyToSend"
proof -
  let ?A = "sk_inbox (w_sockets w a)" and ?B = "sk_inbox (w_sockets w b)" and ?r = "rid_of b w"
  let ?req = "single_part ?r request" and ?rep = "single_part ?r reply"
  have ab: "a \<noteq> b"
    using assms(3) by auto
  have p: "\<not> msg_more ?req" "msg_routing_id ?req \<noteq> 0" "\<not> msg_more ?rep" "msg_routing_id ?rep \<noteq> 0"
    using rid_back [OF assms(2)] by (simp_all add: single_part_def)
  define w1 where "w1 = update_socket b (\<lambda>k. k\<lparr>sk_pattern_state := Some ReadyToRecv\<rparr>) (push_back ?A ?req w)"
  have 1: "send W b request 0 w = (Inr (message_len request), w1)"
    unfolding w1_def by (rule request_step [OF assms(1,2,5,11,6,9)])
  have r1: "same_routes w w1"
    unfolding w1_def by (rule same_routes_trans [OF same_routes_step(1) same_routes_step(3)])
  define w2 where "w2 = update_socket a (\<lambda>k. k\<lparr>sk_pattern_state := Some ReadyToSend\<rparr>)
      (record_recv_metadata a ?req (w1\<lparr>queues := (queues w1)(?A := [])\<rparr>))"
  have 2: "recv W a 0 w1 = (Inr ?req, w2)"
    using assms(1,4,6) ab p receive_step [of w1 a ?req "[]" W 0] by (simp add: w1_def w2_def rep_server_def)
  have r2: "same_routes w w2"
    unfolding w2_def by (blast intro: same_routes_trans [OF r1] same_routes_trans same_routes_step)
  define w3 where "w3 = update_socket a (\<lambda>k. k\<lparr>sk_pattern_state := Some ReadyToRecv\<rparr>) (push_back ?B ?rep w2)"
  have c: "sk_options (w_sockets w2 a) = sk_options (w_sockets w a)" "sk_inbox (w_sockets w2 b) = ?B"
    using r2 by (simp_all add: same_routes_def same_config_def)
  have q2: "queues w2 = queues w" "sk_pattern_state (w_sockets w2 a) = Some ReadyToSend"
    "sk_last_recv_routing_id (w_sockets w2 a) = Some ?r" "sk_pattern_state (w_sockets w2 b) = Some ReadyToRecv"
    using assms(6) ab p by (auto simp: w2_def w1_def record_recv_metadata_def single_part_def)
  have 3: "send W a reply 0 w2 = (Inr (message_len reply), w3)"
    using reply_step [of a e w2 b reply W] assms q2 c by (simp add: same_routes_roles [OF r2] w3_def)
  have r3: "same_routes w w3"
    unfolding w3_def by (blast intro: same_routes_trans [OF r2] same_routes_trans same_routes_step)
  define w4 where "w4 = update_socket b (\<lambda>k. k\<lparr>sk_pattern_state := Some ReadyToSend\<rparr>)
      (record_recv_metadata b ?rep (w3\<lparr>queues := (queues w3)(?B := [])\<rparr>))"
  have c3: "sk_inbox (w_sockets w3 b) = ?B" "sk_type (w_sockets w3 b) = Req"
    using r3 assms(2) by (simp_all add: same_routes_def same_config_def req_client_def)
  have 4: "recv W b 0 w3 = (Inr ?rep, w4)"
    using assms(7) ab p q2 c3 receive_step [of w3 b ?rep "[]" W 0] by (simp add: w3_def w4_def)
  have r4: "same_routes w w4"
    unfolding w4_def by (blast intro: same_routes_trans [OF r3] same_routes_trans same_routes_step)
  have "queues w4 = queues w"
    using q2(1) assms(7) by (auto simp: w4_def w3_def)
  moreover have "sk_pattern_state (w_sockets w4 a) = Some ReadyToRecv" "sk_pattern_state (w_sockets w4 b) = Some ReadyToSend"
    using ab by (simp_all add: w4_def w3_def record_recv_metadata_def)
  ultimately show ?thesis
    using 1 2 3 4 r4 by (simp add: exchange_def)
qed

theorem reply_reaches_requester_witness:
  "\<exists>a b w w'. open_link no_wires Rep Req (lit ''inproc://'' @ lit ''a'') (world_new ()) = (Inr (a, b), w)
    \<and> exchange no_wires a b (message_from_vec [1, 2]) (message_from_vec [3]) w =
        (Inr (single_part 2 (message_from_vec [1, 2]), single_part 2 (message_from_vec [3])), w')"
proof -
  let ?w = "world_new ()"
  obtain w ka kb where o: "open_link no_wires Rep Req (lit ''inproc://'' @ lit ''a'') ?w = (Inr (next_ref ?w, next_ref ?w + 1), w)"
    and k: "w_sockets w = (w_sockets ?w)(next_ref ?w := ka, next_ref ?w + 1 := kb)"
    "sk_type ka = Rep" "sk_inbox ka = next_ref ?w" "sk_type kb = Req" "sk_inbox kb = next_ref ?w + 1"
    "sk_id kb = ctx_next_socket_id ?w + 1"
    "sk_pattern_state ka = (case Rep of Req \<Rightarrow> Some ReadyToSend | Rep \<Rightarrow> Some ReadyToRecv | _ \<Rightarrow> None)"
    "sk_pattern_state kb = (case Req of Req \<Rightarrow> Some ReadyToSend | Rep \<Rightarrow> Some ReadyToRecv | _ \<Rightarrow> None)"
    "\<not> opt_req_relaxed (sk_options kb)" "\<not> opt_conflate (sk_options ka)" "\<not> opt_conflate (sk_options kb)"
    "sk_inproc ka = \<lparr>ip_direct_outbox = None, ip_connected_endpoint = None,
       ip_bound_endpoint_name = Some (lit ''a''), ip_bound_endpoint = Some (next_ref ?w + 2)\<rparr>"
    "sk_inproc kb = \<lparr>ip_direct_outbox = Some (next_ref ?w), ip_connected_endpoint = Some (lit ''a''),
       ip_bound_endpoint_name = None, ip_bound_endpoint = None\<rparr>"
    "ctx_inproc_endpoints w = (ctx_inproc_endpoints ?w)(lit ''a'' \<mapsto> next_ref ?w + 2)"
    "ep_binder_type (endpoints w (next_ref ?w + 2)) = Rep" "ep_binder_inbox (endpoints w (next_ref ?w + 2)) = next_ref ?w"
    "ep_peers (endpoints w (next_ref ?w + 2)) = [\<lparr>peer_id = ctx_next_socket_id ?w + 1,
       peer_inbox = next_ref ?w + 1, peer_socket_type = Req, peer_subscriptions = next_ref ?w + 1\<rparr>]"
    "queues w = (queues ?w)(next_ref ?w := [], next_ref ?w + 1 := [])"
    by (rule open_link_ok [of ?w "lit ''a''" Rep Req no_wires], simp, simp, simp, simp add: inproc_types_compatible_def, simp, blast)
  note k = k [simplified]
  have "rep_server 0 (Suc (Suc 0)) w" "req_client (Suc 0) (Suc (Suc 0)) w" "rid_of (Suc 0) w = 2"
    using k by (simp_all add: rep_server_def req_client_def connected_bound_def inproc_endpoint_of_def peer_by_id_def rid_of_def)
  moreover have "msg_routing_id (message_from_vec [3]) = 0"
    by (simp add: message_from_vec_def)
  ultimately have "\<exists>w'. exchange no_wires 0 (Suc 0) (message_from_vec [1, 2]) (message_from_vec [3]) w =
      (Inr (single_part 2 (message_from_vec [1, 2]), single_part 2 (message_from_vec [3])), w')"
    using reply_reaches_requester [of 0 "Suc (Suc 0)" w "Suc 0" no_wires "message_from_vec [3]" "message_from_vec [1, 2]"] k by auto
  with o show ?thesis
    by auto
qed

end
