(* ===== verification/Polling.thy ===== *)
theory Polling
  imports Request_Reply
begin

text \<open>
  \<open>Socket::events\<close> of \<open>socket.rs\<close>, the answer of \<open>ZMQ_EVENTS\<close> and of the poll functions: when the
  input flag is right, and what asking costs.
\<close>

lemma events_pollin: "fst (events s w) AND ZMQ_POLLIN \<noteq> 0 \<longleftrightarrow>
    can_recv (sk_type (w_sockets w s)) \<and> queues w (sk_inbox (w_sockets w s)) \<noteq> []"
  by (auto simp: events_def Let_def split: prod.split sum.split)

text \<open>A receive whose turn it is, from an inbox with and without messages.\<close>

lemma recv_waiting:
  assumes "can_recv (sk_type (w_sockets w s))" "ensure_can_recv_for_pattern (w_sockets w s) = Inr ()"
    and q: "queues w (sk_inbox (w_sockets w s)) = m # q"
  shows "fst (recv W s flags w) = Inr m"
proof -
  have ok: "fst (after_pattern_recv s b w') = Inr ()" if "sk_type (w_sockets w' s) = sk_type (w_sockets w s)"
    "sk_pattern_state (w_sockets w' s) = sk_pattern_state (w_sockets w s)" for b w'
    using that assms(2)
    by (auto simp: after_pattern_recv_def ensure_can_recv_for_pattern_def Let_def split: option.splits pattern_state.splits if_splits)
  obtain w1 where r: "try_recv_inproc_fast s w = (Some m, w1)" "sk_type (w_sockets w1 s) = sk_type (w_sockets w s)"
    "sk_pattern_state (w_sockets w1 s) = sk_pattern_state (w_sockets w s)"
    using q by (auto simp: try_recv_inproc_fast_def pop_front_def Let_def record_recv_metadata_def)
  then show ?thesis
    using assms(1,2) ok [OF r(2,3)] by (simp add: recv_def Let_def bnd_apply)
qed

lemma recv_empty:
  assumes "can_recv (sk_type (w_sockets w s))" "ensure_can_recv_for_pattern (w_sockets w s) = Inr ()"
    and "queues w (sk_inbox (w_sockets w s)) = []" "active_wire W s w = None"
  shows "recv W s flags w = (Inl Again, w)"
  using assms by (simp add: recv_def Let_def try_recv_inproc_fast_def pop_front_def recv_inbox_def)

lemma recv_out_of_turn:
  assumes "ensure_can_recv_for_pattern (w_sockets w s) = Inl e"
  shows "recv W s flags w = (Inl e, w)"
  using assms by (auto simp: recv_def ensure_can_recv_for_pattern_def can_recv_def split: if_splits)

text \<open>
  C37. What the input flag tells, for every socket. When a receive is permitted by the request-reply pattern and the flag is
  set, the receive returns the message at the front of the inbox; when the flag is not set and the socket uses no wire
  transport, the receive returns none. Out of turn a REQ or REP socket refuses to receive and changes nothing, whether the
  flag is set or not.
\<close>

theorem pollin_iff_receivable:
  assumes "k = w_sockets w s" and "pollin \<longleftrightarrow> fst (events s w) AND ZMQ_POLLIN \<noteq> 0"
  shows "case ensure_can_recv_for_pattern k of
      Inl e \<Rightarrow> e = InvalidState \<and> sk_type k \<in> {Req, Rep} \<and> recv W s flags w = (Inl e, w)
    | Inr _ \<Rightarrow> if pollin then fst (recv W s flags w) = Inr (hd (queues w (sk_inbox k)))
              else active_wire W s w = None \<longrightarrow> recv W s flags w = (Inl (if can_recv (sk_type k) then Again else NotSupported), w)"
proof (cases "ensure_can_recv_for_pattern k")
  case (Inl e)
  moreover from this have "e = InvalidState" "sk_type k \<in> {Req, Rep}"
    by (auto simp: ensure_can_recv_for_pattern_def split: option.splits pattern_state.splits if_splits)
  ultimately show ?thesis
    using assms(1) recv_out_of_turn [of w s e W flags] by simp
next
  case (Inr u)
  then have t: "ensure_can_recv_for_pattern (w_sockets w s) = Inr ()"
    using assms(1) by simp
  have p: "pollin \<longleftrightarrow> can_recv (sk_type k) \<and> queues w (sk_inbox k) \<noteq> []"
    using events_pollin [of s w] assms by simp
  have n: "recv W s flags w = (Inl NotSupported, w)" if "\<not> can_recv (sk_type k)"
    using that assms(1) by (simp add: recv_def)
  show ?thesis
    using Inr p n recv_waiting [OF _ t, of "hd (queues w (sk_inbox k))" "tl (queues w (sk_inbox k))" W flags]
      recv_empty [OF _ t, of W flags] assms(1) by auto
qed

text \<open>A REP socket with a request waiting: the flag is set and it is received; while the reply is due the flag stays set.\<close>

definition asked_rep :: "pattern_state \<Rightarrow> unit world" where
  "asked_rep p = push_back 0 (message_from_vec [9]) (update_socket 0 (\<lambda>k. k\<lparr>sk_type := Rep, sk_pattern_state := Some p\<rparr>) (world_new ()))"

lemma asked_rep_socket:
  "sk_type (w_sockets (asked_rep p) 0) = Rep" "sk_pattern_state (w_sockets (asked_rep p) 0) = Some p"
  "sk_inbox (w_sockets (asked_rep p) 0) = 0" "queues (asked_rep p) 0 = [message_from_vec [9]]"
  by (simp_all add: asked_rep_def world_new_def context_shared.defs world.defs context_new_def socket_record_def)

theorem pollin_iff_receivable_witness:
  "fst (events 0 (asked_rep ReadyToRecv)) AND ZMQ_POLLIN \<noteq> 0
    \<and> fst (recv no_wires 0 0 (asked_rep ReadyToRecv)) = Inr (message_from_vec [9])
    \<and> fst (events 0 (asked_rep ReadyToSend)) AND ZMQ_POLLIN \<noteq> 0
    \<and> recv no_wires 0 0 (asked_rep ReadyToSend) = (Inl InvalidState, asked_rep ReadyToSend)"
proof -
  have e: "fst (events 0 (asked_rep p)) AND ZMQ_POLLIN \<noteq> 0" for p
    unfolding events_pollin by (simp add: asked_rep_socket can_recv_def)
  have "ensure_can_recv_for_pattern (w_sockets (asked_rep ReadyToRecv) 0) = Inr ()"
    "ensure_can_recv_for_pattern (w_sockets (asked_rep ReadyToSend) 0) = Inl InvalidState"
    by (simp_all add: ensure_can_recv_for_pattern_def asked_rep_socket)
  then show ?thesis
    using e pollin_iff_receivable [OF refl refl, of "asked_rep ReadyToRecv" 0 no_wires 0]
      pollin_iff_receivable [OF refl refl, of "asked_rep ReadyToSend" 0 no_wires 0]
    by (simp add: asked_rep_socket)
qed


section \<open>Asking takes a turn\<close>

text \<open>A bound PUSH socket that is not connected anywhere, with two workers.\<close>

definition push_with_two :: "ref \<Rightarrow> ref \<Rightarrow> inproc_peer \<Rightarrow> inproc_peer \<Rightarrow> 'w world \<Rightarrow> bool" where
  "push_with_two s e p0 p1 w \<longleftrightarrow>
     sk_type (w_sockets w s) = Push \<and> sk_inproc_fast_send_enabled (w_sockets w s)
     \<and> ip_connected_endpoint (sk_inproc (w_sockets w s)) = None \<and> ip_direct_outbox (sk_inproc (w_sockets w s)) = None
     \<and> ip_bound_endpoint (sk_inproc (w_sockets w s)) = Some e
     \<and> ep_peers (endpoints w e) = [p0, p1] \<and> even (unat (ep_next_peer (endpoints w e)))"

definition poll_then_send :: "'w wires \<Rightarrow> ref \<Rightarrow> message \<times> i32 \<Rightarrow> 'w world \<Rightarrow> 'w world" where
  "poll_then_send W s x w = snd (send W s (fst x) (snd x) (snd (events s w)))"

lemma parity_wraps: "even (unat (n :: u64)) \<Longrightarrow> odd (unat (n + 1)) \<and> even (unat (n + 2))"
  by (simp add: unat_word_ariths(1) dvd_mod_iff)

lemma poll_then_send_step:
  assumes "push_with_two s e p0 p1 w"
  shows "push_with_two s e p0 p1 (poll_then_send W s (m, flags) w)
    \<and> queues (poll_then_send W s (m, flags) w) = (queues w)(peer_inbox p1 := queues w (peer_inbox p1) @
        [set_more ((flags AND ZMQ_SNDMORE) \<noteq> 0) m])"
proof -
  let ?n = "ep_next_peer (endpoints w e)"
  let ?w1 = "update_endpoint e (\<lambda>ep. ep\<lparr>ep_next_peer := ?n + 1\<rparr>) w"
  let ?w2 = "update_endpoint e (\<lambda>ep. ep\<lparr>ep_next_peer := ?n + 1 + 1\<rparr>) ?w1"
  have odd: "odd (unat (?n + 1))" "even (unat (?n + 1 + 1))"
    using assms parity_wraps [of ?n] by (simp_all add: push_with_two_def add.assoc)
  have p: "[p0, p1] ! (unat (?n + 1) mod Suc (Suc 0)) = p1"
    using odd(1) [unfolded odd_iff_mod_2_eq_one] unfolding numeral_2_eq_2 by simp
  have e: "snd (events s w) = ?w1"
    using assms by (auto simp: events_def can_send_def resolve_outboxes_def connected_bound_def push_with_two_def
        next_peer_def Let_def)
  have w1: "w_sockets ?w1 = w_sockets w" "w_sockets ?w2 = w_sockets w"
    by (simp_all add: update_endpoint_def)
  have o: "outgoing_message s m flags ?w1 = set_more ((flags AND ZMQ_SNDMORE) \<noteq> 0) m"
    using assms w1 by (simp add: outgoing_message_def apply_outgoing_routing_id_def apply_reply_routing_id_def
        connected_bound_def push_with_two_def)
  have "send W s m flags ?w1 = (Inr (message_len m), push_back (peer_inbox p1) (set_more ((flags AND ZMQ_SNDMORE) \<noteq> 0) m) ?w2)"
    using assms w1 o p
    by (simp add: send_def Let_def can_send_def ensure_can_send_for_pattern_def push_with_two_def
        try_process_xsub_subscription_send_def xsub_endpoint_def try_send_inproc_fast_def fast_outbox_def
        next_peer_def after_pattern_send_def)
  then show ?thesis
    using assms w1 odd by (auto simp: poll_then_send_def e push_with_two_def)
qed


text \<open>
  Polling disturbs the round robin. \<open>events\<close> resolves a destination to learn whether there is one,
  which advances the turn of a bound PUSH socket. With two workers, when it is the first one's turn, a
  program that polls before every send, as a poll loop does, sends everything to the second worker:
  the first never gets a message.
\<close>

theorem polling_starves_a_worker:
  assumes "push_with_two s e p0 p1 w"
  shows "queues (fold (poll_then_send W s) xs w) = (queues w)(peer_inbox p1 := queues w (peer_inbox p1) @
      map (\<lambda>(m, flags). set_more ((flags AND ZMQ_SNDMORE) \<noteq> 0) m) xs)"
  using assms
proof (induction xs arbitrary: w)
  case (Cons x xs)
  then show ?case
    using poll_then_send_step [of s e p0 p1 w W "fst x" "snd x"] by (auto simp: case_prod_beta)
qed simp

definition two_workers :: "unit world" where
  "two_workers =
     update_endpoint 5 (\<lambda>ep. ep\<lparr>ep_peers := [peer_example 1 Pull, peer_example 2 Pull], ep_next_peer := 0\<rparr>)
       (update_inproc 0 (\<lambda>ip. ip\<lparr>ip_bound_endpoint := Some 5\<rparr>)
         (update_socket 0 (\<lambda>k. k\<lparr>sk_type := Push\<rparr>) (world_new ())))"

theorem polling_starves_a_worker_witness:
  "length (queues (fold (poll_then_send no_wires 0) (replicate 3 (message_new, 0)) two_workers) (peer_inbox (peer_example 2 Pull))) = 3
   \<and> queues (fold (poll_then_send no_wires 0) (replicate 3 (message_new, 0)) two_workers) (peer_inbox (peer_example 1 Pull)) = []"
proof -
  have "push_with_two 0 5 (peer_example 1 Pull) (peer_example 2 Pull) two_workers" "queues two_workers = (\<lambda>_. [])"
    by (simp_all add: push_with_two_def two_workers_def update_inproc_def update_endpoint_def update_socket_def
        world_new_def context_shared.defs world.defs context_new_def socket_record_def inproc_state_default_def)
  from polling_starves_a_worker [OF this(1), of no_wires "replicate 3 (message_new, 0)"] this(2) show ?thesis
    by (simp add: peer_example_def)
qed

end
