(* ===== verification/Transport.thy ===== *)
theory Transport
  imports Errors Rust_Std
begin

text \<open>
  \<open>crates/libzmq-core/src/transport.rs\<close>: the endpoint addresses an application passes to bind and
  connect, and the ZMTP wire units: the 64-byte greeting, the frame and the metadata
  properties. Hosts, paths and mechanism names are UTF-8 byte strings, a port is a number up
  to 65535.
\<close>

section \<open>Endpoints\<close>

record tcp_endpoint =
  tcp_host :: bytes
  tcp_port :: nat

record udp_endpoint =
  udp_host :: bytes
  udp_port :: nat

record ws_endpoint =
  ws_host :: bytes
  ws_port :: nat
  ws_path :: bytes

record ipc_endpoint =
  ipc_path :: bytes

record norm_endpoint =
  norm_interface :: "bytes option"
  norm_address :: bytes
  norm_port :: nat

datatype endpoint =
  Inproc bytes
| Tcp tcp_endpoint
| Udp udp_endpoint
| Ws ws_endpoint
| Wss ws_endpoint
| Ipc ipc_endpoint
| Norm norm_endpoint

text \<open>
  An address literal goes through \<open>SocketAddr\<close>: the host is what remains without the printed
  port (IPv4) or the text inside the brackets (IPv6). Anything else splits at its last colon.
\<close>

definition trim_start_matches :: "byte \<Rightarrow> bytes \<Rightarrow> bytes" where
  "trim_start_matches c s = dropWhile (\<lambda>b. b = c) s"

definition split_host_port :: "bytes \<Rightarrow> (bytes \<times> nat) result" where
  "split_host_port authority =
     (case socket_addr_from_str authority of
        Some addr \<Rightarrow>
          Inr (case addr of
                 V4 port \<Rightarrow>
                   (case strip_suffix (lit '':'' @ dec port) authority of Some h \<Rightarrow> h | None \<Rightarrow> [])
               | V6 _ \<Rightarrow>
                   (case rsplit_once 93 authority of
                      Some (h, _) \<Rightarrow> trim_start_matches 91 h | None \<Rightarrow> []),
               addr_port addr)
      | None \<Rightarrow>
          and_then (ok_or InvalidArgument (rsplit_once 58 authority)) (\<lambda>(host, port).
          and_then (ok_or InvalidArgument (parse_uint 65535 port)) (\<lambda>port. Inr (host, port))))"

definition format_host_port :: "bytes \<Rightarrow> nat \<Rightarrow> bytes" where
  "format_host_port host port =
     (if 58 \<in> set host \<and> \<not> starts_with (lit ''['') host
      then lit ''['' @ host @ lit '']:'' @ dec port
      else host @ lit '':'' @ dec port)"

definition tcp_parse :: "bytes \<Rightarrow> tcp_endpoint result" where
  "tcp_parse ep =
     and_then (ok_or InvalidArgument (strip_prefix (lit ''tcp://'') ep)) (\<lambda>authority.
     and_then (split_host_port authority) (\<lambda>(host, port).
       if host = [] then Inl InvalidArgument
       else Inr \<lparr>tcp_host = host, tcp_port = port\<rparr>))"

definition tcp_bind_addr :: "tcp_endpoint \<Rightarrow> bytes" where
  "tcp_bind_addr e =
     format_host_port (if tcp_host e = lit ''*'' then lit ''0.0.0.0'' else tcp_host e) (tcp_port e)"

definition tcp_connect_addr :: "tcp_endpoint \<Rightarrow> bytes result" where
  "tcp_connect_addr e =
     (if tcp_host e = lit ''*'' then Inl InvalidArgument
      else Inr (format_host_port (tcp_host e) (tcp_port e)))"

definition udp_parse :: "bytes \<Rightarrow> udp_endpoint result" where
  "udp_parse ep =
     and_then (ok_or InvalidArgument (strip_prefix (lit ''udp://'') ep)) (\<lambda>authority.
     and_then (split_host_port authority) (\<lambda>(host, port).
       if host = [] then Inl InvalidArgument
       else Inr \<lparr>udp_host = host, udp_port = port\<rparr>))"

text \<open>\<open>is_multicast\<close>: the first octet of an IPv4 literal is 224 to 239.\<close>

definition multicast_v4 :: "udp_endpoint \<Rightarrow> nat list option" where
  "multicast_v4 e =
     (case ipv4_from_ip_str (udp_host e) of
        Some (a # r) \<Rightarrow> if 224 \<le> a \<and> a \<le> 239 then Some (a # r) else None
      | _ \<Rightarrow> None)"

definition udp_bind_addr :: "udp_endpoint \<Rightarrow> bytes" where
  "udp_bind_addr e =
     format_host_port
       (if udp_host e = lit ''*'' \<or> multicast_v4 e \<noteq> None then lit ''0.0.0.0'' else udp_host e)
       (udp_port e)"

definition udp_connect_addr :: "udp_endpoint \<Rightarrow> bytes result" where
  "udp_connect_addr e =
     (if udp_host e = lit ''*'' then Inl InvalidArgument
      else Inr (format_host_port (udp_host e) (udp_port e)))"

definition ws_parse_with_prefix :: "bytes \<Rightarrow> bytes \<Rightarrow> ws_endpoint result" where
  "ws_parse_with_prefix ep pre =
     and_then (ok_or InvalidArgument (strip_prefix pre ep)) (\<lambda>rest.
       let (authority, path) = (case split_once 47 rest of Some ap \<Rightarrow> ap | None \<Rightarrow> (rest, []))
       in and_then (split_host_port authority) (\<lambda>(host, port).
            if host = [] then Inl InvalidArgument
            else Inr \<lparr>ws_host = host, ws_port = port, ws_path = lit ''/'' @ path\<rparr>))"

definition ws_parse :: "bytes \<Rightarrow> ws_endpoint result" where
  "ws_parse ep = ws_parse_with_prefix ep (lit ''ws://'')"

definition ws_parse_wss :: "bytes \<Rightarrow> ws_endpoint result" where
  "ws_parse_wss ep = ws_parse_with_prefix ep (lit ''wss://'')"

definition ws_bind_addr :: "ws_endpoint \<Rightarrow> bytes" where
  "ws_bind_addr e =
     format_host_port (if ws_host e = lit ''*'' then lit ''0.0.0.0'' else ws_host e) (ws_port e)"

definition ws_connect_addr :: "ws_endpoint \<Rightarrow> bytes result" where
  "ws_connect_addr e =
     (if ws_host e = lit ''*'' then Inl InvalidArgument
      else Inr (format_host_port (ws_host e) (ws_port e)))"

definition ipc_parse :: "bytes \<Rightarrow> ipc_endpoint result" where
  "ipc_parse ep =
     and_then (ok_or InvalidArgument (strip_prefix (lit ''ipc://'') ep)) (\<lambda>path.
       if path = [] then Inl InvalidArgument else Inr \<lparr>ipc_path = path\<rparr>)"

definition norm_parse :: "bytes \<Rightarrow> norm_endpoint result" where
  "norm_parse ep =
     and_then (ok_or InvalidArgument (strip_prefix (lit ''norm://'') ep)) (\<lambda>authority.
     and_then
       (case split_once 59 authority of
          Some (ifc, rest) \<Rightarrow>
            if ifc \<noteq> [] \<and> rest \<noteq> [] then Inr (Some ifc, rest) else Inl InvalidArgument
        | None \<Rightarrow> Inr (None, authority)) (\<lambda>(ifc, authority).
     and_then (split_host_port authority) (\<lambda>(address, port).
       if address = [] \<or> address = lit ''*'' then Inl InvalidArgument
       else Inr \<lparr>norm_interface = ifc, norm_address = address, norm_port = port\<rparr>)))"

definition endpoint_parse :: "bytes \<Rightarrow> endpoint result" where
  "endpoint_parse ep =
     (case strip_prefix (lit ''inproc://'') ep of
        Some name \<Rightarrow> if name = [] then Inl InvalidArgument else Inr (Inproc name)
      | None \<Rightarrow>
          if starts_with (lit ''tcp://'') ep then map_ok Tcp (tcp_parse ep)
          else if starts_with (lit ''udp://'') ep then map_ok Udp (udp_parse ep)
          else if starts_with (lit ''ws://'') ep then map_ok Ws (ws_parse ep)
          else if starts_with (lit ''wss://'') ep then map_ok Wss (ws_parse_wss ep)
          else if starts_with (lit ''ipc://'') ep then map_ok Ipc (ipc_parse ep)
          else if starts_with (lit ''norm://'') ep then map_ok Norm (norm_parse ep)
          else Inl NotSupported)"


section \<open>The ZMTP greeting\<close>

definition ZMTP_GREETING_SIZE :: nat where
  "ZMTP_GREETING_SIZE = 64"

record zmtp_greeting =
  gr_major :: byte
  gr_minor :: byte
  gr_mechanism :: bytes
  gr_as_server :: bool

definition greeting_new :: "bytes \<Rightarrow> bool \<Rightarrow> zmtp_greeting" where
  "greeting_new mech srv = \<lparr>gr_major = 3, gr_minor = 1, gr_mechanism = mech, gr_as_server = srv\<rparr>"

definition null_client :: zmtp_greeting where
  "null_client = greeting_new (lit ''NULL'') False"

definition null_server :: zmtp_greeting where
  "null_server = greeting_new (lit ''NULL'') True"

text \<open>\<open>dst[a..a + src.len()].copy_from_slice(src)\<close>.\<close>

definition copy_at :: "nat \<Rightarrow> 'a list \<Rightarrow> 'a list \<Rightarrow> 'a list" where
  "copy_at a src dst = take a dst @ src @ drop (a + length src) dst"

definition greeting_encode :: "zmtp_greeting \<Rightarrow> bytes" where
  "greeting_encode g =
     (let b0 = (replicate ZMTP_GREETING_SIZE 0)[0 := 0xFF, 8 := 0x01, 9 := 0x7F,
                 10 := gr_major g, 11 := gr_minor g];
          len = min (length (gr_mechanism g)) 20;
          b1 = copy_at 12 (take len (gr_mechanism g)) b0
      in b1[32 := of_bool (gr_as_server g)])"

definition greeting_decode :: "bytes \<Rightarrow> zmtp_greeting result" where
  "greeting_decode bs =
     (if length bs \<noteq> ZMTP_GREETING_SIZE \<or> bs ! 0 \<noteq> 0xFF \<or> bs ! 9 \<noteq> 0x7F then Inl InvalidArgument
      else let mech = takeWhile (\<lambda>b. b \<noteq> 0) (slice 12 32 bs)
           in if \<not> utf8_valid mech then Inl InvalidArgument
              else Inr \<lparr>gr_major = bs ! 10, gr_minor = bs ! 11, gr_mechanism = mech,
                     gr_as_server = (bs ! 32 \<noteq> 0)\<rparr>)"


section \<open>ZMTP frames\<close>

definition ZMTP_FLAG_MORE :: byte where "ZMTP_FLAG_MORE = 0x01"
definition ZMTP_FLAG_LONG :: byte where "ZMTP_FLAG_LONG = 0x02"
definition ZMTP_FLAG_COMMAND :: byte where "ZMTP_FLAG_COMMAND = 0x04"

record zmtp_frame =
  fr_body :: bytes
  fr_more :: bool
  fr_command :: bool

definition frame_message :: "bytes \<Rightarrow> zmtp_frame" where
  "frame_message body = \<lparr>fr_body = body, fr_more = False, fr_command = False\<rparr>"

definition frame_command :: "bytes \<Rightarrow> zmtp_frame" where
  "frame_command body = \<lparr>fr_body = body, fr_more = False, fr_command = True\<rparr>"

definition with_more :: "bool \<Rightarrow> zmtp_frame \<Rightarrow> zmtp_frame" where
  "with_more b f = f\<lparr>fr_more := b\<rparr>"

definition encode_with_command_bit :: "bool \<Rightarrow> zmtp_frame \<Rightarrow> bytes" where
  "encode_with_command_bit include_command f =
     (let flags0 = (0 :: byte);
          flags1 = (if fr_more f then flags0 OR ZMTP_FLAG_MORE else flags0);
          flags2 = (if include_command \<and> fr_command f then flags1 OR ZMTP_FLAG_COMMAND else flags1);
          len = length (fr_body f)
      in (if len \<le> 255 then [flags2, word_of_nat len]
          else (flags2 OR ZMTP_FLAG_LONG) # to_be 8 len) @ fr_body f)"

text \<open>\<open>header_len + body_len\<close> is a \<open>usize\<close> sum of a length the peer chose; it wraps.\<close>

definition decode_with_command_bit :: "bytes \<Rightarrow> bool \<Rightarrow> zmtp_frame result" where
  "decode_with_command_bit bs include_command =
     (if length bs < 2 then Inl InvalidArgument
      else let flags = bs ! 0;
               long = (flags AND ZMTP_FLAG_LONG \<noteq> 0)
           in if long \<and> length bs < 9 then Inl InvalidArgument
              else let (header_len, body_len) =
                         (if long then (9, from_be (slice 1 9 bs)) else (2, unat (bs ! 1)))
                   in if length bs \<noteq> (header_len + body_len) mod 2 ^ 64 then Inl InvalidArgument
                      else Inr \<lparr>fr_body = drop header_len bs,
                             fr_more = (flags AND ZMTP_FLAG_MORE \<noteq> 0),
                             fr_command = (include_command \<and> flags AND ZMTP_FLAG_COMMAND \<noteq> 0)\<rparr>)"

definition encode_v1 :: "zmtp_frame \<Rightarrow> bytes" where
  "encode_v1 f = encode_with_command_bit False f"

definition decode_v1 :: "bytes \<Rightarrow> zmtp_frame result" where
  "decode_v1 bs = decode_with_command_bit bs False"

definition encode_v2 :: "zmtp_frame \<Rightarrow> bytes" where
  "encode_v2 f = encode_with_command_bit False f"

definition decode_v2 :: "bytes \<Rightarrow> zmtp_frame result" where
  "decode_v2 bs = decode_with_command_bit bs False"

definition encode_v3 :: "zmtp_frame \<Rightarrow> bytes" where
  "encode_v3 f = encode_with_command_bit True f"

definition decode_v3 :: "bytes \<Rightarrow> zmtp_frame result" where
  "decode_v3 bs = decode_with_command_bit bs True"


section \<open>ZMTP metadata\<close>

type_synonym zmtp_metadata = "(bytes \<times> bytes) list"

fun encode_properties :: "zmtp_metadata \<Rightarrow> bytes" where
  "encode_properties [] = []"
| "encode_properties ((name, value) # ps) =
     word_of_nat (min (length name) 255) # take (min (length name) 255) name
     @ to_be 4 (length value) @ value @ encode_properties ps"

definition encode_ready :: "zmtp_metadata \<Rightarrow> bytes" where
  "encode_ready ps = 5 # lit ''READY'' @ encode_properties ps"

function decode_properties_loop :: "bytes \<Rightarrow> nat \<Rightarrow> zmtp_metadata \<Rightarrow> zmtp_metadata result" where
  "decode_properties_loop body offset properties =
     (if offset < length body then
        let name_len = unat (body ! offset);
            offset1 = offset + 1
        in if length body < offset1 + name_len + 4 then Inl InvalidArgument
           else let name = slice offset1 (offset1 + name_len) body;
                    offset2 = offset1 + name_len;
                    value_len = from_be (slice offset2 (offset2 + 4) body);
                    offset3 = offset2 + 4
                in if \<not> utf8_valid name then Inl InvalidArgument
                   else if length body < offset3 + value_len then Inl InvalidArgument
                   else decode_properties_loop body (offset3 + value_len)
                          (properties @ [(name, slice offset3 (offset3 + value_len) body)])
      else Inr properties)"
  by pat_completeness auto
termination
  by (relation "measure (\<lambda>(body, offset, _). length body - offset)") auto

declare decode_properties_loop.simps [simp del]

definition decode_properties :: "bytes \<Rightarrow> zmtp_metadata result" where
  "decode_properties body = decode_properties_loop body 0 []"

definition decode_ready :: "bytes \<Rightarrow> zmtp_metadata result" where
  "decode_ready body =
     (if length body < 6 \<or> body ! 0 \<noteq> 5 \<or> slice 1 6 body \<noteq> lit ''READY'' then Inl InvalidArgument
      else decode_properties (drop 6 body))"

definition metadata_get :: "zmtp_metadata \<Rightarrow> bytes \<Rightarrow> bytes option" where
  "metadata_get ps name = map_option snd (List.find (\<lambda>(stored, _). stored = name) ps)"


section \<open>Frames: lemmas\<close>

lemmas zmtp_flags = ZMTP_FLAG_MORE_def ZMTP_FLAG_LONG_def ZMTP_FLAG_COMMAND_def

definition frame_flags :: "bool \<Rightarrow> zmtp_frame \<Rightarrow> byte" where
  "frame_flags c f = (of_bool (fr_more f) OR (if c \<and> fr_command f then 4 else 0))"

lemma encode_frame_short:
  "length (fr_body f) \<le> 255 \<Longrightarrow>
     encode_with_command_bit c f = frame_flags c f # word_of_nat (length (fr_body f)) # fr_body f"
  by (simp add: encode_with_command_bit_def frame_flags_def zmtp_flags Let_def)

lemma encode_frame_long:
  "255 < length (fr_body f) \<Longrightarrow>
     encode_with_command_bit c f = (frame_flags c f OR 2) # to_be 8 (length (fr_body f)) @ fr_body f"
  by (simp add: encode_with_command_bit_def frame_flags_def zmtp_flags Let_def)

lemma frame_flags_bits:
  "frame_flags c f AND 1 \<noteq> 0 \<longleftrightarrow> fr_more f" "frame_flags c f AND 2 = 0"
  "frame_flags c f AND 4 \<noteq> 0 \<longleftrightarrow> c \<and> fr_command f"
  "(frame_flags c f OR 2) AND 1 \<noteq> 0 \<longleftrightarrow> fr_more f" "(frame_flags c f OR 2) AND 2 \<noteq> 0"
  "(frame_flags c f OR 2) AND 4 \<noteq> 0 \<longleftrightarrow> c \<and> fr_command f"
  by (auto simp: frame_flags_def)

lemma slice_1_9: "length l = 8 \<Longrightarrow> slice (Suc 0) 9 (x # l @ r) = l"
  by (simp add: slice_def)

lemma decode_encode_frame:
  assumes "length (fr_body f) < 2 ^ 63"
  shows "decode_with_command_bit (encode_with_command_bit c f) c = Inr (f\<lparr>fr_command := c \<and> fr_command f\<rparr>)"
proof (cases "length (fr_body f) \<le> 255")
  case True
  then show ?thesis
    by (simp add: decode_with_command_bit_def encode_frame_short zmtp_flags frame_flags_bits Let_def)
next
  case False
  with assms show ?thesis
    by (simp add: decode_with_command_bit_def encode_frame_long zmtp_flags frame_flags_bits Let_def
        slice_1_9 from_be_to_be_id)
qed

text \<open>What acceptance says about the input: a header of two or nine bytes and exactly the body it
  announces.\<close>

lemma decode_frame_Inr:
  assumes "decode_with_command_bit bs c = Inr f"
  obtains (short) fl l where "bs = fl # l # fr_body f" "fl AND 2 = 0" "length (fr_body f) = unat l"
      "fr_more f = (fl AND 1 \<noteq> 0)" "fr_command f = (c \<and> fl AND 4 \<noteq> 0)"
  | (long) fl l where "bs = fl # l @ fr_body f" "fl AND 2 \<noteq> 0" "length l = 8"
      "length bs = (9 + from_be l) mod 2 ^ 64"
      "fr_more f = (fl AND 1 \<noteq> 0)" "fr_command f = (c \<and> fl AND 4 \<noteq> 0)"
proof -
  from assms have "2 \<le> length bs"
    by (auto simp: decode_with_command_bit_def split: if_splits)
  then obtain fl b r where bs: "bs = fl # b # r"
    by (auto simp: Suc_le_length_iff numeral_eq_Suc)
  show ?thesis
  proof (cases "fl AND 2 = 0")
    case True
    have "unat b + 2 < 2 ^ 64"
      using less_trans [OF unat_byte_less [of b], of "18446744073709551614"] by simp
    with True assms bs show ?thesis
      by (intro short [of fl b]) (auto simp: decode_with_command_bit_def zmtp_flags Let_def split: if_splits)
  next
    case False
    with assms bs have l: "9 \<le> length bs"
      by (auto simp: decode_with_command_bit_def zmtp_flags Let_def split: if_splits)
    have f: "f = \<lparr>fr_body = drop 9 bs, fr_more = (fl AND 1 \<noteq> 0), fr_command = (c \<and> fl AND 4 \<noteq> 0)\<rparr>"
      and len: "length bs = (9 + from_be (slice 1 9 bs)) mod 2 ^ 64"
      using assms bs False by (auto simp: decode_with_command_bit_def zmtp_flags Let_def split: if_splits)
    have "bs = fl # slice 1 9 bs @ drop 9 bs"
      using drop_slice [of 1 9 bs] bs by simp
    then show ?thesis
      using False l len by (intro long [of fl "slice 1 9 bs"]) (simp_all add: f length_slice)
  qed
qed

lemma decode_frame_prefix_free:
  assumes d: "decode_with_command_bit bs c = Inr f" and d': "decode_with_command_bit bs' c' = Inr f'"
    and p: "prefix bs bs'"
  shows "bs = bs'"
proof -
  from p obtain r where r: "bs' = bs @ r"
    by (auto simp: prefix_def)
  from d show ?thesis
  proof (cases rule: decode_frame_Inr)
    case s: (short fl l)
    from d' show ?thesis
      using s r by (cases rule: decode_frame_Inr) auto
  next
    case l: (long fl l)
    from d' show ?thesis
    proof (cases rule: decode_frame_Inr)
      case (short fl' l')
      with l r show ?thesis by simp
    next
      case (long fl' l')
      with l r have "l @ fr_body f @ r = l' @ fr_body f'"
        by simp
      with l(3) long(3) have "l = l'"
        by (simp add: append_eq_append_conv_if)
      with l(4) long(4) r show ?thesis
        by simp
    qed
  qed
qed


section \<open>Greeting: lemmas\<close>

lemma greeting_encode_eq:
  fixes g defines "n \<equiv> min (length (gr_mechanism g)) 20"
  shows "greeting_encode g =
     [0xFF, 0, 0, 0, 0, 0, 0, 0, 1, 0x7F, gr_major g, gr_minor g] @ take n (gr_mechanism g)
     @ replicate (20 - n) 0 @ of_bool (gr_as_server g) # replicate 31 0"
proof -
  let ?m = "take n (gr_mechanism g)"
  have h: "take 12 ((replicate 64 0)[0 := 0xFF, 8 := 1, 9 := 0x7F, 10 := gr_major g, 11 := gr_minor g])
      = [0xFF, 0, 0, 0, 0, 0, 0, 0, 1, 0x7F, gr_major g, gr_minor g :: byte]"
    by (simp add: numeral_eq_Suc)
  have t: "drop (12 + n) ((replicate 64 0)[0 := 0xFF, 8 := 1, 9 := 0x7F, 10 := gr_major g, 11 := gr_minor g])
      = replicate (20 - n) 0 @ replicate 32 (0 :: byte)"
  proof -
    have "64 - (12 + n) = (20 - n) + 32"
      by (simp add: n_def)
    then have "replicate (64 - (12 + n)) (0 :: byte) = replicate (20 - n) 0 @ replicate 32 0"
      by (simp only: replicate_add)
    moreover have "drop (12 + n) ((replicate 64 0)[0 := 0xFF, 8 := 1, 9 := 0x7F, 10 := gr_major g, 11 := gr_minor g])
      = drop (12 + n) (replicate 64 (0 :: byte))"
      by (simp only: drop_update_cancel)
    ultimately show ?thesis
      by (simp only: drop_replicate)
  qed
  have l: "length ?m = n"
    by (simp add: n_def)
  have "greeting_encode g =
      (take 12 ((replicate 64 0)[0 := 0xFF, 8 := 1, 9 := 0x7F, 10 := gr_major g, 11 := gr_minor g])
       @ ?m @ drop (12 + n) ((replicate 64 0)[0 := 0xFF, 8 := 1, 9 := 0x7F, 10 := gr_major g, 11 := gr_minor g]))
      [32 := of_bool (gr_as_server g)]"
    using l by (simp add: greeting_encode_def Let_def copy_at_def ZMTP_GREETING_SIZE_def n_def)
  also have "\<dots> = [0xFF, 0, 0, 0, 0, 0, 0, 0, 1, 0x7F, gr_major g, gr_minor g] @ ?m
     @ replicate (20 - n) 0 @ (replicate 32 0)[0 := of_bool (gr_as_server g)]"
    unfolding h t using l by (simp add: list_update_append n_def)
  finally show ?thesis
    by (simp add: numeral_eq_Suc)
qed

lemma takeWhile_nul_padding:
  "takeWhile (\<lambda>b. b \<noteq> 0) (m @ replicate k 0) = takeWhile (\<lambda>b. b \<noteq> (0 :: byte)) m"
  by (induction m) (cases k; simp)+

lemma greeting_decode_encode:
  "greeting_decode (greeting_encode g) =
     (let m = takeWhile (\<lambda>b. b \<noteq> 0) (take 20 (gr_mechanism g))
      in if utf8_valid m then Inr (g\<lparr>gr_mechanism := m\<rparr>) else Inl InvalidArgument)"
proof -
  let ?n = "min (length (gr_mechanism g)) 20"
  let ?h = "[0xFF, 0, 0, 0, 0, 0, 0, 0, 1, 0x7F, gr_major g, gr_minor g] :: bytes"
  let ?m = "take ?n (gr_mechanism g) @ replicate (20 - ?n) 0"
  let ?t = "of_bool (gr_as_server g) # replicate 31 (0 :: byte)"
  have e: "greeting_encode g = ?h @ ?m @ ?t"
    by (simp add: greeting_encode_eq)
  have lm: "length ?m = 20"
    by simp
  have "slice 12 32 (?h @ ?m @ ?t) = ?m"
    using lm by (simp add: slice_def)
  moreover have "(?h @ ?m @ ?t) ! 32 = of_bool (gr_as_server g)"
    by (simp add: nth_append)
  moreover have "take ?n (gr_mechanism g) = take 20 (gr_mechanism g)"
    by (simp add: min_def)
  ultimately show ?thesis
    unfolding e by (simp add: greeting_decode_def ZMTP_GREETING_SIZE_def Let_def takeWhile_nul_padding)
qed


section \<open>Metadata: lemmas\<close>

text \<open>What the encoding can represent: UTF-8 names of at most 255 bytes, values under 4 GiB.\<close>

definition zmtp_metadata_wf :: "zmtp_metadata \<Rightarrow> bool" where
  "zmtp_metadata_wf ps \<longleftrightarrow>
     (\<forall>(name, value) \<in> set ps. utf8_valid name \<and> length name \<le> 255 \<and> length value < 256 ^ 4)"

lemma zmtp_metadata_wf_simps [simp]:
  "zmtp_metadata_wf []"
  "zmtp_metadata_wf ((n, v) # ps) \<longleftrightarrow> utf8_valid n \<and> length n \<le> 255 \<and> length v < 256 ^ 4 \<and> zmtp_metadata_wf ps"
  by (auto simp: zmtp_metadata_wf_def)

text \<open>The parser's loop reads the suffix at its offset.\<close>

fun parse_props :: "bytes \<Rightarrow> zmtp_metadata option" where
  "parse_props [] = Some []"
| "parse_props (b # r) =
     (let n = unat b; name = take n r; r1 = drop n r; k = from_be (take 4 r1); r2 = drop 4 r1
      in if length r < n + 4 \<or> \<not> utf8_valid name \<or> length r2 < k then None
         else map_option (\<lambda>ps. (name, take k r2) # ps) (parse_props (drop k r2)))"

lemma decode_loop_parse:
  "decode_properties_loop body offset acc =
     (case parse_props (drop offset body) of None \<Rightarrow> Inl InvalidArgument | Some ps \<Rightarrow> Inr (acc @ ps))"
proof (induction body offset acc rule: decode_properties_loop.induct)
  case (1 body offset acc)
  show ?case
  proof (cases "offset < length body")
    case False
    then show ?thesis
      by (subst decode_properties_loop.simps) simp
  next
    case True
    then have d: "drop offset body = body ! offset # drop (Suc offset) body"
      by (simp add: Cons_nth_drop_Suc)
    show ?thesis
      unfolding d
      apply (subst decode_properties_loop.simps)
      using True 1 by (auto simp: Let_def slice_def add_ac split: option.splits)
  qed
qed

lemma parse_props_encode: "zmtp_metadata_wf ps \<Longrightarrow> parse_props (encode_properties ps) = Some ps"
proof (induction ps)
  case Nil
  then show ?case by simp
next
  case (Cons p ps)
  obtain n v where p: "p = (n, v)"
    by (cases p)
  with Cons.prems have "unat (word_of_nat (length n) :: byte) = length n" "length n \<le> 255"
    by simp_all
  with Cons p show ?case
    by (simp add: Let_def from_be_to_be_id min_def)
qed

lemma parse_props_Some: "parse_props bs = Some ps \<Longrightarrow> bs = encode_properties ps \<and> zmtp_metadata_wf ps"
proof (induction bs arbitrary: ps rule: parse_props.induct)
  case 1
  then show ?case by simp
next
  case (2 b r)
  let ?n = "unat b"
  let ?r2 = "drop 4 (drop ?n r)"
  let ?l = "take 4 (drop ?n r)"
  from "2.prems" have len: "?n + 4 \<le> length r" and utf8: "utf8_valid (take ?n r)"
    and k: "from_be ?l \<le> length ?r2"
    by (auto simp: Let_def split: if_splits)
  from "2.prems" obtain qs where qs: "parse_props (drop (from_be ?l) ?r2) = Some qs"
    and ps: "ps = (take ?n r, take (from_be ?l) ?r2) # qs"
    by (auto simp: Let_def split: if_splits)
  from "2.IH" [OF refl refl refl refl refl _ qs] len utf8 k
  have IH: "drop (from_be ?l) ?r2 = encode_properties qs" "zmtp_metadata_wf qs"
    by auto
  have l4: "length ?l = 4"
    using len by simp
  have n255: "?n \<le> 255"
    using unat_byte_less [of b] by linarith
  have "r = take ?n r @ ?l @ take (from_be ?l) ?r2 @ drop (from_be ?l) ?r2"
    by (metis append_take_drop_id)
  moreover have "to_be 4 (from_be ?l) = ?l"
    using l4 by (rule to_be_from_be_id)
  moreover have "length (take (from_be ?l) ?r2) = from_be ?l"
    using k by simp
  moreover have "from_be ?l < 256 ^ 4"
    using from_be_less [of ?l] l4 by simp
  ultimately show ?case
    using ps IH utf8 n255 len by (simp add: min_def)
qed

lemma decode_properties_iff:
  "decode_properties body = Inr ps \<longleftrightarrow> body = encode_properties ps \<and> zmtp_metadata_wf ps"
proof -
  have "decode_properties body = Inr ps \<longleftrightarrow> parse_props body = Some ps"
    by (auto simp: decode_properties_def decode_loop_parse split: option.splits)
  then show ?thesis
    using parse_props_encode parse_props_Some by blast
qed


section \<open>Endpoints: lemmas\<close>

lemma read_number_suffix: "read_number radix m z bound s = Some (v, r) \<Longrightarrow> suffix r s"
  by (auto simp: read_number_def Let_def suffix_drop split: if_splits)

lemma read_octet_suffix: "read_octet i s = Some (v, r) \<Longrightarrow> suffix r s"
  by (auto simp: read_octet_def read_separator_def read_given_char_def bind_eq_Some_conv
      split: if_splits list.splits dest!: read_number_suffix intro: suffix_ConsI)

lemma read_ipv4_suffix: "read_ipv4_addr s = Some (v, r) \<Longrightarrow> suffix r s"
  by (auto simp: read_ipv4_addr_def bind_eq_Some_conv dest!: read_octet_suffix)

lemma to_digit_10: "to_digit 10 b = (if is_digit b then Some (digit_value b) else None)"
  by (auto simp: to_digit_def Let_def is_digit_unat digit_value_def)

lemma read_number_10_all:
  assumes "read_number 10 m z bound s = Some (v, [])"
  shows "list_all is_digit s \<and> v = dec_value s"
proof -
  let ?ds = "takeWhile (\<lambda>b. to_digit 10 b \<noteq> None) s"
  from assms have "length s \<le> length ?ds" and v: "v = foldl (\<lambda>a d. a * 10 + the (to_digit 10 d)) 0 ?ds"
    by (auto simp: read_number_def Let_def split: if_splits)
  then have "?ds = s"
    by (metis append_Nil2 append_take_drop_id drop_all takeWhile_dropWhile_id takeWhile_eq_take)
  then have dig: "\<forall>b\<in>set s. is_digit b"
    by (metis (mono_tags, lifting) set_takeWhileD to_digit_10)
  have "foldl (\<lambda>a d. a * 10 + the (to_digit 10 d)) x s = foldl (\<lambda>a d. a * 10 + digit_value d) x s" for x
    using dig by (induction s arbitrary: x) (auto simp: to_digit_10)
  moreover have "v = foldl (\<lambda>a d. a * 10 + the (to_digit 10 d)) 0 s"
    using v unfolding \<open>?ds = s\<close> .
  ultimately show ?thesis
    using dig by (simp add: list_all_iff dec_value_def)
qed

text \<open>A host without a colon and without an opening bracket: the literal parser, if it accepts the
  authority at all, reads an IPv4 address and the port after the only colon.\<close>

lemma socket_addr_host_port:
  assumes a: "socket_addr_from_str (host @ 58 # ds) = Some a"
    and h: "58 \<notin> set host" "host \<noteq> []" "hd host \<noteq> 91" and ds: "58 \<notin> set ds"
  shows "a = V4 (dec_value ds)"
proof -
  from a have "read_socket_addr (host @ 58 # ds) = Some (a, [])"
    by (simp add: socket_addr_from_str_Some)
  then show ?thesis
  proof (cases rule: read_socket_addr_cases)
    case (v4 x r1 q)
    from v4(2) obtain r where r1: "r1 = 58 # r" and q: "read_number 10 None True 65535 r = Some (q, [])"
      by (auto simp: read_port_def read_given_char_def bind_eq_Some_conv split: list.splits if_splits)
    from read_ipv4_suffix [OF v4(1)] r1 obtain w where w: "host @ 58 # ds = w @ 58 # r"
      by (auto simp: suffix_def)
    from read_number_10_all [OF q] have "58 \<notin> set r" "q = dec_value r"
      by (auto simp: list_all_iff is_digit_def)
    with w h(1) ds v4(3) show ?thesis
      by (metis append_Cons_eq_iff)
  next
    case (v6 r1 r2 q)
    with h show ?thesis
      by (cases host) (auto simp: read_given_char_def split: if_splits)
  qed
qed

lemma split_host_port_print:
  assumes "58 \<notin> set host" "host \<noteq> []" "hd host \<noteq> 91" "port \<le> 65535"
  shows "split_host_port (host @ lit '':'' @ dec port) = Inr (host, port)"
proof -
  have c: "lit '':'' = [58]"
    by (simp add: lit_def)
  have d: "58 \<notin> set (dec port)"
    by (rule dec_not_mem) (simp add: is_digit_def)
  show ?thesis
  proof (cases "socket_addr_from_str (host @ 58 # dec port)")
    case None
    moreover have "rsplit_once 58 (host @ 58 # dec port) = Some (host, dec port)"
      using d by (simp add: rsplit_once_Some)
    ultimately show ?thesis
      using assms(4) by (simp add: split_host_port_def c parse_uint_dec)
  next
    case (Some a)
    with socket_addr_host_port [OF Some assms(1-3) d] have "a = V4 port"
      by simp
    moreover have "strip_suffix (58 # dec port) (host @ 58 # dec port) = Some host"
      by (rule strip_suffix_append)
    ultimately show ?thesis
      using Some by (simp add: split_host_port_def c addr_port_def)
  qed
qed

lemma split_host_port_bound: "split_host_port s = Inr (h, p) \<Longrightarrow> p \<le> 65535"
  by (auto simp: split_host_port_def and_then_Inr ok_or_Inr
      split: option.splits dest: socket_addr_port_bound parse_uint_bound)

lemma map_ok_elim: "map_ok f r = Inr y \<Longrightarrow> (\<And>x. r = Inr x \<Longrightarrow> y = f x \<Longrightarrow> P) \<Longrightarrow> P"
  by (auto simp: map_ok_Inr)

text \<open>What a parsed endpoint looks like.\<close>

fun endpoint_wf :: "endpoint \<Rightarrow> bool" where
  "endpoint_wf (Inproc name) = (name \<noteq> [])"
| "endpoint_wf (Tcp e) = (tcp_host e \<noteq> [] \<and> tcp_port e \<le> 65535)"
| "endpoint_wf (Udp e) = (udp_host e \<noteq> [] \<and> udp_port e \<le> 65535)"
| "endpoint_wf (Ws e) = (ws_host e \<noteq> [] \<and> ws_port e \<le> 65535 \<and> hd (ws_path e) = 47 \<and> ws_path e \<noteq> [])"
| "endpoint_wf (Wss e) = (ws_host e \<noteq> [] \<and> ws_port e \<le> 65535 \<and> hd (ws_path e) = 47 \<and> ws_path e \<noteq> [])"
| "endpoint_wf (Ipc e) = (ipc_path e \<noteq> [])"
| "endpoint_wf (Norm e) =
     (norm_address e \<noteq> [] \<and> norm_address e \<noteq> lit ''*'' \<and> norm_port e \<le> 65535
      \<and> norm_interface e \<noteq> Some [])"

fun scheme :: "endpoint \<Rightarrow> bytes" where
  "scheme (Inproc _) = lit ''inproc://''"
| "scheme (Tcp _) = lit ''tcp://''"
| "scheme (Udp _) = lit ''udp://''"
| "scheme (Ws _) = lit ''ws://''"
| "scheme (Wss _) = lit ''wss://''"
| "scheme (Ipc _) = lit ''ipc://''"
| "scheme (Norm _) = lit ''norm://''"

lemma tcp_parse_wf: "tcp_parse s = Inr e \<Longrightarrow> endpoint_wf (Tcp e)"
  by (auto simp: tcp_parse_def and_then_Inr split: prod.splits if_splits dest: split_host_port_bound)

lemma udp_parse_wf: "udp_parse s = Inr e \<Longrightarrow> endpoint_wf (Udp e)"
  by (auto simp: udp_parse_def and_then_Inr split: prod.splits if_splits dest: split_host_port_bound)

lemma ws_parse_wf: "ws_parse_with_prefix s pre = Inr e \<Longrightarrow> endpoint_wf (Ws e)"
  by (auto simp: ws_parse_with_prefix_def and_then_Inr Let_def lit_def case_prod_beta
      split: if_splits dest: split_host_port_bound)

lemma ipc_parse_wf: "ipc_parse s = Inr e \<Longrightarrow> endpoint_wf (Ipc e)"
  by (auto simp: ipc_parse_def and_then_Inr split: if_splits)

lemma norm_parse_wf: "norm_parse s = Inr e \<Longrightarrow> endpoint_wf (Norm e)"
  by (auto simp: norm_parse_def and_then_Inr split: prod.splits if_splits option.splits
      dest: split_host_port_bound)

lemmas parse_wf = tcp_parse_wf udp_parse_wf ipc_parse_wf norm_parse_wf
  ws_parse_wf [of _ "lit ''ws://''", folded ws_parse_def]
  ws_parse_wf [of _ "lit ''wss://''", folded ws_parse_wss_def]


text \<open>Within a known scheme the only error is \<open>InvalidArgument\<close>.\<close>

lemma and_then_Inl: "and_then r f = Inl e \<longleftrightarrow> r = Inl e \<or> (\<exists>x. r = Inr x \<and> f x = Inl e)"
  by (cases r) auto

lemma ok_or_Inl: "ok_or e x = Inl e' \<longleftrightarrow> x = None \<and> e' = e"
  by (cases x) auto

lemma split_host_port_err: "split_host_port s = Inl e \<Longrightarrow> e = InvalidArgument"
  by (auto simp: split_host_port_def and_then_Inl ok_or_Inl split: option.splits)

lemma tcp_parse_err: "tcp_parse s = Inl e \<Longrightarrow> e = InvalidArgument"
  by (auto simp: tcp_parse_def and_then_Inl ok_or_Inl split: if_splits dest: split_host_port_err)

lemma udp_parse_err: "udp_parse s = Inl e \<Longrightarrow> e = InvalidArgument"
  by (auto simp: udp_parse_def and_then_Inl ok_or_Inl split: if_splits dest: split_host_port_err)

lemma ws_parse_err: "ws_parse_with_prefix s pre = Inl e \<Longrightarrow> e = InvalidArgument"
  by (auto simp: ws_parse_with_prefix_def and_then_Inl ok_or_Inl Let_def case_prod_beta
      split: if_splits dest: split_host_port_err)

lemma ipc_parse_err: "ipc_parse s = Inl e \<Longrightarrow> e = InvalidArgument"
  by (auto simp: ipc_parse_def and_then_Inl ok_or_Inl split: if_splits)

lemma norm_parse_err: "norm_parse s = Inl e \<Longrightarrow> e = InvalidArgument"
  by (auto simp: norm_parse_def and_then_Inl ok_or_Inl split: if_splits option.splits
      dest: split_host_port_err)

lemmas parse_err = tcp_parse_err udp_parse_err ipc_parse_err norm_parse_err
  ws_parse_err [of _ "lit ''ws://''", folded ws_parse_def]
  ws_parse_err [of _ "lit ''wss://''", folded ws_parse_wss_def]

lemma map_ok_Inl: "map_ok f r = Inl e \<longleftrightarrow> r = Inl e"
  by (cases r) auto

lemma endpoint_parse_Inr:
  "endpoint_parse s = Inr e \<Longrightarrow> starts_with (scheme e) s \<and> endpoint_wf e"
  by (auto simp: endpoint_parse_def strip_prefix_Some map_ok_Inr dest: parse_wf
      split: option.splits if_splits)

lemma endpoint_parse_NotSupported:
  "endpoint_parse s = Inl NotSupported \<longleftrightarrow>
     (\<forall>p \<in> {lit ''inproc://'', lit ''tcp://'', lit ''udp://'', lit ''ws://'', lit ''wss://'',
              lit ''ipc://'', lit ''norm://''}. \<not> starts_with p s)"
  by (auto simp: endpoint_parse_def map_ok_Inl strip_prefix_def dest: parse_err split: option.splits)

lemma endpoint_parse_Inl: "endpoint_parse s = Inl err \<Longrightarrow> err = InvalidArgument \<or> err = NotSupported"
  by (auto simp: endpoint_parse_def map_ok_Inl dest: parse_err split: option.splits if_splits)

lemma range_scheme:
  "range scheme = {lit ''inproc://'', lit ''tcp://'', lit ''udp://'', lit ''ws://'', lit ''wss://'',
     lit ''ipc://'', lit ''norm://''}"
proof
  show "range scheme \<subseteq> {lit ''inproc://'', lit ''tcp://'', lit ''udp://'', lit ''ws://'', lit ''wss://'',
     lit ''ipc://'', lit ''norm://''}"
  proof
    fix x assume "x \<in> range scheme"
    then obtain e where "x = scheme e" by blast
    then show "x \<in> {lit ''inproc://'', lit ''tcp://'', lit ''udp://'', lit ''ws://'', lit ''wss://'',
     lit ''ipc://'', lit ''norm://''}"
      by (cases e) auto
  qed
  show "{lit ''inproc://'', lit ''tcp://'', lit ''udp://'', lit ''ws://'', lit ''wss://'',
     lit ''ipc://'', lit ''norm://''} \<subseteq> range scheme"
    by (auto simp: image_iff intro: scheme.simps [symmetric])
qed


section \<open>Properties\<close>

text \<open>C25. Framing round trip: a frame whose body fits in memory is read back exactly by the version 3
  decoder, and by the version 1 and 2 decoders with its command flag cleared, since those
  versions do not transmit it.\<close>

theorem zmtp_frame_round_trip:
  assumes "length (fr_body f) < 2 ^ 63"
  shows "decode_v3 (encode_v3 f) = Inr f
     \<and> decode_v2 (encode_v2 f) = Inr (f\<lparr>fr_command := False\<rparr>)
     \<and> decode_v1 (encode_v1 f) = Inr (f\<lparr>fr_command := False\<rparr>)"
  using decode_encode_frame [OF assms, of True] decode_encode_frame [OF assms, of False]
  by (simp add: decode_v3_def encode_v3_def decode_v2_def encode_v2_def decode_v1_def encode_v1_def)

theorem zmtp_frame_round_trip_witness:
  "decode_v3 (encode_v3 \<lparr>fr_body = replicate 300 7, fr_more = True, fr_command = True\<rparr>) =
       Inr \<lparr>fr_body = replicate 300 7, fr_more = True, fr_command = True\<rparr>
     \<and> decode_v2 (encode_v2 \<lparr>fr_body = replicate 300 7, fr_more = True, fr_command = True\<rparr>) =
       Inr \<lparr>fr_body = replicate 300 7, fr_more = True, fr_command = False\<rparr>
     \<and> decode_v1 (encode_v1 \<lparr>fr_body = replicate 300 7, fr_more = True, fr_command = True\<rparr>) =
       Inr \<lparr>fr_body = replicate 300 7, fr_more = True, fr_command = False\<rparr>"
  using zmtp_frame_round_trip [of "\<lparr>fr_body = replicate 300 7, fr_more = True, fr_command = True\<rparr>"]
  by simp

text \<open>C26. Frames are self-delimiting: of two byte strings the decoder accepts, neither is a proper prefix
  of the other, so a truncated frame and a frame followed by further bytes are both rejected.\<close>

theorem zmtp_frame_prefix_free:
  assumes "decode_v3 bs = Inr f" and "decode_v3 bs' = Inr f'" and "prefix bs bs'"
  shows "bs = bs' \<and> f = f'"
  using assms decode_frame_prefix_free [of bs True f bs' True f'] by (simp add: decode_v3_def)

theorem zmtp_frame_prefix_free_witness:
  "decode_v3 [4, 2, 1, 1] = Inr \<lparr>fr_body = [1, 1], fr_more = False, fr_command = True\<rparr>
     \<and> (\<forall>f. decode_v3 [4, 2, 1] \<noteq> Inr f) \<and> (\<forall>f. decode_v3 [4, 2, 1, 1, 7] \<noteq> Inr f)"
proof -
  have d: "decode_v3 [4, 2, 1, 1] = Inr \<lparr>fr_body = [1, 1], fr_more = False, fr_command = True\<rparr>"
    by (simp add: decode_v3_def decode_with_command_bit_def zmtp_flags)
  moreover have "decode_v3 [4, 2, 1] \<noteq> Inr f" "decode_v3 [4, 2, 1, 1, 7] \<noteq> Inr f" for f
    using zmtp_frame_prefix_free [OF _ d, of "[4, 2, 1]" f] zmtp_frame_prefix_free [OF d, of "[4, 2, 1, 1, 7]" f] by auto
  ultimately show ?thesis
    by blast
qed

text \<open>The greeting round trip, with the exact loss: the decoder returns the version, the role and the
  mechanism cut at 20 bytes and at its first NUL, or refuses the greeting when the cut
  mechanism is not UTF-8. A mechanism name that fits is preserved.\<close>

theorem zmtp_greeting_round_trip:
  "greeting_decode (greeting_encode g) =
     (let m = takeWhile (\<lambda>b. b \<noteq> 0) (take 20 (gr_mechanism g))
      in if utf8_valid m then Inr (g\<lparr>gr_mechanism := m\<rparr>) else Inl InvalidArgument)"
  by (rule greeting_decode_encode)

text \<open>C28. The READY command: the decoder accepts exactly the encodings of property lists whose names are
  UTF-8 and at most 255 bytes long and whose values are shorter than 4 GiB, and returns the
  list that was encoded.\<close>

theorem zmtp_ready_codec:
  "decode_ready body = Inr ps \<longleftrightarrow> body = encode_ready ps \<and> zmtp_metadata_wf ps"
proof -
  have l: "length (lit ''READY'') = 5"
    by simp
  have "length body \<ge> 6 \<and> body ! 0 = 5 \<and> slice 1 6 body = lit ''READY'' \<longleftrightarrow>
      (\<exists>r. body = 5 # lit ''READY'' @ r)" (is "?A \<longleftrightarrow> ?B")
  proof
    assume A: ?A
    then obtain t where "body = 5 # t"
      by (cases body) auto
    with A have "body = 5 # lit ''READY'' @ drop 6 body"
      using drop_slice [of 1 6 body] by simp
    then show ?B by blast
  next
    assume ?B
    then show ?A using l by (auto simp: slice_def)
  qed
  then have "decode_ready body = Inr ps \<longleftrightarrow>
      (\<exists>r. body = 5 # lit ''READY'' @ r \<and> decode_properties r = Inr ps)"
    using l by (auto simp: decode_ready_def not_less)
  then show ?thesis
    by (auto simp: decode_properties_iff encode_ready_def)
qed

text \<open>C29. Endpoint parsing: an accepted endpoint starts with the scheme of the transport it is dispatched
  to and is well formed (no empty host, name or path, a 16-bit port, no wildcard NORM address).
  A text that starts with none of the seven schemes is refused as not supported, any other
  refusal is an invalid argument.\<close>

theorem endpoint_parse_sound:
  "case endpoint_parse s of
     Inr e \<Rightarrow> starts_with (scheme e) s \<and> endpoint_wf e
   | Inl err \<Rightarrow> err = (if \<exists>e. starts_with (scheme e) s then InvalidArgument else NotSupported)"
proof (cases "endpoint_parse s")
  case (Inl err)
  have "(\<forall>e. \<not> starts_with (scheme e) s) \<longleftrightarrow> (\<forall>p \<in> range scheme. \<not> starts_with p s)"
    by blast
  then have "endpoint_parse s = Inl NotSupported \<longleftrightarrow> (\<forall>e. \<not> starts_with (scheme e) s)"
    unfolding range_scheme endpoint_parse_NotSupported by (rule sym)
  with Inl endpoint_parse_Inl [OF Inl] show ?thesis
    by auto
qed (simp add: endpoint_parse_Inr)

text \<open>Printing and parsing an address agree: for a host that is not bracketed and has no colon (a name
  or an IPv4 literal), the text \<open>connect_addr\<close> prints is parsed back to the same host and port.\<close>

lemma tcp_parse_print:
  assumes "tcp_connect_addr e = Inr addr"
    and "tcp_host e \<noteq> []" "58 \<notin> set (tcp_host e)" "hd (tcp_host e) \<noteq> 91" "tcp_port e \<le> 65535"
  shows "tcp_parse (lit ''tcp://'' @ addr) = Inr e"
  using assms split_host_port_print [of "tcp_host e" "tcp_port e"]
  by (auto simp: tcp_parse_def tcp_connect_addr_def format_host_port_def split: if_splits)

lemma tcp_example:
  "tcp_connect_addr \<lparr>tcp_host = lit ''127.0.0.1'', tcp_port = 5555\<rparr> = Inr (lit ''127.0.0.1:5555'')"
  "tcp_parse (lit ''tcp://127.0.0.1:5555'') = Inr \<lparr>tcp_host = lit ''127.0.0.1'', tcp_port = 5555\<rparr>"
proof -
  have "dec 5555 = lit ''5555''"
    by (simp add: dec.simps digit_def lit_def)
  then show a: "tcp_connect_addr \<lparr>tcp_host = lit ''127.0.0.1'', tcp_port = 5555\<rparr> = Inr (lit ''127.0.0.1:5555'')"
    by (simp add: tcp_connect_addr_def format_host_port_def lit_def)
  have "tcp_parse (lit ''tcp://'' @ lit ''127.0.0.1:5555'') = Inr \<lparr>tcp_host = lit ''127.0.0.1'', tcp_port = 5555\<rparr>"
    by (rule tcp_parse_print [OF a]) (simp_all add: lit_def)
  then show "tcp_parse (lit ''tcp://127.0.0.1:5555'') = Inr \<lparr>tcp_host = lit ''127.0.0.1'', tcp_port = 5555\<rparr>"
    by (simp add: lit_def)
qed

text \<open>A port written with a leading zero is accepted after a host name but not after an IPv4 literal:
  there the printed port is stripped from the text, does not match, and the host comes out
  empty.\<close>

theorem leading_zero_port:
  "tcp_parse (lit ''tcp://localhost:080'') = Inr \<lparr>tcp_host = lit ''localhost'', tcp_port = 80\<rparr>
   \<and> tcp_parse (lit ''tcp://1.2.3.4:080'') = Inl InvalidArgument"
proof -
  have "socket_addr_from_str (lit ''localhost:080'') = None"
    by (rule ccontr) (auto simp: lit_def is_digit_def dest!: socket_addr_start)
  moreover have "rsplit_once 58 (lit ''localhost:080'') = Some (lit ''localhost'', lit ''080'')"
    by (simp add: rsplit_once_def lit_def)
  moreover have "parse_uint 65535 (lit ''080'') = Some 80"
    by (simp add: parse_uint_def lit_def is_digit_def dec_value_def digit_value_def)
  ultimately have "split_host_port (lit ''localhost:080'') = Inr (lit ''localhost'', 80)"
    by (simp add: split_host_port_def)
  moreover have "lit ''localhost'' \<noteq> []"
    by (simp add: lit_def)
  moreover have "socket_addr_from_str (lit ''1.2.3.4:080'') = Some (V4 80)"
    by (simp add: socket_addr_from_str_def read_socket_addr_def read_ipv4_addr_def read_octet_def
        read_separator_def read_given_char_def read_number_def read_port_def to_digit_def lit_def Let_def)
  moreover have "dec 80 = lit ''80''"
    by (simp add: dec.simps digit_def lit_def)
  then have "strip_suffix (lit '':'' @ dec 80) (lit ''1.2.3.4:080'') = None"
    by (simp add: strip_suffix_def strip_prefix_def starts_with_def lit_def)
  ultimately have "split_host_port (lit ''1.2.3.4:080'') = Inr ([], 80)"
    by (simp add: split_host_port_def addr_port_def)
  moreover have "lit ''tcp://localhost:080'' = lit ''tcp://'' @ lit ''localhost:080''"
    "lit ''tcp://1.2.3.4:080'' = lit ''tcp://'' @ lit ''1.2.3.4:080''"
    by (simp_all add: lit_def)
  ultimately show ?thesis
    using \<open>split_host_port (lit ''localhost:080'') = _\<close> \<open>lit ''localhost'' \<noteq> []\<close> by (simp add: tcp_parse_def)
qed

end
