(* ===== verification/Zmtp_Commands.thy ===== *)
theory Zmtp_Commands
  imports Socket_Options Transport
begin

text \<open>
  The command bodies of the ZMTP handshake in \<open>crates/libzmq-core/src/socket.rs\<close>: the framing of a
  named command, the READY metadata with the socket type and the identity, the PLAIN credentials,
  and what the receiving side makes of them.
\<close>

section \<open>Named commands\<close>

definition command_body :: "bytes \<Rightarrow> bytes \<Rightarrow> bytes" where
  "command_body name tail =
     word_of_nat (min (length name) 255) # take (min (length name) 255) name @ tail"

definition command_tail_body :: "bytes \<Rightarrow> bytes \<Rightarrow> bytes result" where
  "command_tail_body body expected =
     (if body = [] then Inl InvalidArgument
      else let name_len = unat (body ! 0)
           in if length body < 1 + name_len \<or> slice 1 (1 + name_len) body \<noteq> expected then Inl InvalidArgument
              else Inr (drop (1 + name_len) body))"

definition command_tail :: "zmtp_frame \<Rightarrow> bytes \<Rightarrow> bytes result" where
  "command_tail f expected =
     (if \<not> fr_command f then Inl InvalidArgument else command_tail_body (fr_body f) expected)"

definition expect_command :: "zmtp_frame \<Rightarrow> bytes \<Rightarrow> unit result" where
  "expect_command f expected = map_ok (\<lambda>_. ()) (command_tail f expected)"


section \<open>Metadata\<close>

definition socket_type_name :: "socket_type \<Rightarrow> bytes" where
  "socket_type_name t =
     (case t of
        Pair \<Rightarrow> lit ''PAIR'' | Pull \<Rightarrow> lit ''PULL'' | Push \<Rightarrow> lit ''PUSH'' | Req \<Rightarrow> lit ''REQ''
      | Rep \<Rightarrow> lit ''REP'' | Dealer \<Rightarrow> lit ''DEALER'' | Router \<Rightarrow> lit ''ROUTER'' | Server \<Rightarrow> lit ''SERVER''
      | Client \<Rightarrow> lit ''CLIENT'' | Peer \<Rightarrow> lit ''PEER'' | Dgram \<Rightarrow> lit ''DGRAM'' | Pub \<Rightarrow> lit ''PUB''
      | Sub \<Rightarrow> lit ''SUB'' | Channel \<Rightarrow> lit ''CHANNEL'' | Scatter \<Rightarrow> lit ''SCATTER'' | Gather \<Rightarrow> lit ''GATHER''
      | Radio \<Rightarrow> lit ''RADIO'' | Dish \<Rightarrow> lit ''DISH'' | _ \<Rightarrow> lit ''PAIR'')"

text \<open>The property list both metadata functions build.\<close>

definition handshake_properties :: "socket_type \<Rightarrow> bytes \<Rightarrow> zmtp_metadata" where
  "handshake_properties t identity =
     (if identity = [] then [(lit ''Socket-Type'', socket_type_name t)]
      else [(lit ''Socket-Type'', socket_type_name t), (lit ''Identity'', identity)])"

definition socket_type_metadata_with_identity :: "socket_type \<Rightarrow> bytes \<Rightarrow> bytes" where
  "socket_type_metadata_with_identity t identity = encode_properties (handshake_properties t identity)"

definition ready_command_body_with_identity :: "socket_type \<Rightarrow> bytes \<Rightarrow> bytes" where
  "ready_command_body_with_identity t identity = encode_ready (handshake_properties t identity)"

definition parse_ready_metadata :: "zmtp_frame \<Rightarrow> zmtp_metadata result" where
  "parse_ready_metadata f = and_then (command_tail f (lit ''READY'')) decode_properties"

text \<open>
  An identity that is text without a NUL becomes the message property \<open>Routing-Id\<close>, and the routing
  id of the message when it is a number of 32 bits.
\<close>

definition apply_peer_identity_metadata :: "bytes option \<Rightarrow> message \<Rightarrow> message" where
  "apply_peer_identity_metadata peer_identity m =
     (case peer_identity of
        None \<Rightarrow> m
      | Some identity \<Rightarrow>
          if \<not> utf8_valid identity \<or> 0 \<in> set identity then m
          else let m1 = (case set_metadata (lit ''Routing-Id'') identity m of Inl _ \<Rightarrow> m | Inr m1 \<Rightarrow> m1)
               in case parse_uint 4294967295 identity of
                    None \<Rightarrow> m1 | Some r \<Rightarrow> set_routing_id (word_of_nat r) m1)"


section \<open>PLAIN\<close>

record plain_credentials =
  pc_username :: bytes
  pc_password :: bytes

definition plain_hello_body :: "security_options \<Rightarrow> bytes" where
  "plain_hello_body sec =
     (let u = sec_plain_username sec; p = sec_plain_password sec
      in command_body (lit ''HELLO'')
           (word_of_nat (min (length u) 255) # take (min (length u) 255) u
            @ word_of_nat (min (length p) 255) # take (min (length p) 255) p))"

definition parse_plain_hello :: "zmtp_frame \<Rightarrow> plain_credentials result" where
  "parse_plain_hello f =
     and_then (command_tail f (lit ''HELLO'')) (\<lambda>tail.
       if tail = [] then Inl InvalidArgument
       else let username_len = unat (tail ! 0)
            in if length tail < 1 + username_len + 1 then Inl InvalidArgument
               else let username_end = 1 + username_len;
                        password_len = unat (tail ! username_end);
                        password_start = username_end + 1;
                        password_end = password_start + password_len
                    in if length tail \<noteq> password_end then Inl InvalidArgument
                       else Inr \<lparr>pc_username = slice 1 username_end tail,
                                 pc_password = slice password_start password_end tail\<rparr>)"

definition plain_initiate_body :: "socket_type \<Rightarrow> bytes \<Rightarrow> bytes" where
  "plain_initiate_body t identity =
     command_body (lit ''INITIATE'') (drop 6 (ready_command_body_with_identity t identity))"

definition parse_plain_initiate :: "zmtp_frame \<Rightarrow> zmtp_metadata result" where
  "parse_plain_initiate f = and_then (command_tail f (lit ''INITIATE'')) decode_properties"

definition authorize_plain :: "security_options \<Rightarrow> plain_credentials \<Rightarrow> unit result" where
  "authorize_plain sec c =
     (if sec_plain_username sec \<noteq> [] \<and> sec_plain_username sec \<noteq> pc_username c then Inl InvalidArgument
      else if sec_plain_password sec \<noteq> [] \<and> sec_plain_password sec \<noteq> pc_password c then Inl InvalidArgument
      else Inr ())"


section \<open>Lemmas\<close>

lemma slice_name: "slice (Suc 0) (Suc (length n)) (b # n @ r) = n"
  by (simp add: slice_def)

lemma command_tail_body_iff:
  assumes "length name \<le> 255"
  shows "command_tail_body body name = Inr tail \<longleftrightarrow> body = command_body name tail"
proof
  assume "command_tail_body body name = Inr tail"
  then obtain b rest where b: "body = b # rest" "unat b \<le> length rest" "take (unat b) rest = name" "tail = drop (unat b) rest"
    by (cases body) (auto simp: command_tail_body_def Let_def slice_def split: if_splits)
  then have "length name = unat b"
    by auto
  with b have "word_of_nat (length name) = b" "rest = name @ tail"
    by auto
  with b(1) assms show "body = command_body name tail"
    by (simp add: command_body_def)
next
  assume "body = command_body name tail"
  with assms show "command_tail_body body name = Inr tail"
    by (simp add: command_tail_body_def command_body_def Let_def slice_def)
qed

lemma command_tail_iff:
  "length name \<le> 255 \<Longrightarrow> command_tail f name = Inr tail \<longleftrightarrow> fr_command f \<and> fr_body f = command_body name tail"
  by (simp add: command_tail_def command_tail_body_iff)

lemma command_tail_command [simp]:
  "length name \<le> 255 \<Longrightarrow> command_tail (frame_command (command_body name tail)) name = Inr tail"
  by (simp add: command_tail_iff frame_command_def)

lemma expect_command_command [simp]:
  "length name \<le> 255 \<Longrightarrow> expect_command (frame_command (command_body name tail)) name = Inr ()"
  by (simp add: expect_command_def)

lemma handshake_properties_wf:
  assumes "length identity < 256 ^ 4"
  shows "zmtp_metadata_wf (handshake_properties t identity)"
proof -
  have "length (socket_type_name t) \<le> 7"
    by (cases t) (simp_all add: socket_type_name_def)
  moreover have "utf8_valid (lit ''Socket-Type'')" "utf8_valid (lit ''Identity'')"
    by (rule utf8_valid_ascii, auto simp: lit_def)+
  ultimately show ?thesis
    using assms by (auto simp: handshake_properties_def)
qed

lemma decode_handshake_properties:
  "length identity < 256 ^ 4 \<Longrightarrow>
     decode_properties (encode_properties (handshake_properties t identity)) = Inr (handshake_properties t identity)"
  using decode_properties_iff handshake_properties_wf by blast

lemma metadata_get_identity:
  "metadata_get (handshake_properties t identity) (lit ''Identity'') = (if identity = [] then None else Some identity)"
  "metadata_get (handshake_properties t identity) (lit ''Socket-Type'') = Some (socket_type_name t)"
  by (auto simp: metadata_get_def handshake_properties_def lit_def)

lemma ready_is_command: "ready_command_body_with_identity t identity =
    command_body (lit ''READY'') (encode_properties (handshake_properties t identity))"
  by (simp add: ready_command_body_with_identity_def encode_ready_def command_body_def)

lemma initiate_is_command: "plain_initiate_body t identity =
    command_body (lit ''INITIATE'') (encode_properties (handshake_properties t identity))"
  by (simp add: plain_initiate_body_def ready_is_command command_body_def)

lemma length_byte: "word_of_nat (length xs) = (b :: byte) \<Longrightarrow> length xs \<le> 255 \<Longrightarrow> unat b = length xs"
  by auto

lemma parse_plain_hello_tail:
  assumes "command_tail f (lit ''HELLO'') = Inr tail"
  shows "parse_plain_hello f = Inr c \<longleftrightarrow> length (pc_username c) \<le> 255 \<and> length (pc_password c) \<le> 255 \<and>
    tail = word_of_nat (length (pc_username c)) # pc_username c @ word_of_nat (length (pc_password c)) # pc_password c"
    (is "?P \<longleftrightarrow> ?Q")
proof
  assume ?P
  then obtain a r where a: "tail = a # r" "unat a + 1 \<le> length r" "length r = unat a + 1 + unat (r ! unat a)"
    and c: "c = \<lparr>pc_username = take (unat a) r, pc_password = drop (unat a + 1) r\<rparr>"
    using assms by (cases tail) (auto simp: parse_plain_hello_def Let_def slice_def split: if_splits)
  have "r = take (unat a) r @ r ! unat a # drop (unat a + 1) r"
    using a(2) by (simp add: Cons_nth_drop_Suc)
  moreover have "length (take (unat a) r) = unat a" "length (drop (unat a + 1) r) = unat (r ! unat a)"
    using a by simp_all
  moreover have "unat a \<le> 255" "unat (r ! unat a) \<le> 255"
    using unat_byte_less [of a] unat_byte_less [of "r ! unat a"] by linarith+
  ultimately show ?Q
    using a(1) c by simp
next
  assume q: ?Q
  have "unat (word_of_nat (length (pc_username c)) :: byte) = length (pc_username c)"
    "unat (word_of_nat (length (pc_password c)) :: byte) = length (pc_password c)"
    using q by simp_all
  with q assms show ?P
    by (simp add: parse_plain_hello_def Let_def slice_def nth_append)
qed

lemma parse_plain_hello_iff:
  "parse_plain_hello f = Inr c \<longleftrightarrow>
     fr_command f \<and> length (pc_username c) \<le> 255 \<and> length (pc_password c) \<le> 255
     \<and> fr_body f = command_body (lit ''HELLO'')
          (word_of_nat (length (pc_username c)) # pc_username c @ word_of_nat (length (pc_password c)) # pc_password c)"
  (is "?P \<longleftrightarrow> ?Q")
proof (cases "command_tail f (lit ''HELLO'')")
  case (Inl e)
  then have "\<not> ?P" "\<not> ?Q"
    using command_tail_iff [of "lit ''HELLO''" f] by (auto simp: parse_plain_hello_def)
  then show ?thesis
    by blast
next
  case (Inr tail)
  then have "fr_command f" "fr_body f = command_body (lit ''HELLO'') tail"
    using command_tail_iff [of "lit ''HELLO''" f tail] by simp_all
  then show ?thesis
    using parse_plain_hello_tail [OF Inr, of c] by (auto simp: command_body_def)
qed

text \<open>
  The PLAIN credentials on the wire. A HELLO is accepted exactly when it is a command frame of that
  name whose body is two strings of at most 255 bytes, each after its length byte, and it gives those
  strings; in particular a client's own credentials arrive cut to 255 bytes.
\<close>

theorem plain_hello_codec:
  "(parse_plain_hello f = Inr c \<longleftrightarrow>
     fr_command f \<and> length (pc_username c) \<le> 255 \<and> length (pc_password c) \<le> 255
     \<and> fr_body f = command_body (lit ''HELLO'')
          (word_of_nat (length (pc_username c)) # pc_username c @ word_of_nat (length (pc_password c)) # pc_password c))
   \<and> parse_plain_hello (frame_command (plain_hello_body sec)) =
       Inr \<lparr>pc_username = take 255 (sec_plain_username sec), pc_password = take 255 (sec_plain_password sec)\<rparr>"
  using parse_plain_hello_iff [of f c]
  by (simp add: parse_plain_hello_iff plain_hello_body_def frame_command_def Let_def min_def)

end
