(* ===== verification/Security.thy ===== *)
theory Security
  imports Errors Rust_Std
begin

text \<open>
  \<open>crates/libzmq-core/src/security.rs\<close>: the Z85 text encoding of keys, CURVE key derivation and
  the ZAP request and reply codecs. The Curve25519 base-point multiplication and the random
  generator are third-party code and appear as parameters.
\<close>

section \<open>Z85\<close>

definition Z85_CHARS :: bytes where
  "Z85_CHARS = lit ''0123456789abcdefghijklmnopqrstuvwxyzABCDEFGHIJKLMNOPQRSTUVWXYZ.-:+=^!/*?&<>()[]{}@%$#''"

abbreviation u32_max :: nat where "u32_max \<equiv> 4294967295"

text \<open>The block of one 32-bit value, filled from its last digit to its first.\<close>

fun z85_digits :: "nat \<Rightarrow> nat \<Rightarrow> bytes \<Rightarrow> bytes" where
  "z85_digits 0 value block = block"
| "z85_digits (Suc n) value block = z85_digits n (value div 85) (Z85_CHARS ! (value mod 85) # block)"

fun z85_encode_chunks :: "bytes list \<Rightarrow> bytes \<Rightarrow> bytes result" where
  "z85_encode_chunks [] encoded = Inr encoded"
| "z85_encode_chunks (chunk # chunks) encoded =
     (let block = z85_digits 5 (from_be chunk) []
      in if utf8_valid block then z85_encode_chunks chunks (encoded @ block) else Inl InvalidArgument)"

definition z85_encode :: "bytes \<Rightarrow> bytes result" where
  "z85_encode d =
     (if \<not> 4 dvd length d then Inl InvalidArgument else z85_encode_chunks (chunks_exact 4 d) [])"

definition z85_value :: "byte \<Rightarrow> nat option" where
  "z85_value b = position (\<lambda>candidate. candidate = b) Z85_CHARS"

text \<open>\<open>checked_mul(85)\<close> and \<open>checked_add(digit)\<close> on \<open>u32\<close>.\<close>

fun z85_decode_chunk :: "bytes \<Rightarrow> nat \<Rightarrow> nat result" where
  "z85_decode_chunk [] value = Inr value"
| "z85_decode_chunk (b # bs) value =
     (case z85_value b of
        None \<Rightarrow> Inl InvalidArgument
      | Some d \<Rightarrow>
          if value * 85 > u32_max \<or> value * 85 + d > u32_max then Inl InvalidArgument
          else z85_decode_chunk bs (value * 85 + d))"

fun z85_decode_chunks :: "bytes list \<Rightarrow> bytes \<Rightarrow> bytes result" where
  "z85_decode_chunks [] decoded = Inr decoded"
| "z85_decode_chunks (chunk # chunks) decoded =
     and_then (z85_decode_chunk chunk 0) (\<lambda>value. z85_decode_chunks chunks (decoded @ to_be 4 value))"

definition z85_decode :: "bytes \<Rightarrow> bytes result" where
  "z85_decode encoded =
     (if \<not> 5 dvd length encoded then Inl InvalidArgument
      else z85_decode_chunks (chunks_exact 5 encoded) [])"

text \<open>
  \<open>mul_base\<close> is \<open>MontgomeryPoint::mul_base_clamped(_).to_bytes()\<close>; \<open>rnd\<close> is what
  \<open>getrandom\<close> put into the secret, \<open>None\<close> when it failed.
\<close>

definition curve_keypair :: "(bytes \<Rightarrow> bytes) \<Rightarrow> bytes option \<Rightarrow> (bytes \<times> bytes) result" where
  "curve_keypair mul_base rnd =
     (case rnd of
        None \<Rightarrow> Inl InvalidSocket
      | Some secret \<Rightarrow>
          and_then (z85_encode (mul_base secret)) (\<lambda>public.
          and_then (z85_encode secret) (\<lambda>secret_encoded. Inr (public, secret_encoded))))"

definition curve_public :: "(bytes \<Rightarrow> bytes) \<Rightarrow> bytes \<Rightarrow> bytes result" where
  "curve_public mul_base z85_secret_key =
     and_then (z85_decode z85_secret_key) (\<lambda>secret.
       if length secret \<noteq> 32 then Inl InvalidArgument else z85_encode (mul_base secret))"


section \<open>ZAP messages\<close>

record zap_request =
  zrq_version :: bytes
  zrq_request_id :: bytes
  zrq_domain :: bytes
  zrq_address :: bytes
  zrq_identity :: bytes
  zrq_mechanism :: bytes
  zrq_credentials :: "bytes list"

record zap_reply =
  zrp_version :: bytes
  zrp_request_id :: bytes
  zrp_status_code :: bytes
  zrp_status_text :: bytes
  zrp_user_id :: bytes
  zrp_metadata :: bytes

definition zap_version :: bytes where
  "zap_version = lit ''1.0''"

definition decode_utf8 :: "bytes \<Rightarrow> bytes result" where
  "decode_utf8 b = (if utf8_valid b then Inr b else Inl InvalidArgument)"

definition zap_request_new ::
  "bytes \<Rightarrow> bytes \<Rightarrow> bytes \<Rightarrow> bytes \<Rightarrow> bytes \<Rightarrow> bytes list \<Rightarrow> zap_request" where
  "zap_request_new request_id domain address identity mechanism credentials =
     \<lparr>zrq_version = zap_version, zrq_request_id = request_id, zrq_domain = domain,
      zrq_address = address, zrq_identity = identity, zrq_mechanism = mechanism,
      zrq_credentials = credentials\<rparr>"

definition zap_request_encode :: "zap_request \<Rightarrow> bytes list" where
  "zap_request_encode r =
     [zrq_version r, zrq_request_id r, zrq_domain r, zrq_address r, zrq_identity r, zrq_mechanism r]
     @ zrq_credentials r"

definition zap_request_decode :: "bytes list \<Rightarrow> zap_request result" where
  "zap_request_decode frames =
     (if length frames < 6 \<or> frames ! 0 \<noteq> zap_version then Inl InvalidArgument
      else and_then (decode_utf8 (frames ! 0)) (\<lambda>version.
           and_then (decode_utf8 (frames ! 1)) (\<lambda>request_id.
           and_then (decode_utf8 (frames ! 5)) (\<lambda>mechanism.
             Inr \<lparr>zrq_version = version, zrq_request_id = request_id, zrq_domain = frames ! 2,
               zrq_address = frames ! 3, zrq_identity = frames ! 4, zrq_mechanism = mechanism,
               zrq_credentials = drop 6 frames\<rparr>))))"

definition zap_reply_new :: "bytes \<Rightarrow> bytes \<Rightarrow> bytes \<Rightarrow> bytes \<Rightarrow> bytes \<Rightarrow> zap_reply" where
  "zap_reply_new request_id status_code status_text user_id meta =
     \<lparr>zrp_version = zap_version, zrp_request_id = request_id, zrp_status_code = status_code,
      zrp_status_text = status_text, zrp_user_id = user_id, zrp_metadata = meta\<rparr>"

definition zap_reply_encode :: "zap_reply \<Rightarrow> bytes list" where
  "zap_reply_encode r =
     [zrp_version r, zrp_request_id r, zrp_status_code r, zrp_status_text r, zrp_user_id r, zrp_metadata r]"

definition zap_reply_decode :: "bytes list \<Rightarrow> zap_reply result" where
  "zap_reply_decode frames =
     (if length frames \<noteq> 6 \<or> frames ! 0 \<noteq> zap_version then Inl InvalidArgument
      else and_then (decode_utf8 (frames ! 0)) (\<lambda>version.
           and_then (decode_utf8 (frames ! 1)) (\<lambda>request_id.
           and_then (decode_utf8 (frames ! 2)) (\<lambda>status_code.
           and_then (decode_utf8 (frames ! 3)) (\<lambda>status_text.
             Inr \<lparr>zrp_version = version, zrp_request_id = request_id, zrp_status_code = status_code,
               zrp_status_text = status_text, zrp_user_id = frames ! 4, zrp_metadata = frames ! 5\<rparr>)))))"


section \<open>Correctness of Z85\<close>

lemma Z85_CHARS_distinct: "distinct Z85_CHARS"
  unfolding Z85_CHARS_def by code_simp

lemma Z85_CHARS_length [simp]: "length Z85_CHARS = 85"
  by (simp add: Z85_CHARS_def)

lemma Z85_CHARS_ascii: "list_all (\<lambda>b. b < 0x80) Z85_CHARS"
  unfolding Z85_CHARS_def by code_simp

lemma z85_value_char: "d < 85 \<Longrightarrow> z85_value (Z85_CHARS ! d) = Some d"
  using position_nth [OF Z85_CHARS_distinct, of d] by (simp add: z85_value_def)

lemma z85_value_Some: "z85_value b = Some d \<Longrightarrow> d < 85 \<and> Z85_CHARS ! d = b"
  using position_Some [of "\<lambda>c. c = b" Z85_CHARS d] by (simp add: z85_value_def)

lemma z85_digits_append: "z85_digits n v block = z85_digits n v [] @ block"
proof (induction n arbitrary: v block)
  case 0
  then show ?case by simp
next
  case (Suc n)
  show ?case
    by (simp add: Suc.IH [of _ "_ # block"] Suc.IH [of _ "[_]"])
qed

lemma length_z85_digits: "length (z85_digits n v block) = n + length block"
  by (induction n arbitrary: v block) auto

lemma z85_digits_Suc:
  "z85_digits (Suc n) v block = Z85_CHARS ! (v div 85 ^ n mod 85) # z85_digits n v block"
proof (induction n arbitrary: v block)
  case 0
  then show ?case by simp
next
  case (Suc n)
  have "v div 85 div 85 ^ n = v div 85 ^ Suc n"
    by (simp add: div_mult2_eq mult.commute)
  with Suc.IH [of "v div 85" "Z85_CHARS ! (v mod 85) # block"] show ?case
    by simp
qed

lemma z85_digits_ascii:
  "(\<And>b. b \<in> set block \<Longrightarrow> b < 0x80) \<Longrightarrow> b \<in> set (z85_digits n v block) \<Longrightarrow> b < 0x80"
proof (induction n arbitrary: v block)
  case 0
  then show ?case by simp
next
  case (Suc n)
  have "Z85_CHARS ! (v mod 85) < 0x80"
    using Z85_CHARS_ascii by (simp add: list_all_length)
  with Suc.prems Suc.IH [of "Z85_CHARS ! (v mod 85) # block" "v div 85"] show ?case
    by auto
qed

lemma z85_block_utf8 [simp]: "utf8_valid (z85_digits n v [])"
  by (rule utf8_valid_ascii) (erule z85_digits_ascii [rotated], simp)

lemma z85_decode_digits:
  "v \<le> u32_max \<Longrightarrow> z85_decode_chunk (z85_digits n v block) (v div 85 ^ n) = z85_decode_chunk block v"
proof (induction n arbitrary: v block)
  case 0
  then show ?case by simp
next
  case (Suc n)
  have "v div 85 div 85 ^ n = v div 85 ^ Suc n"
    by (simp add: div_mult2_eq mult.commute)
  moreover have "z85_decode_chunk (Z85_CHARS ! (v mod 85) # block) (v div 85) = z85_decode_chunk block v"
  proof -
    have "\<not> (v div 85 * 85 > u32_max \<or> v div 85 * 85 + v mod 85 > u32_max)"
      using Suc.prems div_mult_mod_eq [of v 85] by linarith
    moreover have "z85_value (Z85_CHARS ! (v mod 85)) = Some (v mod 85)"
      by (simp add: z85_value_char)
    ultimately show ?thesis
      by (simp only: z85_decode_chunk.simps option.case if_False div_mult_mod_eq)
  qed
  ultimately show ?case
    using Suc.IH [of "v div 85" "Z85_CHARS ! (v mod 85) # block"] Suc.prems by simp
qed

lemma z85_decode_block: "v \<le> u32_max \<Longrightarrow> z85_decode_chunk (z85_digits 5 v []) 0 = Inr v"
  using z85_decode_digits [of v 5 "[]"] by simp

lemma z85_decode_chunk_Inr:
  "z85_decode_chunk bs a = Inr v \<Longrightarrow> a \<le> u32_max \<Longrightarrow>
     z85_digits (length bs) v [] = bs \<and> v div 85 ^ length bs = a \<and> v \<le> u32_max"
proof (induction bs arbitrary: a)
  case Nil
  then show ?case by simp
next
  case (Cons b bs)
  from Cons.prems(1) obtain d where d: "z85_value b = Some d"
    and le: "a * 85 + d \<le> u32_max" and rec: "z85_decode_chunk bs (a * 85 + d) = Inr v"
    by (auto split: option.splits if_splits)
  from Cons.IH [OF rec le] have IH: "z85_digits (length bs) v [] = bs"
    "v div 85 ^ length bs = a * 85 + d" "v \<le> u32_max"
    by auto
  have "v div 85 ^ length (b # bs) = v div 85 ^ length bs div 85"
    by (simp add: div_mult2_eq [symmetric] mult.commute)
  with IH z85_value_Some [OF d] show ?case
    unfolding length_Cons z85_digits_Suc by simp
qed

lemma z85_encode_chunks_ok:
  "z85_encode_chunks cs acc = Inr (acc @ concat (map (\<lambda>c. z85_digits 5 (from_be c) []) cs))"
  by (induction cs arbitrary: acc) (simp_all add: Let_def)

lemma z85_decode_chunks_ok:
  "(\<And>c. c \<in> set cs \<Longrightarrow> length c = 4) \<Longrightarrow>
     z85_decode_chunks (map (\<lambda>c. z85_digits 5 (from_be c) []) cs) acc = Inr (acc @ concat cs)"
proof (induction cs arbitrary: acc)
  case Nil
  then show ?case by simp
next
  case (Cons c cs)
  then have "from_be c < 256 ^ 4"
    using from_be_less [of c] by simp
  with Cons show ?case
    by (simp add: z85_decode_block to_be_from_be_id)
qed

lemma z85_decode_chunks_Inr:
  assumes "z85_decode_chunks cs acc = Inr d" and "\<And>c. c \<in> set cs \<Longrightarrow> length c = 5"
  shows "\<exists>ws. d = acc @ concat ws \<and> map (\<lambda>c. z85_digits 5 (from_be c) []) ws = cs
           \<and> (\<forall>w\<in>set ws. length w = 4)"
  using assms
proof (induction cs arbitrary: acc)
  case Nil
  then show ?case by simp
next
  case (Cons c cs)
  then obtain v where v: "z85_decode_chunk c 0 = Inr v"
    and rec: "z85_decode_chunks cs (acc @ to_be 4 v) = Inr d"
    by (auto simp: and_then_Inr)
  from z85_decode_chunk_Inr [OF v] Cons.prems(2) [of c] have c: "z85_digits 5 v [] = c" "v \<le> u32_max"
    by auto
  from Cons.IH [OF rec] Cons.prems(2) obtain ws where
    "d = (acc @ to_be 4 v) @ concat ws" "map (\<lambda>c. z85_digits 5 (from_be c) []) ws = cs"
    "\<forall>w\<in>set ws. length w = 4"
    by auto
  with c show ?case
    by (intro exI [of _ "to_be 4 v # ws"]) (simp add: from_be_to_be)
qed



lemma z85_round_trip:
  assumes "4 dvd length d"
  shows "\<exists>s. z85_encode d = Inr s \<and> 4 * length s = 5 * length d \<and> z85_decode s = Inr d"
proof -
  let ?cs = "chunks_exact 4 d" and ?f = "\<lambda>c. z85_digits 5 (from_be c) []"
  have e: "z85_encode d = Inr (concat (map ?f ?cs))"
    using assms by (simp add: z85_encode_def z85_encode_chunks_ok)
  have l: "length (concat (map ?f cs)) = 5 * length cs" for cs
    by (induction cs) (simp_all add: length_z85_digits)
  have d: "concat ?cs = d"
    using assms by (simp add: concat_chunks_exact)
  have "length (concat cs) = 4 * length cs" if "\<forall>c\<in>set cs. length c = 4" for cs :: "bytes list"
    using that by (induction cs) auto
  from this [of ?cs] have "length d = 4 * length ?cs"
    using chunks_exact_length [of _ 4 d] d by simp
  moreover have "chunks_exact 5 (concat (map ?f ?cs)) = map ?f ?cs"
    by (rule chunks_exact_concat) (auto simp: length_z85_digits)
  then have "z85_decode (concat (map ?f ?cs)) = Inr d"
    using z85_decode_chunks_ok [of ?cs "[]"] chunks_exact_length [of _ 4 d] d
    by (simp add: z85_decode_def l)
  ultimately show ?thesis
    using e l by simp
qed

section \<open>Properties\<close>

lemma z85_canonical:
  assumes "z85_decode s = Inr d"
  shows "z85_encode d = Inr s"
proof -
  let ?f = "\<lambda>c. z85_digits 5 (from_be c) []"
  from assms have s: "5 dvd length s" and dec: "z85_decode_chunks (chunks_exact 5 s) [] = Inr d"
    by (auto simp: z85_decode_def split: if_splits)
  from z85_decode_chunks_Inr [OF dec] chunks_exact_length [of _ 5 s] obtain ws where
    ws: "d = concat ws" "map ?f ws = chunks_exact 5 s" "\<forall>w\<in>set ws. length w = 4"
    by auto
  have "length (concat ws) = 4 * length ws"
    using ws(3) by (induction ws) auto
  moreover have "chunks_exact 4 (concat ws) = ws"
    using ws(3) by (intro chunks_exact_concat) auto
  ultimately show ?thesis
    using ws s by (simp add: z85_encode_def z85_encode_chunks_ok concat_chunks_exact)
qed

text \<open>C30. Z85 coding is a bijection: exactly the byte strings whose length is a multiple of four encode, and
  a text decodes to given bytes exactly when it is their encoding, so the decoder accepts nothing
  but encodings and no two texts stand for the same bytes.\<close>

theorem z85_codec:
  "((\<exists>s. z85_encode d = Inr s) \<longleftrightarrow> 4 dvd length d) \<and> (z85_decode s = Inr d \<longleftrightarrow> z85_encode d = Inr s)"
proof -
  have e: "(\<exists>s. z85_encode d = Inr s) \<longleftrightarrow> 4 dvd length d"
    using z85_round_trip [of d] by (auto simp: z85_encode_def split: if_splits)
  moreover have "z85_decode s = Inr d" if "z85_encode d = Inr s"
  proof -
    from that e have "4 dvd length d"
      by blast
    with z85_round_trip [of d] that show ?thesis
      by force
  qed
  ultimately show ?thesis
    using z85_canonical [of s d] by blast
qed

text \<open>The key pair \<open>curve_keypair\<close> returns belongs together: both keys are 40-character texts and
  \<open>curve_public\<close> derives the returned public key from the returned secret key, for any base-point
  multiplication that returns 32 bytes and any 32 random bytes.\<close>

theorem curve_keypair_consistent:
  assumes mul: "\<And>k. length (mul_base k) = 32" and rnd: "length secret = 32"
  shows "\<exists>public secret_encoded. curve_keypair mul_base (Some secret) = Inr (public, secret_encoded)
      \<and> length public = 40 \<and> length secret_encoded = 40
      \<and> curve_public mul_base secret_encoded = Inr public"
proof -
  from z85_round_trip [of secret] rnd obtain s where
    s: "z85_encode secret = Inr s" "length s = 40" "z85_decode s = Inr secret"
    by auto
  from z85_round_trip [of "mul_base secret"] mul obtain p where
    p: "z85_encode (mul_base secret) = Inr p" "length p = 40"
    by auto
  show ?thesis
    using s p rnd by (simp add: curve_keypair_def curve_public_def)
qed

theorem curve_keypair_consistent_witness:
  "\<exists>public secret_encoded. curve_keypair (\<lambda>_. replicate 32 7) (Some (replicate 32 1)) = Inr (public, secret_encoded)
      \<and> length public = 40 \<and> length secret_encoded = 40
      \<and> curve_public (\<lambda>_. replicate 32 7) secret_encoded = Inr public"
  by (rule curve_keypair_consistent) simp_all

text \<open>C31. The ZAP request codec: \<open>ZapRequest::decode\<close> accepts exactly the frame lists that
  \<open>ZapRequest::encode\<close> produces from a version 1.0 request whose request id and mechanism are
  UTF-8, and returns that request.\<close>

theorem zap_request_codec:
  "zap_request_decode frames = Inr r \<longleftrightarrow>
     frames = zap_request_encode r \<and> zrq_version r = zap_version
     \<and> utf8_valid (zrq_request_id r) \<and> utf8_valid (zrq_mechanism r)"
proof
  assume dec: "zap_request_decode frames = Inr r"
  then have "length frames \<ge> 6"
    by (auto simp: zap_request_decode_def split: if_splits)
  then obtain a b c d e f fs where "frames = a # b # c # d # e # f # fs"
    by (auto simp: Suc_le_length_iff numeral_eq_Suc)
  with dec show "frames = zap_request_encode r \<and> zrq_version r = zap_version
     \<and> utf8_valid (zrq_request_id r) \<and> utf8_valid (zrq_mechanism r)"
    by (auto simp: zap_request_decode_def zap_request_encode_def decode_utf8_def split: if_splits)
next
  assume "frames = zap_request_encode r \<and> zrq_version r = zap_version
     \<and> utf8_valid (zrq_request_id r) \<and> utf8_valid (zrq_mechanism r)"
  moreover have "utf8_valid zap_version"
    by (simp add: zap_version_def lit_def)
  ultimately show "zap_request_decode frames = Inr r"
    by (simp add: zap_request_decode_def zap_request_encode_def decode_utf8_def)
qed

text \<open>The ZAP reply codec, in the same way: exactly the six-frame encodings of version 1.0 replies
  with a UTF-8 request id, status code and status text are accepted.\<close>

theorem zap_reply_codec:
  "zap_reply_decode frames = Inr r \<longleftrightarrow>
     frames = zap_reply_encode r \<and> zrp_version r = zap_version
     \<and> utf8_valid (zrp_request_id r) \<and> utf8_valid (zrp_status_code r) \<and> utf8_valid (zrp_status_text r)"
proof
  assume dec: "zap_reply_decode frames = Inr r"
  then have "length frames = 6"
    by (auto simp: zap_reply_decode_def split: if_splits)
  then obtain a b c d e f where "frames = [a, b, c, d, e, f]"
    by (auto simp: length_Suc_conv numeral_eq_Suc)
  with dec show "frames = zap_reply_encode r \<and> zrp_version r = zap_version
     \<and> utf8_valid (zrp_request_id r) \<and> utf8_valid (zrp_status_code r) \<and> utf8_valid (zrp_status_text r)"
    by (auto simp: zap_reply_decode_def zap_reply_encode_def decode_utf8_def split: if_splits)
next
  assume "frames = zap_reply_encode r \<and> zrp_version r = zap_version
     \<and> utf8_valid (zrp_request_id r) \<and> utf8_valid (zrp_status_code r) \<and> utf8_valid (zrp_status_text r)"
  moreover have "utf8_valid zap_version"
    by (simp add: zap_version_def lit_def)
  ultimately show "zap_reply_decode frames = Inr r"
    by (simp add: zap_reply_decode_def zap_reply_encode_def decode_utf8_def)
qed

end
