(* ===== verification/Curve.thy ===== *)
theory Curve
  imports Zmtp_Commands Security
begin

text \<open>
  The CURVE mechanism of \<open>crates/libzmq-core/src/socket.rs\<close> in the default build (without the
  \<open>sodium\<close> feature): the four handshake commands HELLO, WELCOME, INITIATE and READY as the client and
  the server make and check them, and the encryption of messages over a session.

  The ciphers are the \<open>crypto_box\<close> and \<open>crypto_secretbox\<close> crates: a record of operations, with
  what the code relies on collected in \<open>crypto_laws\<close>. Random bytes come from the operating system:
  the model draws them from a supply and fails as \<open>getrandom\<close> does when the supply ends.
\<close>

section \<open>Ciphers, keys and nonces\<close>

text \<open>
  \<open>cr_box pk sk nonce m\<close> is \<open>SalsaBox::new(pk, sk).encrypt\<close>, \<open>cr_open\<close> its \<open>decrypt\<close>; the detached
  forms give and take the tag on its own; \<open>cr_seal\<close> and \<open>cr_unseal\<close> are the secret box.
\<close>

record crypto =
  cr_public :: "bytes \<Rightarrow> bytes"
  cr_box :: "bytes \<Rightarrow> bytes \<Rightarrow> bytes \<Rightarrow> bytes \<Rightarrow> bytes option"
  cr_open :: "bytes \<Rightarrow> bytes \<Rightarrow> bytes \<Rightarrow> bytes \<Rightarrow> bytes option"
  cr_box_detached :: "bytes \<Rightarrow> bytes \<Rightarrow> bytes \<Rightarrow> bytes \<Rightarrow> (bytes \<times> bytes) option"
  cr_open_detached :: "bytes \<Rightarrow> bytes \<Rightarrow> bytes \<Rightarrow> bytes \<Rightarrow> bytes \<Rightarrow> bytes option"
  cr_seal :: "bytes \<Rightarrow> bytes \<Rightarrow> bytes \<Rightarrow> bytes option"
  cr_unseal :: "bytes \<Rightarrow> bytes \<Rightarrow> bytes \<Rightarrow> bytes option"

definition fill_random :: "nat \<Rightarrow> (bytes, error, bytes) comp" where
  "fill_random n entropy =
     (if length entropy < n then (Inl InvalidSocket, entropy) else (Inr (take n entropy), drop n entropy))"

definition curve_option_key :: "bytes \<Rightarrow> bytes result" where
  "curve_option_key value =
     and_then (if length value = 40
               then (if \<not> utf8_valid value then Inl InvalidArgument else z85_decode value)
               else Inr value) (\<lambda>bs.
       if length bs \<noteq> 32 then Inl InvalidArgument else Inr bs)"

definition curve_public_from_secret :: "crypto \<Rightarrow> bytes \<Rightarrow> bytes" where
  "curve_public_from_secret C secret = cr_public C secret"

definition curve_nonce :: "bytes \<Rightarrow> u64 \<Rightarrow> bytes" where
  "curve_nonce pre nonce = pre @ to_be 8 (unat nonce)"

definition curve_long_nonce :: "bytes \<Rightarrow> bytes \<Rightarrow> bytes" where
  "curve_long_nonce pre tail = pre @ tail"

definition curve_box_encrypt :: "crypto \<Rightarrow> bytes \<Rightarrow> bytes \<Rightarrow> bytes \<Rightarrow> bytes \<Rightarrow> bytes result" where
  "curve_box_encrypt C plaintext nonce recipient_public sender_secret =
     ok_or InvalidArgument (cr_box C recipient_public sender_secret nonce plaintext)"

definition curve_box_decrypt :: "crypto \<Rightarrow> bytes \<Rightarrow> bytes \<Rightarrow> bytes \<Rightarrow> bytes \<Rightarrow> bytes result" where
  "curve_box_decrypt C ciphertext nonce sender_public recipient_secret =
     ok_or InvalidArgument (cr_open C sender_public recipient_secret nonce ciphertext)"

definition curve_secretbox_encrypt :: "crypto \<Rightarrow> bytes \<Rightarrow> bytes \<Rightarrow> bytes \<Rightarrow> bytes result" where
  "curve_secretbox_encrypt C plaintext nonce key = ok_or InvalidArgument (cr_seal C key nonce plaintext)"

definition curve_secretbox_decrypt :: "crypto \<Rightarrow> bytes \<Rightarrow> bytes \<Rightarrow> bytes \<Rightarrow> bytes result" where
  "curve_secretbox_decrypt C ciphertext nonce key = ok_or InvalidArgument (cr_unseal C key nonce ciphertext)"

definition next_nonce :: "u64 \<Rightarrow> u64" where
  "next_nonce n = (if n = - 1 then n else n + 1)"


section \<open>Sessions\<close>

text \<open>The send and receive boxes of the source are both determined by the two keys.\<close>

record curve_session =
  cs_local_transient_secret :: bytes
  cs_peer_transient_public :: bytes
  cs_send_nonce :: u64
  cs_recv_nonce :: u64
  cs_send_prefix :: bytes
  cs_recv_prefix :: bytes

definition session_next_send_nonce :: "curve_session \<Rightarrow> u64 \<times> curve_session" where
  "session_next_send_nonce s = (cs_send_nonce s, s\<lparr>cs_send_nonce := next_nonce (cs_send_nonce s)\<rparr>)"

definition curve_message_encrypt :: "crypto \<Rightarrow> curve_session \<Rightarrow> bytes \<Rightarrow> bytes \<Rightarrow> bytes result" where
  "curve_message_encrypt C s plaintext nonce =
     map_ok (\<lambda>(tag, c). tag @ c) (ok_or InvalidArgument
       (cr_box_detached C (cs_peer_transient_public s) (cs_local_transient_secret s) nonce plaintext))"

definition curve_message_decrypt :: "crypto \<Rightarrow> curve_session \<Rightarrow> bytes \<Rightarrow> bytes \<Rightarrow> bytes result" where
  "curve_message_decrypt C s ciphertext nonce =
     (if length ciphertext < 16 then Inl InvalidArgument
      else ok_or InvalidArgument
             (cr_open_detached C (cs_peer_transient_public s) (cs_local_transient_secret s) nonce
                (take 16 ciphertext) (drop 16 ciphertext)))"

definition curve_message_body :: "u64 \<Rightarrow> bytes \<Rightarrow> bytes" where
  "curve_message_body nonce_number ciphertext =
     7 # lit ''MESSAGE'' @ to_be 8 (unat nonce_number) @ ciphertext"

definition curve_message_frame :: "crypto \<Rightarrow> bytes \<Rightarrow> bool \<Rightarrow> (curve_session, error, bytes) comp" where
  "curve_message_frame C payload has_more s =
     (case session_next_send_nonce s of
        (nonce_number, s1) \<Rightarrow>
          (map_ok (\<lambda>ciphertext.
             let body_len = 1 + 7 + 8 + length ciphertext
             in (if body_len \<le> 255 then [0, word_of_nat body_len] else 2 # to_be 8 body_len)
                @ curve_message_body nonce_number ciphertext)
             (curve_message_encrypt C s1 (of_bool has_more # payload) (curve_nonce (cs_send_prefix s1) nonce_number)), s1))"

definition curve_message_tail :: "bytes \<Rightarrow> bytes result" where
  "curve_message_tail body =
     (if length body < 8 \<or> body ! 0 \<noteq> 7 \<or> slice 1 8 body \<noteq> lit ''MESSAGE'' then Inl InvalidArgument
      else Inr (drop 8 body))"

definition curve_message_from_body :: "crypto \<Rightarrow> bytes \<Rightarrow> (curve_session, error, message) comp" where
  "curve_message_from_body C body s =
     (case curve_message_tail body of
        Inl e \<Rightarrow> (Inl e, s)
      | Inr tail \<Rightarrow>
          if length tail < 25 then (Inl InvalidArgument, s)
          else let nonce_number = word_of_nat (from_be (take 8 tail))
               in if nonce_number \<le> cs_recv_nonce s then (Inl InvalidArgument, s)
                  else let s1 = s\<lparr>cs_recv_nonce := nonce_number\<rparr>
                       in (and_then (curve_message_decrypt C s1 (drop 8 tail) (curve_nonce (cs_recv_prefix s1) nonce_number))
                             (\<lambda>plaintext.
                                if plaintext = [] \<or> plaintext ! 0 AND NOT 1 \<noteq> 0 then Inl InvalidArgument
                                else Inr (set_more (plaintext ! 0 AND 1 \<noteq> 0) (message_from_vec (drop 1 plaintext)))), s1))"


section \<open>The client\<close>

record curve_client =
  cc_public_key :: bytes
  cc_secret_key :: bytes
  cc_server_key :: bytes
  cc_transient_secret :: bytes
  cc_transient_public :: bytes
  cc_server_transient_public :: "bytes option"
  cc_cookie :: "bytes option"
  cc_send_nonce :: u64
  cc_recv_nonce :: u64

definition curve_client_new :: "crypto \<Rightarrow> security_options \<Rightarrow> (bytes, error, curve_client) comp" where
  "curve_client_new C sec =
     bnd (lift (curve_option_key (sec_curve_secretkey sec))) (\<lambda>secret_key.
     bnd (lift (if sec_curve_publickey sec = [] then Inr (curve_public_from_secret C secret_key)
                else curve_option_key (sec_curve_publickey sec))) (\<lambda>public_key.
     bnd (lift (curve_option_key (sec_curve_serverkey sec))) (\<lambda>server_key.
     bnd (fill_random 32) (\<lambda>transient_secret.
       ret \<lparr>cc_public_key = public_key, cc_secret_key = secret_key, cc_server_key = server_key,
            cc_transient_secret = transient_secret,
            cc_transient_public = curve_public_from_secret C transient_secret,
            cc_server_transient_public = None, cc_cookie = None, cc_send_nonce = 1, cc_recv_nonce = 0\<rparr>))))"

definition client_next_send_nonce :: "curve_client \<Rightarrow> u64 \<times> curve_client" where
  "client_next_send_nonce c = (cc_send_nonce c, c\<lparr>cc_send_nonce := next_nonce (cc_send_nonce c)\<rparr>)"

definition hello_body :: "crypto \<Rightarrow> (curve_client, error, bytes) comp" where
  "hello_body C c =
     (case client_next_send_nonce c of
        (nonce_number, c1) \<Rightarrow>
          (and_then (curve_box_encrypt C (replicate 64 0) (curve_nonce (lit ''CurveZMQHELLO---'') nonce_number)
              (cc_server_key c1) (cc_transient_secret c1)) (\<lambda>signature.
             if length signature \<noteq> 80 then Inl InvalidArgument
             else Inr (command_body (lit ''HELLO'')
                    ([1, 0] @ replicate 72 0 @ cc_transient_public c1 @ to_be 8 (unat nonce_number) @ signature))), c1))"

definition process_welcome :: "crypto \<Rightarrow> zmtp_frame \<Rightarrow> (curve_client, error, unit) comp" where
  "process_welcome C f c =
     (case and_then (command_tail f (lit ''WELCOME'')) (\<lambda>tail.
        if length tail \<noteq> 160 then Inl InvalidArgument
        else and_then (curve_box_decrypt C (drop 16 tail) (curve_long_nonce (lit ''WELCOME-'') (take 16 tail))
               (cc_server_key c) (cc_transient_secret c)) (\<lambda>plaintext.
             if length plaintext \<noteq> 128 then Inl InvalidArgument else Inr plaintext)) of
        Inl e \<Rightarrow> (Inl e, c)
      | Inr plaintext \<Rightarrow>
          (Inr (), c\<lparr>cc_server_transient_public := Some (take 32 plaintext),
                     cc_cookie := Some (slice 32 128 plaintext)\<rparr>))"

definition initiate_body :: "crypto \<Rightarrow> socket_type \<Rightarrow> bytes \<Rightarrow> (curve_client \<times> bytes, error, bytes) comp" where
  "initiate_body C t identity = (\<lambda>(c, entropy).
     case cc_server_transient_public c of
       None \<Rightarrow> (Inl InvalidArgument, (c, entropy))
     | Some server_transient_public \<Rightarrow>
         (case cc_cookie c of
            None \<Rightarrow> (Inl InvalidArgument, (c, entropy))
          | Some cookie \<Rightarrow>
              (case fill_random 16 entropy of
                 (Inl e, entropy1) \<Rightarrow> (Inl e, (c, entropy1))
               | (Inr vouch_nonce_tail, entropy1) \<Rightarrow>
                   (case and_then (curve_box_encrypt C (cc_transient_public c @ cc_server_key c)
                           (curve_long_nonce (lit ''VOUCH---'') vouch_nonce_tail) server_transient_public (cc_secret_key c))
                           (\<lambda>v. if length v \<noteq> 80 then Inl InvalidArgument else Inr v) of
                      Inl e \<Rightarrow> (Inl e, (c, entropy1))
                    | Inr vouch_box \<Rightarrow>
                        (case client_next_send_nonce c of
                           (nonce_number, c1) \<Rightarrow>
                             (map_ok (\<lambda>initiate_box. command_body (lit ''INITIATE'')
                                        (cookie @ to_be 8 (unat nonce_number) @ initiate_box))
                                (curve_box_encrypt C
                                   (cc_public_key c @ vouch_nonce_tail @ vouch_box @ socket_type_metadata_with_identity t identity)
                                   (curve_nonce (lit ''CurveZMQINITIATE'') nonce_number)
                                   server_transient_public (cc_transient_secret c)), (c1, entropy1)))))))"

definition process_ready :: "crypto \<Rightarrow> zmtp_frame \<Rightarrow> (curve_client, error, zmtp_metadata) comp" where
  "process_ready C f c =
     (case command_tail f (lit ''READY'') of
        Inl e \<Rightarrow> (Inl e, c)
      | Inr tail \<Rightarrow>
          if length tail < 24 then (Inl InvalidArgument, c)
          else let nonce_number = word_of_nat (from_be (take 8 tail))
               in if nonce_number \<le> cc_recv_nonce c then (Inl InvalidArgument, c)
                  else let c1 = c\<lparr>cc_recv_nonce := nonce_number\<rparr>
                       in (case cc_server_transient_public c1 of
                             None \<Rightarrow> Inl InvalidArgument
                           | Some server_transient_public \<Rightarrow>
                               and_then (curve_box_decrypt C (drop 8 tail) (curve_nonce (lit ''CurveZMQREADY---'') nonce_number)
                                           server_transient_public (cc_transient_secret c1)) decode_properties, c1))"

definition client_session :: "curve_client \<Rightarrow> curve_session result" where
  "client_session c =
     map_ok (\<lambda>p. \<lparr>cs_local_transient_secret = cc_transient_secret c, cs_peer_transient_public = p,
         cs_send_nonce = cc_send_nonce c, cs_recv_nonce = cc_recv_nonce c,
         cs_send_prefix = lit ''CurveZMQMESSAGEC'', cs_recv_prefix = lit ''CurveZMQMESSAGES''\<rparr>)
       (ok_or InvalidArgument (cc_server_transient_public c))"


section \<open>The server\<close>

record curve_server =
  sv_server_public_key :: bytes
  sv_server_secret_key :: bytes
  sv_transient_secret :: bytes
  sv_transient_public :: bytes
  sv_client_transient_public :: bytes
  sv_cookie_key :: bytes
  sv_peer_nonce :: u64

record curve_initiate =
  ci_client_public_key :: bytes
  ci_metadata :: zmtp_metadata

definition server_session :: "curve_server \<Rightarrow> curve_session" where
  "server_session h =
     \<lparr>cs_local_transient_secret = sv_transient_secret h, cs_peer_transient_public = sv_client_transient_public h,
      cs_send_nonce = 1, cs_recv_nonce = sv_peer_nonce h,
      cs_send_prefix = lit ''CurveZMQMESSAGES'', cs_recv_prefix = lit ''CurveZMQMESSAGEC''\<rparr>"

text \<open>What is checked of a HELLO before anything random is drawn: the server's secret key, the
  client's transient key and the nonce.\<close>

definition curve_hello_check ::
  "crypto \<Rightarrow> security_options \<Rightarrow> zmtp_frame \<Rightarrow> (bytes \<times> bytes \<times> u64) result" where
  "curve_hello_check C sec f =
     and_then (command_tail f (lit ''HELLO'')) (\<lambda>tail.
       if length tail \<noteq> 194 \<or> take 2 tail \<noteq> [1, 0] then Inl InvalidArgument
       else and_then (curve_option_key (sec_curve_secretkey sec)) (\<lambda>server_secret_key.
            let client_transient_public = slice 74 106 tail;
                nonce_number = word_of_nat (from_be (slice 106 114 tail))
            in and_then (curve_box_decrypt C (slice 114 194 tail) (curve_nonce (lit ''CurveZMQHELLO---'') nonce_number)
                   client_transient_public server_secret_key) (\<lambda>plaintext.
                 if plaintext \<noteq> replicate 64 0 then Inl InvalidArgument
                 else Inr (server_secret_key, client_transient_public, nonce_number))))"

definition parse_curve_hello ::
  "crypto \<Rightarrow> security_options \<Rightarrow> zmtp_frame \<Rightarrow> (bytes, error, curve_server) comp" where
  "parse_curve_hello C sec f =
     bnd (lift (curve_hello_check C sec f)) (\<lambda>(server_secret_key, client_transient_public, nonce_number).
     bnd (fill_random 32) (\<lambda>transient_secret.
     bnd (fill_random 32) (\<lambda>cookie_key.
       ret \<lparr>sv_server_public_key = curve_public_from_secret C server_secret_key,
            sv_server_secret_key = server_secret_key, sv_transient_secret = transient_secret,
            sv_transient_public = curve_public_from_secret C transient_secret,
            sv_client_transient_public = client_transient_public, sv_cookie_key = cookie_key,
            sv_peer_nonce = nonce_number\<rparr>)))"

definition curve_welcome_body ::
  "crypto \<Rightarrow> security_options \<Rightarrow> curve_server \<Rightarrow> (bytes, error, bytes) comp" where
  "curve_welcome_body C sec h =
     bnd (fill_random 16) (\<lambda>cookie_nonce_tail.
     bnd (lift (and_then (curve_secretbox_encrypt C (sv_client_transient_public h @ sv_transient_secret h)
                   (curve_long_nonce (lit ''COOKIE--'') cookie_nonce_tail) (sv_cookie_key h))
                 (\<lambda>b. if length b \<noteq> 80 then Inl InvalidArgument else Inr b))) (\<lambda>cookie_box.
     bnd (fill_random 16) (\<lambda>welcome_nonce_tail.
     bnd (lift (curve_option_key (sec_curve_secretkey sec))) (\<lambda>server_secret_key.
     bnd (lift (and_then (curve_box_encrypt C (sv_transient_public h @ cookie_nonce_tail @ cookie_box)
                   (curve_long_nonce (lit ''WELCOME-'') welcome_nonce_tail) (sv_client_transient_public h) server_secret_key)
                 (\<lambda>b. if length b \<noteq> 144 then Inl InvalidArgument else Inr b))) (\<lambda>welcome_box.
       ret (command_body (lit ''WELCOME'') (welcome_nonce_tail @ welcome_box)))))))"

definition curve_initiate_open :: "crypto \<Rightarrow> bytes \<Rightarrow> curve_server \<Rightarrow> curve_initiate result" where
  "curve_initiate_open C boxed h =
     and_then (curve_box_decrypt C boxed (curve_nonce (lit ''CurveZMQINITIATE'') (sv_peer_nonce h))
         (sv_client_transient_public h) (sv_transient_secret h)) (\<lambda>plaintext.
       if length plaintext < 128 then Inl InvalidArgument
       else let client_public_key = take 32 plaintext
            in and_then (curve_box_decrypt C (slice 48 128 plaintext)
                   (curve_long_nonce (lit ''VOUCH---'') (slice 32 48 plaintext)) client_public_key (sv_transient_secret h))
                 (\<lambda>vouch_plaintext.
                    if length vouch_plaintext \<noteq> 64 \<or> take 32 vouch_plaintext \<noteq> sv_client_transient_public h
                       \<or> slice 32 64 vouch_plaintext \<noteq> sv_server_public_key h then Inl InvalidArgument
                    else map_ok (\<lambda>m. \<lparr>ci_client_public_key = client_public_key, ci_metadata = m\<rparr>)
                           (decode_properties (drop 128 plaintext))))"

definition parse_curve_initiate :: "crypto \<Rightarrow> zmtp_frame \<Rightarrow> (curve_server, error, curve_initiate) comp" where
  "parse_curve_initiate C f h =
     (case and_then (command_tail f (lit ''INITIATE'')) (\<lambda>tail.
        if length tail < 248 then Inl InvalidArgument
        else and_then (curve_secretbox_decrypt C (slice 16 96 tail)
               (curve_long_nonce (lit ''COOKIE--'') (take 16 tail)) (sv_cookie_key h)) (\<lambda>cookie_plaintext.
             if length cookie_plaintext \<noteq> 64 \<or> take 32 cookie_plaintext \<noteq> sv_client_transient_public h
                \<or> slice 32 64 cookie_plaintext \<noteq> sv_transient_secret h then Inl InvalidArgument
             else Inr tail)) of
        Inl e \<Rightarrow> (Inl e, h)
      | Inr tail \<Rightarrow>
          let nonce_number = word_of_nat (from_be (slice 96 104 tail))
          in if nonce_number \<le> sv_peer_nonce h then (Inl InvalidArgument, h)
             else let h1 = h\<lparr>sv_peer_nonce := nonce_number\<rparr>
                  in (curve_initiate_open C (drop 104 tail) h1, h1))"

definition authorize_curve :: "security_options \<Rightarrow> bytes \<Rightarrow> unit result" where
  "authorize_curve sec public_key =
     (if sec_curve_publickey sec \<noteq> [] then
        and_then (curve_option_key (sec_curve_publickey sec)) (\<lambda>expected.
          if expected \<noteq> public_key then Inl InvalidArgument else Inr ())
      else Inr ())"

definition curve_ready_body :: "crypto \<Rightarrow> socket_type \<Rightarrow> bytes \<Rightarrow> (curve_session, error, bytes) comp" where
  "curve_ready_body C t identity s =
     (case session_next_send_nonce s of
        (nonce_number, s1) \<Rightarrow>
          (map_ok (\<lambda>ciphertext. command_body (lit ''READY'') (to_be 8 (unat nonce_number) @ ciphertext))
             (curve_box_encrypt C (socket_type_metadata_with_identity t identity)
                (curve_nonce (lit ''CurveZMQREADY---'') nonce_number) (cs_peer_transient_public s1)
                (cs_local_transient_secret s1)), s1))"


section \<open>What the ciphers promise\<close>

text \<open>
  The documented behaviour of the boxes, for keys of 32 bytes and nonces of 24: a box made with the
  recipient's public and the sender's secret key is 16 bytes longer than its content and opens with
  the sender's public and the recipient's secret key; the same with the tag apart; a sealed box opens
  with its key.
\<close>

definition crypto_laws :: "crypto \<Rightarrow> bool" where
  "crypto_laws C \<longleftrightarrow>
     (\<forall>s. length s = 32 \<longrightarrow> length (cr_public C s) = 32)
   \<and> (\<forall>a b n m. length a = 32 \<longrightarrow> length b = 32 \<longrightarrow> length n = 24 \<longrightarrow>
        (\<exists>c. cr_box C (cr_public C b) a n m = Some c \<and> length c = length m + 16
           \<and> cr_open C (cr_public C a) b n c = Some m))
   \<and> (\<forall>a b n m. length a = 32 \<longrightarrow> length b = 32 \<longrightarrow> length n = 24 \<longrightarrow>
        (\<exists>t c. cr_box_detached C (cr_public C b) a n m = Some (t, c) \<and> length t = 16 \<and> length c = length m
           \<and> cr_open_detached C (cr_public C a) b n t c = Some m))
   \<and> (\<forall>k n m. length k = 32 \<longrightarrow> length n = 24 \<longrightarrow>
        (\<exists>c. cr_seal C k n m = Some c \<and> length c = length m + 16 \<and> cr_unseal C k n c = Some m))"

lemma crypto_public: "crypto_laws C \<Longrightarrow> length s = 32 \<Longrightarrow> length (cr_public C s) = 32"
  by (simp add: crypto_laws_def)

lemma crypto_box:
  assumes "crypto_laws C" "length a = 32" "length b = 32" "length n = 24"
  obtains c where "cr_box C (cr_public C b) a n m = Some c" "length c = length m + 16"
    "cr_open C (cr_public C a) b n c = Some m"
proof -
  have "\<exists>c. cr_box C (cr_public C b) a n m = Some c \<and> length c = length m + 16 \<and> cr_open C (cr_public C a) b n c = Some m"
    using assms unfolding crypto_laws_def by simp
  then show ?thesis
    using that by blast
qed

lemma crypto_box_detached:
  assumes "crypto_laws C" "length a = 32" "length b = 32" "length n = 24"
  obtains t c where "cr_box_detached C (cr_public C b) a n m = Some (t, c)" "length t = 16" "length c = length m"
    "cr_open_detached C (cr_public C a) b n t c = Some m"
proof -
  have "\<exists>t c. cr_box_detached C (cr_public C b) a n m = Some (t, c) \<and> length t = 16 \<and> length c = length m
      \<and> cr_open_detached C (cr_public C a) b n t c = Some m"
    using assms unfolding crypto_laws_def by simp
  then show ?thesis
    using that by blast
qed

lemma crypto_seal:
  assumes "crypto_laws C" "length k = 32" "length n = 24"
  obtains c where "cr_seal C k n m = Some c" "length c = length m + 16" "cr_unseal C k n c = Some m"
proof -
  have "\<exists>c. cr_seal C k n m = Some c \<and> length c = length m + 16 \<and> cr_unseal C k n c = Some m"
    using assms unfolding crypto_laws_def by simp
  then show ?thesis
    using that by blast
qed

text \<open>A cipher without secrecy that keeps the laws.\<close>

definition plain_crypto :: crypto where
  "plain_crypto =
     \<lparr>cr_public = id, cr_box = (\<lambda>_ _ _ m. Some (replicate 16 0 @ m)), cr_open = (\<lambda>_ _ _ c. Some (drop 16 c)),
      cr_box_detached = (\<lambda>_ _ _ m. Some (replicate 16 0, m)), cr_open_detached = (\<lambda>_ _ _ _ c. Some c),
      cr_seal = (\<lambda>_ _ m. Some (replicate 16 0 @ m)), cr_unseal = (\<lambda>_ _ c. Some (drop 16 c))\<rparr>"

lemma plain_crypto_laws: "crypto_laws plain_crypto"
  by (simp add: crypto_laws_def plain_crypto_def)


section \<open>The message channel\<close>

lemma length_curve_nonce: "length pre = 16 \<Longrightarrow> length (curve_nonce pre n) = 24"
  by (simp add: curve_nonce_def)

lemma nonce_bytes: "word_of_nat (from_be (to_be 8 (unat (n :: u64)))) = n"
proof -
  have "unat n < 256 ^ 8"
    using unsigned_less [of n] by simp
  then show ?thesis
    by (simp add: from_be_to_be_id)
qed

lemma unat_max: "unat (- 1 :: u64) = 2 ^ 64 - 1"
  by (simp add: unsigned_minus_1_eq_mask mask_eq_exp_minus_1)

lemma unat_next:
  assumes "(n :: u64) \<noteq> - 1"
  shows "unat (n + 1) = unat n + 1"
proof -
  have "unat n \<noteq> 2 ^ 64 - 1"
    using assms by (metis word_unat_eq_iff unat_max)
  moreover have "unat n < 2 ^ 64"
    using unsigned_less [of n] by simp
  ultimately show ?thesis
    by (simp add: unat_word_ariths(1))
qed

lemma less_next: "n \<noteq> - 1 \<Longrightarrow> (n :: u64) < n + 1"
  by (simp add: word_less_nat_alt unat_next)

text \<open>One direction of a connection: what the sender boxes, the receiver opens, and the receiver's
  nonce is behind.\<close>

definition matched :: "crypto \<Rightarrow> curve_session \<Rightarrow> curve_session \<Rightarrow> bool" where
  "matched C a b \<longleftrightarrow>
     length (cs_local_transient_secret a) = 32 \<and> length (cs_local_transient_secret b) = 32
     \<and> cs_peer_transient_public a = cr_public C (cs_local_transient_secret b)
     \<and> cs_peer_transient_public b = cr_public C (cs_local_transient_secret a)
     \<and> cs_recv_prefix b = cs_send_prefix a \<and> length (cs_send_prefix a) = 16
     \<and> cs_recv_nonce b < cs_send_nonce a"

lemma more_byte: "(of_bool b :: byte) AND NOT 1 = 0" "((of_bool b :: byte) AND 1 \<noteq> 0) = b"
  by (cases b; simp)+

lemma slice_message: "slice (Suc 0) 8 (x # lit ''MESSAGE'' @ r) = lit ''MESSAGE''"
  by (simp add: slice_def)

lemma curve_tail_body: "curve_message_tail (curve_message_body n c) = Inr (to_be 8 (unat n) @ c)"
  by (simp add: curve_message_tail_def curve_message_body_def slice_message)

lemma curve_transfer_one:
  assumes C: "crypto_laws C" and m: "matched C a b" and n: "cs_send_nonce a \<noteq> - 1" and d: "length d < 2 ^ 62"
  obtains frame body a' b' where "curve_message_frame C d more_flag a = (Inr frame, a')"
    "decode_v3 frame = Inr \<lparr>fr_body = body, fr_more = False, fr_command = False\<rparr>"
    "curve_message_from_body C body b = (Inr (set_more more_flag (message_from_vec d)), b')"
    "matched C a' b'" "cs_send_nonce a' = cs_send_nonce a + 1"
    "frame = encode_v3 (frame_message body)" "length body = length d + 33"
proof -
  let ?N = "cs_send_nonce a" and ?m = "of_bool more_flag # d"
  obtain t c where c: "cr_box_detached C (cr_public C (cs_local_transient_secret b)) (cs_local_transient_secret a)
      (curve_nonce (cs_send_prefix a) ?N) ?m = Some (t, c)" "length t = 16" "length c = length d + 1"
    and o: "cr_open_detached C (cr_public C (cs_local_transient_secret a)) (cs_local_transient_secret b)
      (curve_nonce (cs_send_prefix a) ?N) t c = Some ?m"
    by (rule crypto_box_detached [OF C, of "cs_local_transient_secret a" "cs_local_transient_secret b"
          "curve_nonce (cs_send_prefix a) ?N" ?m])
      (use m in \<open>auto simp: matched_def length_curve_nonce\<close>)
  let ?body = "curve_message_body ?N (t @ c)"
  let ?frame = "encode_v3 (frame_message ?body)"
  have body: "length ?body = 16 + length (t @ c)"
    by (simp add: curve_message_body_def)
  have "curve_message_frame C d more_flag a = (Inr ?frame, a\<lparr>cs_send_nonce := ?N + 1\<rparr>)"
    using m n c(1) body
    by (simp add: curve_message_frame_def session_next_send_nonce_def curve_message_encrypt_def matched_def
        next_nonce_def encode_v3_def encode_with_command_bit_def frame_message_def Let_def ZMTP_FLAG_LONG_def)
  moreover have "decode_v3 ?frame = Inr \<lparr>fr_body = ?body, fr_more = False, fr_command = False\<rparr>"
    using decode_encode_frame [of "frame_message ?body" True] body c d
    by (simp add: decode_v3_def encode_v3_def frame_message_def)
  moreover have "curve_message_from_body C ?body b =
      (Inr (set_more more_flag (message_from_vec d)), b\<lparr>cs_recv_nonce := ?N\<rparr>)"
    using m c o
    by (simp add: curve_message_from_body_def curve_tail_body nonce_bytes Let_def curve_message_decrypt_def matched_def
        more_byte flip: not_less)
  moreover have "matched C (a\<lparr>cs_send_nonce := ?N + 1\<rparr>) (b\<lparr>cs_recv_nonce := ?N\<rparr>)"
    using m n by (simp add: matched_def less_next)
  moreover have "length ?body = length d + 33"
    using body c by simp
  ultimately show ?thesis
    using that by simp
qed


text \<open>A sequence of messages from one session to the other, each framed, decoded and opened.\<close>

fun curve_transfer ::
  "crypto \<Rightarrow> (bytes \<times> bool) list \<Rightarrow> curve_session \<Rightarrow> curve_session \<Rightarrow> message list result" where
  "curve_transfer C [] a b = Inr []"
| "curve_transfer C ((d, has_more) # xs) a b =
     (case curve_message_frame C d has_more a of
        (Inl e, _) \<Rightarrow> Inl e
      | (Inr frame, a1) \<Rightarrow>
          and_then (decode_v3 frame) (\<lambda>f.
            case curve_message_from_body C (fr_body f) b of
              (Inl e, _) \<Rightarrow> Inl e
            | (Inr m, b1) \<Rightarrow> map_ok ((#) m) (curve_transfer C xs a1 b1)))"

text \<open>
  Messages cross a CURVE session unchanged. Between two sessions whose keys and prefixes belong
  together, any sequence of messages sent from one is received at the other complete, in order,
  with every payload and more flag as sent, for as long as the 64-bit nonce has not run out.
\<close>

theorem curve_channel_delivers:
  assumes "crypto_laws C" and "matched C a b"
    and "\<forall>(d, has_more) \<in> set xs. length d < 2 ^ 62" and "unat (cs_send_nonce a) + length xs < 2 ^ 64"
  shows "curve_transfer C xs a b = Inr (map (\<lambda>(d, has_more). set_more has_more (message_from_vec d)) xs)"
  using assms(2-4)
proof (induction xs arbitrary: a b)
  case (Cons x xs)
  obtain d has_more where x: "x = (d, has_more)"
    by (cases x)
  have n: "cs_send_nonce a \<noteq> - 1"
    using Cons.prems(3) unat_max by auto
  have d: "length d < 2 ^ 62"
    using Cons.prems(2) x by simp
  obtain frame body a' b' where
    t: "curve_message_frame C d has_more a = (Inr frame, a')"
    "decode_v3 frame = Inr \<lparr>fr_body = body, fr_more = False, fr_command = False\<rparr>"
    "curve_message_from_body C body b = (Inr (set_more has_more (message_from_vec d)), b')"
    "matched C a' b'" "cs_send_nonce a' = cs_send_nonce a + 1"
    "frame = encode_v3 (frame_message body)" "length body = length d + 33"
    by (rule curve_transfer_one [OF assms(1) Cons.prems(1) n d])
  have "unat (cs_send_nonce a') + length xs < 2 ^ 64"
    using Cons.prems(3) t(5) unat_next [OF n] by simp
  then have "curve_transfer C xs a' b' = Inr (map (\<lambda>(d, has_more). set_more has_more (message_from_vec d)) xs)"
    using Cons.IH [OF t(4)] Cons.prems(2) by simp
  with t show ?case
    by (simp add: x)
qed simp

definition session_example :: "byte \<Rightarrow> byte \<Rightarrow> u64 \<Rightarrow> u64 \<Rightarrow> bool \<Rightarrow> curve_session" where
  "session_example x y sent received client =
     \<lparr>cs_local_transient_secret = replicate 32 x, cs_peer_transient_public = replicate 32 y,
      cs_send_nonce = sent, cs_recv_nonce = received,
      cs_send_prefix = (if client then lit ''CurveZMQMESSAGEC'' else lit ''CurveZMQMESSAGES''),
      cs_recv_prefix = (if client then lit ''CurveZMQMESSAGES'' else lit ''CurveZMQMESSAGEC'')\<rparr>"

theorem curve_channel_delivers_witness:
  "curve_transfer plain_crypto [([1, 2], True), ([], False)] (session_example 1 2 3 1 True) (session_example 2 1 2 2 False) =
     Inr [set_more True (message_from_vec [1, 2]), set_more False (message_from_vec [])]"
proof -
  have "matched plain_crypto (session_example 1 2 3 1 True) (session_example 2 1 2 2 False)"
    by (simp add: matched_def session_example_def plain_crypto_def)
  from curve_channel_delivers [OF plain_crypto_laws this, of "[([1, 2], True), ([], False)]"] show ?thesis
    by (simp add: session_example_def)
qed


section \<open>Replays\<close>

lemma recv_nonce_grows: "cs_recv_nonce s \<le> cs_recv_nonce (snd (curve_message_from_body C body s))"
  by (auto simp: curve_message_from_body_def Let_def not_le split: sum.split)

lemma recv_nonce_run:
  "cs_recv_nonce s \<le> cs_recv_nonce (fold (\<lambda>body s. snd (curve_message_from_body C body s)) bodies s)"
  by (induction bodies arbitrary: s) (auto intro: order_trans [OF recv_nonce_grows])

text \<open>The number in a message body that has one.\<close>

definition body_nonce :: "bytes \<Rightarrow> u64" where
  "body_nonce body = word_of_nat (from_be (slice 8 16 body))"

lemma body_nonce_tail: "curve_message_tail body = Inr tail \<Longrightarrow> word_of_nat (from_be (take 8 tail)) = body_nonce body"
  by (auto simp: curve_message_tail_def body_nonce_def slice_def split: if_splits)

lemma accepted_nonce:
  assumes "curve_message_from_body C body s = (Inr m, s')"
  shows "cs_recv_nonce s' = body_nonce body"
  using assms body_nonce_tail [of body]
  by (auto simp: curve_message_from_body_def Let_def split: sum.splits if_splits)

lemma old_nonce_refused:
  assumes "body_nonce body \<le> cs_recv_nonce s"
  shows "curve_message_from_body C body s = (Inl InvalidArgument, s)"
  using assms body_nonce_tail [of body]
  by (auto simp: curve_message_from_body_def curve_message_tail_def Let_def split: sum.splits)

text \<open>
  C6. The nonces of accepted messages grow. Once a CURVE session has accepted a message body it refuses, for
  ever and without changing, every body whose nonce is not greater, the accepted body itself among them,
  whatever other bodies, genuine or not, it was given in between.
\<close>

theorem curve_no_replay:
  assumes "curve_message_from_body C body s = (Inr m, s1)"
    and "s2 = fold (\<lambda>body s. snd (curve_message_from_body C body s)) bodies s1"
    and "body_nonce body' \<le> body_nonce body"
  shows "curve_message_from_body C body' s2 = (Inl InvalidArgument, s2)"
proof (rule old_nonce_refused)
  show "body_nonce body' \<le> cs_recv_nonce s2"
    using accepted_nonce [OF assms(1)] recv_nonce_run [of s1 C bodies] assms(2,3) by simp
qed

text \<open>Body 5 is accepted; then body 3, which was never seen, and body 5 are refused.\<close>

theorem curve_no_replay_witness:
  "\<exists>m s1. curve_message_from_body plain_crypto (curve_message_body 5 (replicate 16 0 @ [0, 7])) (session_example 2 1 2 2 False) = (Inr m, s1)
    \<and> curve_message_from_body plain_crypto (curve_message_body 3 (replicate 16 0 @ [0, 9])) s1 = (Inl InvalidArgument, s1)
    \<and> curve_message_from_body plain_crypto (curve_message_body 5 (replicate 16 0 @ [0, 7])) s1 = (Inl InvalidArgument, s1)"
proof -
  obtain m s1 where a:
    "curve_message_from_body plain_crypto (curve_message_body 5 (replicate 16 0 @ [0, 7])) (session_example 2 1 2 2 False) = (Inr m, s1)"
    using nonce_bytes [of 5]
    by (simp add: curve_message_from_body_def curve_tail_body Let_def curve_message_decrypt_def plain_crypto_def
        session_example_def)
  have "body_nonce (curve_message_body 3 c) \<le> body_nonce (curve_message_body 5 c')" for c c'
    using body_nonce_tail [OF curve_tail_body, of 3 c] body_nonce_tail [OF curve_tail_body, of 5 c'] nonce_bytes [of 3] nonce_bytes [of 5]
    by simp
  with curve_no_replay [OF a, of s1 "[]"] a show ?thesis
    by auto
qed

end
