(* ===== verification/Curve_Handshake.thy ===== *)
theory Curve_Handshake
  imports Curve
begin

text \<open>
  The CURVE handshake between an honest client and an honest server, one lemma per command: what the
  one side builds, the other side accepts, and the state both are in afterwards.
\<close>

section \<open>The handshake step by step\<close>

lemma curve_option_key_length: "curve_option_key v = Inr k \<Longrightarrow> length k = 32"
  by (auto simp: curve_option_key_def and_then_Inr split: if_splits)

lemma fill_random_ok: "n \<le> length e \<Longrightarrow> fill_random n e = (Inr (take n e), drop n e)"
  by (simp add: fill_random_def)

text \<open>The keys of an honest pair: the client's secret \<open>S\<close>, the server's secret \<open>K\<close>.\<close>

definition curve_keys :: "crypto \<Rightarrow> security_options \<Rightarrow> security_options \<Rightarrow> bytes \<Rightarrow> bytes \<Rightarrow> bool" where
  "curve_keys C csec ssec S K \<longleftrightarrow>
     curve_option_key (sec_curve_secretkey csec) = Inr S
     \<and> (sec_curve_publickey csec = [] \<or> curve_option_key (sec_curve_publickey csec) = Inr (cr_public C S))
     \<and> curve_option_key (sec_curve_serverkey csec) = Inr (cr_public C K)
     \<and> curve_option_key (sec_curve_secretkey ssec) = Inr K"

definition client_start :: "crypto \<Rightarrow> bytes \<Rightarrow> bytes \<Rightarrow> bytes \<Rightarrow> curve_client" where
  "client_start C S K T =
     \<lparr>cc_public_key = cr_public C S, cc_secret_key = S, cc_server_key = cr_public C K, cc_transient_secret = T,
      cc_transient_public = cr_public C T, cc_server_transient_public = None, cc_cookie = None,
      cc_send_nonce = 1, cc_recv_nonce = 0\<rparr>"

definition server_start :: "crypto \<Rightarrow> bytes \<Rightarrow> bytes \<Rightarrow> bytes \<Rightarrow> bytes \<Rightarrow> curve_server" where
  "server_start C K T U Y =
     \<lparr>sv_server_public_key = cr_public C K, sv_server_secret_key = K, sv_transient_secret = U,
      sv_transient_public = cr_public C U, sv_client_transient_public = cr_public C T, sv_cookie_key = Y,
      sv_peer_nonce = 1\<rparr>"

lemma client_new_ok:
  assumes "curve_keys C csec ssec S K" "32 \<le> length ec"
  shows "curve_client_new C csec ec = (Inr (client_start C S K (take 32 ec)), drop 32 ec)"
  using assms
  by (auto simp: curve_keys_def curve_client_new_def client_start_def curve_public_from_secret_def fill_random_ok)

lemma slice_append_right: "length xs \<le> a \<Longrightarrow> slice a b (xs @ ys) = slice (a - length xs) (b - length xs) ys"
  by (simp add: slice_def)

lemma slice_append_exact: "length xs = n \<Longrightarrow> slice 0 n (xs @ ys) = xs"
  by (simp add: slice_def)

lemma hello_step:
  assumes C: "crypto_laws C" and keys: "curve_keys C csec ssec S K" and T: "length T = 32" and es: "64 \<le> length es"
  obtains body where "hello_body C (client_start C S K T) = (Inr body, (client_start C S K T)\<lparr>cc_send_nonce := 2\<rparr>)"
    "length body = 200"
    "parse_curve_hello C ssec (frame_command body) es =
       (Inr (server_start C K T (take 32 es) (take 32 (drop 32 es))), drop 64 es)"
proof -
  have K: "length K = 32" "curve_option_key (sec_curve_secretkey ssec) = Inr K"
    using keys curve_option_key_length by (auto simp: curve_keys_def)
  let ?n = "curve_nonce (lit ''CurveZMQHELLO---'') 1" and ?z = "replicate 64 (0 :: byte)"
  obtain sig where sig: "cr_box C (cr_public C K) T ?n ?z = Some sig" "length sig = length ?z + 16"
    "cr_open C (cr_public C T) K ?n sig = Some ?z"
    by (rule crypto_box [OF C T K(1), of ?n ?z]) (simp_all add: curve_nonce_def)
  let ?tail = "[1, 0] @ replicate 72 0 @ cr_public C T @ to_be 8 (unat (1 :: u64)) @ sig"
  have p: "length (cr_public C T) = 32"
    using C T by (rule crypto_public)
  have h: "hello_body C (client_start C S K T) =
      (Inr (command_body (lit ''HELLO'') ?tail), (client_start C S K T)\<lparr>cc_send_nonce := 2\<rparr>)"
    using sig by (simp add: hello_body_def client_next_send_nonce_def client_start_def next_nonce_def curve_box_encrypt_def)
  have tail: "length ?tail = 194" "slice 74 106 ?tail = cr_public C T" "slice 106 114 ?tail = to_be 8 (unat (1 :: u64))"
    "slice 114 194 ?tail = sig" "take 2 ?tail = [1, 0]"
    using p sig by (simp_all add: slice_def)
  have "curve_hello_check C ssec (frame_command (command_body (lit ''HELLO'') ?tail)) = Inr (K, cr_public C T, 1)"
    using tail K sig nonce_bytes [of 1]
    by (simp add: curve_hello_check_def Let_def curve_box_decrypt_def del: append.simps append_Cons)
  then have "parse_curve_hello C ssec (frame_command (command_body (lit ''HELLO'') ?tail)) es =
      (Inr (server_start C K T (take 32 es) (take 32 (drop 32 es))), drop 64 es)"
    using es by (simp add: parse_curve_hello_def fill_random_ok server_start_def curve_public_from_secret_def)
  moreover have "length (command_body (lit ''HELLO'') ?tail) = 200"
    using tail(1) by (simp add: command_body_def)
  ultimately show ?thesis
    using h that by blast
qed


lemma welcome_step:
  assumes C: "crypto_laws C" and keys: "curve_keys C csec ssec S K" and l: "length T = 32" "length U = 32" "length Y = 32"
    and es: "32 \<le> length es"
  obtains body cookie where "curve_welcome_body C ssec (server_start C K T U Y) es = (Inr body, drop 32 es)"
    "length body = 168" "length cookie = 96"
    "\<And>c. cc_server_key c = cr_public C K \<Longrightarrow> cc_transient_secret c = T \<Longrightarrow>
       process_welcome C (frame_command body) c =
         (Inr (), c\<lparr>cc_server_transient_public := Some (cr_public C U), cc_cookie := Some cookie\<rparr>)"
    "cr_unseal C Y (curve_long_nonce (lit ''COOKIE--'') (take 16 cookie)) (drop 16 cookie) = Some (cr_public C T @ U)"
proof -
  have K: "length K = 32" "curve_option_key (sec_curve_secretkey ssec) = Inr K"
    using keys curve_option_key_length by (auto simp: curve_keys_def)
  have p: "length (cr_public C T) = 32" "length (cr_public C U) = 32"
    using C l by (auto intro: crypto_public)
  let ?a = "take 16 es" and ?b = "take 16 (drop 16 es)"
  have ab: "length ?a = 16" "length ?b = 16"
    using es by simp_all
  let ?cn = "curve_long_nonce (lit ''COOKIE--'') ?a" and ?wn = "curve_long_nonce (lit ''WELCOME-'') ?b"
  obtain cb where cb: "cr_seal C Y ?cn (cr_public C T @ U) = Some cb" "length cb = length (cr_public C T @ U) + 16"
    "cr_unseal C Y ?cn cb = Some (cr_public C T @ U)"
    by (rule crypto_seal [OF C l(3), of ?cn "cr_public C T @ U"]) (use ab in \<open>simp_all add: curve_long_nonce_def\<close>)
  let ?pt = "cr_public C U @ ?a @ cb"
  obtain wb where wb: "cr_box C (cr_public C T) K ?wn ?pt = Some wb" "length wb = length ?pt + 16"
    "cr_open C (cr_public C K) T ?wn wb = Some ?pt"
    by (rule crypto_box [OF C K(1) l(1), of ?wn ?pt]) (use ab in \<open>simp_all add: curve_long_nonce_def\<close>)
  have len: "length cb = 80" "length ?pt = 128" "length wb = 144"
    using cb wb p l ab by simp_all
  let ?body = "command_body (lit ''WELCOME'') (?b @ wb)"
  have "curve_welcome_body C ssec (server_start C K T U Y) es = (Inr ?body, drop 32 es)"
    using es cb(1) wb(1) len K(2)
    by (simp add: curve_welcome_body_def fill_random_ok server_start_def curve_secretbox_encrypt_def curve_box_encrypt_def)
  moreover have "length ?body = 168"
    using len ab by (simp add: command_body_def)
  moreover have "process_welcome C (frame_command ?body) c =
      (Inr (), c\<lparr>cc_server_transient_public := Some (cr_public C U), cc_cookie := Some (?a @ cb)\<rparr>)"
    if "cc_server_key c = cr_public C K" "cc_transient_secret c = T" for c
    using that wb(3) len ab p by (simp add: process_welcome_def curve_box_decrypt_def slice_def)
  moreover have "length (?a @ cb) = 96"
    "cr_unseal C Y (curve_long_nonce (lit ''COOKIE--'') (take 16 (?a @ cb))) (drop 16 (?a @ cb)) = Some (cr_public C T @ U)"
    using len ab cb(3) by simp_all
  ultimately show ?thesis
    using that by blast
qed

lemma initiate_step:
  assumes C: "crypto_laws C" and l: "length S = 32" "length K = 32" "length T = 32" "length U = 32" "length Y = 32"
    and ec: "16 \<le> length ec" and ident: "length identity < 256 ^ 4"
    and cookie: "length cookie = 96"
      "cr_unseal C Y (curve_long_nonce (lit ''COOKIE--'') (take 16 cookie)) (drop 16 cookie) = Some (cr_public C T @ U)"
  defines "c \<equiv> (client_start C S K T)\<lparr>cc_send_nonce := 2, cc_server_transient_public := Some (cr_public C U),
      cc_cookie := Some cookie\<rparr>"
  obtains body where "initiate_body C t identity (c, ec) = (Inr body, (c\<lparr>cc_send_nonce := 3\<rparr>, drop 16 ec))"
    "length body = 257 + length (socket_type_metadata_with_identity t identity)"
    "parse_curve_initiate C (frame_command body) (server_start C K T U Y) =
       (Inr \<lparr>ci_client_public_key = cr_public C S, ci_metadata = handshake_properties t identity\<rparr>,
        (server_start C K T U Y)\<lparr>sv_peer_nonce := 2\<rparr>)"
proof -
  let ?md = "socket_type_metadata_with_identity t identity" and ?v = "take 16 ec"
  have p: "length (cr_public C S) = 32" "length (cr_public C T) = 32" "length (cr_public C K) = 32"
    using C l by (auto intro: crypto_public)
  have v: "length ?v = 16"
    using ec by simp
  let ?vn = "curve_long_nonce (lit ''VOUCH---'') ?v" and ?n = "curve_nonce (lit ''CurveZMQINITIATE'') 2"
  let ?vp = "cr_public C T @ cr_public C K"
  obtain vb where vb: "cr_box C (cr_public C U) S ?vn ?vp = Some vb" "length vb = length ?vp + 16"
    "cr_open C (cr_public C S) U ?vn vb = Some ?vp"
    by (rule crypto_box [OF C l(1,4), of ?vn ?vp]) (use v in \<open>simp_all add: curve_long_nonce_def\<close>)
  let ?pt = "cr_public C S @ ?v @ vb @ ?md"
  obtain ib where ib: "cr_box C (cr_public C U) T ?n ?pt = Some ib" "length ib = length ?pt + 16"
    "cr_open C (cr_public C T) U ?n ib = Some ?pt"
    by (rule crypto_box [OF C l(3,4), of ?n ?pt]) (simp_all add: curve_nonce_def)
  have len: "length vb = 80" "length ib = 144 + length ?md"
    using vb ib p v by simp_all
  let ?tail = "cookie @ to_be 8 (unat (2 :: u64)) @ ib"
  let ?body = "command_body (lit ''INITIATE'') ?tail"
  have i: "initiate_body C t identity (c, ec) = (Inr ?body, (c\<lparr>cc_send_nonce := 3\<rparr>, drop 16 ec))"
    using ec vb(1) ib(1) len
    by (simp add: initiate_body_def c_def client_start_def fill_random_ok curve_box_encrypt_def client_next_send_nonce_def
        next_nonce_def)
  have tail: "length ?tail = 248 + length ?md" "slice 16 96 ?tail = drop 16 cookie" "take 16 ?tail = take 16 cookie"
    "slice 96 104 ?tail = to_be 8 (unat (2 :: u64))" "drop 104 ?tail = ib"
    using cookie(1) len by (simp_all add: slice_def)
  have pt: "take 32 ?pt = cr_public C S" "slice 32 48 ?pt = ?v" "slice 48 128 ?pt = vb" "drop 128 ?pt = ?md"
    "\<not> length ?pt < 128"
    using p v len by (simp_all add: slice_def)
  have vp: "take 32 ?vp = cr_public C T" "slice 32 64 ?vp = cr_public C K" "length ?vp = 64"
    using p by (simp_all add: slice_def)
  have "curve_initiate_open C ib ((server_start C K T U Y)\<lparr>sv_peer_nonce := 2\<rparr>) =
      Inr \<lparr>ci_client_public_key = cr_public C S, ci_metadata = handshake_properties t identity\<rparr>"
    using ib(3) vb(3) pt vp decode_handshake_properties [OF ident, of t]
    by (simp add: curve_initiate_open_def curve_box_decrypt_def server_start_def Let_def
        socket_type_metadata_with_identity_def del: length_append append_assoc take_append drop_append)
  moreover have "take 32 (cr_public C T @ U) = cr_public C T" "slice 32 64 (cr_public C T @ U) = U"
    "length (cr_public C T @ U) = 64"
    using p l by (simp_all add: slice_def)
  ultimately have "parse_curve_initiate C (frame_command ?body) (server_start C K T U Y) =
       (Inr \<lparr>ci_client_public_key = cr_public C S, ci_metadata = handshake_properties t identity\<rparr>,
        (server_start C K T U Y)\<lparr>sv_peer_nonce := 2\<rparr>)"
    using tail cookie(2) nonce_bytes [of 2]
    by (simp add: parse_curve_initiate_def curve_secretbox_decrypt_def server_start_def Let_def word_le_nat_alt
        del: length_append append_assoc take_append drop_append)
  moreover have "length ?body = 257 + length ?md"
    using tail(1) by (simp add: command_body_def)
  ultimately show ?thesis
    using i that by blast
qed

lemma ready_step:
  assumes C: "crypto_laws C" and l: "length T = 32" "length U = 32" and ident: "length identity < 256 ^ 4"
    and s: "s = server_session h" "sv_transient_secret h = U" "sv_client_transient_public h = cr_public C T"
    and c: "cc_server_transient_public c = Some (cr_public C U)" "cc_transient_secret c = T" "cc_recv_nonce c = 0"
  obtains body where "curve_ready_body C t identity s = (Inr body, s\<lparr>cs_send_nonce := 2\<rparr>)"
    "length body = 30 + length (socket_type_metadata_with_identity t identity)"
    "process_ready C (frame_command body) c = (Inr (handshake_properties t identity), c\<lparr>cc_recv_nonce := 1\<rparr>)"
proof -
  let ?md = "socket_type_metadata_with_identity t identity"
  let ?n = "curve_nonce (lit ''CurveZMQREADY---'') 1"
  obtain b where b: "cr_box C (cr_public C T) U ?n ?md = Some b" "length b = length ?md + 16"
    "cr_open C (cr_public C U) T ?n b = Some ?md"
    by (rule crypto_box [OF C l(2,1), of ?n ?md]) (simp_all add: curve_nonce_def)
  let ?body = "command_body (lit ''READY'') (to_be 8 (unat (1 :: u64)) @ b)"
  have "curve_ready_body C t identity s = (Inr ?body, s\<lparr>cs_send_nonce := 2\<rparr>)"
    using s b(1) by (simp add: curve_ready_body_def session_next_send_nonce_def server_session_def next_nonce_def
        curve_box_encrypt_def)
  moreover have "process_ready C (frame_command ?body) c = (Inr (handshake_properties t identity), c\<lparr>cc_recv_nonce := 1\<rparr>)"
    using c b nonce_bytes [of 1] decode_handshake_properties [OF ident, of t]
    by (simp add: process_ready_def curve_box_decrypt_def Let_def socket_type_metadata_with_identity_def)
  moreover have "length ?body = 30 + length ?md"
    using b(2) by (simp add: command_body_def)
  ultimately show ?thesis
    using that by blast
qed

end
