(* ===== verification/Handshake.thy ===== *)
theory Handshake
  imports Curve_Handshake Socket
begin

text \<open>
  Reading and writing ZMTP over a byte stream, the authorisation of a peer and the handshakes of
  \<open>crates/libzmq-core/src/socket.rs\<close>, for the default build. The code has these functions twice,
  for TCP and for IPC streams; here are those for TCP (\<open>*_tcp\<close>), the others are in \<open>Ipc\<close>.

  The state holds the bytes that arrive from the peer before a read gives up, the bytes written so
  far, the random supply and the context. What the operating system does enters as data: whether
  the peer closed the stream and whether a read timeout is set decide how a read of missing bytes
  ends; the bytes that were there are lost to it either way, as \<open>read_exact\<close> has copied them out.
  While a thread waits for a ZAP reply the others run: \<open>io_others\<close> lists what they do to the world
  before each poll of the inbox, up to the deadline.
\<close>

section \<open>Streams\<close>

text \<open>A read can also panic (a length no vector can have) or block for ever.\<close>

datatype fault = Fail error | Panic | Blocked

record 'w io =
  io_in :: bytes
  io_out :: bytes
  io_closed :: bool
  io_timeout :: bool
  io_entropy :: bytes
  io_world :: "'w world"
  io_others :: "('w world \<Rightarrow> 'w world) list"

definition try_err :: "'a result \<Rightarrow> ('w io, fault, 'a) comp" where
  "try_err r = lift (case r of Inl e \<Rightarrow> Inl (Fail e) | Inr x \<Rightarrow> Inr x)"

definition read_exact :: "nat \<Rightarrow> ('w io, fault, bytes) comp" where
  "read_exact n st =
     (if n \<le> length (io_in st) then (Inr (take n (io_in st)), st\<lparr>io_in := drop n (io_in st)\<rparr>)
      else (Inl (if io_closed st then Fail InvalidSocket else if io_timeout st then Fail Again else Blocked),
            st\<lparr>io_in := []\<rparr>))"

definition write_all :: "bytes \<Rightarrow> ('w io, fault, unit) comp" where
  "write_all bs = modify (\<lambda>st. st\<lparr>io_out := io_out st @ bs\<rparr>)"

definition set_read_timeout :: "bool \<Rightarrow> ('w io, fault, unit) comp" where
  "set_read_timeout b = modify (\<lambda>st. st\<lparr>io_timeout := b\<rparr>)"

definition with_entropy :: "(bytes, error, 'a) comp \<Rightarrow> ('w io, fault, 'a) comp" where
  "with_entropy f st =
     (case f (io_entropy st) of
        (Inl e, r) \<Rightarrow> (Inl (Fail e), st\<lparr>io_entropy := r\<rparr>) | (Inr x, r) \<Rightarrow> (Inr x, st\<lparr>io_entropy := r\<rparr>))"

text \<open>A vector holds at most \<open>isize::MAX\<close> bytes.\<close>

definition ISIZE_MAX :: nat where
  "ISIZE_MAX = 2 ^ 63 - 1"

definition read_body_len :: "byte \<Rightarrow> ('w io, fault, nat) comp" where
  "read_body_len flags =
     (if flags AND 2 \<noteq> 0 then bnd (read_exact 8) (\<lambda>len. ret (from_be len))
      else bnd (read_exact 1) (\<lambda>len. ret (unat (len ! 0))))"

text \<open>
  \<open>with_capacity\<close>, \<open>resize\<close> and the slice: a sum above \<open>isize::MAX\<close> is a capacity overflow, and one
  that wraps leaves a vector shorter than the slice's start.
\<close>

definition read_zmtp_frame_bytes :: "('w io, fault, bytes) comp" where
  "read_zmtp_frame_bytes =
     bnd (read_exact 1) (\<lambda>flags.
     bnd (read_body_len (flags ! 0)) (\<lambda>body_len.
       let long = (flags ! 0 AND 2 \<noteq> 0);
           header = (if long then flags @ to_be 8 body_len else flags @ [word_of_nat body_len])
       in if length header + body_len > ISIZE_MAX then throw Panic
          else bnd (read_exact body_len) (\<lambda>body. ret (header @ body))))"

definition read_zmtp_frame :: "('w io, fault, zmtp_frame) comp" where
  "read_zmtp_frame = bnd read_zmtp_frame_bytes (\<lambda>encoded. try_err (decode_v3 encoded))"

definition read_zmtp_frame_body :: "('w io, fault, bytes) comp" where
  "read_zmtp_frame_body =
     bnd (read_exact 1) (\<lambda>flags.
     bnd (read_body_len (flags ! 0)) (\<lambda>body_len.
       if body_len > ISIZE_MAX then throw Panic else read_exact body_len))"

definition write_command :: "bytes \<Rightarrow> ('w io, fault, unit) comp" where
  "write_command body = write_all (encode_v3 (frame_command body))"


section \<open>Greetings\<close>

definition read_zmtp_greeting :: "('w io, fault, unit) comp" where
  "read_zmtp_greeting = bnd (read_exact 64) (\<lambda>g. try_err (map_ok (\<lambda>_. ()) (greeting_decode g)))"

definition read_zmtp_greeting_tail :: "('w io, fault, unit) comp" where
  "read_zmtp_greeting_tail = bnd (read_exact 54) (\<lambda>_. ret ())"

definition read_zmtp_peer_greeting_prefix :: "('w io, fault, bool) comp" where
  "read_zmtp_peer_greeting_prefix =
     bnd (read_exact 10) (\<lambda>p.
       if p ! 0 = 0xFF \<and> p ! 9 = 0x7F then ret True
       else if p ! 0 = 3 \<and> slice 2 6 p = lit ''NULL'' then ret True
       else throw (Fail InvalidArgument))"


section \<open>Authorisation through ZAP\<close>

abbreviation ZAP_ENDPOINT :: bytes where
  "ZAP_ENDPOINT \<equiv> lit ''zeromq.zap.01''"

fun zap_messages :: "u32 \<Rightarrow> bytes list \<Rightarrow> message list" where
  "zap_messages rid [] = []"
| "zap_messages rid (f # fs) = set_more (fs \<noteq> []) (set_routing_id rid (message_from_vec f)) # zap_messages rid fs"

definition send_zap_request :: "ref \<Rightarrow> u64 \<Rightarrow> bytes list \<Rightarrow> 'w world \<Rightarrow> 'w world" where
  "send_zap_request e peer frames w =
     fold (push_back (ep_binder_inbox (endpoints w e))) (zap_messages (ucast peer) frames) w"

fun wait_zap_reply ::
  "ref \<Rightarrow> bytes list \<Rightarrow> ('w world \<Rightarrow> 'w world) list \<Rightarrow> 'w world \<Rightarrow> zap_reply result \<times> 'w world" where
  "wait_zap_reply inbox frames [] w = (Inl Again, w)"
| "wait_zap_reply inbox frames (others # rest) w =
     (case pop_front inbox (others w) of
        (None, w1) \<Rightarrow> wait_zap_reply inbox frames rest w1
      | (Some m, w1) \<Rightarrow>
          if msg_more m then wait_zap_reply inbox (frames @ [data m]) rest w1
          else (zap_reply_decode (frames @ [data m]), w1))"

definition authorize_via_zap ::
  "security_options \<Rightarrow> bytes \<Rightarrow> bytes list \<Rightarrow> ('w world \<Rightarrow> 'w world) list \<Rightarrow> ('w world, error, unit) comp" where
  "authorize_via_zap sec mech credentials others w =
     (case next_transient_socket_id w of
        (peer, w1) \<Rightarrow>
          (case alloc_cells w1 of
             (r, w2) \<Rightarrow>
               (case connect_inproc ZAP_ENDPOINT peer r Req r w2 of
                  (Inl e, w3) \<Rightarrow> (Inl e, w3)
                | (Inr None, w3) \<Rightarrow> (Inl Again, w3)
                | (Inr (Some e), w3) \<Rightarrow>
                    let request = zap_request_new (dec (unat peer)) (sec_zap_domain sec) [] [] mech credentials;
                        w4 = send_zap_request e peer (zap_request_encode request) w3
                    in (case wait_zap_reply r [] others w4 of
                          (reply, w5) \<Rightarrow>
                            (and_then reply (\<lambda>z. if starts_with (lit ''2'') (zrp_status_code z) then Inr ()
                                                 else Inl InvalidArgument),
                             snd (disconnect_inproc ZAP_ENDPOINT peer w5))))))"

text \<open>The common shape of the three mechanisms: ask the ZAP handler if there is one, else decide locally.\<close>

definition authorize_peer ::
  "security_options \<Rightarrow> bytes \<Rightarrow> bytes list \<Rightarrow> unit result \<Rightarrow> ('w io, fault, unit) comp" where
  "authorize_peer sec mech credentials local_answer st =
     (if inproc_endpoint_of ZAP_ENDPOINT (io_world st) \<noteq> None then
        (case authorize_via_zap sec mech credentials (io_others st) (io_world st) of
           (r, w) \<Rightarrow> (case r of Inl e \<Rightarrow> Inl (Fail e) | Inr x \<Rightarrow> Inr x, st\<lparr>io_world := w\<rparr>))
      else try_err local_answer st)"


section \<open>The mechanisms\<close>

record handshake_result =
  hr_peer_greeting_done :: bool
  hr_peer_ready :: bool
  hr_peer_identity :: "bytes option"
  hr_curve_session :: "curve_session option"

definition peer_identity_of :: "zmtp_metadata \<Rightarrow> bytes option" where
  "peer_identity_of m = metadata_get m (lit ''Identity'')"

definition handshake_done :: "bytes option \<Rightarrow> curve_session option \<Rightarrow> handshake_result" where
  "handshake_done identity session =
     \<lparr>hr_peer_greeting_done = False, hr_peer_ready = True, hr_peer_identity = identity, hr_curve_session = session\<rparr>"

definition write_plain_handshake ::
  "socket_type \<Rightarrow> bool \<Rightarrow> security_options \<Rightarrow> bytes \<Rightarrow> ('w io, fault, handshake_result) comp" where
  "write_plain_handshake t as_server sec routing_id =
     (if as_server then
        bnd read_zmtp_frame (\<lambda>f1.
        bnd (try_err (parse_plain_hello f1)) (\<lambda>credentials.
        bnd (authorize_peer sec (lit ''PLAIN'') [pc_username credentials, pc_password credentials]
               (authorize_plain sec credentials)) (\<lambda>_.
        bnd (write_command (command_body (lit ''WELCOME'') [])) (\<lambda>_.
        bnd read_zmtp_frame (\<lambda>f2.
        bnd (try_err (parse_plain_initiate f2)) (\<lambda>peer_metadata.
        bnd (write_command (ready_command_body_with_identity t routing_id)) (\<lambda>_.
          ret (handshake_done (peer_identity_of peer_metadata) None))))))))
      else
        bnd (write_command (plain_hello_body sec)) (\<lambda>_.
        bnd read_zmtp_frame (\<lambda>f1.
        bnd (try_err (expect_command f1 (lit ''WELCOME''))) (\<lambda>_.
        bnd (write_command (plain_initiate_body t routing_id)) (\<lambda>_.
          ret \<lparr>hr_peer_greeting_done = False, hr_peer_ready = False, hr_peer_identity = None,
               hr_curve_session = None\<rparr>)))))"

definition write_curve_handshake ::
  "crypto \<Rightarrow> socket_type \<Rightarrow> bool \<Rightarrow> security_options \<Rightarrow> bytes \<Rightarrow> ('w io, fault, handshake_result) comp" where
  "write_curve_handshake C t as_server sec routing_id =
     (if as_server then
        bnd read_zmtp_frame (\<lambda>f1.
        bnd (with_entropy (parse_curve_hello C sec f1)) (\<lambda>hello.
        bnd (with_entropy (curve_welcome_body C sec hello)) (\<lambda>welcome.
        bnd (write_command welcome) (\<lambda>_.
        bnd read_zmtp_frame (\<lambda>f2.
          case parse_curve_initiate C f2 hello of
            (Inl e, _) \<Rightarrow> throw (Fail e)
          | (Inr initiate, hello1) \<Rightarrow>
              bnd (authorize_peer sec (lit ''CURVE'') [ci_client_public_key initiate]
                     (authorize_curve sec (ci_client_public_key initiate))) (\<lambda>_.
                case curve_ready_body C t routing_id (server_session hello1) of
                  (Inl e, _) \<Rightarrow> throw (Fail e)
                | (Inr ready, session) \<Rightarrow>
                    bnd (write_command ready) (\<lambda>_.
                      ret (handshake_done (peer_identity_of (ci_metadata initiate)) (Some session)))))))))
      else
        bnd (with_entropy (curve_client_new C sec)) (\<lambda>client.
          case hello_body C client of
            (Inl e, _) \<Rightarrow> throw (Fail e)
          | (Inr hello, client1) \<Rightarrow>
              bnd (write_command hello) (\<lambda>_.
              bnd read_zmtp_frame (\<lambda>f1.
                case process_welcome C f1 client1 of
                  (Inl e, _) \<Rightarrow> throw (Fail e)
                | (Inr _, client2) \<Rightarrow>
                    bnd (with_entropy (\<lambda>r. case initiate_body C t routing_id (client2, r) of
                                             (Inl e, (_, r1)) \<Rightarrow> (Inl e, r1) | (Inr b, (c, r1)) \<Rightarrow> (Inr (b, c), r1)))
                      (\<lambda>(initiate, client3).
                    bnd (write_command initiate) (\<lambda>_.
                    bnd read_zmtp_frame (\<lambda>f2.
                      case process_ready C f2 client3 of
                        (Inl e, _) \<Rightarrow> throw (Fail e)
                      | (Inr peer_metadata, client4) \<Rightarrow>
                          bnd (try_err (client_session client4)) (\<lambda>session.
                            ret (handshake_done (peer_identity_of peer_metadata) (Some session))))))))))"

text \<open>Without the \<open>gssapi\<close> feature the mechanism is a placeholder: the client names a principal.\<close>

definition gssapi_placeholder_initiate_body :: "security_options \<Rightarrow> bytes" where
  "gssapi_placeholder_initiate_body sec =
     command_body (lit ''INITIATE'') (to_be 4 (length (sec_gssapi_principal sec)) @ sec_gssapi_principal sec)"

definition parse_gssapi_initiate :: "zmtp_frame \<Rightarrow> bytes result" where
  "parse_gssapi_initiate f =
     and_then (command_tail f (lit ''INITIATE'')) (\<lambda>tail.
       if length tail < 4 then Inl InvalidArgument
       else if length tail \<noteq> 4 + from_be (take 4 tail) then Inl InvalidArgument
       else Inr (drop 4 tail))"

definition authorize_gssapi :: "security_options \<Rightarrow> bytes \<Rightarrow> unit result" where
  "authorize_gssapi sec prin =
     (if sec_gssapi_principal sec \<noteq> [] \<and> sec_gssapi_principal sec \<noteq> prin then Inl InvalidArgument else Inr ())"

definition write_placeholder_gssapi_handshake ::
  "socket_type \<Rightarrow> bool \<Rightarrow> security_options \<Rightarrow> bytes \<Rightarrow> ('w io, fault, handshake_result) comp" where
  "write_placeholder_gssapi_handshake t as_server sec routing_id =
     (if as_server then
        bnd read_zmtp_frame (\<lambda>f1.
        bnd (try_err (parse_gssapi_initiate f1)) (\<lambda>prin.
        bnd (authorize_peer sec (lit ''GSSAPI'') [prin] (authorize_gssapi sec prin)) (\<lambda>_.
        bnd (write_command (ready_command_body_with_identity t routing_id)) (\<lambda>_.
        bnd read_zmtp_frame (\<lambda>f2.
        bnd (try_err (parse_ready_metadata f2)) (\<lambda>peer_metadata.
          ret (handshake_done (peer_identity_of peer_metadata) None)))))))
      else
        bnd (write_command (gssapi_placeholder_initiate_body sec)) (\<lambda>_.
        bnd read_zmtp_frame (\<lambda>f1.
        bnd (try_err (parse_ready_metadata f1)) (\<lambda>peer_metadata.
        bnd (write_command (ready_command_body_with_identity t routing_id)) (\<lambda>_.
          ret (handshake_done (peer_identity_of peer_metadata) None))))))"

definition mechanism_handshake ::
  "crypto \<Rightarrow> socket_type \<Rightarrow> bool \<Rightarrow> security_options \<Rightarrow> bytes \<Rightarrow> ('w io, fault, handshake_result) comp" where
  "mechanism_handshake C t as_server sec routing_id =
     (if mechanism sec = ZMQ_PLAIN then write_plain_handshake t as_server sec routing_id
      else if mechanism sec = ZMQ_CURVE then write_curve_handshake C t as_server sec routing_id
      else if mechanism sec = ZMQ_GSSAPI then write_placeholder_gssapi_handshake t as_server sec routing_id
      else bnd (write_command (ready_command_body_with_identity t routing_id)) (\<lambda>_.
             ret \<lparr>hr_peer_greeting_done = False, hr_peer_ready = False, hr_peer_identity = None,
                  hr_curve_session = None\<rparr>))"

text \<open>\<open>Err(Error::Again) => false\<close> for the first ten bytes of the peer's greeting.\<close>

definition or_again :: "('w io, fault, bool) comp \<Rightarrow> ('w io, fault, bool) comp" where
  "or_again m st = (case m st of (Inl (Fail Again), st1) \<Rightarrow> (Inr False, st1) | r \<Rightarrow> r)"

definition write_zmtp_handshake ::
  "crypto \<Rightarrow> socket_type \<Rightarrow> bool \<Rightarrow> security_options \<Rightarrow> bytes \<Rightarrow> ('w io, fault, handshake_result) comp" where
  "write_zmtp_handshake C t as_server sec routing_id =
     (let greeting = greeting_encode (greeting_new (mechanism_name sec) as_server)
      in bnd (if as_server then set_read_timeout False else ret ()) (\<lambda>_.
         bnd (write_all (take 10 greeting)) (\<lambda>_.
         bnd (or_again read_zmtp_peer_greeting_prefix) (\<lambda>peer_prefix_done.
         bnd (write_all (drop 10 greeting)) (\<lambda>_.
         bnd (if peer_prefix_done then read_zmtp_greeting_tail else ret ()) (\<lambda>_.
         bnd (mechanism_handshake C t as_server sec routing_id) (\<lambda>h.
         bnd (if as_server then set_read_timeout True else ret ()) (\<lambda>_.
           ret (h\<lparr>hr_peer_greeting_done := peer_prefix_done\<rparr>)))))))))"


section \<open>The peer's READY\<close>

lemma read_exact_in: "read_exact n st = (Inr bs, st') \<Longrightarrow> length (io_in st') + n = length (io_in st)"
  by (auto simp: read_exact_def split: if_splits)

lemma read_exact_shrinks: "length (io_in (snd (read_exact n st))) \<le> length (io_in st)"
  by (simp add: read_exact_def)

lemma read_body_len_shrinks: "length (io_in (snd (read_body_len b st))) \<le> length (io_in st)"
  by (auto simp: read_body_len_def bnd_apply read_exact_def split: sum.split)

lemma read_frame_bytes_shrinks:
  assumes "read_zmtp_frame_bytes st = (Inr bs, st')"
  shows "length (io_in st') < length (io_in st)"
proof -
  obtain flags st1 where 1: "read_exact 1 st = (Inr flags, st1)"
    using assms by (cases "read_exact 1 st"; cases "fst (read_exact 1 st)") (auto simp: read_zmtp_frame_bytes_def)
  obtain n st2 where 2: "read_body_len (flags ! 0) st1 = (Inr n, st2)"
    using assms 1 by (cases "read_body_len (flags ! 0) st1"; cases "fst (read_body_len (flags ! 0) st1)")
      (auto simp: read_zmtp_frame_bytes_def)
  have "st' = snd (read_exact n st2)"
    using assms 1 2 by (auto simp: read_zmtp_frame_bytes_def Let_def bnd_apply split: if_splits sum.splits)
  then show ?thesis
    using read_exact_in [OF 1] read_body_len_shrinks [of "flags ! 0" st1] read_exact_shrinks [of n st2] 2 by simp
qed

lemma read_frame_shrinks:
  assumes "read_zmtp_frame st = (Inr f, st')"
  shows "length (io_in st') < length (io_in st)"
proof -
  obtain bs st1 where 1: "read_zmtp_frame_bytes st = (Inr bs, st1)"
    using assms by (cases "read_zmtp_frame_bytes st"; cases "fst (read_zmtp_frame_bytes st)") (auto simp: read_zmtp_frame_def)
  with assms have "st' = st1"
    by (auto simp: read_zmtp_frame_def try_err_def)
  with read_frame_bytes_shrinks [OF 1] show ?thesis
    by simp
qed

text \<open>The loop skips message frames; each takes bytes from a finite input, so it ends.\<close>

function read_zmtp_peer_ready :: "('w io, fault, zmtp_metadata) comp" where
  "read_zmtp_peer_ready st =
     (case read_zmtp_frame st of
        (Inl e, st1) \<Rightarrow> (Inl e, st1)
      | (Inr f, st1) \<Rightarrow>
          if fr_command f then try_err (decode_ready (fr_body f)) st1 else read_zmtp_peer_ready st1)"
  by pat_completeness auto
termination
  by (relation "measure (\<lambda>st. length (io_in st))") (auto dest: read_frame_shrinks [OF sym])

declare read_zmtp_peer_ready.simps [simp del]

text \<open>The start of \<open>recv_tcp_frame\<close> on a fresh stream: handshake, then whatever of the peer's greeting
  and READY the handshake has not read.\<close>

definition establish ::
  "crypto \<Rightarrow> socket_type \<Rightarrow> bool \<Rightarrow> security_options \<Rightarrow> bytes \<Rightarrow> ('w io, fault, bytes option \<times> curve_session option) comp" where
  "establish C t as_server sec routing_id =
     bnd (write_zmtp_handshake C t as_server sec routing_id) (\<lambda>h.
     bnd (if hr_peer_greeting_done h then ret () else read_zmtp_greeting) (\<lambda>_.
       if hr_peer_ready h then ret (hr_peer_identity h, hr_curve_session h)
       else bnd read_zmtp_peer_ready (\<lambda>m. ret (peer_identity_of m, hr_curve_session h))))"


section \<open>Reading what the other side wrote\<close>

lemma read_exact_append: "length bs = n \<Longrightarrow> io_in st = bs @ rest \<Longrightarrow> read_exact n st = (Inr bs, st\<lparr>io_in := rest\<rparr>)"
  by (simp add: read_exact_def)

lemma write_all_apply [simp]: "write_all bs st = (Inr (), st\<lparr>io_out := io_out st @ bs\<rparr>)"
  by (simp add: write_all_def)

lemma set_read_timeout_apply [simp]: "set_read_timeout b st = (Inr (), st\<lparr>io_timeout := b\<rparr>)"
  by (simp add: set_read_timeout_def)

lemma try_err_apply [simp]: "try_err (Inr x) st = (Inr x, st)" "try_err (Inl e) st = (Inl (Fail e), st)"
  by (simp_all add: try_err_def)

lemma read_frame_bytes_ok:
  assumes "length (fr_body f) < 2 ^ 62" "io_in st = encode_v3 f @ rest"
  shows "read_zmtp_frame_bytes st = (Inr (encode_v3 f), st\<lparr>io_in := rest\<rparr>)"
proof (cases "length (fr_body f) \<le> 255")
  case True
  with assms show ?thesis
    by (simp add: read_zmtp_frame_bytes_def encode_v3_def encode_frame_short read_exact_def read_body_len_def
        frame_flags_bits ISIZE_MAX_def Let_def bnd_apply)
next
  case False
  with assms show ?thesis
    by (simp add: read_zmtp_frame_bytes_def encode_v3_def encode_frame_long read_exact_def read_body_len_def
        frame_flags_bits ISIZE_MAX_def Let_def bnd_apply from_be_to_be_id)
qed

lemma read_frame_ok:
  assumes "length (fr_body f) < 2 ^ 62" "io_in st = encode_v3 f @ rest"
  shows "read_zmtp_frame st = (Inr f, st\<lparr>io_in := rest\<rparr>)"
  using read_frame_bytes_ok [OF assms] decode_encode_frame [of f True] assms(1)
  by (simp add: read_zmtp_frame_def decode_v3_def encode_v3_def)

lemma read_command_ok:
  assumes "length body < 2 ^ 62" "io_in st = encode_v3 (frame_command body) @ rest"
  shows "read_zmtp_frame st = (Inr (frame_command body), st\<lparr>io_in := rest\<rparr>)"
  using read_frame_ok [of "frame_command body"] assms by (simp add: frame_command_def)

end
