(* ===== verification/Tcp.thy ===== *)
theory Tcp
  imports Handshake Socket_Endpoints
begin

text \<open>
  The TCP transport of a socket in \<open>crates/libzmq-core/src/socket.rs\<close>: its state, binding and
  connecting, the stream it holds and reconnects, and the frames and raw bytes it sends and receives.

  The operating system enters as data. Each call to listen, connect or accept is logged and takes the
  next reply: an error kind, or a new stream with the bytes that will arrive on it and whether the
  peer then closes. Setting options on a handle and writing succeed. A clock in milliseconds stands
  still during an operation. In the default build \<open>gssapi_session\<close> is always \<open>None\<close> and has no field.
\<close>

section \<open>The operating system\<close>

datatype io_kind = WouldBlock | TimedOut | InvalidInput | Unsupported
  | ConnectionRefused | ConnectionReset | ConnectionAborted | NotConnected | OtherKind

definition map_io_error :: "io_kind \<Rightarrow> error" where
  "map_io_error k =
     (case k of WouldBlock \<Rightarrow> Again | TimedOut \<Rightarrow> Again | InvalidInput \<Rightarrow> InvalidArgument
      | Unsupported \<Rightarrow> NotSupported | _ \<Rightarrow> InvalidSocket)"

definition is_reconnectable_tcp_error :: "io_kind \<Rightarrow> bool" where
  "is_reconnectable_tcp_error k \<longleftrightarrow>
     k \<in> {ConnectionRefused, ConnectionReset, ConnectionAborted, NotConnected, TimedOut}"

datatype os_call = Listen bytes | Connect bytes | Accept


text \<open>A socket with its context, the bytes of its stream, the replies to come and the calls made.\<close>

record 'w os_node =
  tn_io :: "'w io"
  tn_os :: "(io_kind + bytes \<times> bool) list"
  tn_calls :: "os_call list"

abbreviation tn_socket :: "ref \<Rightarrow> ('w, 'z) os_node_scheme \<Rightarrow> socket" where
  "tn_socket s n \<equiv> w_sockets (io_world (tn_io n)) s"

definition update_world :: "('w world \<Rightarrow> 'w world) \<Rightarrow> (('w, 'z) os_node_scheme, fault, unit) comp" where
  "update_world f = modify (\<lambda>n. n\<lparr>tn_io := (tn_io n)\<lparr>io_world := f (io_world (tn_io n))\<rparr>\<rparr>)"

definition try_result :: "'a result \<Rightarrow> ('s, fault, 'a) comp" where
  "try_result r = lift (case r of Inl e \<Rightarrow> Inl (Fail e) | Inr x \<Rightarrow> Inr x)"

definition try_io :: "io_kind + 'a \<Rightarrow> ('s, fault, 'a) comp" where
  "try_io r = lift (case r of Inl k \<Rightarrow> Inl (Fail (map_io_error k)) | Inr x \<Rightarrow> Inr x)"

definition os_call :: "os_call \<Rightarrow> (('w, 'z) os_node_scheme, fault, io_kind + bytes \<times> bool) comp" where
  "os_call c n =
     (case tn_os n of
        [] \<Rightarrow> (Inl Blocked, n\<lparr>tn_calls := tn_calls n @ [c]\<rparr>)
      | r # rs \<Rightarrow> (Inr r, n\<lparr>tn_calls := tn_calls n @ [c], tn_os := rs\<rparr>))"

text \<open>A new stream is configured with a read timeout.\<close>

definition configure_tcp_stream :: "bytes \<times> bool \<Rightarrow> (('w, 'z) os_node_scheme, fault, unit) comp" where
  "configure_tcp_stream arrival =
     modify (\<lambda>n. n\<lparr>tn_io := (tn_io n)\<lparr>io_in := fst arrival, io_out := [], io_closed := snd arrival, io_timeout := True\<rparr>\<rparr>)"


section \<open>State\<close>

record tcp_state =
  tcp_listener :: bool
  tcp_stream :: bool
  tcp_bound_endpoint :: "tcp_endpoint option"
  tcp_connected_endpoint :: "tcp_endpoint option"
  tcp_next_reconnect_at :: "nat option"
  tcp_raw_recv_queue :: "message list"
  tcp_raw_send_routing_id :: "bytes option"
  tcp_raw_connect_notified :: bool
  tcp_handshake_started :: bool
  tcp_peer_greeting_done :: bool
  tcp_peer_ready :: bool
  tcp_peer_identity :: "bytes option"
  tcp_hello_sent :: bool
  tcp_probe_router_sent :: bool
  tcp_curve_session :: "curve_session option"

definition tcp_state_default :: tcp_state where
  "tcp_state_default =
     \<lparr>tcp_listener = False, tcp_stream = False, tcp_bound_endpoint = None, tcp_connected_endpoint = None,
      tcp_next_reconnect_at = None, tcp_raw_recv_queue = [], tcp_raw_send_routing_id = None,
      tcp_raw_connect_notified = False, tcp_handshake_started = False, tcp_peer_greeting_done = False,
      tcp_peer_ready = False, tcp_peer_identity = None, tcp_hello_sent = False,
      tcp_probe_router_sent = False, tcp_curve_session = None\<rparr>"

record 'w tcp_node = "'w os_node" +
  tn_tcp :: tcp_state
  tn_now :: nat

type_synonym ('w, 'a) tcp_op = "('w tcp_node, fault, 'a) comp"

definition update_tcp :: "(tcp_state \<Rightarrow> tcp_state) \<Rightarrow> ('w, unit) tcp_op" where
  "update_tcp f = modify (\<lambda>n. n\<lparr>tn_tcp := f (tn_tcp n)\<rparr>)"

text \<open>A computation on the stream that is held.\<close>

definition on_stream :: "('w io, fault, 'a) comp \<Rightarrow> ('w, 'a) tcp_op" where
  "on_stream m n =
     (if tcp_stream (tn_tcp n) then (case m (tn_io n) of (r, st) \<Rightarrow> (r, n\<lparr>tn_io := st\<rparr>))
      else (Inl (Fail Again), n))"


section \<open>Binding and connecting\<close>

definition supports_stream_transport :: "socket_type \<Rightarrow> bool" where
  "supports_stream_transport t \<longleftrightarrow>
     t \<in> {Pair, Push, Pull, Req, Rep, Dealer, Router, Server, Client, Peer, Stream, Channel, Scatter, Radio, Dgram, Gather}"

text \<open>What every new connection starts from.\<close>

definition new_peer :: "tcp_state \<Rightarrow> tcp_state" where
  "new_peer tcp =
     tcp\<lparr>tcp_raw_recv_queue := [], tcp_raw_send_routing_id := None, tcp_raw_connect_notified := False,
         tcp_handshake_started := False, tcp_peer_greeting_done := False, tcp_peer_ready := False,
         tcp_peer_identity := None, tcp_hello_sent := False, tcp_probe_router_sent := False,
         tcp_curve_session := None\<rparr>"

definition bind_tcp :: "ref \<Rightarrow> bytes \<Rightarrow> ('w, unit) tcp_op" where
  "bind_tcp s endpoint =
     bnd (gets (\<lambda>n. sk_type (tn_socket s n))) (\<lambda>t.
       if \<not> supports_stream_transport t then throw (Fail NotSupported)
       else
         bnd (try_result (tcp_parse endpoint)) (\<lambda>parsed.
         bnd (os_call (Listen (tcp_bind_addr parsed))) (\<lambda>reply.
         bnd (try_io reply) (\<lambda>_.
         bnd (update_tcp (\<lambda>tcp. new_peer (tcp\<lparr>tcp_listener := True, tcp_bound_endpoint := Some parsed\<rparr>))) (\<lambda>_.
           update_world (\<lambda>w. set_last_endpoint s endpoint (emit_monitor_event s ZMQ_EVENT_LISTENING 0 endpoint w)))))))"

definition unbind_tcp :: "ref \<Rightarrow> bytes \<Rightarrow> ('w, unit) tcp_op" where
  "unbind_tcp s endpoint =
     bnd (try_result (tcp_parse endpoint)) (\<lambda>parsed.
     bnd (gets (\<lambda>n. tcp_bound_endpoint (tn_tcp n))) (\<lambda>bound.
       if bound \<noteq> Some parsed then throw (Fail InvalidArgument)
       else
         bnd (update_tcp (\<lambda>tcp. new_peer (tcp\<lparr>tcp_listener := False, tcp_stream := False, tcp_bound_endpoint := None\<rparr>))) (\<lambda>_.
           update_world (emit_monitor_event s ZMQ_EVENT_CLOSED 0 endpoint))))"

definition connect_tcp :: "ref \<Rightarrow> bytes \<Rightarrow> ('w, unit) tcp_op" where
  "connect_tcp s endpoint =
     bnd (gets (\<lambda>n. sk_type (tn_socket s n))) (\<lambda>t.
       if \<not> supports_stream_transport t then throw (Fail NotSupported)
       else
         bnd (try_result (tcp_parse endpoint)) (\<lambda>parsed.
         bnd (try_result (tcp_connect_addr parsed)) (\<lambda>connect_addr.
         bnd (os_call (Connect connect_addr)) (\<lambda>reply.
         bnd (case reply of
                Inr arrival \<Rightarrow> bnd (configure_tcp_stream arrival) (\<lambda>_. ret True)
              | Inl k \<Rightarrow> if is_reconnectable_tcp_error k then ret False else throw (Fail (map_io_error k))) (\<lambda>stream.
         bnd (gets tn_now) (\<lambda>now.
         bnd (update_tcp (\<lambda>tcp. new_peer (tcp\<lparr>tcp_stream := stream, tcp_connected_endpoint := Some parsed,
                tcp_next_reconnect_at := (if stream then None else Some (now + 100))\<rparr>))) (\<lambda>_.
           update_world (\<lambda>w. set_last_endpoint s endpoint (emit_monitor_event s ZMQ_EVENT_CONNECTED 0 endpoint w)))))))))"

definition disconnect_tcp :: "ref \<Rightarrow> bytes \<Rightarrow> ('w, unit) tcp_op" where
  "disconnect_tcp s endpoint =
     bnd (try_result (tcp_parse endpoint)) (\<lambda>parsed.
     bnd (gets (\<lambda>n. tcp_connected_endpoint (tn_tcp n))) (\<lambda>connected.
       if connected \<noteq> Some parsed then throw (Fail InvalidArgument)
       else
         bnd (update_tcp (\<lambda>tcp. new_peer (tcp\<lparr>tcp_stream := False, tcp_connected_endpoint := None,
                tcp_next_reconnect_at := None\<rparr>))) (\<lambda>_.
           update_world (emit_monitor_event s ZMQ_EVENT_DISCONNECTED 0 endpoint))))"

definition has_tcp_transport :: "tcp_state \<Rightarrow> bool" where
  "has_tcp_transport tcp \<longleftrightarrow> tcp_stream tcp \<or> tcp_listener tcp \<or> tcp_connected_endpoint tcp \<noteq> None"

definition reconnect_tcp :: "tcp_endpoint \<Rightarrow> ('w, unit) tcp_op" where
  "reconnect_tcp endpoint =
     bnd (gets (\<lambda>n. (tcp_next_reconnect_at (tn_tcp n), tn_now n))) (\<lambda>(deadline, now).
       if (case deadline of None \<Rightarrow> False | Some d \<Rightarrow> now < d) then throw (Fail Again)
       else
         bnd (try_result (tcp_connect_addr endpoint)) (\<lambda>connect_addr.
         bnd (os_call (Connect connect_addr)) (\<lambda>reply.
           case reply of
             Inr arrival \<Rightarrow>
               bnd (configure_tcp_stream arrival) (\<lambda>_.
                 update_tcp (\<lambda>tcp. new_peer (tcp\<lparr>tcp_stream := True, tcp_next_reconnect_at := None\<rparr>)))
           | Inl k \<Rightarrow>
               if is_reconnectable_tcp_error k
               then bnd (update_tcp (\<lambda>tcp. tcp\<lparr>tcp_next_reconnect_at := Some (now + 100)\<rparr>)) (\<lambda>_. throw (Fail Again))
               else throw (Fail (map_io_error k)))))"

definition accept_tcp :: "('w, unit) tcp_op" where
  "accept_tcp =
     bnd (os_call Accept) (\<lambda>reply.
       case reply of
         Inr arrival \<Rightarrow>
           bnd (configure_tcp_stream arrival) (\<lambda>_.
             update_tcp (\<lambda>tcp. tcp\<lparr>tcp_stream := True, tcp_raw_recv_queue := [], tcp_raw_send_routing_id := None,
               tcp_raw_connect_notified := False\<rparr>))
       | Inl k \<Rightarrow> throw (Fail (if k = WouldBlock then Again else map_io_error k)))"

definition ensure_tcp_stream :: "('w, unit) tcp_op" where
  "ensure_tcp_stream =
     bnd (gets tn_tcp) (\<lambda>tcp.
       if tcp_stream tcp then ret ()
       else case tcp_connected_endpoint tcp of
              Some endpoint \<Rightarrow> reconnect_tcp endpoint
            | None \<Rightarrow> if \<not> tcp_listener tcp then throw (Fail Again) else accept_tcp)"


section \<open>Losing the stream\<close>

definition reset_tcp_stream_state :: "tcp_state \<Rightarrow> tcp_state" where
  "reset_tcp_stream_state tcp = new_peer (tcp\<lparr>tcp_stream := False\<rparr>)"

text \<open>The same, but what is queued is still to be received.\<close>

definition reset_tcp_stream_state_after_pending :: "tcp_state \<Rightarrow> tcp_state" where
  "reset_tcp_stream_state_after_pending tcp =
     (new_peer (tcp\<lparr>tcp_stream := False\<rparr>))\<lparr>tcp_raw_recv_queue := tcp_raw_recv_queue tcp\<rparr>"

definition tcp_disconnect_message_or_error :: "socket_options \<Rightarrow> error \<Rightarrow> ('w, message) tcp_op" where
  "tcp_disconnect_message_or_error os e =
     (let d = (if opt_disconnect_msg os = [] then opt_hiccup_msg os else opt_disconnect_msg os)
      in if d = [] then throw (Fail e)
         else bnd (update_tcp reset_tcp_stream_state) (\<lambda>_. ret (message_from_vec d)))"


section \<open>Sending\<close>

text \<open>One message on the stream, boxed when the connection has a CURVE session.\<close>

definition write_tcp_message :: "crypto \<Rightarrow> bytes \<Rightarrow> bool \<Rightarrow> ('w, unit) tcp_op" where
  "write_tcp_message C d has_more =
     bnd (gets (\<lambda>n. tcp_curve_session (tn_tcp n))) (\<lambda>session.
       case session of
         Some sess \<Rightarrow>
           (case curve_message_frame C d has_more sess of
              (r, sess1) \<Rightarrow>
                bnd (update_tcp (\<lambda>tcp. tcp\<lparr>tcp_curve_session := Some sess1\<rparr>)) (\<lambda>_.
                bnd (try_result r) (\<lambda>frame. on_stream (write_all frame))))
       | None \<Rightarrow> on_stream (write_all (encode_v3 \<lparr>fr_body = d, fr_more = has_more, fr_command = False\<rparr>)))"

definition write_tcp_message_frame :: "crypto \<Rightarrow> bytes \<Rightarrow> ('w, unit) tcp_op" where
  "write_tcp_message_frame C d = write_tcp_message C d False"

definition send_tcp_hello_message :: "crypto \<Rightarrow> bytes \<Rightarrow> ('w, unit) tcp_op" where
  "send_tcp_hello_message C hello_msg =
     bnd (gets (\<lambda>n. tcp_hello_sent (tn_tcp n))) (\<lambda>sent.
       if sent \<or> hello_msg = [] then ret ()
       else bnd (write_tcp_message_frame C hello_msg) (\<lambda>_. update_tcp (\<lambda>tcp. tcp\<lparr>tcp_hello_sent := True\<rparr>)))"

definition send_tcp_probe_router :: "crypto \<Rightarrow> socket_type \<Rightarrow> bool \<Rightarrow> ('w, unit) tcp_op" where
  "send_tcp_probe_router C t probe_router =
     bnd (gets (\<lambda>n. tcp_probe_router_sent (tn_tcp n))) (\<lambda>sent.
       if sent \<or> \<not> probe_router \<or> t \<notin> {Dealer, Router} then ret ()
       else bnd (write_tcp_message_frame C []) (\<lambda>_. update_tcp (\<lambda>tcp. tcp\<lparr>tcp_probe_router_sent := True\<rparr>)))"

definition start_handshake :: "crypto \<Rightarrow> socket \<Rightarrow> ('w, unit) tcp_op" where
  "start_handshake C k =
     bnd (gets tn_tcp) (\<lambda>tcp.
       if tcp_handshake_started tcp then ret ()
       else
         bnd (on_stream (write_zmtp_handshake C (sk_type k) (tcp_bound_endpoint tcp \<noteq> None)
                (opt_security (sk_options k)) (opt_routing_id (sk_options k)))) (\<lambda>h.
           update_tcp (\<lambda>tcp. tcp\<lparr>tcp_peer_greeting_done := hr_peer_greeting_done h, tcp_peer_ready := hr_peer_ready h,
             tcp_peer_identity := hr_peer_identity h, tcp_curve_session := hr_curve_session h,
             tcp_handshake_started := True\<rparr>)))"

text \<open>
  A STREAM socket sends a routing id and then raw bytes; an empty second part closes the connection.
\<close>

definition send_raw :: "message \<Rightarrow> ('w, unit) tcp_op" where
  "send_raw m =
     (if msg_more m then update_tcp (\<lambda>tcp. tcp\<lparr>tcp_raw_send_routing_id := Some (data m)\<rparr>)
      else
        bnd (gets (\<lambda>n. tcp_raw_send_routing_id (tn_tcp n))) (\<lambda>rid.
        bnd (update_tcp (\<lambda>tcp. tcp\<lparr>tcp_raw_send_routing_id := None\<rparr>)) (\<lambda>_.
          if rid \<noteq> None \<and> data m = [] then update_tcp reset_tcp_stream_state
          else on_stream (write_all (data m)))))"

definition send_tcp_frame :: "crypto \<Rightarrow> ref \<Rightarrow> message \<Rightarrow> ('w, unit) tcp_op" where
  "send_tcp_frame C s m =
     bnd ensure_tcp_stream (\<lambda>_.
     bnd (gets (tn_socket s)) (\<lambda>k.
       if sk_type k = Stream then send_raw m
       else
         bnd (start_handshake C k) (\<lambda>_.
         bnd (send_tcp_hello_message C (opt_hello_msg (sk_options k))) (\<lambda>_.
         bnd (send_tcp_probe_router C (sk_type k) (opt_probe_router (sk_options k))) (\<lambda>_.
           write_tcp_message C (data m) (msg_more m))))))"


section \<open>Receiving\<close>

text \<open>\<open>read\<close> gives what has arrived, up to the length of its buffer.\<close>

definition read_raw_tcp :: "('w io, fault, bytes) comp" where
  "read_raw_tcp st =
     (if io_in st = []
      then (Inl (if io_closed st then Fail InvalidSocket else if io_timeout st then Fail Again else Blocked), st)
      else (Inr (take 8192 (io_in st)), st\<lparr>io_in := drop 8192 (io_in st)\<rparr>))"

abbreviation tcp_stream_routing_id :: bytes where
  "tcp_stream_routing_id \<equiv> lit ''1''"

definition enqueue_tcp_stream_message :: "bytes \<Rightarrow> tcp_state \<Rightarrow> tcp_state" where
  "enqueue_tcp_stream_message d tcp =
     tcp\<lparr>tcp_raw_recv_queue := tcp_raw_recv_queue tcp
           @ [set_more True (message_from_vec tcp_stream_routing_id), message_from_vec d]\<rparr>"

definition pop_raw :: "('w, message option) tcp_op" where
  "pop_raw n =
     (case tcp_raw_recv_queue (tn_tcp n) of
        [] \<Rightarrow> (Inr None, n)
      | m # ms \<Rightarrow> (Inr (Some m), n\<lparr>tn_tcp := (tn_tcp n)\<lparr>tcp_raw_recv_queue := ms\<rparr>\<rparr>))"

definition pop_raw_or :: "error \<Rightarrow> ('w, message) tcp_op" where
  "pop_raw_or e = bnd pop_raw (\<lambda>x. case x of Some m \<Rightarrow> ret m | None \<Rightarrow> throw (Fail e))"

definition read_raw_message :: "bool \<Rightarrow> ('w, message) tcp_op" where
  "read_raw_message stream_notify n =
     (case on_stream read_raw_tcp n of
        (Inr d, n1) \<Rightarrow> bnd (update_tcp (enqueue_tcp_stream_message d)) (\<lambda>_. pop_raw_or Again) n1
      | (Inl (Fail e), n1) \<Rightarrow>
          if stream_notify
          then bnd (update_tcp (\<lambda>tcp. reset_tcp_stream_state_after_pending (enqueue_tcp_stream_message [] tcp)))
                 (\<lambda>_. pop_raw_or e) n1
          else (Inl (Fail e), n1)
      | (Inl f, n1) \<Rightarrow> (Inl f, n1))"

definition recv_raw :: "ref \<Rightarrow> ('w, message) tcp_op" where
  "recv_raw s =
     bnd pop_raw (\<lambda>queued.
       case queued of
         Some m \<Rightarrow> ret m
       | None \<Rightarrow>
           bnd ensure_tcp_stream (\<lambda>_.
           bnd (gets (\<lambda>n. (opt_stream_notify (sk_options (tn_socket s n)), tcp_raw_connect_notified (tn_tcp n)))) (\<lambda>(notify, notified).
             if notify \<and> \<not> notified
             then bnd (update_tcp (\<lambda>tcp. enqueue_tcp_stream_message [] (tcp\<lparr>tcp_raw_connect_notified := True\<rparr>)))
                    (\<lambda>_. pop_raw_or Again)
             else read_raw_message notify)))"

definition finish_handshake :: "('w, unit) tcp_op" where
  "finish_handshake =
     bnd (gets (\<lambda>n. tcp_peer_greeting_done (tn_tcp n))) (\<lambda>greeted.
     bnd (if greeted then ret ()
          else bnd (on_stream read_zmtp_greeting) (\<lambda>_. update_tcp (\<lambda>tcp. tcp\<lparr>tcp_peer_greeting_done := True\<rparr>))) (\<lambda>_.
     bnd (gets (\<lambda>n. tcp_peer_ready (tn_tcp n))) (\<lambda>is_ready.
       if is_ready then ret ()
       else bnd (on_stream read_zmtp_peer_ready) (\<lambda>m.
              update_tcp (\<lambda>tcp. tcp\<lparr>tcp_peer_identity := peer_identity_of m, tcp_peer_ready := True\<rparr>)))))"

text \<open>The receive loop skips command frames; like the loop for READY it takes bytes in every round.\<close>

function next_message_frame :: "('w io, fault, zmtp_frame) comp" where
  "next_message_frame st =
     (case read_zmtp_frame st of
        (Inl e, st1) \<Rightarrow> (Inl e, st1)
      | (Inr f, st1) \<Rightarrow> if fr_command f then next_message_frame st1 else (Inr f, st1))"
  by pat_completeness auto
termination
  by (relation "measure (\<lambda>st. length (io_in st))") (auto dest: read_frame_shrinks [OF sym])

declare next_message_frame.simps [simp del]

text \<open>A read that fails may end in the configured disconnect message instead.\<close>

definition or_disconnected :: "socket_options \<Rightarrow> ('w io, fault, 'a) comp \<Rightarrow> ('a \<Rightarrow> ('w, message) tcp_op) \<Rightarrow> ('w, message) tcp_op" where
  "or_disconnected os m f n =
     (if \<not> tcp_stream (tn_tcp n) then (Inl (Fail Again), n)
      else case on_stream m n of
             (Inr x, n1) \<Rightarrow> f x n1
           | (Inl (Fail e), n1) \<Rightarrow> tcp_disconnect_message_or_error os e n1
           | (Inl x, n1) \<Rightarrow> (Inl x, n1))"

definition read_tcp_message :: "crypto \<Rightarrow> socket_options \<Rightarrow> ('w, message) tcp_op" where
  "read_tcp_message C os =
     bnd (gets tn_tcp) (\<lambda>tcp.
       case tcp_curve_session tcp of
         Some sess \<Rightarrow>
           or_disconnected os read_zmtp_frame_body (\<lambda>body.
             case curve_message_from_body C body sess of
               (r, sess1) \<Rightarrow>
                 bnd (update_tcp (\<lambda>tcp. tcp\<lparr>tcp_curve_session := Some sess1\<rparr>)) (\<lambda>_.
                 bnd (try_result r) (\<lambda>m. ret (apply_peer_identity_metadata (tcp_peer_identity tcp) m))))
       | None \<Rightarrow>
           or_disconnected os next_message_frame (\<lambda>f.
             ret (apply_peer_identity_metadata (tcp_peer_identity tcp) (set_more (fr_more f) (message_from_vec (fr_body f))))))"

definition recv_tcp_frame :: "crypto \<Rightarrow> ref \<Rightarrow> ('w, message) tcp_op" where
  "recv_tcp_frame C s =
     bnd (gets (tn_socket s)) (\<lambda>k.
       if sk_type k = Stream then recv_raw s
       else
         bnd ensure_tcp_stream (\<lambda>_.
         bnd (start_handshake C k) (\<lambda>_.
         bnd finish_handshake (\<lambda>_.
         bnd (send_tcp_hello_message C (opt_hello_msg (sk_options k))) (\<lambda>_.
         bnd (send_tcp_probe_router C (sk_type k) (opt_probe_router (sk_options k))) (\<lambda>_.
           read_tcp_message C (sk_options k)))))))"

end
