(* ===== verification/WebSocket.thy ===== *)
theory WebSocket
  imports Tcp
begin

text \<open>
  The WebSocket transport of a socket in \<open>crates/libzmq-core/src/socket.rs\<close>: the opening handshake, the
  binary frames with their masks, and the transport's state and operations.

  SHA-1 and Base64 are crates outside the repository and enter as a record of two functions. The
  stream, its arriving bytes and the replies of the operating system are those of the TCP transport.
\<close>

section \<open>Text functions of the standard library\<close>

definition ends_with :: "bytes \<Rightarrow> bytes \<Rightarrow> bool" where
  "ends_with suf s \<longleftrightarrow> length suf \<le> length s \<and> drop (length s - length suf) s = suf"

abbreviation CRLF :: bytes where
  "CRLF \<equiv> [13, 10]"

text \<open>\<open>str::lines\<close>: split after each newline; a carriage return before the newline goes too.\<close>

lemma split_once_shorter: "split_once c s = Some (l, r) \<Longrightarrow> length r < length s"
  by (induction c s arbitrary: l r rule: split_once.induct) (auto split: if_splits option.splits prod.splits)

definition strip_cr :: "bytes \<Rightarrow> bytes" where
  "strip_cr l = (case strip_suffix [13] l of None \<Rightarrow> l | Some l1 \<Rightarrow> l1)"

function str_lines :: "bytes \<Rightarrow> bytes list" where
  "str_lines s =
     (if s = [] then []
      else case split_once 10 s of None \<Rightarrow> [s] | Some (l, r) \<Rightarrow> strip_cr l # str_lines r)"
  by pat_completeness auto
termination
  by (relation "measure length") (auto dest: split_once_shorter [OF sym] split_once_shorter)

declare str_lines.simps [simp del]

text \<open>\<open>str::trim\<close> removes the characters of Unicode's White\_Space property, here in UTF-8.\<close>

definition whitespace :: "bytes list" where
  "whitespace =
     [[9], [10], [11], [12], [13], [32], [0xC2, 0x85], [0xC2, 0xA0], [0xE1, 0x9A, 0x80]]
     @ map (\<lambda>b. [0xE2, 0x80, b]) [0x80, 0x81, 0x82, 0x83, 0x84, 0x85, 0x86, 0x87, 0x88, 0x89, 0x8A, 0xA8, 0xA9, 0xAF]
     @ [[0xE2, 0x81, 0x9F], [0xE3, 0x80, 0x80]]"

function strip_front :: "bytes list \<Rightarrow> bytes \<Rightarrow> bytes" where
  "strip_front ws s =
     (case List.find (\<lambda>c. c \<noteq> [] \<and> starts_with c s) ws of
        None \<Rightarrow> s | Some c \<Rightarrow> strip_front ws (drop (length c) s))"
  by pat_completeness auto
termination
proof (relation "measure (\<lambda>(ws, s). length s)")
  fix ws s c
  assume "List.find (\<lambda>c. c \<noteq> [] \<and> starts_with c s) ws = Some c"
  then have "c \<noteq> []" "starts_with c s"
    by (auto simp: find_Some_iff)
  then show "((ws, drop (length c) s), ws, s) \<in> measure (\<lambda>(ws, s). length s)"
    by (cases s) (auto simp: starts_with_def)
qed simp

declare strip_front.simps [simp del]

definition trim :: "bytes \<Rightarrow> bytes" where
  "trim s = rev (strip_front (map rev whitespace) (rev (strip_front whitespace s)))"

definition ascii_lower :: "byte \<Rightarrow> byte" where
  "ascii_lower b = (if 65 \<le> b \<and> b \<le> 90 then b + 32 else b)"

definition eq_ignore_ascii_case :: "bytes \<Rightarrow> bytes \<Rightarrow> bool" where
  "eq_ignore_ascii_case a b \<longleftrightarrow> map ascii_lower a = map ascii_lower b"


section \<open>The opening handshake\<close>

record hashes =
  hs_sha1 :: "bytes \<Rightarrow> bytes"
  hs_base64 :: "bytes \<Rightarrow> bytes"

definition websocket_key :: "hashes \<Rightarrow> (bytes, error, bytes) comp" where
  "websocket_key H = bnd (fill_random 16) (\<lambda>bs. ret (hs_base64 H bs))"

definition websocket_accept :: "hashes \<Rightarrow> bytes \<Rightarrow> bytes" where
  "websocket_accept H key = hs_base64 H (hs_sha1 H (key @ lit ''258EAFA5-E914-47DA-95CA-C5AB0DC85B11''))"

function read_http_loop :: "bytes \<Rightarrow> ('w io, fault, bytes) comp" where
  "read_http_loop bs st =
     (if length bs < 8192 then
        (case read_exact 1 st of
           (Inl e, st1) \<Rightarrow> (Inl e, st1)
         | (Inr b, st1) \<Rightarrow>
             if ends_with (CRLF @ CRLF) (bs @ [b ! 0])
             then (if utf8_valid (bs @ [b ! 0]) then Inr (bs @ [b ! 0]) else Inl (Fail InvalidArgument), st1)
             else read_http_loop (bs @ [b ! 0]) st1)
      else (Inl (Fail InvalidArgument), st))"
  by pat_completeness auto
termination
  by (relation "measure (\<lambda>(bs, st). 8192 - length bs)") auto

declare read_http_loop.simps [simp del]

definition read_http_headers :: "('w io, fault, bytes) comp" where
  "read_http_headers = read_http_loop []"

definition header_of :: "bytes \<Rightarrow> bytes \<Rightarrow> bytes option" where
  "header_of name line =
     (case split_once 58 line of
        None \<Rightarrow> None
      | Some (stored, val) \<Rightarrow> if eq_ignore_ascii_case (trim stored) name then Some (trim val) else None)"

fun find_map :: "('a \<Rightarrow> 'b option) \<Rightarrow> 'a list \<Rightarrow> 'b option" where
  "find_map f [] = None"
| "find_map f (x # xs) = (case f x of Some y \<Rightarrow> Some y | None \<Rightarrow> find_map f xs)"

definition websocket_header_value :: "bytes \<Rightarrow> bytes \<Rightarrow> bytes option" where
  "websocket_header_value headers name = find_map (header_of name) (str_lines headers)"

definition ws_response :: "bytes \<Rightarrow> bytes" where
  "ws_response accept =
     lit ''HTTP/1.1 101 Switching Protocols'' @ CRLF @ lit ''Upgrade: websocket'' @ CRLF @ lit ''Connection: Upgrade'' @ CRLF
     @ lit ''Sec-WebSocket-Accept: '' @ accept @ CRLF @ CRLF"

definition ws_request :: "ws_endpoint \<Rightarrow> bytes \<Rightarrow> bytes" where
  "ws_request e key =
     lit ''GET '' @ ws_path e @ lit '' HTTP/1.1'' @ CRLF @ lit ''Host: '' @ ws_host e @ lit '':'' @ dec (ws_port e) @ CRLF
     @ lit ''Upgrade: websocket'' @ CRLF @ lit ''Connection: Upgrade'' @ CRLF @ lit ''Sec-WebSocket-Key: '' @ key @ CRLF
     @ lit ''Sec-WebSocket-Version: 13'' @ CRLF @ CRLF"

definition websocket_server_handshake :: "hashes \<Rightarrow> ('w io, fault, unit) comp" where
  "websocket_server_handshake H =
     bnd read_http_headers (\<lambda>request.
       if \<not> starts_with (lit ''GET '') request then throw (Fail InvalidArgument)
       else case websocket_header_value request (lit ''Sec-WebSocket-Key'') of
              None \<Rightarrow> throw (Fail InvalidArgument)
            | Some key \<Rightarrow> write_all (ws_response (websocket_accept H key)))"

definition websocket_client_handshake :: "hashes \<Rightarrow> bytes \<Rightarrow> ('w io, fault, unit) comp" where
  "websocket_client_handshake H key =
     bnd read_http_headers (\<lambda>response.
       if \<not> starts_with (lit ''HTTP/1.1 101'') response then throw (Fail InvalidArgument)
       else case websocket_header_value response (lit ''Sec-WebSocket-Accept'') of
              None \<Rightarrow> throw (Fail InvalidArgument)
            | Some accept \<Rightarrow> if accept \<noteq> websocket_accept H key then throw (Fail InvalidArgument) else ret ())"


section \<open>Binary frames\<close>

definition mask_bytes :: "bytes \<Rightarrow> bytes \<Rightarrow> bytes" where
  "mask_bytes key bs = map (\<lambda>i. bs ! i XOR key ! (i mod 4)) [0..<length bs]"

definition ws_frame_header :: "nat \<Rightarrow> bool \<Rightarrow> bytes" where
  "ws_frame_header n masking =
     (let mask_bit = (if masking then 0x80 else 0)
      in 0x82 # (if n \<le> 125 then [mask_bit OR word_of_nat n]
                 else if n \<le> 65535 then (mask_bit OR 126) # to_be 2 n
                 else (mask_bit OR 127) # to_be 8 n))"

definition websocket_binary_frame :: "bytes \<Rightarrow> bool \<Rightarrow> (bytes, error, bytes) comp" where
  "websocket_binary_frame payload masking =
     (if masking then bnd (fill_random 4) (\<lambda>key. ret (ws_frame_header (length payload) True @ key @ mask_bytes key payload))
      else ret (ws_frame_header (length payload) False @ payload))"

definition read_ws_len :: "byte \<Rightarrow> ('w io, fault, nat) comp" where
  "read_ws_len b =
     (let len = unat (b AND 0x7F)
      in if len = 126 then bnd (read_exact 2) (\<lambda>bs. ret (from_be bs))
         else if len = 127 then bnd (read_exact 8) (\<lambda>bs. ret (from_be bs))
         else ret len)"

definition read_websocket_binary_frame :: "('w io, fault, bytes) comp" where
  "read_websocket_binary_frame =
     bnd (read_exact 2) (\<lambda>header.
       let opcode = header ! 0 AND 0x0F; masked = (header ! 1 AND 0x80 \<noteq> 0)
       in if opcode = 0x08 then throw (Fail Again)
          else if opcode \<noteq> 0x02 then throw (Fail InvalidArgument)
          else bnd (read_ws_len (header ! 1)) (\<lambda>len.
               bnd (if masked then read_exact 4 else ret [0, 0, 0, 0]) (\<lambda>key.
                 if len > ISIZE_MAX then throw Panic
                 else bnd (read_exact len) (\<lambda>payload. ret (if masked then mask_bytes key payload else payload)))))"


section \<open>State and operations\<close>

record ws_state =
  wst_listener :: bool
  wst_stream :: bool
  wst_bound_endpoint :: "ws_endpoint option"
  wst_connected_endpoint :: "ws_endpoint option"
  wst_handshake_done :: bool
  wst_client_key :: "bytes option"

definition ws_state_default :: ws_state where
  "ws_state_default =
     \<lparr>wst_listener = False, wst_stream = False, wst_bound_endpoint = None, wst_connected_endpoint = None,
      wst_handshake_done = False, wst_client_key = None\<rparr>"

record 'w ws_node = "'w os_node" +
  wn_ws :: ws_state

type_synonym ('w, 'a) ws_op = "('w ws_node, fault, 'a) comp"

definition update_ws :: "(ws_state \<Rightarrow> ws_state) \<Rightarrow> ('w, unit) ws_op" where
  "update_ws f = modify (\<lambda>n. n\<lparr>wn_ws := f (wn_ws n)\<rparr>)"

definition on_io :: "('w io, fault, 'a) comp \<Rightarrow> ('w, 'a) ws_op" where
  "on_io m n = (case m (tn_io n) of (r, st) \<Rightarrow> (r, n\<lparr>tn_io := st\<rparr>))"

definition on_ws_stream :: "('w io, fault, 'a) comp \<Rightarrow> ('w, 'a) ws_op" where
  "on_ws_stream m n = (if wst_stream (wn_ws n) then on_io m n else (Inl (Fail Again), n))"

definition bind_ws :: "ref \<Rightarrow> bytes \<Rightarrow> ('w, unit) ws_op" where
  "bind_ws s endpoint =
     bnd (gets (\<lambda>n. sk_type (tn_socket s n))) (\<lambda>t.
       if \<not> supports_stream_transport t then throw (Fail NotSupported)
       else
         bnd (try_result (ws_parse endpoint)) (\<lambda>parsed.
         bnd (os_call (Listen (ws_bind_addr parsed))) (\<lambda>reply.
         bnd (try_io reply) (\<lambda>_.
         bnd (update_ws (\<lambda>_. \<lparr>wst_listener = True, wst_stream = False, wst_bound_endpoint = Some parsed,
                wst_connected_endpoint = None, wst_handshake_done = False, wst_client_key = None\<rparr>)) (\<lambda>_.
           update_world (\<lambda>w. set_last_endpoint s endpoint (emit_monitor_event s ZMQ_EVENT_LISTENING 0 endpoint w)))))))"

definition unbind_ws :: "ref \<Rightarrow> bytes \<Rightarrow> ('w, unit) ws_op" where
  "unbind_ws s endpoint =
     bnd (try_result (ws_parse endpoint)) (\<lambda>parsed.
     bnd (gets (\<lambda>n. wst_bound_endpoint (wn_ws n))) (\<lambda>bound.
       if bound \<noteq> Some parsed then throw (Fail InvalidArgument)
       else
         bnd (update_ws (\<lambda>ws. ws\<lparr>wst_listener := False, wst_stream := False, wst_bound_endpoint := None,
                wst_handshake_done := False, wst_client_key := None\<rparr>)) (\<lambda>_.
           update_world (emit_monitor_event s ZMQ_EVENT_CLOSED 0 endpoint))))"

text \<open>The key is drawn after the connection is made and before its stream replaces an older one.\<close>

definition connect_ws :: "hashes \<Rightarrow> ref \<Rightarrow> bytes \<Rightarrow> ('w, unit) ws_op" where
  "connect_ws H s endpoint =
     bnd (gets (\<lambda>n. sk_type (tn_socket s n))) (\<lambda>t.
       if \<not> supports_stream_transport t then throw (Fail NotSupported)
       else
         bnd (try_result (ws_parse endpoint)) (\<lambda>parsed.
         bnd (try_result (ws_connect_addr parsed)) (\<lambda>connect_addr.
         bnd (os_call (Connect connect_addr)) (\<lambda>reply.
         bnd (try_io reply) (\<lambda>arrival.
         bnd (on_io (with_entropy (websocket_key H))) (\<lambda>key.
         bnd (configure_tcp_stream arrival) (\<lambda>_.
         bnd (on_io (write_all (ws_request parsed key))) (\<lambda>_.
         bnd (update_ws (\<lambda>_. \<lparr>wst_listener = False, wst_stream = True, wst_bound_endpoint = None,
                wst_connected_endpoint = Some parsed, wst_handshake_done = False, wst_client_key = Some key\<rparr>)) (\<lambda>_.
           update_world (\<lambda>w. set_last_endpoint s endpoint (emit_monitor_event s ZMQ_EVENT_CONNECTED 0 endpoint w)))))))))))"

definition disconnect_ws :: "ref \<Rightarrow> bytes \<Rightarrow> ('w, unit) ws_op" where
  "disconnect_ws s endpoint =
     bnd (try_result (ws_parse endpoint)) (\<lambda>parsed.
     bnd (gets (\<lambda>n. wst_connected_endpoint (wn_ws n))) (\<lambda>connected.
       if connected \<noteq> Some parsed then throw (Fail InvalidArgument)
       else
         bnd (update_ws (\<lambda>ws. ws\<lparr>wst_stream := False, wst_connected_endpoint := None,
                wst_handshake_done := False, wst_client_key := None\<rparr>)) (\<lambda>_.
           update_world (emit_monitor_event s ZMQ_EVENT_DISCONNECTED 0 endpoint))))"

definition has_ws_transport :: "ws_state \<Rightarrow> bool" where
  "has_ws_transport ws \<longleftrightarrow> wst_stream ws \<or> wst_listener ws"

definition accept_ws :: "('w, unit) ws_op" where
  "accept_ws =
     bnd (os_call Accept) (\<lambda>reply.
       case reply of
         Inr arrival \<Rightarrow> bnd (configure_tcp_stream arrival) (\<lambda>_. update_ws (\<lambda>ws. ws\<lparr>wst_stream := True\<rparr>))
       | Inl k \<Rightarrow> throw (Fail (if k = WouldBlock then Again else map_io_error k)))"

definition ensure_ws_ready :: "hashes \<Rightarrow> ('w, unit) ws_op" where
  "ensure_ws_ready H =
     bnd (gets wn_ws) (\<lambda>ws.
     bnd (if wst_stream ws then ret ()
          else if \<not> wst_listener ws then throw (Fail Again) else accept_ws) (\<lambda>_.
       if wst_handshake_done ws then ret ()
       else
         bnd (if wst_bound_endpoint ws \<noteq> None then on_ws_stream (websocket_server_handshake H)
              else case wst_client_key ws of
                     None \<Rightarrow> throw (Fail InvalidArgument)
                   | Some key \<Rightarrow> on_ws_stream (websocket_client_handshake H key)) (\<lambda>_.
           update_ws (\<lambda>ws. ws\<lparr>wst_handshake_done := True\<rparr>))))"

definition send_ws_frame :: "hashes \<Rightarrow> message \<Rightarrow> ('w, unit) ws_op" where
  "send_ws_frame H m =
     bnd (gets wn_ws) (\<lambda>ws.
       let masking = (wst_connected_endpoint ws \<noteq> None)
       in bnd (if masking \<and> \<not> wst_handshake_done ws then (if wst_stream ws then ret () else throw (Fail Again))
               else ensure_ws_ready H) (\<lambda>_.
          bnd (on_io (with_entropy (websocket_binary_frame
                 (encode_v3 \<lparr>fr_body = data m, fr_more = msg_more m, fr_command = False\<rparr>) masking))) (\<lambda>frame.
            on_ws_stream (write_all frame))))"

definition recv_ws_frame :: "hashes \<Rightarrow> ('w, message) ws_op" where
  "recv_ws_frame H =
     bnd (ensure_ws_ready H) (\<lambda>_.
     bnd (on_ws_stream read_websocket_binary_frame) (\<lambda>payload.
     bnd (try_result (decode_v3 payload)) (\<lambda>frame.
       ret (set_more (fr_more frame) (message_from_vec (fr_body frame))))))"

end
