(* ===== verification/Handshake_Agreement.thy ===== *)
theory Handshake_Agreement
  imports Handshake
begin

text \<open>
  Two honest ends of one connection: what the client writes is what the server reads and the other
  way round, and with each mechanism both come out of the handshake with the peer's identity and,
  for CURVE, with sessions that fit each other.
\<close>

section \<open>Computations that read one text and write another\<close>

text \<open>
  On every stream whose input begins with \<open>inp\<close>, with the given random supply and without a ZAP
  handler in its context, the computation returns \<open>r\<close>, has read exactly \<open>inp\<close> and has written \<open>outp\<close>;
  the context is as before.
\<close>

definition ready_state :: "bytes \<Rightarrow> 'w io \<Rightarrow> bool" where
  "ready_state entropy st \<longleftrightarrow> io_entropy st = entropy \<and> inproc_endpoint_of ZAP_ENDPOINT (io_world st) = None"

definition yields :: "bytes \<Rightarrow> ('w io, fault, 'a) comp \<Rightarrow> bytes \<Rightarrow> bytes \<Rightarrow> 'a \<Rightarrow> bool" where
  "yields entropy m inp outp r \<longleftrightarrow>
     (\<forall>st rest. ready_state entropy st \<longrightarrow> io_in st = inp @ rest \<longrightarrow>
        (\<exists>st'. m st = (Inr r, st') \<and> io_in st' = rest \<and> io_out st' = io_out st @ outp \<and> io_world st' = io_world st))"

lemma ready_state_simps [simp]:
  "ready_state e (st\<lparr>io_in := x\<rparr>) = ready_state e st" "ready_state e (st\<lparr>io_out := x\<rparr>) = ready_state e st"
  "ready_state e (st\<lparr>io_timeout := b\<rparr>) = ready_state e st"
  by (simp_all add: ready_state_def)

lemma yieldsI:
  assumes "\<And>st rest. ready_state e st \<Longrightarrow> io_in st = inp @ rest \<Longrightarrow>
    \<exists>st'. m st = (Inr r, st') \<and> io_in st' = rest \<and> io_out st' = io_out st @ outp \<and> io_world st' = io_world st"
  shows "yields e m inp outp r"
  using assms by (simp add: yields_def)

lemma yieldsD:
  assumes "yields e m inp outp r" "ready_state e st" "io_in st = inp @ rest"
  obtains st' where "m st = (Inr r, st')" "io_in st' = rest" "io_out st' = io_out st @ outp" "io_world st' = io_world st"
  using assms unfolding yields_def by blast


section \<open>Greetings\<close>

lemma greeting_parts:
  "length (greeting_encode g) = 64"
  "take 10 (greeting_encode g) ! 0 = 0xFF" "take 10 (greeting_encode g) ! 9 = 0x7F"
  by (simp_all add: greeting_encode_eq nth_append)

definition own_greeting :: "security_options \<Rightarrow> bool \<Rightarrow> bytes" where
  "own_greeting sec as_server = greeting_encode (greeting_new (mechanism_name sec) as_server)"

lemma write_handshake_eq:
  assumes "io_in st = greeting_encode g @ rest"
    and st1: "st1 = st\<lparr>io_in := rest, io_out := io_out st @ own_greeting sec as_server,
      io_timeout := (io_timeout st \<and> \<not> as_server)\<rparr>"
  shows "write_zmtp_handshake C t as_server sec routing_id st =
    (case mechanism_handshake C t as_server sec routing_id st1 of
       (Inl e, st2) \<Rightarrow> (Inl e, st2)
     | (Inr h, st2) \<Rightarrow> (Inr (h\<lparr>hr_peer_greeting_done := True\<rparr>),
         if as_server then st2\<lparr>io_timeout := True\<rparr> else st2))"
proof -
  let ?g = "greeting_encode g" and ?o = "own_greeting sec as_server"
  define st0 where "st0 = st\<lparr>io_out := io_out st @ take 10 ?o, io_timeout := (io_timeout st \<and> \<not> as_server)\<rparr>"
  have g: "?g = take 10 ?g @ drop 10 ?g"
    by simp
  have i0: "io_in st0 = take 10 ?g @ (drop 10 ?g @ rest)"
    using assms(1) by (simp add: st0_def)
  have p: "or_again read_zmtp_peer_greeting_prefix st0 = (Inr True, st0\<lparr>io_in := drop 10 ?g @ rest\<rparr>)"
    using read_exact_append [OF _ i0, of 10] greeting_parts [of g]
    by (simp add: or_again_def read_zmtp_peer_greeting_prefix_def)
  have tl: "read_zmtp_greeting_tail (st0\<lparr>io_in := drop 10 ?g @ rest, io_out := io_out st0 @ drop 10 ?o\<rparr>) = (Inr (), st1)"
    using read_exact_append [of "drop 10 ?g" 54 "st0\<lparr>io_in := drop 10 ?g @ rest, io_out := io_out st0 @ drop 10 ?o\<rparr>" rest]
      greeting_parts [of g]
    by (simp add: read_zmtp_greeting_tail_def st0_def st1)
  have o: "st\<lparr>io_timeout := (io_timeout st \<and> \<not> as_server), io_out := io_out st @ take 10 ?o\<rparr> = st0"
    by (simp add: st0_def)
  have "write_zmtp_handshake C t as_server sec routing_id st =
      bnd (mechanism_handshake C t as_server sec routing_id) (\<lambda>h.
      bnd (if as_server then set_read_timeout True else ret ()) (\<lambda>_. ret (h\<lparr>hr_peer_greeting_done := True\<rparr>))) st1"
    unfolding write_zmtp_handshake_def Let_def own_greeting_def [symmetric]
    using p tl o by (cases as_server) (simp_all del: append_take_drop_id)
  then show ?thesis
    by (cases as_server) (auto simp: bnd_def split: prod.split sum.split)
qed

lemma length_handshake_properties: "length (encode_properties (handshake_properties t identity)) \<le> 36 + length identity"
  by (cases t) (auto simp: handshake_properties_def socket_type_name_def)

lemma establish_ready:
  assumes "yields e (mechanism_handshake C t as_server sec routing_id :: ('w io, _, _) comp) inp outp (handshake_done i s)"
  shows "yields e (establish C t as_server sec routing_id :: ('w io, _, _) comp) (greeting_encode g @ inp) (own_greeting sec as_server @ outp) (i, s)"
proof (rule yieldsI)
  fix st :: "'w io" and rest
  assume r: "ready_state e st" and i: "io_in st = (greeting_encode g @ inp) @ rest"
  let ?st1 = "st\<lparr>io_in := inp @ rest, io_out := io_out st @ own_greeting sec as_server,
      io_timeout := (io_timeout st \<and> \<not> as_server)\<rparr>"
  obtain st2 where 2: "mechanism_handshake C t as_server sec routing_id ?st1 = (Inr (handshake_done i s), st2)"
    "io_in st2 = rest" "io_out st2 = io_out ?st1 @ outp" "io_world st2 = io_world st"
    by (rule yieldsD [OF assms, of ?st1 rest]) (use r in simp_all)
  show "\<exists>st'. establish C t as_server sec routing_id st = (Inr (i, s), st') \<and> io_in st' = rest
      \<and> io_out st' = io_out st @ own_greeting sec as_server @ outp \<and> io_world st' = io_world st"
    using write_handshake_eq [OF _ refl, of st g "inp @ rest" C t as_server sec routing_id] i 2
    by (simp add: establish_def handshake_done_def bnd_apply)
qed

lemma establish_pending:
  assumes "yields e (mechanism_handshake C t as_server sec routing_id :: ('w io, _, _) comp) inp outp
      \<lparr>hr_peer_greeting_done = False, hr_peer_ready = False, hr_peer_identity = None, hr_curve_session = None\<rparr>"
    and l: "length identity < 256 ^ 4"
  shows "yields e (establish C t as_server sec routing_id :: ('w io, _, _) comp)
    (greeting_encode g @ inp @ encode_v3 (frame_command (ready_command_body_with_identity u identity)))
    (own_greeting sec as_server @ outp) (if identity = [] then None else Some identity, None)"
proof (rule yieldsI)
  fix st :: "'w io" and rest
  let ?ready = "ready_command_body_with_identity u identity"
  assume r: "ready_state e st"
    and i: "io_in st = (greeting_encode g @ inp @ encode_v3 (frame_command ?ready)) @ rest"
  let ?st1 = "st\<lparr>io_in := inp @ encode_v3 (frame_command ?ready) @ rest, io_out := io_out st @ own_greeting sec as_server,
      io_timeout := (io_timeout st \<and> \<not> as_server)\<rparr>"
  obtain st2 where 2: "mechanism_handshake C t as_server sec routing_id ?st1 =
      (Inr \<lparr>hr_peer_greeting_done = False, hr_peer_ready = False, hr_peer_identity = None, hr_curve_session = None\<rparr>, st2)"
    "io_in st2 = encode_v3 (frame_command ?ready) @ rest" "io_out st2 = io_out ?st1 @ outp" "io_world st2 = io_world st"
    by (rule yieldsD [OF assms(1), of ?st1 "encode_v3 (frame_command ?ready) @ rest"]) (use r in simp_all)
  let ?st3 = "if as_server then st2\<lparr>io_timeout := True\<rparr> else st2"
  have 3: "io_in ?st3 = encode_v3 (frame_command ?ready) @ rest" "io_out ?st3 = io_out st @ own_greeting sec as_server @ outp"
    using 2 by simp_all
  have len: "length ?ready < 2 ^ 62"
    using length_handshake_properties [of u identity] l by (simp add: ready_is_command command_body_def)
  have "decode_ready ?ready = Inr (handshake_properties u identity)"
    using decode_handshake_properties [OF l, of u]
    by (simp add: ready_command_body_with_identity_def encode_ready_def decode_ready_def slice_def)
  then have "read_zmtp_peer_ready ?st3 = (Inr (handshake_properties u identity), ?st3\<lparr>io_in := rest\<rparr>)"
    using read_command_ok [OF len 3(1)] by (simp add: read_zmtp_peer_ready.simps [of ?st3] frame_command_def)
  then show "\<exists>st'. establish C t as_server sec routing_id st = (Inr (if identity = [] then None else Some identity, None), st')
      \<and> io_in st' = rest \<and> io_out st' = io_out st @ own_greeting sec as_server @ outp \<and> io_world st' = io_world st"
    using write_handshake_eq [OF _ refl, of st g "inp @ encode_v3 (frame_command ?ready) @ rest" C t as_server sec routing_id] i 2 3(2)
    by (simp add: establish_def bnd_apply peer_identity_of_def metadata_get_identity)
qed



section \<open>NULL and PLAIN\<close>

abbreviation cmd :: "bytes \<Rightarrow> bytes" where
  "cmd body \<equiv> encode_v3 (frame_command body)"

definition pending :: handshake_result where
  "pending = \<lparr>hr_peer_greeting_done = False, hr_peer_ready = False, hr_peer_identity = None, hr_curve_session = None\<rparr>"

definition identity_option :: "bytes \<Rightarrow> bytes option" where
  "identity_option identity = (if identity = [] then None else Some identity)"

lemma write_command_apply [simp]: "write_command body st = (Inr (), st\<lparr>io_out := io_out st @ cmd body\<rparr>)"
  by (simp add: write_command_def)

lemma authorize_local:
  "ready_state e st \<Longrightarrow> authorize_peer sec mech creds (Inr ()) st = (Inr (), st)"
  by (simp add: authorize_peer_def ready_state_def)

lemma null_yields:
  assumes "mechanism sec = ZMQ_NULL"
  shows "yields e (mechanism_handshake C t as_server sec identity) [] (cmd (ready_command_body_with_identity t identity)) pending"
  using assms by (intro yieldsI) (simp add: mechanism_handshake_def pending_def)

lemma null_establish:
  assumes "mechanism sec = ZMQ_NULL" "length peer_identity < 256 ^ 4"
  shows "yields e (establish C t as_server sec identity :: ('w io, _, _) comp)
    (greeting_encode g @ cmd (ready_command_body_with_identity u peer_identity))
    (own_greeting sec as_server @ cmd (ready_command_body_with_identity t identity)) (identity_option peer_identity, None)"
  unfolding identity_option_def
  using establish_pending [OF null_yields [OF assms(1), unfolded pending_def] assms(2), of e C t as_server identity g u]
  by simp

lemma plain_client_yields:
  assumes "mechanism sec = ZMQ_PLAIN"
  shows "yields e (mechanism_handshake C t False sec identity) (cmd (command_body (lit ''WELCOME'') []))
    (cmd (plain_hello_body sec) @ cmd (plain_initiate_body t identity)) pending"
proof (rule yieldsI)
  fix st :: "'b io" and rest
  assume i: "io_in st = cmd (command_body (lit ''WELCOME'') []) @ rest"
  let ?st1 = "st\<lparr>io_out := io_out st @ cmd (plain_hello_body sec)\<rparr>"
  have "read_zmtp_frame ?st1 = (Inr (frame_command (command_body (lit ''WELCOME'') [])), ?st1\<lparr>io_in := rest\<rparr>)"
    using i by (intro read_command_ok) (simp_all add: command_body_def)
  then show "\<exists>st'. mechanism_handshake C t False sec identity st = (Inr pending, st') \<and> io_in st' = rest
      \<and> io_out st' = io_out st @ cmd (plain_hello_body sec) @ cmd (plain_initiate_body t identity) \<and> io_world st' = io_world st"
    using assms by (simp add: mechanism_handshake_def write_plain_handshake_def pending_def)
qed

lemma plain_server_yields:
  assumes "mechanism sec = ZMQ_PLAIN" "length peer_identity < 256 ^ 4"
    and "authorize_plain sec \<lparr>pc_username = take 255 (sec_plain_username csec), pc_password = take 255 (sec_plain_password csec)\<rparr> = Inr ()"
  shows "yields e (mechanism_handshake C t True sec identity)
    (cmd (plain_hello_body csec) @ cmd (plain_initiate_body u peer_identity))
    (cmd (command_body (lit ''WELCOME'') []) @ cmd (ready_command_body_with_identity t identity))
    (handshake_done (identity_option peer_identity) None)"
proof (rule yieldsI)
  fix st :: "'b io" and rest
  let ?h = "plain_hello_body csec" and ?i = "plain_initiate_body u peer_identity"
  assume r: "ready_state e st" and i: "io_in st = (cmd ?h @ cmd ?i) @ rest"
  have l: "length ?h < 2 ^ 62" "length ?i < 2 ^ 62"
    using length_handshake_properties [of u peer_identity] assms(2)
    by (simp_all add: plain_hello_body_def command_body_def Let_def initiate_is_command min_def)
  let ?st1 = "st\<lparr>io_in := cmd ?i @ rest\<rparr>"
  let ?st2 = "?st1\<lparr>io_out := io_out st @ cmd (command_body (lit ''WELCOME'') [])\<rparr>"
  have 1: "read_zmtp_frame st = (Inr (frame_command ?h), ?st1)"
    using i l by (intro read_command_ok) simp_all
  have 2: "read_zmtp_frame ?st2 = (Inr (frame_command ?i), ?st2\<lparr>io_in := rest\<rparr>)"
    using l by (intro read_command_ok) simp_all
  have h: "parse_plain_hello (frame_command ?h) =
      Inr \<lparr>pc_username = take 255 (sec_plain_username csec), pc_password = take 255 (sec_plain_password csec)\<rparr>"
    by (simp add: parse_plain_hello_iff plain_hello_body_def frame_command_def Let_def min_def)
  have p: "parse_plain_initiate (frame_command ?i) = Inr (handshake_properties u peer_identity)"
    using decode_handshake_properties [OF assms(2), of u] by (simp add: parse_plain_initiate_def initiate_is_command)
  have a: "authorize_peer sec mech creds (Inr ()) ?st1 = (Inr (), ?st1)" for mech creds
    using r by (intro authorize_local) simp
  show "\<exists>st'. mechanism_handshake C t True sec identity st = (Inr (handshake_done (identity_option peer_identity) None), st')
      \<and> io_in st' = rest
      \<and> io_out st' = io_out st @ cmd (command_body (lit ''WELCOME'') []) @ cmd (ready_command_body_with_identity t identity) \<and> io_world st' = io_world st"
    using assms(1,3) 1 2 h p a
    by (simp add: mechanism_handshake_def write_plain_handshake_def peer_identity_of_def metadata_get_identity identity_option_def)
qed

text \<open>
  The NULL and PLAIN handshakes complete and agree. When both ends use NULL, or both PLAIN with
  credentials the server accepts, there are two byte strings such that the client reads the one and
  writes the other, the server reads what the client writes and writes what the client reads, and
  both finish, each with the identity the other has configured.
\<close>

theorem handshake_agrees:
  assumes "(mechanism csec = ZMQ_NULL \<and> mechanism ssec = ZMQ_NULL) \<or> (mechanism csec = ZMQ_PLAIN \<and> mechanism ssec = ZMQ_PLAIN
      \<and> authorize_plain ssec \<lparr>pc_username = take 255 (sec_plain_username csec), pc_password = take 255 (sec_plain_password csec)\<rparr> = Inr ())"
    and "length cid < 256 ^ 4" "length sid < 256 ^ 4"
  shows "\<exists>c2s s2c.
      yields ec (establish C ct False csec cid :: ('w io, fault, _) comp) s2c c2s (identity_option sid, None)
    \<and> yields es (establish C st True ssec sid :: ('v io, fault, _) comp) c2s s2c (identity_option cid, None)"
  using assms(1)
proof
  assume n: "mechanism csec = ZMQ_NULL \<and> mechanism ssec = ZMQ_NULL"
  let ?c = "own_greeting csec False @ cmd (ready_command_body_with_identity ct cid)"
    and ?s = "own_greeting ssec True @ cmd (ready_command_body_with_identity st sid)"
  have "yields ec (establish C ct False csec cid :: ('w io, fault, _) comp) ?s ?c (identity_option sid, None)"
    unfolding own_greeting_def [of ssec] using n assms(3) by (intro null_establish) simp_all
  moreover have "yields es (establish C st True ssec sid :: ('v io, fault, _) comp) ?c ?s (identity_option cid, None)"
    unfolding own_greeting_def [of csec] using n assms(2) by (intro null_establish) simp_all
  ultimately show ?thesis
    by blast
next
  assume p: "mechanism csec = ZMQ_PLAIN \<and> mechanism ssec = ZMQ_PLAIN
      \<and> authorize_plain ssec \<lparr>pc_username = take 255 (sec_plain_username csec), pc_password = take 255 (sec_plain_password csec)\<rparr> = Inr ()"
  let ?c = "own_greeting csec False @ cmd (plain_hello_body csec) @ cmd (plain_initiate_body ct cid)"
    and ?s = "own_greeting ssec True @ cmd (command_body (lit ''WELCOME'') []) @ cmd (ready_command_body_with_identity st sid)"
  have "yields ec (establish C ct False csec cid :: ('w io, fault, _) comp) ?s ?c (identity_option sid, None)"
    unfolding own_greeting_def [of ssec] identity_option_def
    using p assms(3) by (intro establish_pending plain_client_yields [unfolded pending_def]) simp_all
  moreover have "yields es (establish C st True ssec sid :: ('v io, fault, _) comp) ?c ?s (identity_option cid, None)"
    unfolding own_greeting_def [of csec]
    using p assms(2) by (intro establish_ready plain_server_yields) simp_all
  ultimately show ?thesis
    by blast
qed

theorem handshake_agrees_witness:
  "\<exists>c2s s2c.
      yields [] (establish plain_crypto Dealer False (security_options_default\<lparr>sec_plain_username := [97], sec_plain_password := [98]\<rparr>) [99]
        :: (unit io, fault, _) comp) s2c c2s (Some [100], None)
    \<and> yields [] (establish plain_crypto Router True (security_options_default\<lparr>sec_plain_server := True\<rparr>) [100]
        :: (unit io, fault, _) comp) c2s s2c (Some [99], None)"
  using handshake_agrees [of "security_options_default\<lparr>sec_plain_username := [97], sec_plain_password := [98]\<rparr>"
      "security_options_default\<lparr>sec_plain_server := True\<rparr>" "[99]" "[100]" "[]" plain_crypto Dealer "[]" Router]
  by (simp add: mechanism_def security_options_default_def authorize_plain_def identity_option_def)



section \<open>CURVE\<close>

lemma with_entropy_ok:
  assumes "f (io_entropy st) = (Inr x, r)"
  shows "with_entropy f st = (Inr x, st\<lparr>io_entropy := r\<rparr>)"
  using assms by (simp add: with_entropy_def)

text \<open>All four commands of one exchange, with the states on either side.\<close>

lemma curve_exchange:
  assumes C: "crypto_laws C" and keys: "curve_keys C csec ssec S K"
    and ent: "48 \<le> length ec" "96 \<le> length es" and ids: "length cid < 256 ^ 4" "length sid < 256 ^ 4"
  obtains c0 c1 c2 c3 c4 h0 h1 s1 hello wel initiate ready a where
    "curve_client_new C csec ec = (Inr c0, drop 32 ec)" "hello_body C c0 = (Inr hello, c1)"
    "parse_curve_hello C ssec (frame_command hello) es = (Inr h0, drop 64 es)"
    "curve_welcome_body C ssec h0 (drop 64 es) = (Inr wel, drop 96 es)"
    "process_welcome C (frame_command wel) c1 = (Inr (), c2)"
    "initiate_body C ct cid (c2, drop 32 ec) = (Inr initiate, (c3, drop 48 ec))"
    "parse_curve_initiate C (frame_command initiate) h0 =
       (Inr \<lparr>ci_client_public_key = cr_public C S, ci_metadata = handshake_properties ct cid\<rparr>, h1)"
    "curve_ready_body C st sid (server_session h1) = (Inr ready, s1)"
    "process_ready C (frame_command ready) c3 = (Inr (handshake_properties st sid), c4)"
    "client_session c4 = Inr a" "matched C a s1" "matched C s1 a"
    "length hello < 2 ^ 62" "length wel < 2 ^ 62" "length initiate < 2 ^ 62" "length ready < 2 ^ 62"
    "cs_send_nonce a = 3"
proof -
  let ?T = "take 32 ec" and ?U = "take 32 es" and ?Y = "take 32 (drop 32 es)"
  have l: "length S = 32" "length K = 32" "length ?T = 32" "length ?U = 32" "length ?Y = 32"
    using keys curve_option_key_length ent by (auto simp: curve_keys_def)
  let ?c0 = "client_start C S K ?T" and ?h0 = "server_start C K ?T ?U ?Y"
  have n: "curve_client_new C csec ec = (Inr ?c0, drop 32 ec)"
    using client_new_ok [OF keys] ent by simp
  obtain hello where hello: "hello_body C ?c0 = (Inr hello, ?c0\<lparr>cc_send_nonce := 2\<rparr>)" "length hello = 200"
    "parse_curve_hello C ssec (frame_command hello) es = (Inr ?h0, drop 64 es)"
    using ent by (rule_tac hello_step [OF C keys l(3), of es]) auto
  obtain wel cookie where w: "curve_welcome_body C ssec ?h0 (drop 64 es) = (Inr wel, drop 32 (drop 64 es))"
    "length wel = 168" "length cookie = 96"
    "\<And>c. cc_server_key c = cr_public C K \<Longrightarrow> cc_transient_secret c = ?T \<Longrightarrow>
       process_welcome C (frame_command wel) c =
         (Inr (), c\<lparr>cc_server_transient_public := Some (cr_public C ?U), cc_cookie := Some cookie\<rparr>)"
    "cr_unseal C ?Y (curve_long_nonce (lit ''COOKIE--'') (take 16 cookie)) (drop 16 cookie) = Some (cr_public C ?T @ ?U)"
    using ent by (rule_tac welcome_step [OF C keys l(3-5), of "drop 64 es"]) auto
  let ?c2 = "?c0\<lparr>cc_send_nonce := 2, cc_server_transient_public := Some (cr_public C ?U), cc_cookie := Some cookie\<rparr>"
  obtain initiate where i: "initiate_body C ct cid (?c2, drop 32 ec) = (Inr initiate, (?c2\<lparr>cc_send_nonce := 3\<rparr>, drop 16 (drop 32 ec)))"
    "length initiate = 257 + length (socket_type_metadata_with_identity ct cid)"
    "parse_curve_initiate C (frame_command initiate) ?h0 =
       (Inr \<lparr>ci_client_public_key = cr_public C S, ci_metadata = handshake_properties ct cid\<rparr>, ?h0\<lparr>sv_peer_nonce := 2\<rparr>)"
    using ent by (rule_tac initiate_step [OF C l _ ids(1) w(3,5), of "drop 32 ec" ct]) auto
  let ?h1 = "?h0\<lparr>sv_peer_nonce := 2\<rparr>" and ?c3 = "?c2\<lparr>cc_send_nonce := 3\<rparr>"
  obtain ready where r: "curve_ready_body C st sid (server_session ?h1) = (Inr ready, (server_session ?h1)\<lparr>cs_send_nonce := 2\<rparr>)"
    "length ready = 30 + length (socket_type_metadata_with_identity st sid)"
    "process_ready C (frame_command ready) ?c3 = (Inr (handshake_properties st sid), ?c3\<lparr>cc_recv_nonce := 1\<rparr>)"
    by (rule ready_step [OF C l(3,4) ids(2), of "server_session ?h1" ?h1 ?c3 st])
      (auto simp: server_start_def client_start_def)
  let ?a = "\<lparr>cs_local_transient_secret = ?T, cs_peer_transient_public = cr_public C ?U, cs_send_nonce = 3, cs_recv_nonce = 1,
      cs_send_prefix = lit ''CurveZMQMESSAGEC'', cs_recv_prefix = lit ''CurveZMQMESSAGES''\<rparr>"
  have a: "client_session (?c3\<lparr>cc_recv_nonce := 1\<rparr>) = Inr ?a"
    "matched C ?a ((server_session ?h1)\<lparr>cs_send_nonce := 2\<rparr>)" "matched C ((server_session ?h1)\<lparr>cs_send_nonce := 2\<rparr>) ?a"
    using l by (simp_all add: client_session_def matched_def server_session_def server_start_def client_start_def word_less_nat_alt)
  have "length (socket_type_metadata_with_identity ct cid) < 2 ^ 40" "length (socket_type_metadata_with_identity st sid) < 2 ^ 40"
    using length_handshake_properties [of ct cid] length_handshake_properties [of st sid] ids
    by (simp_all add: socket_type_metadata_with_identity_def)
  then show ?thesis
    using that [OF n hello(1,3) _ w(4) _ i(3) r(1,3) a] w(1,2) hello(2) i(1,2) r(2) by (simp add: client_start_def)
qed


lemma curve_client_yields:
  assumes "mechanism sec = ZMQ_CURVE"
    and x: "curve_client_new C sec e = (Inr c0, e1)" "hello_body C c0 = (Inr hello, c1)"
    "process_welcome C (frame_command wel) c1 = (Inr (), c2)"
    "initiate_body C t identity (c2, e1) = (Inr initiate, (c3, e2))"
    "process_ready C (frame_command ready) c3 = (Inr (handshake_properties u peer_identity), c4)" "client_session c4 = Inr a"
    and l: "length wel < 2 ^ 62" "length ready < 2 ^ 62"
  shows "yields e (mechanism_handshake C t False sec identity :: ('w io, fault, _) comp) (cmd wel @ cmd ready)
    (cmd hello @ cmd initiate) (handshake_done (identity_option peer_identity) (Some a))"
proof (rule yieldsI)
  fix s :: "'w io" and rest
  assume r: "ready_state e s" and i: "io_in s = (cmd wel @ cmd ready) @ rest"
  let ?s1 = "s\<lparr>io_entropy := e1, io_out := io_out s @ cmd hello\<rparr>"
  let ?s2 = "?s1\<lparr>io_in := cmd ready @ rest, io_entropy := e2, io_out := io_out ?s1 @ cmd initiate\<rparr>"
  have 0: "with_entropy (curve_client_new C sec) s = (Inr c0, s\<lparr>io_entropy := e1\<rparr>)"
    using r x(1) by (intro with_entropy_ok) (simp add: ready_state_def)
  have 1: "read_zmtp_frame ?s1 = (Inr (frame_command wel), ?s1\<lparr>io_in := cmd ready @ rest\<rparr>)"
    using i l by (intro read_command_ok) simp_all
  have 2: "read_zmtp_frame ?s2 = (Inr (frame_command ready), ?s2\<lparr>io_in := rest\<rparr>)"
    using l by (intro read_command_ok) simp_all
  show "\<exists>s'. mechanism_handshake C t False sec identity s = (Inr (handshake_done (identity_option peer_identity) (Some a)), s')
      \<and> io_in s' = rest \<and> io_out s' = io_out s @ cmd hello @ cmd initiate \<and> io_world s' = io_world s"
    using assms(1) 0 1 2 x
    by (simp add: mechanism_handshake_def write_curve_handshake_def with_entropy_def
        peer_identity_of_def metadata_get_identity identity_option_def)
qed

lemma curve_server_yields:
  assumes "mechanism sec = ZMQ_CURVE" "authorize_curve sec public_key = Inr ()"
    and x: "parse_curve_hello C sec (frame_command hello) e = (Inr h0, e1)"
    "curve_welcome_body C sec h0 e1 = (Inr wel, e2)"
    "parse_curve_initiate C (frame_command initiate) h0 =
       (Inr \<lparr>ci_client_public_key = public_key, ci_metadata = handshake_properties u peer_identity\<rparr>, h1)"
    "curve_ready_body C t identity (server_session h1) = (Inr ready, b)"
    and l: "length hello < 2 ^ 62" "length initiate < 2 ^ 62"
  shows "yields e (mechanism_handshake C t True sec identity :: ('w io, fault, _) comp) (cmd hello @ cmd initiate)
    (cmd wel @ cmd ready) (handshake_done (identity_option peer_identity) (Some b))"
proof (rule yieldsI)
  fix s :: "'w io" and rest
  assume r: "ready_state e s" and i: "io_in s = (cmd hello @ cmd initiate) @ rest"
  let ?s1 = "s\<lparr>io_in := cmd initiate @ rest, io_entropy := e2, io_out := io_out s @ cmd wel\<rparr>"
  have 1: "read_zmtp_frame s = (Inr (frame_command hello), s\<lparr>io_in := cmd initiate @ rest\<rparr>)"
    using i l by (intro read_command_ok) simp_all
  have 2: "read_zmtp_frame ?s1 = (Inr (frame_command initiate), ?s1\<lparr>io_in := rest\<rparr>)"
    using l by (intro read_command_ok) simp_all
  have e: "io_entropy s = e" "inproc_endpoint_of ZAP_ENDPOINT (io_world s) = None"
    using r by (simp_all add: ready_state_def)
  show "\<exists>s'. mechanism_handshake C t True sec identity s = (Inr (handshake_done (identity_option peer_identity) (Some b)), s')
      \<and> io_in s' = rest \<and> io_out s' = io_out s @ cmd wel @ cmd ready \<and> io_world s' = io_world s"
    using assms(1,2) 1 2 x e
    by (simp add: mechanism_handshake_def write_curve_handshake_def with_entropy_def authorize_peer_def
        peer_identity_of_def metadata_get_identity identity_option_def)
qed

text \<open>
  C5. The CURVE handshake completes, agrees and sets up a channel. For a client that knows the server's
  public key and a server that accepts the client's, with enough random bytes on both sides and a
  cipher that keeps its laws, there are two byte strings that each end reads from and writes to the
  other; both ends finish with the identity the other has configured, and their sessions fit each
  other in both directions, so that messages cross them unchanged.
\<close>

theorem curve_handshake_agrees:
  assumes "crypto_laws C" and "curve_keys C csec ssec S K"
    and "mechanism csec = ZMQ_CURVE" "mechanism ssec = ZMQ_CURVE" "authorize_curve ssec (cr_public C S) = Inr ()"
    and "48 \<le> length ec" "96 \<le> length es" and "length cid < 256 ^ 4" "length sid < 256 ^ 4"
  shows "\<exists>c2s s2c a b.
      yields ec (establish C ct False csec cid :: ('w io, fault, _) comp) s2c c2s (identity_option sid, Some a)
    \<and> yields es (establish C st True ssec sid :: ('v io, fault, _) comp) c2s s2c (identity_option cid, Some b)
    \<and> matched C a b \<and> matched C b a"
proof -
  obtain c0 c1 c2 c3 c4 h0 h1 b hello wel initiate ready a where
    x: "curve_client_new C csec ec = (Inr c0, drop 32 ec)" "hello_body C c0 = (Inr hello, c1)"
    "parse_curve_hello C ssec (frame_command hello) es = (Inr h0, drop 64 es)"
    "curve_welcome_body C ssec h0 (drop 64 es) = (Inr wel, drop 96 es)"
    "process_welcome C (frame_command wel) c1 = (Inr (), c2)"
    "initiate_body C ct cid (c2, drop 32 ec) = (Inr initiate, (c3, drop 48 ec))"
    "parse_curve_initiate C (frame_command initiate) h0 =
       (Inr \<lparr>ci_client_public_key = cr_public C S, ci_metadata = handshake_properties ct cid\<rparr>, h1)"
    "curve_ready_body C st sid (server_session h1) = (Inr ready, b)"
    "process_ready C (frame_command ready) c3 = (Inr (handshake_properties st sid), c4)"
    "client_session c4 = Inr a" and m: "matched C a b" "matched C b a"
    and l: "length hello < 2 ^ 62" "length wel < 2 ^ 62" "length initiate < 2 ^ 62" "length ready < 2 ^ 62"
    and nonce: "cs_send_nonce a = 3"
    by (rule curve_exchange [OF assms(1,2,6-9), of ct st])
  let ?c = "own_greeting csec False @ cmd hello @ cmd initiate" and ?s = "own_greeting ssec True @ cmd wel @ cmd ready"
  have "yields ec (establish C ct False csec cid :: ('w io, fault, _) comp) ?s ?c (identity_option sid, Some a)"
    unfolding own_greeting_def [of ssec]
    by (rule establish_ready [OF curve_client_yields [OF assms(3) x(1,2,5,6,9,10) l(2,4)]])
  moreover have "yields es (establish C st True ssec sid :: ('v io, fault, _) comp) ?c ?s (identity_option cid, Some b)"
    unfolding own_greeting_def [of csec]
    by (rule establish_ready [OF curve_server_yields [OF assms(4,5) x(3,4,7,8) l(1,3)]])
  ultimately show ?thesis
    using m by blast
qed

theorem curve_handshake_agrees_witness:
  "\<exists>c2s s2c a b.
      yields (replicate 48 5) (establish plain_crypto Req False
        (security_options_default\<lparr>sec_curve_secretkey := replicate 32 1, sec_curve_serverkey := replicate 32 2\<rparr>) []
          :: (unit io, fault, _) comp) s2c c2s (None, Some a)
    \<and> yields (replicate 96 6) (establish plain_crypto Rep True
        (security_options_default\<lparr>sec_curve_server := True, sec_curve_secretkey := replicate 32 2\<rparr>) []
          :: (unit io, fault, _) comp) c2s s2c (None, Some b)
    \<and> matched plain_crypto a b \<and> matched plain_crypto b a"
proof -
  let ?c = "security_options_default\<lparr>sec_curve_secretkey := replicate 32 1, sec_curve_serverkey := replicate 32 2\<rparr>"
    and ?s = "security_options_default\<lparr>sec_curve_server := True, sec_curve_secretkey := replicate 32 2\<rparr>"
  have "curve_keys plain_crypto ?c ?s (replicate 32 1) (replicate 32 2)"
    by (simp add: curve_keys_def curve_option_key_def security_options_default_def plain_crypto_def)
  moreover have "mechanism ?c = ZMQ_CURVE" "mechanism ?s = ZMQ_CURVE"
    by (simp_all add: mechanism_def security_options_default_def)
  moreover have "authorize_curve ?s (cr_public plain_crypto (replicate 32 1)) = Inr ()"
    by (simp add: authorize_curve_def security_options_default_def)
  ultimately show ?thesis
    using curve_handshake_agrees [OF plain_crypto_laws, of ?c ?s "replicate 32 1" "replicate 32 2" "replicate 48 5" "replicate 96 6" "[]" "[]" Req Rep]
    by (simp add: identity_option_def)
qed



section \<open>What a peer can do to a reader\<close>

text \<open>
  A length from the wire is not checked. A peer that sends a frame header announcing a body of
  \<open>isize::MAX - 8\<close> bytes or more, which nine bytes suffice for, makes the reader panic: the vector it
  would allocate cannot exist.
\<close>

theorem announced_length_panics:
  assumes "io_in st = flags # to_be 8 n @ rest" and "flags AND 2 \<noteq> 0" and "n < 2 ^ 64" and "ISIZE_MAX - 8 \<le> n"
  shows "fst (read_zmtp_frame st) = Inl Panic"
proof -
  have n: "from_be (to_be 8 n) = n"
    using assms(3) by (intro from_be_to_be_id) simp
  have "fst (read_zmtp_frame_bytes st) = Inl Panic"
    using assms n by (simp add: read_zmtp_frame_bytes_def read_exact_def read_body_len_def bnd_apply Let_def ISIZE_MAX_def)
  then show ?thesis
    by (simp add: read_zmtp_frame_def bnd_apply)
qed

definition io_example :: "bytes \<Rightarrow> unit io" where
  "io_example bs = \<lparr>io_in = bs, io_out = [], io_closed = False, io_timeout = True, io_entropy = [],
     io_world = world_new (), io_others = []\<rparr>"

theorem announced_length_panics_witness:
  "fst (read_zmtp_frame (io_example (2 # to_be 8 (2 ^ 64 - 1)))) = Inl Panic"
  by (rule announced_length_panics [of _ 2 "2 ^ 64 - 1" "[]"]) (simp_all add: io_example_def ISIZE_MAX_def)

text \<open>
  A timeout inside a frame loses the stream. When the read timeout strikes after some but not all
  bytes of a frame, the read reports \<open>Again\<close> and the bytes it has taken are gone: the rest of the frame,
  when it arrives, is read as the start of the next one.
\<close>

theorem timeout_loses_partial_frame:
  assumes "length (fr_body f) < 2 ^ 62" and "k < length (encode_v3 f)"
    and "io_in st = take k (encode_v3 f)" and "io_timeout st" "\<not> io_closed st"
  shows "read_zmtp_frame st = (Inl (Fail Again), st\<lparr>io_in := []\<rparr>)"
proof -
  have "read_zmtp_frame_bytes st = (Inl (Fail Again), st\<lparr>io_in := []\<rparr>)"
  proof (cases "length (fr_body f) \<le> 255")
    case True
    with assms show ?thesis
      by (cases k; cases "k - 1")
        (auto simp: read_zmtp_frame_bytes_def encode_v3_def encode_frame_short read_exact_def read_body_len_def
          frame_flags_bits ISIZE_MAX_def Let_def bnd_apply)
  next
    case False
    show ?thesis
    proof (cases "k < 9")
      case k: True
      with False assms show ?thesis
        by (cases k) (auto simp: read_zmtp_frame_bytes_def encode_v3_def encode_frame_long read_exact_def read_body_len_def
            frame_flags_bits ISIZE_MAX_def Let_def bnd_apply)
    next
      case k: False
      let ?n = "length (fr_body f)"
      have "take k (x # to_be 8 ?n @ fr_body f) = x # to_be 8 ?n @ take (k - 9) (fr_body f)" for x
        using k by (simp add: take_Cons')
      then have io: "io_in st = (frame_flags True f OR 2) # to_be 8 ?n @ take (k - 9) (fr_body f)"
        using assms(3) False by (simp add: encode_v3_def encode_frame_long)
      have "k - 9 < ?n"
        using assms(2) False k by (simp add: encode_v3_def encode_frame_long)
      then show ?thesis
        using io assms(1,4,5)
        by (simp add: read_zmtp_frame_bytes_def read_exact_def read_body_len_def
            frame_flags_bits ISIZE_MAX_def Let_def bnd_apply from_be_to_be_id)
    qed
  qed
  then show ?thesis
    by (simp add: read_zmtp_frame_def)
qed

theorem timeout_loses_partial_frame_witness:
  "fst (read_zmtp_frame (io_example (take 3 (encode_v3 (frame_message [1, 2, 3]))))) = Inl (Fail Again)"
proof -
  have "length (encode_v3 (frame_message [1, 2, 3])) = 5"
    by (simp add: encode_v3_def encode_frame_short frame_message_def)
  then show ?thesis
    using timeout_loses_partial_frame [of "frame_message [1, 2, 3]" 3 "io_example (take 3 (encode_v3 (frame_message [1, 2, 3])))"]
    by (simp add: io_example_def frame_message_def)
qed


text \<open>
  GSSAPI without its feature authenticates nothing. In the default build a server configured for
  GSSAPI completes the handshake with every peer, whatever its greeting, that merely names the
  configured principal (any name, when none is configured): no token is exchanged, and the session
  that would encrypt the messages is absent, so they travel in clear.
\<close>

theorem gssapi_placeholder_trusts_names:
  assumes "mechanism sec = ZMQ_GSSAPI" and "sec_gssapi_principal sec = [] \<or> sec_gssapi_principal sec = name"
    and "length name < 256 ^ 4" "length peer_identity < 256 ^ 4"
  shows "yields e (establish C t True sec identity :: ('w io, fault, _) comp)
    (greeting_encode g @ cmd (command_body (lit ''INITIATE'') (to_be 4 (length name) @ name))
       @ cmd (ready_command_body_with_identity u peer_identity))
    (own_greeting sec True @ cmd (ready_command_body_with_identity t identity))
    (identity_option peer_identity, None)"
proof (rule establish_ready [OF yieldsI])
  fix s :: "'w io" and rest
  let ?i = "command_body (lit ''INITIATE'') (to_be 4 (length name) @ name)"
    and ?r = "ready_command_body_with_identity u peer_identity"
  assume r: "ready_state e s" and i: "io_in s = (cmd ?i @ cmd ?r) @ rest"
  have l: "length ?i < 2 ^ 62" "length ?r < 2 ^ 62"
    using length_handshake_properties [of u peer_identity] assms(3,4) by (simp_all add: command_body_def ready_is_command)
  let ?s1 = "s\<lparr>io_in := cmd ?r @ rest\<rparr>"
  let ?s2 = "?s1\<lparr>io_out := io_out s @ cmd (ready_command_body_with_identity t identity)\<rparr>"
  have 1: "read_zmtp_frame s = (Inr (frame_command ?i), ?s1)"
    using i l by (intro read_command_ok) simp_all
  have 2: "read_zmtp_frame ?s2 = (Inr (frame_command ?r), ?s2\<lparr>io_in := rest\<rparr>)"
    using l by (intro read_command_ok) simp_all
  have p: "parse_gssapi_initiate (frame_command ?i) = Inr name"
    using from_be_to_be_id [OF assms(3)] by (simp add: parse_gssapi_initiate_def)
  have q: "parse_ready_metadata (frame_command ?r) = Inr (handshake_properties u peer_identity)"
    using decode_handshake_properties [OF assms(4), of u] by (simp add: parse_ready_metadata_def ready_is_command)
  have a: "authorize_peer sec mech creds (authorize_gssapi sec name) ?s1 = (Inr (), ?s1)" for mech creds
    using r assms(2) by (auto simp: authorize_gssapi_def intro: authorize_local)
  show "\<exists>s'. mechanism_handshake C t True sec identity s = (Inr (handshake_done (identity_option peer_identity) None), s')
      \<and> io_in s' = rest \<and> io_out s' = io_out s @ cmd (ready_command_body_with_identity t identity) \<and> io_world s' = io_world s"
    using assms(1) 1 2 p q a
    by (simp add: mechanism_handshake_def write_placeholder_gssapi_handshake_def peer_identity_of_def
        metadata_get_identity identity_option_def)
qed

theorem gssapi_placeholder_trusts_names_witness:
  "yields [] (establish plain_crypto Rep True
      (security_options_default\<lparr>sec_gssapi_server := True, sec_gssapi_principal := lit ''admin''\<rparr>) [] :: (unit io, fault, _) comp)
    (greeting_encode null_client @ cmd (command_body (lit ''INITIATE'') (to_be 4 (length (lit ''admin'')) @ lit ''admin''))
       @ cmd (ready_command_body_with_identity Req []))
    (own_greeting (security_options_default\<lparr>sec_gssapi_server := True, sec_gssapi_principal := lit ''admin''\<rparr>) True
       @ cmd (ready_command_body_with_identity Rep []))
    (None, None)"
  using gssapi_placeholder_trusts_names [of "security_options_default\<lparr>sec_gssapi_server := True, sec_gssapi_principal := lit ''admin''\<rparr>"
      "lit ''admin''" "[]" "[]" plain_crypto Rep "[]" null_client Req]
  by (simp add: mechanism_def identity_option_def)

end
