(* ===== verification/Tcp_Link.thy ===== *)
theory Tcp_Link
  imports Tcp Handshake_Agreement
begin

text \<open>
  Two sockets joined over TCP: with each security mechanism of the default build, what one sends the
  other receives, complete and in order. Then what becomes of a connection that fails: which states
  the TCP transport can be in, and what a read does that finds no bytes.
\<close>

section \<open>Handshake texts\<close>

definition security_agrees :: "crypto \<Rightarrow> security_options \<Rightarrow> security_options \<Rightarrow> bytes \<Rightarrow> bytes \<Rightarrow> bool" where
  "security_agrees C csec ssec ec es \<longleftrightarrow>
     mechanism csec = mechanism ssec \<and>
     (mechanism csec = ZMQ_NULL
      \<or> mechanism csec = ZMQ_PLAIN
        \<and> authorize_plain ssec \<lparr>pc_username = take 255 (sec_plain_username csec), pc_password = take 255 (sec_plain_password csec)\<rparr> = Inr ()
      \<or> mechanism csec = ZMQ_CURVE \<and> crypto_laws C \<and> 48 \<le> length ec \<and> 96 \<le> length es
        \<and> (\<exists>S K. curve_keys C csec ssec S K \<and> authorize_curve ssec (cr_public C S) = Inr ()))"

text \<open>Two sessions, or none on either side, that can carry \<open>k\<close> more messages.\<close>

definition chan :: "crypto \<Rightarrow> nat \<Rightarrow> curve_session option \<Rightarrow> curve_session option \<Rightarrow> bool" where
  "chan C k a b \<longleftrightarrow>
     (case (a, b) of
        (None, None) \<Rightarrow> True
      | (Some x, Some y) \<Rightarrow> crypto_laws C \<and> matched C x y \<and> unat (cs_send_nonce x) + k < 2 ^ 64
      | _ \<Rightarrow> False)"

lemma handshake_yields:
  assumes "yields e (mechanism_handshake C t as_server sec i :: ('w io, _, _) comp) inp outp h"
  shows "yields e (write_zmtp_handshake C t as_server sec i :: ('w io, _, _) comp) (greeting_encode g @ inp)
    (own_greeting sec as_server @ outp) (h\<lparr>hr_peer_greeting_done := True\<rparr>)"
proof (rule yieldsI)
  fix st :: "'w io" and rest
  assume r: "ready_state e st" and inp: "io_in st = (greeting_encode g @ inp) @ rest"
  let ?st1 = "st\<lparr>io_in := inp @ rest, io_out := io_out st @ own_greeting sec as_server,
      io_timeout := (io_timeout st \<and> \<not> as_server)\<rparr>"
  obtain st2 where 2: "mechanism_handshake C t as_server sec i ?st1 = (Inr h, st2)"
    "io_in st2 = rest" "io_out st2 = io_out ?st1 @ outp" "io_world st2 = io_world ?st1"
    by (rule yieldsD [OF assms, of ?st1 rest]) (use r in simp_all)
  show "\<exists>st'. write_zmtp_handshake C t as_server sec i st = (Inr (h\<lparr>hr_peer_greeting_done := True\<rparr>), st')
      \<and> io_in st' = rest \<and> io_out st' = io_out st @ own_greeting sec as_server @ outp \<and> io_world st' = io_world st"
    using write_handshake_eq [OF _ refl, of st g "inp @ rest" C t as_server sec i] inp 2 by simp
qed

text \<open>
  The client reads a first part of what the server writes (it leaves the READY of NULL and PLAIN for
  its own first receive).
\<close>

lemma handshake_link:
  assumes "security_agrees C csec ssec ec es" and ids: "length cid < 256 ^ 4" "length sid < 256 ^ 4" and k: "k < 2 ^ 63"
  obtains c2s s2c rest h b where
    "yields ec (write_zmtp_handshake C ct False csec cid :: ('w io, _, _) comp) s2c c2s h"
    "yields es (establish C st True ssec sid :: ('v io, _, _) comp) c2s (s2c @ rest) (identity_option cid, b)"
    "chan C k (hr_curve_session h) b"
proof -
  have m: "mechanism csec = mechanism ssec"
    using assms(1) by (simp add: security_agrees_def)
  consider (null) "mechanism csec = ZMQ_NULL"
    | (plain) "mechanism csec = ZMQ_PLAIN"
      "authorize_plain ssec \<lparr>pc_username = take 255 (sec_plain_username csec), pc_password = take 255 (sec_plain_password csec)\<rparr> = Inr ()"
    | (curve) S K where "mechanism csec = ZMQ_CURVE" "crypto_laws C" "48 \<le> length ec" "96 \<le> length es"
      "curve_keys C csec ssec S K" "authorize_curve ssec (cr_public C S) = Inr ()"
    using assms(1) by (auto simp: security_agrees_def)
  then show ?thesis
  proof cases
    case null
    have "yields ec (write_zmtp_handshake C ct False csec cid :: ('w io, _, _) comp) (own_greeting ssec True @ [])
        (own_greeting csec False @ cmd (ready_command_body_with_identity ct cid)) (pending\<lparr>hr_peer_greeting_done := True\<rparr>)"
      unfolding own_greeting_def [of ssec] using null by (intro handshake_yields null_yields)
    moreover have "yields es (establish C st True ssec sid :: ('v io, _, _) comp)
        (own_greeting csec False @ cmd (ready_command_body_with_identity ct cid))
        ((own_greeting ssec True @ []) @ cmd (ready_command_body_with_identity st sid)) (identity_option cid, None)"
      unfolding own_greeting_def [of csec] using null m ids null_establish by simp
    ultimately show ?thesis
      by (rule that) (simp add: pending_def chan_def)
  next
    case plain
    have "yields ec (write_zmtp_handshake C ct False csec cid :: ('w io, _, _) comp) (own_greeting ssec True @ cmd (command_body (lit ''WELCOME'') []))
        (own_greeting csec False @ cmd (plain_hello_body csec) @ cmd (plain_initiate_body ct cid)) (pending\<lparr>hr_peer_greeting_done := True\<rparr>)"
      unfolding own_greeting_def [of ssec] using plain by (intro handshake_yields plain_client_yields)
    moreover have "yields es (establish C st True ssec sid :: ('v io, _, _) comp)
        (own_greeting csec False @ cmd (plain_hello_body csec) @ cmd (plain_initiate_body ct cid))
        ((own_greeting ssec True @ cmd (command_body (lit ''WELCOME'') [])) @ cmd (ready_command_body_with_identity st sid)) (identity_option cid, None)"
      unfolding own_greeting_def [of csec] append_assoc using plain m ids
      by (intro establish_ready plain_server_yields) simp_all
    ultimately show ?thesis
      by (rule that) (simp add: pending_def chan_def)
  next
    case curve
    obtain c0 c1 c2 c3 c4 h0 h1 b hello wel initiate ready a where
      x: "curve_client_new C csec ec = (Inr c0, drop 32 ec)" "hello_body C c0 = (Inr hello, c1)"
      "parse_curve_hello C ssec (frame_command hello) es = (Inr h0, drop 64 es)"
      "curve_welcome_body C ssec h0 (drop 64 es) = (Inr wel, drop 96 es)"
      "process_welcome C (frame_command wel) c1 = (Inr (), c2)"
      "initiate_body C ct cid (c2, drop 32 ec) = (Inr initiate, (c3, drop 48 ec))"
      "parse_curve_initiate C (frame_command initiate) h0 =
         (Inr \<lparr>ci_client_public_key = cr_public C S, ci_metadata = handshake_properties ct cid\<rparr>, h1)"
      "curve_ready_body C st sid (server_session h1) = (Inr ready, b)"
      "process_ready C (frame_command ready) c3 = (Inr (handshake_properties st sid), c4)"
      "client_session c4 = Inr a" and ab: "matched C a b" "matched C b a"
      and l: "length hello < 2 ^ 62" "length wel < 2 ^ 62" "length initiate < 2 ^ 62" "length ready < 2 ^ 62"
      and nonce: "cs_send_nonce a = 3"
      by (rule curve_exchange [OF curve(2,5,3,4) ids, of ct st])
    have "yields ec (write_zmtp_handshake C ct False csec cid :: ('w io, _, _) comp) (own_greeting ssec True @ cmd wel @ cmd ready)
        (own_greeting csec False @ cmd hello @ cmd initiate)
        ((handshake_done (identity_option sid) (Some a))\<lparr>hr_peer_greeting_done := True\<rparr>)"
      unfolding own_greeting_def [of ssec]
      by (rule handshake_yields [OF curve_client_yields [OF curve(1) x(1,2,5,6,9,10) l(2,4)]])
    moreover have "yields es (establish C st True ssec sid :: ('v io, _, _) comp)
        (own_greeting csec False @ cmd hello @ cmd initiate) ((own_greeting ssec True @ cmd wel @ cmd ready) @ [])
        (identity_option cid, Some b)"
      unfolding own_greeting_def [of csec] append_Nil2 using curve(1) m
      by (intro establish_ready curve_server_yields [OF _ curve(6) x(3,4,7,8) l(1,3)]) simp
    ultimately show ?thesis
      by (rule that) (use curve(2) ab nonce k in \<open>simp add: handshake_done_def chan_def\<close>)
  qed
qed


section \<open>Messages on the stream\<close>

lemma tcp_op_simps [simp]:
  "update_tcp f n = (Inr (), n\<lparr>tn_tcp := f (tn_tcp n)\<rparr>)"
  "update_world g n = (Inr (), n\<lparr>tn_io := (tn_io n)\<lparr>io_world := g (io_world (tn_io n))\<rparr>\<rparr>)"
  "try_result (Inr x) n = (Inr x, n)" "try_result (Inl e) n = (Inl (Fail e), n)"
  "try_io (Inr y) n = (Inr y, n)" "try_io (Inl k) n = (Inl (Fail (map_io_error k)), n)"
  "snd (try_result r n) = n" "snd (try_io q n) = n"
  by (simp_all add: update_tcp_def update_world_def try_result_def try_io_def)

lemma on_stream_apply:
  "tcp_stream (tn_tcp n) \<Longrightarrow> m (tn_io n) = (r, st) \<Longrightarrow> on_stream m n = (r, n\<lparr>tn_io := st\<rparr>)"
  by (simp add: on_stream_def)

lemma read_frame_body_ok:
  assumes "length (fr_body f) < 2 ^ 62" "io_in st = encode_v3 f @ rest"
  shows "read_zmtp_frame_body st = (Inr (fr_body f), st\<lparr>io_in := rest\<rparr>)"
proof (cases "length (fr_body f) \<le> 255")
  case True
  with assms show ?thesis
    by (simp add: read_zmtp_frame_body_def encode_v3_def encode_frame_short read_exact_def read_body_len_def
        frame_flags_bits ISIZE_MAX_def bnd_apply)
next
  case False
  with assms show ?thesis
    by (simp add: read_zmtp_frame_body_def encode_v3_def encode_frame_long read_exact_def read_body_len_def
        frame_flags_bits ISIZE_MAX_def bnd_apply from_be_to_be_id)
qed

definition with_out :: "bytes \<Rightarrow> curve_session option \<Rightarrow> 'w tcp_node \<Rightarrow> 'w tcp_node" where
  "with_out bs session n =
     n\<lparr>tn_io := (tn_io n)\<lparr>io_out := io_out (tn_io n) @ bs\<rparr>, tn_tcp := (tn_tcp n)\<lparr>tcp_curve_session := session\<rparr>\<rparr>"

definition with_in :: "bytes \<Rightarrow> curve_session option \<Rightarrow> 'w tcp_node \<Rightarrow> 'w tcp_node" where
  "with_in bs session n =
     n\<lparr>tn_io := (tn_io n)\<lparr>io_in := bs\<rparr>, tn_tcp := (tn_tcp n)\<lparr>tcp_curve_session := session\<rparr>\<rparr>"

abbreviation plain_message :: "bytes \<times> bool \<Rightarrow> message" where
  "plain_message p \<equiv> set_more (snd p) (message_from_vec (fst p))"

lemma chan_step:
  assumes "chan C (Suc k) a b" and d: "length d < 2 ^ 60"
  obtains frame a' b' where
    "\<And>n :: 'w tcp_node. tcp_stream (tn_tcp n) \<Longrightarrow> tcp_curve_session (tn_tcp n) = a \<Longrightarrow>
       write_tcp_message C d has_more n = (Inr (), with_out frame a' n)"
    "\<And>(n :: 'v tcp_node) rest os. tcp_stream (tn_tcp n) \<Longrightarrow> tcp_curve_session (tn_tcp n) = b \<Longrightarrow> io_in (tn_io n) = frame @ rest \<Longrightarrow>
       read_tcp_message C os n =
         (Inr (apply_peer_identity_metadata (tcp_peer_identity (tn_tcp n)) (plain_message (d, has_more))), with_in rest b' n)"
    "chan C k a' b'"
proof -
  consider (none) "a = None" "b = None"
    | (some) x y where "a = Some x" "b = Some y" "crypto_laws C" "matched C x y" "unat (cs_send_nonce x) + Suc k < 2 ^ 64"
    using assms(1) by (auto simp: chan_def split: option.splits)
  then show ?thesis
  proof cases
    case none
    let ?f = "\<lparr>fr_body = d, fr_more = has_more, fr_command = False\<rparr>"
    have "write_tcp_message C d has_more n = (Inr (), with_out (encode_v3 ?f) None n)"
      if "tcp_stream (tn_tcp n)" "tcp_curve_session (tn_tcp n) = a" for n :: "'w tcp_node"
      using that none by (simp add: write_tcp_message_def on_stream_def with_out_def)
    moreover have "read_tcp_message C os n =
        (Inr (apply_peer_identity_metadata (tcp_peer_identity (tn_tcp n)) (plain_message (d, has_more))), with_in rest None n)"
      if "tcp_stream (tn_tcp n)" "tcp_curve_session (tn_tcp n) = b" "io_in (tn_io n) = encode_v3 ?f @ rest" for n :: "'v tcp_node" and rest os
    proof -
      have "next_message_frame (tn_io n) = (Inr ?f, (tn_io n)\<lparr>io_in := rest\<rparr>)"
        using read_frame_ok [of ?f "tn_io n" rest] that(3) d by (simp add: next_message_frame.simps [of "tn_io n"])
      then show ?thesis
        using that none by (simp add: read_tcp_message_def or_disconnected_def on_stream_def with_in_def)
    qed
    moreover have "chan C k None None"
      by (simp add: chan_def)
    ultimately show ?thesis
      using that [of "encode_v3 ?f" None None] by blast
  next
    case some
    have n: "cs_send_nonce x \<noteq> - 1"
      using some(5) unat_max by auto
    obtain frame body x' y' where
      t: "curve_message_frame C d has_more x = (Inr frame, x')"
      "decode_v3 frame = Inr \<lparr>fr_body = body, fr_more = False, fr_command = False\<rparr>"
      "curve_message_from_body C body y = (Inr (set_more has_more (message_from_vec d)), y')"
      "matched C x' y'" "cs_send_nonce x' = cs_send_nonce x + 1"
      "frame = encode_v3 (frame_message body)" "length body = length d + 33"
      using d by (rule_tac curve_transfer_one [OF some(3,4) n, of d has_more]) simp_all
    have "write_tcp_message C d has_more n = (Inr (), with_out frame (Some x') n)"
      if "tcp_stream (tn_tcp n)" "tcp_curve_session (tn_tcp n) = a" for n :: "'w tcp_node"
      using that some t(1) by (simp add: write_tcp_message_def on_stream_def with_out_def)
    moreover have "read_tcp_message C os n =
        (Inr (apply_peer_identity_metadata (tcp_peer_identity (tn_tcp n)) (plain_message (d, has_more))), with_in rest (Some y') n)"
      if "tcp_stream (tn_tcp n)" "tcp_curve_session (tn_tcp n) = b" "io_in (tn_io n) = frame @ rest" for n :: "'v tcp_node" and rest os
    proof -
      have "read_zmtp_frame_body (tn_io n) = (Inr body, (tn_io n)\<lparr>io_in := rest\<rparr>)"
        using read_frame_body_ok [of "frame_message body" "tn_io n" rest] that(3) t(6,7) d by (simp add: frame_message_def)
      then show ?thesis
        using that some t(3) by (simp add: read_tcp_message_def or_disconnected_def on_stream_def with_in_def)
    qed
    moreover have "chan C k (Some x') (Some y')"
      using some(3,5) t(4,5) unat_next [OF n] by (simp add: chan_def)
    ultimately show ?thesis
      using that [of frame "Some x'" "Some y'"] by blast
  qed
qed


text \<open>A loop whose body has another form on the states the loop runs through.\<close>

lemma for_each_cong_inv:
  assumes "\<And>x s. P s \<Longrightarrow> f x s = g x s" and "\<And>x s. P s \<Longrightarrow> P (snd (g x s))" and "P s"
  shows "for_each xs f s = for_each xs g s"
  using assms(3)
proof (induction xs arbitrary: s)
  case (Cons x xs)
  then show ?case
    using assms(1) [of s x] assms(2) [of s x] by (auto simp: bnd_apply split: sum.split)
qed simp

lemma with_out_simps [simp]:
  "tn_tcp (with_out bs ses n) = (tn_tcp n)\<lparr>tcp_curve_session := ses\<rparr>"
  "io_world (tn_io (with_out bs ses n)) = io_world (tn_io n)"
  "io_out (tn_io (with_out bs ses n)) = io_out (tn_io n) @ bs"
  "with_out cs ses' (with_out bs ses n) = with_out (bs @ cs) ses' n"
  by (simp_all add: with_out_def)

lemma with_in_simps [simp]:
  "tn_tcp (with_in bs ses n) = (tn_tcp n)\<lparr>tcp_curve_session := ses\<rparr>"
  "io_world (tn_io (with_in bs ses n)) = io_world (tn_io n)"
  "io_in (tn_io (with_in bs ses n)) = bs" "io_out (tn_io (with_in bs ses n)) = io_out (tn_io n)"
  "with_in cs ses' (with_in bs ses n) = with_in cs ses' n"
  by (simp_all add: with_in_def)

definition writes :: "'w itself \<Rightarrow> crypto \<Rightarrow> (bytes \<times> bool) list \<Rightarrow> curve_session option \<Rightarrow> bytes \<Rightarrow> curve_session option \<Rightarrow> bool" where
  "writes T C ps a wire a' \<longleftrightarrow>
     (\<forall>n :: 'w tcp_node. tcp_stream (tn_tcp n) \<longrightarrow> tcp_curve_session (tn_tcp n) = a \<longrightarrow>
        for_each ps (\<lambda>(d, has_more). write_tcp_message C d has_more) n = (Inr (), with_out wire a' n))"

text \<open>The frames of the messages, one after the other, each read back by the other side.\<close>

definition reads_one :: "'w itself \<Rightarrow> crypto \<Rightarrow> bytes \<times> bool \<Rightarrow> curve_session option \<Rightarrow> bytes \<Rightarrow> curve_session option \<Rightarrow> bool" where
  "reads_one T C p b frame b' \<longleftrightarrow>
     (\<forall>(n :: 'w tcp_node) rest os. tcp_stream (tn_tcp n) \<longrightarrow> tcp_curve_session (tn_tcp n) = b \<longrightarrow> io_in (tn_io n) = frame @ rest \<longrightarrow>
        read_tcp_message C os n =
          (Inr (apply_peer_identity_metadata (tcp_peer_identity (tn_tcp n)) (plain_message p)), with_in rest b' n))"

fun reads :: "'w itself \<Rightarrow> crypto \<Rightarrow> (bytes \<times> bool) list \<Rightarrow> curve_session option \<Rightarrow> bytes \<Rightarrow> curve_session option \<Rightarrow> bool" where
  "reads T C [] b wire b' \<longleftrightarrow> wire = [] \<and> b' = b"
| "reads T C (p # ps) b wire b' \<longleftrightarrow>
     (\<exists>frame b1 wire1. wire = frame @ wire1 \<and> reads_one T C p b frame b1 \<and> reads T C ps b1 wire1 b')"

lemma reads_append:
  assumes "reads T C ps b t b1" "reads T C qs b1 u b2"
  shows "reads T C (ps @ qs) b (t @ u) b2"
  using assms by (induction ps arbitrary: b t) fastforce+

lemma link_steps:
  assumes "chan C (length ps + k) a b" and "\<forall>p \<in> set ps. length (fst p) < 2 ^ 60"
  obtains wire a' b' where "writes (TYPE('w)) C ps a wire a'" "reads (TYPE('v)) C ps b wire b'" "chan C k a' b'"
  using assms
proof (induction ps arbitrary: a b thesis)
  case Nil
  have "writes (TYPE('w)) C [] a [] a"
    by (auto simp: writes_def with_out_def)
  with Nil show ?case
    by fastforce
next
  case (Cons p ps)
  obtain d has_more where p: "p = (d, has_more)"
    by (cases p)
  obtain frame a1 b1 where
    w: "\<And>n :: 'w tcp_node. tcp_stream (tn_tcp n) \<Longrightarrow> tcp_curve_session (tn_tcp n) = a \<Longrightarrow>
       write_tcp_message C d has_more n = (Inr (), with_out frame a1 n)" and
    r: "\<And>(n :: 'v tcp_node) rest os. tcp_stream (tn_tcp n) \<Longrightarrow> tcp_curve_session (tn_tcp n) = b \<Longrightarrow> io_in (tn_io n) = frame @ rest \<Longrightarrow>
       read_tcp_message C os n =
         (Inr (apply_peer_identity_metadata (tcp_peer_identity (tn_tcp n)) (plain_message (d, has_more))), with_in rest b1 n)" and
    c: "chan C (length ps + k) a1 b1"
    by (rule chan_step [of C "length ps + k" a b d has_more]) (use Cons.prems p in auto)
  obtain wire a2 b2 where 2: "writes (TYPE('w)) C ps a1 wire a2" "reads (TYPE('v)) C ps b1 wire b2" "chan C k a2 b2"
    using Cons.IH [OF _ c] Cons.prems(3) by auto
  have "writes (TYPE('w)) C (p # ps) a (frame @ wire) a2"
    using w 2(1) by (simp add: writes_def p)
  moreover have "reads_one (TYPE('v)) C p b frame b1"
    using r by (simp add: reads_one_def p)
  then have "reads (TYPE('v)) C (p # ps) b (frame @ wire) b2"
    using 2(2) unfolding reads.simps by blast
  ultimately show ?case
    using Cons.prems(1) 2(3) by blast
qed


section \<open>The sending side\<close>

definition hello_part :: "socket \<Rightarrow> (bytes \<times> bool) list" where
  "hello_part k = (if opt_hello_msg (sk_options k) = [] then [] else [(opt_hello_msg (sk_options k), False)])"

definition probe_part :: "socket \<Rightarrow> (bytes \<times> bool) list" where
  "probe_part k = (if opt_probe_router (sk_options k) \<and> sk_type k \<in> {Dealer, Router} then [([], False)] else [])"

text \<open>The handshake has been made and whatever goes before the first message has been sent.\<close>

definition started :: "ref \<Rightarrow> socket \<Rightarrow> 'w tcp_node \<Rightarrow> bool" where
  "started s k n \<longleftrightarrow>
     tn_socket s n = k \<and> tcp_stream (tn_tcp n) \<and> tcp_handshake_started (tn_tcp n)
     \<and> (hello_part k = [] \<or> tcp_hello_sent (tn_tcp n)) \<and> (probe_part k = [] \<or> tcp_probe_router_sent (tn_tcp n))"

lemma hello_started:
  "started s k n \<Longrightarrow> send_tcp_hello_message C (opt_hello_msg (sk_options k)) n = (Inr (), n)"
  by (auto simp: started_def send_tcp_hello_message_def hello_part_def split: if_splits)

lemma probe_started:
  "started s k n \<Longrightarrow> send_tcp_probe_router C (sk_type k) (opt_probe_router (sk_options k)) n = (Inr (), n)"
  by (auto simp: started_def send_tcp_probe_router_def probe_part_def split: if_splits)

lemma ensure_has_stream: "tcp_stream (tn_tcp n) \<Longrightarrow> ensure_tcp_stream n = (Inr (), n)"
  by (simp add: ensure_tcp_stream_def)

lemma send_started:
  assumes "started s k n" "sk_type k \<noteq> Stream"
  shows "send_tcp_frame C s m n = write_tcp_message C (data m) (msg_more m) n"
proof -
  have "start_handshake C k n = (Inr (), n)" "tn_socket s n = k" "ensure_tcp_stream n = (Inr (), n)"
    using assms by (simp_all add: started_def start_handshake_def ensure_has_stream)
  then show ?thesis
    using assms hello_started [OF assms(1), of C] probe_started [OF assms(1), of C] by (simp add: send_tcp_frame_def)
qed

lemma write_started: "started s k n \<Longrightarrow> started s k (snd (write_tcp_message C d has_more n))"
  by (auto simp: started_def write_tcp_message_def on_stream_def bnd_apply split: option.split sum.split prod.split)

lemma for_each_map: "for_each (map h xs) f = for_each xs (\<lambda>x. f (h x))"
  by (induction xs) auto

abbreviation part :: "message \<Rightarrow> bytes \<times> bool" where
  "part m \<equiv> (data m, msg_more m)"

lemma sends_started:
  assumes "started s k n" "sk_type k \<noteq> Stream" "writes (TYPE('w)) C (map part ms) a wire a'" "tcp_curve_session (tn_tcp n) = a"
  shows "for_each ms (send_tcp_frame C s) n = (Inr (), with_out wire a' (n :: 'w tcp_node))"
proof -
  have "for_each ms (send_tcp_frame C s) n = for_each ms (\<lambda>m. write_tcp_message C (data m) (msg_more m)) n"
    by (rule for_each_cong_inv [where P = "started s k"]) (simp_all add: assms(1,2) send_started write_started)
  also have "\<dots> = (Inr (), with_out wire a' n)"
    using assms by (simp add: writes_def for_each_map started_def)
  finally show ?thesis .
qed

definition set_hello :: "bool \<Rightarrow> 'w tcp_node \<Rightarrow> 'w tcp_node" where
  "set_hello b n = n\<lparr>tn_tcp := (tn_tcp n)\<lparr>tcp_hello_sent := b\<rparr>\<rparr>"

definition set_probe :: "bool \<Rightarrow> 'w tcp_node \<Rightarrow> 'w tcp_node" where
  "set_probe b n = n\<lparr>tn_tcp := (tn_tcp n)\<lparr>tcp_probe_router_sent := b\<rparr>\<rparr>"

lemma bnd_ret_right: "bnd m ret s = m s"
  by (simp add: bnd_def split: prod.split sum.split)

lemma hello_writes:
  assumes "writes (TYPE('w)) C (hello_part k) a wire a'" "tcp_stream (tn_tcp n)" "tcp_curve_session (tn_tcp n) = a" "\<not> tcp_hello_sent (tn_tcp n)"
  shows "send_tcp_hello_message C (opt_hello_msg (sk_options k)) n =
    (Inr (), set_hello (hello_part k \<noteq> []) (with_out wire a' (n :: 'w tcp_node)))"
proof (cases "opt_hello_msg (sk_options k) = []")
  case True
  then have "with_out wire a' n = n"
    using assms by (simp add: writes_def hello_part_def)
  with True assms(4) show ?thesis
    by (simp add: hello_part_def send_tcp_hello_message_def set_hello_def)
next
  case False
  then have "write_tcp_message C (opt_hello_msg (sk_options k)) False n = (Inr (), with_out wire a' n)"
    using assms by (simp add: writes_def hello_part_def bnd_ret_right)
  with False assms(4) show ?thesis
    by (simp add: hello_part_def send_tcp_hello_message_def write_tcp_message_frame_def set_hello_def)
qed

lemma probe_writes:
  assumes "writes (TYPE('w)) C (probe_part k) a wire a'" "tcp_stream (tn_tcp n)" "tcp_curve_session (tn_tcp n) = a" "\<not> tcp_probe_router_sent (tn_tcp n)"
  shows "send_tcp_probe_router C (sk_type k) (opt_probe_router (sk_options k)) n =
    (Inr (), set_probe (probe_part k \<noteq> []) (with_out wire a' (n :: 'w tcp_node)))"
proof (cases "opt_probe_router (sk_options k) \<and> sk_type k \<in> {Dealer, Router}")
  case True
  then have "write_tcp_message C [] False n = (Inr (), with_out wire a' n)"
    using assms by (simp add: writes_def probe_part_def bnd_ret_right)
  with True assms(4) show ?thesis
    by (simp add: probe_part_def send_tcp_probe_router_def write_tcp_message_frame_def set_probe_def)
next
  case False
  then have "with_out wire a' n = n"
    using assms by (auto simp: writes_def probe_part_def split: if_splits)
  with False assms(4) show ?thesis
    by (auto simp: probe_part_def send_tcp_probe_router_def set_probe_def)
qed

text \<open>A node with a stream on which nothing has happened yet.\<close>

definition fresh_stream :: "ref \<Rightarrow> socket \<Rightarrow> bool \<Rightarrow> 'w tcp_node \<Rightarrow> bool" where
  "fresh_stream s k as_server n \<longleftrightarrow>
     tn_socket s n = k \<and> sk_type k \<noteq> Stream \<and> tcp_stream (tn_tcp n) \<and> (tcp_bound_endpoint (tn_tcp n) \<noteq> None) = as_server
     \<and> \<not> tcp_handshake_started (tn_tcp n) \<and> \<not> tcp_hello_sent (tn_tcp n) \<and> \<not> tcp_probe_router_sent (tn_tcp n)"

lemma sends_fresh:
  fixes n :: "'w tcp_node"
  assumes f: "fresh_stream s k False n" and r: "ready_state e (tn_io n)" "io_in (tn_io n) = inp @ rest"
    and y: "yields e (write_zmtp_handshake C (sk_type k) False (opt_security (sk_options k)) (opt_routing_id (sk_options k)) :: ('w io, _, _) comp)
      inp outp h"
    and w: "writes (TYPE('w)) C (hello_part k) (hr_curve_session h) w1 a1" "writes (TYPE('w)) C (probe_part k) a1 w2 a2"
      "writes (TYPE('w)) C (map part ms) a2 w3 a3" and "ms \<noteq> []"
  obtains n' where "for_each ms (send_tcp_frame C s) n = (Inr (), n')"
    "io_out (tn_io n') = io_out (tn_io n) @ outp @ w1 @ w2 @ w3"
proof -
  obtain st where st: "write_zmtp_handshake C (sk_type k) False (opt_security (sk_options k)) (opt_routing_id (sk_options k)) (tn_io n) = (Inr h, st)"
    "io_out st = io_out (tn_io n) @ outp" "io_world st = io_world (tn_io n)"
    by (rule yieldsD [OF y r])
  define n1 where "n1 = n\<lparr>tn_io := st, tn_tcp := (tn_tcp n)\<lparr>tcp_peer_greeting_done := hr_peer_greeting_done h, tcp_peer_ready := hr_peer_ready h,
      tcp_peer_identity := hr_peer_identity h, tcp_curve_session := hr_curve_session h, tcp_handshake_started := True\<rparr>\<rparr>"
  define n2 where "n2 = set_hello (hello_part k \<noteq> []) (with_out w1 a1 n1)"
  define n3 where "n3 = set_probe (probe_part k \<noteq> []) (with_out w2 a2 n2)"
  have 1: "start_handshake C k n = (Inr (), n1)"
    using f st by (simp add: start_handshake_def fresh_stream_def on_stream_def n1_def)
  have 2: "send_tcp_hello_message C (opt_hello_msg (sk_options k)) n1 = (Inr (), n2)"
    unfolding n2_def using f by (intro hello_writes [OF w(1)]) (simp_all add: n1_def fresh_stream_def)
  have 3: "send_tcp_probe_router C (sk_type k) (opt_probe_router (sk_options k)) n2 = (Inr (), n3)"
    unfolding n3_def using f by (intro probe_writes [OF w(2)]) (simp_all add: n2_def n1_def set_hello_def fresh_stream_def)
  have s: "started s k n3"
    using f st(3) by (simp add: started_def n3_def n2_def n1_def set_hello_def set_probe_def fresh_stream_def)
  have "send_tcp_frame C s m n = send_tcp_frame C s m n3" for m
    using 1 2 3 f s send_started [OF s, of C m] by (simp add: send_tcp_frame_def [of C s m] ensure_has_stream fresh_stream_def)
  then have "for_each ms (send_tcp_frame C s) n = for_each ms (send_tcp_frame C s) n3"
    using assms(8) by (cases ms) (simp_all add: bnd_def)
  also have "\<dots> = (Inr (), with_out w3 a3 n3)"
    using f by (intro sends_started [OF s _ w(3)]) (simp_all add: fresh_stream_def n3_def set_probe_def)
  finally show ?thesis
    by (rule that) (simp add: n3_def n2_def n1_def set_hello_def set_probe_def with_out_def st(2))
qed


section \<open>The receiving side\<close>

definition receiving :: "ref \<Rightarrow> socket \<Rightarrow> 'w tcp_node \<Rightarrow> bool" where
  "receiving s k n \<longleftrightarrow> started s k n \<and> sk_type k \<noteq> Stream \<and> tcp_peer_greeting_done (tn_tcp n) \<and> tcp_peer_ready (tn_tcp n)"

lemma recv_ready:
  assumes "receiving s k n"
  shows "recv_tcp_frame C s n = read_tcp_message C (sk_options k) n"
proof -
  have s: "started s k n"
    using assms by (simp add: receiving_def)
  have "start_handshake C k n = (Inr (), n)" "finish_handshake n = (Inr (), n)" "tn_socket s n = k" "ensure_tcp_stream n = (Inr (), n)"
    using assms by (simp_all add: receiving_def started_def start_handshake_def finish_handshake_def ensure_has_stream)
  then show ?thesis
    using assms hello_started [OF s, of C] probe_started [OF s, of C] by (simp add: recv_tcp_frame_def receiving_def)
qed

lemma recvs_ready:
  assumes "reads (TYPE('w)) C ps b wire b'" "receiving s k n" "tcp_curve_session (tn_tcp n) = b" "io_in (tn_io n) = wire @ rest"
  shows "repeated (length ps) (recv_tcp_frame C s) n =
    (Inr (map (\<lambda>p. apply_peer_identity_metadata (tcp_peer_identity (tn_tcp n)) (plain_message p)) ps), with_in rest b' (n :: 'w tcp_node))"
  using assms
proof (induction ps arbitrary: n b wire)
  case Nil
  then show ?case
    by (simp add: with_in_def)
next
  case (Cons p ps)
  obtain frame b1 wire1 where w: "wire = frame @ wire1" "reads_one (TYPE('w)) C p b frame b1" "reads (TYPE('w)) C ps b1 wire1 b'"
    using Cons.prems(1) by auto
  let ?n1 = "with_in (wire1 @ rest) b1 n"
  have "recv_tcp_frame C s n = (Inr (apply_peer_identity_metadata (tcp_peer_identity (tn_tcp n)) (plain_message p)), ?n1)"
    using recv_ready [OF Cons.prems(2), of C] w(1,2) Cons.prems by (simp add: reads_one_def receiving_def started_def)
  moreover have "receiving s k ?n1"
    using Cons.prems(2) by (simp add: receiving_def started_def)
  then have "repeated (length ps) (recv_tcp_frame C s) ?n1 =
      (Inr (map (\<lambda>p. apply_peer_identity_metadata (tcp_peer_identity (tn_tcp n)) (plain_message p)) ps), with_in rest b' n)"
    using Cons.IH [OF w(3), of ?n1] by simp
  ultimately show ?case
    by simp
qed

lemma handshake_node:
  assumes "fresh_stream s k srv n"
    and "establish C (sk_type k) srv (opt_security (sk_options k)) (opt_routing_id (sk_options k)) (tn_io n) = (Inr (i, b), st)"
  shows "bnd (start_handshake C k) (\<lambda>_. finish_handshake) n =
    (Inr (), n\<lparr>tn_io := st, tn_tcp := (tn_tcp n)\<lparr>tcp_peer_greeting_done := True, tcp_peer_ready := True,
       tcp_peer_identity := i, tcp_curve_session := b, tcp_handshake_started := True\<rparr>\<rparr>)"
proof -
  let ?W = "write_zmtp_handshake C (sk_type k) srv (opt_security (sk_options k)) (opt_routing_id (sk_options k))"
  have f: "tcp_stream (tn_tcp n)" "(tcp_bound_endpoint (tn_tcp n) \<noteq> None) = srv" "\<not> tcp_handshake_started (tn_tcp n)"
    using assms(1) by (auto simp: fresh_stream_def)
  obtain h st1 where 1: "?W (tn_io n) = (Inr h, st1)"
    using assms(2) by (cases "?W (tn_io n)"; cases "fst (?W (tn_io n))") (auto simp: establish_def)
  show ?thesis
    using assms(2) f 1
    by (cases "read_zmtp_greeting st1"; cases "fst (read_zmtp_greeting st1)")
      (auto simp: establish_def start_handshake_def finish_handshake_def on_stream_def bnd_apply split: if_splits sum.splits prod.splits)
qed

text \<open>The first receive on a fresh stream does the handshake and is then the receive of an established connection.\<close>

lemma fresh_receiving:
  fixes n :: "'w tcp_node"
  assumes f: "fresh_stream s k srv n" and r: "ready_state e (tn_io n)" "io_in (tn_io n) = inp @ wire"
    and y: "yields e (establish C (sk_type k) srv (opt_security (sk_options k)) (opt_routing_id (sk_options k)) :: ('w io, _, _) comp)
      inp outp (i, b)"
    and q: "hello_part k = []" "probe_part k = []"
  obtains st where "establish C (sk_type k) srv (opt_security (sk_options k)) (opt_routing_id (sk_options k)) (tn_io n) = (Inr (i, b), st)"
    "io_in st = wire" "io_out st = io_out (tn_io n) @ outp" "io_world st = io_world (tn_io n)"
    "receiving s k (n\<lparr>tn_io := st, tn_tcp := (tn_tcp n)\<lparr>tcp_peer_greeting_done := True, tcp_peer_ready := True,
       tcp_peer_identity := i, tcp_curve_session := b, tcp_handshake_started := True\<rparr>\<rparr>)"
    "recv_tcp_frame C s n = recv_tcp_frame C s (n\<lparr>tn_io := st, tn_tcp := (tn_tcp n)\<lparr>tcp_peer_greeting_done := True, tcp_peer_ready := True,
       tcp_peer_identity := i, tcp_curve_session := b, tcp_handshake_started := True\<rparr>\<rparr>)"
proof -
  obtain st where st: "establish C (sk_type k) srv (opt_security (sk_options k)) (opt_routing_id (sk_options k)) (tn_io n) = (Inr (i, b), st)"
    "io_in st = wire" "io_out st = io_out (tn_io n) @ outp" "io_world st = io_world (tn_io n)"
    by (rule yieldsD [OF y r])
  let ?n1 = "n\<lparr>tn_io := st, tn_tcp := (tn_tcp n)\<lparr>tcp_peer_greeting_done := True, tcp_peer_ready := True,
       tcp_peer_identity := i, tcp_curve_session := b, tcp_handshake_started := True\<rparr>\<rparr>"
  have 1: "bnd (start_handshake C k) (\<lambda>_. finish_handshake) n = (Inr (), ?n1)"
    by (rule handshake_node [OF f st(1)])
  have s: "receiving s k ?n1"
    using f q st(4) by (simp add: receiving_def started_def fresh_stream_def)
  have "bnd (start_handshake C k) (\<lambda>_. bnd finish_handshake g) n = g () ?n1" for g :: "unit \<Rightarrow> ('w, message) tcp_op"
    using 1 by (auto simp: bnd_def split: prod.splits sum.splits)
  then have "recv_tcp_frame C s n = recv_tcp_frame C s ?n1"
    using f s recv_ready [OF s, of C] hello_started [of s k ?n1 C] probe_started [of s k ?n1 C]
    by (simp add: recv_tcp_frame_def [of C s] ensure_has_stream fresh_stream_def receiving_def)
  with st s show ?thesis
    by (intro that) simp_all
qed

lemma recvs_fresh:
  fixes n :: "'w tcp_node"
  assumes f: "fresh_stream s k srv n" and r: "ready_state e (tn_io n)" "io_in (tn_io n) = inp @ wire @ rest"
    and y: "yields e (establish C (sk_type k) srv (opt_security (sk_options k)) (opt_routing_id (sk_options k)) :: ('w io, _, _) comp)
      inp outp (i, b)"
    and w: "reads (TYPE('w)) C ps b wire b'" and q: "hello_part k = []" "probe_part k = []" and "ps \<noteq> []"
  obtains n' where "repeated (length ps) (recv_tcp_frame C s) n =
      (Inr (map (\<lambda>p. apply_peer_identity_metadata i (plain_message p)) ps), n')"
    "io_out (tn_io n') = io_out (tn_io n) @ outp"
proof -
  let ?at = "\<lambda>st. n\<lparr>tn_io := st, tn_tcp := (tn_tcp n)\<lparr>tcp_peer_greeting_done := True, tcp_peer_ready := True,
       tcp_peer_identity := i, tcp_curve_session := b, tcp_handshake_started := True\<rparr>\<rparr>"
  obtain st where st: "io_in st = wire @ rest" "io_out st = io_out (tn_io n) @ outp"
    and s: "receiving s k (?at st)" and e: "recv_tcp_frame C s n = recv_tcp_frame C s (?at st)"
    by (rule fresh_receiving [OF f r y q]) blast
  let ?n1 = "?at st"
  have "repeated (length ps) (recv_tcp_frame C s) n = repeated (length ps) (recv_tcp_frame C s) ?n1"
    using e assms(8) by (cases ps) (simp_all add: bnd_def)
  also have "\<dots> = (Inr (map (\<lambda>p. apply_peer_identity_metadata i (plain_message p)) ps), with_in rest b' ?n1)"
    using recvs_ready [OF w s, of rest] st(1) by simp
  finally show ?thesis
    by (rule that) (simp add: with_in_def st(2))
qed


section \<open>The link\<close>

lemma push_all_world [simp]:
  fixes w :: "'w world"
  shows "w_sockets (push_all q ms w) = w_sockets w" "ctx_inproc_endpoints (push_all q ms w) = ctx_inproc_endpoints w"
  unfolding push_all_def by (induction ms arbitrary: w) simp_all

lemma emit_monitor_event_world [simp]:
  "w_sockets (emit_monitor_event s ev v ep w) = w_sockets w"
  "ctx_inproc_endpoints (emit_monitor_event s ev v ep w) = ctx_inproc_endpoints w"
  by (simp_all add: emit_monitor_event_def push_monitor_event_v2_def split: option.split)

definition at_endpoint :: "bytes \<Rightarrow> socket \<Rightarrow> socket" where
  "at_endpoint ep k = k\<lparr>sk_options := (sk_options k)\<lparr>opt_last_endpoint := ep\<rparr>\<rparr>"

lemma at_endpoint_simps [simp]:
  "sk_type (at_endpoint ep k) = sk_type k" "opt_security (sk_options (at_endpoint ep k)) = opt_security (sk_options k)"
  "opt_routing_id (sk_options (at_endpoint ep k)) = opt_routing_id (sk_options k)"
  "hello_part (at_endpoint ep k) = hello_part k" "probe_part (at_endpoint ep k) = probe_part k"
  by (simp_all add: at_endpoint_def hello_part_def probe_part_def)

text \<open>A socket that can use the transport, in a context without a ZAP handler.\<close>

definition tcp_socket :: "ref \<Rightarrow> bytes \<Rightarrow> 'w tcp_node \<Rightarrow> bool" where
  "tcp_socket s e n \<longleftrightarrow>
     supports_stream_transport (sk_type (tn_socket s n)) \<and> sk_type (tn_socket s n) \<noteq> Stream
     \<and> length (opt_routing_id (sk_options (tn_socket s n))) < 256 ^ 4 \<and> ready_state e (tn_io n)"

lemma connect_fresh:
  assumes "tcp_socket s e n" "tcp_parse ep = Inr t" "tcp_connect_addr t = Inr addr" "tcp_bound_endpoint (tn_tcp n) = None"
  obtains n' where "connect_tcp s ep (n\<lparr>tn_os := [Inr (arriving, x)]\<rparr>) = (Inr (), n')"
    "fresh_stream s (at_endpoint ep (tn_socket s n)) False n'" "ready_state e (tn_io n')" "io_in (tn_io n') = arriving" "io_out (tn_io n') = []"
  using assms
  by (simp add: connect_tcp_def tcp_socket_def os_call_def configure_tcp_stream_def new_peer_def fresh_stream_def
      ready_state_def inproc_endpoint_of_def set_last_endpoint_def at_endpoint_def)

lemma bind_fresh:
  assumes "tcp_socket s e n" "tcp_parse ep = Inr t" "\<not> tcp_stream (tn_tcp n)" "tcp_connected_endpoint (tn_tcp n) = None"
  obtains n1 n' where "bind_tcp s ep (n\<lparr>tn_os := [Inr y, Inr (arriving, x)]\<rparr>) = (Inr (), n1)" "ensure_tcp_stream n1 = (Inr (), n')"
    "fresh_stream s (at_endpoint ep (tn_socket s n)) True n'" "ready_state e (tn_io n')" "io_in (tn_io n') = arriving" "io_out (tn_io n') = []"
    "tn_socket s n1 = tn_socket s n'"
  using assms
  by (simp add: bind_tcp_def tcp_socket_def os_call_def configure_tcp_stream_def new_peer_def fresh_stream_def
      ready_state_def inproc_endpoint_of_def set_last_endpoint_def at_endpoint_def ensure_tcp_stream_def accept_tcp_def)

lemma recv_after_ensure:
  assumes "ensure_tcp_stream n1 = (Inr (), n')" "tn_socket s n1 = tn_socket s n'" "sk_type (tn_socket s n') \<noteq> Stream" "tcp_stream (tn_tcp n')"
  shows "recv_tcp_frame C s n1 = recv_tcp_frame C s n'"
  using assms by (simp add: recv_tcp_frame_def ensure_has_stream)

text \<open>What the client's socket puts on the stream: hello message, router probe, messages.\<close>

definition outgoing :: "socket \<Rightarrow> message list \<Rightarrow> (bytes \<times> bool) list" where
  "outgoing k ms = hello_part k @ probe_part k @ map part ms"

text \<open>What goes over the wire in a link: handshakes, hello message, router probe, messages.\<close>

lemma link_plan:
  assumes "security_agrees C (opt_security (sk_options kc)) (opt_security (sk_options ks)) ec es"
    and ids: "length (opt_routing_id (sk_options kc)) < 256 ^ 4" "length (opt_routing_id (sk_options ks)) < 256 ^ 4"
    and "length ms < 2 ^ 62" "\<forall>p \<in> set (outgoing kc ms). length (fst p) < 2 ^ 60"
  obtains c2s s2c rest h b w1 a1 w2 a2 w3 a3 b3 where
    "yields ec (write_zmtp_handshake C (sk_type kc) False (opt_security (sk_options kc)) (opt_routing_id (sk_options kc)) :: ('w io, _, _) comp) s2c c2s h"
    "yields es (establish C (sk_type ks) True (opt_security (sk_options ks)) (opt_routing_id (sk_options ks)) :: ('v io, _, _) comp) c2s (s2c @ rest)
       (identity_option (opt_routing_id (sk_options kc)), b)"
    "writes (TYPE('w)) C (hello_part kc) (hr_curve_session h) w1 a1" "writes (TYPE('w)) C (probe_part kc) a1 w2 a2"
    "writes (TYPE('w)) C (map part ms) a2 w3 a3" "reads (TYPE('v)) C (outgoing kc ms) b (w1 @ w2 @ w3) b3"
proof -
  let ?cid = "opt_routing_id (sk_options kc)" and ?sid = "opt_routing_id (sk_options ks)"
  let ?k = "length (probe_part kc) + length ms"
  have "length (hello_part kc) \<le> 1" "length (probe_part kc) \<le> 1"
    by (simp_all add: hello_part_def probe_part_def)
  then have k: "length (hello_part kc) + ?k < 2 ^ 63"
    using assms(4) by simp
  obtain c2s s2c rest h b where y:
    "yields ec (write_zmtp_handshake C (sk_type kc) False (opt_security (sk_options kc)) ?cid :: ('w io, _, _) comp) s2c c2s h"
    "yields es (establish C (sk_type ks) True (opt_security (sk_options ks)) ?sid :: ('v io, _, _) comp) c2s (s2c @ rest) (identity_option ?cid, b)"
    and c0: "chan C (length (hello_part kc) + ?k) (hr_curve_session h) b"
    by (rule handshake_link [OF assms(1) ids k])
  have l: "\<forall>p \<in> set (hello_part kc). length (fst p) < 2 ^ 60" "\<forall>p \<in> set (probe_part kc). length (fst p) < 2 ^ 60"
    "\<forall>p \<in> set (map part ms). length (fst p) < 2 ^ 60"
    using assms(5) by (auto simp: outgoing_def)
  obtain w1 a1 b1 where 1: "writes (TYPE('w)) C (hello_part kc) (hr_curve_session h) w1 a1" "reads (TYPE('v)) C (hello_part kc) b w1 b1" "chan C ?k a1 b1"
    by (rule link_steps [OF c0 l(1)])
  obtain w2 a2 b2 where 2: "writes (TYPE('w)) C (probe_part kc) a1 w2 a2" "reads (TYPE('v)) C (probe_part kc) b1 w2 b2" "chan C (length ms) a2 b2"
    by (rule link_steps [OF 1(3) l(2)])
  obtain w3 a3 b3 where 3: "writes (TYPE('w)) C (map part ms) a2 w3 a3" "reads (TYPE('v)) C (map part ms) b2 w3 b3"
    by (rule link_steps [of C "map part ms" 0 a2 b2, OF _ l(3)]) (use 2(3) in auto)
  have "reads (TYPE('v)) C (outgoing kc ms) b (w1 @ w2 @ w3) b3"
    unfolding outgoing_def by (intro reads_append [OF 1(2)] reads_append [OF 2(2)] 3(2))
  then show thesis
    by (rule that [OF y 1(1) 2(1) 3(1)])
qed

text \<open>The two byte strings of a link on fresh streams, whatever the transport has done to set them up.\<close>

lemma fresh_link:
  assumes "security_agrees C (opt_security (sk_options kc)) (opt_security (sk_options ks)) ec es"
    and ids: "length (opt_routing_id (sk_options kc)) < 256 ^ 4" "length (opt_routing_id (sk_options ks)) < 256 ^ 4"
    and "hello_part ks = []" "probe_part ks = []"
    and "ms \<noteq> []" "length ms < 2 ^ 62" "\<forall>p \<in> set (outgoing kc ms). length (fst p) < 2 ^ 60"
  obtains c2s s2c where
    "\<And>s (n :: 'w tcp_node). fresh_stream s kc False n \<Longrightarrow> ready_state ec (tn_io n) \<Longrightarrow> io_in (tn_io n) = s2c \<Longrightarrow>
       \<exists>n'. for_each ms (send_tcp_frame C s) n = (Inr (), n') \<and> io_out (tn_io n') = io_out (tn_io n) @ c2s"
    "\<And>u (n :: 'v tcp_node). fresh_stream u ks True n \<Longrightarrow> ready_state es (tn_io n) \<Longrightarrow> io_in (tn_io n) = c2s \<Longrightarrow>
       \<exists>n'. repeated (length (outgoing kc ms)) (recv_tcp_frame C u) n =
          (Inr (map (\<lambda>p. apply_peer_identity_metadata (identity_option (opt_routing_id (sk_options kc))) (plain_message p)) (outgoing kc ms)), n')
        \<and> io_out (tn_io n') = io_out (tn_io n) @ s2c"
proof -
  let ?cid = "opt_routing_id (sk_options kc)"
  obtain c2s s2c rest h b w1 a1 w2 a2 w3 a3 b3 where
    y: "yields ec (write_zmtp_handshake C (sk_type kc) False (opt_security (sk_options kc)) ?cid :: ('w io, _, _) comp) s2c c2s h"
    "yields es (establish C (sk_type ks) True (opt_security (sk_options ks)) (opt_routing_id (sk_options ks)) :: ('v io, _, _) comp) c2s (s2c @ rest)
       (identity_option ?cid, b)"
    and w: "writes (TYPE('w)) C (hello_part kc) (hr_curve_session h) w1 a1" "writes (TYPE('w)) C (probe_part kc) a1 w2 a2"
    "writes (TYPE('w)) C (map part ms) a2 w3 a3" and r: "reads (TYPE('v)) C (outgoing kc ms) b (w1 @ w2 @ w3) b3"
    by (rule link_plan [OF assms(1) ids assms(7,8), where 'w = 'w and 'v = 'v]) blast
  have ne: "outgoing kc ms \<noteq> []"
    using assms(6) by (simp add: outgoing_def)
  show thesis
  proof (rule that [of "s2c @ rest" "c2s @ w1 @ w2 @ w3"])
    fix s and n :: "'w tcp_node"
    assume n: "fresh_stream s kc False n" "ready_state ec (tn_io n)" "io_in (tn_io n) = s2c @ rest"
    obtain n' where "for_each ms (send_tcp_frame C s) n = (Inr (), n')" "io_out (tn_io n') = io_out (tn_io n) @ c2s @ w1 @ w2 @ w3"
      by (rule sends_fresh [OF n, of C c2s h w1 a1 w2 a2 ms w3 a3]) (use y(1) w assms(6) in auto)
    then show "\<exists>n'. for_each ms (send_tcp_frame C s) n = (Inr (), n') \<and> io_out (tn_io n') = io_out (tn_io n) @ c2s @ w1 @ w2 @ w3"
      by blast
  next
    fix u and n :: "'v tcp_node"
    assume n: "fresh_stream u ks True n" "ready_state es (tn_io n)" "io_in (tn_io n) = c2s @ w1 @ w2 @ w3"
    obtain n' where "repeated (length (outgoing kc ms)) (recv_tcp_frame C u) n =
        (Inr (map (\<lambda>p. apply_peer_identity_metadata (identity_option ?cid) (plain_message p)) (outgoing kc ms)), n')"
      "io_out (tn_io n') = io_out (tn_io n) @ s2c @ rest"
      by (rule recvs_fresh [OF n(1,2), of c2s "w1 @ w2 @ w3" "[]" C "s2c @ rest" "identity_option ?cid" b "outgoing kc ms" b3])
        (use n(3) y(2) r ne assms(4,5) in auto)
    then show "\<exists>n'. repeated (length (outgoing kc ms)) (recv_tcp_frame C u) n =
        (Inr (map (\<lambda>p. apply_peer_identity_metadata (identity_option ?cid) (plain_message p)) (outgoing kc ms)), n')
        \<and> io_out (tn_io n') = io_out (tn_io n) @ s2c @ rest"
      by blast
  qed
qed

text \<open>
  C2. Messages cross a TCP connection. A client socket connects and sends a sequence of messages, a
  server socket binds, accepts and receives; their security settings agree (NULL, PLAIN with accepted
  credentials, or CURVE with matching keys). There are two byte strings such that the client, fed the
  one, does everything without an error and writes the other, and the server, fed what the client
  writes, writes what the client was fed and receives exactly the client's hello message and router
  probe, if it has them, and then its messages, all in order, with their payloads and more flags and
  marked with the client's identity.
\<close>

theorem tcp_link_delivers:
  fixes nc :: "'w tcp_node" and ns :: "'v tcp_node"
  assumes kc_def: "kc = tn_socket s nc" and ks_def: "ks = tn_socket u ns"
    and "tcp_socket s ec nc" "tcp_socket u es ns"
    and "security_agrees C (opt_security (sk_options kc)) (opt_security (sk_options ks)) ec es"
    and "tcp_parse ep = Inr t" "tcp_connect_addr t = Inr addr" "tcp_bound_endpoint (tn_tcp nc) = None"
    and "tcp_parse ep' = Inr t'" "\<not> tcp_stream (tn_tcp ns)" "tcp_connected_endpoint (tn_tcp ns) = None"
    and "hello_part ks = []" "probe_part ks = []"
    and "ms \<noteq> []" "length ms < 2 ^ 62" "\<forall>p \<in> set (outgoing kc ms). length (fst p) < 2 ^ 60"
  shows "\<exists>c2s s2c nc' ns'.
      bnd (connect_tcp s ep) (\<lambda>_. for_each ms (send_tcp_frame C s)) (nc\<lparr>tn_os := [Inr (s2c, x)]\<rparr>) = (Inr (), nc')
    \<and> io_out (tn_io nc') = c2s
    \<and> bnd (bind_tcp u ep') (\<lambda>_. repeated (length (outgoing kc ms)) (recv_tcp_frame C u)) (ns\<lparr>tn_os := [Inr y, Inr (c2s, z)]\<rparr>) =
        (Inr (map (\<lambda>p. apply_peer_identity_metadata (identity_option (opt_routing_id (sk_options kc))) (plain_message p)) (outgoing kc ms)), ns')
    \<and> io_out (tn_io ns') = s2c"
proof -
  let ?kc = "at_endpoint ep kc" and ?ks = "at_endpoint ep' ks"
  have o: "outgoing ?kc ms = outgoing kc ms"
    by (simp add: outgoing_def)
  have ids: "length (opt_routing_id (sk_options ?kc)) < 256 ^ 4" "length (opt_routing_id (sk_options ?ks)) < 256 ^ 4"
    using assms(3,4) by (simp_all add: tcp_socket_def kc_def ks_def)
  have a: "security_agrees C (opt_security (sk_options ?kc)) (opt_security (sk_options ?ks)) ec es" "hello_part ?ks = []" "probe_part ?ks = []"
    "\<forall>p \<in> set (outgoing ?kc ms). length (fst p) < 2 ^ 60"
    using assms(5,12,13,16) o by simp_all
  obtain c2s s2c where
    c: "\<And>s (n :: 'w tcp_node). fresh_stream s ?kc False n \<Longrightarrow> ready_state ec (tn_io n) \<Longrightarrow> io_in (tn_io n) = s2c \<Longrightarrow>
       \<exists>n'. for_each ms (send_tcp_frame C s) n = (Inr (), n') \<and> io_out (tn_io n') = io_out (tn_io n) @ c2s"
    and r: "\<And>u (n :: 'v tcp_node). fresh_stream u ?ks True n \<Longrightarrow> ready_state es (tn_io n) \<Longrightarrow> io_in (tn_io n) = c2s \<Longrightarrow>
       \<exists>n'. repeated (length (outgoing ?kc ms)) (recv_tcp_frame C u) n =
          (Inr (map (\<lambda>p. apply_peer_identity_metadata (identity_option (opt_routing_id (sk_options ?kc))) (plain_message p)) (outgoing ?kc ms)), n')
        \<and> io_out (tn_io n') = io_out (tn_io n) @ s2c"
    by (rule fresh_link [OF a(1) ids a(2,3) assms(14,15) a(4), where 'w = 'w and 'v = 'v]) blast
  obtain n1 where n1: "connect_tcp s ep (nc\<lparr>tn_os := [Inr (s2c, x)]\<rparr>) = (Inr (), n1)" "fresh_stream s ?kc False n1"
    "ready_state ec (tn_io n1)" "io_in (tn_io n1) = s2c" "io_out (tn_io n1) = []"
    unfolding kc_def by (rule connect_fresh [OF assms(3,6,7,8), of s2c x])
  obtain n2 n3 where n2: "bind_tcp u ep' (ns\<lparr>tn_os := [Inr y, Inr (c2s, z)]\<rparr>) = (Inr (), n2)" "ensure_tcp_stream n2 = (Inr (), n3)"
    "fresh_stream u ?ks True n3" "ready_state es (tn_io n3)" "io_in (tn_io n3) = c2s" "io_out (tn_io n3) = []" "tn_socket u n2 = tn_socket u n3"
    unfolding ks_def by (rule bind_fresh [OF assms(4,9,10,11), of y c2s z])
  have "recv_tcp_frame C u n2 = recv_tcp_frame C u n3"
    using n2(2,3,7) by (intro recv_after_ensure) (auto simp: fresh_stream_def)
  then have "repeated (length (outgoing kc ms)) (recv_tcp_frame C u) n2 = repeated (length (outgoing kc ms)) (recv_tcp_frame C u) n3"
    using assms(14) by (cases "outgoing kc ms") (simp_all add: bnd_def outgoing_def)
  then show ?thesis
    using n1(1,5) c [OF n1(2-4)] n2(1,6) r [OF n2(3-5)] o by (intro exI [of _ c2s] exI [of _ s2c]) fastforce
qed


definition node_example :: "socket_type \<Rightarrow> security_options \<Rightarrow> bytes \<Rightarrow> unit tcp_node" where
  "node_example t sec entropy =
     \<lparr>tn_io = \<lparr>io_in = [], io_out = [], io_closed = False, io_timeout = True, io_entropy = entropy,
        io_world = update_socket 0 (\<lambda>k. k\<lparr>sk_type := t, sk_options := (sk_options k)\<lparr>opt_security := sec\<rparr>\<rparr>) (world_new ()), io_others = []\<rparr>,
      tn_os = [], tn_calls = [], tn_tcp = tcp_state_default, tn_now = 0\<rparr>"

lemma world_new_socket [simp]: "w_sockets (world_new x) s = socket_record 0 Pair 0 \<lparr>sd_ipv6 = False, sd_blocky = True\<rparr>"
  by (simp add: world_new_def context_shared.defs world.defs)

lemma node_example_socket:
  "tn_socket 0 (node_example t sec entropy) = (socket_record 0 Pair 0 \<lparr>sd_ipv6 = False, sd_blocky = True\<rparr>)
     \<lparr>sk_type := t, sk_options := (socket_options_default\<lparr>opt_linger := - 1, opt_ipv6 := False, opt_security := sec\<rparr>)\<rparr>"
  by (simp add: node_example_def socket_record_def)

lemma node_example_tcp_socket:
  assumes "supports_stream_transport t" "t \<noteq> Stream"
  shows "tcp_socket 0 entropy (node_example t sec entropy)"
proof -
  have "inproc_endpoint_of ZAP_ENDPOINT (io_world (tn_io (node_example t sec entropy))) = None"
    by (simp add: node_example_def inproc_endpoint_of_def)
  then show ?thesis
    using assms by (simp add: tcp_socket_def node_example_socket ready_state_def socket_options_default_def)
      (simp add: node_example_def)
qed

abbreviation client_curve_example :: security_options where
  "client_curve_example \<equiv> security_options_default\<lparr>sec_curve_secretkey := replicate 32 1, sec_curve_serverkey := replicate 32 2\<rparr>"

abbreviation server_curve_example :: security_options where
  "server_curve_example \<equiv> security_options_default\<lparr>sec_curve_server := True, sec_curve_secretkey := replicate 32 2\<rparr>"

lemma curve_example_agrees: "security_agrees plain_crypto client_curve_example server_curve_example (replicate 48 5) (replicate 96 6)"
proof -
  have "curve_keys plain_crypto client_curve_example server_curve_example (replicate 32 1) (replicate 32 2)"
    by (simp add: curve_keys_def curve_option_key_def security_options_default_def plain_crypto_def)
  moreover have "mechanism client_curve_example = ZMQ_CURVE" "mechanism server_curve_example = ZMQ_CURVE"
    by (simp_all add: mechanism_def security_options_default_def)
  moreover have "authorize_curve server_curve_example (cr_public plain_crypto (replicate 32 1)) = Inr ()"
    by (simp add: authorize_curve_def security_options_default_def)
  ultimately show ?thesis
    using plain_crypto_laws by (auto simp: security_agrees_def)
qed

theorem tcp_link_delivers_witness:
  "\<exists>c2s s2c nc' ns'.
      bnd (connect_tcp 0 (lit ''tcp://127.0.0.1:5555'')) (\<lambda>_. for_each [message_from_vec [1], message_from_vec [2, 3]] (send_tcp_frame plain_crypto 0))
        ((node_example Push client_curve_example (replicate 48 5))\<lparr>tn_os := [Inr (s2c, False)]\<rparr>) = (Inr (), nc')
    \<and> io_out (tn_io nc') = c2s
    \<and> bnd (bind_tcp 0 (lit ''tcp://127.0.0.1:5555'')) (\<lambda>_. repeated (Suc (Suc 0)) (recv_tcp_frame plain_crypto 0))
        ((node_example Pull server_curve_example (replicate 96 6))\<lparr>tn_os := [Inr ([], False), Inr (c2s, False)]\<rparr>) =
        (Inr [message_from_vec [1], message_from_vec [2, 3]], ns')
    \<and> io_out (tn_io ns') = s2c"
proof -
  let ?c = "node_example Push client_curve_example (replicate 48 5)" and ?s = "node_example Pull server_curve_example (replicate 96 6)"
  let ?ms = "[message_from_vec [1], message_from_vec [2, 3]]" and ?ep = "lit ''tcp://127.0.0.1:5555''"
  have o: "outgoing (tn_socket 0 ?c) ?ms = [([1], False), ([2, 3], False)]" "hello_part (tn_socket 0 ?s) = []" "probe_part (tn_socket 0 ?s) = []"
    by (simp_all add: outgoing_def hello_part_def probe_part_def node_example_socket socket_options_default_def)
  have q: "tcp_socket 0 (replicate 48 5) ?c" "tcp_socket 0 (replicate 96 6) ?s"
    by (simp_all add: node_example_tcp_socket supports_stream_transport_def)
  have r: "opt_security (sk_options (tn_socket 0 ?c)) = client_curve_example" "opt_security (sk_options (tn_socket 0 ?s)) = server_curve_example"
    "opt_routing_id (sk_options (tn_socket 0 ?c)) = []"
    by (simp_all add: node_example_socket socket_options_default_def)
  have e: "tcp_bound_endpoint (tn_tcp ?c) = None" "\<not> tcp_stream (tn_tcp ?s)" "tcp_connected_endpoint (tn_tcp ?s) = None"
    by (simp_all add: node_example_def tcp_state_default_def)
  have a: "apply_peer_identity_metadata (identity_option []) m = m" for m
    by (simp add: apply_peer_identity_metadata_def identity_option_def)
  have m: "set_more False (message_from_vec d) = message_from_vec d" for d
    by (simp add: message_from_vec_def set_more_def)
  show ?thesis
    using tcp_link_delivers [OF refl refl q _ tcp_example(2,1) e(1) tcp_example(2) e(2,3) o(2,3), of plain_crypto ?ms False "([], False)" False]
      curve_example_agrees
    by (simp add: r o(1) a m)
qed

end
