(* ===== verification/WebSocket_Link.thy ===== *)
theory WebSocket_Link
  imports WebSocket Tcp_Link
begin

text \<open>
  Two sockets joined over a WebSocket: frames survive masking and every length class, the opening
  handshake succeeds between the two sides of the code, and messages cross in both directions.
\<close>

section \<open>Frames\<close>

lemma byte_xor_twice: "((b :: byte) XOR k) XOR k = b"
  by (simp add: xor.assoc)

lemma length_mask_bytes [simp]: "length (mask_bytes key bs) = length bs"
  by (simp add: mask_bytes_def)

lemma mask_bytes_twice: "mask_bytes key (mask_bytes key bs) = bs"
  by (rule nth_equalityI) (simp_all add: mask_bytes_def byte_xor_twice)

lemma low_bits: "n < 128 \<Longrightarrow> (word_of_nat n :: byte) AND 0x7F = word_of_nat n"
proof -
  assume n: "n < 128"
  have "(word_of_nat n :: byte) AND 0x7F = take_bit 7 (word_of_nat n)"
    by (simp add: take_bit_eq_mask mask_eq_exp_minus_1)
  also have "\<dots> = word_of_nat n"
    using n by (simp add: word_unat_eq_iff take_bit_eq_mod unat_mod unat_of_nat)
  finally show ?thesis .
qed

lemma ws_length_byte:
  assumes "n < 128"
  shows "unat (((if b then 0x80 else 0) OR word_of_nat n :: byte) AND 0x7F) = n"
    "(((if b then 0x80 else 0) OR word_of_nat n :: byte) AND 0x80 \<noteq> 0) = b"
proof -
  have "((if b then 0x80 else 0) OR word_of_nat n :: byte) AND 0x7F = word_of_nat n"
    using low_bits [OF assms] by (simp add: bit.conj_disj_distrib2)
  then show "unat (((if b then 0x80 else 0) OR word_of_nat n :: byte) AND 0x7F) = n"
    using assms by (simp add: unat_of_nat)
  have "(word_of_nat n :: byte) AND 0x80 = (word_of_nat n AND 0x7F) AND 0x80"
    using low_bits [OF assms] by simp
  then have "(word_of_nat n :: byte) AND 0x80 = 0"
    by (simp add: and.assoc)
  then show "(((if b then 0x80 else 0) OR word_of_nat n :: byte) AND 0x80 \<noteq> 0) = b"
    by (simp add: bit.conj_disj_distrib2)
qed

text \<open>The three forms of a frame: length in the second byte, in two more or in eight more.\<close>

lemma ws_header_cases:
  obtains (tiny) "n \<le> 125" "ws_frame_header n b = [0x82, (if b then 0x80 else 0) OR word_of_nat n]"
  | (medium) "125 < n" "n \<le> 65535" "ws_frame_header n b = [0x82, (if b then 0x80 else 0) OR word_of_nat 126] @ to_be 2 n"
  | (long) "65535 < n" "ws_frame_header n b = [0x82, (if b then 0x80 else 0) OR word_of_nat 127] @ to_be 8 n"
  by (cases "n \<le> 125"; cases "n \<le> 65535") (simp_all add: ws_frame_header_def Let_def)

lemma read_ws_header:
  assumes "n < 2 ^ 62" "io_in st = ws_frame_header n b @ rest"
  obtains h st1 where "read_exact 2 st = (Inr h, st1)" "h ! 0 AND 0x0F = 0x02" "(h ! 1 AND 0x80 \<noteq> 0) = b"
    "read_ws_len (h ! 1) st1 = (Inr n, st\<lparr>io_in := rest\<rparr>)"
proof (cases rule: ws_header_cases [of n b])
  case tiny
  let ?c = "(if b then 0x80 else 0) OR word_of_nat n :: byte"
  have "read_exact 2 st = (Inr [0x82, ?c], st\<lparr>io_in := rest\<rparr>)"
    using tiny assms(2) by (simp add: read_exact_def)
  moreover have "read_ws_len ?c (st\<lparr>io_in := rest\<rparr>) = (Inr n, st\<lparr>io_in := rest\<rparr>)"
    using tiny ws_length_byte(1) [of n b] by (simp add: read_ws_len_def Let_def)
  ultimately show ?thesis
    using that ws_length_byte(2) [of n b] tiny by simp
next
  case medium
  let ?c = "(if b then 0x80 else 0) OR word_of_nat 126 :: byte"
  have "read_exact 2 st = (Inr [0x82, ?c], st\<lparr>io_in := to_be 2 n @ rest\<rparr>)"
    using medium assms(2) by (simp add: read_exact_def)
  moreover have "read_ws_len ?c (st\<lparr>io_in := to_be 2 n @ rest\<rparr>) = (Inr n, st\<lparr>io_in := rest\<rparr>)"
    using medium ws_length_byte(1) [of 126 b] from_be_to_be_id [of n 2]
    by (simp add: read_ws_len_def read_exact_def)
  ultimately show ?thesis
    using that ws_length_byte(2) [of 126 b] by simp
next
  case long
  let ?c = "(if b then 0x80 else 0) OR word_of_nat 127 :: byte"
  have "read_exact 2 st = (Inr [0x82, ?c], st\<lparr>io_in := to_be 8 n @ rest\<rparr>)"
    using long assms(2) by (simp add: read_exact_def)
  moreover have "read_ws_len ?c (st\<lparr>io_in := to_be 8 n @ rest\<rparr>) = (Inr n, st\<lparr>io_in := rest\<rparr>)"
    using assms(1) ws_length_byte(1) [of 127 b] from_be_to_be_id [of n 8]
    by (simp add: read_ws_len_def read_exact_def)
  ultimately show ?thesis
    using that ws_length_byte(2) [of 127 b] by simp
qed

lemma ws_frame_ok:
  assumes "b \<Longrightarrow> 4 \<le> length e"
  shows "websocket_binary_frame p b e =
    (Inr (ws_frame_header (length p) b @ (if b then take 4 e @ mask_bytes (take 4 e) p else p)), if b then drop 4 e else e)"
  using assms by (auto simp: websocket_binary_frame_def fill_random_def bnd_apply)

lemma ws_frame_round_trip_raw:
  assumes "length p < 2 ^ 62" and "websocket_binary_frame p b e = (Inr frame, e')" and "io_in st = frame @ rest"
  shows "read_websocket_binary_frame st = (Inr p, st\<lparr>io_in := rest\<rparr>)"
proof -
  have e: "b \<Longrightarrow> 4 \<le> length e"
    using assms(2) by (auto simp: websocket_binary_frame_def fill_random_def bnd_apply split: if_splits)
  let ?body = "if b then take 4 e @ mask_bytes (take 4 e) p else p"
  have "io_in st = ws_frame_header (length p) b @ (?body @ rest)"
    using assms(2,3) ws_frame_ok [of b e p, OF e] by simp
  then obtain h st1 where h: "read_exact 2 st = (Inr h, st1)" "h ! 0 AND 0x0F = 0x02" "(h ! 1 AND 0x80 \<noteq> 0) = b"
    "read_ws_len (h ! 1) st1 = (Inr (length p), st\<lparr>io_in := ?body @ rest\<rparr>)"
    by (rule read_ws_header [OF assms(1)])
  show ?thesis
  proof (cases b)
    case True
    with e have "read_exact 4 (st\<lparr>io_in := ?body @ rest\<rparr>) = (Inr (take 4 e), st\<lparr>io_in := mask_bytes (take 4 e) p @ rest\<rparr>)"
      by (simp add: read_exact_def)
    moreover have "read_exact (length p) (st\<lparr>io_in := mask_bytes (take 4 e) p @ rest\<rparr>) = (Inr (mask_bytes (take 4 e) p), st\<lparr>io_in := rest\<rparr>)"
      by (simp add: read_exact_def)
    ultimately show ?thesis
      using h True assms(1) by (simp add: read_websocket_binary_frame_def ISIZE_MAX_def mask_bytes_twice)
  next
    case False
    have "read_exact (length p) (st\<lparr>io_in := p @ rest\<rparr>) = (Inr p, st\<lparr>io_in := rest\<rparr>)"
      by (simp add: read_exact_def)
    then show ?thesis
      using h False assms(1) by (simp add: read_websocket_binary_frame_def ISIZE_MAX_def)
  qed
qed

text \<open>
  C27. A WebSocket frame is read back as it was sent. For every payload, masked with any key or not, in
  each of the three length forms, the reader consumes exactly the frame and returns the payload.
\<close>

theorem ws_frame_round_trip:
  assumes "length p < 2 ^ 62" and "websocket_binary_frame p b e = (Inr frame, e')" and "io_in st = frame @ rest"
  shows "read_websocket_binary_frame st = (Inr p, st\<lparr>io_in := rest\<rparr>)"
  using assms by (rule ws_frame_round_trip_raw)

theorem ws_frame_round_trip_witness:
  "read_websocket_binary_frame (io_example (fst (case websocket_binary_frame [1, 2, 3, 4, 5] True [7, 8, 9, 10] of (Inr f, r) \<Rightarrow> (f, r) | (Inl _, r) \<Rightarrow> ([], r)) @ [42])) =
     (Inr [1, 2, 3, 4, 5], io_example [42])"
proof -
  obtain f r where f: "websocket_binary_frame [1, 2, 3, 4, 5] True [7, 8, 9, 10] = (Inr f, r)"
    by (simp add: ws_frame_ok)
  show ?thesis
    unfolding f using ws_frame_round_trip [OF _ f, of "io_example (f @ [42])" "[42]"] by (simp add: io_example_def)
qed


section \<open>Header texts\<close>

lemma ends_with_iff: "ends_with suf s \<longleftrightarrow> (\<exists>u. s = u @ suf)"
proof
  assume "ends_with suf s"
  then have "s = take (length s - length suf) s @ suf"
    by (metis append_take_drop_id ends_with_def)
  then show "\<exists>u. s = u @ suf" ..
qed (auto simp: ends_with_def)

lemma ends_with_last: "ends_with (CRLF @ CRLF) s \<Longrightarrow> last s = 10" "ends_with CRLF s \<Longrightarrow> last s = 10"
  by (auto simp: ends_with_iff)

lemma ends_with_snoc: "ends_with (CRLF @ CRLF) (s @ CRLF) \<longleftrightarrow> ends_with CRLF s"
  by (simp add: ends_with_iff flip: append_assoc)

lemma http_step:
  assumes "length bs < 8192" "io_in st = c # r" "\<not> ends_with (CRLF @ CRLF) (bs @ [c])"
  shows "read_http_loop bs st = read_http_loop (bs @ [c]) (st\<lparr>io_in := r\<rparr>)"
proof -
  have "read_exact 1 st = (Inr [c], st\<lparr>io_in := r\<rparr>)"
    using assms(2) by (simp add: read_exact_def)
  then show ?thesis
    using assms(1,3) by (simp add: read_http_loop.simps [of bs st])
qed

lemma http_skip:
  assumes "10 \<notin> set xs" "length bs + length xs \<le> 8192" "io_in st = xs @ r"
  shows "read_http_loop bs st = read_http_loop (bs @ xs) (st\<lparr>io_in := r\<rparr>)"
  using assms
proof (induction xs arbitrary: bs st)
  case (Cons x xs)
  have "read_http_loop bs st = read_http_loop (bs @ [x]) (st\<lparr>io_in := xs @ r\<rparr>)"
    using Cons.prems ends_with_last(1) [of "bs @ [x]"] by (intro http_step) auto
  also have "\<dots> = read_http_loop (bs @ x # xs) (st\<lparr>io_in := r\<rparr>)"
    using Cons.IH [of "bs @ [x]" "st\<lparr>io_in := xs @ r\<rparr>"] Cons.prems by simp
  finally show ?case .
qed auto

lemma http_line:
  assumes "l \<noteq> []" "10 \<notin> set l" "length bs + length l + 2 \<le> 8192" "io_in st = l @ CRLF @ r"
  shows "read_http_loop bs st = read_http_loop (bs @ l @ CRLF) (st\<lparr>io_in := r\<rparr>)"
proof -
  have "last (bs @ l) \<noteq> 10"
    using assms(1,2) by (metis last_appendR last_in_set)
  then have e: "\<not> ends_with (CRLF @ CRLF) ((bs @ l) @ CRLF)"
    unfolding ends_with_snoc using ends_with_last(2) by blast
  have "read_http_loop bs st = read_http_loop (bs @ (l @ [13])) (st\<lparr>io_in := 10 # r\<rparr>)"
    using assms by (intro http_skip) auto
  also have "\<dots> = read_http_loop ((bs @ l @ [13]) @ [10]) (st\<lparr>io_in := r\<rparr>)"
    using assms(3) e http_step [of "bs @ l @ [13]" "st\<lparr>io_in := 10 # r\<rparr>" 10 r] by simp
  finally show ?thesis
    by simp
qed

definition http_lines :: "bytes list \<Rightarrow> bytes" where
  "http_lines ls = concat (map (\<lambda>l. l @ CRLF) ls)"

lemma http_lines_simps [simp]: "http_lines [] = []" "http_lines (l # ls) = l @ CRLF @ http_lines ls"
  by (simp_all add: http_lines_def)

lemma read_http_lines:
  assumes "\<forall>l \<in> set ls. l \<noteq> [] \<and> 10 \<notin> set l" "length bs + length (http_lines ls) \<le> 8192" "io_in st = http_lines ls @ r"
  shows "read_http_loop bs st = read_http_loop (bs @ http_lines ls) (st\<lparr>io_in := r\<rparr>)"
  using assms
proof (induction ls arbitrary: bs st)
  case (Cons l ls)
  have "read_http_loop bs st = read_http_loop (bs @ l @ CRLF) (st\<lparr>io_in := http_lines ls @ r\<rparr>)"
    using Cons.prems by (intro http_line) auto
  also have "\<dots> = read_http_loop (bs @ http_lines (l # ls)) (st\<lparr>io_in := r\<rparr>)"
    using Cons.IH [of "bs @ l @ CRLF" "st\<lparr>io_in := http_lines ls @ r\<rparr>"] Cons.prems by simp
  finally show ?case .
qed auto

lemma ends_with_http_lines: "ls \<noteq> [] \<Longrightarrow> ends_with CRLF (http_lines ls)"
  by (induction ls rule: rev_induct) (auto simp: ends_with_iff http_lines_def)

lemma read_http_text:
  assumes "ls \<noteq> []" "\<forall>l \<in> set ls. l \<noteq> [] \<and> 10 \<notin> set l" "length (http_lines ls) + 2 \<le> 8192"
    and "utf8_valid (http_lines ls @ CRLF)" "io_in st = http_lines ls @ CRLF @ rest"
  shows "read_http_headers st = (Inr (http_lines ls @ CRLF), st\<lparr>io_in := rest\<rparr>)"
proof -
  let ?t = "http_lines ls" and ?st = "st\<lparr>io_in := 10 # rest\<rparr>"
  have "read_http_headers st = read_http_loop ?t (st\<lparr>io_in := CRLF @ rest\<rparr>)"
    unfolding read_http_headers_def using assms read_http_lines [of ls "[]" st "CRLF @ rest"] by simp
  also have "\<dots> = read_http_loop (?t @ [13]) ?st"
    using assms(3) http_skip [of "[13]" ?t "st\<lparr>io_in := CRLF @ rest\<rparr>" "10 # rest"] by simp
  also have "\<dots> = (Inr (?t @ CRLF), st\<lparr>io_in := rest\<rparr>)"
  proof -
    have "read_exact 1 ?st = (Inr [10], st\<lparr>io_in := rest\<rparr>)"
      by (simp add: read_exact_def)
    moreover have "ends_with (CRLF @ CRLF) (?t @ CRLF)"
      using ends_with_http_lines [OF assms(1)] ends_with_snoc by blast
    ultimately show ?thesis
      using assms(3,4) by (simp add: read_http_loop.simps [of "?t @ [13]"])
  qed
  finally show ?thesis .
qed



section \<open>Header values\<close>

lemma split_once_newline: "c \<notin> set l \<Longrightarrow> split_once c (l @ c # r) = Some (l, r)"
  by (induction l) auto

lemma strip_cr_snoc: "strip_cr (l @ [13]) = l"
  by (simp add: strip_cr_def strip_suffix_def strip_prefix_def starts_with_def)

lemma str_lines_http: "\<forall>l \<in> set ls. 10 \<notin> set l \<Longrightarrow> str_lines (http_lines ls @ CRLF) = ls @ [[]]"
proof (induction ls)
  case Nil
  show ?case
    using strip_cr_snoc [of "[]"] by (simp add: str_lines.simps [of CRLF] str_lines.simps [of "[]"])
next
  case (Cons l ls)
  have "split_once 10 (http_lines (l # ls) @ CRLF) = Some (l @ [13], http_lines ls @ CRLF)"
    using split_once_newline [of 10 "l @ [13]" "http_lines ls @ CRLF"] Cons.prems by simp
  then show ?case
    using Cons by (simp add: str_lines.simps [of "http_lines (l # ls) @ CRLF"] strip_cr_snoc del: http_lines_simps)
qed

definition graphic :: "byte \<Rightarrow> bool" where
  "graphic b \<longleftrightarrow> 32 < b \<and> b < 127"

lemma whitespace_not_graphic:
  "\<forall>c \<in> set whitespace. \<forall>b \<in> set c. \<not> graphic b" "\<forall>c \<in> set (map rev whitespace). \<forall>b \<in> set c. \<not> graphic b"
  by (simp_all add: whitespace_def graphic_def)

lemma strip_front_graphic:
  assumes "\<forall>c \<in> set ws. \<forall>b \<in> set c. \<not> graphic b" "graphic b"
  shows "strip_front ws (b # s) = b # s"
proof -
  have "\<not> starts_with c (b # s)" if "c \<in> set ws" "c \<noteq> []" for c
    using assms that by (cases c) (auto simp: starts_with_def)
  then have "List.find (\<lambda>c. c \<noteq> [] \<and> starts_with c (b # s)) ws = None"
    by (auto simp: find_None_iff)
  then show ?thesis
    by (simp add: strip_front.simps [of ws "b # s"])
qed

lemma strip_front_keeps:
  assumes "\<forall>c \<in> set ws. \<forall>b \<in> set c. \<not> graphic b" "graphic b"
  shows "\<exists>zs. strip_front ws (xs @ [b]) = zs @ [b]"
proof (induction "length xs" arbitrary: xs rule: less_induct)
  case less
  show ?case
  proof (cases "List.find (\<lambda>c. c \<noteq> [] \<and> starts_with c (xs @ [b])) ws")
    case None
    then show ?thesis
      by (simp add: strip_front.simps [of ws "xs @ [b]"])
  next
    case (Some c)
    then have c: "c \<in> set ws" "c \<noteq> []" "starts_with c (xs @ [b])"
      by (auto simp: find_Some_iff)
    have l: "length c \<le> length xs"
    proof (rule ccontr)
      assume "\<not> ?thesis"
      with c(3) have "xs @ [b] = c"
        by (simp add: starts_with_def)
      then have "b \<in> set c"
        by auto
      with c(1) assms show False
        by blast
    qed
    with c(2) obtain zs where "strip_front ws (drop (length c) xs @ [b]) = zs @ [b]"
      using less [of "drop (length c) xs"] by (cases xs) (auto simp: less_diff_conv)
    with l Some show ?thesis
      by (simp add: strip_front.simps [of ws "xs @ [b]"])
  qed
qed

lemma trim_graphic_hd:
  assumes "graphic b"
  shows "\<exists>zs. trim (b # s) = b # zs"
proof -
  obtain zs where "strip_front (map rev whitespace) (rev s @ [b]) = zs @ [b]"
    using strip_front_keeps [OF whitespace_not_graphic(2) assms] by blast
  then show ?thesis
    by (simp add: trim_def strip_front_graphic [OF whitespace_not_graphic(1) assms])
qed

lemma trim_graphic:
  assumes "\<forall>b \<in> set s. graphic b"
  shows "trim s = s" "trim (32 # s) = s"
proof -
  have f: "strip_front ws s = s" if "\<forall>c \<in> set ws. \<forall>b \<in> set c. \<not> graphic b" "\<forall>b \<in> set s. graphic b" "ws \<noteq> []" for s ws
  proof (cases s)
    case Nil
    have "List.find (\<lambda>c. c \<noteq> [] \<and> starts_with c []) ws = None"
      by (auto simp: find_None_iff starts_with_def)
    then show ?thesis
      by (simp add: Nil strip_front.simps [of ws "[]"])
  next
    case (Cons b r)
    then show ?thesis
      using that strip_front_graphic by simp
  qed
  have w: "whitespace \<noteq> []"
    by (simp add: whitespace_def)
  have a: "strip_front whitespace s = s" "strip_front (map rev whitespace) (rev s) = rev s"
    using f [OF whitespace_not_graphic(1) assms w] f [OF whitespace_not_graphic(2), of "rev s"] assms w by simp_all
  then show "trim s = s"
    by (simp add: trim_def)
  have "List.find (\<lambda>c. c \<noteq> [] \<and> starts_with c (32 # s)) whitespace = Some [32]"
    by (simp add: whitespace_def starts_with_def)
  then have "strip_front whitespace (32 # s) = s"
    using a(1) by (simp add: strip_front.simps [of whitespace "32 # s"])
  then show "trim (32 # s) = s"
    using a by (simp add: trim_def)
qed



text \<open>What the code relies on in the two crates: Base64 of \<open>n\<close> bytes is \<open>4 * ((n + 2) div 3)\<close> letters, digits,
  \<open>+\<close>, \<open>/\<close> and \<open>=\<close>, and a SHA-1 digest has 20 bytes.\<close>

definition base64_char :: "byte \<Rightarrow> bool" where
  "base64_char b \<longleftrightarrow> 65 \<le> b \<and> b \<le> 90 \<or> 97 \<le> b \<and> b \<le> 122 \<or> 48 \<le> b \<and> b \<le> 57 \<or> b = 43 \<or> b = 47 \<or> b = 61"

definition hash_laws :: "hashes \<Rightarrow> bool" where
  "hash_laws H \<longleftrightarrow>
     (\<forall>bs. length (hs_sha1 H bs) = 20)
     \<and> (\<forall>bs. length (hs_base64 H bs) = 4 * ((length bs + 2) div 3) \<and> (\<forall>b \<in> set (hs_base64 H bs). base64_char b))"

lemma base64_graphic: "base64_char b \<Longrightarrow> graphic b"
  unfolding base64_char_def graphic_def by (auto simp: word_less_nat_alt word_le_nat_alt)

definition request_lines :: "ws_endpoint \<Rightarrow> bytes \<Rightarrow> bytes list" where
  "request_lines e key =
     [lit ''GET '' @ ws_path e @ lit '' HTTP/1.1'', lit ''Host: '' @ ws_host e @ lit '':'' @ dec (ws_port e),
      lit ''Upgrade: websocket'', lit ''Connection: Upgrade'', lit ''Sec-WebSocket-Key: '' @ key, lit ''Sec-WebSocket-Version: 13'']"

definition response_lines :: "bytes \<Rightarrow> bytes list" where
  "response_lines accept =
     [lit ''HTTP/1.1 101 Switching Protocols'', lit ''Upgrade: websocket'', lit ''Connection: Upgrade'', lit ''Sec-WebSocket-Accept: '' @ accept]"

lemma request_is_lines: "ws_request e key = http_lines (request_lines e key) @ CRLF"
  by (simp add: ws_request_def request_lines_def)

lemma response_is_lines: "ws_response accept = http_lines (response_lines accept) @ CRLF"
  by (simp add: ws_response_def response_lines_def)

lemma header_get: "header_of (lit ''Sec-WebSocket-Key'') (lit ''GET '' @ r) = None"
proof (cases "split_once 58 (lit ''GET '' @ r)")
  case (Some sv)
  then obtain v s' where sv: "sv = (71 # s', v)"
    by (auto simp: lit_def split: if_splits prod.splits)
  obtain zs where "trim (71 # s') = 71 # zs"
    using trim_graphic_hd [of 71 s'] by (auto simp: graphic_def)
  then have "\<not> eq_ignore_ascii_case (trim (71 # s')) (lit ''Sec-WebSocket-Key'')"
    by (simp add: eq_ignore_ascii_case_def lit_def ascii_lower_def)
  then show ?thesis
    unfolding header_of_def Some sv by simp
qed (simp add: header_of_def)

lemma header_line:
  assumes "\<forall>b \<in> set name. graphic b \<and> b \<noteq> 58"
  shows "header_of wanted (name @ lit '': '' @ v) =
    (if map ascii_lower name = map ascii_lower wanted then Some (trim (32 # v)) else None)"
proof -
  have "split_once 58 (name @ lit '': '' @ v) = Some (name, 32 # v)"
    using split_once_newline [of 58 name "32 # v"] assms by (auto simp: lit_def)
  then show ?thesis
    using trim_graphic(1) [of name] assms by (simp add: header_of_def eq_ignore_ascii_case_def)
qed

lemma header_lines:
  "header_of wanted (lit ''Host: '' @ v) = (if map ascii_lower (lit ''Host'') = map ascii_lower wanted then Some (trim (32 # v)) else None)"
  "header_of wanted (lit ''Upgrade: websocket'') = (if map ascii_lower (lit ''Upgrade'') = map ascii_lower wanted then Some (trim (32 # lit ''websocket'')) else None)"
  "header_of wanted (lit ''Connection: Upgrade'') = (if map ascii_lower (lit ''Connection'') = map ascii_lower wanted then Some (trim (32 # lit ''Upgrade'')) else None)"
  "header_of wanted (lit ''Sec-WebSocket-Key: '' @ v) = (if map ascii_lower (lit ''Sec-WebSocket-Key'') = map ascii_lower wanted then Some (trim (32 # v)) else None)"
  "header_of wanted (lit ''Sec-WebSocket-Accept: '' @ v) = (if map ascii_lower (lit ''Sec-WebSocket-Accept'') = map ascii_lower wanted then Some (trim (32 # v)) else None)"
  using header_line [of "lit ''Host''" wanted v] header_line [of "lit ''Upgrade''" wanted "lit ''websocket''"]
    header_line [of "lit ''Connection''" wanted "lit ''Upgrade''"] header_line [of "lit ''Sec-WebSocket-Key''" wanted v]
    header_line [of "lit ''Sec-WebSocket-Accept''" wanted v]
  by (simp_all add: lit_def graphic_def)

lemma header_status: "header_of wanted (lit ''HTTP/1.1 101 Switching Protocols'') = None"
  by (simp add: header_of_def lit_def)

lemma line_breaks:
  assumes "10 \<notin> set (ws_path e)" "10 \<notin> set (ws_host e)" "10 \<notin> set key"
  shows "\<forall>l \<in> set (request_lines e key). l \<noteq> [] \<and> 10 \<notin> set l" "\<forall>l \<in> set (response_lines key). l \<noteq> [] \<and> 10 \<notin> set l"
  using assms dec_not_mem [of 10 "ws_port e"] by (simp_all add: request_lines_def response_lines_def lit_def is_digit_def)

lemma request_key:
  assumes "10 \<notin> set (ws_path e)" "10 \<notin> set (ws_host e)" "\<forall>b \<in> set key. graphic b"
  shows "websocket_header_value (ws_request e key) (lit ''Sec-WebSocket-Key'') = Some key"
proof -
  have "10 \<notin> set key"
    using assms(3) by (auto simp: graphic_def)
  then have "str_lines (ws_request e key) = request_lines e key @ [[]]"
    unfolding request_is_lines using line_breaks(1) [OF assms(1,2)] by (intro str_lines_http) blast
  then show ?thesis
    unfolding websocket_header_value_def
    by (simp add: request_lines_def header_get header_lines trim_graphic(2) [OF assms(3)])
      (simp add: lit_def ascii_lower_def)
qed

lemma response_accept:
  assumes "\<forall>b \<in> set accept. graphic b"
  shows "websocket_header_value (ws_response accept) (lit ''Sec-WebSocket-Accept'') = Some accept"
proof -
  have "10 \<notin> set accept"
    using assms by (auto simp: graphic_def)
  then have "str_lines (ws_response accept) = response_lines accept @ [[]]"
    unfolding response_is_lines by (intro str_lines_http) (simp add: response_lines_def lit_def)
  then show ?thesis
    unfolding websocket_header_value_def
    by (simp add: response_lines_def header_status header_lines trim_graphic(2) [OF assms])
      (simp add: lit_def ascii_lower_def)
qed


section \<open>The handshake\<close>

text \<open>An address whose host and path are printable ASCII and fit into the 8192 bytes a peer reads.\<close>

definition ws_address_ok :: "ws_endpoint \<Rightarrow> bool" where
  "ws_address_ok e \<longleftrightarrow>
     (\<forall>b \<in> set (ws_path e) \<union> set (ws_host e). graphic b) \<and> length (ws_path e) + length (ws_host e) + length (dec (ws_port e)) \<le> 8000"

lemma graphic_no_newline: "\<forall>b \<in> set s. graphic b \<Longrightarrow> 10 \<notin> set s"
  by (auto simp: graphic_def)

lemma address_no_newline: "ws_address_ok e \<Longrightarrow> 10 \<notin> set (ws_path e) \<and> 10 \<notin> set (ws_host e)"
  using graphic_no_newline [of "ws_path e"] graphic_no_newline [of "ws_host e"] by (simp add: ws_address_ok_def)

lemma request_read:
  assumes "ws_address_ok e" "\<forall>b \<in> set key. graphic b" "length key \<le> 28" "io_in st = ws_request e key @ rest"
  shows "read_http_headers st = (Inr (ws_request e key), st\<lparr>io_in := rest\<rparr>)"
proof -
  have n: "10 \<notin> set (ws_path e)" "10 \<notin> set (ws_host e)" "10 \<notin> set key"
    using address_no_newline [OF assms(1)] graphic_no_newline [OF assms(2)] by simp_all
  have "b < 128" if "b \<in> set (dec n)" for b n
    using dec_digits [of n] that by (auto simp: list_all_iff is_digit_def word_less_nat_alt word_le_nat_alt)
  moreover have "b < 128" if "graphic b" for b
    using that by (auto simp: graphic_def word_less_nat_alt)
  ultimately have "utf8_valid (ws_request e key)"
    using assms(1,2) by (intro utf8_valid_ascii) (auto simp: ws_request_def ws_address_ok_def lit_def)
  moreover have "length (http_lines (request_lines e key)) + 2 \<le> 8192"
    using assms(1,3) by (simp add: request_lines_def ws_address_ok_def)
  ultimately show ?thesis
    using read_http_text [of "request_lines e key" st rest] line_breaks(1) [OF n] assms(4)
    unfolding request_is_lines by (simp add: request_lines_def)
qed

lemma response_read:
  assumes "\<forall>b \<in> set accept. graphic b" "length accept \<le> 28" "io_in st = ws_response accept @ rest"
  shows "read_http_headers st = (Inr (ws_response accept), st\<lparr>io_in := rest\<rparr>)"
proof -
  have "10 \<notin> set accept"
    using assms by (auto simp: graphic_def)
  then have "\<forall>l \<in> set (response_lines accept). l \<noteq> [] \<and> 10 \<notin> set l"
    by (simp add: response_lines_def lit_def)
  moreover have "b < 128" if "graphic b" for b
    using that by (auto simp: graphic_def word_less_nat_alt)
  then have "utf8_valid (ws_response accept)"
    using assms(1) by (intro utf8_valid_ascii) (auto simp: ws_response_def lit_def)
  moreover have "length (http_lines (response_lines accept)) + 2 \<le> 8192"
    using assms(2) by (simp add: response_lines_def)
  ultimately show ?thesis
    using read_http_text [of "response_lines accept" st rest] assms(3)
    unfolding response_is_lines by (simp add: response_lines_def)
qed

lemma accept_graphic:
  assumes "hash_laws H"
  shows "\<forall>b \<in> set (websocket_accept H key). graphic b" "length (websocket_accept H key) = 28"
  using assms base64_graphic by (auto simp: websocket_accept_def hash_laws_def)

lemma server_handshake_ok:
  assumes "ws_address_ok e" "\<forall>b \<in> set key. graphic b" "length key \<le> 28" "io_in st = ws_request e key @ rest"
  shows "websocket_server_handshake H st =
    (Inr (), st\<lparr>io_in := rest, io_out := io_out st @ ws_response (websocket_accept H key)\<rparr>)"
proof -
  have "10 \<notin> set (ws_path e)" "10 \<notin> set (ws_host e)"
    using address_no_newline [OF assms(1)] by simp_all
  moreover have "starts_with (lit ''GET '') (ws_request e key)"
    by (simp add: starts_with_def ws_request_def)
  ultimately show ?thesis
    using request_read [OF assms] request_key [OF _ _ assms(2), of e] by (simp add: websocket_server_handshake_def)
qed

lemma client_handshake_ok:
  assumes "hash_laws H" "io_in st = ws_response (websocket_accept H key) @ rest"
  shows "websocket_client_handshake H key st = (Inr (), st\<lparr>io_in := rest\<rparr>)"
proof -
  have "starts_with (lit ''HTTP/1.1 101'') (ws_response (websocket_accept H key))"
    by (simp add: starts_with_def ws_response_def lit_def)
  then show ?thesis
    using response_read [OF accept_graphic(1) [OF assms(1)] _ assms(2)] accept_graphic [OF assms(1), of key]
      response_accept [OF accept_graphic(1) [OF assms(1)], of key]
    by (simp add: websocket_client_handshake_def)
qed



section \<open>Messages\<close>

abbreviation frame_of :: "message \<Rightarrow> zmtp_frame" where
  "frame_of m \<equiv> \<lparr>fr_body = data m, fr_more = msg_more m, fr_command = False\<rparr>"

text \<open>Of a message, its payload and more flag go over the wire.\<close>

definition wire_message :: "message \<Rightarrow> message" where
  "wire_message m = set_more (msg_more m) (message_from_vec (data m))"

definition ws_text :: "bool \<Rightarrow> bytes \<Rightarrow> message \<Rightarrow> bytes" where
  "ws_text b e m =
     ws_frame_header (length (encode_v3 (frame_of m))) b
     @ (if b then take 4 e @ mask_bytes (take 4 e) (encode_v3 (frame_of m)) else encode_v3 (frame_of m))"

fun ws_texts :: "bool \<Rightarrow> bytes \<Rightarrow> message list \<Rightarrow> bytes" where
  "ws_texts b e [] = []"
| "ws_texts b e (m # ms) = ws_text b e m @ ws_texts b (if b then drop 4 e else e) ms"

lemma length_encode: "length (encode_v3 f) \<le> length (fr_body f) + 9"
  by (cases "length (fr_body f) \<le> 255") (simp_all add: encode_v3_def encode_frame_short encode_frame_long)

lemma update_ws_apply [simp]: "update_ws f n = (Inr (), n\<lparr>wn_ws := f (wn_ws n)\<rparr>)"
  by (simp add: update_ws_def)

lemma update_world_ws [simp]:
  "update_world g n = (Inr (), n\<lparr>tn_io := (tn_io n)\<lparr>io_world := g (io_world (tn_io n))\<rparr>\<rparr>)"
  by (simp add: update_world_def)

lemma try_simps [simp]: "try_result (Inr x) n = (Inr x, n)" "try_io (Inr y) n = (Inr y, n)"
  by (simp_all add: try_result_def try_io_def)

text \<open>A node that may send: a client at once, a server after its handshake.\<close>

definition ws_sending :: "bool \<Rightarrow> 'w ws_node \<Rightarrow> bool" where
  "ws_sending b n \<longleftrightarrow> wst_stream (wn_ws n) \<and> (wst_connected_endpoint (wn_ws n) \<noteq> None) = b \<and> (b \<or> wst_handshake_done (wn_ws n))"

lemma ensure_done: "wst_stream (wn_ws n) \<Longrightarrow> wst_handshake_done (wn_ws n) \<Longrightarrow> ensure_ws_ready H n = (Inr (), n)"
  by (simp add: ensure_ws_ready_def)

lemma ws_send_one:
  assumes "ws_sending b n" "b \<Longrightarrow> 4 \<le> length (io_entropy (tn_io n))"
  shows "send_ws_frame H m n = (Inr (), n\<lparr>tn_io := (tn_io n)\<lparr>io_out := io_out (tn_io n) @ ws_text b (io_entropy (tn_io n)) m,
      io_entropy := (if b then drop 4 (io_entropy (tn_io n)) else io_entropy (tn_io n))\<rparr>\<rparr>)"
proof -
  let ?e = "io_entropy (tn_io n)"
  have s: "wst_stream (wn_ws n)" "(wst_connected_endpoint (wn_ws n) \<noteq> None) = b"
    using assms(1) by (simp_all add: ws_sending_def)
  have r: "(if wst_connected_endpoint (wn_ws n) \<noteq> None \<and> \<not> wst_handshake_done (wn_ws n) then (if wst_stream (wn_ws n) then ret () else throw (Fail Again))
      else ensure_ws_ready H) n = (Inr (), n)"
    using assms(1) ensure_done [of n H] by (auto simp: ws_sending_def)
  have f: "with_entropy (websocket_binary_frame (encode_v3 (frame_of m)) b) (tn_io n) =
      (Inr (ws_text b ?e m), (tn_io n)\<lparr>io_entropy := (if b then drop 4 ?e else ?e)\<rparr>)"
    using ws_frame_ok [of b ?e "encode_v3 (frame_of m)"] assms(2) by (simp add: with_entropy_def ws_text_def)
  show ?thesis
    unfolding send_ws_frame_def Let_def using s r f by (simp add: on_io_def on_ws_stream_def)
qed

lemma ws_sends:
  assumes "ws_sending b n" "b \<Longrightarrow> 4 * length ms \<le> length (io_entropy (tn_io n))"
  shows "\<exists>e. for_each ms (send_ws_frame H) n =
    (Inr (), n\<lparr>tn_io := (tn_io n)\<lparr>io_out := io_out (tn_io n) @ ws_texts b (io_entropy (tn_io n)) ms, io_entropy := e\<rparr>\<rparr>)"
  using assms
proof (induction ms arbitrary: n)
  case Nil
  show ?case
    by (rule exI [of _ "io_entropy (tn_io n)"]) simp
next
  case (Cons m ms)
  define n1 where "n1 = n\<lparr>tn_io := (tn_io n)\<lparr>io_out := io_out (tn_io n) @ ws_text b (io_entropy (tn_io n)) m,
      io_entropy := (if b then drop 4 (io_entropy (tn_io n)) else io_entropy (tn_io n))\<rparr>\<rparr>"
  have 1: "send_ws_frame H m n = (Inr (), n1)"
    unfolding n1_def using Cons.prems by (intro ws_send_one) auto
  have "ws_sending b n1" "b \<Longrightarrow> 4 * length ms \<le> length (io_entropy (tn_io n1))"
    using Cons.prems by (simp_all add: n1_def ws_sending_def)
  from Cons.IH [OF this] obtain e where "for_each ms (send_ws_frame H) n1 =
      (Inr (), n1\<lparr>tn_io := (tn_io n1)\<lparr>io_out := io_out (tn_io n1) @ ws_texts b (io_entropy (tn_io n1)) ms, io_entropy := e\<rparr>\<rparr>)"
    by blast
  with 1 show ?case
    by (auto simp: n1_def)
qed

lemma ws_recv_one:
  assumes "wst_stream (wn_ws n)" "wst_handshake_done (wn_ws n)" "length (data m) < 2 ^ 60" "b \<Longrightarrow> 4 \<le> length e"
    and "io_in (tn_io n) = ws_text b e m @ rest"
  shows "recv_ws_frame H n = (Inr (wire_message m), n\<lparr>tn_io := (tn_io n)\<lparr>io_in := rest\<rparr>\<rparr>)"
proof -
  have "length (encode_v3 (frame_of m)) < 2 ^ 62"
    using length_encode [of "frame_of m"] assms(3) by simp
  from ws_frame_round_trip_raw [OF this, of b e _ _ "tn_io n" rest] ws_frame_ok [of b e "encode_v3 (frame_of m)"] assms(4,5)
  have "read_websocket_binary_frame (tn_io n) = (Inr (encode_v3 (frame_of m)), (tn_io n)\<lparr>io_in := rest\<rparr>)"
    by (simp add: ws_text_def)
  moreover have "decode_v3 (encode_v3 (frame_of m)) = Inr (frame_of m)"
    using decode_encode_frame [of "frame_of m" True] assms(3) by (simp add: decode_v3_def encode_v3_def)
  ultimately show ?thesis
    using assms(1,2) by (simp add: recv_ws_frame_def ensure_done on_ws_stream_def on_io_def wire_message_def)
qed

lemma ws_recvs:
  assumes "wst_stream (wn_ws n)" "wst_handshake_done (wn_ws n)" "\<forall>m \<in> set ms. length (data m) < 2 ^ 60" "b \<Longrightarrow> 4 * length ms \<le> length e"
    and "io_in (tn_io n) = ws_texts b e ms @ rest"
  shows "repeated (length ms) (recv_ws_frame H) n = (Inr (map wire_message ms), n\<lparr>tn_io := (tn_io n)\<lparr>io_in := rest\<rparr>\<rparr>)"
  using assms
proof (induction ms arbitrary: n e)
  case Nil
  then show ?case
    by auto
next
  case (Cons m ms)
  let ?e = "if b then drop 4 e else e"
  let ?n1 = "n\<lparr>tn_io := (tn_io n)\<lparr>io_in := ws_texts b ?e ms @ rest\<rparr>\<rparr>"
  have "recv_ws_frame H n = (Inr (wire_message m), ?n1)"
    using Cons.prems by (intro ws_recv_one [of n m b e]) auto
  moreover have "repeated (length ms) (recv_ws_frame H) ?n1 = (Inr (map wire_message ms), ?n1\<lparr>tn_io := (tn_io ?n1)\<lparr>io_in := rest\<rparr>\<rparr>)"
    using Cons.prems by (intro Cons.IH [of _ ?e]) auto
  ultimately show ?case
    by simp
qed



section \<open>The link\<close>

lemma connect_ws_ok:
  assumes "supports_stream_transport (sk_type (tn_socket s n))" "ws_parse ep = Inr e" "ws_connect_addr e = Inr addr"
    and "16 \<le> length (io_entropy (tn_io n))"
  obtains n' where "connect_ws H s ep (n\<lparr>tn_os := [Inr (arriving, x)]\<rparr>) = (Inr (), n')"
    "wn_ws n' = \<lparr>wst_listener = False, wst_stream = True, wst_bound_endpoint = None, wst_connected_endpoint = Some e,
       wst_handshake_done = False, wst_client_key = Some (hs_base64 H (take 16 (io_entropy (tn_io n))))\<rparr>"
    "io_in (tn_io n') = arriving" "io_out (tn_io n') = ws_request e (hs_base64 H (take 16 (io_entropy (tn_io n))))"
    "io_entropy (tn_io n') = drop 16 (io_entropy (tn_io n))"
  using assms
  by (simp add: connect_ws_def os_call_def configure_tcp_stream_def on_io_def with_entropy_def websocket_key_def fill_random_def bnd_apply)

lemma client_ensure_ok:
  assumes "wn_ws n = \<lparr>wst_listener = False, wst_stream = True, wst_bound_endpoint = None, wst_connected_endpoint = Some e,
       wst_handshake_done = False, wst_client_key = Some key\<rparr>"
    and "hash_laws H" "io_in (tn_io n) = ws_response (websocket_accept H key) @ rest"
  shows "ensure_ws_ready H n = (Inr (), n\<lparr>tn_io := (tn_io n)\<lparr>io_in := rest\<rparr>, wn_ws := (wn_ws n)\<lparr>wst_handshake_done := True\<rparr>\<rparr>)"
  using assms(1) client_handshake_ok [OF assms(2,3)] by (simp add: ensure_ws_ready_def on_ws_stream_def on_io_def)

lemma bind_ws_ok:
  assumes "supports_stream_transport (sk_type (tn_socket s n))" "ws_parse ep = Inr e'"
    and "ws_address_ok e" "\<forall>b \<in> set key. graphic b" "length key \<le> 28"
  obtains n1 n' where "bind_ws s ep (n\<lparr>tn_os := [Inr y, Inr (ws_request e key @ rest, x)]\<rparr>) = (Inr (), n1)"
    "ensure_ws_ready H n1 = (Inr (), n')" "wst_stream (wn_ws n')" "wst_handshake_done (wn_ws n')" "wst_connected_endpoint (wn_ws n') = None"
    "io_in (tn_io n') = rest" "io_out (tn_io n') = ws_response (websocket_accept H key)"
proof -
  define n1 where "n1 = snd (bind_ws s ep (n\<lparr>tn_os := [Inr y, Inr (ws_request e key @ rest, x)]\<rparr>))"
  have 1: "bind_ws s ep (n\<lparr>tn_os := [Inr y, Inr (ws_request e key @ rest, x)]\<rparr>) = (Inr (), n1)"
    "wn_ws n1 = \<lparr>wst_listener = True, wst_stream = False, wst_bound_endpoint = Some e', wst_connected_endpoint = None,
       wst_handshake_done = False, wst_client_key = None\<rparr>" "tn_os n1 = [Inr (ws_request e key @ rest, x)]"
    using assms(1,2) by (simp_all add: n1_def bind_ws_def os_call_def)
  define n2 where "n2 = snd (accept_ws n1)"
  have 2: "accept_ws n1 = (Inr (), n2)" "wn_ws n2 = (wn_ws n1)\<lparr>wst_stream := True\<rparr>"
    "io_in (tn_io n2) = ws_request e key @ rest" "io_out (tn_io n2) = []"
    using 1(3) by (simp_all add: n2_def accept_ws_def os_call_def configure_tcp_stream_def)
  have "ensure_ws_ready H n1 = (Inr (), n2\<lparr>tn_io := (tn_io n2)\<lparr>io_in := rest, io_out := ws_response (websocket_accept H key)\<rparr>,
      wn_ws := (wn_ws n2)\<lparr>wst_handshake_done := True\<rparr>\<rparr>)"
    using 1(2) 2 server_handshake_ok [OF assms(3-5) 2(3), of H] by (simp add: ensure_ws_ready_def on_ws_stream_def on_io_def)
  then show ?thesis
    by (rule that [OF 1(1)]) (simp_all add: 1(2) 2(2))
qed

lemma recvs_after_ensure:
  assumes "ensure_ws_ready H n = (Inr (), n1)" "wst_stream (wn_ws n1)" "wst_handshake_done (wn_ws n1)" "0 < k"
  shows "repeated k (recv_ws_frame H) n = repeated k (recv_ws_frame H) n1"
proof -
  have "recv_ws_frame H n = recv_ws_frame H n1"
    using assms(1) ensure_done [OF assms(2,3), of H] by (simp add: recv_ws_frame_def)
  then show ?thesis
    using assms(4) by (cases k) (simp_all add: bnd_def)
qed

definition ws_client_run :: "hashes \<Rightarrow> ref \<Rightarrow> bytes \<Rightarrow> message list \<Rightarrow> nat \<Rightarrow> ('w, message list) ws_op" where
  "ws_client_run H s ep ms k =
     bnd (connect_ws H s ep) (\<lambda>_. bnd (for_each ms (send_ws_frame H)) (\<lambda>_. repeated k (recv_ws_frame H)))"

definition ws_server_run :: "hashes \<Rightarrow> ref \<Rightarrow> bytes \<Rightarrow> nat \<Rightarrow> message list \<Rightarrow> ('w, message list) ws_op" where
  "ws_server_run H s ep k rs =
     bnd (bind_ws s ep) (\<lambda>_. bnd (repeated k (recv_ws_frame H)) (\<lambda>got. bnd (for_each rs (send_ws_frame H)) (\<lambda>_. ret got)))"

lemma ws_client_ok:
  fixes nc :: "'w ws_node"
  assumes "hash_laws H" "supports_stream_transport (sk_type (tn_socket s nc))" "ws_parse ep = Inr e" "ws_connect_addr e = Inr addr"
    and "16 + 4 * length ms \<le> length (io_entropy (tn_io nc))" "\<forall>m \<in> set rs. length (data m) < 2 ^ 60"
    and key_def: "key = hs_base64 H (take 16 (io_entropy (tn_io nc)))"
  obtains nc' where "ws_client_run H s ep ms (length rs) (nc\<lparr>tn_os := [Inr (ws_response (websocket_accept H key) @ ws_texts False [] rs, x)]\<rparr>) =
      (Inr (map wire_message rs), nc')" "io_out (tn_io nc') = ws_request e key @ ws_texts True (drop 16 (io_entropy (tn_io nc))) ms"
proof -
  let ?c = "ws_request e key @ ws_texts True (drop 16 (io_entropy (tn_io nc))) ms" and ?s = "ws_response (websocket_accept H key) @ ws_texts False [] rs"
  obtain n1 where n1: "connect_ws H s ep (nc\<lparr>tn_os := [Inr (?s, x)]\<rparr>) = (Inr (), n1)"
    "wn_ws n1 = \<lparr>wst_listener = False, wst_stream = True, wst_bound_endpoint = None, wst_connected_endpoint = Some e,
       wst_handshake_done = False, wst_client_key = Some key\<rparr>"
    "io_in (tn_io n1) = ?s" "io_out (tn_io n1) = ws_request e key" "io_entropy (tn_io n1) = drop 16 (io_entropy (tn_io nc))"
    unfolding key_def by (rule connect_ws_ok [OF assms(2-4)]) (use assms(5) in auto)
  have "ws_sending True n1" "4 * length ms \<le> length (io_entropy (tn_io n1))"
    using n1(2,5) assms(5) by (simp_all add: ws_sending_def)
  from ws_sends [OF this, of H] n1(4,5) obtain r where
    s1: "for_each ms (send_ws_frame H) n1 = (Inr (), n1\<lparr>tn_io := (tn_io n1)\<lparr>io_out := ?c, io_entropy := r\<rparr>\<rparr>)"
    by auto
  define n2 where "n2 = n1\<lparr>tn_io := (tn_io n1)\<lparr>io_out := ?c, io_entropy := r\<rparr>\<rparr>"
  define n3 where "n3 = n2\<lparr>tn_io := (tn_io n2)\<lparr>io_in := ws_texts False [] rs\<rparr>, wn_ws := (wn_ws n2)\<lparr>wst_handshake_done := True\<rparr>\<rparr>"
  have e: "ensure_ws_ready H n2 = (Inr (), n3)"
    unfolding n3_def by (rule client_ensure_ok [OF _ assms(1)]) (simp_all add: n2_def n1)
  have r: "repeated (length rs) (recv_ws_frame H) n3 = (Inr (map wire_message rs), n3\<lparr>tn_io := (tn_io n3)\<lparr>io_in := []\<rparr>\<rparr>)"
    by (rule ws_recvs [where b = False and e = "[]"]) (use assms(6) in \<open>simp_all add: n3_def n2_def n1(2)\<close>)
  have run: "ws_client_run H s ep ms (length rs) (nc\<lparr>tn_os := [Inr (?s, x)]\<rparr>) = repeated (length rs) (recv_ws_frame H) n2"
    using n1(1) s1 by (simp add: ws_client_run_def n2_def)
  show ?thesis
  proof (cases "rs = []")
    case True
    with run show ?thesis
      by (intro that [of n2]) (simp_all add: n2_def)
  next
    case False
    then have "repeated (length rs) (recv_ws_frame H) n2 = repeated (length rs) (recv_ws_frame H) n3"
      by (intro recvs_after_ensure [OF e]) (simp_all add: n3_def n2_def n1(2))
    with run r show ?thesis
      by (intro that [of "n3\<lparr>tn_io := (tn_io n3)\<lparr>io_in := []\<rparr>\<rparr>"]) (simp_all add: n3_def n2_def)
  qed
qed

lemma ws_server_ok:
  fixes ns :: "'v ws_node"
  assumes "supports_stream_transport (sk_type (tn_socket u ns))" "ws_parse ep = Inr e'"
    and "ws_address_ok e" "\<forall>b \<in> set key. graphic b" "length key \<le> 28"
    and "4 * length ms \<le> length entropy" "ms \<noteq> []" "\<forall>m \<in> set ms. length (data m) < 2 ^ 60"
  obtains ns' where "ws_server_run H u ep (length ms) rs (ns\<lparr>tn_os := [Inr y, Inr (ws_request e key @ ws_texts True entropy ms, z)]\<rparr>) =
      (Inr (map wire_message ms), ns')" "io_out (tn_io ns') = ws_response (websocket_accept H key) @ ws_texts False [] rs"
proof -
  obtain m1 m2 where m: "bind_ws u ep (ns\<lparr>tn_os := [Inr y, Inr (ws_request e key @ ws_texts True entropy ms, z)]\<rparr>) = (Inr (), m1)"
    "ensure_ws_ready H m1 = (Inr (), m2)" "wst_stream (wn_ws m2)" "wst_handshake_done (wn_ws m2)" "wst_connected_endpoint (wn_ws m2) = None"
    "io_in (tn_io m2) = ws_texts True entropy ms" "io_out (tn_io m2) = ws_response (websocket_accept H key)"
    by (rule bind_ws_ok [OF assms(1-5), of y "ws_texts True entropy ms" z H])
  have "repeated (length ms) (recv_ws_frame H) m1 = repeated (length ms) (recv_ws_frame H) m2"
    using assms(7) by (intro recvs_after_ensure [OF m(2-4)]) simp
  also have "\<dots> = (Inr (map wire_message ms), m2\<lparr>tn_io := (tn_io m2)\<lparr>io_in := []\<rparr>\<rparr>)"
    by (rule ws_recvs [where b = True and e = entropy]) (use assms(6,8) m in simp_all)
  finally have r1: "repeated (length ms) (recv_ws_frame H) m1 = (Inr (map wire_message ms), m2\<lparr>tn_io := (tn_io m2)\<lparr>io_in := []\<rparr>\<rparr>)" .
  have plain: "ws_texts False e1 rs = ws_texts False e2 rs" for e1 e2
    by (induction rs) (simp_all add: ws_text_def)
  have "ws_sending False (m2\<lparr>tn_io := (tn_io m2)\<lparr>io_in := []\<rparr>\<rparr>)"
    using m by (simp add: ws_sending_def)
  from ws_sends [OF this, of rs H] m(7) plain [of _ "[]"] obtain ns' where
    "for_each rs (send_ws_frame H) (m2\<lparr>tn_io := (tn_io m2)\<lparr>io_in := []\<rparr>\<rparr>) = (Inr (), ns')"
    "io_out (tn_io ns') = ws_response (websocket_accept H key) @ ws_texts False [] rs"
    by fastforce
  then show ?thesis
    using m(1) r1 by (intro that [of ns']) (simp_all add: ws_server_run_def)
qed

text \<open>
  C14. Messages cross a WebSocket in both directions. A client connects, sends a sequence of messages and
  then receives, a server binds, accepts, receives and then answers. There are two byte strings such
  that each side, fed the one, writes the other; both opening handshakes succeed, the server receives
  exactly the client's messages and the client exactly the server's, in order and with their payloads
  and more flags.
\<close>

theorem ws_link_delivers:
  fixes nc :: "'w ws_node" and ns :: "'v ws_node"
  assumes "hash_laws H" and "supports_stream_transport (sk_type (tn_socket s nc))" "supports_stream_transport (sk_type (tn_socket u ns))"
    and "ws_parse ep = Inr e" "ws_connect_addr e = Inr addr" "ws_address_ok e" "ws_parse ep' = Inr e'"
    and "16 + 4 * length ms \<le> length (io_entropy (tn_io nc))" and "ms \<noteq> []" "\<forall>m \<in> set ms \<union> set rs. length (data m) < 2 ^ 60"
  shows "\<exists>c2s s2c nc' ns'.
      ws_client_run H s ep ms (length rs) (nc\<lparr>tn_os := [Inr (s2c, x)]\<rparr>) = (Inr (map wire_message rs), nc') \<and> io_out (tn_io nc') = c2s
    \<and> ws_server_run H u ep' (length ms) rs (ns\<lparr>tn_os := [Inr y, Inr (c2s, z)]\<rparr>) = (Inr (map wire_message ms), ns') \<and> io_out (tn_io ns') = s2c"
proof -
  let ?e = "io_entropy (tn_io nc)"
  let ?key = "hs_base64 H (take 16 ?e)"
  have key: "\<forall>b \<in> set ?key. graphic b" "length ?key \<le> 28"
    using assms(1,8) base64_graphic by (auto simp: hash_laws_def)
  have l: "4 * length ms \<le> length (drop 16 ?e)" "\<forall>m \<in> set ms. length (data m) < 2 ^ 60" "\<forall>m \<in> set rs. length (data m) < 2 ^ 60"
    using assms(8,10) by auto
  obtain nc' where c: "ws_client_run H s ep ms (length rs) (nc\<lparr>tn_os := [Inr (ws_response (websocket_accept H ?key) @ ws_texts False [] rs, x)]\<rparr>) =
      (Inr (map wire_message rs), nc')" "io_out (tn_io nc') = ws_request e ?key @ ws_texts True (drop 16 ?e) ms"
    by (rule ws_client_ok [OF assms(1,2,4,5,8) l(3) refl])
  obtain ns' where "ws_server_run H u ep' (length ms) rs (ns\<lparr>tn_os := [Inr y, Inr (ws_request e ?key @ ws_texts True (drop 16 ?e) ms, z)]\<rparr>) =
      (Inr (map wire_message ms), ns')" "io_out (tn_io ns') = ws_response (websocket_accept H ?key) @ ws_texts False [] rs"
    by (rule ws_server_ok [OF assms(3,7,6) key l(1) assms(9) l(2)])
  with c show ?thesis
    by (intro exI conjI) simp_all
qed

definition hashes_example :: hashes where
  "hashes_example = \<lparr>hs_sha1 = (\<lambda>_. replicate 20 0), hs_base64 = (\<lambda>bs. replicate (4 * ((length bs + 2) div 3)) 65)\<rparr>"

lemma hashes_example_laws: "hash_laws hashes_example"
  by (simp add: hash_laws_def hashes_example_def base64_char_def)

definition ws_node_example :: "socket_type \<Rightarrow> bytes \<Rightarrow> unit ws_node" where
  "ws_node_example t entropy =
     \<lparr>tn_io = tn_io (node_example t security_options_default entropy), tn_os = [], tn_calls = [], wn_ws = ws_state_default\<rparr>"

lemma ws_address_example: "ws_parse (lit ''ws://a:80/'') = Inr \<lparr>ws_host = lit ''a'', ws_port = 80, ws_path = lit ''/''\<rparr>"
proof -
  have "dec 80 = lit ''80''"
    by (simp add: dec.simps digit_def lit_def)
  then have "split_host_port (lit ''a:80'') = Inr (lit ''a'', 80)"
    using split_host_port_print [of "lit ''a''" 80] by (simp add: lit_def)
  then show ?thesis
    by (simp add: ws_parse_def ws_parse_with_prefix_def strip_prefix_def starts_with_def lit_def)
qed

theorem ws_link_delivers_witness:
  "\<exists>c2s s2c nc' ns'.
      ws_client_run hashes_example 0 (lit ''ws://a:80/'') [message_from_vec [1, 2]] 1 ((ws_node_example Req (replicate 20 7))\<lparr>tn_os := [Inr (s2c, False)]\<rparr>) =
        (Inr [wire_message (message_from_vec [3])], nc') \<and> io_out (tn_io nc') = c2s
    \<and> ws_server_run hashes_example 0 (lit ''ws://a:80/'') 1 [message_from_vec [3]] ((ws_node_example Rep [])\<lparr>tn_os := [Inr ([], False), Inr (c2s, False)]\<rparr>) =
        (Inr [wire_message (message_from_vec [1, 2])], ns') \<and> io_out (tn_io ns') = s2c"
proof -
  let ?a = "\<lparr>ws_host = lit ''a'', ws_port = 80, ws_path = lit ''/''\<rparr>"
  have t: "sk_type (tn_socket 0 (ws_node_example x r)) = x" "io_entropy (tn_io (ws_node_example x r)) = r" for x r
    using node_example_socket [of x security_options_default r] by (simp_all add: ws_node_example_def) (simp add: node_example_def)
  have "length (dec 80) = 2"
    by (simp add: dec.simps)
  then have "ws_address_ok ?a"
    by (simp add: ws_address_ok_def graphic_def lit_def)
  moreover have "\<exists>addr. ws_connect_addr ?a = Inr addr"
    by (simp add: ws_connect_addr_def lit_def)
  ultimately show ?thesis
    using ws_link_delivers [OF hashes_example_laws _ _ ws_address_example _ _ ws_address_example, of "ws_node_example Req (replicate 20 7)" 0
        "ws_node_example Rep []" 0 _ "[message_from_vec [1, 2]]" "[message_from_vec [3]]" False "([], False)" False]
    by (auto simp: t supports_stream_transport_def)
qed

end
