(* ===== verification/Tcp_Failure.thy ===== *)
theory Tcp_Failure
  imports Tcp_Link
begin

text \<open>
  Connections that come and go: the states the TCP transport runs through whatever the operating
  system replies and the peer sends, and what a receive does when the stream has nothing to read.
\<close>

section \<open>An invariant of the transport\<close>

text \<open>
  Nothing of a connection outlives its stream but the rest of the notice that it has ended; before the
  handshake nothing has been exchanged; of what a STREAM socket receives at most one part is waiting;
  a listener has an address; a time for the next attempt is set only while there is an address to
  connect to and no stream.
\<close>

definition tcp_inv :: "tcp_state \<Rightarrow> bool" where
  "tcp_inv tcp \<longleftrightarrow>
     (\<not> tcp_stream tcp \<longrightarrow> \<not> tcp_handshake_started tcp \<and> \<not> tcp_raw_connect_notified tcp \<and> tcp_raw_send_routing_id tcp = None)
     \<and> (\<not> tcp_handshake_started tcp \<longrightarrow>
          \<not> tcp_peer_greeting_done tcp \<and> \<not> tcp_peer_ready tcp \<and> tcp_peer_identity tcp = None
          \<and> \<not> tcp_hello_sent tcp \<and> \<not> tcp_probe_router_sent tcp \<and> tcp_curve_session tcp = None)
     \<and> length (tcp_raw_recv_queue tcp) \<le> 1
     \<and> (\<not> tcp_stream tcp \<longrightarrow> tcp_raw_recv_queue tcp = [] \<or> tcp_raw_recv_queue tcp = [message_from_vec []])
     \<and> (tcp_listener tcp \<longleftrightarrow> tcp_bound_endpoint tcp \<noteq> None)
     \<and> (tcp_next_reconnect_at tcp \<noteq> None \<longrightarrow> \<not> tcp_stream tcp \<and> tcp_connected_endpoint tcp \<noteq> None)"

text \<open>The same with a stream, and with a stream on which the handshake has been made.\<close>

definition node_inv :: "'w tcp_node \<Rightarrow> bool" where
  "node_inv n \<longleftrightarrow> tcp_inv (tn_tcp n)"

definition held :: "'w tcp_node \<Rightarrow> bool" where
  "held n \<longleftrightarrow> tcp_inv (tn_tcp n) \<and> tcp_stream (tn_tcp n)"

definition live :: "'w tcp_node \<Rightarrow> bool" where
  "live n \<longleftrightarrow> tcp_inv (tn_tcp n) \<and> tcp_stream (tn_tcp n) \<and> tcp_handshake_started (tn_tcp n)"

text \<open>Nothing that was received is waiting, without and with a stream.\<close>

definition drained :: "'w tcp_node \<Rightarrow> bool" where
  "drained n \<longleftrightarrow> tcp_inv (tn_tcp n) \<and> tcp_raw_recv_queue (tn_tcp n) = []"

definition idle :: "'w tcp_node \<Rightarrow> bool" where
  "idle n \<longleftrightarrow> drained n \<and> tcp_stream (tn_tcp n)"

text \<open>From \<open>P\<close> the operation keeps the invariant in any case, and establishes \<open>Q\<close> when it succeeds.\<close>

definition leads :: "('w tcp_node \<Rightarrow> bool) \<Rightarrow> ('w, 'a) tcp_op \<Rightarrow> ('w tcp_node \<Rightarrow> bool) \<Rightarrow> bool" where
  "leads P m Q \<longleftrightarrow> (\<forall>n. P n \<longrightarrow> node_inv (snd (m n)) \<and> (\<forall>x. fst (m n) = Inr x \<longrightarrow> Q (snd (m n))))"

named_theorems leads_intros

lemma live_held: "live n \<Longrightarrow> held n" "held n \<Longrightarrow> node_inv n" "live n \<Longrightarrow> node_inv n" "idle n \<Longrightarrow> node_inv n" "drained n \<Longrightarrow> node_inv n"
  by (simp_all add: live_def held_def node_inv_def idle_def drained_def)

lemma leadsI: "(\<And>n. P n \<Longrightarrow> node_inv (snd (m n))) \<Longrightarrow> (\<And>n x. P n \<Longrightarrow> fst (m n) = Inr x \<Longrightarrow> Q (snd (m n))) \<Longrightarrow> leads P m Q"
  by (simp add: leads_def)

lemma leads_inv: "leads P m Q \<Longrightarrow> P n \<Longrightarrow> node_inv (snd (m n))"
  by (simp add: leads_def)

lemma leads_bnd: "leads P m Q \<Longrightarrow> (\<And>x. leads Q (f x) R) \<Longrightarrow> leads P (bnd m f) R"
  by (simp add: leads_def bnd_apply split: sum.split)

lemma leads_bnd_same [leads_intros]: "leads P m P \<Longrightarrow> (\<And>x. leads P (f x) R) \<Longrightarrow> leads P (bnd m f) R"
  by (rule leads_bnd)

lemma leads_cases [leads_intros]:
  "(c \<Longrightarrow> leads P a Q) \<Longrightarrow> (\<not> c \<Longrightarrow> leads P b Q) \<Longrightarrow> leads P (if c then a else b) Q"
  "(\<And>x. leads P (f x) Q) \<Longrightarrow> (\<And>y. leads P (g y) Q) \<Longrightarrow> leads P (case r of Inl x \<Rightarrow> f x | Inr y \<Rightarrow> g y) Q"
  "leads P h Q \<Longrightarrow> (\<And>z. leads P (k z) Q) \<Longrightarrow> leads P (case opt of None \<Rightarrow> h | Some z \<Rightarrow> k z) Q"
  "(\<And>u v. leads P (l u v) Q) \<Longrightarrow> leads P (case pair of (u, v) \<Rightarrow> l u v) Q"
  by (simp_all split: sum.split option.split prod.split)

lemma leads_same:
  assumes "\<And>n. tn_tcp (snd (m n)) = tn_tcp n"
  shows "leads node_inv m node_inv" "leads held m held" "leads live m live" "leads idle m idle"
  using assms by (simp_all add: leads_def node_inv_def held_def live_def idle_def drained_def)

lemma leads_weaken: "leads P m Q \<Longrightarrow> (\<And>n. P' n \<Longrightarrow> P n) \<Longrightarrow> (\<And>n. Q n \<Longrightarrow> Q' n) \<Longrightarrow> leads P' m Q'"
  by (simp add: leads_def)

lemma same_tcp:
  "tn_tcp (snd (update_world g n)) = tn_tcp n" "tn_tcp (snd (try_result r n)) = tn_tcp n" "tn_tcp (snd (try_io q n)) = tn_tcp n"
  "tn_tcp (snd (os_call c n)) = tn_tcp n" "tn_tcp (snd (configure_tcp_stream arrival n)) = tn_tcp n"
  "tn_tcp (snd (on_stream m n)) = tn_tcp n" "tn_tcp (snd (gets f n)) = tn_tcp n" "tn_tcp (snd (throw e n)) = tn_tcp n"
  "tn_tcp (snd (ret x n)) = tn_tcp n"
  by (auto simp: os_call_def configure_tcp_stream_def on_stream_def split: list.split prod.split)

lemmas leads_same_tcp [leads_intros] = same_tcp [THEN leads_same(1)] same_tcp [THEN leads_same(2)] same_tcp [THEN leads_same(3)]

lemma leads_update [leads_intros]:
  "(\<And>tcp. tcp_inv tcp \<Longrightarrow> tcp_inv (f tcp)) \<Longrightarrow> leads node_inv (update_tcp f) node_inv"
  "(\<And>tcp. tcp_inv tcp \<Longrightarrow> tcp_stream tcp \<Longrightarrow> tcp_inv (f tcp)) \<Longrightarrow> leads held (update_tcp f) node_inv"
  "(\<And>tcp. tcp_inv tcp \<Longrightarrow> tcp_stream tcp \<Longrightarrow> tcp_handshake_started tcp \<Longrightarrow>
      tcp_inv (g tcp) \<and> tcp_stream (g tcp) \<and> tcp_handshake_started (g tcp)) \<Longrightarrow> leads live (update_tcp g) live"
  by (simp_all add: leads_def node_inv_def held_def live_def)

lemma leads_throw [leads_intros]: "leads held (throw e) Q" "leads live (throw e) Q" "leads node_inv (throw e) Q"
  by (simp_all add: leads_def live_held)

lemma inv_new_peer [simp]:
  "tcp_inv (new_peer tcp) \<longleftrightarrow> (tcp_listener tcp \<longleftrightarrow> tcp_bound_endpoint tcp \<noteq> None)
     \<and> (tcp_next_reconnect_at tcp \<noteq> None \<longrightarrow> \<not> tcp_stream tcp \<and> tcp_connected_endpoint tcp \<noteq> None)"
  by (auto simp: tcp_inv_def new_peer_def)

lemma tcp_invD:
  "tcp_inv tcp \<Longrightarrow> tcp_listener tcp \<longleftrightarrow> tcp_bound_endpoint tcp \<noteq> None"
  "tcp_inv tcp \<Longrightarrow> tcp_next_reconnect_at tcp = Some x \<Longrightarrow> \<not> tcp_stream tcp \<and> tcp_connected_endpoint tcp \<noteq> None"
  by (simp_all add: tcp_inv_def)

lemma inv_reset [simp]: "tcp_inv tcp \<Longrightarrow> tcp_inv (reset_tcp_stream_state tcp)"
  by (auto simp: reset_tcp_stream_state_def tcp_inv_def new_peer_def)


section \<open>Every operation keeps it\<close>

lemma bind_tcp_inv: "leads node_inv (bind_tcp s ep) node_inv"
  unfolding bind_tcp_def by (intro leads_intros) (auto dest: tcp_invD)

lemma unbind_tcp_inv: "leads node_inv (unbind_tcp s ep) node_inv"
  unfolding unbind_tcp_def by (intro leads_intros) (auto dest: tcp_invD)

lemma connect_tcp_inv: "leads node_inv (connect_tcp s ep) node_inv"
  unfolding connect_tcp_def by (intro leads_intros) (auto dest: tcp_invD)

lemma disconnect_tcp_inv: "leads node_inv (disconnect_tcp s ep) node_inv"
  unfolding disconnect_tcp_def by (intro leads_intros) (auto dest: tcp_invD)

lemma ensure_tcp_stream_inv: "leads node_inv ensure_tcp_stream held"
  by (rule leadsI)
    (auto simp: ensure_tcp_stream_def reconnect_tcp_def accept_tcp_def os_call_def configure_tcp_stream_def node_inv_def held_def
      bnd_apply new_peer_def tcp_inv_def split: option.splits if_splits list.splits sum.splits prod.splits)

lemma start_handshake_inv: "leads held (start_handshake C k) live"
  by (rule leadsI)
    (auto simp: start_handshake_def on_stream_def node_inv_def held_def live_def bnd_apply tcp_inv_def
      split: if_splits sum.splits prod.splits)

lemma finish_handshake_inv: "leads live finish_handshake live"
  unfolding finish_handshake_def by (intro leads_intros) (auto simp: tcp_inv_def)

lemma write_tcp_message_inv [leads_intros]: "leads live (write_tcp_message C d has_more) live"
  unfolding write_tcp_message_def by (intro leads_intros) (auto simp: tcp_inv_def)

lemma hello_inv [leads_intros]: "leads live (send_tcp_hello_message C hello_msg) live"
  unfolding send_tcp_hello_message_def write_tcp_message_frame_def by (intro leads_intros) (auto simp: tcp_inv_def)

lemma probe_inv [leads_intros]: "leads live (send_tcp_probe_router C t probe) live"
  unfolding send_tcp_probe_router_def write_tcp_message_frame_def by (intro leads_intros) (auto simp: tcp_inv_def)

lemma send_raw_inv: "leads held (send_raw m) node_inv"
proof (rule leadsI)
  fix n :: "'a tcp_node"
  assume "held n"
  then show "node_inv (snd (send_raw m n))"
    by (auto simp: send_raw_def on_stream_def node_inv_def held_def bnd_apply tcp_inv_def reset_tcp_stream_state_def new_peer_def
        split: prod.split)
  then show "node_inv (snd (send_raw m n))" .
qed

text \<open>A receive of a STREAM socket takes a waiting part, or with nothing waiting puts two in and takes the first.\<close>

lemma pop_raw_inv: "node_inv n \<Longrightarrow> node_inv (snd (pop_raw n))"
  by (auto simp: pop_raw_def node_inv_def tcp_inv_def split: list.split)

lemma ensure_idle: "leads drained ensure_tcp_stream idle"
  by (rule leadsI)
    (auto simp: ensure_tcp_stream_def reconnect_tcp_def accept_tcp_def os_call_def configure_tcp_stream_def node_inv_def idle_def
      drained_def bnd_apply new_peer_def tcp_inv_def split: option.splits if_splits list.splits sum.splits prod.splits)

lemma put_and_take:
  assumes "tcp_raw_recv_queue (f (enqueue_tcp_stream_message d (tn_tcp n))) = tcp_raw_recv_queue (enqueue_tcp_stream_message d (tn_tcp n))"
    and "tcp_raw_recv_queue (tn_tcp n) = []"
  shows "tn_tcp (snd (bnd (update_tcp (\<lambda>tcp. f (enqueue_tcp_stream_message d tcp))) (\<lambda>_. pop_raw_or e) n)) =
    (f (enqueue_tcp_stream_message d (tn_tcp n)))\<lparr>tcp_raw_recv_queue := [message_from_vec d]\<rparr>"
  using assms by (simp add: pop_raw_or_def pop_raw_def enqueue_tcp_stream_message_def update_tcp_def bnd_apply)

lemma read_raw_message_inv: "leads idle (read_raw_message notify) node_inv"
proof (rule leadsI)
  fix n :: "'a tcp_node"
  assume h: "idle n"
  obtain r n1 where r: "on_stream read_raw_tcp n = (r, n1)"
    by (cases "on_stream read_raw_tcp n")
  then have n1: "idle n1"
    using h same_tcp(6) [of read_raw_tcp n] by (simp add: idle_def drained_def)
  have "node_inv (snd (bnd (update_tcp (enqueue_tcp_stream_message d)) (\<lambda>_. pop_raw_or e) n1))" for d e
    using n1 put_and_take [of "\<lambda>tcp. tcp" d n1 e] by (auto simp: node_inv_def idle_def drained_def tcp_inv_def enqueue_tcp_stream_message_def)
  moreover have "node_inv (snd (bnd (update_tcp (\<lambda>tcp. reset_tcp_stream_state_after_pending (enqueue_tcp_stream_message [] tcp)))
      (\<lambda>_. pop_raw_or e) n1))" for e
    using n1 put_and_take [of reset_tcp_stream_state_after_pending "[]" n1 e]
    by (auto simp: node_inv_def idle_def drained_def tcp_inv_def enqueue_tcp_stream_message_def reset_tcp_stream_state_after_pending_def new_peer_def)
  ultimately show "node_inv (snd (read_raw_message notify n))"
    using r live_held(4) [OF n1] by (auto simp: read_raw_message_def split: sum.split fault.split)
  then show "node_inv (snd (read_raw_message notify n))" .
qed

lemma connect_notice_inv:
  "leads idle (bnd (update_tcp (\<lambda>tcp. enqueue_tcp_stream_message [] (tcp\<lparr>tcp_raw_connect_notified := True\<rparr>))) (\<lambda>_. pop_raw_or Again)) node_inv"
  by (rule leadsI)
    (auto simp: idle_def drained_def node_inv_def tcp_inv_def update_tcp_def enqueue_tcp_stream_message_def pop_raw_or_def pop_raw_def bnd_apply)

lemma recv_raw_inv: "leads node_inv (recv_raw s) node_inv"
proof -
  have rest: "leads drained (bnd ensure_tcp_stream (\<lambda>_.
      bnd (gets (\<lambda>n. (opt_stream_notify (sk_options (tn_socket s n)), tcp_raw_connect_notified (tn_tcp n)))) (\<lambda>(notify, notified).
        if notify \<and> \<not> notified
        then bnd (update_tcp (\<lambda>tcp. enqueue_tcp_stream_message [] (tcp\<lparr>tcp_raw_connect_notified := True\<rparr>))) (\<lambda>_. pop_raw_or Again)
        else read_raw_message notify))) node_inv"
    by (rule leads_bnd [OF ensure_idle], rule leads_bnd_same [OF leads_same(4) [OF same_tcp(7)]], rule leads_cases(4),
        rule leads_cases(1), rule connect_notice_inv, rule read_raw_message_inv)
  show ?thesis
  proof (rule leadsI)
    fix n :: "'a tcp_node"
    assume n: "node_inv n"
    show "node_inv (snd (recv_raw s n))"
    proof (cases "tcp_raw_recv_queue (tn_tcp n)")
      case Nil
      then have "drained n"
        using n by (simp add: drained_def node_inv_def)
      then show ?thesis
        using leads_inv [OF rest, of n] Nil by (simp add: recv_raw_def pop_raw_def bnd_apply)
    next
      case (Cons m ms)
      then show ?thesis
        using pop_raw_inv [OF n] by (simp add: recv_raw_def pop_raw_def bnd_apply)
    qed
    then show "node_inv (snd (recv_raw s n))" .
  qed
qed

lemma disconnect_message_inv: "leads node_inv (tcp_disconnect_message_or_error os e) node_inv"
  unfolding tcp_disconnect_message_or_error_def Let_def by (intro leads_intros) auto

lemma or_disconnected_inv:
  assumes "\<And>x. leads live (f x) live"
  shows "leads live (or_disconnected os m f :: ('w, message) tcp_op) node_inv"
proof (rule leadsI)
  fix n :: "'w tcp_node"
  assume h: "live n"
  obtain r n1 where r: "on_stream m n = (r, n1)"
    by (cases "on_stream m n")
  then have n1: "live n1"
    using h same_tcp(6) [of m n] by (simp add: live_def)
  show "node_inv (snd (or_disconnected os m f n))"
    using r n1 live_held leads_inv [OF assms n1] leads_inv [OF disconnect_message_inv, of n1] h
    by (auto simp: or_disconnected_def split: sum.split fault.split)
  then show "node_inv (snd (or_disconnected os m f n))" .
qed

lemma read_tcp_message_inv: "leads live (read_tcp_message C os) node_inv"
  unfolding read_tcp_message_def by (intro leads_intros or_disconnected_inv) (auto simp: tcp_inv_def)

lemma send_tcp_frame_inv: "leads node_inv (send_tcp_frame C s m) node_inv"
proof -
  have "leads live (bnd (send_tcp_hello_message C h) (\<lambda>_. bnd (send_tcp_probe_router C t p) (\<lambda>_. write_tcp_message C d b))) live" for h t p d b
    by (intro leads_intros)
  then have a: "leads live (bnd (send_tcp_hello_message C h) (\<lambda>_. bnd (send_tcp_probe_router C t p) (\<lambda>_. write_tcp_message C d b))) node_inv" for h t p d b
    by (rule leads_weaken) (simp_all add: live_held)
  show ?thesis
    unfolding send_tcp_frame_def
    by (rule leads_bnd [OF ensure_tcp_stream_inv], rule leads_bnd_same [OF leads_same(2) [OF same_tcp(7)]], rule leads_cases(1),
        rule send_raw_inv, rule leads_bnd [OF start_handshake_inv a])
qed

lemma recv_tcp_frame_inv: "leads node_inv (recv_tcp_frame C s) node_inv"
proof -
  have a: "leads live (bnd finish_handshake (\<lambda>_. bnd (send_tcp_hello_message C h) (\<lambda>_. bnd (send_tcp_probe_router C t p) (\<lambda>_. read_tcp_message C os)))) node_inv"
    for h t p os
    by (intro leads_intros finish_handshake_inv read_tcp_message_inv)
  show ?thesis
    unfolding recv_tcp_frame_def
    by (rule leads_bnd_same [OF leads_same(1) [OF same_tcp(7)]], rule leads_cases(1), rule recv_raw_inv,
        rule leads_bnd [OF ensure_tcp_stream_inv], rule leads_bnd [OF start_handshake_inv a])
qed


section \<open>Runs\<close>

text \<open>
  A run of one socket's TCP transport: its operations in any order with any arguments, and between
  them whatever others do. Bytes arrive, the peer closes, time passes, the operating system decides
  its next replies, and the rest of the process changes the context and the options.
\<close>

inductive tcp_step :: "crypto \<Rightarrow> ref \<Rightarrow> 'w tcp_node \<Rightarrow> 'w tcp_node \<Rightarrow> bool" for C s where
  Bind: "tcp_step C s n (snd (bind_tcp s ep n))"
| Unbind: "tcp_step C s n (snd (unbind_tcp s ep n))"
| ConnectTo: "tcp_step C s n (snd (connect_tcp s ep n))"
| Disconnect: "tcp_step C s n (snd (disconnect_tcp s ep n))"
| Send: "tcp_step C s n (snd (send_tcp_frame C s m n))"
| Recv: "tcp_step C s n (snd (recv_tcp_frame C s n))"
| Arrive: "tcp_step C s n (n\<lparr>tn_io := (tn_io n)\<lparr>io_in := io_in (tn_io n) @ bs, io_closed := b\<rparr>\<rparr>)"
| Elapse: "tcp_step C s n (n\<lparr>tn_now := tn_now n + d\<rparr>)"
| Reply: "tcp_step C s n (n\<lparr>tn_os := replies\<rparr>)"
| Others: "tcp_step C s n (n\<lparr>tn_io := (tn_io n)\<lparr>io_world := w, io_entropy := r, io_others := os\<rparr>\<rparr>)"

inductive_cases tcp_stepE: "tcp_step C s n n'"

lemma tcp_step_inv: "tcp_step C s n n' \<Longrightarrow> node_inv n \<Longrightarrow> node_inv n'"
  by (induction rule: tcp_step.induct)
    (simp_all add: leads_inv [OF bind_tcp_inv] leads_inv [OF unbind_tcp_inv] leads_inv [OF connect_tcp_inv]
      leads_inv [OF disconnect_tcp_inv] leads_inv [OF send_tcp_frame_inv] leads_inv [OF recv_tcp_frame_inv], simp_all add: node_inv_def)

text \<open>
  C11. In every run of the TCP transport, whatever the operating system, the peer and the rest of the
  process do: without a stream nothing is left of an earlier connection but, at a STREAM socket, the
  empty second part of the notice that it has ended, so that the next stream starts with a handshake,
  without a CURVE session and with its hello message and router probe still to be sent; before the
  handshake nothing has been exchanged; at most one received part is waiting; and a time for the next
  connection attempt is set only while there is an address to connect to and no stream.
\<close>

theorem tcp_transport_invariant:
  assumes "(tcp_step C s)\<^sup>*\<^sup>* n n'" and "tn_tcp n = tcp_state_default"
  shows "tcp_inv (tn_tcp n')"
proof -
  have "node_inv n"
    using assms(2) by (simp add: node_inv_def tcp_inv_def tcp_state_default_def)
  with assms(1) have "node_inv n'"
    by (induction rule: rtranclp_induct) (auto intro: tcp_step_inv)
  then show ?thesis
    by (simp add: node_inv_def)
qed

theorem tcp_transport_invariant_witness:
  "tcp_inv (tn_tcp (snd (connect_tcp 0 (lit ''tcp://127.0.0.1:5555'') (node_example Req security_options_default []))))"
  by (rule tcp_transport_invariant [of plain_crypto 0 "node_example Req security_options_default []"], rule r_into_rtranclp, rule ConnectTo)
    (simp add: node_example_def)


section \<open>Nothing to read\<close>

lemma read_nothing:
  assumes "io_in st = []" "io_timeout st"
  shows "read_zmtp_frame st = (Inl (Fail (if io_closed st then InvalidSocket else Again)), st)"
    "read_zmtp_frame_body st = (Inl (Fail (if io_closed st then InvalidSocket else Again)), st)"
    "next_message_frame st = (Inl (Fail (if io_closed st then InvalidSocket else Again)), st)"
proof -
  have e: "read_exact 1 st = (Inl (Fail (if io_closed st then InvalidSocket else Again)), st)"
    using assms by (simp add: read_exact_def)
  then show "read_zmtp_frame st = (Inl (Fail (if io_closed st then InvalidSocket else Again)), st)"
    "read_zmtp_frame_body st = (Inl (Fail (if io_closed st then InvalidSocket else Again)), st)"
    by (simp_all add: read_zmtp_frame_def read_zmtp_frame_bytes_def read_zmtp_frame_body_def)
  then show "next_message_frame st = (Inl (Fail (if io_closed st then InvalidSocket else Again)), st)"
    by (simp add: next_message_frame.simps [of st])
qed

text \<open>
  C40. What a receive makes of a silent connection. On an established connection with nothing to read,
  when neither a disconnect nor a hiccup message is configured, the receive fails and changes nothing:
  after the peer has closed, the dead stream is kept, every later receive fails in the same way and
  the socket never connects or accepts again. When one is configured, it is delivered and the
  connection is given up, also when the peer is there and the read has only timed out.
\<close>

theorem tcp_silent_read:
  assumes "receiving s k n" and "io_in (tn_io n) = []" and "io_timeout (tn_io n)"
    and d: "d = (if opt_disconnect_msg (sk_options k) = [] then opt_hiccup_msg (sk_options k) else opt_disconnect_msg (sk_options k))"
  shows "recv_tcp_frame C s n =
    (if d = [] then (Inl (Fail (if io_closed (tn_io n) then InvalidSocket else Again)), n)
     else (Inr (message_from_vec d), n\<lparr>tn_tcp := reset_tcp_stream_state (tn_tcp n)\<rparr>))"
proof -
  have "tcp_stream (tn_tcp n)"
    using assms(1) by (simp add: receiving_def started_def)
  then have "read_tcp_message C (sk_options k) n =
      tcp_disconnect_message_or_error (sk_options k) (if io_closed (tn_io n) then InvalidSocket else Again) n"
    using read_nothing [OF assms(2,3)]
    by (cases "tcp_curve_session (tn_tcp n)") (simp_all add: read_tcp_message_def or_disconnected_def on_stream_def)
  then show ?thesis
    unfolding recv_ready [OF assms(1)] by (simp add: tcp_disconnect_message_or_error_def d)
qed

definition established_example :: "bool \<Rightarrow> unit tcp_node" where
  "established_example closed =
     (node_example Pull security_options_default [])
       \<lparr>tn_io := (tn_io (node_example Pull security_options_default []))\<lparr>io_closed := closed\<rparr>,
        tn_tcp := tcp_state_default\<lparr>tcp_stream := True, tcp_handshake_started := True, tcp_peer_greeting_done := True, tcp_peer_ready := True\<rparr>\<rparr>"

theorem tcp_silent_read_witness:
  "recv_tcp_frame plain_crypto 0 (established_example True) = (Inl (Fail InvalidSocket), established_example True)"
proof -
  have k: "tn_socket 0 (established_example True) = tn_socket 0 (node_example Pull security_options_default [])"
    by (simp add: established_example_def)
  have "receiving 0 (tn_socket 0 (established_example True)) (established_example True)"
    "io_in (tn_io (established_example True)) = []" "io_timeout (tn_io (established_example True))" "io_closed (tn_io (established_example True))"
    "opt_disconnect_msg (sk_options (tn_socket 0 (established_example True))) = []" "opt_hiccup_msg (sk_options (tn_socket 0 (established_example True))) = []"
    unfolding receiving_def started_def k node_example_socket
    by (simp_all add: hello_part_def probe_part_def socket_options_default_def established_example_def node_example_def)
  with tcp_silent_read [OF this(1-3) refl, of plain_crypto] show ?thesis
    by simp
qed

text \<open>The same for a STREAM socket: with \<open>ZMQ_STREAM_NOTIFY\<close>, which is on by default, a read timeout is
  reported as a disconnection, and the connection is dropped.\<close>

lemma stream_timeout_disconnects:
  assumes "sk_type (tn_socket s n) = Stream" "opt_stream_notify (sk_options (tn_socket s n))" "tcp_raw_recv_queue (tn_tcp n) = []"
    and "tcp_stream (tn_tcp n)" "tcp_raw_connect_notified (tn_tcp n)" "io_in (tn_io n) = []" "io_timeout (tn_io n)"
  obtains n' where "recv_tcp_frame C s n = (Inr (set_more True (message_from_vec tcp_stream_routing_id)), n')"
    "\<not> tcp_stream (tn_tcp n')" "tcp_raw_recv_queue (tn_tcp n') = [message_from_vec []]"
  using assms
  by (simp add: recv_tcp_frame_def recv_raw_def pop_raw_def ensure_has_stream read_raw_message_def on_stream_def read_raw_tcp_def
      pop_raw_or_def enqueue_tcp_stream_message_def reset_tcp_stream_state_after_pending_def new_peer_def)

end
