(* ===== verification/Receive_Loops.thy ===== *)
theory Receive_Loops
  imports Tcp_Failure WebSocket
begin

text \<open>
  The loops that read from a peer until something happens, against the same loops with a bound on their
  rounds: the receive loop that skips commands, the one that waits for READY and the one that collects
  the headers of a WebSocket handshake.
\<close>

section \<open>Frames take bytes\<close>

lemma read_body_len_in:
  assumes "read_body_len b st = (Inr n, st')"
  shows "length (io_in st') < length (io_in st)"
  using assms by (auto simp: read_body_len_def bnd_apply read_exact_def split: if_splits sum.splits)

lemma read_frame_two:
  assumes "read_zmtp_frame st = (Inr f, st')"
  shows "length (io_in st') + 2 \<le> length (io_in st)"
proof -
  obtain bs where b: "read_zmtp_frame_bytes st = (Inr bs, st')"
    using assms by (cases "read_zmtp_frame_bytes st"; cases "fst (read_zmtp_frame_bytes st)") (auto simp: read_zmtp_frame_def try_err_def)
  obtain flags st1 where 1: "read_exact 1 st = (Inr flags, st1)"
    using b by (cases "read_exact 1 st"; cases "fst (read_exact 1 st)") (auto simp: read_zmtp_frame_bytes_def)
  obtain n st2 where 2: "read_body_len (flags ! 0) st1 = (Inr n, st2)"
    using b 1 by (cases "read_body_len (flags ! 0) st1"; cases "fst (read_body_len (flags ! 0) st1)")
      (auto simp: read_zmtp_frame_bytes_def)
  have "st' = snd (read_exact n st2)"
    using b 1 2 by (auto simp: read_zmtp_frame_bytes_def Let_def bnd_apply split: if_splits sum.splits)
  then show ?thesis
    using read_exact_in [OF 1] read_body_len_in [OF 2] read_exact_shrinks [of n st2] by simp
qed


section \<open>The loops with a bound\<close>

text \<open>Reading frames until one is a command (\<open>want\<close>) or a message, at most \<open>n\<close> of them.\<close>

fun skip_frames :: "bool \<Rightarrow> nat \<Rightarrow> 'w io \<Rightarrow> ((fault + zmtp_frame) \<times> 'w io) option" where
  "skip_frames want 0 st = None"
| "skip_frames want (Suc n) st =
     (case read_zmtp_frame st of
        (Inl e, st1) \<Rightarrow> Some (Inl e, st1)
      | (Inr f, st1) \<Rightarrow> if fr_command f = want then Some (Inr f, st1) else skip_frames want n st1)"

text \<open>What the wait for READY does with the command it has found.\<close>

definition take_ready :: "(fault + zmtp_frame) \<times> 'w io \<Rightarrow> (fault + zmtp_metadata) \<times> 'w io" where
  "take_ready r = (case r of (Inl e, st) \<Rightarrow> (Inl e, st) | (Inr f, st) \<Rightarrow> try_err (decode_ready (fr_body f)) st)"

lemma skip_to_message: "length (io_in st) div 2 < n \<Longrightarrow> skip_frames False n st = Some (next_message_frame st)"
proof (induction n arbitrary: st)
  case (Suc n)
  obtain r st1 where r: "read_zmtp_frame st = (r, st1)"
    by fastforce
  show ?case
  proof (cases r)
    case (Inr f)
    with r read_frame_two [of st f st1] Suc.prems have "length (io_in st1) div 2 < n"
      by auto
    with Suc.IH r Inr show ?thesis
      by (simp add: next_message_frame.simps [of st])
  qed (simp add: r next_message_frame.simps [of st])
qed simp

lemma skip_to_command: "length (io_in st) div 2 < n \<Longrightarrow> \<exists>r. skip_frames True n st = Some r \<and> read_zmtp_peer_ready st = take_ready r"
proof (induction n arbitrary: st)
  case (Suc n)
  obtain r st1 where r: "read_zmtp_frame st = (r, st1)"
    by fastforce
  show ?case
  proof (cases r)
    case (Inr f)
    with r read_frame_two [of st f st1] Suc.prems have "length (io_in st1) div 2 < n"
      by auto
    with Suc.IH r Inr show ?thesis
      by (simp add: read_zmtp_peer_ready.simps [of st] take_ready_def)
  qed (simp add: r read_zmtp_peer_ready.simps [of st] take_ready_def)
qed simp

lemma http_loop_bound:
  "length bs \<le> 8192 \<Longrightarrow> length (io_in st) \<le> length (io_in (snd (read_http_loop bs st))) + (8192 - length bs)"
proof (induction bs st rule: read_http_loop.induct)
  case (1 bs st)
  obtain r st1 where r: "read_exact 1 st = (r, st1)"
    by fastforce
  show ?case
  proof (cases "length bs < 8192")
    case True
    show ?thesis
    proof (cases r)
      case (Inl e)
      then have "length (io_in st) \<le> length (io_in st1) + 1"
        using r by (auto simp: read_exact_def split: if_splits)
      with Inl True r show ?thesis
        by (simp add: read_http_loop.simps [of bs st])
    next
      case (Inr b)
      then have s: "length (io_in st) = length (io_in st1) + 1"
        using r read_exact_in [of 1 st b st1] by simp
      show ?thesis
      proof (cases "ends_with (CRLF @ CRLF) (bs @ [b ! 0])")
        case False
        then have "length (io_in st1) \<le> length (io_in (snd (read_http_loop (bs @ [b ! 0]) st1))) + (8192 - length (bs @ [b ! 0]))"
          using 1(1) [OF True r [symmetric] Inr False] True by simp
        with False s r Inr True show ?thesis
          by (simp add: read_http_loop.simps [of bs st])
      qed (use s r Inr True in \<open>simp add: read_http_loop.simps [of bs st]\<close>)
    qed
  qed (simp add: read_http_loop.simps [of bs st])
qed

text \<open>
  C16. The receive loops end. On any stream, whatever bytes the peer has sent, the loop that skips commands and the
  one that waits for READY come to their result within one round for every two bytes of input and one more:
  the loop bounded by that number of rounds returns, and what it returns is the result of the unbounded one.
  Collecting the headers of a WebSocket handshake takes at most 8192 bytes, also from a peer that never
  ends them.
\<close>

theorem receive_loops_end:
  fixes st :: "'w io"
  shows "skip_frames False (Suc (length (io_in st) div 2)) st = Some (next_message_frame st)
    \<and> (\<exists>r. skip_frames True (Suc (length (io_in st) div 2)) st = Some r \<and> read_zmtp_peer_ready st = take_ready r)
    \<and> length (io_in st) \<le> length (io_in (snd (read_http_headers st))) + 8192"
  using skip_to_message [of st] skip_to_command [of st] http_loop_bound [of "[]" st] by (simp add: read_http_headers_def del: skip_frames.simps)

end
