(* ===== verification/Ipc.thy ===== *)
theory Ipc
  imports Tcp
begin

text \<open>
  The IPC transport of a socket in \<open>crates/libzmq-core/src/socket.rs\<close>: streams over a path of the file system.
  The handshake and the reading of frames repeat the code for TCP with another type of stream (the
  functions \<open>*_ipc\<close>), and so do the definitions here. As there, the operating system enters as replies; the
  file that \<open>unbind\<close> removes has no part in the model.
\<close>

unbundle bit_operations_syntax

section \<open>Frames and greetings\<close>

definition read_zmtp_frame_bytes_ipc :: "('w io, fault, bytes) comp" where
  "read_zmtp_frame_bytes_ipc =
     bnd (read_exact 1) (\<lambda>flags.
     bnd (read_body_len (flags ! 0)) (\<lambda>body_len.
       let long = (flags ! 0 AND 2 \<noteq> 0);
           header = (if long then flags @ to_be 8 body_len else flags @ [word_of_nat body_len])
       in if length header + body_len > ISIZE_MAX then throw Panic
          else bnd (read_exact body_len) (\<lambda>body. ret (header @ body))))"

definition read_zmtp_frame_ipc :: "('w io, fault, zmtp_frame) comp" where
  "read_zmtp_frame_ipc = bnd read_zmtp_frame_bytes_ipc (\<lambda>encoded. try_err (decode_v3 encoded))"

definition read_zmtp_frame_body_ipc :: "('w io, fault, bytes) comp" where
  "read_zmtp_frame_body_ipc =
     bnd (read_exact 1) (\<lambda>flags.
     bnd (read_body_len (flags ! 0)) (\<lambda>body_len.
       if body_len > ISIZE_MAX then throw Panic else read_exact body_len))"

definition read_zmtp_greeting_ipc :: "('w io, fault, unit) comp" where
  "read_zmtp_greeting_ipc = bnd (read_exact 64) (\<lambda>g. try_err (map_ok (\<lambda>_. ()) (greeting_decode g)))"

definition read_zmtp_greeting_tail_ipc :: "('w io, fault, unit) comp" where
  "read_zmtp_greeting_tail_ipc = bnd (read_exact 54) (\<lambda>_. ret ())"

definition read_zmtp_peer_greeting_prefix_ipc :: "('w io, fault, bool) comp" where
  "read_zmtp_peer_greeting_prefix_ipc =
     bnd (read_exact 10) (\<lambda>p.
       if p ! 0 = 0xFF \<and> p ! 9 = 0x7F then ret True
       else if p ! 0 = 3 \<and> slice 2 6 p = lit ''NULL'' then ret True
       else throw (Fail InvalidArgument))"

text \<open>Unlike its TCP counterpart, a read of raw bytes reports a closed stream as \<open>Again\<close>.\<close>

definition read_raw_ipc :: "('w io, fault, bytes) comp" where
  "read_raw_ipc st =
     (if io_in st = []
      then (Inl (if io_closed st \<or> io_timeout st then Fail Again else Blocked), st)
      else (Inr (take 8192 (io_in st)), st\<lparr>io_in := drop 8192 (io_in st)\<rparr>))"


section \<open>Handshakes\<close>

definition write_plain_handshake_ipc ::
  "socket_type \<Rightarrow> bool \<Rightarrow> security_options \<Rightarrow> bytes \<Rightarrow> ('w io, fault, handshake_result) comp" where
  "write_plain_handshake_ipc t as_server sec routing_id =
     (if as_server then
        bnd read_zmtp_frame_ipc (\<lambda>f1.
        bnd (try_err (parse_plain_hello f1)) (\<lambda>credentials.
        bnd (authorize_peer sec (lit ''PLAIN'') [pc_username credentials, pc_password credentials]
               (authorize_plain sec credentials)) (\<lambda>_.
        bnd (write_command (command_body (lit ''WELCOME'') [])) (\<lambda>_.
        bnd read_zmtp_frame_ipc (\<lambda>f2.
        bnd (try_err (parse_plain_initiate f2)) (\<lambda>peer_metadata.
        bnd (write_command (ready_command_body_with_identity t routing_id)) (\<lambda>_.
          ret (handshake_done (peer_identity_of peer_metadata) None))))))))
      else
        bnd (write_command (plain_hello_body sec)) (\<lambda>_.
        bnd read_zmtp_frame_ipc (\<lambda>f1.
        bnd (try_err (expect_command f1 (lit ''WELCOME''))) (\<lambda>_.
        bnd (write_command (plain_initiate_body t routing_id)) (\<lambda>_.
          ret \<lparr>hr_peer_greeting_done = False, hr_peer_ready = False, hr_peer_identity = None,
               hr_curve_session = None\<rparr>)))))"

definition write_curve_handshake_ipc ::
  "crypto \<Rightarrow> socket_type \<Rightarrow> bool \<Rightarrow> security_options \<Rightarrow> bytes \<Rightarrow> ('w io, fault, handshake_result) comp" where
  "write_curve_handshake_ipc C t as_server sec routing_id =
     (if as_server then
        bnd read_zmtp_frame_ipc (\<lambda>f1.
        bnd (with_entropy (parse_curve_hello C sec f1)) (\<lambda>hello.
        bnd (with_entropy (curve_welcome_body C sec hello)) (\<lambda>welcome.
        bnd (write_command welcome) (\<lambda>_.
        bnd read_zmtp_frame_ipc (\<lambda>f2.
          case parse_curve_initiate C f2 hello of
            (Inl e, _) \<Rightarrow> throw (Fail e)
          | (Inr initiate, hello1) \<Rightarrow>
              bnd (authorize_peer sec (lit ''CURVE'') [ci_client_public_key initiate]
                     (authorize_curve sec (ci_client_public_key initiate))) (\<lambda>_.
                case curve_ready_body C t routing_id (server_session hello1) of
                  (Inl e, _) \<Rightarrow> throw (Fail e)
                | (Inr ready, session) \<Rightarrow>
                    bnd (write_command ready) (\<lambda>_.
                      ret (handshake_done (peer_identity_of (ci_metadata initiate)) (Some session)))))))))
      else
        bnd (with_entropy (curve_client_new C sec)) (\<lambda>client.
          case hello_body C client of
            (Inl e, _) \<Rightarrow> throw (Fail e)
          | (Inr hello, client1) \<Rightarrow>
              bnd (write_command hello) (\<lambda>_.
              bnd read_zmtp_frame_ipc (\<lambda>f1.
                case process_welcome C f1 client1 of
                  (Inl e, _) \<Rightarrow> throw (Fail e)
                | (Inr _, client2) \<Rightarrow>
                    bnd (with_entropy (\<lambda>r. case initiate_body C t routing_id (client2, r) of
                                             (Inl e, (_, r1)) \<Rightarrow> (Inl e, r1) | (Inr b, (c, r1)) \<Rightarrow> (Inr (b, c), r1)))
                      (\<lambda>(initiate, client3).
                    bnd (write_command initiate) (\<lambda>_.
                    bnd read_zmtp_frame_ipc (\<lambda>f2.
                      case process_ready C f2 client3 of
                        (Inl e, _) \<Rightarrow> throw (Fail e)
                      | (Inr peer_metadata, client4) \<Rightarrow>
                          bnd (try_err (client_session client4)) (\<lambda>session.
                            ret (handshake_done (peer_identity_of peer_metadata) (Some session))))))))))"

definition write_gssapi_handshake_ipc ::
  "socket_type \<Rightarrow> bool \<Rightarrow> security_options \<Rightarrow> bytes \<Rightarrow> ('w io, fault, handshake_result) comp" where
  "write_gssapi_handshake_ipc t as_server sec routing_id = write_placeholder_gssapi_handshake t as_server sec routing_id"

definition mechanism_handshake_ipc ::
  "crypto \<Rightarrow> socket_type \<Rightarrow> bool \<Rightarrow> security_options \<Rightarrow> bytes \<Rightarrow> ('w io, fault, handshake_result) comp" where
  "mechanism_handshake_ipc C t as_server sec routing_id =
     (if mechanism sec = ZMQ_PLAIN then write_plain_handshake_ipc t as_server sec routing_id
      else if mechanism sec = ZMQ_CURVE then write_curve_handshake_ipc C t as_server sec routing_id
      else if mechanism sec = ZMQ_GSSAPI then write_gssapi_handshake_ipc t as_server sec routing_id
      else bnd (write_command (ready_command_body_with_identity t routing_id)) (\<lambda>_.
             ret \<lparr>hr_peer_greeting_done = False, hr_peer_ready = False, hr_peer_identity = None,
                  hr_curve_session = None\<rparr>))"

definition write_zmtp_handshake_ipc ::
  "crypto \<Rightarrow> socket_type \<Rightarrow> bool \<Rightarrow> security_options \<Rightarrow> bytes \<Rightarrow> ('w io, fault, handshake_result) comp" where
  "write_zmtp_handshake_ipc C t as_server sec routing_id =
     (let greeting = greeting_encode (greeting_new (mechanism_name sec) as_server)
      in bnd (if as_server then set_read_timeout False else ret ()) (\<lambda>_.
         bnd (write_all (take 10 greeting)) (\<lambda>_.
         bnd (or_again read_zmtp_peer_greeting_prefix_ipc) (\<lambda>peer_prefix_done.
         bnd (write_all (drop 10 greeting)) (\<lambda>_.
         bnd (if peer_prefix_done then read_zmtp_greeting_tail_ipc else ret ()) (\<lambda>_.
         bnd (mechanism_handshake_ipc C t as_server sec routing_id) (\<lambda>h.
         bnd (if as_server then set_read_timeout True else ret ()) (\<lambda>_.
           ret (h\<lparr>hr_peer_greeting_done := peer_prefix_done\<rparr>)))))))))"

text \<open>The functions are those for TCP.\<close>

lemma ipc_reads:
  "read_zmtp_frame_bytes_ipc = read_zmtp_frame_bytes" "read_zmtp_frame_ipc = read_zmtp_frame"
  "read_zmtp_frame_body_ipc = read_zmtp_frame_body" "read_zmtp_greeting_ipc = read_zmtp_greeting"
  "read_zmtp_greeting_tail_ipc = read_zmtp_greeting_tail" "read_zmtp_peer_greeting_prefix_ipc = read_zmtp_peer_greeting_prefix"
  unfolding read_zmtp_frame_bytes_ipc_def read_zmtp_frame_bytes_def read_zmtp_frame_ipc_def read_zmtp_frame_def
    read_zmtp_frame_body_ipc_def read_zmtp_frame_body_def read_zmtp_greeting_ipc_def read_zmtp_greeting_def
    read_zmtp_greeting_tail_ipc_def read_zmtp_greeting_tail_def read_zmtp_peer_greeting_prefix_ipc_def read_zmtp_peer_greeting_prefix_def
  by (rule refl)+

lemma ipc_handshake: "write_zmtp_handshake_ipc = write_zmtp_handshake"
  unfolding fun_eq_iff write_zmtp_handshake_ipc_def write_zmtp_handshake_def mechanism_handshake_ipc_def mechanism_handshake_def
    write_plain_handshake_ipc_def write_plain_handshake_def write_curve_handshake_ipc_def write_curve_handshake_def
    write_gssapi_handshake_ipc_def ipc_reads
  by (intro allI refl)

function read_zmtp_peer_ready_ipc :: "('w io, fault, zmtp_metadata) comp" where
  "read_zmtp_peer_ready_ipc st =
     (case read_zmtp_frame_ipc st of
        (Inl e, st1) \<Rightarrow> (Inl e, st1)
      | (Inr f, st1) \<Rightarrow>
          if fr_command f then try_err (decode_ready (fr_body f)) st1 else read_zmtp_peer_ready_ipc st1)"
  by pat_completeness auto
termination
  by (relation "measure (\<lambda>st. length (io_in st))") (auto simp: ipc_reads dest: read_frame_shrinks [OF sym])

declare read_zmtp_peer_ready_ipc.simps [simp del]

lemma ipc_peer_ready: "read_zmtp_peer_ready_ipc st = read_zmtp_peer_ready st"
proof (induction st rule: read_zmtp_peer_ready.induct)
  case (1 st)
  then show ?case
    by (auto simp: read_zmtp_peer_ready_ipc.simps [of st] read_zmtp_peer_ready.simps [of st] ipc_reads split: prod.split sum.split)
qed


section \<open>State\<close>

record ipc_state =
  ipc_listener :: bool
  ipc_stream :: bool
  ipc_bound_endpoint :: "ipc_endpoint option"
  ipc_connected_endpoint :: "ipc_endpoint option"
  ipc_handshake_started :: bool
  ipc_peer_greeting_done :: bool
  ipc_peer_ready :: bool
  ipc_peer_identity :: "bytes option"
  ipc_hello_sent :: bool
  ipc_probe_router_sent :: bool
  ipc_curve_session :: "curve_session option"

definition ipc_state_default :: ipc_state where
  "ipc_state_default =
     \<lparr>ipc_listener = False, ipc_stream = False, ipc_bound_endpoint = None, ipc_connected_endpoint = None,
      ipc_handshake_started = False, ipc_peer_greeting_done = False, ipc_peer_ready = False, ipc_peer_identity = None,
      ipc_hello_sent = False, ipc_probe_router_sent = False, ipc_curve_session = None\<rparr>"

record 'w ipc_node = "'w os_node" +
  in_ipc :: ipc_state

type_synonym ('w, 'a) ipc_op = "('w ipc_node, fault, 'a) comp"

definition update_ipc :: "(ipc_state \<Rightarrow> ipc_state) \<Rightarrow> ('w, unit) ipc_op" where
  "update_ipc f = modify (\<lambda>n. n\<lparr>in_ipc := f (in_ipc n)\<rparr>)"

definition on_ipc_stream :: "('w io, fault, 'a) comp \<Rightarrow> ('w, 'a) ipc_op" where
  "on_ipc_stream m n =
     (if ipc_stream (in_ipc n) then (case m (tn_io n) of (r, st) \<Rightarrow> (r, n\<lparr>tn_io := st\<rparr>))
      else (Inl (Fail Again), n))"

definition configure_ipc_stream :: "bytes \<times> bool \<Rightarrow> (('w, 'z) os_node_scheme, fault, unit) comp" where
  "configure_ipc_stream arrival =
     modify (\<lambda>n. n\<lparr>tn_io := (tn_io n)\<lparr>io_in := fst arrival, io_out := [], io_closed := snd arrival, io_timeout := True\<rparr>\<rparr>)"


section \<open>Binding and connecting\<close>

definition new_ipc_peer :: "ipc_state \<Rightarrow> ipc_state" where
  "new_ipc_peer ipc =
     ipc\<lparr>ipc_handshake_started := False, ipc_peer_greeting_done := False, ipc_peer_ready := False, ipc_peer_identity := None,
         ipc_hello_sent := False, ipc_probe_router_sent := False, ipc_curve_session := None\<rparr>"

definition bind_ipc :: "ref \<Rightarrow> bytes \<Rightarrow> ('w, unit) ipc_op" where
  "bind_ipc s endpoint =
     bnd (gets (\<lambda>n. sk_type (tn_socket s n))) (\<lambda>t.
       if \<not> supports_stream_transport t then throw (Fail NotSupported)
       else
         bnd (try_result (ipc_parse endpoint)) (\<lambda>parsed.
         bnd (os_call (Listen (ipc_path parsed))) (\<lambda>reply.
         bnd (try_io reply) (\<lambda>_.
         bnd (update_ipc (\<lambda>ipc. new_ipc_peer (ipc\<lparr>ipc_listener := True, ipc_bound_endpoint := Some parsed\<rparr>))) (\<lambda>_.
           update_world (\<lambda>w. set_last_endpoint s endpoint (emit_monitor_event s ZMQ_EVENT_LISTENING 0 endpoint w)))))))"

definition unbind_ipc :: "ref \<Rightarrow> bytes \<Rightarrow> ('w, unit) ipc_op" where
  "unbind_ipc s endpoint =
     bnd (try_result (ipc_parse endpoint)) (\<lambda>parsed.
     bnd (gets (\<lambda>n. ipc_bound_endpoint (in_ipc n))) (\<lambda>bound.
       if bound \<noteq> Some parsed then throw (Fail InvalidArgument)
       else
         bnd (update_ipc (\<lambda>ipc. new_ipc_peer (ipc\<lparr>ipc_listener := False, ipc_stream := False, ipc_bound_endpoint := None\<rparr>))) (\<lambda>_.
           update_world (emit_monitor_event s ZMQ_EVENT_CLOSED 0 endpoint))))"

definition connect_ipc :: "ref \<Rightarrow> bytes \<Rightarrow> ('w, unit) ipc_op" where
  "connect_ipc s endpoint =
     bnd (gets (\<lambda>n. sk_type (tn_socket s n))) (\<lambda>t.
       if \<not> supports_stream_transport t then throw (Fail NotSupported)
       else
         bnd (try_result (ipc_parse endpoint)) (\<lambda>parsed.
         bnd (os_call (Connect (ipc_path parsed))) (\<lambda>reply.
         bnd (try_io reply) (\<lambda>arrival.
         bnd (configure_ipc_stream arrival) (\<lambda>_.
         bnd (update_ipc (\<lambda>ipc. new_ipc_peer (ipc\<lparr>ipc_stream := True, ipc_connected_endpoint := Some parsed\<rparr>))) (\<lambda>_.
           update_world (\<lambda>w. set_last_endpoint s endpoint (emit_monitor_event s ZMQ_EVENT_CONNECTED 0 endpoint w))))))))"

text \<open>Disconnecting leaves the identity of the peer and the marks of what was sent; no stream is left that reads them.\<close>

definition disconnect_ipc :: "ref \<Rightarrow> bytes \<Rightarrow> ('w, unit) ipc_op" where
  "disconnect_ipc s endpoint =
     bnd (try_result (ipc_parse endpoint)) (\<lambda>parsed.
     bnd (gets (\<lambda>n. ipc_connected_endpoint (in_ipc n))) (\<lambda>connected.
       if connected \<noteq> Some parsed then throw (Fail InvalidArgument)
       else
         bnd (update_ipc (\<lambda>ipc. ipc\<lparr>ipc_stream := False, ipc_connected_endpoint := None, ipc_handshake_started := False,
                ipc_peer_greeting_done := False, ipc_peer_ready := False, ipc_curve_session := None\<rparr>)) (\<lambda>_.
           update_world (emit_monitor_event s ZMQ_EVENT_DISCONNECTED 0 endpoint))))"

definition has_ipc_transport :: "ipc_state \<Rightarrow> bool" where
  "has_ipc_transport ipc \<longleftrightarrow> ipc_stream ipc \<or> ipc_listener ipc"

definition ensure_ipc_stream :: "('w, unit) ipc_op" where
  "ensure_ipc_stream =
     bnd (gets in_ipc) (\<lambda>ipc.
       if ipc_stream ipc then ret ()
       else if \<not> ipc_listener ipc then throw (Fail Again)
       else
         bnd (os_call Accept) (\<lambda>reply.
           case reply of
             Inr arrival \<Rightarrow> bnd (configure_ipc_stream arrival) (\<lambda>_. update_ipc (\<lambda>ipc. new_ipc_peer (ipc\<lparr>ipc_stream := True\<rparr>)))
           | Inl k \<Rightarrow> throw (Fail (if k = WouldBlock then Again else map_io_error k))))"


section \<open>Sending\<close>

definition write_ipc_message :: "crypto \<Rightarrow> bytes \<Rightarrow> bool \<Rightarrow> ('w, unit) ipc_op" where
  "write_ipc_message C d has_more =
     bnd (gets (\<lambda>n. ipc_curve_session (in_ipc n))) (\<lambda>session.
       case session of
         Some sess \<Rightarrow>
           (case curve_message_frame C d has_more sess of
              (r, sess1) \<Rightarrow>
                bnd (update_ipc (\<lambda>ipc. ipc\<lparr>ipc_curve_session := Some sess1\<rparr>)) (\<lambda>_.
                bnd (try_result r) (\<lambda>frame. on_ipc_stream (write_all frame))))
       | None \<Rightarrow> on_ipc_stream (write_all (encode_v3 \<lparr>fr_body = d, fr_more = has_more, fr_command = False\<rparr>)))"

definition write_ipc_message_frame :: "crypto \<Rightarrow> bytes \<Rightarrow> ('w, unit) ipc_op" where
  "write_ipc_message_frame C d = write_ipc_message C d False"

definition send_ipc_hello_message :: "crypto \<Rightarrow> bytes \<Rightarrow> ('w, unit) ipc_op" where
  "send_ipc_hello_message C hello_msg =
     bnd (gets (\<lambda>n. ipc_hello_sent (in_ipc n))) (\<lambda>sent.
       if sent \<or> hello_msg = [] then ret ()
       else bnd (write_ipc_message_frame C hello_msg) (\<lambda>_. update_ipc (\<lambda>ipc. ipc\<lparr>ipc_hello_sent := True\<rparr>)))"

definition send_ipc_probe_router :: "crypto \<Rightarrow> socket_type \<Rightarrow> bool \<Rightarrow> ('w, unit) ipc_op" where
  "send_ipc_probe_router C t probe_router =
     bnd (gets (\<lambda>n. ipc_probe_router_sent (in_ipc n))) (\<lambda>sent.
       if sent \<or> \<not> probe_router \<or> t \<notin> {Dealer, Router} then ret ()
       else bnd (write_ipc_message_frame C []) (\<lambda>_. update_ipc (\<lambda>ipc. ipc\<lparr>ipc_probe_router_sent := True\<rparr>)))"

definition start_ipc_handshake :: "crypto \<Rightarrow> socket \<Rightarrow> ('w, unit) ipc_op" where
  "start_ipc_handshake C k =
     bnd (gets in_ipc) (\<lambda>ipc.
       if ipc_handshake_started ipc then ret ()
       else
         bnd (on_ipc_stream (write_zmtp_handshake_ipc C (sk_type k) (ipc_bound_endpoint ipc \<noteq> None)
                (opt_security (sk_options k)) (opt_routing_id (sk_options k)))) (\<lambda>h.
           update_ipc (\<lambda>ipc. ipc\<lparr>ipc_peer_greeting_done := hr_peer_greeting_done h, ipc_peer_ready := hr_peer_ready h,
             ipc_peer_identity := hr_peer_identity h, ipc_curve_session := hr_curve_session h,
             ipc_handshake_started := True\<rparr>)))"

definition send_ipc_frame :: "crypto \<Rightarrow> ref \<Rightarrow> message \<Rightarrow> ('w, unit) ipc_op" where
  "send_ipc_frame C s m =
     bnd ensure_ipc_stream (\<lambda>_.
     bnd (gets (tn_socket s)) (\<lambda>k.
       if sk_type k = Stream then on_ipc_stream (write_all (data m))
       else
         bnd (start_ipc_handshake C k) (\<lambda>_.
         bnd (send_ipc_hello_message C (opt_hello_msg (sk_options k))) (\<lambda>_.
         bnd (send_ipc_probe_router C (sk_type k) (opt_probe_router (sk_options k))) (\<lambda>_.
           write_ipc_message C (data m) (msg_more m))))))"


section \<open>Receiving\<close>

definition reset_ipc_stream_state :: "ipc_state \<Rightarrow> ipc_state" where
  "reset_ipc_stream_state ipc = new_ipc_peer (ipc\<lparr>ipc_stream := False\<rparr>)"

definition ipc_disconnect_message_or_error :: "socket_options \<Rightarrow> error \<Rightarrow> ('w, message) ipc_op" where
  "ipc_disconnect_message_or_error os e =
     (let d = (if opt_disconnect_msg os = [] then opt_hiccup_msg os else opt_disconnect_msg os)
      in if d = [] then throw (Fail e)
         else bnd (update_ipc reset_ipc_stream_state) (\<lambda>_. ret (message_from_vec d)))"

definition finish_ipc_handshake :: "('w, unit) ipc_op" where
  "finish_ipc_handshake =
     bnd (gets (\<lambda>n. ipc_peer_greeting_done (in_ipc n))) (\<lambda>greeted.
     bnd (if greeted then ret ()
          else bnd (on_ipc_stream read_zmtp_greeting_ipc) (\<lambda>_. update_ipc (\<lambda>ipc. ipc\<lparr>ipc_peer_greeting_done := True\<rparr>))) (\<lambda>_.
     bnd (gets (\<lambda>n. ipc_peer_ready (in_ipc n))) (\<lambda>is_ready.
       if is_ready then ret ()
       else bnd (on_ipc_stream read_zmtp_peer_ready_ipc) (\<lambda>m.
              update_ipc (\<lambda>ipc. ipc\<lparr>ipc_peer_identity := peer_identity_of m, ipc_peer_ready := True\<rparr>)))))"

function next_message_frame_ipc :: "('w io, fault, zmtp_frame) comp" where
  "next_message_frame_ipc st =
     (case read_zmtp_frame_ipc st of
        (Inl e, st1) \<Rightarrow> (Inl e, st1)
      | (Inr f, st1) \<Rightarrow> if fr_command f then next_message_frame_ipc st1 else (Inr f, st1))"
  by pat_completeness auto
termination
  by (relation "measure (\<lambda>st. length (io_in st))") (auto simp: ipc_reads dest: read_frame_shrinks [OF sym])

declare next_message_frame_ipc.simps [simp del]

lemma ipc_next_message: "next_message_frame_ipc st = next_message_frame st"
proof (induction st rule: next_message_frame.induct)
  case (1 st)
  then show ?case
    by (auto simp: next_message_frame_ipc.simps [of st] next_message_frame.simps [of st] ipc_reads split: prod.split sum.split)
qed

definition or_ipc_disconnected :: "socket_options \<Rightarrow> ('w io, fault, 'a) comp \<Rightarrow> ('a \<Rightarrow> ('w, message) ipc_op) \<Rightarrow> ('w, message) ipc_op" where
  "or_ipc_disconnected os m f n =
     (if \<not> ipc_stream (in_ipc n) then (Inl (Fail Again), n)
      else case on_ipc_stream m n of
             (Inr x, n1) \<Rightarrow> f x n1
           | (Inl (Fail e), n1) \<Rightarrow> ipc_disconnect_message_or_error os e n1
           | (Inl x, n1) \<Rightarrow> (Inl x, n1))"

definition read_ipc_message :: "crypto \<Rightarrow> socket_options \<Rightarrow> ('w, message) ipc_op" where
  "read_ipc_message C os =
     bnd (gets in_ipc) (\<lambda>ipc.
       case ipc_curve_session ipc of
         Some sess \<Rightarrow>
           or_ipc_disconnected os read_zmtp_frame_body_ipc (\<lambda>body.
             case curve_message_from_body C body sess of
               (r, sess1) \<Rightarrow>
                 bnd (update_ipc (\<lambda>ipc. ipc\<lparr>ipc_curve_session := Some sess1\<rparr>)) (\<lambda>_.
                 bnd (try_result r) (\<lambda>m. ret (apply_peer_identity_metadata (ipc_peer_identity ipc) m))))
       | None \<Rightarrow>
           or_ipc_disconnected os next_message_frame_ipc (\<lambda>f.
             ret (apply_peer_identity_metadata (ipc_peer_identity ipc) (set_more (fr_more f) (message_from_vec (fr_body f))))))"

definition recv_ipc_frame :: "crypto \<Rightarrow> ref \<Rightarrow> ('w, message) ipc_op" where
  "recv_ipc_frame C s =
     bnd ensure_ipc_stream (\<lambda>_.
     bnd (gets (tn_socket s)) (\<lambda>k.
       if sk_type k = Stream then bnd (on_ipc_stream read_raw_ipc) (\<lambda>d. ret (message_from_vec d))
       else
         bnd (start_ipc_handshake C k) (\<lambda>_.
         bnd finish_ipc_handshake (\<lambda>_.
         bnd (send_ipc_hello_message C (opt_hello_msg (sk_options k))) (\<lambda>_.
         bnd (send_ipc_probe_router C (sk_type k) (opt_probe_router (sk_options k))) (\<lambda>_.
           read_ipc_message C (sk_options k)))))))"

end
