(* ===== verification/Udp.thy ===== *)
theory Udp
  imports Tcp
begin

text \<open>
  The UDP transport of a socket in \<open>crates/libzmq-core/src/socket.rs\<close>, for sockets of type DGRAM: binding and
  connecting with their multicast options, and sending and receiving datagrams. The operating system
  enters as replies, one for each call; the calls and their replies are logged. A reply that does not fit its
  call does not occur; the model treats it as \<open>Again\<close>.
\<close>

section \<open>The operating system\<close>

text \<open>An address as \<open>recv_from\<close> reports it.\<close>

type_synonym socket_addr = "nat list \<times> nat"

datatype udp_call =
  UdpBind bytes | JoinMulticast "nat list" | MulticastLoop bool | MulticastIf | MulticastTtl nat
| UdpConnect bytes | SetNonblocking | SendDatagram bytes | SendTo bytes socket_addr | RecvFrom

datatype udp_reply = Refused io_kind | Done | Sent nat | Received bytes socket_addr


section \<open>State\<close>

record udp_state =
  udp_socket :: bool
  udp_bound_endpoint :: "udp_endpoint option"
  udp_connected_endpoint :: "udp_endpoint option"
  udp_last_peer :: "socket_addr option"

definition udp_state_default :: udp_state where
  "udp_state_default =
     \<lparr>udp_socket = False, udp_bound_endpoint = None, udp_connected_endpoint = None, udp_last_peer = None\<rparr>"

record 'w udp_node =
  un_world :: "'w world"
  un_udp :: udp_state
  un_os :: "udp_reply list"
  un_log :: "(udp_call \<times> udp_reply) list"

type_synonym ('w, 'a) udp_op = "('w udp_node, fault, 'a) comp"

definition udp_os :: "udp_call \<Rightarrow> ('w, udp_reply) udp_op" where
  "udp_os c n =
     (case un_os n of
        [] \<Rightarrow> (Inl Blocked, n)
      | r # rs \<Rightarrow> (Inr r, n\<lparr>un_os := rs, un_log := un_log n @ [(c, r)]\<rparr>))"

text \<open>A call that succeeds or fails: \<open>map_err(map_io_error)?\<close>.\<close>

definition udp_try :: "udp_call \<Rightarrow> ('w, unit) udp_op" where
  "udp_try c = bnd (udp_os c) (\<lambda>r. case r of Refused k \<Rightarrow> throw (Fail (map_io_error k)) | _ \<Rightarrow> ret ())"

definition set_udp :: "(udp_state \<Rightarrow> udp_state) \<Rightarrow> ('w, unit) udp_op" where
  "set_udp f = modify (\<lambda>n. n\<lparr>un_udp := f (un_udp n)\<rparr>)"

definition udp_world :: "('w world \<Rightarrow> 'w world) \<Rightarrow> ('w, unit) udp_op" where
  "udp_world f = modify (\<lambda>n. n\<lparr>un_world := f (un_world n)\<rparr>)"


section \<open>Binding and connecting\<close>

definition bind_udp :: "ref \<Rightarrow> bytes \<Rightarrow> ('w, unit) udp_op" where
  "bind_udp s endpoint =
     bnd (gets (\<lambda>n. w_sockets (un_world n) s)) (\<lambda>k.
       if sk_type k \<noteq> Dgram then throw (Fail NotSupported)
       else
         bnd (try_result (udp_parse endpoint)) (\<lambda>parsed.
         bnd (udp_try (UdpBind (udp_bind_addr parsed))) (\<lambda>_.
         bnd (case multicast_v4 parsed of
                None \<Rightarrow> ret ()
              | Some g \<Rightarrow>
                  bnd (udp_try (JoinMulticast g)) (\<lambda>_.
                    udp_try (MulticastLoop (opt_multicast_loop (sk_options k))))) (\<lambda>_.
         bnd (udp_try SetNonblocking) (\<lambda>_.
         bnd (set_udp (\<lambda>_. \<lparr>udp_socket = True, udp_bound_endpoint = Some parsed, udp_connected_endpoint = None, udp_last_peer = None\<rparr>)) (\<lambda>_.
           udp_world (\<lambda>w. set_last_endpoint s endpoint (emit_monitor_event s ZMQ_EVENT_LISTENING 0 endpoint w))))))))"

definition unbind_udp :: "ref \<Rightarrow> bytes \<Rightarrow> ('w, unit) udp_op" where
  "unbind_udp s endpoint =
     bnd (try_result (udp_parse endpoint)) (\<lambda>parsed.
     bnd (gets (\<lambda>n. udp_bound_endpoint (un_udp n))) (\<lambda>bound.
       if bound \<noteq> Some parsed then throw (Fail InvalidArgument)
       else
         bnd (set_udp (\<lambda>_. udp_state_default)) (\<lambda>_.
           udp_world (emit_monitor_event s ZMQ_EVENT_CLOSED 0 endpoint))))"

definition connect_udp :: "ref \<Rightarrow> bytes \<Rightarrow> ('w, unit) udp_op" where
  "connect_udp s endpoint =
     bnd (gets (\<lambda>n. w_sockets (un_world n) s)) (\<lambda>k.
       if sk_type k \<noteq> Dgram then throw (Fail NotSupported)
       else
         bnd (try_result (udp_parse endpoint)) (\<lambda>parsed.
         bnd (udp_try (UdpBind (lit ''0.0.0.0:0''))) (\<lambda>_.
         bnd (if multicast_v4 parsed = None then ret ()
              else
                bnd (udp_try MulticastIf) (\<lambda>_.
                bnd (udp_try (MulticastLoop (opt_multicast_loop (sk_options k)))) (\<lambda>_. udp_try (MulticastTtl 1)))) (\<lambda>_.
         bnd (try_result (udp_connect_addr parsed)) (\<lambda>addr.
         bnd (udp_try (UdpConnect addr)) (\<lambda>_.
         bnd (udp_try SetNonblocking) (\<lambda>_.
         bnd (set_udp (\<lambda>_. \<lparr>udp_socket = True, udp_bound_endpoint = None, udp_connected_endpoint = Some parsed, udp_last_peer = None\<rparr>)) (\<lambda>_.
           udp_world (\<lambda>w. set_last_endpoint s endpoint (emit_monitor_event s ZMQ_EVENT_CONNECTED 0 endpoint w))))))))))"

definition disconnect_udp :: "ref \<Rightarrow> bytes \<Rightarrow> ('w, unit) udp_op" where
  "disconnect_udp s endpoint =
     bnd (try_result (udp_parse endpoint)) (\<lambda>parsed.
     bnd (gets (\<lambda>n. udp_connected_endpoint (un_udp n))) (\<lambda>connected.
       if connected \<noteq> Some parsed then throw (Fail InvalidArgument)
       else
         bnd (set_udp (\<lambda>udp. udp\<lparr>udp_socket := False, udp_connected_endpoint := None, udp_last_peer := None\<rparr>)) (\<lambda>_.
           udp_world (emit_monitor_event s ZMQ_EVENT_DISCONNECTED 0 endpoint))))"

definition has_udp_transport :: "udp_state \<Rightarrow> bool" where
  "has_udp_transport udp \<longleftrightarrow> udp_socket udp"


section \<open>Datagrams\<close>

definition send_udp_datagram :: "message \<Rightarrow> ('w, unit) udp_op" where
  "send_udp_datagram m =
     bnd (gets un_udp) (\<lambda>udp.
       if \<not> udp_socket udp then throw (Fail Again)
       else
         bnd (if udp_connected_endpoint udp \<noteq> None then udp_os (SendDatagram (data m))
              else case udp_last_peer udp of
                     Some peer \<Rightarrow> udp_os (SendTo (data m) peer)
                   | None \<Rightarrow> throw (Fail Again)) (\<lambda>r.
           case r of
             Refused k \<Rightarrow> throw (Fail (map_io_error k))
           | Sent sent \<Rightarrow> if sent = message_len m then ret () else throw (Fail Again)
           | _ \<Rightarrow> throw (Fail Again)))"

text \<open>The buffer has 65536 bytes, more than any datagram.\<close>

definition recv_udp_datagram :: "('w, message) udp_op" where
  "recv_udp_datagram =
     bnd (gets un_udp) (\<lambda>udp.
       if \<not> udp_socket udp then throw (Fail Again)
       else
         bnd (udp_os RecvFrom) (\<lambda>r.
           case r of
             Received d peer \<Rightarrow>
               bnd (set_udp (\<lambda>udp. udp\<lparr>udp_last_peer := Some peer\<rparr>)) (\<lambda>_. ret (message_from_vec (take 65536 d)))
           | Refused k \<Rightarrow> throw (Fail (if k = WouldBlock then Again else map_io_error k))
           | _ \<Rightarrow> throw (Fail Again)))"


section \<open>Whom a socket answers\<close>

datatype udp_request = BindTo bytes | UnbindFrom bytes | ConnectTo bytes | DisconnectFrom bytes | Send message | Receive

fun udp_step :: "ref \<Rightarrow> udp_request \<Rightarrow> ('w, message option) udp_op" where
  "udp_step s (BindTo ep) = bnd (bind_udp s ep) (\<lambda>_. ret None)"
| "udp_step s (UnbindFrom ep) = bnd (unbind_udp s ep) (\<lambda>_. ret None)"
| "udp_step s (ConnectTo ep) = bnd (connect_udp s ep) (\<lambda>_. ret None)"
| "udp_step s (DisconnectFrom ep) = bnd (disconnect_udp s ep) (\<lambda>_. ret None)"
| "udp_step s (Send m) = bnd (send_udp_datagram m) (\<lambda>_. ret None)"
| "udp_step s Receive = bnd recv_udp_datagram (\<lambda>m. ret (Some m))"

text \<open>Calls in any order, whether they succeed or not; between them other threads may change the context.\<close>

inductive udp_run :: "ref \<Rightarrow> 'w udp_node \<Rightarrow> 'w udp_node \<Rightarrow> bool" for s n0 where
  start: "udp_run s n0 n0"
| request: "udp_run s n0 n \<Longrightarrow> udp_run s n0 (snd (udp_step s r n))"
| others: "udp_run s n0 n \<Longrightarrow> udp_run s n0 (n\<lparr>un_world := w\<rparr>)"

text \<open>The sender of the last datagram since the handle in use was made ready, read off the log.\<close>

fun heard :: "socket_addr option \<Rightarrow> (udp_call \<times> udp_reply) list \<Rightarrow> socket_addr option" where
  "heard p [] = p"
| "heard p ((c, r) # l) =
     heard (case (c, r) of (RecvFrom, Received _ q) \<Rightarrow> Some q
            | (SetNonblocking, Refused _) \<Rightarrow> p | (SetNonblocking, _) \<Rightarrow> None | _ \<Rightarrow> p) l"

lemma heard_append: "heard p (l @ l') = heard (heard p l) l'"
  by (induction p l rule: heard.induct) auto

definition answered_ok :: "(udp_call \<times> udp_reply) list \<Rightarrow> bool" where
  "answered_ok l \<longleftrightarrow> (\<forall>l1 l2 d p r. l = l1 @ (SendTo d p, r) # l2 \<longrightarrow> heard None l1 = Some p)"

lemma answered_snoc:
  "answered_ok (l @ [(c, r)]) \<longleftrightarrow> answered_ok l \<and> (\<forall>d p. c = SendTo d p \<longrightarrow> heard None l = Some p)"
proof -
  have "l @ [(c, r)] = l1 @ x # l2 \<longleftrightarrow> (l2 = [] \<and> l = l1 \<and> x = (c, r)) \<or> (\<exists>k. l2 = k @ [(c, r)] \<and> l = l1 @ x # k)" for l1 l2 x
    by (cases l2 rule: rev_cases) auto
  then show ?thesis
    unfolding answered_ok_def by auto
qed

definition udp_inv :: "'w udp_node \<Rightarrow> bool" where
  "udp_inv n \<longleftrightarrow> answered_ok (un_log n)
     \<and> (udp_socket (un_udp n) \<longleftrightarrow> udp_bound_endpoint (un_udp n) \<noteq> None \<or> udp_connected_endpoint (un_udp n) \<noteq> None)
     \<and> (udp_bound_endpoint (un_udp n) = None \<or> udp_connected_endpoint (un_udp n) = None)
     \<and> udp_last_peer (un_udp n) = (if udp_socket (un_udp n) then heard None (un_log n) else None)"

text \<open>Operations that only make calls of the operating system which do not matter for the answers.\<close>

definition quiet :: "udp_call \<Rightarrow> bool" where
  "quiet c \<longleftrightarrow> c \<noteq> RecvFrom \<and> c \<noteq> SetNonblocking \<and> (\<forall>d p. c \<noteq> SendTo d p)"

definition keeps_udp :: "('w, 'a) udp_op \<Rightarrow> bool" where
  "keeps_udp f \<longleftrightarrow> (\<forall>n. udp_inv n \<longrightarrow> udp_inv (snd (f n)) \<and> un_udp (snd (f n)) = un_udp n)"

lemma quiet_call:
  assumes "quiet c"
  shows "keeps_udp (udp_try c)" "keeps_udp (udp_os c)"
  using assms by (auto simp: keeps_udp_def udp_try_def udp_os_def bnd_apply udp_inv_def answered_snoc heard_append quiet_def
      split: list.split udp_reply.split udp_call.split)

definition keeps_inv :: "('w, 'a) udp_op \<Rightarrow> bool" where
  "keeps_inv f \<longleftrightarrow> (\<forall>n. udp_inv n \<longrightarrow> udp_inv (snd (f n)))"

named_theorems udp_intros

lemma keeps_udp_basic [udp_intros]: "keeps_udp (ret x)" "keeps_udp (throw e)" "keeps_udp (gets h)" "keeps_udp (try_result r)" "keeps_udp (udp_world g)"
  by (simp_all add: keeps_udp_def try_result_def udp_world_def udp_inv_def)

lemma keeps_udp_bnd [udp_intros]: "keeps_udp f \<Longrightarrow> (\<And>x. keeps_udp (F x)) \<Longrightarrow> keeps_udp (bnd f F)"
  by (simp add: keeps_udp_def bnd_apply split: sum.split)

lemma keeps_udp_cases [udp_intros]: "(b \<Longrightarrow> keeps_udp f) \<Longrightarrow> (\<not> b \<Longrightarrow> keeps_udp g) \<Longrightarrow> keeps_udp (if b then f else g)"
  "keeps_udp f \<Longrightarrow> (\<And>x. keeps_udp (h x)) \<Longrightarrow> keeps_udp (case t of None \<Rightarrow> f | Some x \<Rightarrow> h x)"
  by (simp_all split: option.split)

lemma quiet_calls [udp_intros]: "keeps_udp (udp_try (UdpBind a))" "keeps_udp (udp_try (JoinMulticast g))" "keeps_udp (udp_try (MulticastLoop b))"
  "keeps_udp (udp_try MulticastIf)" "keeps_udp (udp_try (MulticastTtl t))" "keeps_udp (udp_try (UdpConnect a))" "keeps_udp (udp_os (SendDatagram d))"
  by (simp_all add: quiet_call quiet_def)

lemma keeps_inv_bnd [udp_intros]: "keeps_udp f \<Longrightarrow> (\<And>x. keeps_inv (F x)) \<Longrightarrow> keeps_inv (bnd f F)"
  by (simp add: keeps_udp_def keeps_inv_def bnd_apply split: sum.split)

lemma keeps_inv_if [udp_intros]: "(b \<Longrightarrow> keeps_inv f) \<Longrightarrow> (\<not> b \<Longrightarrow> keeps_inv g) \<Longrightarrow> keeps_inv (if b then f else g)"
  by simp

lemma keeps_inv_keeps: "keeps_udp f \<Longrightarrow> keeps_inv f"
  by (simp add: keeps_udp_def keeps_inv_def)

lemma open_keeps [udp_intros]:
  assumes "udp_socket st" "udp_last_peer st = None" "(udp_bound_endpoint st = None) \<noteq> (udp_connected_endpoint st = None)"
  shows "keeps_inv (bnd (udp_try SetNonblocking) (\<lambda>_. bnd (set_udp (\<lambda>_. st)) (\<lambda>_. udp_world g)))"
  using assms by (auto simp: keeps_inv_def udp_try_def udp_os_def bnd_apply udp_inv_def answered_snoc heard_append set_udp_def udp_world_def
      split: list.split udp_reply.split)

lemma keeps_bind: "keeps_inv (bind_udp s ep)" and keeps_connect: "keeps_inv (connect_udp s ep)"
  unfolding bind_udp_def connect_udp_def by (intro udp_intros keeps_inv_keeps; simp)+

lemma keeps_unbind: "keeps_inv (unbind_udp s ep)"
  by (auto simp: keeps_inv_def unbind_udp_def try_result_def bnd_apply set_udp_def udp_world_def udp_inv_def udp_state_default_def split: sum.split)

lemma keeps_disconnect: "keeps_inv (disconnect_udp s ep)"
  by (auto simp: keeps_inv_def disconnect_udp_def try_result_def bnd_apply set_udp_def udp_world_def udp_inv_def split: sum.split)

lemma keeps_send: "keeps_inv (send_udp_datagram m)"
  by (auto simp: keeps_inv_def send_udp_datagram_def udp_os_def bnd_apply udp_inv_def answered_snoc heard_append
      split: list.split udp_reply.split option.split)

lemma keeps_recv: "keeps_inv recv_udp_datagram"
  by (auto simp: keeps_inv_def recv_udp_datagram_def udp_os_def bnd_apply udp_inv_def answered_snoc heard_append set_udp_def
      split: list.split udp_reply.split)

lemma keeps_inv_ret: "keeps_inv f \<Longrightarrow> keeps_inv (bnd f (\<lambda>x. ret (h x)))"
  by (simp add: keeps_inv_def bnd_apply split: sum.split)

lemma keeps_step: "keeps_inv (udp_step s r)"
  by (cases r) (simp_all add: keeps_inv_ret keeps_bind keeps_unbind keeps_connect keeps_disconnect keeps_send keeps_recv)

lemma udp_run_inv:
  assumes "udp_run s n0 n" "udp_inv n0"
  shows "udp_inv n"
  using assms
proof induction
  case (request n r)
  then show ?case
    using keeps_step [unfolded keeps_inv_def, rule_format, of n s r] by blast
qed (simp_all add: udp_inv_def)

text \<open>
  C32. A bound datagram socket answers the peer that wrote last. In every run of binds, connects, sends and
  receives on a new socket, failing ones included, and whatever the operating system replies: each
  datagram that is sent to an explicit address goes to the sender of the last datagram received on
  the same handle, never to an address that has not written to it; a handle is open exactly while an endpoint is
  bound or connected, never both; and without a handle no peer is remembered.
\<close>

theorem udp_answers_last_sender:
  assumes "un_udp n0 = udp_state_default" "un_log n0 = []" and "udp_run s n0 n"
  shows "(\<forall>l1 l2 d p r. un_log n = l1 @ (SendTo d p, r) # l2 \<longrightarrow> heard None l1 = Some p)
    \<and> (udp_socket (un_udp n) \<longleftrightarrow> (udp_bound_endpoint (un_udp n) = None) \<noteq> (udp_connected_endpoint (un_udp n) = None))
    \<and> (\<not> udp_socket (un_udp n) \<longrightarrow> udp_bound_endpoint (un_udp n) = None \<and> udp_connected_endpoint (un_udp n) = None \<and> udp_last_peer (un_udp n) = None)"
proof -
  have "udp_inv n0"
    using assms(1,2) by (simp add: udp_inv_def answered_ok_def udp_state_default_def)
  from udp_run_inv [OF assms(3) this] show ?thesis
    unfolding udp_inv_def answered_ok_def by auto
qed

text \<open>A socket is bound, hears from an address and answers.\<close>

definition udp_example :: "unit udp_node" where
  "udp_example =
     \<lparr>un_world = update_socket 0 (\<lambda>k. k\<lparr>sk_type := Dgram\<rparr>) (world_new ()), un_udp = udp_state_default,
      un_os = [Done, Done, Received [1, 2] ([127, 0, 0, 1], 4000), Sent 1], un_log = []\<rparr>"

definition udp_answered :: "unit udp_node" where
  "udp_answered = snd (udp_step 0 (Send (message_from_vec [3])) (snd (udp_step 0 Receive (snd (udp_step 0 (BindTo (lit ''udp://*:5000'')) udp_example)))))"

theorem udp_answers_last_sender_witness:
  "\<exists>l1. un_log udp_answered = l1 @ [(SendTo [3] ([127, 0, 0, 1], 4000), Sent 1)] \<and> heard None l1 = Some ([127, 0, 0, 1], 4000)
    \<and> (udp_socket (un_udp udp_answered) \<longleftrightarrow> (udp_bound_endpoint (un_udp udp_answered) = None) \<noteq> (udp_connected_endpoint (un_udp udp_answered) = None))"
proof -
  let ?e = "\<lparr>udp_host = lit ''*'', udp_port = 5000\<rparr>"
  let ?l = "[(UdpBind (udp_bind_addr ?e), Done), (SetNonblocking, Done), (RecvFrom, Received [1, 2] ([127, 0, 0, 1], 4000))]"
  have "dec 5000 = lit ''5000''"
    by (simp add: dec.simps digit_def lit_def)
  then have "split_host_port (lit ''*:5000'') = Inr (lit ''*'', 5000)"
    using split_host_port_print [of "lit ''*''" 5000] by (simp add: lit_def)
  moreover have "lit ''*'' \<noteq> []"
    by (simp add: lit_def)
  ultimately have "udp_parse (lit ''udp://'' @ lit ''*:5000'') = Inr ?e"
    by (simp add: udp_parse_def)
  then have "udp_parse (lit ''udp://*:5000'') = Inr ?e"
    by (simp add: lit_def)
  moreover have "multicast_v4 ?e = None"
    by code_simp
  ultimately have l: "un_log udp_answered = ?l @ [(SendTo [3] ([127, 0, 0, 1], 4000), Sent 1)]"
    by (simp add: udp_answered_def udp_example_def bind_udp_def bnd_apply update_socket_def try_result_def udp_try_def udp_os_def set_udp_def udp_world_def
        recv_udp_datagram_def send_udp_datagram_def message_len_def)
  have r: "udp_run 0 udp_example udp_answered"
    unfolding udp_answered_def by (intro udp_run.intros)
  have e: "un_udp udp_example = udp_state_default" "un_log udp_example = []"
    by (simp_all add: udp_example_def)
  note a = udp_answers_last_sender [OF e r]
  have "heard None ?l = Some ([127, 0, 0, 1], 4000)"
    using a [THEN conjunct1] l by blast
  then show ?thesis
    using l a [THEN conjunct2, THEN conjunct1] by (intro exI [of _ ?l] conjI)
qed

end
