(* ===== verification/Wires.thy ===== *)
theory Wires
  imports Ipc Udp WebSocket
begin

text \<open>
  The transports of the default build together: the state each of them keeps for every socket, the streams
  they hold, and the operations a socket calls (\<open>has_*_transport\<close>, \<open>send_*\<close>, \<open>recv_*\<close>, \<open>bind_*\<close> and so
  on), as a value of the record \<open>wires\<close> that the model of the socket takes. NORM and TLS are not
  compiled in: their functions answer that they are not supported.

  While a transport works it sees the context and its sockets without the transports, as the code holds
  the lock of its own state only. A call that panics or blocks for ever does not return; the model notes it in
  \<open>nt_halted\<close>, after which nothing is claimed.
\<close>

section \<open>The state\<close>

record stream =
  sm_in :: bytes
  sm_out :: bytes
  sm_closed :: bool
  sm_timeout :: bool

record net =
  nt_tcp :: "ref \<Rightarrow> tcp_state"
  nt_ipc :: "ref \<Rightarrow> ipc_state"
  nt_ws :: "ref \<Rightarrow> ws_state"
  nt_udp :: "ref \<Rightarrow> udp_state"
  nt_streams :: "wire \<Rightarrow> ref \<Rightarrow> stream"
  nt_os :: "(io_kind + bytes \<times> bool) list"
  nt_calls :: "os_call list"
  nt_udp_os :: "udp_reply list"
  nt_udp_log :: "(udp_call \<times> udp_reply) list"
  nt_entropy :: bytes
  nt_now :: nat
  nt_halted :: "fault option"

definition no_stream :: stream where
  "no_stream = \<lparr>sm_in = [], sm_out = [], sm_closed = False, sm_timeout = False\<rparr>"

definition net_new :: net where
  "net_new =
     \<lparr>nt_tcp = (\<lambda>_. tcp_state_default), nt_ipc = (\<lambda>_. ipc_state_default), nt_ws = (\<lambda>_. ws_state_default),
      nt_udp = (\<lambda>_. udp_state_default), nt_streams = (\<lambda>_ _. no_stream), nt_os = [], nt_calls = [], nt_udp_os = [],
      nt_udp_log = [], nt_entropy = [], nt_now = 0, nt_halted = None\<rparr>"

text \<open>The context with another state of the transports, or with none.\<close>

definition with_wire :: "'v \<Rightarrow> 'w world \<Rightarrow> 'v world" where
  "with_wire v w = context_shared.extend (context_shared.truncate w) (world.fields (w_sockets w) v)"

lemma with_wire_simps [simp]:
  "w_wire (with_wire v w) = v" "w_sockets (with_wire v w) = w_sockets w" "with_wire v (with_wire u w) = with_wire v w"
  "with_wire (w_wire w) w = w" "queues (with_wire v w) = queues w" "ctx_inproc_endpoints (with_wire v w) = ctx_inproc_endpoints w"
  "endpoints (with_wire v w) = endpoints w"
  by (cases w; simp add: with_wire_def context_shared.defs world.defs)+

definition on_net :: "(net \<Rightarrow> net) \<Rightarrow> net world \<Rightarrow> net world" where
  "on_net f w = with_wire (f (w_wire w)) w"


section \<open>Running an operation of a transport\<close>

definition wire_io :: "wire \<Rightarrow> ref \<Rightarrow> net world \<Rightarrow> unit io" where
  "wire_io x s w =
     (let sm = nt_streams (w_wire w) x s
      in \<lparr>io_in = sm_in sm, io_out = sm_out sm, io_closed = sm_closed sm, io_timeout = sm_timeout sm,
          io_entropy = nt_entropy (w_wire w), io_world = with_wire () w, io_others = []\<rparr>)"

definition stream_of :: "'w io \<Rightarrow> stream" where
  "stream_of st = \<lparr>sm_in = io_in st, sm_out = io_out st, sm_closed = io_closed st, sm_timeout = io_timeout st\<rparr>"

text \<open>The part every stream transport shares is written back.\<close>

definition wire_back :: "wire \<Rightarrow> ref \<Rightarrow> net \<Rightarrow> (unit, 'z) os_node_scheme \<Rightarrow> net world" where
  "wire_back x s net n =
     with_wire (net\<lparr>nt_streams := (nt_streams net)(x := (nt_streams net x)(s := stream_of (tn_io n))), nt_os := tn_os n,
                    nt_calls := tn_calls n, nt_entropy := io_entropy (tn_io n)\<rparr>) (io_world (tn_io n))"

definition settle :: "fault + 'a \<Rightarrow> net world \<Rightarrow> 'a result \<times> net world" where
  "settle r w =
     (case r of
        Inr x \<Rightarrow> (Inr x, w)
      | Inl (Fail e) \<Rightarrow> (Inl e, w)
      | Inl f \<Rightarrow> (Inl Again, on_net (\<lambda>net. net\<lparr>nt_halted := Some f\<rparr>) w))"

definition tcp_node_of :: "ref \<Rightarrow> net world \<Rightarrow> unit tcp_node" where
  "tcp_node_of s w =
     \<lparr>tn_io = wire_io WireTcp s w, tn_os = nt_os (w_wire w), tn_calls = nt_calls (w_wire w),
      tn_tcp = nt_tcp (w_wire w) s, tn_now = nt_now (w_wire w)\<rparr>"

definition tcp_back :: "ref \<Rightarrow> net \<Rightarrow> unit tcp_node \<Rightarrow> net world" where
  "tcp_back s net n = on_net (\<lambda>net. net\<lparr>nt_tcp := (nt_tcp net)(s := tn_tcp n)\<rparr>) (wire_back WireTcp s net n)"

definition via_tcp :: "ref \<Rightarrow> (unit, 'a) tcp_op \<Rightarrow> (net world, error, 'a) comp" where
  "via_tcp s f w = (case f (tcp_node_of s w) of (r, n) \<Rightarrow> settle r (tcp_back s (w_wire w) n))"

definition ipc_node_of :: "ref \<Rightarrow> net world \<Rightarrow> unit ipc_node" where
  "ipc_node_of s w =
     \<lparr>tn_io = wire_io WireIpc s w, tn_os = nt_os (w_wire w), tn_calls = nt_calls (w_wire w), in_ipc = nt_ipc (w_wire w) s\<rparr>"

definition ipc_back :: "ref \<Rightarrow> net \<Rightarrow> unit ipc_node \<Rightarrow> net world" where
  "ipc_back s net n = on_net (\<lambda>net. net\<lparr>nt_ipc := (nt_ipc net)(s := in_ipc n)\<rparr>) (wire_back WireIpc s net n)"

definition via_ipc :: "ref \<Rightarrow> (unit, 'a) ipc_op \<Rightarrow> (net world, error, 'a) comp" where
  "via_ipc s f w = (case f (ipc_node_of s w) of (r, n) \<Rightarrow> settle r (ipc_back s (w_wire w) n))"

definition ws_node_of :: "ref \<Rightarrow> net world \<Rightarrow> unit ws_node" where
  "ws_node_of s w =
     \<lparr>tn_io = wire_io WireWs s w, tn_os = nt_os (w_wire w), tn_calls = nt_calls (w_wire w), wn_ws = nt_ws (w_wire w) s\<rparr>"

definition ws_back :: "ref \<Rightarrow> net \<Rightarrow> unit ws_node \<Rightarrow> net world" where
  "ws_back s net n = on_net (\<lambda>net. net\<lparr>nt_ws := (nt_ws net)(s := wn_ws n)\<rparr>) (wire_back WireWs s net n)"

definition via_ws :: "ref \<Rightarrow> (unit, 'a) ws_op \<Rightarrow> (net world, error, 'a) comp" where
  "via_ws s f w = (case f (ws_node_of s w) of (r, n) \<Rightarrow> settle r (ws_back s (w_wire w) n))"

definition udp_node_of :: "ref \<Rightarrow> net world \<Rightarrow> unit udp_node" where
  "udp_node_of s w =
     \<lparr>un_world = with_wire () w, un_udp = nt_udp (w_wire w) s, un_os = nt_udp_os (w_wire w), un_log = nt_udp_log (w_wire w)\<rparr>"

definition udp_back :: "ref \<Rightarrow> net \<Rightarrow> unit udp_node \<Rightarrow> net world" where
  "udp_back s net n =
     with_wire (net\<lparr>nt_udp := (nt_udp net)(s := un_udp n), nt_udp_os := un_os n, nt_udp_log := un_log n\<rparr>) (un_world n)"

definition via_udp :: "ref \<Rightarrow> (unit, 'a) udp_op \<Rightarrow> (net world, error, 'a) comp" where
  "via_udp s f w = (case f (udp_node_of s w) of (r, n) \<Rightarrow> settle r (udp_back s (w_wire w) n))"


section \<open>The functions of the transports that are not compiled in\<close>

definition bind_norm :: "bytes \<Rightarrow> ('s, error, unit) comp" where
  "bind_norm endpoint = throw NotSupported"

definition unbind_norm :: "bytes \<Rightarrow> ('s, error, unit) comp" where
  "unbind_norm endpoint = throw NotSupported"

definition connect_norm :: "bytes \<Rightarrow> ('s, error, unit) comp" where
  "connect_norm endpoint = throw NotSupported"

definition disconnect_norm :: "bytes \<Rightarrow> ('s, error, unit) comp" where
  "disconnect_norm endpoint = throw NotSupported"

definition send_norm_data :: "message \<Rightarrow> ('s, error, unit) comp" where
  "send_norm_data m = throw NotSupported"

definition recv_norm_data :: "('s, error, message) comp" where
  "recv_norm_data = throw NotSupported"

definition bind_wss :: "bytes \<Rightarrow> ('s, error, unit) comp" where
  "bind_wss endpoint = throw NotSupported"

definition unbind_wss :: "bytes \<Rightarrow> ('s, error, unit) comp" where
  "unbind_wss endpoint = throw NotSupported"

definition connect_wss :: "bytes \<Rightarrow> ('s, error, unit) comp" where
  "connect_wss endpoint = throw NotSupported"

definition disconnect_wss :: "bytes \<Rightarrow> ('s, error, unit) comp" where
  "disconnect_wss endpoint = throw NotSupported"

definition send_wss_frame :: "message \<Rightarrow> ('s, error, unit) comp" where
  "send_wss_frame m = throw NotSupported"

definition recv_wss_frame :: "('s, error, message) comp" where
  "recv_wss_frame = throw NotSupported"


section \<open>All transports\<close>

definition has_transport :: "wire \<Rightarrow> ref \<Rightarrow> net \<Rightarrow> bool" where
  "has_transport x s net =
     (case x of WireUdp \<Rightarrow> has_udp_transport (nt_udp net s) | WireNorm \<Rightarrow> False | WireWs \<Rightarrow> has_ws_transport (nt_ws net s)
      | WireWss \<Rightarrow> False | WireTcp \<Rightarrow> has_tcp_transport (nt_tcp net s) | WireIpc \<Rightarrow> has_ipc_transport (nt_ipc net s))"

definition default_wires :: "crypto \<Rightarrow> hashes \<Rightarrow> net wires" where
  "default_wires C H =
     \<lparr>wr_has = has_transport,
      wr_has_stream = (\<lambda>x s net. case x of WireTcp \<Rightarrow> tcp_stream (nt_tcp net s) | WireIpc \<Rightarrow> ipc_stream (nt_ipc net s)
        | WireWs \<Rightarrow> wst_stream (nt_ws net s) | _ \<Rightarrow> False),
      wr_send = (\<lambda>x s m. case x of WireUdp \<Rightarrow> via_udp s (send_udp_datagram m) | WireNorm \<Rightarrow> send_norm_data m
        | WireWs \<Rightarrow> via_ws s (send_ws_frame H m) | WireWss \<Rightarrow> send_wss_frame m
        | WireTcp \<Rightarrow> via_tcp s (send_tcp_frame C s m) | WireIpc \<Rightarrow> via_ipc s (send_ipc_frame C s m)),
      wr_recv = (\<lambda>x s. case x of WireUdp \<Rightarrow> via_udp s recv_udp_datagram | WireNorm \<Rightarrow> recv_norm_data
        | WireWs \<Rightarrow> via_ws s (recv_ws_frame H) | WireWss \<Rightarrow> recv_wss_frame
        | WireTcp \<Rightarrow> via_tcp s (recv_tcp_frame C s) | WireIpc \<Rightarrow> via_ipc s (recv_ipc_frame C s)),
      wr_bind = (\<lambda>x s ep. case x of WireUdp \<Rightarrow> via_udp s (bind_udp s ep) | WireNorm \<Rightarrow> bind_norm ep
        | WireWs \<Rightarrow> via_ws s (bind_ws s ep) | WireWss \<Rightarrow> bind_wss ep
        | WireTcp \<Rightarrow> via_tcp s (bind_tcp s ep) | WireIpc \<Rightarrow> via_ipc s (bind_ipc s ep)),
      wr_unbind = (\<lambda>x s ep. case x of WireUdp \<Rightarrow> via_udp s (unbind_udp s ep) | WireNorm \<Rightarrow> unbind_norm ep
        | WireWs \<Rightarrow> via_ws s (unbind_ws s ep) | WireWss \<Rightarrow> unbind_wss ep
        | WireTcp \<Rightarrow> via_tcp s (unbind_tcp s ep) | WireIpc \<Rightarrow> via_ipc s (unbind_ipc s ep)),
      wr_connect = (\<lambda>x s ep. case x of WireUdp \<Rightarrow> via_udp s (connect_udp s ep) | WireNorm \<Rightarrow> connect_norm ep
        | WireWs \<Rightarrow> via_ws s (connect_ws H s ep) | WireWss \<Rightarrow> connect_wss ep
        | WireTcp \<Rightarrow> via_tcp s (connect_tcp s ep) | WireIpc \<Rightarrow> via_ipc s (connect_ipc s ep)),
      wr_disconnect = (\<lambda>x s ep. case x of WireUdp \<Rightarrow> via_udp s (disconnect_udp s ep) | WireNorm \<Rightarrow> disconnect_norm ep
        | WireWs \<Rightarrow> via_ws s (disconnect_ws s ep) | WireWss \<Rightarrow> disconnect_wss ep
        | WireTcp \<Rightarrow> via_tcp s (disconnect_tcp s ep) | WireIpc \<Rightarrow> via_ipc s (disconnect_ipc s ep))\<rparr>"

text \<open>What is written back is what the next operation finds.\<close>

lemma with_unit [simp]: "with_wire () w = w"
  using with_wire_simps(4) [of w] by simp

lemma wire_io_back:
  assumes "io_others (tn_io n) = []" "nt_streams (w_wire w) x s = stream_of (tn_io n)" "nt_entropy (w_wire w) = io_entropy (tn_io n)"
    and "with_wire () w = io_world (tn_io n)"
  shows "wire_io x s w = tn_io n"
  using assms by (intro io.equality) (simp_all add: wire_io_def stream_of_def Let_def)

lemmas back_defs = tcp_back_def ipc_back_def ws_back_def udp_back_def wire_back_def on_net_def

lemma tcp_back_get [simp]:
  assumes "io_others (tn_io n) = []" "tn_now n = nt_now net"
  shows "tcp_node_of s (tcp_back s net n) = n"
  using assms by (intro tcp_node.equality) (simp_all add: tcp_node_of_def wire_io_back back_defs)

lemma ipc_back_get [simp]: "io_others (tn_io n) = [] \<Longrightarrow> ipc_node_of s (ipc_back s net n) = n"
  by (intro ipc_node.equality) (simp_all add: ipc_node_of_def wire_io_back back_defs)

lemma ws_back_get [simp]: "io_others (tn_io n) = [] \<Longrightarrow> ws_node_of s (ws_back s net n) = n"
  by (intro ws_node.equality) (simp_all add: ws_node_of_def wire_io_back back_defs)

lemma udp_back_get [simp]: "udp_node_of s (udp_back s net n) = n"
  by (intro udp_node.equality) (simp_all add: udp_node_of_def back_defs)

lemma back_again [simp]:
  "tcp_back s (w_wire (tcp_back s net n)) n' = tcp_back s net n'" "ipc_back s (w_wire (ipc_back s net m)) m' = ipc_back s net m'"
  "ws_back s (w_wire (ws_back s net k)) k' = ws_back s net k'" "udp_back s (w_wire (udp_back s net j)) j' = udp_back s net j'"
  by (simp_all add: back_defs)

end
