(* ===== verification/Wrapper.thy ===== *)
theory Wrapper
  imports Socket_Endpoints
begin

text \<open>
  The Rust interface in \<open>crates/libzmq/src/lib.rs\<close>: a context and a socket that hold those of the core crate and
  pass every call on. A socket is the number of its record in the world of its context. A value that is
  converted into a message with \<open>into\<close> is that message.
\<close>

section \<open>Contexts\<close>

definition version :: "i32 \<times> i32 \<times> i32" where
  "version = (ZMQ_VERSION_MAJOR, ZMQ_VERSION_MINOR, ZMQ_VERSION_PATCH)"

definition api_context_new :: "'w \<Rightarrow> 'w world result" where
  "api_context_new x = Inr (world_new x)"

definition api_socket :: "socket_type \<Rightarrow> ('w world, error, ref) comp" where
  "api_socket t = context_socket t"

definition api_shutdown :: "('w world, error, unit) comp" where
  "api_shutdown = modify shutdown"

definition api_terminate :: "('w world, error, unit) comp" where
  "api_terminate = modify terminate"

definition api_context_set_option_i32 :: "i32 \<Rightarrow> i32 \<Rightarrow> ('w world, error, unit) comp" where
  "api_context_set_option_i32 opt v w =
     (case context_set_option opt v (ctx_options w) of (r, os) \<Rightarrow> (r, w\<lparr>ctx_options := os\<rparr>))"

definition api_context_get_option_i32 :: "i32 \<Rightarrow> ('w world, error, i32) comp" where
  "api_context_get_option_i32 opt w = (context_get_option opt (ctx_options w), w)"


section \<open>Sockets\<close>

definition api_socket_type :: "ref \<Rightarrow> 'w world \<Rightarrow> socket_type" where
  "api_socket_type s w = sk_type (w_sockets w s)"

definition api_bind :: "'w wires \<Rightarrow> ref \<Rightarrow> bytes \<Rightarrow> ('w world, error, unit) comp" where
  "api_bind W s endpoint = bind W s endpoint"

definition api_unbind :: "'w wires \<Rightarrow> ref \<Rightarrow> bytes \<Rightarrow> ('w world, error, unit) comp" where
  "api_unbind W s endpoint = unbind W s endpoint"

definition api_connect :: "'w wires \<Rightarrow> ref \<Rightarrow> bytes \<Rightarrow> ('w world, error, unit) comp" where
  "api_connect W s endpoint = connect W s endpoint"

definition api_connect_peer :: "'w wires \<Rightarrow> ref \<Rightarrow> bytes \<Rightarrow> ('w world, error, u32) comp" where
  "api_connect_peer W s endpoint = bnd (connect W s endpoint) (\<lambda>_. ret 1)"

definition api_disconnect :: "'w wires \<Rightarrow> ref \<Rightarrow> bytes \<Rightarrow> ('w world, error, unit) comp" where
  "api_disconnect W s endpoint = disconnect W s endpoint"

definition api_subscribe :: "ref \<Rightarrow> bytes \<Rightarrow> ('w world, error, unit) comp" where
  "api_subscribe s p = subscribe s p"

definition api_unsubscribe :: "ref \<Rightarrow> bytes \<Rightarrow> ('w world, error, unit) comp" where
  "api_unsubscribe s p = unsubscribe s p"

definition api_join :: "ref \<Rightarrow> bytes \<Rightarrow> ('w world, error, unit) comp" where
  "api_join s g = join s g"

definition api_leave :: "ref \<Rightarrow> bytes \<Rightarrow> ('w world, error, unit) comp" where
  "api_leave s g = leave s g"

definition api_send :: "'w wires \<Rightarrow> ref \<Rightarrow> message \<Rightarrow> ('w world, error, nat) comp" where
  "api_send W s m = send W s m 0"

definition api_send_with_flags :: "'w wires \<Rightarrow> ref \<Rightarrow> message \<Rightarrow> i32 \<Rightarrow> ('w world, error, nat) comp" where
  "api_send_with_flags W s m flags = send W s m flags"

definition api_recv :: "'w wires \<Rightarrow> ref \<Rightarrow> ('w world, error, message) comp" where
  "api_recv W s = recv W s 0"

definition api_set_option_i32 :: "ref \<Rightarrow> i32 \<Rightarrow> i32 \<Rightarrow> ('w world, error, unit) comp" where
  "api_set_option_i32 s opt v = socket_set_option_i32 s opt v"

definition api_set_option_bytes :: "ref \<Rightarrow> i32 \<Rightarrow> bytes \<Rightarrow> ('w world, error, unit) comp" where
  "api_set_option_bytes s opt v = socket_set_option_bytes s opt v"

definition api_get_option_i32 :: "ref \<Rightarrow> i32 \<Rightarrow> ('w world, error, i32) comp" where
  "api_get_option_i32 s opt = socket_get_option_i32 s opt"

definition api_get_option_bytes :: "ref \<Rightarrow> i32 \<Rightarrow> 'w world \<Rightarrow> bytes result" where
  "api_get_option_bytes s opt w = get_option_bytes opt (sk_options (w_sockets w s))"

end
