(* ===== verification/Carrier.thy ===== *)
theory Carrier
  imports Wrapper Handshake
begin

text \<open>
  What a socket relies on when it hands a message to a transport or takes one from it: the interface
  between \<open>send\<close> and \<open>recv\<close> of \<open>crates/libzmq-core/src/socket.rs\<close> and the frames of a transport, as a locale. The
  transports of the default build are its interpretations, in \<open>Wired_Link\<close>.
\<close>

section \<open>Sockets off the in-process paths\<close>

definition off_inproc :: "socket \<Rightarrow> bool" where
  "off_inproc k \<longleftrightarrow>
     ip_direct_outbox (sk_inproc k) = None \<and> ip_connected_endpoint (sk_inproc k) = None \<and> ip_bound_endpoint (sk_inproc k) = None"

definition sender :: "socket \<Rightarrow> bool" where
  "sender k \<longleftrightarrow> can_send (sk_type k) \<and> sk_type k \<notin> {Req, Rep} \<and> off_inproc k"

definition receiver :: "ref \<Rightarrow> 'w world \<Rightarrow> bool" where
  "receiver u w \<longleftrightarrow> can_recv (sk_type (w_sockets w u)) \<and> sk_type (w_sockets w u) \<notin> {Req, Rep} \<and> queues w (sk_inbox (w_sockets w u)) = []"

text \<open>The message as the socket hands it to the transport.\<close>

abbreviation wired :: "message \<times> i32 \<Rightarrow> message" where
  "wired p \<equiv> set_more ((snd p AND ZMQ_SNDMORE) \<noteq> 0) (fst p)"

lemma sender_path:
  assumes "sender (w_sockets w s)"
  shows "outgoing_message s m flags w = wired (m, flags)" "try_process_xsub_subscription_send s m' w = (False, w)"
    "try_send_inproc_fast s m' w = (Some m', w)"
  using assms
  by (simp_all add: outgoing_message_def apply_outgoing_routing_id_def apply_reply_routing_id_def connected_bound_def
      try_process_xsub_subscription_send_def xsub_endpoint_def try_send_inproc_fast_def fast_outbox_def sender_def off_inproc_def Let_def)

lemma receiver_path: "receiver u w \<Longrightarrow> try_recv_inproc_fast u w = (None, w)"
  by (simp add: try_recv_inproc_fast_def pop_front_def receiver_def Let_def)


section \<open>The transport in use\<close>

text \<open>The transports in the order in which the code asks them.\<close>

fun wire_rank :: "wire \<Rightarrow> nat" where
  "wire_rank WireUdp = 0"
| "wire_rank WireNorm = 1"
| "wire_rank WireWs = 2"
| "wire_rank WireWss = 3"
| "wire_rank WireTcp = 4"
| "wire_rank WireIpc = 5"

lemma wire_rank_inject: "wire_rank x = wire_rank y \<Longrightarrow> x = y"
  by (cases x; cases y) simp_all

instantiation wire :: linorder
begin

definition less_eq_wire :: "wire \<Rightarrow> wire \<Rightarrow> bool" where
  "x \<le> y \<longleftrightarrow> wire_rank x \<le> wire_rank y"

definition less_wire :: "wire \<Rightarrow> wire \<Rightarrow> bool" where
  "x < y \<longleftrightarrow> wire_rank x < wire_rank y"

instance
  by intro_classes (auto simp: less_eq_wire_def less_wire_def intro: wire_rank_inject)

end

lemma all_wires: "(\<forall>y. P y) \<longleftrightarrow> P WireUdp \<and> P WireNorm \<and> P WireWs \<and> P WireWss \<and> P WireTcp \<and> P WireIpc"
  by (metis wire.exhaust)

lemma active_wire_least: "active_wire W s w = Some x \<longleftrightarrow> wr_has W x s (w_wire w) \<and> (\<forall>y < x. \<not> wr_has W y s (w_wire w))"
  by (cases x) (auto simp: active_wire_def all_wires less_wire_def)


section \<open>Sequences of calls\<close>

definition api_sends :: "'w wires \<Rightarrow> ref \<Rightarrow> (message \<times> i32) list \<Rightarrow> ('w world, error, unit) comp" where
  "api_sends W s ms = for_each ms (\<lambda>(m, flags). bnd (api_send_with_flags W s m flags) (\<lambda>_. ret ()))"

text \<open>
  Receives at the transport, one after the other; in between the socket notes what it has received, and the
  transport stays the one in use.
\<close>

fun delivers :: "('n \<Rightarrow> bool) \<Rightarrow> ('n, fault, message) comp \<Rightarrow> (message \<Rightarrow> 'n \<Rightarrow> 'n) \<Rightarrow> 'n \<Rightarrow> message list \<Rightarrow> 'n \<Rightarrow> bool" where
  "delivers P f g n [] n' \<longleftrightarrow> n' = n"
| "delivers P f g n (m # ms) n' \<longleftrightarrow> P n \<and> (\<exists>n1. f n = (Inr m, n1) \<and> delivers P f g (g m n1) ms n')"


section \<open>The interface\<close>

locale carrier =
  fixes W :: "'w wires" and x :: wire and s :: ref
    and whole :: "'n \<Rightarrow> 'w world"
    and send_frame :: "message \<Rightarrow> ('n, fault, unit) comp" and recv_frame :: "('n, fault, message) comp"
    and noted :: "message \<Rightarrow> 'n \<Rightarrow> 'n"
    and in_use :: "'n \<Rightarrow> bool"
  assumes active: "in_use n \<Longrightarrow> active_wire W s (whole n) = Some x"
    and send_done: "in_use n \<Longrightarrow> send_frame m n = (Inr (), n') \<Longrightarrow>
      wr_send W x s m (whole n) = (Inr (), whole n') \<and> in_use n' \<and> w_sockets (whole n') = w_sockets (whole n)"
    and send_refused: "in_use n \<Longrightarrow> send_frame m n = (Inl (Fail e), n') \<Longrightarrow> wr_send W x s m (whole n) = (Inl e, whole n')"
    and recv_done: "in_use n \<Longrightarrow> recv_frame n = (Inr m, n') \<Longrightarrow>
      wr_recv W x s (whole n) = (Inr m, whole n') \<and> w_sockets (whole n') = w_sockets (whole n) \<and> queues (whole n') = queues (whole n)"
    and recv_refused: "in_use n \<Longrightarrow> recv_frame n = (Inl (Fail e), n') \<Longrightarrow> wr_recv W x s (whole n) = (Inl e, whole n')"
    and noted_back: "record_recv_metadata s m (whole n) = whole (noted m n)"
begin

lemma send_goes:
  assumes "in_use n" "sender (w_sockets (whole n) s)" "send_frame (wired (m, flags)) n = (Inr (), n')"
  shows "send W s m flags (whole n) = (Inr (message_len m), whole n')" "in_use n'" "w_sockets (whole n') = w_sockets (whole n)"
  using send_done [OF assms(1,3)] assms(2)
  by (simp_all add: send_def sender_path [OF assms(2)] send_transport_def active [OF assms(1)] after_pattern_send_def
      ensure_can_send_for_pattern_def sender_def Let_def)

lemma send_fails:
  assumes "in_use n" "sender (w_sockets (whole n) s)" "send_frame (wired (m, flags)) n = (Inl (Fail e), n')"
  shows "send W s m flags (whole n) = (Inl e, whole n')"
  using send_refused [OF assms(1,3)] assms(2)
  by (simp add: send_def sender_path [OF assms(2)] send_transport_def active [OF assms(1)] ensure_can_send_for_pattern_def sender_def Let_def)

lemma sends_go:
  assumes "in_use n" "sender (w_sockets (whole n) s)" "for_each (map wired ms) send_frame n = (Inr (), n')"
  shows "api_sends W s ms (whole n) = (Inr (), whole n')"
  using assms
proof (induction ms arbitrary: n)
  case (Cons p ms)
  obtain m flags where p: "p = (m, flags)"
    by (cases p)
  obtain n1 where n1: "send_frame (wired (m, flags)) n = (Inr (), n1)" "for_each (map wired ms) send_frame n1 = (Inr (), n')"
    using Cons.prems(3) p by (cases "send_frame (wired (m, flags)) n") (auto simp: bnd_apply split: sum.splits)
  show ?case
    using send_goes [OF Cons.prems(1,2) n1(1)] Cons.IH [of n1] n1(2) Cons.prems(2)
    by (simp add: api_sends_def api_send_with_flags_def p)
qed (simp add: api_sends_def)

lemma recv_comes:
  assumes "in_use n" "receiver s (whole n)" "recv_frame n = (Inr m, n')"
  shows "recv W s flags (whole n) = (Inr m, whole (noted m n'))" "receiver s (whole (noted m n'))"
proof -
  note d = recv_done [OF assms(1,3)]
  show r: "receiver s (whole (noted m n'))"
    using assms(2) d noted_back [of m n', symmetric] by (simp add: receiver_def record_recv_metadata_def)
  then have "after_pattern_recv s b (whole (noted m n')) = (Inr (), whole (noted m n'))" for b
    by (simp add: after_pattern_recv_def receiver_def)
  then show "recv W s flags (whole n) = (Inr m, whole (noted m n'))"
    using assms(2) d
    by (simp add: recv_def receiver_path active [OF assms(1)] noted_back ensure_can_recv_for_pattern_def Let_def)
      (simp add: receiver_def)
qed

lemma recv_fails:
  assumes "in_use n" "receiver s (whole n)" "recv_frame n = (Inl (Fail e), n')"
  shows "recv W s flags (whole n) = (Inl e, whole n')"
  using recv_refused [OF assms(1,3)] assms(2)
  by (simp add: recv_def receiver_path active [OF assms(1)] ensure_can_recv_for_pattern_def Let_def) (simp add: receiver_def)

lemma recvs_come:
  assumes "delivers in_use recv_frame noted n ms n'" "receiver s (whole n)"
  shows "repeated (length ms) (api_recv W s) (whole n) = (Inr ms, whole n')"
  using assms
proof (induction ms arbitrary: n)
  case (Cons m ms)
  then obtain n1 where "in_use n" "recv_frame n = (Inr m, n1)" "delivers in_use recv_frame noted (noted m n1) ms n'"
    by auto
  then show ?case
    using recv_comes [of n m n1] Cons by (simp add: api_recv_def)
qed simp

end

end
