(* ===== verification/Tcp_World.thy ===== *)
theory Tcp_World
  imports Tcp
begin

text \<open>
  The frame of the stream transports: without a ZAP handler in the context, a handshake, a send and a receive
  leave the context and its sockets as they are; they only move bytes and the state of the transport.
\<close>

section \<open>Computations on a stream\<close>

definition no_zap :: "'w world \<Rightarrow> bool" where
  "no_zap w \<longleftrightarrow> inproc_endpoint_of ZAP_ENDPOINT w = None"

definition keeps_world :: "('w io, fault, 'a) comp \<Rightarrow> bool" where
  "keeps_world f \<longleftrightarrow> (\<forall>st. no_zap (io_world st) \<longrightarrow>
     io_world (snd (f st)) = io_world st \<and> io_others (snd (f st)) = io_others st)"

named_theorems keeps_intros

lemma keeps_basic [keeps_intros]: "keeps_world (ret x)" "keeps_world (throw e)" "keeps_world (try_err r)" "keeps_world (read_exact k)"
  "keeps_world (write_all bs)" "keeps_world (set_read_timeout b)" "keeps_world (write_command bs)"
  by (simp_all add: keeps_world_def try_err_def read_exact_def write_all_def set_read_timeout_def write_command_def)

lemma keeps_entropy [keeps_intros]: "keeps_world (with_entropy f)"
  by (simp add: keeps_world_def with_entropy_def split: prod.split sum.split)

lemma keeps_authorize [keeps_intros]: "keeps_world (authorize_peer sec mech credentials r)"
  by (simp add: keeps_world_def authorize_peer_def no_zap_def try_err_def)

lemma keeps_bnd [keeps_intros]: "keeps_world f \<Longrightarrow> (\<And>x. keeps_world (F x)) \<Longrightarrow> keeps_world (bnd f F)"
  by (simp add: keeps_world_def bnd_apply split: sum.split)

lemma keeps_if [keeps_intros]: "(b \<Longrightarrow> keeps_world f) \<Longrightarrow> (\<not> b \<Longrightarrow> keeps_world g) \<Longrightarrow> keeps_world (if b then f else g)"
  by simp

lemma keeps_again [keeps_intros]: "keeps_world f \<Longrightarrow> keeps_world (or_again f)"
  unfolding keeps_world_def or_again_def by (auto split: prod.split sum.split fault.split error.split)

lemma keeps_sum [keeps_intros]:
  "(\<And>e x. keeps_world (f e x)) \<Longrightarrow> (\<And>y x. keeps_world (g y x)) \<Longrightarrow> keeps_world (case r of (Inl e, x) \<Rightarrow> f e x | (Inr y, x) \<Rightarrow> g y x)"
  by (simp split: prod.split sum.split)

lemma keeps_reads [keeps_intros]: "keeps_world (read_body_len b)" "keeps_world read_zmtp_frame_bytes" "keeps_world read_zmtp_frame"
  "keeps_world read_zmtp_frame_body" "keeps_world read_zmtp_greeting" "keeps_world read_zmtp_greeting_tail" "keeps_world read_zmtp_peer_greeting_prefix"
  unfolding read_body_len_def read_zmtp_frame_bytes_def read_zmtp_frame_def read_zmtp_frame_body_def read_zmtp_greeting_def
    read_zmtp_greeting_tail_def read_zmtp_peer_greeting_prefix_def Let_def
  by (intro keeps_intros)+

lemma keeps_prod [keeps_intros]: "(\<And>x y. keeps_world (f x y)) \<Longrightarrow> keeps_world (case p of (x, y) \<Rightarrow> f x y)"
  by (simp split: prod.split)

lemma keeps_handshake [keeps_intros]: "keeps_world (write_zmtp_handshake C t as_server sec rid)"
  unfolding write_zmtp_handshake_def mechanism_handshake_def write_plain_handshake_def write_curve_handshake_def
    write_placeholder_gssapi_handshake_def Let_def
  by (intro keeps_intros)

lemma keeps_peer_ready [keeps_intros]: "keeps_world (read_zmtp_peer_ready :: ('w io, _, _) comp)"
proof -
  have "io_world (snd (read_zmtp_peer_ready st)) = io_world st \<and> io_others (snd (read_zmtp_peer_ready st)) = io_others st" if "no_zap (io_world st)" for st :: "'w io"
    using that
  proof (induction st rule: read_zmtp_peer_ready.induct)
    case (1 st)
    then show ?case
      using keeps_reads(3) by (auto simp: read_zmtp_peer_ready.simps [of st] keeps_world_def try_err_def split: prod.split sum.split)
  qed
  then show ?thesis
    by (simp add: keeps_world_def)
qed

lemma keeps_next_message [keeps_intros]: "keeps_world (next_message_frame :: ('w io, _, _) comp)"
proof -
  have "io_world (snd (next_message_frame st)) = io_world st \<and> io_others (snd (next_message_frame st)) = io_others st" if "no_zap (io_world st)" for st :: "'w io"
    using that
  proof (induction st rule: next_message_frame.induct)
    case (1 st)
    then show ?case
      using keeps_reads(3) by (auto simp: next_message_frame.simps [of st] keeps_world_def split: prod.split sum.split)
  qed
  then show ?thesis
    by (simp add: keeps_world_def)
qed


section \<open>Operations of the transport\<close>

text \<open>What an operation on an established or new connection leaves alone.\<close>

definition node_frame :: "'w tcp_node \<Rightarrow> 'w world \<times> ('w world \<Rightarrow> 'w world) list \<times> nat \<times> bool \<times> tcp_endpoint option \<times> tcp_endpoint option" where
  "node_frame n = (io_world (tn_io n), io_others (tn_io n), tn_now n, tcp_listener (tn_tcp n), tcp_bound_endpoint (tn_tcp n),
     tcp_connected_endpoint (tn_tcp n))"

definition keeps_node :: "('w, 'a) tcp_op \<Rightarrow> bool" where
  "keeps_node f \<longleftrightarrow> (\<forall>n. no_zap (io_world (tn_io n)) \<longrightarrow> node_frame (snd (f n)) = node_frame n)"

named_theorems keeps_node_intros

lemma keeps_nodeD: "keeps_node f \<Longrightarrow> no_zap (io_world (tn_io n)) \<Longrightarrow> node_frame (snd (f n)) = node_frame n"
  by (simp add: keeps_node_def)

lemma keeps_node_basic [keeps_node_intros]: "keeps_node (ret x)" "keeps_node (throw e)" "keeps_node (gets h)" "keeps_node (try_result r)"
  "keeps_node (os_call c)" "keeps_node (configure_tcp_stream a)" "keeps_node pop_raw"
  by (simp_all add: keeps_node_def node_frame_def try_result_def os_call_def configure_tcp_stream_def pop_raw_def split: list.split)

lemma keeps_node_update [keeps_node_intros]:
  "(\<And>tcp. tcp_listener (f tcp) = tcp_listener tcp \<and> tcp_bound_endpoint (f tcp) = tcp_bound_endpoint tcp
     \<and> tcp_connected_endpoint (f tcp) = tcp_connected_endpoint tcp) \<Longrightarrow> keeps_node (update_tcp f)"
  by (simp add: keeps_node_def node_frame_def update_tcp_def)

lemma keeps_node_bnd [keeps_node_intros]: "keeps_node f \<Longrightarrow> (\<And>x. keeps_node (F x)) \<Longrightarrow> keeps_node (bnd f F)"
  by (simp add: keeps_node_def node_frame_def bnd_apply split: sum.split)

lemma keeps_node_if [keeps_node_intros]: "(b \<Longrightarrow> keeps_node f) \<Longrightarrow> (\<not> b \<Longrightarrow> keeps_node g) \<Longrightarrow> keeps_node (if b then f else g)"
  by simp

lemma keeps_node_stream [keeps_node_intros]: "keeps_world m \<Longrightarrow> keeps_node (on_stream m)"
  by (auto simp: keeps_node_def node_frame_def keeps_world_def on_stream_def split: prod.split)

lemma keeps_node_cases [keeps_node_intros]:
  "keeps_node f \<Longrightarrow> (\<And>x. keeps_node (g x)) \<Longrightarrow> keeps_node (case r of None \<Rightarrow> f | Some x \<Rightarrow> g x)"
  "(\<And>k. keeps_node (h k)) \<Longrightarrow> (\<And>x. keeps_node (g x)) \<Longrightarrow> keeps_node (case t of Inl k \<Rightarrow> h k | Inr x \<Rightarrow> g x)"
  "(\<And>x y. keeps_node (p x y)) \<Longrightarrow> keeps_node (case q of (x, y) \<Rightarrow> p x y)"
  by (simp_all split: option.split sum.split prod.split)

lemma keeps_node_ensure [keeps_node_intros]: "keeps_node ensure_tcp_stream"
  unfolding ensure_tcp_stream_def reconnect_tcp_def accept_tcp_def by (intro keeps_node_intros; simp add: new_peer_def)

lemma keeps_node_write [keeps_node_intros]: "keeps_node (write_tcp_message C d b)"
  unfolding write_tcp_message_def by (intro keeps_node_intros keeps_intros) simp

lemma keeps_node_parts [keeps_node_intros]: "keeps_node (send_tcp_hello_message C h)" "keeps_node (send_tcp_probe_router C t b)"
  "keeps_node (start_handshake C k)" "keeps_node finish_handshake" "keeps_node (tcp_disconnect_message_or_error os e)" "keeps_node (send_raw m)"
  "keeps_node (pop_raw_or e)"
  unfolding send_tcp_hello_message_def send_tcp_probe_router_def write_tcp_message_frame_def start_handshake_def finish_handshake_def
    tcp_disconnect_message_or_error_def send_raw_def pop_raw_or_def Let_def
  by (intro keeps_node_intros keeps_intros; simp add: reset_tcp_stream_state_def new_peer_def)+

lemma keeps_node_disconnected [keeps_node_intros]:
  assumes "keeps_world m" and "\<And>x. keeps_node (f x)"
  shows "keeps_node (or_disconnected os m f)"
proof -
  have "node_frame (snd (or_disconnected os m f n)) = node_frame n" if z: "no_zap (io_world (tn_io n))" for n
  proof (cases "on_stream m n")
    case (Pair r n1)
    then have "node_frame n1 = node_frame n" "no_zap (io_world (tn_io n1))"
      using keeps_nodeD [OF keeps_node_stream [OF assms(1)] z] z by (simp_all add: node_frame_def)
    then show ?thesis
      using Pair z keeps_nodeD [OF assms(2), of n1] keeps_nodeD [OF keeps_node_parts(5), of n1]
      by (auto simp: or_disconnected_def split: sum.split fault.split)
  qed
  then show ?thesis
    by (simp add: keeps_node_def)
qed

lemma keeps_node_read [keeps_node_intros]: "keeps_node (read_tcp_message C os)"
  unfolding read_tcp_message_def by (intro keeps_node_intros keeps_intros) simp

lemma keeps_node_raw [keeps_node_intros]: "keeps_node (read_raw_message b :: ('w, _) tcp_op)"
proof -
  have "keeps_world (read_raw_tcp :: ('w io, _, _) comp)"
    by (simp add: keeps_world_def read_raw_tcp_def)
  note stream = keeps_node_stream [OF this]
  have queue: "keeps_node (bnd (update_tcp (enqueue_tcp_stream_message d)) (\<lambda>_. pop_raw_or Again) :: ('w, message) tcp_op)" for d
    by (intro keeps_node_intros) (simp add: enqueue_tcp_stream_message_def)
  have close: "keeps_node (bnd (update_tcp (\<lambda>tcp. reset_tcp_stream_state_after_pending (enqueue_tcp_stream_message [] tcp)))
      (\<lambda>_. pop_raw_or e) :: ('w, message) tcp_op)" for e
    by (intro keeps_node_intros) (simp add: enqueue_tcp_stream_message_def reset_tcp_stream_state_after_pending_def new_peer_def)
  have "node_frame (snd (read_raw_message b n)) = node_frame n" if z: "no_zap (io_world (tn_io n))" for n :: "'w tcp_node"
  proof (cases "on_stream read_raw_tcp n")
    case (Pair r n1)
    then have "node_frame n1 = node_frame n" "no_zap (io_world (tn_io n1))"
      using keeps_nodeD [OF stream z] z by (simp_all add: node_frame_def)
    then show ?thesis
      using Pair keeps_nodeD [OF queue, of n1] keeps_nodeD [OF close, of n1]
      by (auto simp: read_raw_message_def split: sum.split fault.split)
  qed
  then show ?thesis
    by (simp add: keeps_node_def)
qed

lemma frames_keep_world: "keeps_node (send_tcp_frame C s m)" "keeps_node (recv_tcp_frame C s)"
  unfolding send_tcp_frame_def recv_tcp_frame_def recv_raw_def by (intro keeps_node_intros; simp add: enqueue_tcp_stream_message_def)+

end
