(* ===== verification/Ipc_Link.thy ===== *)
theory Ipc_Link
  imports Ipc Tcp_Link Tcp_World
begin

text \<open>
  The IPC transport does what the TCP transport does on the same streams, so that what holds of a TCP
  connection holds of an IPC connection.
\<close>

section \<open>The state of an IPC transport as one of a TCP transport\<close>

text \<open>
  Which endpoint is bound does not matter on a stream, only that one is; an IPC socket never connects again by
  itself, like a TCP socket without an address to connect to.
\<close>

definition session_as_tcp :: "ipc_state \<Rightarrow> tcp_state" where
  "session_as_tcp ipc = tcp_state_default
     \<lparr>tcp_listener := ipc_listener ipc, tcp_stream := ipc_stream ipc,
      tcp_bound_endpoint := map_option (\<lambda>_. \<lparr>tcp_host = [], tcp_port = 0\<rparr>) (ipc_bound_endpoint ipc),
      tcp_handshake_started := ipc_handshake_started ipc, tcp_peer_greeting_done := ipc_peer_greeting_done ipc,
      tcp_peer_ready := ipc_peer_ready ipc, tcp_peer_identity := ipc_peer_identity ipc, tcp_hello_sent := ipc_hello_sent ipc,
      tcp_probe_router_sent := ipc_probe_router_sent ipc, tcp_curve_session := ipc_curve_session ipc\<rparr>"

definition node_as_tcp :: "tcp_state \<Rightarrow> 'w ipc_node \<Rightarrow> 'w tcp_node" where
  "node_as_tcp tcp n = \<lparr>tn_io = tn_io n, tn_os = tn_os n, tn_calls = tn_calls n, tn_tcp = tcp, tn_now = 0\<rparr>"

text \<open>Without a stream, what is left of the last session is ignored.\<close>

definition as_tcp :: "'w ipc_node \<Rightarrow> 'w tcp_node" where
  "as_tcp n = node_as_tcp (let tcp = session_as_tcp (in_ipc n) in if ipc_stream (in_ipc n) then tcp else new_peer tcp) n"

definition raw_tcp :: "'w ipc_node \<Rightarrow> 'w tcp_node" where
  "raw_tcp n = node_as_tcp (session_as_tcp (in_ipc n)) n"

lemma session_fields [simp]:
  "tcp_listener (session_as_tcp ipc) = ipc_listener ipc" "tcp_stream (session_as_tcp ipc) = ipc_stream ipc"
  "tcp_bound_endpoint (session_as_tcp ipc) = None \<longleftrightarrow> ipc_bound_endpoint ipc = None" "tcp_connected_endpoint (session_as_tcp ipc) = None"
  "tcp_handshake_started (session_as_tcp ipc) = ipc_handshake_started ipc" "tcp_peer_greeting_done (session_as_tcp ipc) = ipc_peer_greeting_done ipc"
  "tcp_peer_ready (session_as_tcp ipc) = ipc_peer_ready ipc" "tcp_peer_identity (session_as_tcp ipc) = ipc_peer_identity ipc"
  "tcp_hello_sent (session_as_tcp ipc) = ipc_hello_sent ipc" "tcp_probe_router_sent (session_as_tcp ipc) = ipc_probe_router_sent ipc"
  "tcp_curve_session (session_as_tcp ipc) = ipc_curve_session ipc"
  by (simp_all add: session_as_tcp_def tcp_state_default_def)

lemma node_fields [simp]:
  "tn_io (node_as_tcp tcp n) = tn_io n" "tn_os (node_as_tcp tcp n) = tn_os n" "tn_calls (node_as_tcp tcp n) = tn_calls n"
  "tn_tcp (node_as_tcp tcp n) = tcp"
  by (simp_all add: node_as_tcp_def)

lemma as_tcp_fields [simp]: "tn_io (as_tcp n) = tn_io n" "tn_io (raw_tcp n) = tn_io n" "tn_tcp (raw_tcp n) = session_as_tcp (in_ipc n)"
  by (simp_all add: as_tcp_def raw_tcp_def)

lemma new_peer_session: "new_peer (session_as_tcp ipc) = session_as_tcp (new_ipc_peer ipc)"
  by (simp add: new_peer_def new_ipc_peer_def session_as_tcp_def tcp_state_default_def)

text \<open>The two views of a node agree on a stream and after a reset.\<close>

definition settled :: "ipc_state \<Rightarrow> bool" where
  "settled ipc \<longleftrightarrow> ipc_stream ipc \<or> new_ipc_peer ipc = ipc"

lemma as_tcp_settled: "settled (in_ipc n) \<Longrightarrow> as_tcp n = raw_tcp n"
  by (auto simp: as_tcp_def raw_tcp_def settled_def new_peer_session Let_def)


section \<open>Operations that do the same\<close>

definition copies :: "('w, 'a) ipc_op \<Rightarrow> ('w, 'a) tcp_op \<Rightarrow> bool" where
  "copies f g \<longleftrightarrow> (\<forall>n. g (raw_tcp n) = map_prod id raw_tcp (f n))"

named_theorems copies_intros

lemma copiesD: "copies f g \<Longrightarrow> g (raw_tcp n) = map_prod id raw_tcp (f n)"
  by (simp add: copies_def)

lemma copies_ret [copies_intros]: "copies (ret x) (ret x)" "copies (throw e) (throw e)" "copies (try_result r) (try_result r)"
  by (simp_all add: copies_def try_result_def)

lemma copies_bnd [copies_intros]:
  assumes "copies f g" and "\<And>x. copies (F x) (G x)"
  shows "copies (bnd f F) (bnd g G)"
proof -
  have "bnd g G (raw_tcp n) = map_prod id raw_tcp (bnd f F n)" for n
    using copiesD [OF assms(1), of n] copiesD [OF assms(2)] by (cases "f n") (auto simp: bnd_def split: sum.split)
  then show ?thesis
    by (simp add: copies_def)
qed

lemma copies_if [copies_intros]: "(b \<Longrightarrow> copies f g) \<Longrightarrow> (\<not> b \<Longrightarrow> copies f' g') \<Longrightarrow> copies (if b then f else f') (if b then g else g')"
  by simp

lemma copies_gets [copies_intros]: "(\<And>n. h (raw_tcp n) = k n) \<Longrightarrow> copies (gets k) (gets h)"
  by (simp add: copies_def)

lemma copies_state [copies_intros]: "(\<And>ipc. copies (F ipc) (G (session_as_tcp ipc))) \<Longrightarrow> copies (bnd (gets in_ipc) F) (bnd (gets tn_tcp) G)"
  by (simp add: copies_def)

lemma copies_update [copies_intros]: "(\<And>ipc. g (session_as_tcp ipc) = session_as_tcp (f ipc)) \<Longrightarrow> copies (update_ipc f) (update_tcp g)"
  by (simp add: copies_def update_ipc_def update_tcp_def raw_tcp_def node_as_tcp_def)

lemma copies_stream [copies_intros]: "copies (on_ipc_stream m) (on_stream m)"
  by (auto simp: copies_def on_ipc_stream_def on_stream_def raw_tcp_def node_as_tcp_def split: prod.split)

lemma copies_write: "copies (write_ipc_message C d b) (write_tcp_message C d b)"
  unfolding write_ipc_message_def write_tcp_message_def
  by (intro copies_intros) (auto intro!: copies_intros simp: session_as_tcp_def split: option.split prod.split)

lemma copies_hello: "copies (send_ipc_hello_message C h) (send_tcp_hello_message C h)"
  unfolding send_ipc_hello_message_def send_tcp_hello_message_def write_ipc_message_frame_def write_tcp_message_frame_def
  by (intro copies_intros copies_write) (simp_all add: session_as_tcp_def)

lemma copies_probe: "copies (send_ipc_probe_router C t b) (send_tcp_probe_router C t b)"
  unfolding send_ipc_probe_router_def send_tcp_probe_router_def write_ipc_message_frame_def write_tcp_message_frame_def
  by (intro copies_intros copies_write) (simp_all add: session_as_tcp_def)

lemma copies_start: "copies (start_ipc_handshake C k) (start_handshake C k)"
  unfolding start_ipc_handshake_def start_handshake_def ipc_handshake
  by (intro copies_state) (auto intro!: copies_intros simp: session_as_tcp_def)

lemma copies_finish: "copies finish_ipc_handshake finish_handshake"
proof -
  have r: "read_zmtp_peer_ready_ipc = read_zmtp_peer_ready"
    by (rule ext) (rule ipc_peer_ready)
  show ?thesis
    unfolding finish_ipc_handshake_def finish_handshake_def ipc_reads r
    by (intro copies_intros) (simp_all add: session_as_tcp_def)
qed

lemma copies_disconnect: "copies (ipc_disconnect_message_or_error os e) (tcp_disconnect_message_or_error os e)"
  unfolding ipc_disconnect_message_or_error_def tcp_disconnect_message_or_error_def Let_def
  by (intro copies_intros) (simp add: reset_tcp_stream_state_def reset_ipc_stream_state_def new_peer_def new_ipc_peer_def session_as_tcp_def
      tcp_state_default_def)

lemma copies_or_disconnected:
  assumes "\<And>x. copies (F x) (G x)"
  shows "copies (or_ipc_disconnected os m F) (or_disconnected os m G)"
proof -
  have "or_disconnected os m G (raw_tcp n) = map_prod id raw_tcp (or_ipc_disconnected os m F n)" for n
    using copiesD [OF copies_stream, of m n] copiesD [OF assms] copiesD [OF copies_disconnect]
    by (cases "on_ipc_stream m n") (auto simp: or_disconnected_def or_ipc_disconnected_def split: sum.split fault.split)
  then show ?thesis
    by (simp add: copies_def)
qed

lemma copies_read: "copies (read_ipc_message C os) (read_tcp_message C os)"
proof -
  have r: "next_message_frame_ipc = next_message_frame"
    by (rule ext) (rule ipc_next_message)
  show ?thesis
    unfolding read_ipc_message_def read_tcp_message_def ipc_reads r
    by (intro copies_state) (auto intro!: copies_or_disconnected copies_intros simp: session_as_tcp_def split: option.split prod.split)
qed

text \<open>A stream that is held stays, until an operation gives it up and resets the session.\<close>

definition holds :: "('w, 'a) ipc_op \<Rightarrow> bool" where
  "holds f \<longleftrightarrow> (\<forall>n. ipc_stream (in_ipc n) \<longrightarrow> ipc_stream (in_ipc (snd (f n))))"

named_theorems holds_intros

lemma holds_basic [holds_intros]: "holds (ret x)" "holds (throw e)" "holds (try_result r)" "holds (gets h)" "holds (on_ipc_stream m)"
  by (simp_all add: holds_def try_result_def on_ipc_stream_def split: prod.split)

lemma holds_bnd [holds_intros]: "holds f \<Longrightarrow> (\<And>x. holds (F x)) \<Longrightarrow> holds (bnd f F)"
  by (simp add: holds_def bnd_apply split: sum.split)

lemma holds_if [holds_intros]: "(b \<Longrightarrow> holds f) \<Longrightarrow> (\<not> b \<Longrightarrow> holds g) \<Longrightarrow> holds (if b then f else g)"
  by simp

lemma holds_update [holds_intros]: "(\<And>ipc. ipc_stream (f ipc) = ipc_stream ipc) \<Longrightarrow> holds (update_ipc f)"
  by (simp add: holds_def update_ipc_def)

lemma holds_write: "holds (write_ipc_message C d b)"
  unfolding write_ipc_message_def by (intro holds_intros) (auto intro!: holds_intros split: option.split prod.split)

lemma holds_setup: "holds (send_ipc_hello_message C h)" "holds (send_ipc_probe_router C t b)" "holds (start_ipc_handshake C k)" "holds finish_ipc_handshake"
  unfolding send_ipc_hello_message_def send_ipc_probe_router_def write_ipc_message_frame_def start_ipc_handshake_def finish_ipc_handshake_def
  by (intro holds_intros holds_write; simp)+

lemma disconnected_settles:
  assumes "ipc_stream (in_ipc n)" and "\<And>x. holds (F x)"
  shows "settled (in_ipc (snd (or_ipc_disconnected os m F n)))"
proof -
  have "ipc_stream (in_ipc (snd (on_ipc_stream m n)))"
    using holds_basic(5) [of m] assms(1) by (simp add: holds_def)
  moreover have "settled (in_ipc (snd (ipc_disconnect_message_or_error os e n1)))" if "ipc_stream (in_ipc n1)" for e n1
    using that by (simp add: ipc_disconnect_message_or_error_def Let_def settled_def bnd_apply update_ipc_def reset_ipc_stream_state_def new_ipc_peer_def)
  ultimately show ?thesis
    using assms by (cases "on_ipc_stream m n") (auto simp: or_ipc_disconnected_def holds_def settled_def split: sum.split fault.split)
qed

lemma read_settles:
  assumes "ipc_stream (in_ipc n)"
  shows "settled (in_ipc (snd (read_ipc_message C os n)))"
  using assms unfolding read_ipc_message_def
  by (auto simp: bnd_apply [of "gets in_ipc"] intro!: disconnected_settles holds_intros split: option.split prod.split)


section \<open>Refinement\<close>

lemma ensure_as_tcp: "ensure_tcp_stream (as_tcp n) = map_prod id as_tcp (ensure_ipc_stream n)"
proof (cases "ipc_stream (in_ipc n) \<or> \<not> ipc_listener (in_ipc n)")
  case True
  then show ?thesis
    by (auto simp: ensure_tcp_stream_def ensure_ipc_stream_def as_tcp_def Let_def new_peer_def)
next
  case False
  then show ?thesis
    by (cases "tn_os n") (auto simp: ensure_tcp_stream_def ensure_ipc_stream_def accept_tcp_def as_tcp_def Let_def new_peer_def new_ipc_peer_def
        os_call_def bnd_apply configure_tcp_stream_def configure_ipc_stream_def update_tcp_def update_ipc_def node_as_tcp_def session_as_tcp_def
        tcp_state_default_def split: sum.split)
qed

lemma ensure_holds: "ensure_ipc_stream n = (Inr (), n1) \<Longrightarrow> ipc_stream (in_ipc n1)"
  by (auto simp: ensure_ipc_stream_def bnd_apply update_ipc_def new_ipc_peer_def split: if_splits sum.splits)

lemma ensure_kept: "ipc_stream (in_ipc n) \<Longrightarrow> ensure_ipc_stream n = (Inr (), n)"
  by (simp add: ensure_ipc_stream_def)

lemma ensure_socket: "tn_socket s (snd (ensure_ipc_stream n)) = tn_socket s n"
  by (auto simp: ensure_ipc_stream_def bnd_apply os_call_def configure_ipc_stream_def update_ipc_def split: list.split sum.split)

text \<open>An operation that first makes sure of the stream.\<close>

lemma after_ensure:
  assumes "copies f g" and "\<And>n. ipc_stream (in_ipc n) \<Longrightarrow> settled (in_ipc (snd (f n)))"
  shows "bnd ensure_tcp_stream (\<lambda>_. g) (as_tcp n) = map_prod id as_tcp (bnd ensure_ipc_stream (\<lambda>_. f) n)"
proof (cases "ensure_ipc_stream n")
  case (Pair r n1)
  show ?thesis
  proof (cases r)
    case (Inr x)
    with Pair have "ipc_stream (in_ipc n1)"
      using ensure_holds [of n n1] by simp
    then have "as_tcp n1 = raw_tcp n1" "as_tcp (snd (f n1)) = raw_tcp (snd (f n1))"
      using assms(2) by (auto intro: as_tcp_settled simp: settled_def)
    then show ?thesis
      using Pair Inr ensure_as_tcp [of n] copiesD [OF assms(1), of n1] by (cases "f n1") (simp add: bnd_apply)
  qed (use Pair ensure_as_tcp [of n] in \<open>simp add: bnd_apply\<close>)
qed

text \<open>Sending and receiving on other than STREAM sockets, with the socket read beforehand.\<close>

lemma bnd_assoc: "bnd (bnd m f) g = bnd m (\<lambda>x. bnd (f x) g)"
  by (rule ext) (simp add: bnd_apply split: sum.split)

lemma bnd_gets_fixed:
  assumes "h (snd (m n)) = k"
  shows "bnd m (\<lambda>_. bnd (gets h) F) n = bnd m (\<lambda>_. F k) n"
  using assms by (auto simp: bnd_apply split: sum.split)

lemma ipc_frames:
  assumes "k = tn_socket s n" "sk_type k \<noteq> Stream"
  shows "send_ipc_frame C s m n = bnd ensure_ipc_stream (\<lambda>_. bnd (start_ipc_handshake C k) (\<lambda>_.
      bnd (send_ipc_hello_message C (opt_hello_msg (sk_options k))) (\<lambda>_.
      bnd (send_ipc_probe_router C (sk_type k) (opt_probe_router (sk_options k))) (\<lambda>_. write_ipc_message C (data m) (msg_more m))))) n"
    "recv_ipc_frame C s n = bnd ensure_ipc_stream (\<lambda>_. bnd (start_ipc_handshake C k) (\<lambda>_. bnd finish_ipc_handshake (\<lambda>_.
      bnd (send_ipc_hello_message C (opt_hello_msg (sk_options k))) (\<lambda>_.
      bnd (send_ipc_probe_router C (sk_type k) (opt_probe_router (sk_options k))) (\<lambda>_. read_ipc_message C (sk_options k)))))) n"
  using assms ensure_socket [of n s] unfolding send_ipc_frame_def recv_ipc_frame_def
  by (simp_all add: bnd_gets_fixed [of "tn_socket s" ensure_ipc_stream n k])

lemma tcp_frames:
  assumes "k = tn_socket s n" "sk_type k \<noteq> Stream"
  shows "send_tcp_frame C s m (as_tcp n) = bnd ensure_tcp_stream (\<lambda>_. bnd (start_handshake C k) (\<lambda>_.
      bnd (send_tcp_hello_message C (opt_hello_msg (sk_options k))) (\<lambda>_.
      bnd (send_tcp_probe_router C (sk_type k) (opt_probe_router (sk_options k))) (\<lambda>_. write_tcp_message C (data m) (msg_more m))))) (as_tcp n)"
    "recv_tcp_frame C s (as_tcp n) = bnd ensure_tcp_stream (\<lambda>_. bnd (start_handshake C k) (\<lambda>_. bnd finish_handshake (\<lambda>_.
      bnd (send_tcp_hello_message C (opt_hello_msg (sk_options k))) (\<lambda>_.
      bnd (send_tcp_probe_router C (sk_type k) (opt_probe_router (sk_options k))) (\<lambda>_. read_tcp_message C (sk_options k)))))) (as_tcp n)"
proof -
  have "tn_socket s (snd (ensure_tcp_stream (as_tcp n))) = k"
    using assms(1) ensure_socket [of n s] by (simp add: ensure_as_tcp)
  then show "send_tcp_frame C s m (as_tcp n) = bnd ensure_tcp_stream (\<lambda>_. bnd (start_handshake C k) (\<lambda>_.
      bnd (send_tcp_hello_message C (opt_hello_msg (sk_options k))) (\<lambda>_.
      bnd (send_tcp_probe_router C (sk_type k) (opt_probe_router (sk_options k))) (\<lambda>_. write_tcp_message C (data m) (msg_more m))))) (as_tcp n)"
    using assms(2) unfolding send_tcp_frame_def by (simp add: bnd_gets_fixed [of "tn_socket s" ensure_tcp_stream "as_tcp n" k])
qed (use assms in \<open>simp add: recv_tcp_frame_def\<close>)

lemma frames_as_tcp:
  fixes n :: "'w ipc_node"
  assumes "sk_type (tn_socket s n) \<noteq> Stream"
  shows "send_tcp_frame C s m (as_tcp n) = map_prod id as_tcp (send_ipc_frame C s m n)
    \<and> recv_tcp_frame C s (as_tcp n) = map_prod id as_tcp (recv_ipc_frame C s n)"
proof -
  let ?k = "tn_socket s n"
  let ?hello = "opt_hello_msg (sk_options ?k)" and ?probe = "opt_probe_router (sk_options ?k)"
  let ?send = "bnd (start_ipc_handshake C ?k) (\<lambda>_. bnd (send_ipc_hello_message C ?hello) (\<lambda>_.
      bnd (send_ipc_probe_router C (sk_type ?k) ?probe) (\<lambda>_. write_ipc_message C (data m) (msg_more m)))) :: ('w, unit) ipc_op"
  let ?pre = "bnd (start_ipc_handshake C ?k) (\<lambda>_. bnd finish_ipc_handshake (\<lambda>_. bnd (send_ipc_hello_message C ?hello) (\<lambda>_.
      send_ipc_probe_router C (sk_type ?k) ?probe))) :: ('w, unit) ipc_op"
  have "holds ?send" "holds ?pre"
    by (intro holds_intros holds_setup holds_write)+
  then have s: "settled (in_ipc (snd (?send n')))" "ipc_stream (in_ipc (snd (?pre n')))" if "ipc_stream (in_ipc n')" for n'
    using that by (simp_all add: holds_def settled_def)
  have "settled (in_ipc (snd (bnd ?pre (\<lambda>_. read_ipc_message C (sk_options ?k)) n')))" if "ipc_stream (in_ipc n')" for n' :: "'w ipc_node"
    using s(2) [OF that] read_settles [of "snd (?pre n')"] by (simp add: bnd_apply [of ?pre] settled_def split: sum.split)
  then have r: "settled (in_ipc (snd (bnd (start_ipc_handshake C ?k) (\<lambda>_. bnd finish_ipc_handshake (\<lambda>_.
      bnd (send_ipc_hello_message C ?hello) (\<lambda>_. bnd (send_ipc_probe_router C (sk_type ?k) ?probe) (\<lambda>_. read_ipc_message C (sk_options ?k))))) n')))"
    if "ipc_stream (in_ipc n')" for n' :: "'w ipc_node"
    using that by (simp add: bnd_assoc)
  show ?thesis
    unfolding ipc_frames [OF refl assms] tcp_frames [OF refl assms]
    by (intro conjI after_ensure copies_intros copies_start copies_finish copies_hello copies_probe copies_write copies_read s(1) r)
qed

text \<open>
  C12. The IPC transport is the TCP transport on other streams. For a socket of any type but STREAM, in any state of
  the transport, with any replies of the operating system and any bytes from the peer, sending and
  receiving a frame over IPC give the result of sending and receiving over TCP in the corresponding state
  (with no address to connect to), write the same bytes and leave corresponding states. The handshakes,
  the frame readers and the loops that were written out a second time for IPC thus agree with the first.
\<close>

theorem ipc_refines_tcp:
  fixes n :: "'w ipc_node"
  assumes "sk_type (tn_socket s n) \<noteq> Stream"
  shows "send_tcp_frame C s m (as_tcp n) = map_prod id as_tcp (send_ipc_frame C s m n)
    \<and> recv_tcp_frame C s (as_tcp n) = map_prod id as_tcp (recv_ipc_frame C s n)"
  using frames_as_tcp [OF assms] .

theorem ipc_refines_tcp_witness:
  "recv_tcp_frame plain_crypto 0 (as_tcp (\<lparr>tn_io = tn_io (node_example Pull security_options_default []), tn_os = [Inl WouldBlock], tn_calls = [],
       in_ipc = ipc_state_default\<lparr>ipc_listener := True\<rparr>\<rparr> :: unit ipc_node)) =
     map_prod id as_tcp (recv_ipc_frame plain_crypto 0 (\<lparr>tn_io = tn_io (node_example Pull security_options_default []), tn_os = [Inl WouldBlock],
       tn_calls = [], in_ipc = ipc_state_default\<lparr>ipc_listener := True\<rparr>\<rparr>))"
  by (rule ipc_refines_tcp [THEN conjunct2]) (simp add: node_example_def update_socket_def)


section \<open>A link\<close>

text \<open>Without a ZAP handler the socket stays as it is, so that whole sequences correspond.\<close>

definition ipc_ready :: "ref \<Rightarrow> socket \<Rightarrow> 'w ipc_node \<Rightarrow> bool" where
  "ipc_ready s k n \<longleftrightarrow> tn_socket s n = k \<and> sk_type k \<noteq> Stream \<and> no_zap (io_world (tn_io n))"

lemma ipc_ready_step:
  assumes "ipc_ready s k n"
  shows "ipc_ready s k (snd (send_ipc_frame C s m n))" "ipc_ready s k (snd (recv_ipc_frame C s n))"
    "send_tcp_frame C s m (as_tcp n) = map_prod id as_tcp (send_ipc_frame C s m n)"
    "recv_tcp_frame C s (as_tcp n) = map_prod id as_tcp (recv_ipc_frame C s n)"
proof -
  show "send_tcp_frame C s m (as_tcp n) = map_prod id as_tcp (send_ipc_frame C s m n)"
    "recv_tcp_frame C s (as_tcp n) = map_prod id as_tcp (recv_ipc_frame C s n)"
    using frames_as_tcp [of n s] assms by (simp_all add: ipc_ready_def)
  then show "ipc_ready s k (snd (send_ipc_frame C s m n))" "ipc_ready s k (snd (recv_ipc_frame C s n))"
    using keeps_nodeD [OF frames_keep_world(1), of "as_tcp n" C s m] keeps_nodeD [OF frames_keep_world(2), of "as_tcp n" C s] assms
    by (simp_all add: ipc_ready_def node_frame_def)
qed

lemma sends_as_tcp:
  assumes "ipc_ready s k n"
  shows "for_each ms (send_tcp_frame C s) (as_tcp n) = map_prod id as_tcp (for_each ms (send_ipc_frame C s) n)"
  using assms
proof (induction ms arbitrary: n)
  case (Cons m ms)
  then show ?case
    using ipc_ready_step(1,3) [OF Cons.prems, of C m] by (cases "send_ipc_frame C s m n") (auto simp: bnd_def split: sum.split)
qed simp

lemma recvs_as_tcp:
  assumes "ipc_ready s k n"
  shows "repeated j (recv_tcp_frame C s) (as_tcp n) = map_prod id as_tcp (repeated j (recv_ipc_frame C s) n)"
  using assms
proof (induction j arbitrary: n)
  case (Suc j)
  obtain r n1 where r: "recv_ipc_frame C s n = (r, n1)"
    by fastforce
  then have "ipc_ready s k n1"
    using ipc_ready_step(2) [OF Suc.prems, of C] by simp
  from Suc.IH [OF this] show ?case
    using r ipc_ready_step(4) [OF Suc.prems, of C] by (cases "repeated j (recv_ipc_frame C s) n1") (auto simp: bnd_def split: sum.split)
qed simp

lemma connect_ipc_fresh:
  assumes "tcp_socket s e (as_tcp n)" "ipc_parse ep = Inr t" "ipc_bound_endpoint (in_ipc n) = None"
  obtains n' where "connect_ipc s ep (n\<lparr>tn_os := [Inr (arriving, x)]\<rparr>) = (Inr (), n')"
    "fresh_stream s (at_endpoint ep (tn_socket s n)) False (as_tcp n')" "ready_state e (tn_io n')" "io_in (tn_io n') = arriving" "io_out (tn_io n') = []"
  using assms
  by (simp add: connect_ipc_def tcp_socket_def os_call_def configure_ipc_stream_def new_ipc_peer_def fresh_stream_def try_io_def update_ipc_def
      update_world_def try_result_def ready_state_def inproc_endpoint_of_def set_last_endpoint_def at_endpoint_def as_tcp_def Let_def)

lemma bind_ipc_fresh:
  assumes "tcp_socket s e (as_tcp n)" "ipc_parse ep = Inr t" "\<not> ipc_stream (in_ipc n)"
  obtains n1 n' where "bind_ipc s ep (n\<lparr>tn_os := [Inr y, Inr (arriving, x)]\<rparr>) = (Inr (), n1)" "ensure_ipc_stream n1 = (Inr (), n')"
    "fresh_stream s (at_endpoint ep (tn_socket s n)) True (as_tcp n')" "ready_state e (tn_io n')" "io_in (tn_io n') = arriving" "io_out (tn_io n') = []"
    "tn_socket s n1 = tn_socket s n'"
proof -
  let ?w = "\<lambda>w. set_last_endpoint s ep (emit_monitor_event s ZMQ_EVENT_LISTENING 0 ep w)"
  let ?n1 = "n\<lparr>tn_os := [Inr (arriving, x)], tn_calls := tn_calls n @ [Listen (ipc_path t)],
      in_ipc := new_ipc_peer ((in_ipc n)\<lparr>ipc_listener := True, ipc_bound_endpoint := Some t\<rparr>),
      tn_io := (tn_io n)\<lparr>io_world := ?w (io_world (tn_io n))\<rparr>\<rparr>"
  let ?n' = "?n1\<lparr>tn_os := [], tn_calls := tn_calls ?n1 @ [Accept], in_ipc := new_ipc_peer ((in_ipc ?n1)\<lparr>ipc_stream := True\<rparr>),
      tn_io := (tn_io ?n1)\<lparr>io_in := arriving, io_out := [], io_closed := x, io_timeout := True\<rparr>\<rparr>"
  have "bind_ipc s ep (n\<lparr>tn_os := [Inr y, Inr (arriving, x)]\<rparr>) = (Inr (), ?n1)"
    using assms by (simp add: bind_ipc_def tcp_socket_def os_call_def update_ipc_def try_result_def try_io_def update_world_def)
  moreover have "ensure_ipc_stream ?n1 = (Inr (), ?n')"
    using assms(3) by (simp add: ensure_ipc_stream_def os_call_def configure_ipc_stream_def update_ipc_def new_ipc_peer_def)
  ultimately show thesis
    using assms(1) by (rule_tac that [of ?n1 ?n']) (simp_all add: tcp_socket_def fresh_stream_def ready_state_def inproc_endpoint_of_def
        set_last_endpoint_def at_endpoint_def as_tcp_def new_ipc_peer_def)
qed

text \<open>
  Messages cross an IPC connection, as they cross a TCP connection: with agreeing security settings
  there are two byte strings such that a client that connects to a path, fed the one, sends all its
  messages and writes the other, and a server that binds and accepts, fed the other, writes the one and receives
  the client's hello message and router probe, if it has them, and its messages, in order, unchanged and
  marked with the client's identity.
\<close>

theorem ipc_link_delivers:
  fixes nc :: "'w ipc_node" and ns :: "'v ipc_node"
  assumes kc_def: "kc = tn_socket s nc" and ks_def: "ks = tn_socket u ns"
    and "tcp_socket s ec (as_tcp nc)" "tcp_socket u es (as_tcp ns)"
    and "security_agrees C (opt_security (sk_options kc)) (opt_security (sk_options ks)) ec es"
    and "ipc_parse ep = Inr t" "ipc_bound_endpoint (in_ipc nc) = None" "ipc_parse ep' = Inr t'" "\<not> ipc_stream (in_ipc ns)"
    and "hello_part ks = []" "probe_part ks = []"
    and "ms \<noteq> []" "length ms < 2 ^ 62" "\<forall>p \<in> set (outgoing kc ms). length (fst p) < 2 ^ 60"
  shows "\<exists>c2s s2c nc' ns'.
      bnd (connect_ipc s ep) (\<lambda>_. for_each ms (send_ipc_frame C s)) (nc\<lparr>tn_os := [Inr (s2c, x)]\<rparr>) = (Inr (), nc')
    \<and> io_out (tn_io nc') = c2s
    \<and> bnd (bind_ipc u ep') (\<lambda>_. repeated (length (outgoing kc ms)) (recv_ipc_frame C u)) (ns\<lparr>tn_os := [Inr y, Inr (c2s, z)]\<rparr>) =
        (Inr (map (\<lambda>p. apply_peer_identity_metadata (identity_option (opt_routing_id (sk_options kc))) (plain_message p)) (outgoing kc ms)), ns')
    \<and> io_out (tn_io ns') = s2c"
proof -
  let ?kc = "at_endpoint ep kc" and ?ks = "at_endpoint ep' ks"
  have o: "outgoing ?kc ms = outgoing kc ms"
    by (simp add: outgoing_def)
  have ids: "length (opt_routing_id (sk_options ?kc)) < 256 ^ 4" "length (opt_routing_id (sk_options ?ks)) < 256 ^ 4"
    using assms(3,4) by (simp_all add: tcp_socket_def kc_def ks_def)
  have a: "security_agrees C (opt_security (sk_options ?kc)) (opt_security (sk_options ?ks)) ec es" "hello_part ?ks = []" "probe_part ?ks = []"
    "\<forall>p \<in> set (outgoing ?kc ms). length (fst p) < 2 ^ 60"
    using assms(5,10,11,14) o by simp_all
  obtain c2s s2c where
    c: "\<And>s (n :: 'w tcp_node). fresh_stream s ?kc False n \<Longrightarrow> ready_state ec (tn_io n) \<Longrightarrow> io_in (tn_io n) = s2c \<Longrightarrow>
       \<exists>n'. for_each ms (send_tcp_frame C s) n = (Inr (), n') \<and> io_out (tn_io n') = io_out (tn_io n) @ c2s"
    and r: "\<And>u (n :: 'v tcp_node). fresh_stream u ?ks True n \<Longrightarrow> ready_state es (tn_io n) \<Longrightarrow> io_in (tn_io n) = c2s \<Longrightarrow>
       \<exists>n'. repeated (length (outgoing ?kc ms)) (recv_tcp_frame C u) n =
          (Inr (map (\<lambda>p. apply_peer_identity_metadata (identity_option (opt_routing_id (sk_options ?kc))) (plain_message p)) (outgoing ?kc ms)), n')
        \<and> io_out (tn_io n') = io_out (tn_io n) @ s2c"
    by (rule fresh_link [OF a(1) ids a(2,3) assms(12,13) a(4), where 'w = 'w and 'v = 'v]) blast
  obtain n1 where n1: "connect_ipc s ep (nc\<lparr>tn_os := [Inr (s2c, x)]\<rparr>) = (Inr (), n1)" "fresh_stream s ?kc False (as_tcp n1)"
    "ready_state ec (tn_io n1)" "io_in (tn_io n1) = s2c" "io_out (tn_io n1) = []"
    unfolding kc_def by (rule connect_ipc_fresh [OF assms(3,6,7), of s2c x])
  obtain n2 n3 where n2: "bind_ipc u ep' (ns\<lparr>tn_os := [Inr y, Inr (c2s, z)]\<rparr>) = (Inr (), n2)" "ensure_ipc_stream n2 = (Inr (), n3)"
    "fresh_stream u ?ks True (as_tcp n3)" "ready_state es (tn_io n3)" "io_in (tn_io n3) = c2s" "io_out (tn_io n3) = []" "tn_socket u n2 = tn_socket u n3"
    unfolding ks_def by (rule bind_ipc_fresh [OF assms(4,8,9), of y c2s z])
  have "ipc_ready s ?kc n1" "ipc_ready u ?ks n3"
    using n1(2,3) n2(3,4) by (simp_all add: ipc_ready_def fresh_stream_def ready_state_def no_zap_def)
  note run = sends_as_tcp [OF this(1), of ms C] recvs_as_tcp [OF this(2), of "length (outgoing kc ms)" C]
  have "\<exists>nc'. for_each ms (send_ipc_frame C s) n1 = (Inr (), nc') \<and> io_out (tn_io nc') = c2s"
    using c [OF n1(2)] n1(3-5) run(1) by (cases "for_each ms (send_ipc_frame C s) n1") auto
  moreover have "\<exists>ns'. repeated (length (outgoing kc ms)) (recv_ipc_frame C u) n3 =
      (Inr (map (\<lambda>p. apply_peer_identity_metadata (identity_option (opt_routing_id (sk_options kc))) (plain_message p)) (outgoing kc ms)), ns')
      \<and> io_out (tn_io ns') = s2c"
    using r [OF n2(3)] n2(4-6) run(2) o by (cases "repeated (length (outgoing kc ms)) (recv_ipc_frame C u) n3") auto
  moreover have "recv_ipc_frame C u n2 = recv_ipc_frame C u n3"
    using n2(2) ensure_kept [OF ensure_holds [OF n2(2)]] by (simp add: recv_ipc_frame_def)
  then have "repeated (length (outgoing kc ms)) (recv_ipc_frame C u) n2 = repeated (length (outgoing kc ms)) (recv_ipc_frame C u) n3"
    using assms(12) by (cases "outgoing kc ms") (simp_all add: bnd_def outgoing_def)
  ultimately show ?thesis
    using n1(1) n2(1) by (intro exI [of _ c2s] exI [of _ s2c]) fastforce
qed

text \<open>
  A connected socket that gives up its stream uses no transport any more, although it still has the address it was
  connected to: unlike over TCP, its next send is an in-process one.
\<close>

lemma ipc_gives_up:
  assumes "ipc_disconnect_message_or_error os e n = (Inr m, n')" "\<not> ipc_listener (in_ipc n)"
  shows "\<not> has_ipc_transport (in_ipc n') \<and> ipc_connected_endpoint (in_ipc n') = ipc_connected_endpoint (in_ipc n)"
  using assms
  by (auto simp: ipc_disconnect_message_or_error_def has_ipc_transport_def reset_ipc_stream_state_def new_ipc_peer_def update_ipc_def Let_def
      split: if_splits)

definition ipc_example :: "socket_type \<Rightarrow> security_options \<Rightarrow> bytes \<Rightarrow> unit ipc_node" where
  "ipc_example t sec entropy = \<lparr>tn_io = tn_io (node_example t sec entropy), tn_os = [], tn_calls = [], in_ipc = ipc_state_default\<rparr>"

theorem ipc_link_delivers_witness:
  "\<exists>c2s s2c nc' ns'.
      bnd (connect_ipc 0 (lit ''ipc:///tmp/a'')) (\<lambda>_. for_each [message_from_vec [1], message_from_vec [2, 3]] (send_ipc_frame plain_crypto 0))
        ((ipc_example Push client_curve_example (replicate 48 5))\<lparr>tn_os := [Inr (s2c, False)]\<rparr>) = (Inr (), nc')
    \<and> io_out (tn_io nc') = c2s
    \<and> bnd (bind_ipc 0 (lit ''ipc:///tmp/a'')) (\<lambda>_. repeated (Suc (Suc 0)) (recv_ipc_frame plain_crypto 0))
        ((ipc_example Pull server_curve_example (replicate 96 6))\<lparr>tn_os := [Inr ([], False), Inr (c2s, False)]\<rparr>) =
        (Inr [message_from_vec [1], message_from_vec [2, 3]], ns')
    \<and> io_out (tn_io ns') = s2c"
proof -
  let ?c = "ipc_example Push client_curve_example (replicate 48 5)" and ?s = "ipc_example Pull server_curve_example (replicate 96 6)"
  let ?ms = "[message_from_vec [1], message_from_vec [2, 3]]" and ?ep = "lit ''ipc:///tmp/a''"
  have k: "tn_socket 0 (ipc_example t sec e) = tn_socket 0 (node_example t sec e)" for t sec e
    by (simp add: ipc_example_def)
  have o: "outgoing (tn_socket 0 ?c) ?ms = [([1], False), ([2, 3], False)]" "hello_part (tn_socket 0 ?s) = []" "probe_part (tn_socket 0 ?s) = []"
    unfolding k by (simp_all add: outgoing_def hello_part_def probe_part_def node_example_socket socket_options_default_def)
  have i: "tcp_socket 0 e (as_tcp (ipc_example t sec e)) = tcp_socket 0 e (node_example t sec e)" for t sec e
    by (simp add: tcp_socket_def ipc_example_def)
  have q: "tcp_socket 0 (replicate 48 5) (as_tcp ?c)" "tcp_socket 0 (replicate 96 6) (as_tcp ?s)"
    unfolding i by (simp_all add: node_example_tcp_socket supports_stream_transport_def)
  have r: "opt_security (sk_options (tn_socket 0 ?c)) = client_curve_example" "opt_security (sk_options (tn_socket 0 ?s)) = server_curve_example"
    "opt_routing_id (sk_options (tn_socket 0 ?c)) = []"
    unfolding k by (simp_all add: node_example_socket socket_options_default_def)
  have e: "ipc_bound_endpoint (in_ipc ?c) = None" "\<not> ipc_stream (in_ipc ?s)"
    by (simp_all add: ipc_example_def ipc_state_default_def)
  have p: "ipc_parse ?ep = Inr \<lparr>ipc_path = lit ''/tmp/a''\<rparr>"
    by code_simp
  have a: "apply_peer_identity_metadata (identity_option []) m = m" for m
    by (simp add: apply_peer_identity_metadata_def identity_option_def)
  have m: "set_more False (message_from_vec d) = message_from_vec d" for d
    by (simp add: message_from_vec_def set_more_def)
  show ?thesis
    using ipc_link_delivers [OF refl refl q _ p e(1) p e(2) o(2,3), of plain_crypto ?ms False "([], False)" False] curve_example_agrees
    by (simp add: r o(1) a m)
qed

end
