(* ===== verification/Carriers.thy ===== *)
theory Carriers
  imports Wires Carrier Ipc_Link WebSocket_Link
begin

text \<open>
  The four transports of the default build keep what a socket relies on: each is an interpretation of the
  interface \<open>carrier\<close>, over the operations that \<open>default_wires\<close> gives to the socket.
\<close>

section \<open>A transport in use\<close>

definition only :: "wire \<Rightarrow> ref \<Rightarrow> net \<Rightarrow> bool" where
  "only x s net \<longleftrightarrow> (\<forall>y. y \<noteq> x \<longrightarrow> \<not> has_transport y s net)"

lemma only_active:
  assumes "only x s net" "\<And>y. y \<noteq> x \<Longrightarrow> has_transport y s (w_wire w) = has_transport y s net" "has_transport x s (w_wire w)"
  shows "active_wire (default_wires C H) s w = Some x"
  using assms unfolding active_wire_least only_def by (auto simp: default_wires_def)

lemma back_simps [simp]:
  "w_sockets (tcp_back s net n) = w_sockets (io_world (tn_io n))" "queues (tcp_back s net n) = queues (io_world (tn_io n))"
  "w_sockets (ipc_back s net m) = w_sockets (io_world (tn_io m))" "queues (ipc_back s net m) = queues (io_world (tn_io m))"
  "w_sockets (ws_back s net k) = w_sockets (io_world (tn_io k))" "queues (ws_back s net k) = queues (io_world (tn_io k))"
  "w_sockets (udp_back s net j) = w_sockets (un_world j)" "queues (udp_back s net j) = queues (un_world j)"
  "sm_out (nt_streams (w_wire (tcp_back s net n)) WireTcp s) = io_out (tn_io n)"
  "sm_out (nt_streams (w_wire (ipc_back s net m)) WireIpc s) = io_out (tn_io m)"
  "sm_out (nt_streams (w_wire (ws_back s net k)) WireWs s) = io_out (tn_io k)"
  by (simp_all add: back_defs stream_of_def)

lemma back_has:
  "y \<noteq> WireTcp \<Longrightarrow> has_transport y s (w_wire (tcp_back s net n)) = has_transport y s net"
  "y \<noteq> WireIpc \<Longrightarrow> has_transport y s (w_wire (ipc_back s net m)) = has_transport y s net"
  "y \<noteq> WireWs \<Longrightarrow> has_transport y s (w_wire (ws_back s net k)) = has_transport y s net"
  "y \<noteq> WireUdp \<Longrightarrow> has_transport y s (w_wire (udp_back s net j)) = has_transport y s net"
  "has_transport WireTcp s (w_wire (tcp_back s net n)) = has_tcp_transport (tn_tcp n)"
  "has_transport WireIpc s (w_wire (ipc_back s net m)) = has_ipc_transport (in_ipc m)"
  "has_transport WireWs s (w_wire (ws_back s net k)) = has_ws_transport (wn_ws k)"
  "has_transport WireUdp s (w_wire (udp_back s net j)) = has_udp_transport (un_udp j)"
  by (simp_all add: back_defs has_transport_def split: wire.split)

lemma with_wire_update [simp]: "update_socket s f (with_wire v w) = with_wire v (update_socket s f w)"
  by (cases w) (simp add: with_wire_def update_socket_def context_shared.defs world.defs)

text \<open>What the socket notes of a message it has received.\<close>

definition seen :: "ref \<Rightarrow> message \<Rightarrow> ('w, 'z) os_node_scheme \<Rightarrow> ('w, 'z) os_node_scheme" where
  "seen u m n = n\<lparr>tn_io := (tn_io n)\<lparr>io_world := record_recv_metadata u m (io_world (tn_io n))\<rparr>\<rparr>"

lemma seen_io [simp]:
  "io_in (tn_io (seen u m n)) = io_in (tn_io n)" "io_out (tn_io (seen u m n)) = io_out (tn_io n)"
  "io_others (tn_io (seen u m n)) = io_others (tn_io n)" "io_world (tn_io (seen u m n)) = record_recv_metadata u m (io_world (tn_io n))"
  by (simp_all add: seen_def)

lemma seen_state [simp]: "tn_tcp (seen u m n) = tn_tcp n" "tn_now (seen u m n) = tn_now n" "in_ipc (seen u m j) = in_ipc j" "wn_ws (seen u m k) = wn_ws k"
  by (simp_all add: seen_def)

lemma seen_back:
  "record_recv_metadata u m (tcp_back u net n) = tcp_back u net (seen u m n)"
  "record_recv_metadata u m (ipc_back u net j) = ipc_back u net (seen u m j)"
  "record_recv_metadata u m (ws_back u net k) = ws_back u net (seen u m k)"
  by (simp_all add: back_defs stream_of_def) (simp_all add: seen_def record_recv_metadata_def)

lemma no_zap_metadata [simp]: "no_zap (record_recv_metadata u m w) = no_zap w"
  by (simp add: no_zap_def record_recv_metadata_def inproc_endpoint_of_def)

text \<open>Computations that leave a state with a property whenever they succeed.\<close>

definition ends_in :: "('s \<Rightarrow> bool) \<Rightarrow> ('s, 'e, 'a) comp \<Rightarrow> bool" where
  "ends_in Q f \<longleftrightarrow> (\<forall>n x n'. f n = (Inr x, n') \<longrightarrow> Q n')"

named_theorems ends_in_intros

lemma ends_in_bnd [ends_in_intros]:
  assumes "\<And>x. ends_in Q (F x)"
  shows "ends_in Q (bnd f F)"
  using assms unfolding ends_in_def by (auto simp: bnd_def split: prod.splits sum.splits)

lemma ends_in_if [ends_in_intros]: "ends_in Q f \<Longrightarrow> ends_in Q g \<Longrightarrow> ends_in Q (if b then f else g)"
  by simp

lemma ends_in_case [ends_in_intros]:
  "ends_in Q f \<Longrightarrow> (\<And>x. ends_in Q (g x)) \<Longrightarrow> ends_in Q (case t of None \<Rightarrow> f | Some x \<Rightarrow> g x)"
  "(\<And>x y. ends_in Q (h x y)) \<Longrightarrow> ends_in Q (case p of (x, y) \<Rightarrow> h x y)"
  by (simp_all split: option.split prod.split)


section \<open>TCP as a carrier\<close>

definition tcp_in_use :: "ref \<Rightarrow> net \<Rightarrow> unit tcp_node \<Rightarrow> bool" where
  "tcp_in_use s net n \<longleftrightarrow>
     only WireTcp s net \<and> io_others (tn_io n) = [] \<and> tn_now n = nt_now net \<and> no_zap (io_world (tn_io n))
     \<and> (tcp_listener (tn_tcp n) \<or> tcp_connected_endpoint (tn_tcp n) \<noteq> None)"

lemma tcp_in_use_frame: "tcp_in_use s net n \<Longrightarrow> node_frame n' = node_frame n \<Longrightarrow> tcp_in_use s net n' \<and> io_world (tn_io n') = io_world (tn_io n)"
  by (auto simp: tcp_in_use_def node_frame_def)

lemma tcp_frames_in_use:
  assumes "tcp_in_use s net n"
  shows "send_tcp_frame C s m n = (r, n') \<Longrightarrow> tcp_in_use s net n' \<and> io_world (tn_io n') = io_world (tn_io n)"
    and "recv_tcp_frame C s n = (q, n') \<Longrightarrow> tcp_in_use s net n' \<and> io_world (tn_io n') = io_world (tn_io n)"
proof -
  have z: "no_zap (io_world (tn_io n))"
    using assms by (simp add: tcp_in_use_def)
  show "send_tcp_frame C s m n = (r, n') \<Longrightarrow> tcp_in_use s net n' \<and> io_world (tn_io n') = io_world (tn_io n)"
    using keeps_nodeD [OF frames_keep_world(1) z, of C s m] by (intro tcp_in_use_frame [OF assms]) simp
  show "recv_tcp_frame C s n = (q, n') \<Longrightarrow> tcp_in_use s net n' \<and> io_world (tn_io n') = io_world (tn_io n)"
    using keeps_nodeD [OF frames_keep_world(2) z, of C s] by (intro tcp_in_use_frame [OF assms]) simp
qed

lemma via_tcp_back:
  assumes "tcp_in_use s net n" "f n = (r, n')"
  shows "via_tcp s f (tcp_back s net n) = settle r (tcp_back s net n')"
  using assms by (simp add: via_tcp_def tcp_in_use_def)

interpretation tcp_wire: carrier "default_wires C H" WireTcp s "tcp_back s net" "send_tcp_frame C s" "recv_tcp_frame C s" "seen s" "tcp_in_use s net"
  for C H s net
proof unfold_locales
  show "active_wire (default_wires C H) s (tcp_back s net n) = Some WireTcp" if "tcp_in_use s net n" for n
    using that by (intro only_active [of _ _ net]) (auto simp: tcp_in_use_def back_has has_tcp_transport_def)
qed (auto simp: default_wires_def via_tcp_back settle_def seen_back dest: tcp_frames_in_use)


section \<open>IPC as a carrier\<close>

definition ipc_in_use :: "ref \<Rightarrow> net \<Rightarrow> unit ipc_node \<Rightarrow> bool" where
  "ipc_in_use s net n \<longleftrightarrow>
     only WireIpc s net \<and> io_others (tn_io n) = [] \<and> no_zap (io_world (tn_io n)) \<and> sk_type (tn_socket s n) \<noteq> Stream
     \<and> has_ipc_transport (in_ipc n)"

lemma ipc_frames_keep:
  fixes n :: "'w ipc_node"
  assumes "sk_type (tn_socket s n) \<noteq> Stream" "no_zap (io_world (tn_io n))"
  shows "send_ipc_frame C s m n = (r, n') \<Longrightarrow> io_world (tn_io n') = io_world (tn_io n) \<and> io_others (tn_io n') = io_others (tn_io n)"
    and "recv_ipc_frame C s n = (q, n') \<Longrightarrow> io_world (tn_io n') = io_world (tn_io n) \<and> io_others (tn_io n') = io_others (tn_io n)"
  using frames_as_tcp [OF assms(1), of C m] keeps_nodeD [OF frames_keep_world(1), of "as_tcp n" C s m]
    keeps_nodeD [OF frames_keep_world(2), of "as_tcp n" C s] assms(2)
  by (simp_all add: node_frame_def)

abbreviation on_ipc :: "'w ipc_node \<Rightarrow> bool" where
  "on_ipc n \<equiv> ipc_stream (in_ipc n)"

lemma ends_in_ipc [ends_in_intros]: "ends_in on_ipc (on_ipc_stream f)"
  by (auto simp: ends_in_def on_ipc_stream_def split: if_splits prod.splits)

lemma send_ipc_ends: "ends_in on_ipc (send_ipc_frame C s m)"
  unfolding send_ipc_frame_def write_ipc_message_def by (intro ends_in_intros)

lemma via_ipc_back:
  assumes "ipc_in_use s net n" "f n = (r, n')"
  shows "via_ipc s f (ipc_back s net n) = settle r (ipc_back s net n')"
  using assms by (simp add: via_ipc_def ipc_in_use_def)

lemma send_ipc_in_use:
  assumes "ipc_in_use s net n" "send_ipc_frame C s m n = (Inr (), n')"
  shows "ipc_in_use s net n' \<and> w_sockets (io_world (tn_io n')) = w_sockets (io_world (tn_io n))"
  using assms ipc_frames_keep(1) [of n s C m "Inr ()" n'] send_ipc_ends [of C s m]
  by (auto simp: ipc_in_use_def ends_in_def has_ipc_transport_def)

lemma recv_ipc_keeps:
  assumes "ipc_in_use s net n" "recv_ipc_frame C s n = (q, n')"
  shows "io_world (tn_io n') = io_world (tn_io n)"
  using assms ipc_frames_keep(2) [of n s C q n'] by (simp add: ipc_in_use_def)

interpretation ipc_wire: carrier "default_wires C H" WireIpc s "ipc_back s net" "send_ipc_frame C s" "recv_ipc_frame C s" "seen s" "ipc_in_use s net"
  for C H s net
proof unfold_locales
  show "active_wire (default_wires C H) s (ipc_back s net n) = Some WireIpc" if "ipc_in_use s net n" for n
    using that by (intro only_active [of _ _ net]) (auto simp: ipc_in_use_def back_has)
qed (auto simp: default_wires_def via_ipc_back settle_def seen_back dest: send_ipc_in_use recv_ipc_keeps)


section \<open>WebSocket as a carrier\<close>

lemma keeps_option: "keeps_world f \<Longrightarrow> (\<And>x. keeps_world (h x)) \<Longrightarrow> keeps_world (case t of None \<Rightarrow> f | Some x \<Rightarrow> h x)"
  by (simp split: option.split)

lemma keeps_http: "keeps_world (read_http_loop bs :: ('w io, _, _) comp)"
proof -
  have "io_world (snd (read_http_loop bs st)) = io_world st \<and> io_others (snd (read_http_loop bs st)) = io_others st" for st :: "'w io"
  proof (induction bs st rule: read_http_loop.induct)
    case (1 bs st)
    then show ?case
      by (auto simp: read_http_loop.simps [of bs st] read_exact_def)
  qed
  then show ?thesis
    by (simp add: keeps_world_def)
qed

lemma keeps_ws_parts: "keeps_world (websocket_server_handshake H)" "keeps_world (websocket_client_handshake H key)"
  "keeps_world read_websocket_binary_frame"
  unfolding websocket_server_handshake_def websocket_client_handshake_def read_websocket_binary_frame_def read_http_headers_def read_ws_len_def Let_def
  by (intro keeps_intros keeps_http keeps_option)+

definition keeps_ws :: "('w, 'a) ws_op \<Rightarrow> bool" where
  "keeps_ws f \<longleftrightarrow> (\<forall>n. no_zap (io_world (tn_io n)) \<longrightarrow>
     io_world (tn_io (snd (f n))) = io_world (tn_io n) \<and> io_others (tn_io (snd (f n))) = io_others (tn_io n))"

named_theorems keeps_ws_intros

lemma keeps_ws_basic [keeps_ws_intros]: "keeps_ws (ret x)" "keeps_ws (throw e)" "keeps_ws (gets h)" "keeps_ws (try_result r)"
  "keeps_ws (os_call c)" "keeps_ws (configure_tcp_stream a)" "keeps_ws (update_ws g)"
  by (simp_all add: keeps_ws_def try_result_def os_call_def configure_tcp_stream_def update_ws_def split: list.split)

lemma keeps_ws_bnd [keeps_ws_intros]: "keeps_ws f \<Longrightarrow> (\<And>x. keeps_ws (F x)) \<Longrightarrow> keeps_ws (bnd f F)"
  by (simp add: keeps_ws_def bnd_apply split: sum.split)

lemma keeps_ws_cases [keeps_ws_intros]: "keeps_ws f \<Longrightarrow> keeps_ws g \<Longrightarrow> keeps_ws (if b then f else g)"
  "keeps_ws f \<Longrightarrow> (\<And>x. keeps_ws (h x)) \<Longrightarrow> keeps_ws (case t of None \<Rightarrow> f | Some x \<Rightarrow> h x)"
  "(\<And>e. keeps_ws (p e)) \<Longrightarrow> (\<And>x. keeps_ws (q x)) \<Longrightarrow> keeps_ws (case r of Inl e \<Rightarrow> p e | Inr x \<Rightarrow> q x)"
  by (simp_all split: option.split sum.split)

lemma keeps_ws_stream [keeps_ws_intros]: "keeps_world f \<Longrightarrow> keeps_ws (on_io f)" "keeps_world f \<Longrightarrow> keeps_ws (on_ws_stream f)"
  by (simp_all add: keeps_ws_def keeps_world_def on_ws_stream_def on_io_def split_beta)

lemma ws_frames_keep: "keeps_ws (send_ws_frame H m)" "keeps_ws (recv_ws_frame H)"
  unfolding send_ws_frame_def recv_ws_frame_def ensure_ws_ready_def accept_ws_def Let_def
  by (intro keeps_ws_intros keeps_intros keeps_ws_parts)+

definition ws_in_use :: "ref \<Rightarrow> net \<Rightarrow> unit ws_node \<Rightarrow> bool" where
  "ws_in_use s net n \<longleftrightarrow> only WireWs s net \<and> io_others (tn_io n) = [] \<and> no_zap (io_world (tn_io n)) \<and> has_ws_transport (wn_ws n)"

abbreviation on_ws :: "'w ws_node \<Rightarrow> bool" where
  "on_ws n \<equiv> wst_stream (wn_ws n)"

lemma ends_in_ws [ends_in_intros]: "ends_in on_ws (on_ws_stream f)"
  by (auto simp: ends_in_def on_ws_stream_def on_io_def split: if_splits prod.splits)

lemma send_ws_ends: "ends_in on_ws (send_ws_frame H m)"
  unfolding send_ws_frame_def Let_def by (intro ends_in_intros)

lemma via_ws_back:
  assumes "ws_in_use s net n" "f n = (r, n')"
  shows "via_ws s f (ws_back s net n) = settle r (ws_back s net n')"
  using assms by (simp add: via_ws_def ws_in_use_def)

lemma send_ws_in_use:
  assumes "ws_in_use s net n" "send_ws_frame H m n = (Inr (), n')"
  shows "ws_in_use s net n' \<and> w_sockets (io_world (tn_io n')) = w_sockets (io_world (tn_io n))"
  using assms ws_frames_keep(1) [of H m, unfolded keeps_ws_def, rule_format, of n] send_ws_ends [of H m]
  by (auto simp: ws_in_use_def ends_in_def has_ws_transport_def)

lemma recv_ws_keeps:
  assumes "ws_in_use s net n" "recv_ws_frame H n = (q, n')"
  shows "io_world (tn_io n') = io_world (tn_io n)"
  using assms ws_frames_keep(2) [of H, unfolded keeps_ws_def, rule_format, of n] by (simp add: ws_in_use_def)

interpretation ws_wire: carrier "default_wires C H" WireWs s "ws_back s net" "send_ws_frame H" "recv_ws_frame H" "seen s" "ws_in_use s net"
  for C H s net
proof unfold_locales
  show "active_wire (default_wires C H) s (ws_back s net n) = Some WireWs" if "ws_in_use s net n" for n
    using that by (intro only_active [of _ _ net]) (auto simp: ws_in_use_def back_has)
qed (auto simp: default_wires_def via_ws_back settle_def seen_back dest: send_ws_in_use recv_ws_keeps)


section \<open>UDP as a carrier\<close>

definition udp_in_use :: "ref \<Rightarrow> net \<Rightarrow> unit udp_node \<Rightarrow> bool" where
  "udp_in_use s net n \<longleftrightarrow> only WireUdp s net \<and> has_udp_transport (un_udp n)"

lemma udp_frames_keep:
  shows "send_udp_datagram m n = (r, n') \<Longrightarrow> un_world n' = un_world n \<and> un_udp n' = un_udp n"
    and "recv_udp_datagram n = (q, n') \<Longrightarrow> un_world n' = un_world n \<and> udp_socket (un_udp n') = udp_socket (un_udp n)"
  by (auto simp: send_udp_datagram_def recv_udp_datagram_def udp_os_def set_udp_def bnd_apply split: if_splits option.splits list.splits udp_reply.splits)

definition seen_udp :: "ref \<Rightarrow> message \<Rightarrow> 'w udp_node \<Rightarrow> 'w udp_node" where
  "seen_udp u m n = n\<lparr>un_world := record_recv_metadata u m (un_world n)\<rparr>"

lemma seen_udp_back: "record_recv_metadata u m (udp_back u net n) = udp_back u net (seen_udp u m n)"
  by (simp add: back_defs seen_udp_def record_recv_metadata_def)

lemma via_udp_back: "f n = (r, n') \<Longrightarrow> via_udp s f (udp_back s net n) = settle r (udp_back s net n')"
  by (simp add: via_udp_def)

interpretation udp_wire: carrier "default_wires C H" WireUdp s "udp_back s net" send_udp_datagram recv_udp_datagram "seen_udp s" "udp_in_use s net"
  for C H s net
proof unfold_locales
  show "active_wire (default_wires C H) s (udp_back s net n) = Some WireUdp" if "udp_in_use s net n" for n
    using that by (intro only_active [of _ _ net]) (auto simp: udp_in_use_def back_has)
qed (auto simp: default_wires_def via_udp_back settle_def seen_udp_back udp_in_use_def has_udp_transport_def dest: udp_frames_keep)

end
