(* ===== verification/Wired_Link.thy ===== *)
theory Wired_Link
  imports Carriers
begin

text \<open>
  The whole way of a message between two programs: from the Rust interface through the socket, the choice of
  the transport, the TCP or IPC transport with its handshake and the frames, and on the other side back up.
\<close>

section \<open>Receives on an established connection\<close>

lemma ready_recv:
  assumes "reads_one (TYPE('w)) C p b frame b1" "receiving u k n" "tcp_curve_session (tn_tcp n) = b" "io_in (tn_io n) = frame @ rest"
  shows "recv_tcp_frame C u n =
      (Inr (apply_peer_identity_metadata (tcp_peer_identity (tn_tcp n)) (plain_message p)), with_in rest b1 (n :: 'w tcp_node))"
    and "receiving u k (with_in rest b1 n)"
  using recv_ready [OF assms(2), of C] assms by (simp_all add: reads_one_def receiving_def started_def)

lemma seen_receiving:
  assumes "receiving u k n"
  shows "receiving u (tn_socket u (seen u m n)) (seen u m n)"
  using assms by (auto simp: receiving_def started_def seen_def record_recv_metadata_def hello_part_def probe_part_def split: if_splits)

definition opened :: "'w tcp_node \<Rightarrow> bool" where
  "opened n \<longleftrightarrow> tcp_stream (tn_tcp n) \<or> tcp_listener (tn_tcp n)"

lemma ready_delivers:
  assumes "reads (TYPE('w)) C ps b wire b'" "receiving u k n" "tcp_curve_session (tn_tcp n) = b" "io_in (tn_io n) = wire @ rest"
  shows "\<exists>n'. delivers opened (recv_tcp_frame C u) (seen u) (n :: 'w tcp_node)
      (map (\<lambda>p. apply_peer_identity_metadata (tcp_peer_identity (tn_tcp n)) (plain_message p)) ps) n'
    \<and> io_out (tn_io n') = io_out (tn_io n)"
  using assms
proof (induction ps arbitrary: n b wire k)
  case (Cons p ps)
  obtain frame b1 wire1 where w: "wire = frame @ wire1" "reads_one (TYPE('w)) C p b frame b1" "reads (TYPE('w)) C ps b1 wire1 b'"
    using Cons.prems(1) by auto
  have "io_in (tn_io n) = frame @ wire1 @ rest"
    using Cons.prems(4) w(1) by simp
  note r = ready_recv [OF w(2) Cons.prems(2,3) this]
  have "opened n"
    using Cons.prems(2) by (simp add: opened_def receiving_def started_def)
  then show ?case
    using Cons.IH [OF w(3) seen_receiving [OF r(2)]] r(1) by simp
qed simp

text \<open>Receives that are those of another state, seen through a function.\<close>

lemma delivers_first: "delivers P f g n ms n' \<Longrightarrow> ms \<noteq> [] \<Longrightarrow> f n0 = f n \<Longrightarrow> P n0 \<Longrightarrow> delivers P f g n0 ms n'"
  by (cases ms) auto

lemma delivers_sim:
  assumes "delivers P F G (h n) ms t'" "R n"
    and "\<And>n. R n \<Longrightarrow> F (h n) = map_prod id h (f n)"
    and "\<And>n m n1. R n \<Longrightarrow> f n = (Inr m, n1) \<Longrightarrow> R (g m n1) \<and> h (g m n1) = G m (h n1)"
    and "\<And>n. R n \<Longrightarrow> P (h n) \<Longrightarrow> Q n"
  shows "\<exists>n'. delivers Q f g n ms n' \<and> h n' = t'"
  using assms(1,2)
proof (induction ms arbitrary: n)
  case (Cons m ms)
  then obtain t1 where t: "P (h n)" "F (h n) = (Inr m, t1)" "delivers P F G (G m t1) ms t'"
    by auto
  then obtain n1 where n1: "f n = (Inr m, n1)" "h n1 = t1"
    using assms(3) [OF Cons.prems(2)] by (cases "f n") auto
  then have "R (g m n1)" "delivers P F G (h (g m n1)) ms t'"
    using assms(4) [OF Cons.prems(2) n1(1)] t(3) by simp_all
  from Cons.IH [OF this(2,1)] show ?case
    using n1(1) assms(5) [OF Cons.prems(2) t(1)] by auto
qed simp


section \<open>The bytes of a link\<close>

text \<open>Two sockets whose settings let them talk, and messages a stream can carry.\<close>

definition link_config :: "crypto \<Rightarrow> socket \<Rightarrow> socket \<Rightarrow> bytes \<Rightarrow> bytes \<Rightarrow> message list \<Rightarrow> bool" where
  "link_config C kc ks ec es ms \<longleftrightarrow>
     security_agrees C (opt_security (sk_options kc)) (opt_security (sk_options ks)) ec es
     \<and> length (opt_routing_id (sk_options kc)) < 256 ^ 4 \<and> length (opt_routing_id (sk_options ks)) < 256 ^ 4
     \<and> hello_part ks = [] \<and> probe_part ks = [] \<and> ms \<noteq> [] \<and> length ms < 2 ^ 62
     \<and> (\<forall>p \<in> set (outgoing kc ms). length (fst p) < 2 ^ 60)"

text \<open>The messages the server gets, marked with the identity of the client.\<close>

definition arriving :: "socket \<Rightarrow> message list \<Rightarrow> message list" where
  "arriving k ms = map (\<lambda>p. apply_peer_identity_metadata (identity_option (opt_routing_id (sk_options k))) (plain_message p)) (outgoing k ms)"

lemma at_endpoint_link [simp]:
  "link_config C (at_endpoint ep kc) (at_endpoint ep' ks) ec es ms = link_config C kc ks ec es ms" "arriving (at_endpoint ep k) ms = arriving k ms"
  by (simp_all add: link_config_def arriving_def outgoing_def)

lemma arriving_nonempty: "link_config C kc ks ec es ms \<Longrightarrow> arriving kc ms \<noteq> []"
  by (simp add: link_config_def arriving_def outgoing_def)

lemma delivering_link:
  assumes "link_config C kc ks ec es ms"
  obtains c2s s2c where
    "\<And>s (n :: 'w tcp_node). fresh_stream s kc False n \<Longrightarrow> ready_state ec (tn_io n) \<Longrightarrow> io_in (tn_io n) = s2c \<Longrightarrow>
       \<exists>n'. for_each ms (send_tcp_frame C s) n = (Inr (), n') \<and> io_out (tn_io n') = io_out (tn_io n) @ c2s"
    "\<And>u n0 (n :: 'v tcp_node). fresh_stream u ks True n \<Longrightarrow> ready_state es (tn_io n) \<Longrightarrow> io_in (tn_io n) = c2s \<Longrightarrow>
       opened n0 \<Longrightarrow> recv_tcp_frame C u n0 = recv_tcp_frame C u n \<Longrightarrow>
       \<exists>n'. delivers opened (recv_tcp_frame C u) (seen u) n0 (arriving kc ms) n' \<and> io_out (tn_io n') = io_out (tn_io n) @ s2c"
proof -
  obtain c2s s2c rest h b w1 a1 w2 a2 w3 a3 b3 where
    y: "yields ec (write_zmtp_handshake C (sk_type kc) False (opt_security (sk_options kc)) (opt_routing_id (sk_options kc)) :: ('w io, _, _) comp) s2c c2s h"
    "yields es (establish C (sk_type ks) True (opt_security (sk_options ks)) (opt_routing_id (sk_options ks)) :: ('v io, _, _) comp) c2s (s2c @ rest)
       (identity_option (opt_routing_id (sk_options kc)), b)"
    and w: "writes (TYPE('w)) C (hello_part kc) (hr_curve_session h) w1 a1" "writes (TYPE('w)) C (probe_part kc) a1 w2 a2"
    "writes (TYPE('w)) C (map part ms) a2 w3 a3" and r: "reads (TYPE('v)) C (outgoing kc ms) b (w1 @ w2 @ w3) b3"
    by (rule link_plan [of C kc ks ec es ms, where 'w = 'w and 'v = 'v]) (use assms in \<open>auto simp: link_config_def\<close>)
  show thesis
  proof (rule that [of "s2c @ rest" "c2s @ w1 @ w2 @ w3"])
    fix s and n :: "'w tcp_node"
    assume n: "fresh_stream s kc False n" "ready_state ec (tn_io n)" "io_in (tn_io n) = s2c @ rest"
    then show "\<exists>n'. for_each ms (send_tcp_frame C s) n = (Inr (), n') \<and> io_out (tn_io n') = io_out (tn_io n) @ c2s @ w1 @ w2 @ w3"
      using assms by (metis sends_fresh [OF n y(1) w] link_config_def)
  next
    fix u and n0 n :: "'v tcp_node"
    assume n: "fresh_stream u ks True n" "ready_state es (tn_io n)" "io_in (tn_io n) = c2s @ w1 @ w2 @ w3"
      and o: "opened n0" "recv_tcp_frame C u n0 = recv_tcp_frame C u n"
    have q: "hello_part ks = []" "probe_part ks = []"
      using assms by (simp_all add: link_config_def)
    let ?at = "\<lambda>st. n\<lparr>tn_io := st, tn_tcp := (tn_tcp n)\<lparr>tcp_peer_greeting_done := True, tcp_peer_ready := True,
       tcp_peer_identity := identity_option (opt_routing_id (sk_options kc)), tcp_curve_session := b, tcp_handshake_started := True\<rparr>\<rparr>"
    obtain st where st: "io_in st = w1 @ w2 @ w3" "io_out st = io_out (tn_io n) @ s2c @ rest"
      "receiving u ks (?at st)" "recv_tcp_frame C u n = recv_tcp_frame C u (?at st)"
      by (rule fresh_receiving [OF n y(2) q]) blast
    obtain n' where "delivers opened (recv_tcp_frame C u) (seen u) (?at st) (arriving kc ms) n'" "io_out (tn_io n') = io_out st"
      using ready_delivers [OF r st(3), of "[]"] st(1) by (auto simp: arriving_def)
    then show "\<exists>n'. delivers opened (recv_tcp_frame C u) (seen u) n0 (arriving kc ms) n' \<and> io_out (tn_io n') = io_out (tn_io n) @ s2c @ rest"
      using delivers_first [OF _ arriving_nonempty [OF assms], of opened "recv_tcp_frame C u" "seen u" "?at st" n' n0] o st(2,4) by auto
  qed
qed


section \<open>Opening\<close>

lemma tcp_scheme: "tcp_parse ep = Inr t \<Longrightarrow> wire_scheme ep = Some WireTcp"
  by (auto simp: wire_scheme_def tcp_parse_def strip_prefix_def split: if_splits)

lemma ipc_scheme:
  assumes "ipc_parse ep = Inr t"
  shows "wire_scheme ep = Some WireIpc"
proof -
  have "starts_with (lit ''ipc://'') ep"
    using assms by (auto simp: ipc_parse_def strip_prefix_def split: if_splits)
  then have "\<not> starts_with (lit ''tcp://'') ep" "starts_with (lit ''ipc://'') ep"
    by (simp_all add: starts_with_def) (simp add: lit_def)
  then show ?thesis
    by (simp add: wire_scheme_def)
qed

text \<open>What a socket finds when the operating system gives it these answers.\<close>

definition with_replies :: "(io_kind + bytes \<times> bool) list \<Rightarrow> net world \<Rightarrow> net world" where
  "with_replies rs = on_net (\<lambda>net. net\<lparr>nt_os := rs\<rparr>)"

lemma with_replies_simps [simp]:
  "tcp_node_of s (with_replies rs w) = (tcp_node_of s w)\<lparr>tn_os := rs\<rparr>" "ipc_node_of s (with_replies rs w) = (ipc_node_of s w)\<lparr>tn_os := rs\<rparr>"
  "has_transport x s (w_wire (with_replies rs w)) = has_transport x s (w_wire w)" "only x s (w_wire (with_replies rs w)) = only x s (w_wire w)"
  "nt_now (w_wire (with_replies rs w)) = nt_now (w_wire w)"
  by (simp_all add: with_replies_def on_net_def tcp_node_of_def ipc_node_of_def wire_io_def Let_def has_transport_def only_def split: wire.split)

lemma node_of_simps [simp]:
  "tn_io (tcp_node_of s w) = wire_io WireTcp s w" "tn_tcp (tcp_node_of s w) = nt_tcp (w_wire w) s" "tn_now (tcp_node_of s w) = nt_now (w_wire w)"
  "tn_io (ipc_node_of s w) = wire_io WireIpc s w" "in_ipc (ipc_node_of s w) = nt_ipc (w_wire w) s"
  "w_sockets (io_world (wire_io x s w)) = w_sockets w" "queues (io_world (wire_io x s w)) = queues w"
  "io_entropy (wire_io x s w) = nt_entropy (w_wire w)" "io_others (wire_io x s w) = []"
  "inproc_endpoint_of name (io_world (wire_io x s w)) = inproc_endpoint_of name w"
  by (simp_all add: tcp_node_of_def ipc_node_of_def wire_io_def inproc_endpoint_of_def Let_def)

text \<open>A socket that uses one stream transport at most, in a context without a ZAP handler, with random bytes at hand.\<close>

definition stream_socket :: "wire \<Rightarrow> ref \<Rightarrow> bytes \<Rightarrow> net world \<Rightarrow> bool" where
  "stream_socket x s e w \<longleftrightarrow>
     supports_stream_transport (sk_type (w_sockets w s)) \<and> sk_type (w_sockets w s) \<noteq> Stream \<and> only x s (w_wire w)
     \<and> length (opt_routing_id (sk_options (w_sockets w s))) < 256 ^ 4 \<and> nt_entropy (w_wire w) = e \<and> no_zap w"

lemma stream_socket_node:
  assumes "stream_socket x s e w"
  shows "tcp_socket s e (tcp_node_of s w)" "tcp_socket s e (as_tcp (ipc_node_of s w))"
  using assms by (simp_all add: stream_socket_def tcp_socket_def ready_state_def no_zap_def)

lemma open_tcp:
  assumes "connect_tcp s ep n = (Inr (), n') \<or> bind_tcp s ep n = (Inr (), n')"
  shows "io_others (tn_io n') = io_others (tn_io n)" "tn_now n' = tn_now n" "no_zap (io_world (tn_io n')) = no_zap (io_world (tn_io n))"
    "tcp_listener (tn_tcp n') \<or> tcp_connected_endpoint (tn_tcp n') \<noteq> None"
  using assms
  by (auto simp: connect_tcp_def bind_tcp_def bnd_apply os_call_def configure_tcp_stream_def new_peer_def try_result_def try_io_def no_zap_def
      inproc_endpoint_of_def set_last_endpoint_def update_tcp_def update_world_def split: if_splits sum.splits prod.splits list.splits)

lemma open_ipc:
  assumes "connect_ipc s ep n = (Inr (), n') \<or> bind_ipc s ep n = (Inr (), n')"
  shows "io_others (tn_io n') = io_others (tn_io n)" "no_zap (io_world (tn_io n')) = no_zap (io_world (tn_io n))"
    "has_ipc_transport (in_ipc n')" "sk_type (tn_socket s n') = sk_type (tn_socket s n)"
  using assms
  by (auto simp: connect_ipc_def bind_ipc_def bnd_apply os_call_def configure_ipc_stream_def new_ipc_peer_def try_result_def try_io_def no_zap_def
      inproc_endpoint_of_def set_last_endpoint_def update_ipc_def update_world_def has_ipc_transport_def split: if_splits sum.splits prod.splits list.splits)

lemma bound_tcp:
  assumes "bind_tcp u ep n = (Inr (), n')" "sk_monitor (tn_socket u n) = None" "receiver u (io_world (tn_io n))"
  shows "receiver u (io_world (tn_io n'))" "tcp_listener (tn_tcp n')"
  using assms
  by (auto simp: bind_tcp_def bnd_apply os_call_def try_result_def try_io_def update_tcp_def update_world_def receiver_def set_last_endpoint_def
      emit_monitor_event_def new_peer_def split: if_splits sum.splits prod.splits list.splits)

lemma bound_ipc:
  assumes "bind_ipc u ep n = (Inr (), n')" "sk_monitor (tn_socket u n) = None" "receiver u (io_world (tn_io n))"
  shows "receiver u (io_world (tn_io n'))" "ipc_listener (in_ipc n')"
  using assms
  by (auto simp: bind_ipc_def bnd_apply os_call_def try_result_def try_io_def update_ipc_def update_world_def receiver_def set_last_endpoint_def
      emit_monitor_event_def new_ipc_peer_def split: if_splits sum.splits prod.splits list.splits)

lemma wired_tcp:
  assumes "tcp_parse ep = Inr t" "stream_socket WireTcp s e w"
  shows "connect_tcp s ep ((tcp_node_of s w)\<lparr>tn_os := rs\<rparr>) = (Inr (), n) \<Longrightarrow>
      api_connect (default_wires C H) s ep (with_replies rs w) = (Inr (), tcp_back s (w_wire (with_replies rs w)) n)
      \<and> tcp_in_use s (w_wire (with_replies rs w)) n"
    and "bind_tcp s ep ((tcp_node_of s w)\<lparr>tn_os := rs\<rparr>) = (Inr (), n) \<Longrightarrow>
      api_bind (default_wires C H) s ep (with_replies rs w) = (Inr (), tcp_back s (w_wire (with_replies rs w)) n)
      \<and> tcp_in_use s (w_wire (with_replies rs w)) n"
  using assms(2) open_tcp [of s ep "(tcp_node_of s w)\<lparr>tn_os := rs\<rparr>" n]
  by (simp_all add: api_connect_def connect_def api_bind_def bind_def tcp_scheme [OF assms(1)] default_wires_def via_tcp_def settle_def
      tcp_in_use_def stream_socket_def no_zap_def)

lemma wired_ipc:
  assumes "ipc_parse ep = Inr t" "stream_socket WireIpc s e w"
  shows "connect_ipc s ep ((ipc_node_of s w)\<lparr>tn_os := rs\<rparr>) = (Inr (), n) \<Longrightarrow>
      api_connect (default_wires C H) s ep (with_replies rs w) = (Inr (), ipc_back s (w_wire (with_replies rs w)) n)
      \<and> ipc_in_use s (w_wire (with_replies rs w)) n"
    and "bind_ipc s ep ((ipc_node_of s w)\<lparr>tn_os := rs\<rparr>) = (Inr (), n) \<Longrightarrow>
      api_bind (default_wires C H) s ep (with_replies rs w) = (Inr (), ipc_back s (w_wire (with_replies rs w)) n)
      \<and> ipc_in_use s (w_wire (with_replies rs w)) n"
  using assms(2) open_ipc [of s ep "(ipc_node_of s w)\<lparr>tn_os := rs\<rparr>" n]
  by (simp_all add: api_connect_def connect_def api_bind_def bind_def ipc_scheme [OF assms(1)] default_wires_def via_ipc_def settle_def
      ipc_in_use_def stream_socket_def no_zap_def)


section \<open>From program to program\<close>

lemma tcp_delivers:
  assumes "delivers opened (recv_tcp_frame C u) (seen u) n ms n'" "tcp_in_use u net n"
  shows "delivers (tcp_in_use u net) (recv_tcp_frame C u) (seen u) n ms n'"
proof -
  have "tcp_in_use u net (seen u m n1)" if "tcp_in_use u net n" "recv_tcp_frame C u n = (Inr m, n1)" for n m n1
    using tcp_frames_in_use(2) [OF that] that(1) by (simp add: tcp_in_use_def)
  then show ?thesis
    using delivers_sim [where h = id and R = "tcp_in_use u net" and Q = "tcp_in_use u net", of opened "recv_tcp_frame C u" "seen u" n ms n' "recv_tcp_frame C u" "seen u"]
      assms by (simp add: prod.map_id)
qed

lemma ipc_delivers:
  assumes "delivers opened (recv_tcp_frame C u) (seen u) (as_tcp n) ms t'" "ipc_in_use u net n"
  shows "\<exists>n'. delivers (ipc_in_use u net) (recv_ipc_frame C u) (seen u) n ms n' \<and> as_tcp n' = t'"
proof (rule delivers_sim [where h = as_tcp, OF assms(1), where R = "\<lambda>n. ipc_in_use u net (n\<lparr>in_ipc := (in_ipc n)\<lparr>ipc_listener := True\<rparr>\<rparr>)"])
  show "ipc_in_use u net (n\<lparr>in_ipc := (in_ipc n)\<lparr>ipc_listener := True\<rparr>\<rparr>)"
    using assms(2) by (simp add: ipc_in_use_def has_ipc_transport_def)
next
  fix n :: "unit ipc_node"
  assume r: "ipc_in_use u net (n\<lparr>in_ipc := (in_ipc n)\<lparr>ipc_listener := True\<rparr>\<rparr>)"
  then show "recv_tcp_frame C u (as_tcp n) = map_prod id as_tcp (recv_ipc_frame C u n)"
    using frames_as_tcp [of n u] by (simp add: ipc_in_use_def)
  show "ipc_in_use u net n" if "opened (as_tcp n)"
    using r that by (auto simp: ipc_in_use_def opened_def as_tcp_def Let_def new_peer_def has_ipc_transport_def split: if_splits)
  show "ipc_in_use u net ((seen u m n1)\<lparr>in_ipc := (in_ipc (seen u m n1))\<lparr>ipc_listener := True\<rparr>\<rparr>) \<and> as_tcp (seen u m n1) = seen u m (as_tcp n1)"
    if "recv_ipc_frame C u n = (Inr m, n1)" for m n1
    using r ipc_frames_keep(2) [of n u C "Inr m" n1] that
    by (simp add: ipc_in_use_def has_ipc_transport_def record_recv_metadata_def no_zap_def inproc_endpoint_of_def)
      (simp add: seen_def as_tcp_def node_as_tcp_def Let_def record_recv_metadata_def)
qed

lemma tcp_program_sends:
  assumes "stream_socket WireTcp s e w" "sender (w_sockets w s)"
    and "tcp_parse ep = Inr t" "tcp_connect_addr t = Inr addr" "tcp_bound_endpoint (nt_tcp (w_wire w) s) = None"
    and run: "\<And>n :: unit tcp_node. fresh_stream s (at_endpoint ep (w_sockets w s)) False n \<Longrightarrow> ready_state e (tn_io n) \<Longrightarrow> io_in (tn_io n) = inp \<Longrightarrow>
      \<exists>n'. for_each (map wired ms) (send_tcp_frame C s) n = (Inr (), n') \<and> io_out (tn_io n') = io_out (tn_io n) @ outp"
  shows "\<exists>w'. bnd (api_connect (default_wires C H) s ep) (\<lambda>_. api_sends (default_wires C H) s ms) (with_replies [Inr (inp, x)] w) = (Inr (), w')
    \<and> sm_out (nt_streams (w_wire w') WireTcp s) = outp"
proof -
  let ?net = "w_wire (with_replies [Inr (inp, x)] w)"
  obtain n1 where n1: "connect_tcp s ep ((tcp_node_of s w)\<lparr>tn_os := [Inr (inp, x)]\<rparr>) = (Inr (), n1)"
    "fresh_stream s (at_endpoint ep (w_sockets w s)) False n1" "ready_state e (tn_io n1)" "io_in (tn_io n1) = inp" "io_out (tn_io n1) = []"
    by (rule connect_fresh [OF stream_socket_node(1) [OF assms(1)] assms(3,4), of inp x]) (use assms(5) in simp_all)
  obtain n2 where n2: "for_each (map wired ms) (send_tcp_frame C s) n1 = (Inr (), n2)" "io_out (tn_io n2) = outp"
    using run [OF n1(2-4)] n1(5) by auto
  note open1 = wired_tcp(1) [OF assms(3,1) n1(1), of C H]
  have "sender (w_sockets (tcp_back s ?net n1) s)"
    using n1(2) assms(2) by (simp add: fresh_stream_def at_endpoint_def sender_def off_inproc_def)
  note sent = tcp_wire.sends_go [OF open1 [THEN conjunct2] this n2(1), of H]
  show ?thesis
    using open1 sent n2(2) by (intro exI [of _ "tcp_back s ?net n2"]) simp
qed

lemma tcp_program_receives:
  assumes "stream_socket WireTcp u e v" "receiver u v" "sk_monitor (w_sockets v u) = None"
    and "tcp_parse ep = Inr t" "\<not> tcp_stream (nt_tcp (w_wire v) u)" "tcp_connected_endpoint (nt_tcp (w_wire v) u) = None"
    and run: "\<And>n0 (n :: unit tcp_node). fresh_stream u (at_endpoint ep (w_sockets v u)) True n \<Longrightarrow> ready_state e (tn_io n) \<Longrightarrow> io_in (tn_io n) = inp \<Longrightarrow>
       opened n0 \<Longrightarrow> recv_tcp_frame C u n0 = recv_tcp_frame C u n \<Longrightarrow>
       \<exists>n'. delivers opened (recv_tcp_frame C u) (seen u) n0 ms n' \<and> io_out (tn_io n') = io_out (tn_io n) @ outp"
  shows "\<exists>v'. bnd (api_bind (default_wires C H) u ep) (\<lambda>_. repeated (length ms) (api_recv (default_wires C H) u)) (with_replies [Inr y, Inr (inp, z)] v) =
      (Inr ms, v') \<and> sm_out (nt_streams (w_wire v') WireTcp u) = outp"
proof -
  let ?net = "w_wire (with_replies [Inr y, Inr (inp, z)] v)"
  obtain n1 n2 where n: "bind_tcp u ep ((tcp_node_of u v)\<lparr>tn_os := [Inr y, Inr (inp, z)]\<rparr>) = (Inr (), n1)" "ensure_tcp_stream n1 = (Inr (), n2)"
    "fresh_stream u (at_endpoint ep (w_sockets v u)) True n2" "ready_state e (tn_io n2)" "io_in (tn_io n2) = inp" "io_out (tn_io n2) = []"
    "tn_socket u n1 = tn_socket u n2"
    by (rule bind_fresh [OF stream_socket_node(1) [OF assms(1)] assms(4), of y inp z]) (use assms(5,6) in simp_all)
  have b: "receiver u (io_world (tn_io n1))" "tcp_listener (tn_tcp n1)"
    by (rule bound_tcp [OF n(1)]; use assms(2,3) in \<open>simp add: receiver_def\<close>)+
  then have o: "opened n1" "receiver u (tcp_back u ?net n1)"
    by (simp_all add: opened_def receiver_def)
  have "recv_tcp_frame C u n1 = recv_tcp_frame C u n2"
    using n(2,3,7) by (intro recv_after_ensure) (auto simp: fresh_stream_def)
  from run [OF n(3-5) o(1) this] n(6) obtain n3 where n3: "delivers opened (recv_tcp_frame C u) (seen u) n1 ms n3" "io_out (tn_io n3) = outp"
    by auto
  note open1 = wired_tcp(2) [OF assms(4,1) n(1), of C H]
  note got = tcp_wire.recvs_come [OF tcp_delivers [OF n3(1) open1 [THEN conjunct2]] o(2), of H]
  show ?thesis
    using open1 got n3(2) by (intro exI [of _ "tcp_back u ?net n3"]) simp
qed

lemma ipc_program_sends:
  assumes "stream_socket WireIpc s e w" "sender (w_sockets w s)" and "ipc_parse ep = Inr t" "ipc_bound_endpoint (nt_ipc (w_wire w) s) = None"
    and run: "\<And>n :: unit tcp_node. fresh_stream s (at_endpoint ep (w_sockets w s)) False n \<Longrightarrow> ready_state e (tn_io n) \<Longrightarrow> io_in (tn_io n) = inp \<Longrightarrow>
      \<exists>n'. for_each (map wired ms) (send_tcp_frame C s) n = (Inr (), n') \<and> io_out (tn_io n') = io_out (tn_io n) @ outp"
  shows "\<exists>w'. bnd (api_connect (default_wires C H) s ep) (\<lambda>_. api_sends (default_wires C H) s ms) (with_replies [Inr (inp, x)] w) = (Inr (), w')
    \<and> sm_out (nt_streams (w_wire w') WireIpc s) = outp"
proof -
  let ?net = "w_wire (with_replies [Inr (inp, x)] w)" and ?k = "at_endpoint ep (w_sockets w s)"
  obtain n1 where n1: "connect_ipc s ep ((ipc_node_of s w)\<lparr>tn_os := [Inr (inp, x)]\<rparr>) = (Inr (), n1)"
    "fresh_stream s ?k False (as_tcp n1)" "ready_state e (tn_io n1)" "io_in (tn_io n1) = inp" "io_out (tn_io n1) = []"
    by (rule connect_ipc_fresh [OF stream_socket_node(2) [OF assms(1)] assms(3), of inp x]) (use assms(4) in simp_all)
  have "ipc_ready s ?k n1"
    using n1(2,3) by (simp add: ipc_ready_def fresh_stream_def ready_state_def no_zap_def)
  from sends_as_tcp [OF this, of "map wired ms" C] run [OF n1(2)] n1(3-5)
  obtain n2 where n2: "for_each (map wired ms) (send_ipc_frame C s) n1 = (Inr (), n2)" "io_out (tn_io n2) = outp"
    by (cases "for_each (map wired ms) (send_ipc_frame C s) n1") auto
  note open1 = wired_ipc(1) [OF assms(3,1) n1(1), of C H]
  have "sender (w_sockets (ipc_back s ?net n1) s)"
    using n1(2) assms(2) by (simp add: fresh_stream_def at_endpoint_def sender_def off_inproc_def)
  note sent = ipc_wire.sends_go [OF open1 [THEN conjunct2] this n2(1), of H]
  show ?thesis
    using open1 sent n2(2) by (intro exI [of _ "ipc_back s ?net n2"]) simp
qed

lemma ipc_program_receives:
  assumes "stream_socket WireIpc u e v" "receiver u v" "sk_monitor (w_sockets v u) = None"
    and "ipc_parse ep = Inr t" "\<not> ipc_stream (nt_ipc (w_wire v) u)"
    and run: "\<And>n0 (n :: unit tcp_node). fresh_stream u (at_endpoint ep (w_sockets v u)) True n \<Longrightarrow> ready_state e (tn_io n) \<Longrightarrow> io_in (tn_io n) = inp \<Longrightarrow>
       opened n0 \<Longrightarrow> recv_tcp_frame C u n0 = recv_tcp_frame C u n \<Longrightarrow>
       \<exists>n'. delivers opened (recv_tcp_frame C u) (seen u) n0 ms n' \<and> io_out (tn_io n') = io_out (tn_io n) @ outp"
  shows "\<exists>v'. bnd (api_bind (default_wires C H) u ep) (\<lambda>_. repeated (length ms) (api_recv (default_wires C H) u)) (with_replies [Inr y, Inr (inp, z)] v) =
      (Inr ms, v') \<and> sm_out (nt_streams (w_wire v') WireIpc u) = outp"
proof -
  let ?net = "w_wire (with_replies [Inr y, Inr (inp, z)] v)"
  obtain n1 n2 where n: "bind_ipc u ep ((ipc_node_of u v)\<lparr>tn_os := [Inr y, Inr (inp, z)]\<rparr>) = (Inr (), n1)" "ensure_ipc_stream n1 = (Inr (), n2)"
    "fresh_stream u (at_endpoint ep (w_sockets v u)) True (as_tcp n2)" "ready_state e (tn_io n2)" "io_in (tn_io n2) = inp" "io_out (tn_io n2) = []"
    "tn_socket u n1 = tn_socket u n2"
    by (rule bind_ipc_fresh [OF stream_socket_node(2) [OF assms(1)] assms(4), of y inp z]) (use assms(5) in simp_all)
  have b: "receiver u (io_world (tn_io n1))" "ipc_listener (in_ipc n1)"
    by (rule bound_ipc [OF n(1)]; use assms(2,3) in \<open>simp add: receiver_def\<close>)+
  then have o: "opened (as_tcp n1)" "receiver u (ipc_back u ?net n1)"
    by (simp_all add: opened_def receiver_def as_tcp_def new_peer_def Let_def)
  have "ensure_tcp_stream (as_tcp n1) = (Inr (), as_tcp n2)"
    using ensure_as_tcp [of n1] n(2) by simp
  then have "recv_tcp_frame C u (as_tcp n1) = recv_tcp_frame C u (as_tcp n2)"
    using n(3,7) by (intro recv_after_ensure) (auto simp: fresh_stream_def)
  from run [OF n(3) _ _ o(1) this] n(4-6) obtain t where t: "delivers opened (recv_tcp_frame C u) (seen u) (as_tcp n1) ms t" "io_out (tn_io t) = outp"
    by auto
  note open1 = wired_ipc(2) [OF assms(4,1) n(1), of C H]
  obtain n3 where n3: "delivers (ipc_in_use u ?net) (recv_ipc_frame C u) (seen u) n1 ms n3" "io_out (tn_io n3) = outp"
    using ipc_delivers [OF t(1) open1 [THEN conjunct2]] t(2) by auto
  note got = ipc_wire.recvs_come [OF n3(1) o(2), of H]
  show ?thesis
    using open1 got n3(2) by (intro exI [of _ "ipc_back u ?net n3"]) simp
qed

text \<open>
  C1. What one program sends another receives. A program has a socket of a type that sends over a stream
  without the request-reply pattern, connects it to a TCP endpoint and sends messages with or without the
  flag for more parts; another has a socket that receives, binds it and receives. Their security settings
  agree, no ZAP handler is registered and neither socket uses another transport. There are two
  byte strings such that the first program, whose operating system delivers the one, does everything
  without an error and has written the other, and the second, fed what the first wrote, wrote what the
  first was fed and receives exactly the messages, in order, with their payloads and more flags. This
  holds through the Rust interface, the socket, the choice of the transport and the TCP code.
\<close>

theorem socket_link_delivers:
  fixes w v :: "net world"
  assumes kc_def: "kc = w_sockets w s" and ks_def: "ks = w_sockets v u"
    and "stream_socket WireTcp s ec w" "stream_socket WireTcp u es v" "sender kc" "receiver u v" "sk_monitor ks = None"
    and "link_config C kc ks ec es (map wired ms)"
    and "tcp_parse ep = Inr t" "tcp_connect_addr t = Inr addr" "tcp_bound_endpoint (nt_tcp (w_wire w) s) = None"
    and "tcp_parse ep' = Inr t'" "\<not> tcp_stream (nt_tcp (w_wire v) u)" "tcp_connected_endpoint (nt_tcp (w_wire v) u) = None"
  shows "\<exists>c2s s2c w' v'.
      bnd (api_connect (default_wires C H) s ep) (\<lambda>_. api_sends (default_wires C H) s ms) (with_replies [Inr (s2c, x)] w) = (Inr (), w')
    \<and> sm_out (nt_streams (w_wire w') WireTcp s) = c2s
    \<and> bnd (api_bind (default_wires C H) u ep') (\<lambda>_. repeated (length (arriving kc (map wired ms))) (api_recv (default_wires C H) u))
        (with_replies [Inr y, Inr (c2s, z)] v) = (Inr (arriving kc (map wired ms)), v')
    \<and> sm_out (nt_streams (w_wire v') WireTcp u) = s2c"
proof -
  have "link_config C (at_endpoint ep kc) (at_endpoint ep' ks) ec es (map wired ms)"
    using assms(8) by simp
  then show ?thesis
  proof (rule delivering_link [where 'w = unit and 'v = unit], goal_cases)
    case (1 c2s s2c)
    note sent = tcp_program_sends [where H = H and x = x and C = C and inp = s2c and outp = c2s and ms = ms, OF assms(3,5) [unfolded kc_def] assms(9-11)]
      and got = tcp_program_receives [where H = H and y = y and z = z and C = C and inp = c2s and outp = s2c and ms = "arriving kc (map wired ms)",
        OF assms(4,6,7) [unfolded ks_def] assms(12-14)]
    from sent [OF 1(1) [unfolded kc_def]] got [OF 1(2) [unfolded at_endpoint_link ks_def]] show ?case
      by blast
  qed
qed

text \<open>
  C13. The same holds over IPC: with the settings of the two sockets as for TCP, the first connected to a path
  of the file system and the second bound to one, all messages arrive through the Rust interface, the socket, the choice of
  the transport and the IPC code, in order, with their payloads and more flags.
\<close>

theorem ipc_socket_link_delivers:
  fixes w v :: "net world"
  assumes kc_def: "kc = w_sockets w s" and ks_def: "ks = w_sockets v u"
    and "stream_socket WireIpc s ec w" "stream_socket WireIpc u es v" "sender kc" "receiver u v" "sk_monitor ks = None"
    and "link_config C kc ks ec es (map wired ms)"
    and "ipc_parse ep = Inr t" "ipc_bound_endpoint (nt_ipc (w_wire w) s) = None" "ipc_parse ep' = Inr t'" "\<not> ipc_stream (nt_ipc (w_wire v) u)"
  shows "\<exists>c2s s2c w' v'.
      bnd (api_connect (default_wires C H) s ep) (\<lambda>_. api_sends (default_wires C H) s ms) (with_replies [Inr (s2c, x)] w) = (Inr (), w')
    \<and> sm_out (nt_streams (w_wire w') WireIpc s) = c2s
    \<and> bnd (api_bind (default_wires C H) u ep') (\<lambda>_. repeated (length (arriving kc (map wired ms))) (api_recv (default_wires C H) u))
        (with_replies [Inr y, Inr (c2s, z)] v) = (Inr (arriving kc (map wired ms)), v')
    \<and> sm_out (nt_streams (w_wire v') WireIpc u) = s2c"
proof -
  have "link_config C (at_endpoint ep kc) (at_endpoint ep' ks) ec es (map wired ms)"
    using assms(8) by simp
  then show ?thesis
  proof (rule delivering_link [where 'w = unit and 'v = unit], goal_cases)
    case (1 c2s s2c)
    note sent = ipc_program_sends [where H = H and x = x and C = C and inp = s2c and outp = c2s and ms = ms, OF assms(3,5) [unfolded kc_def] assms(9,10)]
      and got = ipc_program_receives [where H = H and y = y and z = z and C = C and inp = c2s and outp = s2c and ms = "arriving kc (map wired ms)",
        OF assms(4,6,7) [unfolded ks_def] assms(11,12)]
    from sent [OF 1(1) [unfolded kc_def]] got [OF 1(2) [unfolded at_endpoint_link ks_def]] show ?case
      by blast
  qed
qed


section \<open>An example\<close>

text \<open>A PUSH and a PULL socket with CURVE, each in a program of its own, and a message of two parts.\<close>

definition world_example :: "socket_type \<Rightarrow> security_options \<Rightarrow> bytes \<Rightarrow> net world" where
  "world_example t sec e = with_wire (net_new\<lparr>nt_entropy := e\<rparr>) (io_world (tn_io (node_example t sec e)))"

definition example_parts :: "(message \<times> i32) list" where
  "example_parts = [(message_from_vec [1], ZMQ_SNDMORE), (message_from_vec [2, 3], 0)]"

text \<open>The WebSocket transport is not used, so its hashes are never asked for.\<close>

definition idle_hashes :: hashes where
  "idle_hashes = \<lparr>hs_sha1 = (\<lambda>_. []), hs_base64 = (\<lambda>_. [])\<rparr>"

abbreviation example_wires :: "net wires" where
  "example_wires \<equiv> default_wires plain_crypto idle_hashes"

abbreviation example_client :: "net world" where
  "example_client \<equiv> world_example Push client_curve_example (replicate 48 5)"

abbreviation example_server :: "net world" where
  "example_server \<equiv> world_example Pull server_curve_example (replicate 96 6)"

lemma world_example_simps [simp]:
  "w_sockets (world_example t sec e) 0 = tn_socket 0 (node_example t sec e)"
  "nt_tcp (w_wire (world_example t sec e)) s = tcp_state_default" "nt_ipc (w_wire (world_example t sec e)) s = ipc_state_default"
  "queues (world_example t sec e) q = []" "only x s (w_wire (world_example t sec e))" "nt_entropy (w_wire (world_example t sec e)) = e"
  "no_zap (world_example t sec e)"
  by (simp_all add: world_example_def net_new_def node_example_def world_new_def context_new_def context_shared.defs world.defs only_def
      no_zap_def inproc_endpoint_of_def)
    (simp add: has_transport_def has_udp_transport_def has_ws_transport_def has_tcp_transport_def has_ipc_transport_def udp_state_default_def
      ws_state_default_def tcp_state_default_def ipc_state_default_def split: wire.split)

lemma world_example_ready:
  "stream_socket x 0 (replicate 48 5) example_client" "stream_socket x 0 (replicate 96 6) example_server"
  "sender (w_sockets example_client 0)" "receiver 0 example_server" "sk_monitor (w_sockets example_server 0) = None"
  by (simp_all add: stream_socket_def sender_def off_inproc_def receiver_def node_example_socket socket_record_def socket_options_default_def
      supports_stream_transport_def can_send_def can_recv_def inproc_state_default_def)

lemma example_link:
  "arriving (w_sockets example_client 0) (map wired example_parts) = [set_more True (message_from_vec [1]), message_from_vec [2, 3]]"
  "link_config plain_crypto (w_sockets example_client 0) (w_sockets example_server 0) (replicate 48 5) (replicate 96 6) (map wired example_parts)"
proof -
  have o: "outgoing (w_sockets example_client 0) (map wired example_parts) = [([1], True), ([2, 3], False)]"
    by (simp add: example_parts_def outgoing_def hello_part_def probe_part_def node_example_socket socket_options_default_def)
  have i: "opt_routing_id (sk_options (w_sockets example_client 0)) = []"
    by (simp add: node_example_socket socket_options_default_def)
  show "arriving (w_sockets example_client 0) (map wired example_parts) = [set_more True (message_from_vec [1]), message_from_vec [2, 3]]"
    unfolding arriving_def o i by (simp add: apply_peer_identity_metadata_def identity_option_def message_from_vec_def set_more_def)
  show "link_config plain_crypto (w_sockets example_client 0) (w_sockets example_server 0) (replicate 48 5) (replicate 96 6) (map wired example_parts)"
    unfolding link_config_def o i using curve_example_agrees
    by (simp add: example_parts_def hello_part_def probe_part_def node_example_socket socket_options_default_def)
qed

theorem socket_link_delivers_witness:
  "\<exists>c2s s2c w' v'.
      bnd (api_connect example_wires 0 (lit ''tcp://127.0.0.1:5555'')) (\<lambda>_. api_sends example_wires 0 example_parts)
        (with_replies [Inr (s2c, False)] example_client) = (Inr (), w')
    \<and> sm_out (nt_streams (w_wire w') WireTcp 0) = c2s
    \<and> bnd (api_bind example_wires 0 (lit ''tcp://127.0.0.1:5555'')) (\<lambda>_. repeated 2 (api_recv example_wires 0))
        (with_replies [Inr ([], False), Inr (c2s, False)] example_server) =
        (Inr [set_more True (message_from_vec [1]), message_from_vec [2, 3]], v')
    \<and> sm_out (nt_streams (w_wire v') WireTcp 0) = s2c"
proof -
  have e: "tcp_bound_endpoint (nt_tcp (w_wire example_client) 0) = None" "\<not> tcp_stream (nt_tcp (w_wire example_server) 0)"
    "tcp_connected_endpoint (nt_tcp (w_wire example_server) 0) = None"
    by (simp_all add: tcp_state_default_def)
  show ?thesis
    using socket_link_delivers [OF refl refl world_example_ready example_link(2) tcp_example(2,1) e(1) tcp_example(2) e(2,3),
        of idle_hashes False "([], False)" False, unfolded example_link(1)]
    by (simp add: numeral_2_eq_2)
qed

theorem ipc_socket_link_delivers_witness:
  "\<exists>c2s s2c w' v'.
      bnd (api_connect example_wires 0 (lit ''ipc:///tmp/a'')) (\<lambda>_. api_sends example_wires 0 example_parts)
        (with_replies [Inr (s2c, False)] example_client) = (Inr (), w')
    \<and> sm_out (nt_streams (w_wire w') WireIpc 0) = c2s
    \<and> bnd (api_bind example_wires 0 (lit ''ipc:///tmp/a'')) (\<lambda>_. repeated 2 (api_recv example_wires 0))
        (with_replies [Inr ([], False), Inr (c2s, False)] example_server) =
        (Inr [set_more True (message_from_vec [1]), message_from_vec [2, 3]], v')
    \<and> sm_out (nt_streams (w_wire v') WireIpc 0) = s2c"
proof -
  have e: "ipc_bound_endpoint (nt_ipc (w_wire example_client) 0) = None" "\<not> ipc_stream (nt_ipc (w_wire example_server) 0)"
    by (simp_all add: ipc_state_default_def)
  have p: "ipc_parse (lit ''ipc:///tmp/a'') = Inr \<lparr>ipc_path = lit ''/tmp/a''\<rparr>"
    by code_simp
  show ?thesis
    using ipc_socket_link_delivers [OF refl refl world_example_ready example_link(2) p e(1) p e(2),
        of idle_hashes False "([], False)" False, unfolded example_link(1)]
    by (simp add: numeral_2_eq_2)
qed

end
