(* ===== verification/Wired_Others.thy ===== *)
theory Wired_Others
  imports Wired_Link
begin

text \<open>
  The same way over the other two transports: WebSockets, with the opening handshake of RFC 6455 in place of the one of
  ZMTP, and datagrams, where a bound socket answers the peer it heard last.
\<close>

section \<open>WebSockets\<close>

lemma ws_scheme:
  assumes "ws_parse ep = Inr e"
  shows "wire_scheme ep = Some WireWs"
proof -
  have "starts_with (lit ''ws://'') ep"
    using assms by (auto simp: ws_parse_def ws_parse_with_prefix_def strip_prefix_def split: if_splits)
  then obtain r where "ep = lit ''ws://'' @ r"
    by (auto simp: starts_with_prefix prefix_def)
  then show ?thesis
    by (simp add: wire_scheme_def starts_with_def) (simp add: lit_def)
qed

lemma open_ws:
  assumes "connect_ws H s ep n = (Inr (), n') \<or> bind_ws s ep n = (Inr (), n')"
  shows "io_others (tn_io n') = io_others (tn_io n)" "no_zap (io_world (tn_io n')) = no_zap (io_world (tn_io n))" "has_ws_transport (wn_ws n')"
    "tn_socket s n' = at_endpoint ep (tn_socket s n)"
  using assms
  by (auto simp: connect_ws_def bind_ws_def bnd_apply os_call_def configure_tcp_stream_def on_io_def with_entropy_def no_zap_def at_endpoint_def
      inproc_endpoint_of_def set_last_endpoint_def has_ws_transport_def try_result_def try_io_def update_ws_def update_world_def split: if_splits sum.splits prod.splits list.splits)

lemma bound_ws:
  assumes "bind_ws u ep n = (Inr (), n')" "sk_monitor (tn_socket u n) = None" "receiver u (io_world (tn_io n))"
  shows "receiver u (io_world (tn_io n'))"
  using assms
  by (auto simp: bind_ws_def bnd_apply os_call_def receiver_def set_last_endpoint_def emit_monitor_event_def try_result_def try_io_def
      update_ws_def update_world_def split: if_splits sum.splits prod.splits list.splits)

lemma ws_node_simps [simp]:
  "ws_node_of s (with_replies rs w) = (ws_node_of s w)\<lparr>tn_os := rs\<rparr>" "tn_io (ws_node_of s w) = wire_io WireWs s w"
  "wn_ws (ws_node_of s w) = nt_ws (w_wire w) s"
  by (simp_all add: with_replies_def on_net_def ws_node_of_def wire_io_def Let_def)

lemma wired_ws:
  assumes "ws_parse ep = Inr t" "stream_socket WireWs s e w"
  shows "connect_ws H s ep ((ws_node_of s w)\<lparr>tn_os := rs\<rparr>) = (Inr (), n) \<Longrightarrow>
      api_connect (default_wires C H) s ep (with_replies rs w) = (Inr (), ws_back s (w_wire (with_replies rs w)) n)
      \<and> ws_in_use s (w_wire (with_replies rs w)) n"
    and "bind_ws s ep ((ws_node_of s w)\<lparr>tn_os := rs\<rparr>) = (Inr (), n) \<Longrightarrow>
      api_bind (default_wires C H) s ep (with_replies rs w) = (Inr (), ws_back s (w_wire (with_replies rs w)) n)
      \<and> ws_in_use s (w_wire (with_replies rs w)) n"
  using assms(2) open_ws [of H s ep "(ws_node_of s w)\<lparr>tn_os := rs\<rparr>" n]
  by (simp_all add: api_connect_def connect_def api_bind_def bind_def ws_scheme [OF assms(1)] default_wires_def via_ws_def settle_def
      ws_in_use_def stream_socket_def no_zap_def)

lemma ws_delivers:
  assumes "wst_stream (wn_ws n)" "wst_handshake_done (wn_ws n)" "\<forall>m \<in> set ms. length (data m) < 2 ^ 60" "b \<Longrightarrow> 4 * length ms \<le> length e"
    and "io_in (tn_io n) = ws_texts b e ms @ rest" "ws_in_use u net n"
  shows "\<exists>n'. delivers (ws_in_use u net) (recv_ws_frame H) (seen u) n (map wire_message ms) n' \<and> io_out (tn_io n') = io_out (tn_io n)"
  using assms
proof (induction ms arbitrary: n e)
  case (Cons m ms)
  let ?e = "if b then drop 4 e else e"
  let ?n1 = "n\<lparr>tn_io := (tn_io n)\<lparr>io_in := ws_texts b ?e ms @ rest\<rparr>\<rparr>"
  have r: "recv_ws_frame H n = (Inr (wire_message m), ?n1)"
    using Cons.prems by (intro ws_recv_one [of n m b e]) auto
  have "\<exists>n'. delivers (ws_in_use u net) (recv_ws_frame H) (seen u) (seen u (wire_message m) ?n1) (map wire_message ms) n'
      \<and> io_out (tn_io n') = io_out (tn_io (seen u (wire_message m) ?n1))"
    using Cons.prems by (intro Cons.IH [of _ ?e]) (auto simp: ws_in_use_def)
  then show ?case
    using r Cons.prems(6) by auto
qed simp

lemma ws_program_sends:
  assumes "stream_socket WireWs s ec w" "sender (w_sockets w s)" "ws_parse ep = Inr e" "ws_connect_addr e = Inr addr" "16 + 4 * length ms \<le> length ec"
  shows "\<exists>w'. bnd (api_connect (default_wires C H) s ep) (\<lambda>_. api_sends (default_wires C H) s ms) (with_replies [Inr (inp, x)] w) = (Inr (), w')
    \<and> sm_out (nt_streams (w_wire w') WireWs s) = ws_request e (hs_base64 H (take 16 ec)) @ ws_texts True (drop 16 ec) (map wired ms)"
proof -
  let ?key = "hs_base64 H (take 16 ec)" and ?net = "w_wire (with_replies [Inr (inp, x)] w)"
  have k: "supports_stream_transport (sk_type (tn_socket s (ws_node_of s w)))" "io_entropy (tn_io (ws_node_of s w)) = ec"
    using assms(1) by (simp_all add: stream_socket_def)
  obtain n1 where n1: "connect_ws H s ep ((ws_node_of s w)\<lparr>tn_os := [Inr (inp, x)]\<rparr>) = (Inr (), n1)"
    "wn_ws n1 = \<lparr>wst_listener = False, wst_stream = True, wst_bound_endpoint = None, wst_connected_endpoint = Some e,
       wst_handshake_done = False, wst_client_key = Some ?key\<rparr>" "io_out (tn_io n1) = ws_request e ?key" "io_entropy (tn_io n1) = drop 16 ec"
    by (rule connect_ws_ok [OF k(1) assms(3,4), of H inp x]) (use assms(5) k(2) in auto)
  have "ws_sending True n1" "4 * length (map wired ms) \<le> length (io_entropy (tn_io n1))"
    using n1(2,4) assms(5) by (simp_all add: ws_sending_def)
  from ws_sends [OF this, of H] n1(3,4) obtain n2 where n2: "for_each (map wired ms) (send_ws_frame H) n1 = (Inr (), n2)"
    "io_out (tn_io n2) = ws_request e ?key @ ws_texts True (drop 16 ec) (map wired ms)"
    by fastforce
  note open1 = wired_ws(1) [OF assms(3,1) n1(1), where C = C]
  have "sender (w_sockets (ws_back s ?net n1) s)"
    using open_ws(4) [OF disjI1 [OF n1(1)]] assms(2) by (simp add: at_endpoint_def sender_def off_inproc_def)
  note sent = ws_wire.sends_go [OF open1 [THEN conjunct2] this n2(1), of C]
  show ?thesis
    using open1 sent n2(2) by (intro exI [of _ "ws_back s ?net n2"]) simp
qed

lemma ws_program_receives:
  assumes "stream_socket WireWs u es v" "receiver u v" "sk_monitor (w_sockets v u) = None" "ws_parse ep = Inr e'"
    and "ws_address_ok e" "\<forall>b \<in> set key. graphic b" "length key \<le> 28"
    and "ms \<noteq> []" "4 * length ms \<le> length entropy" "\<forall>m \<in> set ms. length (data m) < 2 ^ 60"
  shows "\<exists>v'. bnd (api_bind (default_wires C H) u ep) (\<lambda>_. repeated (length ms) (api_recv (default_wires C H) u))
      (with_replies [Inr y, Inr (ws_request e key @ ws_texts True entropy ms, z)] v) = (Inr (map wire_message ms), v')
    \<and> sm_out (nt_streams (w_wire v') WireWs u) = ws_response (websocket_accept H key)"
proof -
  let ?net = "w_wire (with_replies [Inr y, Inr (ws_request e key @ ws_texts True entropy ms, z)] v)"
  have k: "supports_stream_transport (sk_type (tn_socket u (ws_node_of u v)))"
    using assms(1) by (simp add: stream_socket_def)
  obtain m1 m2 where m: "bind_ws u ep ((ws_node_of u v)\<lparr>tn_os := [Inr y, Inr (ws_request e key @ ws_texts True entropy ms, z)]\<rparr>) = (Inr (), m1)"
    "ensure_ws_ready H m1 = (Inr (), m2)" "wst_stream (wn_ws m2)" "wst_handshake_done (wn_ws m2)" "io_in (tn_io m2) = ws_texts True entropy ms"
    "io_out (tn_io m2) = ws_response (websocket_accept H key)"
    by (rule bind_ws_ok [OF k assms(4-7), of y "ws_texts True entropy ms" z H])
  note open1 = wired_ws(2) [OF assms(4,1) m(1), where C = C and H = H]
  have f: "recv_ws_frame H m1 = recv_ws_frame H m2"
    using m(2) ensure_done [OF m(3,4), of H] by (simp add: recv_ws_frame_def)
  have "keeps_ws (ensure_ws_ready H :: (unit, unit) ws_op)"
    unfolding ensure_ws_ready_def accept_ws_def by (intro keeps_ws_intros keeps_ws_parts)
  then have i2: "ws_in_use u ?net m2"
    using open1 m(2,3) by (auto simp: keeps_ws_def ws_in_use_def has_ws_transport_def)
  from ws_delivers [OF m(3,4) assms(10,9) _ i2, of True "[]" H] m(5,6) obtain m3 where
    m3: "delivers (ws_in_use u ?net) (recv_ws_frame H) (seen u) m2 (map wire_message ms) m3" "io_out (tn_io m3) = ws_response (websocket_accept H key)"
    by auto
  then have d: "delivers (ws_in_use u ?net) (recv_ws_frame H) (seen u) m1 (map wire_message ms) m3"
    using f open1 assms(8) by (intro delivers_first [OF m3(1)]) simp_all
  have "receiver u (ws_back u ?net m1)"
    using bound_ws [OF m(1)] assms(2,3) by (simp add: receiver_def)
  note got = ws_wire.recvs_come [OF d this, of C]
  show ?thesis
    using open1 got m3(2) by (intro exI [of _ "ws_back u ?net m3"]) simp
qed

text \<open>
  Over a WebSocket, too, what one program sends another receives, through the Rust interface, the socket, the choice
  of the transport and the WebSocket code with its opening handshake. The client writes all it has to say before it
  reads the answer of the server.
\<close>

theorem ws_socket_link_delivers:
  fixes w v :: "net world"
  assumes "hash_laws H" and "stream_socket WireWs s ec w" "stream_socket WireWs u es v"
    and "sender (w_sockets w s)" "receiver u v" "sk_monitor (w_sockets v u) = None"
    and "ws_parse ep = Inr e" "ws_connect_addr e = Inr addr" "ws_address_ok e" "ws_parse ep' = Inr e'"
    and "16 + 4 * length ms \<le> length ec" "ms \<noteq> []" "\<forall>p \<in> set ms. length (data (fst p)) < 2 ^ 60"
  shows "\<exists>c2s w' v'.
      bnd (api_connect (default_wires C H) s ep) (\<lambda>_. api_sends (default_wires C H) s ms) (with_replies [Inr (inp, x)] w) = (Inr (), w')
    \<and> sm_out (nt_streams (w_wire w') WireWs s) = c2s
    \<and> bnd (api_bind (default_wires C H) u ep') (\<lambda>_. repeated (length ms) (api_recv (default_wires C H) u))
        (with_replies [Inr y, Inr (c2s, z)] v) = (Inr (map (\<lambda>p. wire_message (wired p)) ms), v')
    \<and> sm_out (nt_streams (w_wire v') WireWs u) = ws_response (websocket_accept H (hs_base64 H (take 16 ec)))"
proof -
  have key: "\<forall>b \<in> set (hs_base64 H (take 16 ec)). graphic b" "length (hs_base64 H (take 16 ec)) \<le> 28"
    using assms(1,11) base64_graphic by (auto simp: hash_laws_def)
  have "\<exists>v'. bnd (api_bind (default_wires C H) u ep') (\<lambda>_. repeated (length (map wired ms)) (api_recv (default_wires C H) u))
      (with_replies [Inr y, Inr (ws_request e (hs_base64 H (take 16 ec)) @ ws_texts True (drop 16 ec) (map wired ms), z)] v) =
        (Inr (map wire_message (map wired ms)), v')
    \<and> sm_out (nt_streams (w_wire v') WireWs u) = ws_response (websocket_accept H (hs_base64 H (take 16 ec)))"
    by (rule ws_program_receives [OF assms(3,5,6,10,9) key]) (use assms(11-13) in simp_all)
  with ws_program_sends [OF assms(2,4,7,8,11), of C H inp x] show ?thesis
    by (auto simp: comp_def)
qed


section \<open>Datagrams\<close>

text \<open>
  A bound DGRAM socket receives a datagram and sends one: both go through the Rust interface and the socket, and the answer goes to
  the address the datagram came from.
\<close>

theorem datagram_answered:
  fixes n :: "unit udp_node"
  assumes "only WireUdp s net" "udp_socket (un_udp n)" "udp_connected_endpoint (un_udp n) = None"
    and "sender (w_sockets (un_world n) s)" "receiver s (un_world n)"
    and "un_os n = [Received d p, Sent (message_len m)]" "length d \<le> 65536"
  shows "\<exists>w'. bnd (api_recv (default_wires C H) s) (\<lambda>got. bnd (api_send (default_wires C H) s m) (\<lambda>k. ret (got, k))) (udp_back s net n) =
      (Inr (message_from_vec d, message_len m), w')
    \<and> nt_udp_log (w_wire w') = un_log n @ [(RecvFrom, Received d p), (SendTo (data m) p, Sent (message_len m))]"
proof -
  let ?n1 = "n\<lparr>un_os := [Sent (message_len m)], un_log := un_log n @ [(RecvFrom, Received d p)], un_udp := (un_udp n)\<lparr>udp_last_peer := Some p\<rparr>\<rparr>"
  let ?n2 = "seen_udp s (message_from_vec d) ?n1"
  let ?n3 = "?n2\<lparr>un_os := [], un_log := un_log n @ [(RecvFrom, Received d p), (SendTo (data m) p, Sent (message_len m))]\<rparr>"
  have u: "udp_in_use s net n" "udp_in_use s net ?n2"
    using assms(1,2) by (simp_all add: udp_in_use_def has_udp_transport_def seen_udp_def)
  have "recv_udp_datagram n = (Inr (message_from_vec d), ?n1)"
    using assms(2,6,7) by (simp add: recv_udp_datagram_def udp_os_def set_udp_def)
  note r = udp_wire.recv_comes(1) [OF u(1) _ this]
  have "send_udp_datagram (wired (m, 0)) ?n2 = (Inr (), ?n3)"
    using assms(2,3) by (simp add: send_udp_datagram_def udp_os_def seen_udp_def message_len_def)
  note t = udp_wire.send_goes(1) [OF u(2) _ this]
  have q: "receiver s (udp_back s net n)" "sender (w_sockets (udp_back s net ?n2) s)"
    using assms(4,5) by (simp_all add: receiver_def seen_udp_def record_recv_metadata_def sender_def off_inproc_def)
  have "nt_udp_log (w_wire (udp_back s net ?n3)) = un_log ?n3"
    by (simp add: back_defs)
  then show ?thesis
    using r [OF q(1), of C H 0] t [OF q(2), of C H] by (intro exI [of _ "udp_back s net ?n3"]) (simp add: api_recv_def api_send_def)
qed

end
