(* ===== verification/Gssapi.thy ===== *)
theory Gssapi
  imports Handshake_Agreement
begin

text \<open>
  The GSSAPI mechanism of \<open>crates/libzmq-core/src/socket.rs\<close> as it is compiled with the feature \<open>gssapi\<close>: the
  exchange of tokens, the READY commands and the wrapped messages. The security contexts of the GSS library are a
  parameter, the record \<open>gss\<close>, with the operations of \<open>libzmq_sys::gssapi\<close>; a client and a server context are values
  of one type.
\<close>

section \<open>The library\<close>

datatype name_type = HostBased | UserName | Krb5Principal

datatype gss_step = Continue bytes | Complete bytes

record 'c gss =
  gs_client_new :: "bytes \<Rightarrow> name_type \<Rightarrow> (bytes \<times> name_type) option \<Rightarrow> 'c option"
  gs_server_new :: "(bytes \<times> name_type) option \<Rightarrow> 'c option"
  gs_initiate :: "bytes option \<Rightarrow> 'c \<Rightarrow> gss_step option \<times> 'c"
  gs_accept :: "bytes \<Rightarrow> 'c \<Rightarrow> gss_step option \<times> 'c"
  gs_source_principal :: "'c \<Rightarrow> bytes option"
  gs_wrap :: "bytes \<Rightarrow> 'c \<Rightarrow> bytes option \<times> 'c"
  gs_unwrap :: "bytes \<Rightarrow> 'c \<Rightarrow> bytes option \<times> 'c"


section \<open>Command bodies\<close>

definition gssapi_name_type :: "i32 \<Rightarrow> name_type result" where
  "gssapi_name_type v =
     (if v = ZMQ_GSSAPI_NT_HOSTBASED then Inr HostBased
      else if v = ZMQ_GSSAPI_NT_USER_NAME then Inr UserName
      else if v = ZMQ_GSSAPI_NT_KRB5_PRINCIPAL then Inr Krb5Principal
      else Inl InvalidArgument)"

definition gssapi_initiate_body :: "bytes \<Rightarrow> bytes" where
  "gssapi_initiate_body token = command_body (lit ''INITIATE'') (to_be 4 (length token) @ token)"

definition parse_gssapi_token_tail :: "bytes \<Rightarrow> bytes result" where
  "parse_gssapi_token_tail tail =
     (if length tail < 4 then Inl InvalidArgument
      else if length tail \<noteq> 4 + from_be (take 4 tail) then Inl InvalidArgument
      else Inr (drop 4 tail))"

definition parse_gssapi_initiate_token :: "zmtp_frame \<Rightarrow> bytes result" where
  "parse_gssapi_initiate_token f = and_then (command_tail f (lit ''INITIATE'')) parse_gssapi_token_tail"

definition session_wrap :: "'c gss \<Rightarrow> bytes \<Rightarrow> ('c, error, bytes) comp" where
  "session_wrap G plaintext c = (case gs_wrap G plaintext c of (r, c1) \<Rightarrow> (ok_or InvalidArgument r, c1))"

definition session_unwrap :: "'c gss \<Rightarrow> bytes \<Rightarrow> ('c, error, bytes) comp" where
  "session_unwrap G ciphertext c = (case gs_unwrap G ciphertext c of (r, c1) \<Rightarrow> (ok_or InvalidArgument r, c1))"

definition gssapi_wrapped_body :: "'c gss \<Rightarrow> byte \<Rightarrow> bytes \<Rightarrow> ('c, error, bytes) comp" where
  "gssapi_wrapped_body G flags d =
     bnd (session_wrap G (flags # d)) (\<lambda>wrapped. ret (command_body (lit ''MESSAGE'') (to_be 4 (length wrapped) @ wrapped)))"

definition gssapi_unwrap_body :: "'c gss \<Rightarrow> bytes \<Rightarrow> ('c, error, byte \<times> bytes) comp" where
  "gssapi_unwrap_body G body =
     bnd (lift (and_then (command_tail_body body (lit ''MESSAGE'')) parse_gssapi_token_tail)) (\<lambda>token.
     bnd (session_unwrap G token) (\<lambda>plaintext.
       case plaintext of [] \<Rightarrow> throw InvalidArgument | flags # d \<Rightarrow> ret (flags, d)))"

definition gssapi_ready_body :: "'c gss \<Rightarrow> socket_type \<Rightarrow> bytes \<Rightarrow> security_options \<Rightarrow> ('c, error, bytes) comp" where
  "gssapi_ready_body G t identity sec =
     (if sec_gssapi_plaintext sec then ret (ready_command_body_with_identity t identity)
      else gssapi_wrapped_body G 2 (ready_command_body_with_identity t identity))"

definition gssapi_expect_ready :: "'c gss \<Rightarrow> zmtp_frame \<Rightarrow> security_options \<Rightarrow> ('c, error, zmtp_metadata) comp" where
  "gssapi_expect_ready G f sec =
     (if sec_gssapi_plaintext sec then lift (parse_ready_metadata f)
      else bnd (gssapi_unwrap_body G (fr_body f)) (\<lambda>(flags, plaintext).
             if flags AND 2 = 0 then throw InvalidArgument
             else lift (and_then (command_tail_body plaintext (lit ''READY'')) decode_properties)))"

definition gssapi_message_frame :: "'c gss \<Rightarrow> bytes \<Rightarrow> bool \<Rightarrow> ('c, error, bytes) comp" where
  "gssapi_message_frame G d has_more =
     bnd (gssapi_wrapped_body G (of_bool has_more) d) (\<lambda>body. ret (encode_v3 (frame_command body)))"

definition gssapi_message_from_body :: "'c gss \<Rightarrow> bytes \<Rightarrow> ('c, error, message) comp" where
  "gssapi_message_from_body G body =
     bnd (gssapi_unwrap_body G body) (\<lambda>(flags, plaintext).
       if flags AND NOT 1 \<noteq> 0 then throw InvalidArgument
       else ret (set_more (flags AND 1 \<noteq> 0) (message_from_vec plaintext)))"


section \<open>The handshake\<close>

record 'c gss_handshake = handshake_result +
  hr_gssapi_session :: "'c option"

definition gss_done :: "zmtp_metadata \<Rightarrow> security_options \<Rightarrow> 'c \<Rightarrow> 'c gss_handshake" where
  "gss_done peer_metadata sec c =
     \<lparr>hr_peer_greeting_done = False, hr_peer_ready = True, hr_peer_identity = peer_identity_of peer_metadata,
      hr_curve_session = None, hr_gssapi_session = (if sec_gssapi_plaintext sec then None else Some c)\<rparr>"

definition try_gss :: "'a option \<Rightarrow> ('w io, fault, 'a) comp" where
  "try_gss r = try_err (ok_or InvalidArgument r)"

text \<open>\<open>then_some\<close> takes a value: the name type is checked also when no principal is set.\<close>

definition gss_principal :: "security_options \<Rightarrow> (bytes \<times> name_type) option result" where
  "gss_principal sec =
     map_ok (\<lambda>nt. if sec_gssapi_principal sec = [] then None else Some (sec_gssapi_principal sec, nt))
       (gssapi_name_type (sec_gssapi_principal_nametype sec))"

definition on_session :: "('c, error, 'a) comp \<Rightarrow> 'c \<Rightarrow> ('w io, fault, 'a \<times> 'c) comp" where
  "on_session f c = (case f c of (r, c1) \<Rightarrow> try_err (map_ok (\<lambda>x. (x, c1)) r))"

function gss_server_loop :: "'c gss \<Rightarrow> 'c \<Rightarrow> ('w io, fault, 'c) comp" where
  "gss_server_loop G server st =
     (case read_zmtp_frame st of
        (Inl e, st1) \<Rightarrow> (Inl e, st1)
      | (Inr f, st1) \<Rightarrow>
          (case parse_gssapi_initiate_token f of
             Inl e \<Rightarrow> (Inl (Fail e), st1)
           | Inr token \<Rightarrow>
               (case gs_accept G token server of
                  (None, _) \<Rightarrow> (Inl (Fail InvalidArgument), st1)
                | (Some (Continue reply), server1) \<Rightarrow>
                    if reply = [] then (Inl (Fail InvalidArgument), st1)
                    else gss_server_loop G server1 (snd (write_command (gssapi_initiate_body reply) st1))
                | (Some (Complete reply), server1) \<Rightarrow>
                    (Inr server1, if reply = [] then st1 else snd (write_command (gssapi_initiate_body reply) st1)))))"
  by pat_completeness auto
termination
  by (relation "measure (\<lambda>(G, server, st). length (io_in st))") (auto dest: read_frame_shrinks [OF sym])

declare gss_server_loop.simps [simp del]

function gss_client_loop :: "'c gss \<Rightarrow> 'c \<Rightarrow> bytes \<Rightarrow> bool \<Rightarrow> ('w io, fault, 'c) comp" where
  "gss_client_loop G client token complete st =
     (if token = [] then (Inl (Fail InvalidArgument), st)
      else
        let st0 = snd (write_command (gssapi_initiate_body token) st)
        in if complete then (Inr client, st0)
           else
             (case read_zmtp_frame st0 of
                (Inl e, st1) \<Rightarrow> (Inl e, st1)
              | (Inr f, st1) \<Rightarrow>
                  (case parse_gssapi_initiate_token f of
                     Inl e \<Rightarrow> (Inl (Fail e), st1)
                   | Inr reply \<Rightarrow>
                       (case gs_initiate G (Some reply) client of
                          (None, _) \<Rightarrow> (Inl (Fail InvalidArgument), st1)
                        | (Some (Continue next_token), client1) \<Rightarrow> gss_client_loop G client1 next_token False st1
                        | (Some (Complete next_token), client1) \<Rightarrow> gss_client_loop G client1 next_token True st1))))"
  by pat_completeness auto
termination
  by (relation "measure (\<lambda>(G, client, token, complete, st). length (io_in st))") (auto dest: read_frame_shrinks [OF sym])

declare gss_client_loop.simps [simp del]

definition gss_authorize :: "'c gss \<Rightarrow> security_options \<Rightarrow> 'c \<Rightarrow> ('w io, fault, unit) comp" where
  "gss_authorize G sec server st =
     (if inproc_endpoint_of ZAP_ENDPOINT (io_world st) = None then (Inr (), st)
      else bnd (try_gss (gs_source_principal G server)) (\<lambda>prin. authorize_peer sec (lit ''GSSAPI'') [prin] (Inr ())) st)"

definition write_real_gssapi_handshake ::
  "'c gss \<Rightarrow> socket_type \<Rightarrow> bool \<Rightarrow> security_options \<Rightarrow> bytes \<Rightarrow> ('w io, fault, 'c gss_handshake) comp" where
  "write_real_gssapi_handshake G t as_server sec routing_id =
     (if as_server then
        bnd (try_err (gss_principal sec)) (\<lambda>prin.
        bnd (try_gss (gs_server_new G prin)) (\<lambda>server.
        bnd (gss_server_loop G server) (\<lambda>server1.
        bnd (gss_authorize G sec server1) (\<lambda>_.
        bnd (on_session (gssapi_ready_body G t routing_id sec) server1) (\<lambda>(ready, server2).
        bnd (write_command ready) (\<lambda>_.
        bnd read_zmtp_frame (\<lambda>f.
        bnd (on_session (gssapi_expect_ready G f sec) server2) (\<lambda>(peer_metadata, server3).
          ret (gss_done peer_metadata sec server3)))))))))
      else if sec_gssapi_service_principal sec = [] then throw (Fail InvalidArgument)
      else
        bnd (try_err (gss_principal sec)) (\<lambda>prin.
        bnd (try_err (gssapi_name_type (sec_gssapi_service_principal_nametype sec))) (\<lambda>nt.
        bnd (try_gss (gs_client_new G (sec_gssapi_service_principal sec) nt prin)) (\<lambda>client.
          case gs_initiate G None client of
            (None, _) \<Rightarrow> throw (Fail InvalidArgument)
          | (Some step, client1) \<Rightarrow>
              bnd (case step of Continue token \<Rightarrow> gss_client_loop G client1 token False
                              | Complete token \<Rightarrow> gss_client_loop G client1 token True) (\<lambda>client2.
              bnd read_zmtp_frame (\<lambda>f.
              bnd (on_session (gssapi_expect_ready G f sec) client2) (\<lambda>(peer_metadata, client3).
              bnd (on_session (gssapi_ready_body G t routing_id sec) client3) (\<lambda>(ready, client4).
              bnd (write_command ready) (\<lambda>_.
                ret (gss_done peer_metadata sec client4))))))))))"


section \<open>Command bodies read back\<close>

lemma parse_token_tail [simp]:
  "length token < 256 ^ 4 \<Longrightarrow> parse_gssapi_token_tail (to_be 4 (length token) @ token) = Inr token"
  by (simp add: parse_gssapi_token_tail_def from_be_to_be_id length_to_be)

lemma parse_initiate_body [simp]:
  "length token < 256 ^ 4 \<Longrightarrow> parse_gssapi_initiate_token (frame_command (gssapi_initiate_body token)) = Inr token"
  by (simp add: parse_gssapi_initiate_token_def gssapi_initiate_body_def)

lemma initiate_body_short: "length token < 256 ^ 4 \<Longrightarrow> length (gssapi_initiate_body token) < 2 ^ 62"
  by (simp add: gssapi_initiate_body_def command_body_def length_to_be)

text \<open>
  What the code relies on: a related pair of contexts unwraps what it has wrapped, either way, and stays related; the
  wrapped text of a message below 2 GB has a length of four bytes.
\<close>

definition gss_laws :: "'c gss \<Rightarrow> ('c \<Rightarrow> 'c \<Rightarrow> bool) \<Rightarrow> bool" where
  "gss_laws G R \<longleftrightarrow> (\<forall>a b. R a b \<longrightarrow> R b a) \<and>
     (\<forall>a b p. R a b \<longrightarrow> length p < 2 ^ 31 \<longrightarrow>
        (\<exists>w a' b'. gs_wrap G p a = (Some w, a') \<and> length w < 256 ^ 4 \<and> gs_unwrap G w b = (Some p, b') \<and> R a' b'))"

lemma wrapped_crosses:
  assumes "gss_laws G R" "R a b" "length d + 1 < 2 ^ 31"
  obtains body a' b' where "gssapi_wrapped_body G flags d a = (Inr body, a')" "length body < 2 ^ 62"
    "gssapi_unwrap_body G body b = (Inr (flags, d), b')" "R a' b'"
proof -
  obtain w a' b' where w: "gs_wrap G (flags # d) a = (Some w, a')" "length w < 256 ^ 4"
    "gs_unwrap G w b = (Some (flags # d), b')" "R a' b'"
    using assms unfolding gss_laws_def by (metis Suc_eq_plus1 length_Cons)
  let ?body = "command_body (lit ''MESSAGE'') (to_be 4 (length w) @ w)"
  show ?thesis
  proof (rule that)
    show "gssapi_wrapped_body G flags d a = (Inr ?body, a')"
      using w(1) by (simp add: gssapi_wrapped_body_def session_wrap_def bnd_apply)
    show "length ?body < 2 ^ 62"
      using w(2) by (simp add: command_body_def length_to_be)
    show "gssapi_unwrap_body G ?body b = (Inr (flags, d), b')"
      using w(2,3) command_tail_command [of "lit ''MESSAGE''" "to_be 4 (length w) @ w"]
      by (simp add: gssapi_unwrap_body_def session_unwrap_def bnd_apply command_tail_def frame_command_def)
  qed (rule w(4))
qed

lemma ready_crosses:
  assumes "gss_laws G R" "R a b" "length identity < 2 ^ 30" "sec_gssapi_plaintext sec = sec_gssapi_plaintext sec'"
  obtains body a' b' where "gssapi_ready_body G t identity sec a = (Inr body, a')" "length body < 2 ^ 62"
    "gssapi_expect_ready G (frame_command body) sec' b = (Inr (handshake_properties t identity), b')" "R a' b'"
proof -
  let ?r = "ready_command_body_with_identity t identity"
  have l: "length ?r + 1 < 2 ^ 31"
    using length_handshake_properties [of t identity] assms(3) by (simp add: ready_is_command command_body_def)
  have t: "command_tail (frame_command ?r) (lit ''READY'') = Inr (encode_properties (handshake_properties t identity))"
    "command_tail_body ?r (lit ''READY'') = Inr (encode_properties (handshake_properties t identity))"
    using command_tail_command [of "lit ''READY''" "encode_properties (handshake_properties t identity)"]
    by (simp_all add: ready_is_command command_tail_def frame_command_def)
  have d: "decode_properties (encode_properties (handshake_properties t identity)) = Inr (handshake_properties t identity)"
    using assms(3) by (intro decode_handshake_properties) simp
  show ?thesis
  proof (cases "sec_gssapi_plaintext sec")
    case True
    then show ?thesis
      using assms(2,4) l t d
      by (intro that [of ?r a b]) (simp_all add: gssapi_ready_body_def gssapi_expect_ready_def parse_ready_metadata_def)
  next
    case False
    obtain body a' b' where w: "gssapi_wrapped_body G 2 ?r a = (Inr body, a')" "length body < 2 ^ 62"
      "gssapi_unwrap_body G body b = (Inr (2, ?r), b')" "R a' b'"
      using wrapped_crosses [OF assms(1,2) l] by blast
    then show ?thesis
      using assms(4) False t d
      by (intro that [of body a' b']) (simp_all add: gssapi_ready_body_def gssapi_expect_ready_def frame_command_def bnd_apply)
  qed
qed

text \<open>
  Messages cross a GSSAPI session unchanged. When the contexts of the two ends fit each other, any message below 2 GB
  that the one end wraps into a frame is what the other end unwraps, with its MORE flag, and the contexts
  still fit each other.
\<close>

theorem gssapi_message_round_trip:
  assumes "gss_laws G R" "R a b" "length d + 1 < 2 ^ 31"
  shows "\<exists>body a' b'. gssapi_message_frame G d has_more a = (Inr (encode_v3 (frame_command body)), a')
    \<and> gssapi_message_from_body G body b = (Inr (set_more has_more (message_from_vec d)), b') \<and> R a' b'"
proof -
  obtain body a' b' where "gssapi_wrapped_body G (of_bool has_more) d a = (Inr body, a')"
    "gssapi_unwrap_body G body b = (Inr (of_bool has_more, d), b')" "R a' b'"
    by (rule wrapped_crosses [OF assms])
  moreover have "(of_bool has_more :: byte) AND NOT 1 = 0" "((of_bool has_more :: byte) AND 1 \<noteq> 0) = has_more"
    by (cases has_more; simp)+
  ultimately show ?thesis
    by (intro exI [of _ body] exI [of _ a'] exI [of _ b'])
      (simp add: gssapi_message_frame_def gssapi_message_from_body_def bnd_apply)
qed

text \<open>Two libraries to try the definitions on: an exchange of three tokens with a masked channel, and a mutual one of two.\<close>

definition mask :: "bytes \<Rightarrow> bytes" where
  "mask bs = map (\<lambda>b. b XOR 0xAA) bs"

definition three_token_gss :: "nat gss" where
  "three_token_gss =
     \<lparr>gs_client_new = \<lambda>_ _ _. Some 0, gs_server_new = \<lambda>_. Some 0,
      gs_initiate = \<lambda>r c. (case r of None \<Rightarrow> (Some (Continue [1]), 1)
                                | Some reply \<Rightarrow> (if reply = [2] then Some (Complete [3]) else None, 2)),
      gs_accept = \<lambda>t s. if s = 0 then (if t = [1] then Some (Continue [2]) else None, 1)
                       else (if t = [3] then Some (Complete []) else None, 2),
      gs_source_principal = \<lambda>_. Some [7],
      gs_wrap = \<lambda>p c. (Some (mask p), c), gs_unwrap = \<lambda>w c. (Some (mask w), c)\<rparr>"

definition mutual_gss :: "nat gss" where
  "mutual_gss = three_token_gss
     \<lparr>gs_initiate := \<lambda>r c. (case r of None \<Rightarrow> (Some (Continue [1]), 1) | Some _ \<Rightarrow> (Some (Complete []), 2)),
      gs_accept := \<lambda>t s. (if t = [1] then Some (Complete [2]) else None, 2)\<rparr>"

lemma mask_mask [simp]: "mask (mask bs) = bs" "length (mask bs) = length bs"
  by (induction bs) (simp_all add: mask_def xor.assoc)

lemma three_token_laws: "gss_laws three_token_gss (=)"
  by (simp add: gss_laws_def three_token_gss_def)

theorem gssapi_message_round_trip_witness:
  "\<exists>body a' b'. gssapi_message_frame three_token_gss [104, 105] True 2 = (Inr (encode_v3 (frame_command body)), a')
    \<and> gssapi_message_from_body three_token_gss body 2 = (Inr (set_more True (message_from_vec [104, 105])), b') \<and> a' = b'"
  by (rule gssapi_message_round_trip [OF three_token_laws]) simp_all



section \<open>Dialogs\<close>

text \<open>
  The exchanges of tokens that both loops complete: every token of the server but for the last, empty one asks for
  more, and the client is complete when it sends the last token. The lists are the tokens of the client and of the server.
\<close>

inductive gss_dialog :: "'c gss \<Rightarrow> 'c \<Rightarrow> bytes \<Rightarrow> bool \<Rightarrow> 'c \<Rightarrow> bytes list \<Rightarrow> bytes list \<Rightarrow> 'c \<Rightarrow> 'c \<Rightarrow> bool" for G where
  last_token: "token \<noteq> [] \<Longrightarrow> length token < 256 ^ 4 \<Longrightarrow> gs_accept G token server = (Some (Complete []), server1)
    \<Longrightarrow> gss_dialog G client token True server [token] [] client server1"
| answered: "token \<noteq> [] \<Longrightarrow> length token < 256 ^ 4 \<Longrightarrow> gs_accept G token server = (Some (Continue reply), server1)
    \<Longrightarrow> reply \<noteq> [] \<Longrightarrow> length reply < 256 ^ 4
    \<Longrightarrow> gs_initiate G (Some reply) client = (Some (if complete then Complete next_token else Continue next_token), client1)
    \<Longrightarrow> gss_dialog G client1 next_token complete server1 cs ss c s
    \<Longrightarrow> gss_dialog G client token False server (token # cs) (reply # ss) c s"

definition tokens :: "bytes list \<Rightarrow> bytes" where
  "tokens ts = concat (map (\<lambda>t. cmd (gssapi_initiate_body t)) ts)"

lemma tokens_simps [simp]: "tokens [] = []" "tokens (t # ts) = cmd (gssapi_initiate_body t) @ tokens ts"
  by (simp_all add: tokens_def)

lemma read_initiate:
  assumes "length token < 256 ^ 4" "io_in st = cmd (gssapi_initiate_body token) @ rest"
  shows "read_zmtp_frame st = (Inr (frame_command (gssapi_initiate_body token)), st\<lparr>io_in := rest\<rparr>)"
  using read_command_ok [OF initiate_body_short] assms by blast

lemma server_loop_dialog:
  assumes "gss_dialog G client token complete server cs ss c s" "io_in st = tokens cs @ rest"
  shows "gss_server_loop G server st = (Inr s, st\<lparr>io_in := rest, io_out := io_out st @ tokens ss\<rparr>)"
  using assms
proof (induction arbitrary: st rule: gss_dialog.induct)
  case (last_token token server server1 client)
  then show ?case
    using read_initiate [OF last_token(2), of st rest] by (simp add: gss_server_loop.simps [of G server])
next
  case (answered token server reply server1 client complete next_token client1 cs ss c s)
  then show ?case
    using read_initiate [OF answered(2), of st "tokens cs @ rest"]
    by (simp add: gss_server_loop.simps [of G server])
qed

lemma client_loop_dialog:
  assumes "gss_dialog G client token complete server cs ss c s" "io_in st = tokens ss @ rest"
  shows "gss_client_loop G client token complete st = (Inr c, st\<lparr>io_in := rest, io_out := io_out st @ tokens cs\<rparr>)"
  using assms
proof (induction arbitrary: st rule: gss_dialog.induct)
  case (last_token token server server1 client)
  then show ?case
    by (simp add: gss_client_loop.simps [of G client])
next
  case (answered token server reply server1 client complete next_token client1 cs ss c s)
  then show ?case
    using read_initiate [OF answered(5), of "st\<lparr>io_out := io_out st @ cmd (gssapi_initiate_body token)\<rparr>" "tokens ss @ rest"]
    by (cases complete) (simp_all add: gss_client_loop.simps [of G client])
qed

text \<open>The contexts the two ends begin with, from their options; the first token of the client and whether it is the last.\<close>

definition gss_client_start :: "'c gss \<Rightarrow> security_options \<Rightarrow> (bytes \<times> bool \<times> 'c) option" where
  "gss_client_start G sec =
     (case (gss_principal sec, gssapi_name_type (sec_gssapi_service_principal_nametype sec)) of
        (Inr prin, Inr nt) \<Rightarrow>
          (case gs_client_new G (sec_gssapi_service_principal sec) nt prin of
             None \<Rightarrow> None
           | Some client \<Rightarrow>
               if sec_gssapi_service_principal sec = [] then None
               else (case gs_initiate G None client of
                       (Some (Continue token), client1) \<Rightarrow> Some (token, False, client1)
                     | (Some (Complete token), client1) \<Rightarrow> Some (token, True, client1)
                     | _ \<Rightarrow> None))
      | _ \<Rightarrow> None)"

definition gss_server_start :: "'c gss \<Rightarrow> security_options \<Rightarrow> 'c option" where
  "gss_server_start G sec = (case gss_principal sec of Inr prin \<Rightarrow> gs_server_new G prin | Inl _ \<Rightarrow> None)"

lemma client_handshake_eq:
  assumes "gss_client_start G sec = Some (token, complete, client)"
  shows "write_real_gssapi_handshake G t False sec identity st =
     bnd (gss_client_loop G client token complete) (\<lambda>client2.
     bnd read_zmtp_frame (\<lambda>f.
     bnd (on_session (gssapi_expect_ready G f sec) client2) (\<lambda>(peer_metadata, client3).
     bnd (on_session (gssapi_ready_body G t identity sec) client3) (\<lambda>(ready, client4).
     bnd (write_command ready) (\<lambda>_. ret (gss_done peer_metadata sec client4)))))) st"
  using assms unfolding write_real_gssapi_handshake_def gss_client_start_def
  by (auto simp: try_gss_def split: sum.splits option.splits if_splits prod.splits gss_step.splits)

lemma server_handshake_eq:
  assumes "gss_server_start G sec = Some server"
  shows "write_real_gssapi_handshake G t True sec identity st =
     bnd (gss_server_loop G server) (\<lambda>server1.
     bnd (gss_authorize G sec server1) (\<lambda>_.
     bnd (on_session (gssapi_ready_body G t identity sec) server1) (\<lambda>(ready, server2).
     bnd (write_command ready) (\<lambda>_.
     bnd read_zmtp_frame (\<lambda>f.
     bnd (on_session (gssapi_expect_ready G f sec) server2) (\<lambda>(peer_metadata, server3).
       ret (gss_done peer_metadata sec server3))))))) st"
  using assms unfolding write_real_gssapi_handshake_def gss_server_start_def
  by (auto simp: try_gss_def split: sum.splits)

lemma client_yields:
  assumes "gss_client_start G sec = Some (token, complete, client)"
    and d: "gss_dialog G client token complete server cs ss c s"
    and r: "gssapi_expect_ready G (frame_command peer_ready) sec c = (Inr m, c1)" "length peer_ready < 2 ^ 62"
    "gssapi_ready_body G t identity sec c1 = (Inr ready, c2)"
  shows "yields e (write_real_gssapi_handshake G t False sec identity :: ('w io, fault, _) comp)
    (tokens ss @ cmd peer_ready) (tokens cs @ cmd ready) (gss_done m sec c2)"
proof (rule yieldsI)
  fix st :: "'w io" and rest
  assume i: "io_in st = (tokens ss @ cmd peer_ready) @ rest"
  let ?st1 = "st\<lparr>io_in := cmd peer_ready @ rest, io_out := io_out st @ tokens cs\<rparr>"
  have "gss_client_loop G client token complete st = (Inr c, ?st1)"
    using i by (intro client_loop_dialog [OF d]) simp
  moreover have "read_zmtp_frame ?st1 = (Inr (frame_command peer_ready), ?st1\<lparr>io_in := rest\<rparr>)"
    using r(2) by (intro read_command_ok) simp_all
  ultimately show "\<exists>st'. write_real_gssapi_handshake G t False sec identity st = (Inr (gss_done m sec c2), st')
      \<and> io_in st' = rest \<and> io_out st' = io_out st @ tokens cs @ cmd ready \<and> io_world st' = io_world st"
    using r(1,3) by (simp add: client_handshake_eq [OF assms(1)] bnd_apply on_session_def)
qed

lemma server_yields:
  assumes "gss_server_start G sec = Some server"
    and d: "gss_dialog G client token complete server cs ss c s"
    and r: "gssapi_ready_body G t identity sec s = (Inr ready, s1)" "length peer_ready < 2 ^ 62"
    "gssapi_expect_ready G (frame_command peer_ready) sec s1 = (Inr m, s2)"
  shows "yields e (write_real_gssapi_handshake G t True sec identity :: ('w io, fault, _) comp)
    (tokens cs @ cmd peer_ready) (tokens ss @ cmd ready) (gss_done m sec s2)"
proof (rule yieldsI)
  fix st :: "'w io" and rest
  assume z: "ready_state e st" and i: "io_in st = (tokens cs @ cmd peer_ready) @ rest"
  let ?st1 = "st\<lparr>io_in := cmd peer_ready @ rest, io_out := io_out st @ tokens ss\<rparr>"
  let ?st2 = "?st1\<lparr>io_out := io_out ?st1 @ cmd ready\<rparr>"
  have "gss_server_loop G server st = (Inr s, ?st1)"
    using i by (intro server_loop_dialog [OF d]) simp
  moreover have "read_zmtp_frame ?st2 = (Inr (frame_command peer_ready), ?st2\<lparr>io_in := rest\<rparr>)"
    using r(2) by (intro read_command_ok) simp_all
  moreover have "gss_authorize G sec s ?st1 = (Inr (), ?st1)"
    using z by (simp add: gss_authorize_def ready_state_def)
  ultimately show "\<exists>st'. write_real_gssapi_handshake G t True sec identity st = (Inr (gss_done m sec s2), st')
      \<and> io_in st' = rest \<and> io_out st' = io_out st @ tokens ss @ cmd ready \<and> io_world st' = io_world st"
    using r(1,3) by (simp add: server_handshake_eq [OF assms(1)] bnd_apply on_session_def)
qed

lemma peer_identity_of_properties [simp]: "peer_identity_of (handshake_properties t identity) = identity_option identity"
  by (simp add: peer_identity_of_def metadata_get_identity identity_option_def)

text \<open>
  C7. The GSSAPI handshake completes, agrees and sets up a channel. When the GSS library lets the two ends exchange their
  tokens to the end, the client giving the last one, and the contexts then fit each other, there are two byte strings
  that each end reads from and writes to the other; both ends finish, each knows the identity the other
  has configured and keeps a session exactly when the messages are to be wrapped, and the contexts still fit.
\<close>

theorem gssapi_handshake_agrees:
  assumes laws: "gss_laws G R" and "R c s"
    and start: "gss_client_start G csec = Some (token, complete, c0)" "gss_server_start G ssec = Some s0"
    and dialog: "gss_dialog G c0 token complete s0 cs ss c s"
    and plain: "sec_gssapi_plaintext csec = sec_gssapi_plaintext ssec"
    and ids: "length cid < 2 ^ 30" "length sid < 2 ^ 30"
  shows "\<exists>c2s s2c a b hc hs.
      yields ec (write_real_gssapi_handshake G ct False csec cid :: ('w io, fault, _) comp) s2c c2s hc
    \<and> yields es (write_real_gssapi_handshake G st True ssec sid :: ('v io, fault, _) comp) c2s s2c hs
    \<and> hr_peer_identity hc = identity_option sid \<and> hr_peer_identity hs = identity_option cid
    \<and> hr_gssapi_session hc = (if sec_gssapi_plaintext csec then None else Some a)
    \<and> hr_gssapi_session hs = (if sec_gssapi_plaintext csec then None else Some b) \<and> R a b"
proof -
  have "R s c"
    using laws \<open>R c s\<close> by (simp add: gss_laws_def)
  then obtain sready s1 c1 where r1: "gssapi_ready_body G st sid ssec s = (Inr sready, s1)" "length sready < 2 ^ 62"
    "gssapi_expect_ready G (frame_command sready) csec c = (Inr (handshake_properties st sid), c1)" "R s1 c1"
    by (rule ready_crosses [OF laws _ ids(2) plain [symmetric]])
  then have "R c1 s1"
    using laws by (simp add: gss_laws_def)
  then obtain cready c2 s2 where r2: "gssapi_ready_body G ct cid csec c1 = (Inr cready, c2)" "length cready < 2 ^ 62"
    "gssapi_expect_ready G (frame_command cready) ssec s1 = (Inr (handshake_properties ct cid), s2)" "R c2 s2"
    by (rule ready_crosses [OF laws _ ids(1) plain])
  let ?hc = "gss_done (handshake_properties st sid) csec c2" and ?hs = "gss_done (handshake_properties ct cid) ssec s2"
  have "hr_peer_identity ?hc = identity_option sid" "hr_peer_identity ?hs = identity_option cid"
    "hr_gssapi_session ?hc = (if sec_gssapi_plaintext csec then None else Some c2)"
    "hr_gssapi_session ?hs = (if sec_gssapi_plaintext csec then None else Some s2)"
    using plain by (simp_all add: gss_done_def)
  then show ?thesis
    using client_yields [OF start(1) dialog r1(3,2) r2(1), where ?'w = 'w, of ec]
      server_yields [OF start(2) dialog r1(1) r2(2,3), where ?'w = 'v, of es] r2(4) by blast
qed

definition three_token_options :: security_options where
  "three_token_options = security_options_default\<lparr>sec_gssapi_service_principal := [115]\<rparr>"

lemma three_token_start:
  "gss_client_start three_token_gss three_token_options = Some ([1], False, 1)"
  "gss_server_start three_token_gss three_token_options = Some 0"
  by (simp_all add: gss_client_start_def gss_server_start_def three_token_options_def gss_principal_def
      gssapi_name_type_def security_options_default_def three_token_gss_def)

lemma three_token_dialog: "gss_dialog three_token_gss 1 [1] False 0 [[1], [3]] [[2]] 2 2"
  by (rule answered [where complete = True and ?server1.0 = 1 and ?client1.0 = 2, OF _ _ _ _ _ _ last_token])
    (simp_all add: three_token_gss_def)

theorem gssapi_handshake_agrees_witness:
  "\<exists>c2s s2c a b hc hs.
      yields [] (write_real_gssapi_handshake three_token_gss Dealer False three_token_options [99] :: (unit io, fault, _) comp) s2c c2s hc
    \<and> yields [] (write_real_gssapi_handshake three_token_gss Router True three_token_options [] :: (unit io, fault, _) comp) c2s s2c hs
    \<and> hr_peer_identity hc = None \<and> hr_peer_identity hs = Some [99]
    \<and> hr_gssapi_session hc = Some a \<and> hr_gssapi_session hs = Some b \<and> a = b"
  using gssapi_handshake_agrees [OF three_token_laws refl three_token_start three_token_dialog refl, of "[99]" "[]" "[]" Dealer "[]" Router]
  by (simp add: identity_option_def three_token_options_def security_options_default_def)

text \<open>
  C39. Mutual authentication always fails. The library asks for it, and the usual exchange then has two tokens: the server
  is complete with its only, non-empty reply, and the client is complete with nothing more to send. The client takes the
  empty token for an error: after it has authenticated the server it ends the handshake with \<open>InvalidArgument\<close>, having
  written one INITIATE command and no READY, while the loop of the server has accepted the client.
\<close>

theorem gssapi_mutual_refused:
  assumes "gss_client_start G csec = Some (token, False, c0)" "gss_server_start G ssec = Some s0"
    and "token \<noteq> []" "length token < 256 ^ 4" "reply \<noteq> []" "length reply < 256 ^ 4"
    and "gs_accept G token s0 = (Some (Complete reply), s1)" "gs_initiate G (Some reply) c0 = (Some (Complete []), c1)"
    and "io_in st = tokens [reply] @ rest" "io_in st' = tokens [token] @ rest'"
  shows "write_real_gssapi_handshake G t False csec identity st =
      (Inl (Fail InvalidArgument), st\<lparr>io_in := rest, io_out := io_out st @ tokens [token]\<rparr>)
    \<and> gss_server_loop G s0 st' = (Inr s1, st'\<lparr>io_in := rest', io_out := io_out st' @ tokens [reply]\<rparr>)"
proof -
  let ?st1 = "st\<lparr>io_out := io_out st @ tokens [token]\<rparr>"
  have "read_zmtp_frame ?st1 = (Inr (frame_command (gssapi_initiate_body reply)), ?st1\<lparr>io_in := rest\<rparr>)"
    using assms(6,9) by (intro read_initiate) simp_all
  then have "gss_client_loop G c0 token False st = (Inl (Fail InvalidArgument), ?st1\<lparr>io_in := rest\<rparr>)"
    using assms(3,6,8) by (simp add: gss_client_loop.simps [of G c0] gss_client_loop.simps [of G c1])
  moreover have "read_zmtp_frame st' = (Inr (frame_command (gssapi_initiate_body token)), st'\<lparr>io_in := rest'\<rparr>)"
    using assms(4,10) by (intro read_initiate) simp_all
  then have "gss_server_loop G s0 st' = (Inr s1, st'\<lparr>io_in := rest', io_out := io_out st' @ tokens [reply]\<rparr>)"
    using assms(4,5,7) by (simp add: gss_server_loop.simps [of G s0])
  ultimately show ?thesis
    by (simp add: client_handshake_eq [OF assms(1)] bnd_apply)
qed

lemma mutual_start:
  "gss_client_start mutual_gss three_token_options = Some ([1], False, 1)"
  "gss_server_start mutual_gss three_token_options = Some 0"
  by (simp_all add: gss_client_start_def gss_server_start_def three_token_options_def gss_principal_def
      gssapi_name_type_def security_options_default_def mutual_gss_def three_token_gss_def)

theorem gssapi_mutual_refused_witness:
  "fst (write_real_gssapi_handshake mutual_gss Dealer False three_token_options [] (io_example (tokens [[2]]))) =
      Inl (Fail InvalidArgument)
    \<and> fst (gss_server_loop mutual_gss 0 (io_example (tokens [[1]]))) = Inr 2"
  using gssapi_mutual_refused [OF mutual_start, of "[2]" 2 2 "io_example (tokens [[2]])" "[]" "io_example (tokens [[1]])" "[]" Dealer "[]"]
  by (simp add: mutual_gss_def three_token_gss_def io_example_def)

end
