(* ===== verification/Ffi.thy ===== *)
theory Ffi
  imports Socket_Endpoints Security
begin

text \<open>
  The C interface of \<open>crates/libzmq-ffi/src/lib.rs\<close>: the objects behind the opaque handles, the memory
  of the C caller, the error number, and the functions on contexts, sockets and options.

  A pointer is a number and 0 is the null pointer. Each kind of boxed object has a table of its own;
  the handle of an object is its address there. The memory of the caller is a partial map from
  addresses to bytes, defined where the caller owns storage. Using a pointer that denotes no object or
  no storage is undefined behaviour in the code and the fault \<open>Undefined\<close> of the model. A panic in
  an \<open>extern "C"\<close> function aborts the process: the fault \<open>Aborted\<close>. Addresses are below
  \<open>2 ^ 64\<close>; when none is left, allocation aborts. The byte order is little-endian, as in \<open>to_ne\<close>.

  A context and its sockets share one state, which outlives the handle of the context; a value of type
  \<open>'w world\<close> is such a state. Time is counted in nanoseconds.
\<close>

unbundle bit_operations_syntax

section \<open>The state\<close>

type_synonym ptr = nat

datatype ffi_fault = Undefined | Aborted

text \<open>\<open>External\<close> refers to the shared object of an \<open>Arc\<close>, held in a table with its count.\<close>

datatype message_storage = Owned message | External ref

record external_message =
  ex_data :: ptr
  ex_size :: nat
  ex_free_fn :: "ptr option"
  ex_hint :: ptr

record ffi_message_inner =
  fm_storage :: message_storage
  fm_more :: bool
  fm_routing_id :: u32
  fm_group :: "bytes option"
  fm_metadata :: "(bytes \<times> bytes) list"

record timer_entry =
  te_id :: i32
  te_interval :: nat
  te_deadline :: nat
  te_handler :: "ptr option"
  te_arg :: ptr
  te_active :: bool

record opaque_timers =
  tm_next_id :: i32
  tm_timers :: "timer_entry list"

record poller_entry =
  pe_socket :: ptr
  pe_fd :: i32
  pe_user_data :: ptr
  pe_events :: int
  pe_is_fd :: bool

record 'w ffi =
  c_errno :: i32
  c_mem :: "ptr \<rightharpoonup> byte"
  c_next :: ptr
  c_now :: nat
  c_worlds :: "nat \<Rightarrow> 'w world"
  c_next_world :: nat
  c_contexts :: "ptr \<rightharpoonup> nat"
  c_sockets :: "ptr \<rightharpoonup> nat \<times> ref"
  c_messages :: "ptr \<rightharpoonup> ffi_message_inner"
  c_externals :: "ref \<rightharpoonup> external_message \<times> nat"
  c_next_external :: ref
  c_free_calls :: "(ptr \<times> ptr \<times> ptr) list"
  c_counters :: "ptr \<rightharpoonup> i32"
  c_timers :: "ptr \<rightharpoonup> opaque_timers"
  c_handler_calls :: "(ptr \<times> i32 \<times> ptr) list"
  c_watches :: "ptr \<rightharpoonup> nat"
  c_threads :: "ptr \<rightharpoonup> ptr \<times> ptr"
  c_thread_calls :: "(ptr \<times> ptr) list"
  c_pollers :: "ptr \<rightharpoonup> poller_entry list"

type_synonym ('w, 'a) c_fun = "('w ffi, ffi_fault, 'a) comp"


section \<open>Memory of the caller\<close>

definition mem_load :: "(ptr \<rightharpoonup> byte) \<Rightarrow> ptr \<Rightarrow> nat \<Rightarrow> bytes option" where
  "mem_load m p n =
     (let bs = map (\<lambda>i. m (p + i)) [0..<n] in if None \<in> set bs then None else Some (map the bs))"

definition write_bytes :: "(ptr \<rightharpoonup> byte) \<Rightarrow> ptr \<Rightarrow> bytes \<Rightarrow> ptr \<rightharpoonup> byte" where
  "write_bytes m p bs = (\<lambda>a. if p \<le> a \<and> a < p + length bs then Some (bs ! (a - p)) else m a)"

definition mem_store :: "(ptr \<rightharpoonup> byte) \<Rightarrow> ptr \<Rightarrow> bytes \<Rightarrow> (ptr \<rightharpoonup> byte) option" where
  "mem_store m p bs = (if mem_load m p (length bs) = None then None else Some (write_bytes m p bs))"

definition c_load :: "ptr \<Rightarrow> nat \<Rightarrow> ('w, bytes) c_fun" where
  "c_load p n s = (case mem_load (c_mem s) p n of None \<Rightarrow> (Inl Undefined, s) | Some bs \<Rightarrow> (Inr bs, s))"

definition c_store :: "ptr \<Rightarrow> bytes \<Rightarrow> ('w, unit) c_fun" where
  "c_store p bs s =
     (case mem_store (c_mem s) p bs of None \<Rightarrow> (Inl Undefined, s) | Some m \<Rightarrow> (Inr (), s\<lparr>c_mem := m\<rparr>))"

text \<open>\<open>CStr::from_ptr\<close> reads up to the NUL.\<close>

function c_string_at :: "(ptr \<rightharpoonup> byte) \<Rightarrow> ptr \<Rightarrow> bytes option" where
  "c_string_at m p =
     (if p \<ge> 2 ^ 64 then None
      else case m p of
             None \<Rightarrow> None
           | Some b \<Rightarrow> if b = 0 then Some [] else map_option ((#) b) (c_string_at m (p + 1)))"
  by pat_completeness auto
termination
  by (relation "measure (\<lambda>(m, p). 2 ^ 64 - p)") auto

declare c_string_at.simps [simp del]

definition c_string :: "ptr \<Rightarrow> ('w, bytes) c_fun" where
  "c_string p s = (case c_string_at (c_mem s) p of None \<Rightarrow> (Inl Undefined, s) | Some bs \<Rightarrow> (Inr bs, s))"

definition from_ne :: "bytes \<Rightarrow> nat" where
  "from_ne bs = from_be (rev bs)"

text \<open>A signed number of \<open>n\<close> bytes in two's complement.\<close>

definition to_ne_int :: "nat \<Rightarrow> int \<Rightarrow> bytes" where
  "to_ne_int n v = to_ne n (nat (v mod 256 ^ n))"

definition from_ne_int :: "bytes \<Rightarrow> int" where
  "from_ne_int bs =
     (let v = int (from_ne bs); m = 256 ^ length bs in if 2 * v < m then v else v - m)"


section \<open>Error number and results\<close>

definition set_errno :: "i32 \<Rightarrow> ('w, unit) c_fun" where
  "set_errno e = modify (\<lambda>s. s\<lparr>c_errno := e\<rparr>)"

definition set_error :: "error \<Rightarrow> ('w, i32) c_fun" where
  "set_error e = bnd (set_errno (errno e)) (\<lambda>_. ret (- 1))"

definition clear_errno :: "('w, unit) c_fun" where
  "clear_errno = set_errno 0"

definition zmq_errno :: "('w, i32) c_fun" where
  "zmq_errno = gets c_errno"

text \<open>The end of most functions: the value with the error number cleared, or \<open>-1\<close> with it set.\<close>

definition finish :: "error + i32 \<Rightarrow> ('w, i32) c_fun" where
  "finish r = (case r of Inr v \<Rightarrow> bnd clear_errno (\<lambda>_. ret v) | Inl e \<Rightarrow> set_error e)"

text \<open>The same for the functions that return a pointer or an unsigned number.\<close>

definition finish_or :: "'a \<Rightarrow> error + 'a \<Rightarrow> ('w, 'a) c_fun" where
  "finish_or d r =
     (case r of Inr v \<Rightarrow> bnd clear_errno (\<lambda>_. ret v) | Inl e \<Rightarrow> bnd (set_errno (errno e)) (\<lambda>_. ret d))"

definition zmq_strerror :: "i32 \<Rightarrow> bytes" where
  "zmq_strerror errnum =
     (if errnum = EINVAL then lit ''Invalid argument''
      else if errnum = EFAULT then lit ''Bad address''
      else if errnum = EAGAIN then lit ''Resource temporarily unavailable''
      else if errnum = ENOTSUP then lit ''Operation not supported''
      else if errnum = EPROTONOSUPPORT then lit ''Protocol not supported''
      else if errnum = ENOTSOCK then lit ''Socket operation on non-socket''
      else if errnum = EHOSTUNREACH then lit ''Host unreachable''
      else if errnum = EFSM then lit ''Operation cannot be accomplished in current state''
      else if errnum = ENOCOMPATPROTO then lit ''The protocol is not compatible with the socket type''
      else if errnum = ETERM then lit ''Context was terminated''
      else if errnum = EMTHREAD then lit ''No thread available''
      else lit ''Unknown error'')"

definition zmq_version :: "ptr \<Rightarrow> ptr \<Rightarrow> ptr \<Rightarrow> ('w, unit) c_fun" where
  "zmq_version major minor patch =
     bnd (if major = 0 then ret () else c_store major (to_ne_int 4 ZMQ_VERSION_MAJOR)) (\<lambda>_.
     bnd (if minor = 0 then ret () else c_store minor (to_ne_int 4 ZMQ_VERSION_MINOR)) (\<lambda>_.
       if patch = 0 then ret () else c_store patch (to_ne_int 4 ZMQ_VERSION_PATCH)))"


section \<open>Handles\<close>

text \<open>\<open>Box::into_raw (Box::new ..)\<close>: a fresh address.\<close>

definition fresh_ptr :: "('w, ptr) c_fun" where
  "fresh_ptr s = (if c_next s < 2 ^ 64 then (Inr (c_next s), s\<lparr>c_next := c_next s + 1\<rparr>) else (Inl Aborted, s))"

text \<open>The object behind a pointer that is not null.\<close>

definition deref :: "('w ffi \<Rightarrow> ptr \<Rightarrow> 'b option) \<Rightarrow> ptr \<Rightarrow> ('w, 'b) c_fun" where
  "deref table p = bnd (gets (\<lambda>s. table s p)) (\<lambda>x. case x of None \<Rightarrow> throw Undefined | Some v \<Rightarrow> ret v)"

definition from_raw :: "error \<Rightarrow> ('w ffi \<Rightarrow> ptr \<Rightarrow> 'b option) \<Rightarrow> ptr \<Rightarrow> ('w, error + 'b) c_fun" where
  "from_raw e table p = (if p = 0 then ret (Inl e) else bnd (deref table p) (\<lambda>v. ret (Inr v)))"

definition context_from_raw :: "ptr \<Rightarrow> ('w, error + nat) c_fun" where
  "context_from_raw = from_raw InvalidContext c_contexts"

definition socket_from_raw :: "ptr \<Rightarrow> ('w, error + nat \<times> ref) c_fun" where
  "socket_from_raw = from_raw InvalidSocket c_sockets"

definition endpoint_from_raw :: "ptr \<Rightarrow> ('w, error + bytes) c_fun" where
  "endpoint_from_raw p =
     (if p = 0 then ret (Inl InvalidArgument)
      else bnd (c_string p) (\<lambda>bs. ret (if utf8_valid bs then Inr bs else Inl InvalidArgument)))"

text \<open>An operation of the core on the shared state of a context.\<close>

definition on_world :: "nat \<Rightarrow> ('w world, error, 'a) comp \<Rightarrow> ('w, error + 'a) c_fun" where
  "on_world i f s = (case f (c_worlds s i) of (r, w) \<Rightarrow> (Inr r, s\<lparr>c_worlds := (c_worlds s)(i := w)\<rparr>))"

definition with_socket :: "ptr \<Rightarrow> (nat \<Rightarrow> ref \<Rightarrow> ('w, i32) c_fun) \<Rightarrow> ('w, i32) c_fun" where
  "with_socket p f = bnd (socket_from_raw p) (\<lambda>r. case r of Inl e \<Rightarrow> set_error e | Inr (i, k) \<Rightarrow> f i k)"

text \<open>A call of the core on the socket behind a handle whose result is only success or an error.\<close>

definition socket_call :: "ptr \<Rightarrow> (ref \<Rightarrow> ('w world, error, unit) comp) \<Rightarrow> ('w, i32) c_fun" where
  "socket_call p f = with_socket p (\<lambda>i k. bnd (on_world i (f k)) (\<lambda>r. finish (map_ok (\<lambda>_. 0) r)))"

text \<open>The same with an endpoint string, read after the handle has been checked.\<close>

definition endpoint_call :: "(ref \<Rightarrow> bytes \<Rightarrow> ('w world, error, unit) comp) \<Rightarrow> ptr \<Rightarrow> ptr \<Rightarrow> ('w, i32) c_fun" where
  "endpoint_call f p endpoint =
     with_socket p (\<lambda>i k. bnd (endpoint_from_raw endpoint) (\<lambda>ep.
       case ep of
         Inl e \<Rightarrow> set_error e
       | Inr bs \<Rightarrow> bnd (on_world i (f k bs)) (\<lambda>r. finish (map_ok (\<lambda>_. 0) r))))"


section \<open>Contexts\<close>

text \<open>\<open>w0\<close> is the state of the transports of a new context.\<close>

definition zmq_ctx_new :: "'w \<Rightarrow> ('w, ptr) c_fun" where
  "zmq_ctx_new w0 =
     bnd clear_errno (\<lambda>_. bnd fresh_ptr (\<lambda>p.
     bnd (modify (\<lambda>s. s\<lparr>c_worlds := (c_worlds s)(c_next_world s := world_new w0),
            c_contexts := (c_contexts s)(p \<mapsto> c_next_world s), c_next_world := c_next_world s + 1\<rparr>)) (\<lambda>_. ret p)))"

definition zmq_ctx_term :: "ptr \<Rightarrow> ('w, i32) c_fun" where
  "zmq_ctx_term ctx =
     bnd (context_from_raw ctx) (\<lambda>r. case r of
       Inl e \<Rightarrow> set_error e
     | Inr i \<Rightarrow>
         bnd (on_world i (modify terminate)) (\<lambda>res. case res of
           Inl e \<Rightarrow> set_error e
         | Inr _ \<Rightarrow> bnd (modify (\<lambda>s. s\<lparr>c_contexts := (c_contexts s)(ctx := None)\<rparr>)) (\<lambda>_. finish (Inr 0))))"

text \<open>A call of the core on the context behind a handle.\<close>

definition context_call :: "ptr \<Rightarrow> ('w world, error, i32) comp \<Rightarrow> ('w, i32) c_fun" where
  "context_call ctx f =
     bnd (context_from_raw ctx) (\<lambda>r. case r of Inl e \<Rightarrow> set_error e | Inr i \<Rightarrow> bnd (on_world i f) finish)"

definition zmq_ctx_shutdown :: "ptr \<Rightarrow> ('w, i32) c_fun" where
  "zmq_ctx_shutdown ctx = context_call ctx (bnd (modify shutdown) (\<lambda>_. ret 0))"

definition on_ctx_options :: "(context_options \<Rightarrow> unit result \<times> context_options) \<Rightarrow> ('w world, error, i32) comp" where
  "on_ctx_options f w =
     (case f (ctx_options w) of (r, os) \<Rightarrow> (map_ok (\<lambda>_. 0) r, w\<lparr>ctx_options := os\<rparr>))"

definition zmq_ctx_set :: "ptr \<Rightarrow> i32 \<Rightarrow> i32 \<Rightarrow> ('w, i32) c_fun" where
  "zmq_ctx_set ctx opt optval = context_call ctx (on_ctx_options (context_set_option opt optval))"

definition zmq_ctx_get :: "ptr \<Rightarrow> i32 \<Rightarrow> ('w, i32) c_fun" where
  "zmq_ctx_get ctx opt = context_call ctx (\<lambda>w. (context_get_option opt (ctx_options w), w))"

definition zmq_init :: "'w \<Rightarrow> i32 \<Rightarrow> ('w, ptr) c_fun" where
  "zmq_init w0 io_threads =
     (if io_threads < 0 then bnd (set_errno EINVAL) (\<lambda>_. ret 0) else zmq_ctx_new w0)"

definition zmq_term :: "ptr \<Rightarrow> ('w, i32) c_fun" where
  "zmq_term = zmq_ctx_term"

definition zmq_ctx_destroy :: "ptr \<Rightarrow> ('w, i32) c_fun" where
  "zmq_ctx_destroy = zmq_ctx_term"

text \<open>The functions with a pointer to the value read or write it after their checks.\<close>

definition zmq_ctx_set_ext :: "ptr \<Rightarrow> i32 \<Rightarrow> ptr \<Rightarrow> nat \<Rightarrow> ('w, i32) c_fun" where
  "zmq_ctx_set_ext ctx opt optval optvallen =
     (if optval = 0 then set_error InvalidArgument
      else if opt = ZMQ_THREAD_NAME_PREFIX \<and> optvallen \<noteq> 4 then
        bnd (c_load optval optvallen) (\<lambda>v. context_call ctx (on_ctx_options (context_set_option_bytes opt v)))
      else if optvallen \<noteq> 4 then set_error InvalidArgument
      else bnd (c_load optval 4) (\<lambda>v. context_call ctx (on_ctx_options (context_set_option opt (from_ne_int v)))))"

text \<open>Copying a value of the core to the caller and telling its length.\<close>

definition give_bytes :: "ptr \<Rightarrow> ptr \<Rightarrow> bytes \<Rightarrow> ('w, i32) c_fun" where
  "give_bytes optval optvallen v =
     bnd (if v = [] then ret () else c_store optval v) (\<lambda>_.
     bnd (c_store optvallen (to_ne 8 (length v))) (\<lambda>_. finish (Inr 0)))"

definition zmq_ctx_get_ext :: "ptr \<Rightarrow> i32 \<Rightarrow> ptr \<Rightarrow> ptr \<Rightarrow> ('w, i32) c_fun" where
  "zmq_ctx_get_ext ctx opt optval optvallen =
     (if optval = 0 \<or> optvallen = 0 then set_error InvalidArgument
      else bnd (c_load optvallen 8) (\<lambda>len.
        let available = from_ne len
        in if opt = ZMQ_THREAD_NAME_PREFIX \<and> available \<noteq> 4 then
             bnd (context_from_raw ctx) (\<lambda>r. case r of
               Inl e \<Rightarrow> set_error e
             | Inr i \<Rightarrow>
                 bnd (on_world i (\<lambda>w. (context_get_option_bytes opt (ctx_options w), w))) (\<lambda>v. case v of
                   Inl e \<Rightarrow> set_error e
                 | Inr v \<Rightarrow> if available < length v then set_error InvalidArgument else give_bytes optval optvallen v))
           else if available < 4 then set_error InvalidArgument
           else
             bnd (context_from_raw ctx) (\<lambda>r. case r of
               Inl e \<Rightarrow> set_error e
             | Inr i \<Rightarrow>
                 bnd (on_world i (\<lambda>w. (context_get_option opt (ctx_options w), w))) (\<lambda>v. case v of
                   Inl e \<Rightarrow> set_error e
                 | Inr v \<Rightarrow> give_bytes optval optvallen (to_ne_int 4 v)))))"


section \<open>Sockets\<close>

definition zmq_socket :: "ptr \<Rightarrow> i32 \<Rightarrow> ('w, ptr) c_fun" where
  "zmq_socket ctx type_number =
     bnd (context_from_raw ctx) (\<lambda>r. case r of
       Inl e \<Rightarrow> finish_or 0 (Inl e)
     | Inr i \<Rightarrow>
         (case socket_type_try_from type_number of
            Inl e \<Rightarrow> finish_or 0 (Inl e)
          | Inr t \<Rightarrow>
              bnd (on_world i (context_socket t)) (\<lambda>res. case res of
                Inl e \<Rightarrow> finish_or 0 (Inl e)
              | Inr k \<Rightarrow>
                  bnd clear_errno (\<lambda>_. bnd fresh_ptr (\<lambda>p.
                  bnd (modify (\<lambda>s. s\<lparr>c_sockets := (c_sockets s)(p \<mapsto> (i, k))\<rparr>)) (\<lambda>_. ret p))))))"

text \<open>The socket has no \<open>Drop\<close> of its own: what it registered with its context stays there.\<close>

definition zmq_close :: "ptr \<Rightarrow> ('w, i32) c_fun" where
  "zmq_close p =
     (if p = 0 then set_error InvalidSocket
      else bnd (deref c_sockets p) (\<lambda>_.
           bnd (modify (\<lambda>s. s\<lparr>c_sockets := (c_sockets s)(p := None)\<rparr>)) (\<lambda>_. finish (Inr 0))))"

definition zmq_bind :: "'w wires \<Rightarrow> ptr \<Rightarrow> ptr \<Rightarrow> ('w, i32) c_fun" where
  "zmq_bind W = endpoint_call (bind W)"

definition zmq_connect :: "'w wires \<Rightarrow> ptr \<Rightarrow> ptr \<Rightarrow> ('w, i32) c_fun" where
  "zmq_connect W = endpoint_call (connect W)"

definition zmq_unbind :: "'w wires \<Rightarrow> ptr \<Rightarrow> ptr \<Rightarrow> ('w, i32) c_fun" where
  "zmq_unbind W = endpoint_call (unbind W)"

definition zmq_disconnect :: "'w wires \<Rightarrow> ptr \<Rightarrow> ptr \<Rightarrow> ('w, i32) c_fun" where
  "zmq_disconnect W = endpoint_call (disconnect W)"

definition zmq_connect_peer :: "'w wires \<Rightarrow> ptr \<Rightarrow> ptr \<Rightarrow> ('w, u32) c_fun" where
  "zmq_connect_peer W p endpoint =
     bnd (socket_from_raw p) (\<lambda>r. case r of
       Inl e \<Rightarrow> finish_or 0 (Inl e)
     | Inr (i, k) \<Rightarrow>
         bnd (endpoint_from_raw endpoint) (\<lambda>ep. case ep of
           Inl e \<Rightarrow> finish_or 0 (Inl e)
         | Inr bs \<Rightarrow> bnd (on_world i (connect W k bs)) (\<lambda>res. finish_or 0 (map_ok (\<lambda>_. 1) res))))"

definition zmq_disconnect_peer :: "ptr \<Rightarrow> u32 \<Rightarrow> ('w, i32) c_fun" where
  "zmq_disconnect_peer p routing_id = socket_call p (\<lambda>k. disconnect_peer k routing_id)"

text \<open>The group is read after the handle, with the same errors as an endpoint.\<close>

definition zmq_join :: "ptr \<Rightarrow> ptr \<Rightarrow> ('w, i32) c_fun" where
  "zmq_join = endpoint_call join"

definition zmq_leave :: "ptr \<Rightarrow> ptr \<Rightarrow> ('w, i32) c_fun" where
  "zmq_leave = endpoint_call leave"

definition zmq_socket_monitor_versioned :: "ptr \<Rightarrow> ptr \<Rightarrow> u64 \<Rightarrow> i32 \<Rightarrow> i32 \<Rightarrow> ('w, i32) c_fun" where
  "zmq_socket_monitor_versioned p endpoint mask_events version type_number =
     with_socket p (\<lambda>i k.
       if endpoint = 0 then bnd (on_world i (modify (stop_monitor k))) (\<lambda>r. finish (map_ok (\<lambda>_. 0) r))
       else endpoint_call (\<lambda>k ep. monitor k ep mask_events version type_number) p endpoint)"

text \<open>\<open>events as u64\<close> extends the sign.\<close>

definition zmq_socket_monitor :: "ptr \<Rightarrow> ptr \<Rightarrow> i32 \<Rightarrow> ('w, i32) c_fun" where
  "zmq_socket_monitor p endpoint mask_events =
     zmq_socket_monitor_versioned p endpoint (word_of_int mask_events) 1 ZMQ_PAIR"

definition zmq_socket_monitor_pipes_stats :: "'w wires \<Rightarrow> ptr \<Rightarrow> ('w, i32) c_fun" where
  "zmq_socket_monitor_pipes_stats W p = socket_call p (monitor_pipes_stats W)"


section \<open>Reading what was written\<close>

lemma mem_load_defined: "mem_load m p n \<noteq> None \<longleftrightarrow> (\<forall>i < n. m (p + i) \<noteq> None)"
proof -
  have "None \<in> set (map (\<lambda>i. m (p + i)) [0..<n]) \<longleftrightarrow> (\<exists>i < n. m (p + i) = None)"
    by (simp add: image_iff eq_commute [of None]) (use atLeast0LessThan in blast)
  then show ?thesis
    by (auto simp only: mem_load_def Let_def split: if_splits)
qed

lemma mem_load_Some_iff: "mem_load m p n = Some bs \<longleftrightarrow> length bs = n \<and> (\<forall>i < n. m (p + i) = Some (bs ! i))"
proof
  assume l: "mem_load m p n = Some bs"
  then have "\<forall>i < n. m (p + i) \<noteq> None"
    using mem_load_defined [of m p n] by simp
  moreover from l have "bs = map (\<lambda>i. the (m (p + i))) [0..<n]"
    by (auto simp: mem_load_def Let_def split: if_splits)
  ultimately show "length bs = n \<and> (\<forall>i < n. m (p + i) = Some (bs ! i))"
    by simp
next
  assume *: "length bs = n \<and> (\<forall>i < n. m (p + i) = Some (bs ! i))"
  then have "map (\<lambda>i. m (p + i)) [0..<n] = map Some bs"
    by (auto intro: nth_equalityI)
  then show "mem_load m p n = Some bs"
    by (simp only: mem_load_def Let_def map_map comp_def option.sel map_ident) auto
qed

lemma mem_load_0 [simp]: "mem_load m p 0 = Some []"
  by (simp add: mem_load_def)

lemma mem_load_length: "mem_load m p n = Some bs \<Longrightarrow> length bs = n"
  by (simp add: mem_load_Some_iff)

text \<open>What a caller of a byte store relies on, and numbers kept in it.\<close>

locale byte_store =
  fixes ld :: "'m \<Rightarrow> nat \<Rightarrow> nat \<Rightarrow> bytes option" and st :: "'m \<Rightarrow> nat \<Rightarrow> bytes \<Rightarrow> 'm option"
  assumes ld_st: "st m p bs = Some m' \<Longrightarrow> ld m' p (length bs) = Some bs"
    and ld_other: "st m p bs = Some m' \<Longrightarrow> q + n \<le> p \<or> p + length bs \<le> q \<Longrightarrow> ld m' q n = ld m q n"
    and st_total: "ld m p (length bs) = Some old \<Longrightarrow> \<exists>m'. st m p bs = Some m'"
begin

lemma number_kept:
  assumes "st m p (to_ne n v) = Some m'" and "v < 256 ^ n"
  shows "map_option from_ne (ld m' p n) = Some v"
  using ld_st [OF assms(1)] assms(2) by (simp add: to_ne_def from_ne_def from_be_to_be_id length_to_be)

lemma two_stores:
  assumes "ld m p (length bs) = Some a" and "ld m q (length cs) = Some b"
    and "q + length cs \<le> p \<or> p + length bs \<le> q"
  obtains m1 m2 where "st m p bs = Some m1" "st m1 q cs = Some m2" "ld m2 p (length bs) = Some bs" "ld m2 q (length cs) = Some cs"
proof -
  obtain m1 where 1: "st m p bs = Some m1"
    using st_total assms(1) by blast
  then have "ld m1 q (length cs) = Some b"
    using ld_other assms(2,3) by auto
  then obtain m2 where 2: "st m1 q cs = Some m2"
    using st_total by blast
  then have "ld m2 p (length bs) = ld m1 p (length bs)"
    using ld_other assms(3) by auto
  with 1 2 show thesis
    using ld_st that by auto
qed

end

interpretation mem: byte_store mem_load mem_store
proof
  show "mem_load m' p (length bs) = Some bs" if "mem_store m p bs = Some m'" for m p bs m'
    using that by (auto simp: mem_store_def mem_load_Some_iff write_bytes_def split: if_splits)
next
  show "mem_load m' q n = mem_load m q n" if "mem_store m p bs = Some m'" "q + n \<le> p \<or> p + length bs \<le> q" for m p bs m' q n
  proof -
    have "m' (q + i) = m (q + i)" if "i < n" for i
      using that \<open>mem_store m p bs = Some m'\<close> \<open>q + n \<le> p \<or> p + length bs \<le> q\<close>
      by (auto simp: mem_store_def write_bytes_def split: if_splits)
    then have "map (\<lambda>i. m' (q + i)) [0..<n] = map (\<lambda>i. m (q + i)) [0..<n]"
      by simp
    then show ?thesis
      by (simp add: mem_load_def)
  qed
next
  show "\<exists>m'. mem_store m p bs = Some m'" if "mem_load m p (length bs) = Some old" for m p bs old
    using that by (simp add: mem_store_def)
qed

lemma mem_store_outside:
  assumes "mem_store m p bs = Some m'" and "a < p \<or> p + length bs \<le> a"
  shows "m' a = m a"
  using assms by (auto simp: mem_store_def write_bytes_def split: if_splits)

lemma mem_store_defined: "mem_store m p bs = Some m' \<Longrightarrow> m' a = None \<longleftrightarrow> m a = None"
proof (cases "p \<le> a \<and> a < p + length bs")
  case True
  assume s: "mem_store m p bs = Some m'"
  then have "\<forall>i < length bs. m (p + i) \<noteq> None"
    using mem_load_defined [of m p "length bs"] by (simp add: mem_store_def split: if_splits)
  moreover have "a - p < length bs" "p + (a - p) = a"
    using True by auto
  ultimately have "m a \<noteq> None"
    by metis
  with s True show ?thesis
    by (auto simp: mem_store_def write_bytes_def split: if_splits)
qed (auto simp: mem_store_def write_bytes_def split: if_splits)

text \<open>Signed numbers.\<close>

lemma from_ne_to_ne_int:
  assumes "- (256 ^ n) \<le> 2 * v" and "2 * v < 256 ^ n"
  shows "from_ne_int (to_ne_int n v) = v"
proof -
  have pos: "(0 :: int) < 256 ^ n"
    by simp
  have less: "nat (v mod 256 ^ n) < 256 ^ n"
    using pos_mod_bound [OF pos, of v] pos_mod_sign [OF pos, of v] by (simp add: nat_less_iff)
  have len: "length (to_ne_int n v) = n"
    by (simp add: to_ne_int_def to_ne_def length_to_be)
  have num: "int (from_ne (to_ne_int n v)) = v mod 256 ^ n"
    using less by (simp add: to_ne_int_def to_ne_def from_ne_def from_be_to_be_id)
  show ?thesis
  proof (cases "v \<ge> 0")
    case True
    then have "v mod 256 ^ n = v"
      using assms(2) by (intro mod_pos_pos_trivial) auto
    with True assms(2) show ?thesis
      by (simp add: from_ne_int_def len num Let_def)
  next
    case False
    have "v mod 256 ^ n = (v + 256 ^ n) mod 256 ^ n"
      by simp
    also have "\<dots> = v + 256 ^ n"
      using False assms(1) by (intro mod_pos_pos_trivial) auto
    finally show ?thesis
      using False assms(1) by (simp add: from_ne_int_def len num Let_def)
  qed
qed

lemma length_to_ne_int [simp]: "length (to_ne_int n v) = n"
  by (simp add: to_ne_int_def to_ne_def length_to_be)

lemma length_to_ne [simp]: "length (to_ne n v) = n"
  by (simp add: to_ne_def length_to_be)

lemma from_ne_to_ne: "v < 256 ^ n \<Longrightarrow> from_ne (to_ne n v) = v"
  by (simp add: to_ne_def from_ne_def from_be_to_be_id)

end
