(* ===== verification/Ffi_Options.thy ===== *)
theory Ffi_Options
  imports Ffi
begin

text \<open>
  Socket options through the C interface (\<open>zmq_setsockopt\<close>, \<open>zmq_getsockopt\<close>), the Z85 and CURVE key
  functions and the capability query. Values cross the interface as bytes in the memory of the caller.
\<close>

section \<open>Options\<close>

definition is_settable_bytes_sockopt :: "i32 \<Rightarrow> bool" where
  "is_settable_bytes_sockopt opt \<longleftrightarrow>
     opt \<in> {ZMQ_PLAIN_USERNAME, ZMQ_ROUTING_ID, ZMQ_CONNECT_ROUTING_ID, ZMQ_PLAIN_PASSWORD, ZMQ_CURVE_PUBLICKEY,
       ZMQ_CURVE_SECRETKEY, ZMQ_CURVE_SERVERKEY, ZMQ_ZAP_DOMAIN, ZMQ_GSSAPI_PRINCIPAL, ZMQ_GSSAPI_SERVICE_PRINCIPAL,
       ZMQ_SOCKS_PROXY, ZMQ_SOCKS_USERNAME, ZMQ_SOCKS_PASSWORD, ZMQ_BINDTODEVICE, ZMQ_HELLO_MSG, ZMQ_DISCONNECT_MSG,
       ZMQ_HICCUP_MSG}"

definition is_gettable_bytes_sockopt :: "i32 \<Rightarrow> bool" where
  "is_gettable_bytes_sockopt opt \<longleftrightarrow>
     (is_settable_bytes_sockopt opt \<and> opt \<notin> {ZMQ_CONNECT_ROUTING_ID, ZMQ_HELLO_MSG, ZMQ_DISCONNECT_MSG, ZMQ_HICCUP_MSG})
     \<or> opt = ZMQ_LAST_ENDPOINT"

text \<open>The bytes of an argument: a null pointer is accepted when there are none.\<close>

definition slice_arg :: "ptr \<Rightarrow> nat \<Rightarrow> ('w, error + bytes) c_fun" where
  "slice_arg p n =
     (if p = 0 \<and> n \<noteq> 0 then ret (Inl InvalidArgument)
      else if n = 0 then ret (Inr [])
      else bnd (c_load p n) (\<lambda>bs. ret (Inr bs)))"

definition socket_set_option_u64 :: "ref \<Rightarrow> i32 \<Rightarrow> u64 \<Rightarrow> ('w world, error, unit) comp" where
  "socket_set_option_u64 k opt v w = map_prod id (\<lambda>oc. store_cells k oc w) (set_option_u64 opt v (socket_cells k w))"

definition socket_set_option_i64 :: "ref \<Rightarrow> i32 \<Rightarrow> i64 \<Rightarrow> ('w world, error, unit) comp" where
  "socket_set_option_i64 k opt v w = map_prod id (\<lambda>oc. store_cells k oc w) (set_option_i64 opt v (socket_cells k w))"

text \<open>A value of fixed size, read after the size has been checked.\<close>

definition set_fixed :: "nat \<Rightarrow> ptr \<Rightarrow> nat \<Rightarrow> nat \<Rightarrow> (bytes \<Rightarrow> ('w world, error, unit) comp) \<Rightarrow> ('w, i32) c_fun" where
  "set_fixed i optval optvallen n f =
     (if optval = 0 \<or> optvallen \<noteq> n then set_error InvalidArgument
      else bnd (c_load optval n) (\<lambda>bs. bnd (on_world i (f bs)) (\<lambda>r. finish (map_ok (\<lambda>_. 0) r))))"

definition zmq_setsockopt :: "ptr \<Rightarrow> i32 \<Rightarrow> ptr \<Rightarrow> nat \<Rightarrow> ('w, i32) c_fun" where
  "zmq_setsockopt p opt optval optvallen =
     with_socket p (\<lambda>i k.
       if opt \<in> {ZMQ_SUBSCRIBE, ZMQ_UNSUBSCRIBE} then
         bnd (slice_arg optval optvallen) (\<lambda>v. case v of
           Inl e \<Rightarrow> set_error e
         | Inr bs \<Rightarrow>
             bnd (on_world i (if opt = ZMQ_SUBSCRIBE then subscribe k bs else unsubscribe k bs)) (\<lambda>r.
               finish (map_ok (\<lambda>_. 0) r)))
       else if is_settable_bytes_sockopt opt \<or> opt = ZMQ_XPUB_WELCOME_MSG then
         bnd (slice_arg optval optvallen) (\<lambda>v. case v of
           Inl e \<Rightarrow> set_error e
         | Inr bs \<Rightarrow> bnd (on_world i (socket_set_option_bytes k opt bs)) (\<lambda>r. finish (map_ok (\<lambda>_. 0) r)))
       else if opt = ZMQ_AFFINITY then
         set_fixed i optval optvallen 8 (\<lambda>bs. socket_set_option_u64 k opt (word_of_nat (from_ne bs)))
       else if opt = ZMQ_MAXMSGSIZE then
         set_fixed i optval optvallen 8 (\<lambda>bs. socket_set_option_i64 k opt (from_ne_int bs))
       else set_fixed i optval optvallen 4 (\<lambda>bs. socket_set_option_i32 k opt (from_ne_int bs)))"

text \<open>A value of fixed size goes to the caller with its size.\<close>

definition get_fixed :: "nat \<Rightarrow> ptr \<Rightarrow> ptr \<Rightarrow> ('w world, error, bytes) comp \<Rightarrow> ('w, i32) c_fun" where
  "get_fixed i optval optvallen f =
     bnd (on_world i f) (\<lambda>v. case v of Inl e \<Rightarrow> set_error e | Inr bs \<Rightarrow> give_bytes optval optvallen bs)"

definition read_option :: "('a \<Rightarrow> bytes) \<Rightarrow> ref \<Rightarrow> (socket_options \<Rightarrow> 'a result) \<Rightarrow> ('w world, error, bytes) comp" where
  "read_option enc k f w = (map_ok enc (f (sk_options (w_sockets w k))), w)"

definition zmq_getsockopt :: "ptr \<Rightarrow> i32 \<Rightarrow> ptr \<Rightarrow> ptr \<Rightarrow> ('w, i32) c_fun" where
  "zmq_getsockopt p opt optval optvallen =
     with_socket p (\<lambda>i k.
       if optval = 0 \<or> optvallen = 0 then set_error InvalidArgument
       else bnd (c_load optvallen 8) (\<lambda>len.
         let available = from_ne len
         in if is_gettable_bytes_sockopt opt then
              bnd (on_world i (read_option id k (get_option_bytes opt))) (\<lambda>v. case v of
                Inl e \<Rightarrow> set_error e
              | Inr bs \<Rightarrow> if available < length bs then set_error InvalidArgument else give_bytes optval optvallen bs)
            else if opt = ZMQ_AFFINITY then
              (if available \<noteq> 8 then set_error InvalidArgument
               else get_fixed i optval optvallen (read_option (\<lambda>v. to_ne 8 (unat v)) k (get_option_u64 opt)))
            else if opt = ZMQ_MAXMSGSIZE then
              (if available \<noteq> 8 then set_error InvalidArgument
               else get_fixed i optval optvallen (read_option (to_ne_int 8) k (get_option_i64 opt)))
            else if available < 4 then set_error InvalidArgument
            else get_fixed i optval optvallen (\<lambda>w. map_prod (map_ok (to_ne_int 4)) id (socket_get_option_i32 k opt w))))"


section \<open>Keys and capabilities\<close>

text \<open>\<open>dest\<close> receives the text and a NUL; the result is \<open>dest\<close> or null.\<close>

definition zmq_z85_encode :: "ptr \<Rightarrow> ptr \<Rightarrow> nat \<Rightarrow> ('w, ptr) c_fun" where
  "zmq_z85_encode dest src n =
     (if dest = 0 \<or> (src = 0 \<and> n \<noteq> 0) then finish_or 0 (Inl InvalidArgument)
      else bnd (if n = 0 then ret [] else c_load src n) (\<lambda>bs.
        case z85_encode bs of
          Inl e \<Rightarrow> finish_or 0 (Inl e)
        | Inr t \<Rightarrow> bnd (c_store dest (t @ [0])) (\<lambda>_. finish_or 0 (Inr dest))))"

definition zmq_z85_decode :: "ptr \<Rightarrow> ptr \<Rightarrow> ('w, ptr) c_fun" where
  "zmq_z85_decode dest src =
     (if dest = 0 \<or> src = 0 then finish_or 0 (Inl InvalidArgument)
      else bnd (c_string src) (\<lambda>t.
        if \<not> utf8_valid t then finish_or 0 (Inl InvalidArgument)
        else case z85_decode t of
               Inl e \<Rightarrow> finish_or 0 (Inl e)
             | Inr bs \<Rightarrow> bnd (c_store dest bs) (\<lambda>_. finish_or 0 (Inr dest))))"

text \<open>\<open>mul_base\<close> is the curve operation and \<open>rnd\<close> the random bytes, as for the functions of the core.\<close>

definition zmq_curve_keypair :: "(bytes \<Rightarrow> bytes) \<Rightarrow> bytes option \<Rightarrow> ptr \<Rightarrow> ptr \<Rightarrow> ('w, i32) c_fun" where
  "zmq_curve_keypair mul_base rnd public_key secret_key =
     (if public_key = 0 \<or> secret_key = 0 then set_error InvalidArgument
      else case curve_keypair mul_base rnd of
             Inl e \<Rightarrow> set_error e
           | Inr (pub, sec) \<Rightarrow>
               bnd (c_store public_key (pub @ [0])) (\<lambda>_. bnd (c_store secret_key (sec @ [0])) (\<lambda>_. finish (Inr 0))))"

definition zmq_curve_public :: "(bytes \<Rightarrow> bytes) \<Rightarrow> ptr \<Rightarrow> ptr \<Rightarrow> ('w, i32) c_fun" where
  "zmq_curve_public mul_base public_key secret_key =
     (if public_key = 0 \<or> secret_key = 0 then set_error InvalidArgument
      else bnd (c_string secret_key) (\<lambda>t.
        if \<not> utf8_valid t then set_error InvalidArgument
        else case curve_public mul_base t of
               Inl e \<Rightarrow> set_error e
             | Inr pub \<Rightarrow> bnd (c_store public_key (pub @ [0])) (\<lambda>_. finish (Inr 0))))"

text \<open>The capabilities of the default features of the crate: \<open>ipc\<close> is among them.\<close>

definition zmq_has :: "ptr \<Rightarrow> ('w, i32) c_fun" where
  "zmq_has capability =
     (if capability = 0 then ret 0
      else bnd (c_string capability) (\<lambda>c.
        ret (of_bool (c \<in> {lit ''ipc'', lit ''curve'', lit ''draft'', lit ''WS''}))))"

end
