(* ===== verification/Ffi_Message.thy ===== *)
theory Ffi_Message
  imports Ffi_Options
begin

text \<open>
  Messages of the C interface: the object behind a \<open>zmq_msg_t\<close>, its external buffers with their count
  and their free callback, the functions \<open>zmq_msg_*\<close>, and sending and receiving.

  A \<open>zmq_msg_t\<close> is 64 bytes of the caller; its first eight hold the handle of the object. A call of a free
  callback is recorded in \<open>c_free_calls\<close>, with the callback, the buffer and the hint.
\<close>

section \<open>Message objects\<close>

definition inner_new :: "message_storage \<Rightarrow> ffi_message_inner" where
  "inner_new st = \<lparr>fm_storage = st, fm_more = False, fm_routing_id = 0, fm_group = None, fm_metadata = []\<rparr>"

definition inner_empty :: ffi_message_inner where
  "inner_empty = inner_new (Owned message_new)"

text \<open>A vector is at most \<open>isize::MAX\<close> bytes long.\<close>

definition inner_with_size :: "nat \<Rightarrow> ('w, ffi_message_inner) c_fun" where
  "inner_with_size n = (if n < 2 ^ 63 then ret (inner_new (Owned (message_from_vec (replicate n 0)))) else throw Aborted)"

definition arc_new :: "external_message \<Rightarrow> ('w, ref) c_fun" where
  "arc_new ex s =
     (let e = c_next_external s
      in (Inr e, s\<lparr>c_externals := (c_externals s)(e \<mapsto> (ex, 1)), c_next_external := e + 1\<rparr>))"

definition arc_clone :: "ref \<Rightarrow> ('w, unit) c_fun" where
  "arc_clone e s =
     (case c_externals s e of
        None \<Rightarrow> (Inl Undefined, s)
      | Some (ex, n) \<Rightarrow> (Inr (), s\<lparr>c_externals := (c_externals s)(e \<mapsto> (ex, n + 1))\<rparr>))"

text \<open>Dropping the last reference drops the external message, which calls its free function.\<close>

definition external_drop :: "external_message \<Rightarrow> (ptr \<times> ptr \<times> ptr) list" where
  "external_drop ex = (case ex_free_fn ex of None \<Rightarrow> [] | Some f \<Rightarrow> [(f, ex_data ex, ex_hint ex)])"

definition arc_drop :: "ref \<Rightarrow> ('w, unit) c_fun" where
  "arc_drop e s =
     (case c_externals s e of
        None \<Rightarrow> (Inl Undefined, s)
      | Some (ex, n) \<Rightarrow>
          (Inr (), if n \<le> 1 then s\<lparr>c_externals := (c_externals s)(e := None), c_free_calls := c_free_calls s @ external_drop ex\<rparr>
                   else s\<lparr>c_externals := (c_externals s)(e \<mapsto> (ex, n - 1))\<rparr>))"

definition inner_with_external :: "ptr \<Rightarrow> nat \<Rightarrow> ptr option \<Rightarrow> ptr \<Rightarrow> ('w, ffi_message_inner) c_fun" where
  "inner_with_external p n free_fn hint =
     bnd (arc_new \<lparr>ex_data = p, ex_size = n, ex_free_fn = free_fn, ex_hint = hint\<rparr>) (\<lambda>e. ret (inner_new (External e)))"

text \<open>The address of the payload: in the object of an owned message, or the buffer of the caller.\<close>

datatype data_ptr = Null | Payload ptr | Buffer ptr

definition external_of :: "ref \<Rightarrow> ('w, external_message) c_fun" where
  "external_of e = bnd (deref c_externals e) (\<lambda>x. ret (fst x))"

definition inner_data :: "ptr \<Rightarrow> ffi_message_inner \<Rightarrow> ('w, data_ptr) c_fun" where
  "inner_data p inner =
     (case fm_storage inner of
        Owned m \<Rightarrow> ret (Payload p)
      | External e \<Rightarrow> bnd (external_of e) (\<lambda>ex. ret (if ex_data ex = 0 then Null else Buffer (ex_data ex))))"

definition inner_size :: "ffi_message_inner \<Rightarrow> ('w, nat) c_fun" where
  "inner_size inner =
     (case fm_storage inner of
        Owned m \<Rightarrow> ret (message_len m)
      | External e \<Rightarrow> bnd (external_of e) (\<lambda>ex. ret (ex_size ex)))"

definition copy_message :: "ffi_message_inner \<Rightarrow> ('w, ffi_message_inner) c_fun" where
  "copy_message inner =
     (case fm_storage inner of
        Owned m \<Rightarrow> ret (inner\<lparr>fm_storage := Owned (message_from_vec (data m))\<rparr>)
      | External e \<Rightarrow> bnd (arc_clone e) (\<lambda>_. ret inner))"

definition inner_set_metadata :: "bytes \<Rightarrow> bytes \<Rightarrow> ffi_message_inner \<Rightarrow> ffi_message_inner result" where
  "inner_set_metadata key val inner =
     (if key = [] \<or> 0 \<in> set key \<or> 0 \<in> set val then Inl InvalidArgument
      else Inr (inner\<lparr>fm_metadata :=
             (case put_first key val (fm_metadata inner) of
                Some md \<Rightarrow> md | None \<Rightarrow> fm_metadata inner @ [(key, val)])\<rparr>))"

definition inner_bytes :: "ffi_message_inner \<Rightarrow> ('w, error + bytes) c_fun" where
  "inner_bytes inner =
     (case fm_storage inner of
        Owned m \<Rightarrow> ret (Inr (data m))
      | External e \<Rightarrow> bnd (external_of e) (\<lambda>ex. slice_arg (ex_data ex) (ex_size ex)))"

definition to_core_message :: "ffi_message_inner \<Rightarrow> ('w, error + message) c_fun" where
  "to_core_message inner =
     bnd (inner_bytes inner) (\<lambda>d. ret (and_then d (\<lambda>bs.
       let m = set_routing_id (fm_routing_id inner) (set_more (fm_more inner) (message_from_vec bs))
       in case fm_group inner of
            None \<Rightarrow> Inr m
          | Some g \<Rightarrow> if utf8_valid g then set_group g m else Inl InvalidArgument)))"

definition from_core_message :: "message \<Rightarrow> ffi_message_inner" where
  "from_core_message m =
     \<lparr>fm_storage = Owned m, fm_more = msg_more m, fm_routing_id = msg_routing_id m,
      fm_group = (case msg_group m of None \<Rightarrow> None | Some g \<Rightarrow> if 0 \<in> set g then None else Some g),
      fm_metadata =
        (case metadata m (lit ''Routing-Id'') of
           Some v \<Rightarrow> if 0 \<in> set v then [] else [(lit ''Routing-Id'', v)]
         | None \<Rightarrow> if msg_routing_id m = 0 then [] else [(lit ''Routing-Id'', dec (unat (msg_routing_id m)))])\<rparr>"

definition inner_metadata :: "bytes \<Rightarrow> ffi_message_inner \<Rightarrow> bytes option" where
  "inner_metadata key inner = map_option snd (List.find (\<lambda>kv. fst kv = key) (fm_metadata inner))"


section \<open>The object behind a message of the caller\<close>

definition write_msg_inner :: "ptr \<Rightarrow> ptr \<Rightarrow> ('w, unit) c_fun" where
  "write_msg_inner msg inner = c_store msg (to_ne 8 inner @ replicate 56 0)"

definition read_msg_inner :: "ptr \<Rightarrow> ('w, ptr) c_fun" where
  "read_msg_inner msg = bnd (c_load msg 8) (\<lambda>bs. ret (from_ne bs))"

definition take_msg_inner :: "ptr \<Rightarrow> ('w, ptr) c_fun" where
  "take_msg_inner msg = bnd (read_msg_inner msg) (\<lambda>p. bnd (c_store msg (replicate 64 0)) (\<lambda>_. ret p))"

definition box_message :: "ffi_message_inner \<Rightarrow> ('w, ptr) c_fun" where
  "box_message inner =
     bnd fresh_ptr (\<lambda>p. bnd (modify (\<lambda>s. s\<lparr>c_messages := (c_messages s)(p \<mapsto> inner)\<rparr>)) (\<lambda>_. ret p))"

definition drop_message :: "ptr \<Rightarrow> ('w, unit) c_fun" where
  "drop_message p =
     (if p = 0 then ret ()
      else bnd (deref c_messages p) (\<lambda>inner.
           bnd (modify (\<lambda>s. s\<lparr>c_messages := (c_messages s)(p := None)\<rparr>)) (\<lambda>_.
             case fm_storage inner of Owned _ \<Rightarrow> ret () | External e \<Rightarrow> arc_drop e)))"

definition init_message :: "ptr \<Rightarrow> ffi_message_inner \<Rightarrow> ('w, i32) c_fun" where
  "init_message msg inner = bnd (box_message inner) (\<lambda>p. bnd (write_msg_inner msg p) (\<lambda>_. finish (Inr 0)))"

text \<open>The object of a message that is not null, for the functions that refuse a message without one.\<close>

definition message_at :: "ptr \<Rightarrow> ('w, error + ptr \<times> ffi_message_inner) c_fun" where
  "message_at msg =
     (if msg = 0 then ret (Inl InvalidArgument)
      else bnd (read_msg_inner msg) (\<lambda>p.
        if p = 0 then ret (Inl InvalidArgument)
        else bnd (deref c_messages p) (\<lambda>inner. ret (Inr (p, inner)))))"

definition with_message :: "ptr \<Rightarrow> (ptr \<Rightarrow> ffi_message_inner \<Rightarrow> ('w, i32) c_fun) \<Rightarrow> ('w, i32) c_fun" where
  "with_message msg f = bnd (message_at msg) (\<lambda>r. case r of Inl e \<Rightarrow> set_error e | Inr (p, inner) \<Rightarrow> f p inner)"


section \<open>Functions on messages\<close>

definition zmq_msg_init :: "ptr \<Rightarrow> ('w, i32) c_fun" where
  "zmq_msg_init msg = (if msg = 0 then set_error InvalidArgument else init_message msg inner_empty)"

definition zmq_msg_init_size :: "ptr \<Rightarrow> nat \<Rightarrow> ('w, i32) c_fun" where
  "zmq_msg_init_size msg n =
     (if msg = 0 then set_error InvalidArgument else bnd (inner_with_size n) (init_message msg))"

definition zmq_msg_init_data :: "ptr \<Rightarrow> ptr \<Rightarrow> nat \<Rightarrow> ptr option \<Rightarrow> ptr \<Rightarrow> ('w, i32) c_fun" where
  "zmq_msg_init_data msg p n free_fn hint =
     (if msg = 0 then set_error InvalidArgument else bnd (inner_with_external p n free_fn hint) (init_message msg))"

definition zmq_msg_init_buffer :: "ptr \<Rightarrow> ptr \<Rightarrow> nat \<Rightarrow> ('w, i32) c_fun" where
  "zmq_msg_init_buffer msg buf n =
     (if msg = 0 then set_error InvalidArgument
      else bnd (slice_arg buf n) (\<lambda>r. case r of
        Inl e \<Rightarrow> set_error e | Inr bs \<Rightarrow> init_message msg (inner_new (Owned (message_from_vec bs)))))"

definition zmq_msg_close :: "ptr \<Rightarrow> ('w, i32) c_fun" where
  "zmq_msg_close msg =
     (if msg = 0 then set_error InvalidArgument
      else bnd (take_msg_inner msg) (\<lambda>p. bnd (drop_message p) (\<lambda>_. finish (Inr 0))))"

definition zmq_msg_data :: "ptr \<Rightarrow> ('w, data_ptr) c_fun" where
  "zmq_msg_data msg =
     bnd (message_at msg) (\<lambda>r. case r of
       Inl e \<Rightarrow> finish_or Null (Inl e) | Inr (p, inner) \<Rightarrow> bnd clear_errno (\<lambda>_. inner_data p inner))"

definition zmq_msg_size :: "ptr \<Rightarrow> ('w, nat) c_fun" where
  "zmq_msg_size msg =
     bnd (message_at msg) (\<lambda>r. case r of
       Inl e \<Rightarrow> finish_or 0 (Inl e) | Inr (p, inner) \<Rightarrow> bnd clear_errno (\<lambda>_. inner_size inner))"

definition zmq_msg_move :: "ptr \<Rightarrow> ptr \<Rightarrow> ('w, i32) c_fun" where
  "zmq_msg_move dest src =
     (if dest = 0 \<or> src = 0 then set_error InvalidArgument
      else bnd (take_msg_inner src) (\<lambda>p. bnd (write_msg_inner dest p) (\<lambda>_. init_message src inner_empty)))"

definition zmq_msg_copy :: "ptr \<Rightarrow> ptr \<Rightarrow> ('w, i32) c_fun" where
  "zmq_msg_copy dest src =
     (if dest = 0 then set_error InvalidArgument
      else with_message src (\<lambda>p inner. bnd (copy_message inner) (init_message dest)))"

definition zmq_msg_more :: "ptr \<Rightarrow> ('w, i32) c_fun" where
  "zmq_msg_more msg = with_message msg (\<lambda>p inner. finish (Inr (of_bool (fm_more inner))))"

definition zmq_msg_get :: "ptr \<Rightarrow> i32 \<Rightarrow> ('w, i32) c_fun" where
  "zmq_msg_get msg property =
     with_message msg (\<lambda>p inner.
       if property = ZMQ_MORE then finish (Inr (of_bool (fm_more inner)))
       else if property = ZMQ_SHARED then finish (Inr 0)
       else set_error InvalidArgument)"

definition zmq_msg_set :: "ptr \<Rightarrow> i32 \<Rightarrow> i32 \<Rightarrow> ('w, i32) c_fun" where
  "zmq_msg_set msg property optval = with_message msg (\<lambda>p inner. set_error InvalidArgument)"

text \<open>A returned string is given by its bytes; \<open>None\<close> is the null pointer.\<close>

definition zmq_msg_gets :: "ptr \<Rightarrow> ptr \<Rightarrow> ('w, bytes option) c_fun" where
  "zmq_msg_gets msg property =
     (if msg = 0 \<or> property = 0 then finish_or None (Inl InvalidArgument)
      else bnd (message_at msg) (\<lambda>r. case r of
        Inl e \<Rightarrow> finish_or None (Inl e)
      | Inr (p, inner) \<Rightarrow>
          bnd (c_string property) (\<lambda>name.
            if name = lit ''Group'' \<and> fm_group inner \<noteq> None then finish_or None (Inr (fm_group inner))
            else case inner_metadata name inner of
                   Some v \<Rightarrow> finish_or None (Inr (Some v))
                 | None \<Rightarrow> finish_or None (Inl InvalidArgument))))"

definition update_message :: "ptr \<Rightarrow> ffi_message_inner \<Rightarrow> ('w, unit) c_fun" where
  "update_message p inner = modify (\<lambda>s. s\<lparr>c_messages := (c_messages s)(p \<mapsto> inner)\<rparr>)"

definition zmq_msg_set_routing_id :: "ptr \<Rightarrow> u32 \<Rightarrow> ('w, i32) c_fun" where
  "zmq_msg_set_routing_id msg routing_id =
     with_message msg (\<lambda>p inner.
       let inner1 = inner\<lparr>fm_routing_id := routing_id\<rparr>
       in bnd (update_message p inner1) (\<lambda>_.
          case inner_set_metadata (lit ''Routing-Id'') (dec (unat routing_id)) inner1 of
            Inl e \<Rightarrow> set_error e
          | Inr inner2 \<Rightarrow> bnd (update_message p inner2) (\<lambda>_. finish (Inr 0))))"

definition zmq_msg_routing_id :: "ptr \<Rightarrow> ('w, u32) c_fun" where
  "zmq_msg_routing_id msg =
     bnd (message_at msg) (\<lambda>r. case r of
       Inl e \<Rightarrow> finish_or 0 (Inl e) | Inr (p, inner) \<Rightarrow> finish_or 0 (Inr (fm_routing_id inner)))"

definition zmq_msg_set_group :: "ptr \<Rightarrow> ptr \<Rightarrow> ('w, i32) c_fun" where
  "zmq_msg_set_group msg name =
     (if msg = 0 \<or> name = 0 then set_error InvalidArgument
      else with_message msg (\<lambda>p inner.
        bnd (c_string name) (\<lambda>g.
          if length g > 255 then set_error InvalidArgument
          else bnd (update_message p (inner\<lparr>fm_group := Some g\<rparr>)) (\<lambda>_. finish (Inr 0)))))"

definition zmq_msg_group :: "ptr \<Rightarrow> ('w, bytes option) c_fun" where
  "zmq_msg_group msg =
     bnd (message_at msg) (\<lambda>r. case r of
       Inl e \<Rightarrow> finish_or None (Inl e) | Inr (p, inner) \<Rightarrow> finish_or None (Inr (fm_group inner)))"


section \<open>Sending and receiving\<close>

definition zmq_send :: "'w wires \<Rightarrow> ptr \<Rightarrow> ptr \<Rightarrow> nat \<Rightarrow> i32 \<Rightarrow> ('w, i32) c_fun" where
  "zmq_send W p buf len flags =
     with_socket p (\<lambda>i k. bnd (slice_arg buf len) (\<lambda>d. case d of
       Inl e \<Rightarrow> set_error e
     | Inr bs \<Rightarrow> bnd (on_world i (send W k (message_from_slice bs) flags)) (\<lambda>r. finish (map_ok as_i32 r))))"

definition zmq_send_const :: "'w wires \<Rightarrow> ptr \<Rightarrow> ptr \<Rightarrow> nat \<Rightarrow> i32 \<Rightarrow> ('w, i32) c_fun" where
  "zmq_send_const = zmq_send"

definition zmq_recv :: "'w wires \<Rightarrow> ptr \<Rightarrow> ptr \<Rightarrow> nat \<Rightarrow> i32 \<Rightarrow> ('w, i32) c_fun" where
  "zmq_recv W p buf len flags =
     with_socket p (\<lambda>i k.
       if buf = 0 \<and> len \<noteq> 0 then set_error InvalidArgument
       else bnd (on_world i (recv W k flags)) (\<lambda>r. case r of
         Inl e \<Rightarrow> set_error e
       | Inr m \<Rightarrow>
           let copy_len = min len (message_len m)
           in bnd (if copy_len = 0 then ret () else c_store buf (take copy_len (data m))) (\<lambda>_.
              finish (Inr (as_i32 (message_len m))))))"

definition zmq_sendmsg :: "'w wires \<Rightarrow> ptr \<Rightarrow> ptr \<Rightarrow> i32 \<Rightarrow> ('w, i32) c_fun" where
  "zmq_sendmsg W p msg flags =
     with_socket p (\<lambda>i k. with_message msg (\<lambda>_ inner.
       bnd (to_core_message inner) (\<lambda>r. case r of
         Inl e \<Rightarrow> set_error e
       | Inr m \<Rightarrow>
           bnd (on_world i (send W k m (flags OR (if msg_more m then ZMQ_SNDMORE else 0)))) (\<lambda>res.
             finish (map_ok as_i32 res)))))"

definition zmq_recvmsg :: "'w wires \<Rightarrow> ptr \<Rightarrow> ptr \<Rightarrow> i32 \<Rightarrow> ('w, i32) c_fun" where
  "zmq_recvmsg W p msg flags =
     with_socket p (\<lambda>i k.
       if msg = 0 then set_error InvalidArgument
       else bnd (on_world i (recv W k flags)) (\<lambda>r. case r of
         Inl e \<Rightarrow> set_error e
       | Inr m \<Rightarrow>
           bnd (take_msg_inner msg) (\<lambda>previous. bnd (drop_message previous) (\<lambda>_.
           bnd (box_message (from_core_message m)) (\<lambda>q. bnd (write_msg_inner msg q) (\<lambda>_.
             finish (Inr (as_i32 (message_len m)))))))))"

definition zmq_msg_send :: "'w wires \<Rightarrow> ptr \<Rightarrow> ptr \<Rightarrow> i32 \<Rightarrow> ('w, i32) c_fun" where
  "zmq_msg_send W msg p flags = (if msg = 0 then set_error InvalidArgument else zmq_sendmsg W p msg flags)"

definition zmq_msg_recv :: "'w wires \<Rightarrow> ptr \<Rightarrow> ptr \<Rightarrow> i32 \<Rightarrow> ('w, i32) c_fun" where
  "zmq_msg_recv W msg p flags = (if msg = 0 then set_error InvalidArgument else zmq_recvmsg W p msg flags)"

text \<open>An entry of a vector is 16 bytes: the address and the length.\<close>

definition load_iovec :: "ptr \<Rightarrow> nat \<Rightarrow> ('w, ptr \<times> nat) c_fun" where
  "load_iovec iov index =
     bnd (c_load (iov + 16 * index) 16) (\<lambda>bs. ret (from_ne (take 8 bs), from_ne (drop 8 bs)))"

fun sendiov_loop :: "'w wires \<Rightarrow> nat \<Rightarrow> ref \<Rightarrow> ptr \<Rightarrow> nat \<Rightarrow> i32 \<Rightarrow> nat list \<Rightarrow> i32 \<Rightarrow> ('w, i32) c_fun" where
  "sendiov_loop W i k iov count flags [] rc = finish (Inr rc)"
| "sendiov_loop W i k iov count flags (index # rest) rc =
     bnd (load_iovec iov index) (\<lambda>(base, len).
     bnd (slice_arg base len) (\<lambda>d. case d of
       Inl e \<Rightarrow> set_error e
     | Inr bs \<Rightarrow>
         bnd (on_world i (send W k (message_from_vec bs) (if index = count - 1 then flags AND NOT ZMQ_SNDMORE else flags))) (\<lambda>r.
           case r of
             Inl e \<Rightarrow> set_error e
           | Inr n \<Rightarrow> sendiov_loop W i k iov count flags rest (as_i32 n))))"

definition zmq_sendiov :: "'w wires \<Rightarrow> ptr \<Rightarrow> ptr \<Rightarrow> nat \<Rightarrow> i32 \<Rightarrow> ('w, i32) c_fun" where
  "zmq_sendiov W p iov count flags =
     with_socket p (\<lambda>i k.
       if iov = 0 \<or> count = 0 then set_error InvalidArgument
       else sendiov_loop W i k iov count flags [0..<count] 0)"

text \<open>
  \<open>malloc\<close> of the C library is a parameter: from the memory in use and a size it gives the address of
  new storage, or null. The content of new storage is arbitrary; the model has zeros.
\<close>

type_synonym malloc = "(ptr \<rightharpoonup> byte) \<Rightarrow> nat \<Rightarrow> ptr"

definition c_malloc :: "malloc \<Rightarrow> nat \<Rightarrow> ('w, ptr) c_fun" where
  "c_malloc M n s =
     (let p = M (c_mem s) n
      in (Inr p, if p = 0 then s else s\<lparr>c_mem := write_bytes (c_mem s) p (replicate n 0)\<rparr>))"

fun recviov_loop :: "malloc \<Rightarrow> 'w wires \<Rightarrow> nat \<Rightarrow> ref \<Rightarrow> ptr \<Rightarrow> ptr \<Rightarrow> i32 \<Rightarrow> nat list \<Rightarrow> nat \<Rightarrow> ('w, i32) c_fun" where
  "recviov_loop M W i k iov count flags [] n = finish (Inr (as_i32 n))"
| "recviov_loop M W i k iov count flags (index # rest) n =
     bnd (on_world i (recv W k flags)) (\<lambda>r. case r of
       Inl e \<Rightarrow> set_error e
     | Inr m \<Rightarrow>
         bnd (c_malloc M (max (message_len m) 1)) (\<lambda>allocation.
           if allocation = 0 then set_error OutOfMemory
           else
             bnd (if data m = [] then ret () else c_store allocation (data m)) (\<lambda>_.
             bnd (c_store (iov + 16 * index) (to_ne 8 allocation @ to_ne 8 (message_len m))) (\<lambda>_.
             bnd (c_store count (to_ne 8 (n + 1))) (\<lambda>_.
               if \<not> msg_more m then finish (Inr (as_i32 (n + 1)))
               else recviov_loop M W i k iov count flags rest (n + 1))))))"

definition zmq_recviov :: "malloc \<Rightarrow> 'w wires \<Rightarrow> ptr \<Rightarrow> ptr \<Rightarrow> ptr \<Rightarrow> i32 \<Rightarrow> ('w, i32) c_fun" where
  "zmq_recviov M W p iov count flags =
     with_socket p (\<lambda>i k.
       if count = 0 \<or> iov = 0 then set_error InvalidArgument
       else bnd (c_load count 8) (\<lambda>bs.
         if from_ne bs = 0 then set_error InvalidArgument
         else bnd (c_store count (to_ne 8 0)) (\<lambda>_. recviov_loop M W i k iov count flags [0..<from_ne bs] 0)))"

end
