(* ===== verification/Ffi_Poll.thy ===== *)
theory Ffi_Poll
  imports Ffi_Message
begin

text \<open>
  Polling through the C interface: \<open>zmq_poll\<close>, the poller objects, the state of a peer and the proxy.
  Sleeping lets the time of the state pass; what other threads do meanwhile is not part of the call.
\<close>

section \<open>Poll items\<close>

text \<open>\<open>Duration::from_millis\<close> of a positive timeout.\<close>

definition sleep_millis :: "int \<Rightarrow> ('w, unit) c_fun" where
  "sleep_millis timeout = modify (\<lambda>s. s\<lparr>c_now := c_now s + nat timeout * 1000000\<rparr>)"

definition socket_revents :: "ptr \<Rightarrow> int \<Rightarrow> ('w, error + int) c_fun" where
  "socket_revents p requested =
     bnd (socket_from_raw p) (\<lambda>r. case r of
       Inl e \<Rightarrow> ret (Inl e)
     | Inr (i, k) \<Rightarrow> bnd (on_world i (\<lambda>w. map_prod Inr id (events k w))) (\<lambda>res. ret (map_ok (\<lambda>v. v AND requested) res)))"

text \<open>An item is 16 bytes: the socket, the descriptor, the events and the returned events.\<close>

record poll_item =
  pi_socket :: ptr
  pi_fd :: i32
  pi_events :: int

definition load_poll_item :: "ptr \<Rightarrow> ('w, poll_item) c_fun" where
  "load_poll_item p =
     bnd (c_load p 16) (\<lambda>bs. ret \<lparr>pi_socket = from_ne (take 8 bs), pi_fd = from_ne_int (slice 8 12 bs),
       pi_events = from_ne_int (slice 12 14 bs)\<rparr>)"

definition store_revents :: "ptr \<Rightarrow> int \<Rightarrow> ('w, unit) c_fun" where
  "store_revents p v = c_store (p + 14) (to_ne_int 2 v)"

fun poll_loop :: "ptr list \<Rightarrow> i32 \<Rightarrow> ('w, error + i32) c_fun" where
  "poll_loop [] ready = ret (Inr ready)"
| "poll_loop (p # ps) ready =
     bnd (store_revents p 0) (\<lambda>_. bnd (load_poll_item p) (\<lambda>item.
       if pi_socket item = 0 then poll_loop ps ready
       else bnd (socket_revents (pi_socket item) (pi_events item)) (\<lambda>r. case r of
         Inl e \<Rightarrow> ret (Inl e)
       | Inr revents \<Rightarrow> bnd (store_revents p revents) (\<lambda>_. poll_loop ps (if revents \<noteq> 0 then ready + 1 else ready)))))"

definition zmq_poll :: "ptr \<Rightarrow> i32 \<Rightarrow> int \<Rightarrow> ('w, i32) c_fun" where
  "zmq_poll items nitems timeout =
     (if nitems < 0 \<or> (items = 0 \<and> nitems \<noteq> 0) then set_error InvalidArgument
      else if nitems = 0 then bnd (if timeout > 0 then sleep_millis timeout else ret ()) (\<lambda>_. finish (Inr 0))
      else bnd (poll_loop (map (\<lambda>i. items + 16 * i) [0..<nat nitems]) 0) (\<lambda>r. case r of
        Inl e \<Rightarrow> set_error e
      | Inr ready \<Rightarrow>
          bnd (if ready = 0 \<and> timeout > 0 then sleep_millis timeout else ret ()) (\<lambda>_. finish (Inr ready))))"

definition zmq_ppoll :: "ptr \<Rightarrow> i32 \<Rightarrow> int \<Rightarrow> ptr \<Rightarrow> ('w, i32) c_fun" where
  "zmq_ppoll items nitems timeout sigmask = zmq_poll items nitems timeout"


section \<open>Pollers\<close>

definition poller_from_raw :: "ptr \<Rightarrow> ('w, error + poller_entry list) c_fun" where
  "poller_from_raw = from_raw InvalidContext c_pollers"

definition validate_poller_events :: "int \<Rightarrow> unit result" where
  "validate_poller_events ev =
     (if ev AND NOT (ZMQ_POLLIN OR ZMQ_POLLOUT OR ZMQ_POLLERR OR ZMQ_POLLPRI) \<noteq> 0 then Inl InvalidArgument else Inr ())"

text \<open>\<open>-1\<close> is the invalid descriptor of the platforms other than Windows.\<close>

definition invalid_zmq_fd :: i32 where
  "invalid_zmq_fd = - 1"

definition zmq_poller_new :: "('w, ptr) c_fun" where
  "zmq_poller_new =
     bnd clear_errno (\<lambda>_. bnd fresh_ptr (\<lambda>p.
     bnd (modify (\<lambda>s. s\<lparr>c_pollers := (c_pollers s)(p \<mapsto> [])\<rparr>)) (\<lambda>_. ret p)))"

text \<open>The pointer the caller holds is set to null.\<close>

definition zmq_poller_destroy :: "ptr \<Rightarrow> ('w, i32) c_fun" where
  "zmq_poller_destroy holder =
     (if holder = 0 then set_error InvalidContext
      else bnd (c_load holder 8) (\<lambda>bs.
        let p = from_ne bs
        in if p = 0 then set_error InvalidContext
           else bnd (deref c_pollers p) (\<lambda>_.
                bnd (modify (\<lambda>s. s\<lparr>c_pollers := (c_pollers s)(p := None)\<rparr>)) (\<lambda>_.
                bnd (c_store holder (to_ne 8 0)) (\<lambda>_. finish (Inr 0))))))"

definition with_poller :: "ptr \<Rightarrow> (poller_entry list \<Rightarrow> ('w, i32) c_fun) \<Rightarrow> ('w, i32) c_fun" where
  "with_poller poller f = bnd (poller_from_raw poller) (\<lambda>r. case r of Inl e \<Rightarrow> set_error e | Inr es \<Rightarrow> f es)"

definition set_entries :: "ptr \<Rightarrow> poller_entry list \<Rightarrow> ('w, i32) c_fun" where
  "set_entries poller es = bnd (modify (\<lambda>s. s\<lparr>c_pollers := (c_pollers s)(poller \<mapsto> es)\<rparr>)) (\<lambda>_. finish (Inr 0))"

definition zmq_poller_size :: "ptr \<Rightarrow> ('w, i32) c_fun" where
  "zmq_poller_size poller = with_poller poller (\<lambda>es. finish (Inr (as_i32 (length es))))"

text \<open>What the entries of a poller become, or the error, for each change.\<close>

definition entries_add :: "ptr \<Rightarrow> ptr \<Rightarrow> int \<Rightarrow> poller_entry list \<Rightarrow> poller_entry list result" where
  "entries_add p user_data ev es =
     (if list_ex (\<lambda>e. \<not> pe_is_fd e \<and> pe_socket e = p) es then Inl InvalidArgument
      else Inr (es @ [\<lparr>pe_socket = p, pe_fd = 0, pe_user_data = user_data, pe_events = ev, pe_is_fd = False\<rparr>]))"

definition entries_add_fd :: "i32 \<Rightarrow> ptr \<Rightarrow> int \<Rightarrow> poller_entry list \<Rightarrow> poller_entry list result" where
  "entries_add_fd fd user_data ev es =
     (if list_ex (\<lambda>e. pe_is_fd e \<and> pe_fd e = fd) es then Inl InvalidArgument
      else Inr (es @ [\<lparr>pe_socket = 0, pe_fd = fd, pe_user_data = user_data, pe_events = ev, pe_is_fd = True\<rparr>]))"

text \<open>\<open>iter_mut().find\<close>: the first entry that satisfies the condition is changed.\<close>

fun entries_modify :: "(poller_entry \<Rightarrow> bool) \<Rightarrow> int \<Rightarrow> poller_entry list \<Rightarrow> poller_entry list result" where
  "entries_modify P ev [] = Inl InvalidArgument"
| "entries_modify P ev (e # es) =
     (if P e then Inr (e\<lparr>pe_events := ev\<rparr> # es) else map_ok ((#) e) (entries_modify P ev es))"

text \<open>\<open>retain\<close>, with an error when nothing was removed.\<close>

definition entries_remove :: "(poller_entry \<Rightarrow> bool) \<Rightarrow> poller_entry list \<Rightarrow> poller_entry list result" where
  "entries_remove P es =
     (let kept = filter (\<lambda>e. \<not> P e) es in if length kept \<noteq> length es then Inr kept else Inl InvalidArgument)"

definition is_socket_entry :: "ptr \<Rightarrow> poller_entry \<Rightarrow> bool" where
  "is_socket_entry p e \<longleftrightarrow> \<not> pe_is_fd e \<and> pe_socket e = p"

definition is_fd_entry :: "i32 \<Rightarrow> poller_entry \<Rightarrow> bool" where
  "is_fd_entry fd e \<longleftrightarrow> pe_is_fd e \<and> pe_fd e = fd"

definition change_entries :: "ptr \<Rightarrow> poller_entry list result \<Rightarrow> ('w, i32) c_fun" where
  "change_entries poller r = (case r of Inl e \<Rightarrow> set_error e | Inr es \<Rightarrow> set_entries poller es)"

definition zmq_poller_add :: "ptr \<Rightarrow> ptr \<Rightarrow> ptr \<Rightarrow> int \<Rightarrow> ('w, i32) c_fun" where
  "zmq_poller_add poller p user_data ev =
     with_poller poller (\<lambda>es. bnd (socket_from_raw p) (\<lambda>r.
       case and_then r (\<lambda>_. validate_poller_events ev) of
         Inl e \<Rightarrow> set_error e
       | Inr _ \<Rightarrow> change_entries poller (entries_add p user_data ev es)))"

definition zmq_poller_modify :: "ptr \<Rightarrow> ptr \<Rightarrow> int \<Rightarrow> ('w, i32) c_fun" where
  "zmq_poller_modify poller p ev =
     with_poller poller (\<lambda>es. bnd (socket_from_raw p) (\<lambda>r.
       case and_then r (\<lambda>_. validate_poller_events ev) of
         Inl e \<Rightarrow> set_error e
       | Inr _ \<Rightarrow> change_entries poller (entries_modify (is_socket_entry p) ev es)))"

definition zmq_poller_remove :: "ptr \<Rightarrow> ptr \<Rightarrow> ('w, i32) c_fun" where
  "zmq_poller_remove poller p =
     with_poller poller (\<lambda>es. bnd (socket_from_raw p) (\<lambda>r. case r of
       Inl e \<Rightarrow> set_error e
     | Inr _ \<Rightarrow> change_entries poller (entries_remove (is_socket_entry p) es)))"

definition zmq_poller_add_fd :: "ptr \<Rightarrow> i32 \<Rightarrow> ptr \<Rightarrow> int \<Rightarrow> ('w, i32) c_fun" where
  "zmq_poller_add_fd poller fd user_data ev =
     with_poller poller (\<lambda>es. case validate_poller_events ev of
       Inl e \<Rightarrow> set_error e
     | Inr _ \<Rightarrow> change_entries poller (entries_add_fd fd user_data ev es))"

definition zmq_poller_modify_fd :: "ptr \<Rightarrow> i32 \<Rightarrow> int \<Rightarrow> ('w, i32) c_fun" where
  "zmq_poller_modify_fd poller fd ev =
     with_poller poller (\<lambda>es. case validate_poller_events ev of
       Inl e \<Rightarrow> set_error e
     | Inr _ \<Rightarrow> change_entries poller (entries_modify (is_fd_entry fd) ev es))"

definition zmq_poller_remove_fd :: "ptr \<Rightarrow> i32 \<Rightarrow> ('w, i32) c_fun" where
  "zmq_poller_remove_fd poller fd = with_poller poller (\<lambda>es. change_entries poller (entries_remove (is_fd_entry fd) es))"

definition zmq_poller_fd :: "ptr \<Rightarrow> ptr \<Rightarrow> ('w, i32) c_fun" where
  "zmq_poller_fd poller fd =
     (if fd = 0 then set_error InvalidArgument
      else with_poller poller (\<lambda>_. bnd (c_store fd (to_ne_int 4 invalid_zmq_fd)) (\<lambda>_. finish (Inr 0))))"

text \<open>The events of the entries that are ready, in the order of the entries.\<close>

record poller_event =
  ev_socket :: ptr
  ev_fd :: i32
  ev_user_data :: ptr
  ev_events :: int

fun ready_events :: "poller_entry list \<Rightarrow> ('w, poller_event list) c_fun" where
  "ready_events [] = ret []"
| "ready_events (e # es) =
     bnd (if pe_is_fd e then ret (Inr 0) else socket_revents (pe_socket e) (pe_events e)) (\<lambda>r.
       let revents = (case r of Inl _ \<Rightarrow> 0 | Inr v \<Rightarrow> v)
       in bnd (ready_events es) (\<lambda>evs.
          ret (if revents \<noteq> 0
               then \<lparr>ev_socket = pe_socket e, ev_fd = pe_fd e, ev_user_data = pe_user_data e, ev_events = revents\<rparr> # evs
               else evs)))"

text \<open>An event record is 32 bytes with padding after the descriptor and at the end.\<close>

definition store_event :: "ptr \<Rightarrow> poller_event \<Rightarrow> ('w, unit) c_fun" where
  "store_event p ev =
     bnd (c_store p (to_ne 8 (ev_socket ev))) (\<lambda>_. bnd (c_store (p + 8) (to_ne_int 4 (ev_fd ev))) (\<lambda>_.
     bnd (c_store (p + 16) (to_ne 8 (ev_user_data ev))) (\<lambda>_. c_store (p + 24) (to_ne_int 2 (ev_events ev)))))"

definition zmq_poller_wait_all :: "ptr \<Rightarrow> ptr \<Rightarrow> i32 \<Rightarrow> int \<Rightarrow> ('w, i32) c_fun" where
  "zmq_poller_wait_all poller evs n_events timeout =
     (if evs = 0 \<and> n_events \<noteq> 0 then set_error InvalidContext
      else if n_events < 0 then set_error InvalidArgument
      else with_poller poller (\<lambda>es. bnd (ready_events es) (\<lambda>ready.
        bnd (if ready = [] \<and> timeout > 0 then sleep_millis timeout else ret ()) (\<lambda>_.
          let count = min (length ready) (nat n_events)
          in if count = 0 then set_error Again
             else bnd (for_each [0..<count] (\<lambda>i. store_event (evs + 32 * i) (ready ! i))) (\<lambda>_.
                  finish (Inr (int count)))))))"

definition zmq_poller_wait :: "ptr \<Rightarrow> ptr \<Rightarrow> int \<Rightarrow> ('w, i32) c_fun" where
  "zmq_poller_wait poller event timeout =
     bnd (zmq_poller_wait_all poller event 1 timeout) (\<lambda>result.
       if result < 0 then
         bnd (if event = 0 then ret ()
              else store_event event \<lparr>ev_socket = 0, ev_fd = invalid_zmq_fd, ev_user_data = 0, ev_events = 0\<rparr>) (\<lambda>_. ret result)
       else ret 0)"


section \<open>Peers and proxies\<close>

definition parse_peer_state_routing_id :: "ptr \<Rightarrow> nat \<Rightarrow> ('w, u32 option) c_fun" where
  "parse_peer_state_routing_id p n =
     (if p = 0 \<or> n = 0 then ret None
      else bnd (c_load p n) (\<lambda>bs. ret (
        if list_all is_digit bs then
          (case parse_uint 4294967295 bs of
             Some v \<Rightarrow> if v \<noteq> 0 then Some (word_of_nat v) else None
           | None \<Rightarrow> None)
        else if n = 4 \<and> from_ne bs \<noteq> 0 then Some (word_of_nat (from_ne bs))
        else None)))"

definition zmq_socket_get_peer_state :: "ptr \<Rightarrow> ptr \<Rightarrow> nat \<Rightarrow> ('w, i32) c_fun" where
  "zmq_socket_get_peer_state p routing_id n =
     with_socket p (\<lambda>i k. bnd (on_world i (\<lambda>w. (peer_state k 0 w, w))) (\<lambda>r0.
       if r0 = Inl NotSupported then set_error NotSupported
       else if routing_id = 0 \<and> n \<noteq> 0 then set_error InvalidArgument
       else bnd (parse_peer_state_routing_id routing_id n) (\<lambda>parsed. case parsed of
         None \<Rightarrow> set_error HostUnreachable
       | Some rid \<Rightarrow> bnd (on_world i (\<lambda>w. (peer_state k rid w, w))) finish)))"

text \<open>One message from the front to the back, and a copy to the capture socket when there is one.\<close>

definition zmq_proxy :: "'w wires \<Rightarrow> ptr \<Rightarrow> ptr \<Rightarrow> ptr \<Rightarrow> ('w, i32) c_fun" where
  "zmq_proxy W frontend backend capture =
     with_socket frontend (\<lambda>i k. with_socket backend (\<lambda>j b.
       bnd (on_world i (recv W k ZMQ_DONTWAIT)) (\<lambda>r. case r of
         Inl _ \<Rightarrow> finish (Inr 0)
       | Inr m \<Rightarrow>
           bnd (on_world j (send W b m 0)) (\<lambda>r2. case r2 of
             Inl e \<Rightarrow> set_error e
           | Inr _ \<Rightarrow>
               if capture = 0 then finish (Inr 0)
               else bnd (socket_from_raw capture) (\<lambda>c. case c of
                 Inl _ \<Rightarrow> finish (Inr 0)
               | Inr (l, c) \<Rightarrow> bnd (on_world l (send W c m 0)) (\<lambda>_. finish (Inr 0)))))))"

definition zmq_proxy_steerable :: "'w wires \<Rightarrow> ptr \<Rightarrow> ptr \<Rightarrow> ptr \<Rightarrow> ptr \<Rightarrow> ('w, i32) c_fun" where
  "zmq_proxy_steerable W frontend backend capture control = zmq_proxy W frontend backend capture"

definition zmq_device :: "'w wires \<Rightarrow> i32 \<Rightarrow> ptr \<Rightarrow> ptr \<Rightarrow> ('w, i32) c_fun" where
  "zmq_device W type_number frontend backend = zmq_proxy W frontend backend 0"

end
