(* ===== verification/Ffi_Timers.thy ===== *)
theory Ffi_Timers
  imports Ffi_Poll
begin

text \<open>
  Counters, timers, stopwatches and threads of the C interface. A call of a timer handler is recorded in
  \<open>c_handler_calls\<close> with its identifier and argument, the start of a thread in \<open>c_thread_calls\<close>; the
  foreign code itself is outside of the model, as is its calling back into the timers it is called from.
\<close>

section \<open>Counters\<close>

text \<open>Atomic additions wrap around.\<close>

definition wrap_i32 :: "int \<Rightarrow> i32" where
  "wrap_i32 v = (v + 2 ^ 31) mod 2 ^ 32 - 2 ^ 31"

definition zmq_atomic_counter_new :: "('w, ptr) c_fun" where
  "zmq_atomic_counter_new =
     bnd clear_errno (\<lambda>_. bnd fresh_ptr (\<lambda>p.
     bnd (modify (\<lambda>s. s\<lparr>c_counters := (c_counters s)(p \<mapsto> 0)\<rparr>)) (\<lambda>_. ret p)))"

definition update_counter :: "ptr \<Rightarrow> (i32 \<Rightarrow> i32) \<Rightarrow> ('w, i32) c_fun" where
  "update_counter p f =
     bnd (deref c_counters p) (\<lambda>v. bnd (modify (\<lambda>s. s\<lparr>c_counters := (c_counters s)(p \<mapsto> f v)\<rparr>)) (\<lambda>_. ret v))"

definition zmq_atomic_counter_set :: "ptr \<Rightarrow> i32 \<Rightarrow> ('w, unit) c_fun" where
  "zmq_atomic_counter_set p v =
     (if p = 0 then set_errno EINVAL else bnd (update_counter p (\<lambda>_. v)) (\<lambda>_. clear_errno))"

definition zmq_atomic_counter_inc :: "ptr \<Rightarrow> ('w, i32) c_fun" where
  "zmq_atomic_counter_inc p =
     (if p = 0 then set_error InvalidArgument
      else bnd (update_counter p (\<lambda>v. wrap_i32 (v + 1))) (\<lambda>v. finish (Inr v)))"

definition zmq_atomic_counter_dec :: "ptr \<Rightarrow> ('w, i32) c_fun" where
  "zmq_atomic_counter_dec p =
     (if p = 0 then set_error InvalidArgument
      else bnd (update_counter p (\<lambda>v. wrap_i32 (v - 1))) (\<lambda>v. finish (Inr v)))"

definition zmq_atomic_counter_value :: "ptr \<Rightarrow> ('w, i32) c_fun" where
  "zmq_atomic_counter_value p =
     (if p = 0 then set_error InvalidArgument else bnd (deref c_counters p) (\<lambda>v. finish (Inr v)))"

text \<open>Destroying through the pointer the caller holds, which becomes null.\<close>

definition destroy_held :: "ptr \<Rightarrow> (ptr \<Rightarrow> ('w, unit) c_fun) \<Rightarrow> ('w, unit) c_fun" where
  "destroy_held holder drop_object =
     bnd (c_load holder 8) (\<lambda>bs.
       if from_ne bs = 0 then ret ()
       else bnd (drop_object (from_ne bs)) (\<lambda>_. c_store holder (to_ne 8 0)))"

definition zmq_atomic_counter_destroy :: "ptr \<Rightarrow> ('w, unit) c_fun" where
  "zmq_atomic_counter_destroy holder =
     (if holder = 0 then set_errno EINVAL
      else bnd (destroy_held holder (\<lambda>p. bnd (deref c_counters p) (\<lambda>_.
                  modify (\<lambda>s. s\<lparr>c_counters := (c_counters s)(p := None)\<rparr>)))) (\<lambda>_. clear_errno))"


section \<open>Timers\<close>

definition timers_from_raw :: "ptr \<Rightarrow> ('w, error + opaque_timers) c_fun" where
  "timers_from_raw = from_raw InvalidArgument c_timers"

definition set_timers :: "ptr \<Rightarrow> opaque_timers \<Rightarrow> ('w, unit) c_fun" where
  "set_timers p ts = modify (\<lambda>s. s\<lparr>c_timers := (c_timers s)(p \<mapsto> ts)\<rparr>)"

definition with_timers :: "ptr \<Rightarrow> (opaque_timers \<Rightarrow> ('w, i32) c_fun) \<Rightarrow> ('w, i32) c_fun" where
  "with_timers p f = bnd (timers_from_raw p) (\<lambda>r. case r of Inl e \<Rightarrow> set_error e | Inr ts \<Rightarrow> f ts)"

definition zmq_timers_new :: "('w, ptr) c_fun" where
  "zmq_timers_new =
     bnd clear_errno (\<lambda>_. bnd fresh_ptr (\<lambda>p.
     bnd (set_timers p \<lparr>tm_next_id = 1, tm_timers = []\<rparr>) (\<lambda>_. ret p)))"

definition zmq_timers_destroy :: "ptr \<Rightarrow> ('w, i32) c_fun" where
  "zmq_timers_destroy holder =
     (if holder = 0 then set_error InvalidArgument
      else bnd (destroy_held holder (\<lambda>p. bnd (deref c_timers p) (\<lambda>_.
                  modify (\<lambda>s. s\<lparr>c_timers := (c_timers s)(p := None)\<rparr>)))) (\<lambda>_. finish (Inr 0)))"

text \<open>
  An interval of milliseconds in nanoseconds. The identifier is an \<open>i32\<close> increased by one; a build with
  overflow checks aborts at the last one, a release build wraps around, as here.
\<close>

definition millis :: "nat \<Rightarrow> nat" where
  "millis n = n * 1000000"

definition timers_add :: "nat \<Rightarrow> nat \<Rightarrow> ptr option \<Rightarrow> ptr \<Rightarrow> opaque_timers \<Rightarrow> opaque_timers" where
  "timers_add now interval handler arg ts =
     \<lparr>tm_next_id = wrap_i32 (tm_next_id ts + 1),
      tm_timers = tm_timers ts @ [\<lparr>te_id = tm_next_id ts, te_interval = millis interval,
        te_deadline = now + millis interval, te_handler = handler, te_arg = arg, te_active = True\<rparr>]\<rparr>"

definition zmq_timers_add :: "ptr \<Rightarrow> nat \<Rightarrow> ptr option \<Rightarrow> ptr \<Rightarrow> ('w, i32) c_fun" where
  "zmq_timers_add p interval handler arg =
     with_timers p (\<lambda>ts. bnd (gets c_now) (\<lambda>now.
       bnd (set_timers p (timers_add now interval handler arg ts)) (\<lambda>_. finish (Inr (tm_next_id ts)))))"

text \<open>The first timer with the identifier is changed.\<close>

fun change_timer :: "i32 \<Rightarrow> (timer_entry \<Rightarrow> timer_entry) \<Rightarrow> timer_entry list \<Rightarrow> timer_entry list option" where
  "change_timer i f [] = None"
| "change_timer i f (t # ts) = (if te_id t = i then Some (f t # ts) else map_option ((#) t) (change_timer i f ts))"

definition change_timers :: "ptr \<Rightarrow> i32 \<Rightarrow> (nat \<Rightarrow> timer_entry \<Rightarrow> timer_entry) \<Rightarrow> ('w, i32) c_fun" where
  "change_timers p i f =
     with_timers p (\<lambda>ts. bnd (gets c_now) (\<lambda>now.
       case change_timer i (f now) (tm_timers ts) of
         None \<Rightarrow> set_error InvalidArgument
       | Some l \<Rightarrow> bnd (set_timers p (ts\<lparr>tm_timers := l\<rparr>)) (\<lambda>_. finish (Inr 0))))"

definition zmq_timers_cancel :: "ptr \<Rightarrow> i32 \<Rightarrow> ('w, i32) c_fun" where
  "zmq_timers_cancel p i = change_timers p i (\<lambda>_ t. t\<lparr>te_active := False\<rparr>)"

definition zmq_timers_set_interval :: "ptr \<Rightarrow> i32 \<Rightarrow> nat \<Rightarrow> ('w, i32) c_fun" where
  "zmq_timers_set_interval p i interval = change_timers p i (\<lambda>_ t. t\<lparr>te_interval := millis interval\<rparr>)"

definition zmq_timers_reset :: "ptr \<Rightarrow> i32 \<Rightarrow> ('w, i32) c_fun" where
  "zmq_timers_reset p i = change_timers p i (\<lambda>now t. t\<lparr>te_deadline := now + te_interval t, te_active := True\<rparr>)"

definition next_deadline :: "timer_entry list \<Rightarrow> nat option" where
  "next_deadline ts =
     (case map te_deadline (filter te_active ts) of [] \<Rightarrow> None | d # ds \<Rightarrow> Some (fold min ds d))"

text \<open>\<open>as isize\<close> keeps the low 64 bits of the milliseconds and reads them as a signed number.\<close>

definition as_isize :: "nat \<Rightarrow> int" where
  "as_isize n = (int n + 2 ^ 63) mod 2 ^ 64 - 2 ^ 63"

definition zmq_timers_timeout :: "ptr \<Rightarrow> ('w, int) c_fun" where
  "zmq_timers_timeout p =
     with_timers p (\<lambda>ts. bnd (gets c_now) (\<lambda>now.
       case next_deadline (tm_timers ts) of
         None \<Rightarrow> bnd clear_errno (\<lambda>_. ret (- 1))
       | Some d \<Rightarrow> finish (Inr (as_isize ((d - now) div 1000000)))))"

definition timer_due :: "nat \<Rightarrow> timer_entry \<Rightarrow> bool" where
  "timer_due now t \<longleftrightarrow> te_active t \<and> te_deadline t \<le> now"

text \<open>The loop over the timers that are due: the handler is called, then the deadline is moved.\<close>

fun execute_loop :: "nat \<Rightarrow> timer_entry list \<Rightarrow> timer_entry list \<times> (ptr \<times> i32 \<times> ptr) list \<times> nat" where
  "execute_loop now [] = ([], [], 0)"
| "execute_loop now (t # ts) =
     (case execute_loop now ts of
        (ts', calls, fired) \<Rightarrow>
          if timer_due now t
          then (t\<lparr>te_deadline := now + te_interval t\<rparr> # ts',
                (case te_handler t of None \<Rightarrow> [] | Some h \<Rightarrow> [(h, te_id t, te_arg t)]) @ calls, fired + 1)
          else (t # ts', calls, fired))"

definition zmq_timers_execute :: "ptr \<Rightarrow> ('w, i32) c_fun" where
  "zmq_timers_execute p =
     with_timers p (\<lambda>ts. bnd (gets c_now) (\<lambda>now.
       case execute_loop now (tm_timers ts) of
         (l, calls, fired) \<Rightarrow>
           bnd (modify (\<lambda>s. s\<lparr>c_handler_calls := c_handler_calls s @ calls\<rparr>)) (\<lambda>_.
           bnd (set_timers p (ts\<lparr>tm_timers := l\<rparr>)) (\<lambda>_. finish (Inr (int fired))))))"


section \<open>Stopwatches, threads and sleeping\<close>

definition zmq_stopwatch_start :: "('w, ptr) c_fun" where
  "zmq_stopwatch_start =
     bnd clear_errno (\<lambda>_. bnd fresh_ptr (\<lambda>p.
     bnd (modify (\<lambda>s. s\<lparr>c_watches := (c_watches s)(p \<mapsto> c_now s)\<rparr>)) (\<lambda>_. ret p)))"

text \<open>Microseconds since the start; \<open>as u64\<close> cuts at 64 bits.\<close>

definition elapsed_micros :: "nat \<Rightarrow> nat \<Rightarrow> u64" where
  "elapsed_micros start now = word_of_nat ((now - start) div 1000)"

definition zmq_stopwatch_intermediate :: "ptr \<Rightarrow> ('w, u64) c_fun" where
  "zmq_stopwatch_intermediate p =
     (if p = 0 then bnd (set_errno EINVAL) (\<lambda>_. ret 0)
      else bnd (deref c_watches p) (\<lambda>start. bnd (gets c_now) (\<lambda>now. finish_or 0 (Inr (elapsed_micros start now)))))"

definition zmq_stopwatch_stop :: "ptr \<Rightarrow> ('w, u64) c_fun" where
  "zmq_stopwatch_stop p =
     (if p = 0 then bnd (set_errno EINVAL) (\<lambda>_. ret 0)
      else bnd (deref c_watches p) (\<lambda>start. bnd (gets c_now) (\<lambda>now.
           bnd (modify (\<lambda>s. s\<lparr>c_watches := (c_watches s)(p := None)\<rparr>)) (\<lambda>_.
             finish_or 0 (Inr (elapsed_micros start now))))))"

definition zmq_sleep :: "i32 \<Rightarrow> ('w, unit) c_fun" where
  "zmq_sleep seconds = (if seconds > 0 then modify (\<lambda>s. s\<lparr>c_now := c_now s + nat seconds * 1000000000\<rparr>) else ret ())"

definition zmq_threadstart :: "ptr option \<Rightarrow> ptr \<Rightarrow> ('w, ptr) c_fun" where
  "zmq_threadstart func arg =
     (case func of
        None \<Rightarrow> bnd (set_errno EINVAL) (\<lambda>_. ret 0)
      | Some f \<Rightarrow>
          bnd (modify (\<lambda>s. s\<lparr>c_thread_calls := c_thread_calls s @ [(f, arg)]\<rparr>)) (\<lambda>_.
          bnd clear_errno (\<lambda>_. bnd fresh_ptr (\<lambda>p.
          bnd (modify (\<lambda>s. s\<lparr>c_threads := (c_threads s)(p \<mapsto> (f, arg))\<rparr>)) (\<lambda>_. ret p)))))"

text \<open>Closing waits for the thread to end.\<close>

definition zmq_threadclose :: "ptr \<Rightarrow> ('w, unit) c_fun" where
  "zmq_threadclose p =
     (if p = 0 then set_errno EINVAL
      else bnd (deref c_threads p) (\<lambda>_.
           bnd (modify (\<lambda>s. s\<lparr>c_threads := (c_threads s)(p := None)\<rparr>)) (\<lambda>_. clear_errno)))"

end
