(* ===== verification/Ffi_Errno.thy ===== *)
theory Ffi_Errno
  imports Ffi_Timers
begin

text \<open>
  The convention of the C interface for results and the error number, for every function that returns an
  \<open>int\<close>, but for \<open>zmq_errno\<close> and \<open>zmq_has\<close>, which leave the number alone: after a call that returns, the error
  number is 0, or it is the number of an error and the result is \<open>-1\<close>; the functions with no value to
  return give 0 or \<open>-1\<close>, and the functions that count give \<open>-1\<close> only with an error.
\<close>

section \<open>How a call ends\<close>

definition ends :: "('a \<Rightarrow> i32 \<Rightarrow> bool) \<Rightarrow> ('w, 'a) c_fun \<Rightarrow> bool" where
  "ends P m \<longleftrightarrow> (\<forall>s r s'. m s = (Inr r, s') \<longrightarrow> P r (c_errno s'))"

named_theorems ends_intros

lemma endsD: "ends P m \<Longrightarrow> m s = (Inr r, s') \<Longrightarrow> P r (c_errno s')"
  by (simp add: ends_def)

lemma ends_bnd [ends_intros]: "(\<And>x. ends P (f x)) \<Longrightarrow> ends P (bnd m f)" for m :: "('w, 'b) c_fun"
  by (fastforce simp: ends_def bnd_apply split: prod.splits sum.splits)

text \<open>The same when something is known of every result of the first part.\<close>

definition gives :: "('a \<Rightarrow> bool) \<Rightarrow> ('w, 'a) c_fun \<Rightarrow> bool" where
  "gives Q m \<longleftrightarrow> (\<forall>s r s'. m s = (Inr r, s') \<longrightarrow> Q r)"

lemma bnd_returns: "bnd m f s = (Inr r, s') \<longleftrightarrow> (\<exists>x s1. m s = (Inr x, s1) \<and> f x s1 = (Inr r, s'))"
  by (cases "m s") (auto simp: bnd_apply split: sum.split)

lemma ends_after: "gives Q m \<Longrightarrow> (\<And>x. Q x \<Longrightarrow> ends P (f x)) \<Longrightarrow> ends P (bnd m f)"
  unfolding ends_def gives_def bnd_returns by blast

lemma gives_ret: "gives Q (ret x) \<longleftrightarrow> Q x"
  by (simp add: gives_def)

lemma gives_bnd: "(\<And>x. gives Q (f x)) \<Longrightarrow> gives Q (bnd m f)"
  unfolding gives_def bnd_returns by blast

lemma ends_on_world: "(\<And>w r w'. f w = (r, w') \<Longrightarrow> ends P (g r)) \<Longrightarrow> ends P (bnd (on_world i f) g)"
  by (simp add: ends_def on_world_def bnd_apply split: prod.splits)

lemma ends_throw [ends_intros]: "ends P (throw e)"
  by (simp add: ends_def)

lemma ends_cases [ends_intros]:
  "(b \<Longrightarrow> ends P m1) \<Longrightarrow> (\<not> b \<Longrightarrow> ends P m2) \<Longrightarrow> ends P (if b then m1 else m2)"
  "(\<And>x. ends P (f1 x)) \<Longrightarrow> (\<And>y. ends P (f2 y)) \<Longrightarrow> ends P (case r of Inl x \<Rightarrow> f1 x | Inr y \<Rightarrow> f2 y)"
  "ends P m1 \<Longrightarrow> (\<And>y. ends P (f2 y)) \<Longrightarrow> ends P (case v of None \<Rightarrow> m1 | Some y \<Rightarrow> f2 y)"
  "(\<And>x y. ends P (g x y)) \<Longrightarrow> ends P (case q of (x, y) \<Rightarrow> g x y)"
  by (auto split: sum.splits option.splits prod.splits)

lemma ends_Let [ends_intros]: "(\<And>x. ends P (f x)) \<Longrightarrow> ends P (let x = v in f x)"
  by simp

locale c_convention =
  fixes P :: "i32 \<Rightarrow> i32 \<Rightarrow> bool"
  assumes failed: "P (- 1) (errno e)" and succeeded: "P 0 0"
begin

lemma set_error: "ends P (set_error e)"
  by (simp add: ends_def set_error_def set_errno_def bnd_apply failed)

lemma finish_value: "(\<And>v. r = Inr v \<Longrightarrow> P v 0) \<Longrightarrow> ends P (finish r)"
  by (cases r) (auto simp: finish_def ends_def set_error_def clear_errno_def set_errno_def bnd_apply failed)

lemma finish_0: "ends P (finish (Inr 0))"
  by (rule finish_value) (simp add: succeeded)

lemma finish_unit: "ends P (finish (map_ok (\<lambda>_. 0) r))"
  by (rule finish_value) (cases r; simp add: succeeded)

lemmas basic = ends_intros set_error finish_0 finish_unit

lemma with_socket: "(\<And>i k. ends P (f i k)) \<Longrightarrow> ends P (with_socket p f)"
  unfolding with_socket_def by (intro basic)

lemma socket_call: "ends P (socket_call p f)"
  unfolding socket_call_def by (intro with_socket basic)

lemma endpoint_call: "ends P (endpoint_call f p q)"
  unfolding endpoint_call_def by (intro with_socket basic)

lemma context_call:
  assumes "\<And>w w' v. f w = (Inr v, w') \<Longrightarrow> P v 0"
  shows "ends P (context_call ctx f)"
proof -
  have "ends P (bnd (on_world i f) finish)" for i
  proof (rule ends_on_world)
    fix w r w'
    assume "f w = (r, w')"
    then show "ends P (finish r)"
      by (intro finish_value) (auto intro: assms)
  qed
  then show ?thesis
    unfolding context_call_def by - (rule ends_bnd, rule ends_cases(2), rule set_error)
qed

lemma with_message: "(\<And>p inner. ends P (f p inner)) \<Longrightarrow> ends P (with_message msg f)"
  unfolding with_message_def by (intro basic)

lemma with_poller: "(\<And>es. ends P (f es)) \<Longrightarrow> ends P (with_poller poller f)"
  unfolding with_poller_def by (intro basic)

lemma with_timers: "(\<And>ts. ends P (f ts)) \<Longrightarrow> ends P (with_timers p f)"
  unfolding with_timers_def by (intro basic)

lemma init_message: "ends P (init_message msg inner)"
  unfolding init_message_def by (intro basic)

lemma give_bytes: "ends P (give_bytes p q v)"
  unfolding give_bytes_def by (intro basic)

lemma set_fixed: "ends P (set_fixed i p n k f)"
  unfolding set_fixed_def by (intro basic)

lemma get_fixed: "ends P (get_fixed i p q f)"
  unfolding get_fixed_def by (intro basic give_bytes)

lemma change_entries: "ends P (change_entries poller r)"
  unfolding change_entries_def set_entries_def by (intro basic)

lemma change_timers: "ends P (change_timers p i f)"
  unfolding change_timers_def by (intro with_timers basic)

lemmas rules = with_socket socket_call endpoint_call with_message with_poller with_timers init_message give_bytes
  set_fixed get_fixed change_entries change_timers basic

end

definition status_or_error :: "i32 \<Rightarrow> i32 \<Rightarrow> bool" where
  "status_or_error r n \<longleftrightarrow> (r = 0 \<and> n = 0) \<or> (r = - 1 \<and> (\<exists>e. n = errno e))"

definition value_or_error :: "i32 \<Rightarrow> i32 \<Rightarrow> bool" where
  "value_or_error r n \<longleftrightarrow> n = 0 \<or> (r = - 1 \<and> (\<exists>e. n = errno e))"

definition count_or_error :: "i32 \<Rightarrow> i32 \<Rightarrow> bool" where
  "count_or_error r n \<longleftrightarrow> (0 \<le> r \<and> n = 0) \<or> (r = - 1 \<and> (\<exists>e. n = errno e))"

interpretation status: c_convention status_or_error
  by unfold_locales (auto simp: status_or_error_def)

interpretation cnt: c_convention count_or_error
  by unfold_locales (auto simp: count_or_error_def)

interpretation val: c_convention value_or_error
  by unfold_locales (auto simp: value_or_error_def)

lemma value_finish: "ends value_or_error (finish r)"
  by (rule val.finish_value) (simp add: value_or_error_def)

lemma count_finish: "0 \<le> v \<Longrightarrow> ends count_or_error (finish (Inr v))"
  by (rule cnt.finish_value) (auto simp: count_or_error_def)

lemma count_finish_result: "(\<And>v. r = Inr v \<Longrightarrow> 0 \<le> v) \<Longrightarrow> ends count_or_error (finish r)"
  by (rule cnt.finish_value) (auto simp: count_or_error_def)

lemma as_i32_nonneg: "n < 2 ^ 31 \<Longrightarrow> 0 \<le> as_i32 n"
  by (simp add: as_i32_def)

text \<open>A send that succeeds returns the length of the message.\<close>

lemma send_resolved_length: "fst (send_resolved s m n qs w) = Inr l \<Longrightarrow> l = n"
  by (auto simp: send_resolved_def Let_def bnd_apply split: if_splits sum.splits)

lemma send_transport_length: "fst (send_transport W s m n w) = Inr l \<Longrightarrow> l = n"
  using send_resolved_length
  by (fastforce simp: send_transport_def send_slow_def bnd_apply split: option.splits sum.splits)

lemma send_length: "fst (send W s m flags w) = Inr l \<Longrightarrow> l = message_len m"
  using send_transport_length
  by (fastforce simp: send_def Let_def bnd_apply split: if_splits sum.splits prod.splits bool.splits option.splits)

lemma slice_arg_length: "gives (\<lambda>r. \<forall>bs. r = Inr bs \<longrightarrow> length bs = n) (slice_arg p n)"
  by (auto simp: gives_def slice_arg_def bnd_apply c_load_def mem_load_Some_iff split: if_splits option.splits)

lemma send_gives: "gives (\<lambda>r. \<forall>l. r = Inr l \<longrightarrow> l = message_len m) (on_world i (send W k m flags))"
  using send_length [of W k m flags] by (auto simp: gives_def on_world_def split: prod.splits) (metis fst_conv)

lemma zmq_send_counts:
  assumes "len < 2 ^ 31"
  shows "ends count_or_error (zmq_send W p q len v)"
proof -
  have step: "ends count_or_error (bnd (on_world i (send W k (message_from_slice bs) v)) (\<lambda>r. finish (map_ok as_i32 r)))"
    if "length bs = len" for i k bs
  proof (rule ends_after [OF send_gives])
    fix r :: "error + nat"
    assume "\<forall>l. r = Inr l \<longrightarrow> l = message_len (message_from_slice bs)"
    then show "ends count_or_error (finish (map_ok as_i32 r))"
      using that assms as_i32_nonneg [of len]
      by (intro count_finish_result) (cases r; auto simp: message_len_def)
  qed
  show ?thesis
    unfolding zmq_send_def
    by (rule cnt.with_socket, rule ends_after [OF slice_arg_length]) (auto intro!: cnt.set_error step split: sum.split)
qed

text \<open>Polling counts up from 0.\<close>

lemma poll_loop_counts: "0 \<le> n \<Longrightarrow> gives (\<lambda>r. \<forall>v. r = Inr v \<longrightarrow> 0 \<le> v) (poll_loop ps n :: ('w, _) c_fun)"
proof (induction ps arbitrary: n)
  case (Cons p ps)
  have "gives (\<lambda>r. \<forall>v. r = Inr v \<longrightarrow> 0 \<le> v) (poll_loop ps (n + 1) :: ('w, _) c_fun)"
    using Cons.prems by (intro Cons.IH) simp
  then show ?case
    using Cons.IH [OF Cons.prems] by (auto intro!: gives_bnd simp: gives_ret split: sum.split)
qed (simp add: gives_ret)

lemma zmq_poll_counts: "ends count_or_error (zmq_poll p v timeout)"
proof -
  have "ends count_or_error (bnd (poll_loop ps 0) (\<lambda>r. case r of
        Inl e \<Rightarrow> set_error e
      | Inr ready \<Rightarrow> bnd (if ready = 0 \<and> timeout > 0 then sleep_millis timeout else ret ()) (\<lambda>_. finish (Inr ready))))" for ps
    by (rule ends_after [OF poll_loop_counts]) (auto intro!: ends_bnd count_finish cnt.set_error split: sum.split)
  moreover have "ends count_or_error (bnd m (\<lambda>_. finish (Inr 0)))" for m :: "('a, unit) c_fun"
    by (intro ends_bnd cnt.finish_0)
  ultimately show ?thesis
    unfolding zmq_poll_def by (intro ends_cases(1) cnt.set_error)
qed

lemma zmq_poller_wait_all_counts: "ends count_or_error (zmq_poller_wait_all p q v timeout)"
  unfolding zmq_poller_wait_all_def Let_def
  by (intro cnt.rules count_finish) simp_all

lemma zmq_timers_execute_counts: "ends count_or_error (zmq_timers_execute p)"
  unfolding zmq_timers_execute_def by (intro cnt.rules count_finish) simp

lemma zmq_socket_get_peer_state_counts: "ends count_or_error (zmq_socket_get_peer_state p q n)"
proof -
  have "ends count_or_error (bnd (on_world i (\<lambda>w. (peer_state k rid w, w))) finish)" for i k rid
    by (rule ends_on_world, rule count_finish_result)
      (auto simp: peer_state_def Let_def split: if_splits option.splits)
  then have "ends count_or_error (if b then set_error NotSupported else if c then set_error InvalidArgument
      else bnd (parse_peer_state_routing_id q n) (\<lambda>parsed. case parsed of
         None \<Rightarrow> set_error HostUnreachable
       | Some rid \<Rightarrow> bnd (on_world i (\<lambda>w. (peer_state k rid w, w))) finish))" for b c i k
    by (auto intro!: cnt.set_error ends_bnd [where f = "case_option (set_error HostUnreachable) _"] split: option.split)
  then show ?thesis
    unfolding zmq_socket_get_peer_state_def
    by (intro cnt.with_socket ends_bnd [where f = "\<lambda>r0. if r0 = Inl NotSupported then _ else _ r0"])
qed

text \<open>\<open>zmq_poller_wait\<close> turns the count of one event into 0 and blanks the record of the caller after an error.\<close>

lemma store_event_errno: "store_event p ev s = (Inr r, s') \<Longrightarrow> c_errno s' = c_errno s"
  by (auto simp: store_event_def c_store_def bnd_apply split: option.splits prod.splits sum.splits)

lemma zmq_poller_wait_status: "ends status_or_error (zmq_poller_wait p q timeout)"
  unfolding ends_def
proof (intro allI impI)
  fix s r and s' :: "'a ffi"
  assume a: "zmq_poller_wait p q timeout s = (Inr r, s')"
  then obtain r1 s1 where 1: "zmq_poller_wait_all p q 1 timeout s = (Inr r1, s1)"
    by (auto simp: zmq_poller_wait_def bnd_returns)
  have "count_or_error r1 (c_errno s1)"
    by (rule endsD [OF zmq_poller_wait_all_counts 1])
  then show "status_or_error r (c_errno s')"
    using a 1 by (auto simp: zmq_poller_wait_def bnd_returns status_or_error_def count_or_error_def store_event_errno split: if_splits)
qed

text \<open>Calls that only answer a question.\<close>

definition answers :: "(i32 \<Rightarrow> 'w ffi \<Rightarrow> bool) \<Rightarrow> ('w, i32) c_fun \<Rightarrow> bool" where
  "answers Q m \<longleftrightarrow> (\<forall>s. snd (m s) = s \<and> (\<forall>r. fst (m s) = Inr r \<longrightarrow> Q r s))"

lemma sendiov_ends: "ends value_or_error (sendiov_loop W i k iov n flags xs rc)"
  by (induction xs arbitrary: rc) (auto intro!: val.rules value_finish)

lemma recviov_ends: "ends value_or_error (recviov_loop M W i k iov n flags xs c)"
  by (induction xs arbitrary: c) (auto intro!: val.rules value_finish)


section \<open>Every function\<close>

lemma all_nil: "list_all P []"
  by simp

lemma status_contexts:
  "list_all (ends status_or_error)
     [zmq_ctx_term p, zmq_term p, zmq_ctx_destroy p, zmq_ctx_shutdown p, zmq_ctx_set p opt v, zmq_ctx_set_ext p opt q n,
      zmq_ctx_get_ext p opt q l]"
proof -
  have "v = 0" if "on_ctx_options f w = (Inr v, w')" for f v and w w' :: "'w world"
    using that by (auto simp: on_ctx_options_def map_ok_def split: prod.splits sum.splits)
  then have o: "ends status_or_error (context_call p (on_ctx_options f) :: ('w, i32) c_fun)" for p f
    by (intro status.context_call) (auto simp: status_or_error_def)
  have s: "ends status_or_error (context_call p (bnd (modify shutdown) (\<lambda>_. ret 0)) :: ('w, i32) c_fun)"
    by (intro status.context_call) (auto simp: status_or_error_def bnd_apply)
  show ?thesis
    unfolding zmq_term_def zmq_ctx_destroy_def zmq_ctx_term_def zmq_ctx_shutdown_def zmq_ctx_set_def zmq_ctx_set_ext_def
      zmq_ctx_get_ext_def list.pred_inject
    by (intro conjI all_nil o s status.rules)
qed

lemma status_sockets:
  "list_all (ends status_or_error)
     [zmq_close p, zmq_bind W p q, zmq_connect W p q, zmq_unbind W p q, zmq_disconnect W p q, zmq_disconnect_peer p rid,
      zmq_join p q, zmq_leave p q, zmq_socket_monitor p q v, zmq_socket_monitor_versioned p q mask_events v v',
      zmq_socket_monitor_pipes_stats W p, zmq_setsockopt p opt q n, zmq_getsockopt p opt q l,
      zmq_curve_keypair mul_base rnd p q, zmq_curve_public mul_base p q]"
  unfolding zmq_close_def zmq_bind_def zmq_connect_def zmq_unbind_def zmq_disconnect_def zmq_disconnect_peer_def zmq_join_def
    zmq_leave_def zmq_socket_monitor_def zmq_socket_monitor_versioned_def zmq_socket_monitor_pipes_stats_def
    zmq_setsockopt_def zmq_getsockopt_def zmq_curve_keypair_def zmq_curve_public_def list.pred_inject
  by (intro conjI all_nil status.rules)

lemma status_messages:
  "list_all (ends status_or_error)
     [zmq_msg_init p, zmq_msg_init_size p n, zmq_msg_init_data p q n fn l, zmq_msg_init_buffer p q n, zmq_msg_close p,
      zmq_msg_move p q, zmq_msg_copy p q, zmq_msg_set p opt v, zmq_msg_set_routing_id p rid, zmq_msg_set_group p q]"
  unfolding zmq_msg_init_def zmq_msg_init_size_def zmq_msg_init_data_def zmq_msg_init_buffer_def zmq_msg_close_def
    zmq_msg_move_def zmq_msg_copy_def zmq_msg_set_def zmq_msg_set_routing_id_def zmq_msg_set_group_def list.pred_inject
  by (intro conjI all_nil status.rules)

lemma status_others:
  "list_all (ends status_or_error)
     [zmq_poller_destroy p, zmq_poller_add p q l v, zmq_poller_modify p q v, zmq_poller_remove p q,
      zmq_poller_add_fd p v l v', zmq_poller_modify_fd p v v', zmq_poller_remove_fd p v, zmq_poller_fd p q,
      zmq_poller_wait p q timeout, zmq_proxy W p q l, zmq_proxy_steerable W p q l l', zmq_device W v p q,
      zmq_timers_destroy p, zmq_timers_cancel p v, zmq_timers_set_interval p v n, zmq_timers_reset p v]"
  unfolding zmq_poller_destroy_def zmq_poller_add_def zmq_poller_modify_def zmq_poller_remove_def zmq_poller_add_fd_def
    zmq_poller_modify_fd_def zmq_poller_remove_fd_def zmq_poller_fd_def zmq_proxy_steerable_def zmq_device_def zmq_proxy_def
    zmq_timers_destroy_def zmq_timers_cancel_def zmq_timers_set_interval_def zmq_timers_reset_def list.pred_inject
  by (intro conjI all_nil zmq_poller_wait_status status.rules)

lemma counts:
  assumes "len < 2 ^ 31"
  shows "list_all (ends count_or_error)
     [zmq_send W p q len v, zmq_send_const W p q len v, zmq_msg_more p, zmq_msg_get p opt, zmq_poll p v timeout,
      zmq_ppoll p v timeout l, zmq_poller_wait_all p q v timeout, zmq_socket_get_peer_state p q n, zmq_timers_execute p]"
proof -
  have "ends count_or_error (zmq_msg_more p)" "ends count_or_error (zmq_msg_get p opt)"
    unfolding zmq_msg_more_def zmq_msg_get_def by (intro cnt.with_message cnt.basic count_finish, simp)+
  then show ?thesis
    unfolding zmq_send_const_def zmq_ppoll_def list.pred_inject
    by (intro conjI all_nil zmq_send_counts assms zmq_poll_counts zmq_poller_wait_all_counts zmq_socket_get_peer_state_counts
        zmq_timers_execute_counts)
qed

lemma values_transfer:
  "list_all (ends value_or_error)
     [zmq_send W p q n v, zmq_send_const W p q n v, zmq_recv W p q n v, zmq_sendmsg W p q v, zmq_recvmsg W p q v,
      zmq_msg_send W p q v, zmq_msg_recv W p q v, zmq_sendiov W p q n v, zmq_recviov M W p q l v]"
  unfolding zmq_send_const_def zmq_send_def zmq_recv_def zmq_msg_send_def zmq_msg_recv_def zmq_sendmsg_def zmq_recvmsg_def
    zmq_sendiov_def zmq_recviov_def list.pred_inject
  by (intro conjI all_nil val.rules value_finish sendiov_ends recviov_ends)

lemma values_others:
  "list_all (ends value_or_error)
     [zmq_ctx_get p opt, zmq_poller_size p, zmq_atomic_counter_inc p, zmq_atomic_counter_dec p, zmq_atomic_counter_value p,
      zmq_timers_add p n fn l]"
proof -
  have c: "ends value_or_error (context_call p f)" for f :: "('w world, error, i32) comp"
    by (rule val.context_call) (simp add: value_or_error_def)
  show ?thesis
    unfolding zmq_ctx_get_def zmq_poller_size_def zmq_atomic_counter_inc_def zmq_atomic_counter_dec_def
      zmq_atomic_counter_value_def zmq_timers_add_def list.pred_inject
    by (intro conjI all_nil c val.rules value_finish)
qed

lemma questions: "answers (\<lambda>r s. r = c_errno s) zmq_errno" "answers (\<lambda>r s. r \<in> {0, 1}) (zmq_has q)"
proof -
  have "answers (\<lambda>r s. r \<in> {0, 1}) (if q = 0 then ret 0 else bnd (c_string q) (\<lambda>c. ret (of_bool (f c))))" for f
    by (auto simp: answers_def bnd_apply c_string_def split: option.split)
  then show "answers (\<lambda>r s. r \<in> {0, 1}) (zmq_has q)"
    unfolding zmq_has_def .
qed (simp add: answers_def zmq_errno_def)

text \<open>
  C10. Results and error numbers, for every function of the C interface that returns an \<open>int\<close>. The ones that only
  succeed or fail return 0 and clear the error number, or return \<open>-1\<close> and set it to the number of an error. The ones
  that count, and sends of less than 2 GB, return a number that is not negative and clear it, or return \<open>-1\<close> and set
  it to the number of an error. The others return a length, an option, a counter or an identifier cut to 32 bits,
  so that \<open>-1\<close> may be a value, and clear the error number, or return \<open>-1\<close> and set it to the number of an error. \<open>zmq_errno\<close> returns the
  number and \<open>zmq_has\<close> returns 0 or 1, and both change nothing.
\<close>

theorem results_and_errno:
  assumes "len < 2 ^ 31"
  shows "list_all (ends status_or_error)
     ([zmq_ctx_term p, zmq_term p, zmq_ctx_destroy p, zmq_ctx_shutdown p, zmq_ctx_set p opt v, zmq_ctx_set_ext p opt q n,
       zmq_ctx_get_ext p opt q l]
      @ [zmq_close p, zmq_bind W p q, zmq_connect W p q, zmq_unbind W p q, zmq_disconnect W p q, zmq_disconnect_peer p rid,
       zmq_join p q, zmq_leave p q, zmq_socket_monitor p q v, zmq_socket_monitor_versioned p q mask_events v v',
       zmq_socket_monitor_pipes_stats W p, zmq_setsockopt p opt q n, zmq_getsockopt p opt q l,
       zmq_curve_keypair mul_base rnd p q, zmq_curve_public mul_base p q]
      @ [zmq_msg_init p, zmq_msg_init_size p n, zmq_msg_init_data p q n fn l, zmq_msg_init_buffer p q n, zmq_msg_close p,
       zmq_msg_move p q, zmq_msg_copy p q, zmq_msg_set p opt v, zmq_msg_set_routing_id p rid, zmq_msg_set_group p q]
      @ [zmq_poller_destroy p, zmq_poller_add p q l v, zmq_poller_modify p q v, zmq_poller_remove p q,
       zmq_poller_add_fd p v l v', zmq_poller_modify_fd p v v', zmq_poller_remove_fd p v, zmq_poller_fd p q,
       zmq_poller_wait p q timeout, zmq_proxy W p q l, zmq_proxy_steerable W p q l l', zmq_device W v p q,
       zmq_timers_destroy p, zmq_timers_cancel p v, zmq_timers_set_interval p v n, zmq_timers_reset p v])
   \<and> list_all (ends count_or_error)
     [zmq_send W p q len v, zmq_send_const W p q len v, zmq_msg_more p, zmq_msg_get p opt, zmq_poll p v timeout,
      zmq_ppoll p v timeout l, zmq_poller_wait_all p q v timeout, zmq_socket_get_peer_state p q n, zmq_timers_execute p]
   \<and> list_all (ends value_or_error)
     ([zmq_send W p q n v, zmq_send_const W p q n v, zmq_recv W p q n v, zmq_sendmsg W p q v, zmq_recvmsg W p q v,
       zmq_msg_send W p q v, zmq_msg_recv W p q v, zmq_sendiov W p q n v, zmq_recviov M W p q l v]
      @ [zmq_ctx_get p opt, zmq_poller_size p, zmq_atomic_counter_inc p, zmq_atomic_counter_dec p, zmq_atomic_counter_value p,
       zmq_timers_add p n fn l])
   \<and> answers (\<lambda>r s. r = c_errno s) zmq_errno \<and> answers (\<lambda>r s. r \<in> {0, 1}) (zmq_has q)"
  unfolding list_all_append
  by (intro conjI status_contexts status_sockets status_messages status_others counts assms values_transfer values_others questions)

theorem results_and_errno_witness:
  "list_all (ends count_or_error) [zmq_send no_wires 1 2 5 0 :: (unit, i32) c_fun, zmq_send_const no_wires 1 2 5 0]
   \<and> ends status_or_error (zmq_poller_wait 1 2 10 :: (unit, i32) c_fun)"
proof -
  note r = results_and_errno [where len = 5 and W = "no_wires :: unit wires" and p = 1 and q = 2 and v = 0 and timeout = 10]
  have "ends count_or_error (zmq_send no_wires 1 2 5 0 :: (unit, i32) c_fun)" "ends count_or_error (zmq_send_const no_wires 1 2 5 0 :: (unit, i32) c_fun)"
    using r [THEN conjunct2, THEN conjunct1] by simp_all
  moreover have "ends status_or_error (zmq_poller_wait 1 2 10 :: (unit, i32) c_fun)"
    using r [THEN conjunct1] by simp
  ultimately show ?thesis
    by simp
qed

end
