(* ===== verification/Ffi_Buffers.thy ===== *)
theory Ffi_Buffers
  imports Ffi_Errno "HOL-Library.Multiset"
begin

text \<open>
  External buffers: a message made with \<open>zmq_msg_init_data\<close> shares the buffer of the caller with its
  copies, and the free callback of the buffer is to run once, when the last of them is gone. The proofs
  follow the references to the shared objects through the calls: those in boxed messages and those that
  a call holds in local variables.
\<close>

section \<open>References to external buffers\<close>

definition holds :: "ffi_message_inner \<Rightarrow> ref \<Rightarrow> bool" where
  "holds inner e \<longleftrightarrow> fm_storage inner = External e"

definition holders :: "'w ffi \<Rightarrow> ref \<Rightarrow> ptr set" where
  "holders s e = {p. \<exists>inner. c_messages s p = Some inner \<and> holds inner e}"

definition held_refs :: "ffi_message_inner \<Rightarrow> ref multiset" where
  "held_refs inner = (case fm_storage inner of Owned _ \<Rightarrow> {#} | External e \<Rightarrow> {#e#})"

definition callback_of :: "'w ffi \<Rightarrow> ref \<Rightarrow> (ptr \<times> ptr \<times> ptr) multiset" where
  "callback_of s e = (case c_externals s e of None \<Rightarrow> {#} | Some (ex, n) \<Rightarrow> mset (external_drop ex))"

text \<open>
  Addresses in use are below the next ones; counts are right, with \<open>L\<close> the references in local variables;
  the callbacks still owed are those of the live buffers.
\<close>

definition bounded :: "'w ffi \<Rightarrow> bool" where
  "bounded s \<longleftrightarrow> finite (dom (c_messages s)) \<and> finite (dom (c_externals s))
     \<and> (\<forall>p. c_messages s p \<noteq> None \<longrightarrow> p < c_next s) \<and> (\<forall>e. c_externals s e \<noteq> None \<longrightarrow> e < c_next_external s)"

definition right_count :: "ref multiset \<Rightarrow> 'w ffi \<Rightarrow> ref \<Rightarrow> bool" where
  "right_count L s e \<longleftrightarrow>
     (case c_externals s e of
        None \<Rightarrow> holders s e = {} \<and> count L e = 0
      | Some (ex, n) \<Rightarrow> n = card (holders s e) + count L e \<and> 0 < n)"

definition owed :: "'w ffi \<Rightarrow> (ptr \<times> ptr \<times> ptr) multiset" where
  "owed s = (\<Sum>e \<in> dom (c_externals s). callback_of s e)"

definition counted :: "ref multiset \<Rightarrow> (ptr \<times> ptr \<times> ptr) multiset \<Rightarrow> 'w ffi \<Rightarrow> bool" where
  "counted L G s \<longleftrightarrow> bounded s \<and> (\<forall>e. right_count L s e) \<and> G = mset (c_free_calls s) + owed s"

lemma countedD:
  assumes "counted L G s"
  shows "bounded s" "right_count L s e" "G = mset (c_free_calls s) + owed s"
  using assms by (auto simp: counted_def)

lemma callback_None: "c_externals s e = None \<Longrightarrow> callback_of s e = {#}"
  by (simp add: callback_of_def)

lemma owed_remove:
  assumes "finite (dom (c_externals s))"
  shows "owed s = callback_of s e + (\<Sum>x \<in> dom (c_externals s) - {e}. callback_of s x)"
proof (cases "e \<in> dom (c_externals s)")
  case True
  then show ?thesis
    using assms unfolding owed_def by (intro sum.remove)
next
  case False
  then have "dom (c_externals s) - {e} = dom (c_externals s)" "c_externals s e = None"
    by auto
  then show ?thesis
    by (simp only: owed_def callback_None add_0)
qed

lemma owed_update:
  assumes "finite (dom (c_externals s))" and s': "c_externals s' = (c_externals s)(e := v)"
  shows "owed s' = (case v of None \<Rightarrow> {#} | Some x \<Rightarrow> mset (external_drop (fst x))) + (owed s - callback_of s e)"
proof -
  have same: "callback_of s' x = callback_of s x" if "x \<noteq> e" for x
    using that by (simp add: callback_of_def s')
  have drop: "(\<Sum>x \<in> dom (c_externals s) - {e}. callback_of s x) = owed s - callback_of s e"
    using owed_remove [OF assms(1), of e] by simp
  have "(\<Sum>x \<in> dom (c_externals s) - {e}. callback_of s' x) = owed s - callback_of s e"
    unfolding drop [symmetric] by (rule sum.cong) (auto intro: same)
  moreover have "dom (c_externals s') - {e} = dom (c_externals s) - {e}" "finite (dom (c_externals s'))"
    using assms(1) by (auto simp: s' split: if_splits)
  ultimately have "owed s' = callback_of s' e + (owed s - callback_of s e)"
    using owed_remove [of s' e] by simp
  then show ?thesis
    by (cases v) (simp_all add: callback_of_def s' split: prod.split)
qed

lemma callback_owed: "finite (dom (c_externals s)) \<Longrightarrow> callback_of s e \<subseteq># owed s"
  using owed_remove [of s e] by simp

lemma finite_holders: "bounded s \<Longrightarrow> finite (holders s e)"
  by (rule finite_subset [of _ "dom (c_messages s)"]) (auto simp: holders_def bounded_def)

lemma right_count_move:
  assumes "right_count L s e" and "bounded s" "bounded s'" and "c_externals s' e = c_externals s e"
    and "card (holders s' e) + count L' e = card (holders s e) + count L e"
  shows "right_count L' s' e"
  using assms finite_holders [OF assms(2), of e] finite_holders [OF assms(3), of e]
  by (cases "c_externals s e") (auto simp: right_count_def)

text \<open>A call from states with \<open>I\<close> to states with \<open>J\<close>, when it returns.\<close>

definition goes :: "('w ffi \<Rightarrow> bool) \<Rightarrow> ('w, 'a) c_fun \<Rightarrow> ('a \<Rightarrow> 'w ffi \<Rightarrow> bool) \<Rightarrow> bool" where
  "goes I m J \<longleftrightarrow> (\<forall>s r s'. I s \<longrightarrow> m s = (Inr r, s') \<longrightarrow> J r s')"

named_theorems goes_intros

lemma bnd_laws: "bnd (ret x) f = f x" "bnd (throw e) f = throw e" "bnd (bnd m g) h = bnd m (\<lambda>x. bnd (g x) h)"
  by (auto simp: fun_eq_iff bnd_apply split: prod.splits sum.splits)

lemma goes_bnd: "goes I m J \<Longrightarrow> (\<And>x. goes (J x) (f x) K) \<Longrightarrow> goes I (bnd m f) K"
  unfolding goes_def bnd_apply by (fastforce split: sum.splits simp: prod_eq_iff)

lemma goesD: "goes I m J \<Longrightarrow> I s \<Longrightarrow> m s = (Inr r, s') \<Longrightarrow> J r s'"
  by (auto simp: goes_def)

text \<open>Calls that do not touch the objects of messages.\<close>

definition same_messages :: "'w ffi \<Rightarrow> 'w ffi \<Rightarrow> bool" where
  "same_messages s s' \<longleftrightarrow> c_messages s' = c_messages s \<and> c_externals s' = c_externals s
     \<and> c_next_external s' = c_next_external s \<and> c_free_calls s' = c_free_calls s \<and> c_next s \<le> c_next s'"

definition quiet :: "('w, 'a) c_fun \<Rightarrow> bool" where
  "quiet m \<longleftrightarrow> (\<forall>s. same_messages s (snd (m s)))"

named_theorems quiet_intros

lemma counted_same: "counted L G s \<Longrightarrow> same_messages s s' \<Longrightarrow> counted L G s'"
proof -
  assume c: "counted L G s" and same: "same_messages s s'"
  have h: "holders s' = holders s" and "owed s' = owed s"
    using same unfolding same_messages_def holders_def owed_def callback_of_def by auto
  moreover have "bounded s'"
    using countedD(1) [OF c] same unfolding bounded_def same_messages_def by (auto intro: order_less_le_trans)
  moreover from this have "right_count L s' e" for e
    using right_count_move [OF countedD(2,1) [OF c], of s' e L] same h by (simp add: same_messages_def)
  ultimately show ?thesis
    using c same by (simp add: counted_def same_messages_def)
qed

lemma quiet_goes: "quiet m \<Longrightarrow> goes (counted L G) m (\<lambda>_. counted L G)"
  unfolding goes_def quiet_def by (metis counted_same snd_conv)

lemma quiet_bnd [quiet_intros]: "quiet m \<Longrightarrow> (\<And>x. quiet (f x)) \<Longrightarrow> quiet (bnd m f)"
  unfolding quiet_def same_messages_def bnd_apply
  by (clarsimp split: prod.splits sum.splits) (metis (no_types, lifting) order_trans snd_conv)

lemma quiet_basic [quiet_intros]:
  "quiet (ret x)" "quiet (throw e)" "quiet (gets g)" "quiet (c_load p n)" "quiet (c_store p bs)" "quiet (c_string p)"
  "quiet (set_errno v)" "quiet (on_world i f)" "quiet fresh_ptr"
  by (auto simp: quiet_def same_messages_def c_load_def c_store_def c_string_def set_errno_def on_world_def fresh_ptr_def
      split: option.splits prod.splits)

lemma quiet_cases [quiet_intros]:
  "(b \<Longrightarrow> quiet m1) \<Longrightarrow> (\<not> b \<Longrightarrow> quiet m2) \<Longrightarrow> quiet (if b then m1 else m2)"
  "(\<And>x. quiet (f1 x)) \<Longrightarrow> (\<And>y. quiet (f2 y)) \<Longrightarrow> quiet (case r of Inl x \<Rightarrow> f1 x | Inr y \<Rightarrow> f2 y)"
  "quiet m1 \<Longrightarrow> (\<And>y. quiet (f2 y)) \<Longrightarrow> quiet (case v of None \<Rightarrow> m1 | Some y \<Rightarrow> f2 y)"
  "(\<And>x y. quiet (g x y)) \<Longrightarrow> quiet (case q of (x, y) \<Rightarrow> g x y)"
  "(\<And>m. quiet (h1 m)) \<Longrightarrow> (\<And>e. quiet (h2 e)) \<Longrightarrow> quiet (case st of Owned m \<Rightarrow> h1 m | External e \<Rightarrow> h2 e)"
  by (auto split: sum.splits option.splits prod.splits message_storage.splits)

lemma quiet_helpers [quiet_intros]:
  "quiet (deref t p)" "quiet clear_errno" "quiet (set_error e)" "quiet (finish r)" "quiet (from_raw e t p)"
  "quiet (slice_arg p n)" "quiet (write_msg_inner p q)" "quiet (read_msg_inner p)" "quiet (take_msg_inner p)"
  unfolding deref_def clear_errno_def set_error_def finish_def from_raw_def slice_arg_def write_msg_inner_def
    read_msg_inner_def take_msg_inner_def
  by (intro quiet_intros)+


section \<open>What the calls do to the references\<close>

text \<open>A step that changes one external object and the references to it.\<close>

lemma counted_external:
  assumes c: "counted L G s" and b: "bounded s'" and x: "c_externals s' = (c_externals s)(e := v)"
    and h: "\<And>x. x \<noteq> e \<Longrightarrow> holders s' x = holders s x \<and> count L' x = count L x" and r: "right_count L' s' e"
    and g: "G' = mset (c_free_calls s') + ((case v of None \<Rightarrow> {#} | Some x \<Rightarrow> mset (external_drop (fst x))) + (owed s - callback_of s e))"
  shows "counted L' G' s'"
proof -
  have "right_count L' s' x" for x
    using countedD(2) [OF c, of x] r h [of x] by (cases "x = e") (auto simp: right_count_def x split: option.splits)
  then show ?thesis
    using b g owed_update [OF _ x] countedD(1) [OF c] by (simp add: counted_def bounded_def)
qed

lemma same_holders: "holders (s\<lparr>c_externals := x, c_next_external := n\<rparr>) = holders s"
  "holders (s\<lparr>c_externals := x\<rparr>) = holders s" "holders (s\<lparr>c_externals := x, c_free_calls := f\<rparr>) = holders s"
  by (simp_all add: holders_def fun_eq_iff)

lemma arc_new_goes:
  "goes (counted L G) (arc_new ex) (\<lambda>e. counted (add_mset e L) (G + mset (external_drop ex)))"
  unfolding goes_def
proof (intro allI impI)
  fix s e s'
  assume c: "counted L G s" and "arc_new ex s = (Inr e, s')"
  then have e: "e = c_next_external s" and s': "s' = s\<lparr>c_externals := (c_externals s)(e \<mapsto> (ex, 1)), c_next_external := e + 1\<rparr>"
    by (auto simp: arc_new_def Let_def)
  have new: "c_externals s e = None"
    using countedD(1) [OF c] e unfolding bounded_def by (metis less_irrefl)
  have free: "holders s e = {}" "count L e = 0"
    using countedD(2) [OF c, of e] new by (auto simp: right_count_def)
  show "counted (add_mset e L) (G + mset (external_drop ex)) s'"
  proof (rule counted_external [OF c, of _ e "Some (ex, 1)"])
    show "bounded s'"
      using countedD(1) [OF c] e by (auto simp: bounded_def s' less_Suc_eq)
    show "right_count (add_mset e L) s' e"
      using free by (simp add: right_count_def same_holders s')
    show "G + mset (external_drop ex) = mset (c_free_calls s') +
        ((case Some (ex, 1) of None \<Rightarrow> {#} | Some x \<Rightarrow> mset (external_drop (fst x))) + (owed s - callback_of s e))"
      using countedD(3) [OF c] new by (simp add: s' callback_of_def)
  qed (auto simp: s' same_holders)
qed

lemma arc_clone_goes: "goes (counted L G) (arc_clone e) (\<lambda>_. counted (add_mset e L) G)"
  unfolding goes_def
proof (intro allI impI)
  fix s r s'
  assume c: "counted L G s" and "arc_clone e s = (Inr r, s')"
  then obtain ex n where old: "c_externals s e = Some (ex, n)" and s': "s' = s\<lparr>c_externals := (c_externals s)(e \<mapsto> (ex, n + 1))\<rparr>"
    by (auto simp: arc_clone_def split: option.splits)
  show "counted (add_mset e L) G s'"
  proof (rule counted_external [OF c, of _ e "Some (ex, n + 1)"])
    show "bounded s'"
      using countedD(1) [OF c] old by (auto simp: bounded_def s')
    show "right_count (add_mset e L) s' e"
      using countedD(2) [OF c, of e] old by (simp add: right_count_def s' same_holders)
    show "G = mset (c_free_calls s') +
        ((case Some (ex, n + 1) of None \<Rightarrow> {#} | Some x \<Rightarrow> mset (external_drop (fst x))) + (owed s - callback_of s e))"
      using countedD(3) [OF c] old callback_owed [of s e] countedD(1) [OF c] by (simp add: s' callback_of_def bounded_def)
  qed (auto simp: s' same_holders)
qed

lemma arc_drop_goes: "goes (counted (add_mset e L) G) (arc_drop e) (\<lambda>_. counted L G)"
  unfolding goes_def
proof (intro allI impI)
  fix s r s'
  assume c: "counted (add_mset e L) G s" and d: "arc_drop e s = (Inr r, s')"
  then obtain ex n where old: "c_externals s e = Some (ex, n)"
    by (auto simp: arc_drop_def split: option.splits)
  then have n: "n = card (holders s e) + count L e + 1"
    using countedD(2) [OF c, of e] by (simp add: right_count_def)
  have sub: "mset (external_drop ex) \<subseteq># owed s" and b: "bounded s"
    using callback_owed [of s e] countedD(1) [OF c] old by (simp_all add: callback_of_def bounded_def)
  have fin: "finite (holders s e)"
    using b by (rule finite_holders)
  show "counted L G s'"
  proof (cases "n = 1")
    case True
    then have s': "s' = s\<lparr>c_externals := (c_externals s)(e := None), c_free_calls := c_free_calls s @ external_drop ex\<rparr>"
      using d old by (simp add: arc_drop_def)
    show ?thesis
    proof (rule counted_external [OF c, of _ e None])
      show "bounded s'"
        using b by (auto simp: bounded_def s')
      show "right_count L s' e"
        using True n fin unfolding right_count_def s' same_holders by simp
      show "G = mset (c_free_calls s') + ((case None of None \<Rightarrow> {#} | Some x \<Rightarrow> mset (external_drop (fst x))) + (owed s - callback_of s e))"
        using countedD(3) [OF c] old sub by (simp add: s' callback_of_def)
    qed (auto simp: s' same_holders)
  next
    case False
    then have "1 < n"
      using n by simp
    then have s': "s' = s\<lparr>c_externals := (c_externals s)(e \<mapsto> (ex, n - 1))\<rparr>"
      using d old by (simp add: arc_drop_def)
    show ?thesis
    proof (rule counted_external [OF c, of _ e "Some (ex, n - 1)"])
      show "bounded s'"
        using b old by (auto simp: bounded_def s')
      show "right_count L s' e"
        using \<open>1 < n\<close> n by (simp add: right_count_def s' same_holders)
      show "G = mset (c_free_calls s') +
          ((case Some (ex, n - 1) of None \<Rightarrow> {#} | Some x \<Rightarrow> mset (external_drop (fst x))) + (owed s - callback_of s e))"
        using countedD(3) [OF c] old sub by (simp add: s' callback_of_def)
    qed (auto simp: s' same_holders)
  qed
qed

text \<open>Boxing a message moves its reference from a local variable to the box; dropping one takes it back.\<close>

lemma box_message_goes: "goes (counted (held_refs inner + L) G) (box_message inner) (\<lambda>_. counted L G)"
  unfolding goes_def
proof (intro allI impI)
  fix s p s'
  assume c: "counted (held_refs inner + L) G s" and "box_message inner s = (Inr p, s')"
  then have p: "p = c_next s" and s': "s' = s\<lparr>c_next := c_next s + 1, c_messages := (c_messages s)(p \<mapsto> inner)\<rparr>"
    by (auto simp: box_message_def fresh_ptr_def bnd_apply split: if_splits)
  have b: "bounded s"
    using countedD(1) [OF c] .
  then have "c_messages s p = None"
    unfolding bounded_def p by (metis less_irrefl)
  then have h: "holders s' e = (if holds inner e then insert p (holders s e) else holders s e)" "p \<notin> holders s e" for e
    by (auto simp: holders_def s')
  have b': "bounded s'"
    using b by (auto simp: bounded_def s' p less_Suc_eq)
  have "card (holders s' e) + count L e = card (holders s e) + count (held_refs inner + L) e" for e
    using h [of e] finite_holders [OF b, of e] by (auto simp: held_refs_def holds_def split: message_storage.splits)
  then have "right_count L s' e" for e
    by (intro right_count_move [OF countedD(2) [OF c] b b']) (simp_all add: s')
  moreover have "owed s' = owed s" "c_free_calls s' = c_free_calls s"
    by (simp_all add: owed_def callback_of_def s')
  ultimately show "counted L G s'"
    using countedD(3) [OF c] b' by (simp add: counted_def)
qed

lemma take_box_goes:
  "goes (\<lambda>s. counted L G s \<and> c_messages s p = Some inner) (modify (\<lambda>s. s\<lparr>c_messages := (c_messages s)(p := None)\<rparr>))
     (\<lambda>_. counted (held_refs inner + L) G)"
  unfolding goes_def
proof (intro allI impI)
  fix s r s'
  assume "counted L G s \<and> c_messages s p = Some inner"
    and "modify (\<lambda>s. s\<lparr>c_messages := (c_messages s)(p := None)\<rparr>) s = (Inr r, s')"
  then have c: "counted L G s" and old: "c_messages s p = Some inner" and s': "s' = s\<lparr>c_messages := (c_messages s)(p := None)\<rparr>"
    by auto
  have b: "bounded s"
    using countedD(1) [OF c] .
  have h: "holders s' e = (if holds inner e then holders s e - {p} else holders s e)" for e
    using old by (auto simp: holders_def s')
  have b': "bounded s'"
    using b by (auto simp: bounded_def s')
  have "card (holders s' e) + count (held_refs inner + L) e = card (holders s e) + count L e" for e
  proof (cases "holds inner e")
    case True
    then have "p \<in> holders s e" "held_refs inner = {#e#}"
      using old by (auto simp: held_refs_def holds_def holders_def)
    then show ?thesis
      using h [of e] True card_Suc_Diff1 [OF finite_holders [OF b], of p e] by simp
  next
    case False
    then show ?thesis
      using h [of e] by (auto simp: held_refs_def holds_def split: message_storage.splits)
  qed
  then have "right_count (held_refs inner + L) s' e" for e
    by (intro right_count_move [OF countedD(2) [OF c] b b']) (simp_all add: s')
  moreover have "owed s' = owed s" "c_free_calls s' = c_free_calls s"
    by (simp_all add: owed_def callback_of_def s')
  ultimately show "counted (held_refs inner + L) G s'"
    using countedD(3) [OF c] b' by (simp add: counted_def)
qed

lemma deref_goes: "goes I (deref t p) (\<lambda>v s. I s \<and> t s p = Some v)"
  by (auto simp: goes_def deref_def bnd_apply split: option.splits)

lemma drop_message_goes: "goes (counted L G) (drop_message p) (\<lambda>_. counted L G)"
proof -
  have "goes (counted (held_refs inner + L) G) (case fm_storage inner of Owned x \<Rightarrow> ret () | External e \<Rightarrow> arc_drop e) (\<lambda>_. counted L G)" for inner
    using arc_drop_goes [of _ L G] by (auto simp: held_refs_def goes_def split: message_storage.split)
  then show ?thesis
    unfolding drop_message_def
    by (cases "p = 0") (auto simp: goes_def [of _ "ret ()"] intro!: goes_bnd [OF deref_goes] goes_bnd [OF take_box_goes])
qed


section \<open>The functions on messages\<close>

lemma goes_case [goes_intros]:
  "(b \<Longrightarrow> goes I m1 J) \<Longrightarrow> (\<not> b \<Longrightarrow> goes I m2 J) \<Longrightarrow> goes I (if b then m1 else m2) J"
  "(\<And>x. goes I (f1 x) J) \<Longrightarrow> (\<And>y. goes I (f2 y) J) \<Longrightarrow> goes I (case r of Inl x \<Rightarrow> f1 x | Inr y \<Rightarrow> f2 y) J"
  "(\<And>x y. goes I (g x y) J) \<Longrightarrow> goes I (case q of (x, y) \<Rightarrow> g x y) J"
  by (auto split: sum.splits prod.splits)

lemma goes_quiet_first [goes_intros]:
  "quiet m \<Longrightarrow> (\<And>x. goes (counted L G) (f x) J) \<Longrightarrow> goes (counted L G) (bnd m f) J"
  by (rule goes_bnd [OF quiet_goes])

lemma goes_drop_first [goes_intros]:
  "(\<And>x. goes (counted L G) (f x) J) \<Longrightarrow> goes (counted L G) (bnd (drop_message p) f) J"
  by (rule goes_bnd [OF drop_message_goes])

lemma goes_box_first:
  "(\<And>x. goes (counted L G) (f x) J) \<Longrightarrow> goes (counted (held_refs inner + L) G) (bnd (box_message inner) f) J"
  by (rule goes_bnd [OF box_message_goes])

lemma init_message_goes: "goes (counted (held_refs inner + L) G) (init_message msg inner) (\<lambda>_. counted L G)"
  unfolding init_message_def by (intro goes_box_first quiet_goes quiet_intros)

lemma init_owned_goes: "held_refs inner = {#} \<Longrightarrow> goes (counted L G) (init_message msg inner) (\<lambda>_. counted L G)"
  using init_message_goes [of inner L G msg] by simp

lemma no_refs: "held_refs inner_empty = {#}" "held_refs (inner_new (Owned m)) = {#}" "held_refs (from_core_message m) = {#}"
  "held_refs (inner_new (External e)) = {#e#}"
  by (simp_all add: held_refs_def inner_empty_def inner_new_def from_core_message_def)

lemma init_empty_goes [goes_intros]:
  "goes (counted L G) (init_message msg inner_empty) (\<lambda>_. counted L G)"
  "goes (counted L G) (init_message msg (inner_new (Owned m))) (\<lambda>_. counted L G)"
  by (intro init_owned_goes no_refs)+

lemma zmq_msg_init_goes: "goes (counted L G) (zmq_msg_init msg) (\<lambda>_. counted L G)"
  unfolding zmq_msg_init_def by (intro goes_intros quiet_goes quiet_intros)

lemma zmq_msg_init_size_goes: "goes (counted L G) (zmq_msg_init_size msg n) (\<lambda>_. counted L G)"
  unfolding zmq_msg_init_size_def inner_with_size_def
  by (cases "n < 2 ^ 63") (simp_all only: if_True if_False bnd_laws, (intro goes_case(1) init_empty_goes quiet_goes quiet_intros)+)

lemma zmq_msg_init_buffer_goes: "goes (counted L G) (zmq_msg_init_buffer msg p n) (\<lambda>_. counted L G)"
  unfolding zmq_msg_init_buffer_def by (intro goes_intros quiet_goes quiet_intros)

lemma zmq_msg_close_goes: "goes (counted L G) (zmq_msg_close msg) (\<lambda>_. counted L G)"
  unfolding zmq_msg_close_def by (intro goes_intros quiet_goes quiet_intros)

lemma zmq_msg_move_goes: "goes (counted L G) (zmq_msg_move d q) (\<lambda>_. counted L G)"
  unfolding zmq_msg_move_def by (intro goes_intros quiet_goes quiet_intros)

lemma zmq_msg_init_data_goes:
  "goes (counted L G) (zmq_msg_init_data msg p n fn h)
     (\<lambda>_. counted L (G + (if msg = 0 then {#} else mset (external_drop \<lparr>ex_data = p, ex_size = n, ex_free_fn = fn, ex_hint = h\<rparr>))))"
proof -
  let ?ex = "\<lparr>ex_data = p, ex_size = n, ex_free_fn = fn, ex_hint = h\<rparr>"
  have "goes (counted L G) (bnd (inner_with_external p n fn h) (init_message msg)) (\<lambda>_. counted L (G + mset (external_drop ?ex)))"
    unfolding inner_with_external_def bnd_laws
    by (rule goes_bnd [OF arc_new_goes]) (use init_message_goes [of "inner_new (External _)"] in \<open>simp add: no_refs\<close>)
  then show ?thesis
    by (cases "msg = 0") (auto simp: zmq_msg_init_data_def intro!: quiet_goes quiet_intros)
qed

lemma copy_message_goes: "goes (counted L G) (copy_message inner) (\<lambda>copy. counted (held_refs copy + L) G)"
proof (cases "fm_storage inner")
  case (Owned m)
  then show ?thesis
    by (simp add: copy_message_def goes_def held_refs_def)
next
  case (External e)
  have "goes (counted L G) (bnd (arc_clone e) (\<lambda>_. ret inner)) (\<lambda>copy. counted (held_refs copy + L) G)"
    by (rule goes_bnd [OF arc_clone_goes]) (simp add: goes_def held_refs_def External)
  then show ?thesis
    by (simp add: copy_message_def External)
qed

lemma message_at_quiet [quiet_intros]: "quiet (message_at msg)"
  unfolding message_at_def by (intro quiet_intros)

text \<open>Changing the routing id, the group or the metadata of a message keeps what it holds.\<close>

lemma update_message_goes:
  assumes "fm_storage inner = fm_storage old"
  shows "goes (\<lambda>s. counted L G s \<and> c_messages s p = Some old) (update_message p inner)
    (\<lambda>_ s. counted L G s \<and> c_messages s p = Some inner)"
  unfolding goes_def
proof (intro allI impI)
  fix s r s'
  assume "counted L G s \<and> c_messages s p = Some old" and "update_message p inner s = (Inr r, s')"
  then have c: "counted L G s" and o: "c_messages s p = Some old" and s': "s' = s\<lparr>c_messages := (c_messages s)(p \<mapsto> inner)\<rparr>"
    by (auto simp: update_message_def)
  have "holders s' e = holders s e" for e
    using assms o by (auto simp: holders_def holds_def s')
  moreover have b': "bounded s'"
    using countedD(1) [OF c] o by (auto simp: bounded_def s')
  ultimately have "right_count L s' e" for e
    by (intro right_count_move [OF countedD(2,1) [OF c] b']) (simp_all add: s')
  moreover have "owed s' = owed s" "c_free_calls s' = c_free_calls s"
    by (simp_all add: owed_def callback_of_def s')
  ultimately show "counted L G s' \<and> c_messages s' p = Some inner"
    using countedD(3) [OF c] b' by (simp add: counted_def s')
qed

lemma message_at_goes:
  "goes I (message_at msg) (\<lambda>r s. I s \<and> (case r of Inl e \<Rightarrow> True | Inr (p, inner) \<Rightarrow> c_messages s p = Some inner))"
  unfolding message_at_def read_msg_inner_def
  by (auto simp: goes_def bnd_apply deref_def c_load_def split: option.splits prod.splits sum.splits if_splits)

lemma with_message_goes:
  assumes "\<And>p inner. goes (\<lambda>s. counted L G s \<and> c_messages s p = Some inner) (f p inner) (\<lambda>_. counted L G)"
  shows "goes (counted L G) (with_message msg f) (\<lambda>_. counted L G)"
  unfolding with_message_def
proof (rule goes_bnd [OF message_at_goes])
  fix r
  have "goes (counted L G) (set_error e) (\<lambda>_. counted L G)" for e
    by (intro quiet_goes quiet_intros)
  then show "goes (\<lambda>s. counted L G s \<and> (case r of Inl e \<Rightarrow> True | Inr (p, inner) \<Rightarrow> c_messages s p = Some inner))
      (case r of Inl e \<Rightarrow> set_error e | Inr (p, inner) \<Rightarrow> f p inner) (\<lambda>_. counted L G)"
    using assms by (cases r) auto
qed

lemma goes_weaken: "goes I m J \<Longrightarrow> (\<And>s. I' s \<Longrightarrow> I s) \<Longrightarrow> goes I' m J"
  by (auto simp: goes_def)

lemma quiet_goes': "quiet m \<Longrightarrow> goes (\<lambda>s. counted L G s \<and> Q s) m (\<lambda>_. counted L G)"
  by (rule goes_weaken [OF quiet_goes]) auto

lemma zmq_msg_copy_goes: "goes (counted L G) (zmq_msg_copy d q) (\<lambda>_. counted L G)"
proof -
  have "goes (counted L G) (bnd (copy_message inner) (init_message d)) (\<lambda>_. counted L G)" for inner
    by (rule goes_bnd [OF copy_message_goes init_message_goes])
  then have "goes (counted L G) (with_message q (\<lambda>p inner. bnd (copy_message inner) (init_message d))) (\<lambda>_. counted L G)"
    by (intro with_message_goes) (rule goes_weaken, assumption, simp)
  then show ?thesis
    unfolding zmq_msg_copy_def by (intro goes_case(1) quiet_goes [OF quiet_helpers(3)])
qed

lemma zmq_msg_set_routing_id_goes: "goes (counted L G) (zmq_msg_set_routing_id msg rid) (\<lambda>_. counted L G)"
  unfolding zmq_msg_set_routing_id_def Let_def
proof (rule with_message_goes)
  fix p and inner :: ffi_message_inner
  let ?i1 = "inner\<lparr>fm_routing_id := rid\<rparr>"
  have "fm_storage i2 = fm_storage ?i1" if "inner_set_metadata k v ?i1 = Inr i2" for k v i2
    using that by (auto simp: inner_set_metadata_def split: if_splits)
  then have "goes (\<lambda>s. counted L G s \<and> c_messages s p = Some ?i1)
      (case inner_set_metadata k v ?i1 of Inl e \<Rightarrow> set_error e | Inr i2 \<Rightarrow> bnd (update_message p i2) (\<lambda>_. finish (Inr 0)))
      (\<lambda>_. counted L G)" for k v
    by (cases "inner_set_metadata k v ?i1")
      (simp_all add: quiet_goes' [OF quiet_helpers(3)] goes_bnd [OF update_message_goes quiet_goes' [OF quiet_helpers(4)]])
  then show "goes (\<lambda>s. counted L G s \<and> c_messages s p = Some inner)
      (bnd (update_message p ?i1) (\<lambda>_. case inner_set_metadata (lit ''Routing-Id'') (dec (unat rid)) ?i1 of
         Inl e \<Rightarrow> set_error e | Inr inner2 \<Rightarrow> bnd (update_message p inner2) (\<lambda>_. finish (Inr 0)))) (\<lambda>_. counted L G)"
    by (intro goes_bnd [OF update_message_goes [of ?i1 inner]]) simp_all
qed

lemma c_string_goes: "goes I (c_string p) (\<lambda>_. I)"
  by (auto simp: goes_def c_string_def split: option.splits)

lemma zmq_msg_set_group_goes: "goes (counted L G) (zmq_msg_set_group msg g) (\<lambda>_. counted L G)"
proof -
  have "goes (\<lambda>s. counted L G s \<and> c_messages s p = Some inner)
     (bnd (c_string g) (\<lambda>name. if length name > 255 then set_error InvalidArgument
        else bnd (update_message p (inner\<lparr>fm_group := Some name\<rparr>)) (\<lambda>_. finish (Inr 0)))) (\<lambda>_. counted L G)" for p inner
    by (intro goes_bnd [OF c_string_goes] goes_case(1) quiet_goes' quiet_intros goes_bnd [OF update_message_goes]) simp
  then have "goes (counted L G) (with_message msg (\<lambda>p inner. bnd (c_string g) (\<lambda>name.
      if length name > 255 then set_error InvalidArgument
      else bnd (update_message p (inner\<lparr>fm_group := Some name\<rparr>)) (\<lambda>_. finish (Inr 0))))) (\<lambda>_. counted L G)"
    by (rule with_message_goes)
  moreover have "goes (counted L G) (set_error InvalidArgument) (\<lambda>_. counted L G)"
    by (intro quiet_goes quiet_intros)
  ultimately show ?thesis
    unfolding zmq_msg_set_group_def by (intro goes_case(1))
qed

lemma zmq_recvmsg_goes: "goes (counted L G) (zmq_recvmsg W p msg flags) (\<lambda>_. counted L G)"
proof -
  have box: "goes (counted L G) (bnd (box_message (from_core_message m)) f) J" if "\<And>x. goes (counted L G) (f x) J" for m f J
    using goes_box_first [of L G f J "from_core_message m"] that by (simp add: no_refs)
  show ?thesis
    unfolding zmq_recvmsg_def with_socket_def socket_from_raw_def by (intro box goes_intros quiet_goes quiet_intros)
qed


section \<open>Runs\<close>

text \<open>
  What a program can do with messages, with the list of the callbacks it hands over. Between the calls its
  own writes to memory and every call that makes, changes and drops no message object may happen.
\<close>

inductive buffer_run :: "'w wires \<Rightarrow> 'w ffi \<Rightarrow> (ptr \<times> ptr \<times> ptr) list \<Rightarrow> 'w ffi \<Rightarrow> bool" for W s0 where
  Start: "buffer_run W s0 [] s0"
| Init: "buffer_run W s0 g s \<Longrightarrow> zmq_msg_init msg s = (Inr r, s') \<Longrightarrow> buffer_run W s0 g s'"
| Init_size: "buffer_run W s0 g s \<Longrightarrow> zmq_msg_init_size msg n s = (Inr r, s') \<Longrightarrow> buffer_run W s0 g s'"
| Init_buffer: "buffer_run W s0 g s \<Longrightarrow> zmq_msg_init_buffer msg p n s = (Inr r, s') \<Longrightarrow> buffer_run W s0 g s'"
| Init_data: "buffer_run W s0 g s \<Longrightarrow> zmq_msg_init_data msg p n (Some f) h s = (Inr 0, s') \<Longrightarrow> buffer_run W s0 (g @ [(f, p, h)]) s'"
| Init_plain: "buffer_run W s0 g s \<Longrightarrow> zmq_msg_init_data msg p n None h s = (Inr r, s') \<Longrightarrow> buffer_run W s0 g s'"
| Close: "buffer_run W s0 g s \<Longrightarrow> zmq_msg_close msg s = (Inr r, s') \<Longrightarrow> buffer_run W s0 g s'"
| Move: "buffer_run W s0 g s \<Longrightarrow> zmq_msg_move d q s = (Inr r, s') \<Longrightarrow> buffer_run W s0 g s'"
| Copy: "buffer_run W s0 g s \<Longrightarrow> zmq_msg_copy d q s = (Inr r, s') \<Longrightarrow> buffer_run W s0 g s'"
| Set_routing_id: "buffer_run W s0 g s \<Longrightarrow> zmq_msg_set_routing_id msg rid s = (Inr r, s') \<Longrightarrow> buffer_run W s0 g s'"
| Set_group: "buffer_run W s0 g s \<Longrightarrow> zmq_msg_set_group msg name s = (Inr r, s') \<Longrightarrow> buffer_run W s0 g s'"
| Receive: "buffer_run W s0 g s \<Longrightarrow> zmq_recvmsg W p msg flags s = (Inr r, s') \<Longrightarrow> buffer_run W s0 g s'"
| Send: "buffer_run W s0 g s \<Longrightarrow> zmq_sendmsg W p msg flags s = (Inr r, s') \<Longrightarrow> buffer_run W s0 g s'"
| Other: "buffer_run W s0 g s \<Longrightarrow> same_messages s s' \<Longrightarrow> buffer_run W s0 g s'"

lemma zmq_sendmsg_quiet: "quiet (zmq_sendmsg W p msg flags)"
  unfolding zmq_sendmsg_def with_socket_def with_message_def socket_from_raw_def to_core_message_def inner_bytes_def external_of_def
  by (intro quiet_intros)

lemmas message_calls = zmq_msg_init_goes zmq_msg_init_size_goes zmq_msg_init_buffer_goes zmq_msg_close_goes zmq_msg_move_goes
  zmq_msg_copy_goes zmq_msg_set_routing_id_goes zmq_msg_set_group_goes zmq_recvmsg_goes quiet_goes [OF zmq_sendmsg_quiet]

lemma buffer_run_counted:
  assumes "buffer_run W s0 given s" and "counted {#} {#} s0"
  shows "counted {#} (mset given) s"
  using assms
proof (induction rule: buffer_run.induct)
  case (Init_data g s msg p n f h s')
  have "msg \<noteq> 0"
    using Init_data.hyps(2) by (cases "msg = 0") (simp_all add: zmq_msg_init_data_def set_error_def set_errno_def)
  then show ?case
    using goesD [OF zmq_msg_init_data_goes Init_data.IH [OF Init_data.prems] Init_data.hyps(2)] by (simp add: external_drop_def)
next
  case (Init_plain g s msg p n h r s')
  then show ?case
    using goesD [OF zmq_msg_init_data_goes Init_plain.IH [OF Init_plain.prems] Init_plain.hyps(2)]
    by (simp add: external_drop_def split: if_splits)
qed (auto dest: goesD [OF message_calls(1)] goesD [OF message_calls(2)] goesD [OF message_calls(3)] goesD [OF message_calls(4)]
  goesD [OF message_calls(5)] goesD [OF message_calls(6)] goesD [OF message_calls(7)] goesD [OF message_calls(8)]
  goesD [OF message_calls(9)] goesD [OF message_calls(10)] counted_same)

text \<open>The buffers that a message object still refers to.\<close>

definition in_use :: "'w ffi \<Rightarrow> ref set" where
  "in_use s = {e. \<exists>p inner. c_messages s p = Some inner \<and> fm_storage inner = External e}"

lemma in_use_live: "counted {#} G s \<Longrightarrow> in_use s = dom (c_externals s)"
proof -
  assume c: "counted {#} G s"
  have "e \<in> in_use s \<longleftrightarrow> holders s e \<noteq> {}" for e
    by (auto simp: in_use_def holders_def holds_def)
  moreover have "holders s e \<noteq> {} \<longleftrightarrow> e \<in> dom (c_externals s)" for e
    using countedD(2) [OF c, of e] by (cases "c_externals s e") (auto simp: right_count_def)
  ultimately show ?thesis
    by blast
qed

text \<open>
  In every run of calls on messages, careful or not: the callbacks the program has handed over are those
  that have run and those of the buffers some message object still refers to, each counted once, and
  every buffer a message object refers to has not been freed.
\<close>

lemma objects_accounted:
  assumes "buffer_run W s0 given s" and "c_messages s0 = Map.empty" "c_externals s0 = Map.empty" "c_free_calls s0 = []"
  shows "mset given = mset (c_free_calls s) + (\<Sum>e \<in> in_use s. callback_of s e) \<and> in_use s \<subseteq> dom (c_externals s) \<and> bounded s"
proof -
  have "counted {#} {#} s0"
    using assms(2-4) by (simp add: counted_def bounded_def right_count_def owed_def holders_def)
  then have c: "counted {#} (mset given) s"
    by (rule buffer_run_counted [OF assms(1)])
  then show ?thesis
    using countedD(1,3) [OF c] in_use_live [OF c] by (simp add: owed_def)
qed

text \<open>A message made, copied and closed twice in a small memory.\<close>

definition ffi_example :: "unit ffi" where
  "ffi_example =
     \<lparr>c_errno = 0, c_mem = (\<lambda>a. if 1000 \<le> a \<and> a < 1200 then Some 0 else None), c_next = 1, c_now = 0,
      c_worlds = (\<lambda>_. world_new ()), c_next_world = 0, c_contexts = Map.empty, c_sockets = Map.empty, c_messages = Map.empty,
      c_externals = Map.empty, c_next_external = 0, c_free_calls = [], c_counters = Map.empty, c_timers = Map.empty,
      c_handler_calls = [], c_watches = Map.empty, c_threads = Map.empty, c_thread_calls = [], c_pollers = Map.empty\<rparr>"


lemma c_store_ok: "mem_load (c_mem s) p (length bs) \<noteq> None \<Longrightarrow> c_store p bs s = (Inr (), s\<lparr>c_mem := write_bytes (c_mem s) p bs\<rparr>)"
  by (auto simp: c_store_def mem_store_def)

lemma written_defined: "mem_load m a n \<noteq> None \<Longrightarrow> mem_load (write_bytes m p bs) a n \<noteq> None"
  unfolding mem_load_defined write_bytes_def by auto

lemma load_written: "mem_load (write_bytes m p (bs @ r)) p (length bs) = Some bs"
  by (simp add: mem_load_Some_iff write_bytes_def nth_append)

lemma load_other: "a + n \<le> p \<or> p + length bs \<le> a \<Longrightarrow> mem_load (write_bytes m p bs) a n = mem_load m a n"
proof -
  assume *: "a + n \<le> p \<or> p + length bs \<le> a"
  have "map (\<lambda>i. write_bytes m p bs (a + i)) [0..<n] = map (\<lambda>i. m (a + i)) [0..<n]"
    using * by (auto simp: write_bytes_def)
  then show ?thesis
    by (simp add: mem_load_def)
qed

text \<open>Storage of a message, and the object it holds.\<close>

definition room :: "ptr \<Rightarrow> 'w ffi \<Rightarrow> bool" where
  "room msg s \<longleftrightarrow> msg \<noteq> 0 \<and> mem_load (c_mem s) msg 64 \<noteq> None"

definition owns :: "ptr \<Rightarrow> ptr \<Rightarrow> 'w ffi \<Rightarrow> bool" where
  "owns msg q s \<longleftrightarrow> 0 < q \<and> q < 2 ^ 64 \<and> mem_load (c_mem s) msg 8 = Some (to_ne 8 q)"

lemma init_message_run:
  assumes "room msg s" and "c_next s < 2 ^ 64"
  shows "init_message msg inner s =
    (Inr 0, s\<lparr>c_next := c_next s + 1, c_messages := (c_messages s)(c_next s \<mapsto> inner),
       c_mem := write_bytes (c_mem s) msg (to_ne 8 (c_next s) @ replicate 56 0), c_errno := 0\<rparr>)"
  using assms by (simp add: init_message_def box_message_def fresh_ptr_def bnd_apply write_msg_inner_def c_store_ok room_def
      finish_def clear_errno_def set_errno_def)

lemma zmq_msg_init_data_run:
  assumes "room msg s" and "c_next s < 2 ^ 64"
  shows "zmq_msg_init_data msg p n fn h s =
    (Inr 0, s\<lparr>c_externals := (c_externals s)(c_next_external s \<mapsto> (\<lparr>ex_data = p, ex_size = n, ex_free_fn = fn, ex_hint = h\<rparr>, 1)),
       c_next_external := c_next_external s + 1, c_next := c_next s + 1,
       c_messages := (c_messages s)(c_next s \<mapsto> inner_new (External (c_next_external s))),
       c_mem := write_bytes (c_mem s) msg (to_ne 8 (c_next s) @ replicate 56 0), c_errno := 0\<rparr>)"
proof -
  have "room msg (s\<lparr>c_externals := x, c_next_external := y\<rparr>)" for x y
    using assms(1) by (simp add: room_def)
  then show ?thesis
    using assms by (simp add: zmq_msg_init_data_def inner_with_external_def arc_new_def Let_def bnd_laws bnd_apply init_message_run room_def)
qed

lemma message_at_run: "room msg s \<Longrightarrow> owns msg q s \<Longrightarrow> c_messages s q = Some inner \<Longrightarrow> message_at msg s = (Inr (Inr (q, inner)), s)"
  by (simp add: message_at_def room_def owns_def read_msg_inner_def c_load_def bnd_apply deref_def from_ne_to_ne)

lemma zmq_msg_copy_run:
  assumes "room d s" "room msg s" "owns msg q s" and "c_next s < 2 ^ 64"
    and "c_messages s q = Some inner" "fm_storage inner = External e" "c_externals s e = Some (ex, n)"
  shows "zmq_msg_copy d msg s =
    (Inr 0, s\<lparr>c_externals := (c_externals s)(e \<mapsto> (ex, n + 1)), c_next := c_next s + 1,
       c_messages := (c_messages s)(c_next s \<mapsto> inner), c_mem := write_bytes (c_mem s) d (to_ne 8 (c_next s) @ replicate 56 0),
       c_errno := 0\<rparr>)"
proof -
  have "room d (s\<lparr>c_externals := x\<rparr>)" for x
    using assms(1) by (simp add: room_def)
  then show ?thesis
    using assms message_at_run [OF assms(2,3,5)]
    by (simp add: zmq_msg_copy_def room_def with_message_def bnd_apply copy_message_def arc_clone_def init_message_run)
qed

lemma zmq_msg_close_run:
  assumes "room msg s" "owns msg q s" and "c_messages s q = Some inner" "fm_storage inner = External e" "c_externals s e = Some (ex, n)"
  shows "zmq_msg_close msg s =
    (Inr 0, (if n \<le> 1 then s\<lparr>c_externals := (c_externals s)(e := None), c_free_calls := c_free_calls s @ external_drop ex\<rparr>
             else s\<lparr>c_externals := (c_externals s)(e \<mapsto> (ex, n - 1))\<rparr>)
       \<lparr>c_mem := write_bytes (c_mem s) msg (replicate 64 0), c_messages := (c_messages s)(q := None), c_errno := 0\<rparr>)"
proof -
  have "mem_load (c_mem s) msg 64 \<noteq> None" "msg \<noteq> 0"
    using assms(1) by (simp_all add: room_def)
  moreover have "read_msg_inner msg s = (Inr q, s)"
    using assms(2) by (simp add: read_msg_inner_def owns_def c_load_def bnd_apply from_ne_to_ne)
  ultimately have "take_msg_inner msg s = (Inr q, s\<lparr>c_mem := write_bytes (c_mem s) msg (replicate 64 0)\<rparr>)"
    by (simp add: take_msg_inner_def bnd_apply c_store_ok)
  then show ?thesis
    using assms \<open>msg \<noteq> 0\<close>
    by (simp add: zmq_msg_close_def bnd_apply drop_message_def owns_def deref_def arc_drop_def finish_def clear_errno_def set_errno_def)
qed

text \<open>The states of the example: the message made, copied, the original closed, the copy closed.\<close>

definition made_example :: "unit ffi" where
  "made_example = snd (zmq_msg_init_data 1000 50 8 (Some 7) 9 ffi_example)"

definition copied_example :: "unit ffi" where
  "copied_example = snd (zmq_msg_copy 1100 1000 made_example)"

definition half_closed_example :: "unit ffi" where
  "half_closed_example = snd (zmq_msg_close 1000 copied_example)"

definition closed_example :: "unit ffi" where
  "closed_example = snd (zmq_msg_close 1100 half_closed_example)"

lemma example_room: "mem_load (c_mem ffi_example) 1000 64 \<noteq> None" "mem_load (c_mem ffi_example) 1100 64 \<noteq> None"
  unfolding mem_load_defined by (simp_all add: ffi_example_def)

lemma example_fields:
  "c_next ffi_example = 1" "c_messages ffi_example = Map.empty" "c_externals ffi_example = Map.empty"
  "c_next_external ffi_example = 0" "c_free_calls ffi_example = []"
  by (simp_all add: ffi_example_def)

lemma made_eq:
  "zmq_msg_init_data 1000 50 8 (Some 7) 9 ffi_example = (Inr 0, made_example)"
  "c_mem made_example = write_bytes (c_mem ffi_example) 1000 (to_ne 8 1 @ replicate 56 0)"
  "c_messages made_example = [1 \<mapsto> inner_new (External 0)]" "c_next made_example = 2"
  "c_externals made_example = [0 \<mapsto> (\<lparr>ex_data = 50, ex_size = 8, ex_free_fn = Some 7, ex_hint = 9\<rparr>, 1)]"
  "c_free_calls made_example = []"
  using example_room(1) by (simp_all add: made_example_def zmq_msg_init_data_run room_def example_fields)

lemma copied_eq:
  "zmq_msg_copy 1100 1000 made_example = (Inr 0, copied_example)"
  "c_mem copied_example = write_bytes (c_mem made_example) 1100 (to_ne 8 2 @ replicate 56 0)"
  "c_messages copied_example = [1 \<mapsto> inner_new (External 0), 2 \<mapsto> inner_new (External 0)]"
  "c_externals copied_example = [0 \<mapsto> (\<lparr>ex_data = 50, ex_size = 8, ex_free_fn = Some 7, ex_hint = 9\<rparr>, 2)]"
  "c_free_calls copied_example = []"
proof -
  have "room 1100 made_example" "room 1000 made_example" "owns 1000 1 made_example"
    using example_room load_written [of "c_mem ffi_example" 1000 "to_ne 8 1" "replicate 56 0"]
    by (simp_all add: room_def owns_def made_eq(2) written_defined)
  then show "zmq_msg_copy 1100 1000 made_example = (Inr 0, copied_example)"
    "c_mem copied_example = write_bytes (c_mem made_example) 1100 (to_ne 8 2 @ replicate 56 0)"
    "c_messages copied_example = [1 \<mapsto> inner_new (External 0), 2 \<mapsto> inner_new (External 0)]"
    "c_externals copied_example = [0 \<mapsto> (\<lparr>ex_data = 50, ex_size = 8, ex_free_fn = Some 7, ex_hint = 9\<rparr>, 2)]"
    "c_free_calls copied_example = []"
    by (simp_all add: copied_example_def zmq_msg_copy_run made_eq inner_new_def) (simp add: numeral_2_eq_2)
qed

lemma half_closed_eq:
  "zmq_msg_close 1000 copied_example = (Inr 0, half_closed_example)"
  "c_mem half_closed_example = write_bytes (c_mem copied_example) 1000 (replicate 64 0)"
  "c_messages half_closed_example = [2 \<mapsto> inner_new (External 0)]"
  "c_externals half_closed_example = [0 \<mapsto> (\<lparr>ex_data = 50, ex_size = 8, ex_free_fn = Some 7, ex_hint = 9\<rparr>, 1)]"
  "c_free_calls half_closed_example = []"
proof -
  have "room 1000 copied_example" "owns 1000 1 copied_example"
    using example_room load_written [of "c_mem ffi_example" 1000 "to_ne 8 1" "replicate 56 0"]
    by (simp_all add: room_def owns_def made_eq(2) copied_eq(2) written_defined load_other)
  then show "zmq_msg_close 1000 copied_example = (Inr 0, half_closed_example)"
    "c_mem half_closed_example = write_bytes (c_mem copied_example) 1000 (replicate 64 0)"
    "c_messages half_closed_example = [2 \<mapsto> inner_new (External 0)]"
    "c_externals half_closed_example = [0 \<mapsto> (\<lparr>ex_data = 50, ex_size = 8, ex_free_fn = Some 7, ex_hint = 9\<rparr>, 1)]"
    "c_free_calls half_closed_example = []"
    by (simp_all add: half_closed_example_def zmq_msg_close_run copied_eq inner_new_def fun_eq_iff)
qed

lemma closed_eq:
  "zmq_msg_close 1100 half_closed_example = (Inr 0, closed_example)" "c_messages closed_example = Map.empty"
  "c_free_calls closed_example = [(7, 50, 9)]"
proof -
  have "room 1100 half_closed_example" "owns 1100 2 half_closed_example"
    using example_room load_written [of "c_mem made_example" 1100 "to_ne 8 2" "replicate 56 0"]
    by (simp_all add: room_def owns_def made_eq(2) copied_eq(2) half_closed_eq(2) written_defined load_other)
  then show "zmq_msg_close 1100 half_closed_example = (Inr 0, closed_example)" "c_messages closed_example = Map.empty"
    "c_free_calls closed_example = [(7, 50, 9)]"
    by (simp_all add: closed_example_def zmq_msg_close_run half_closed_eq inner_new_def fun_eq_iff external_drop_def)
qed

text \<open>
  Moving over a message that was not closed before leaves its object behind: after the move the
  destination holds the object of the source, and the object it held before is still there.
\<close>

lemma move_forgets_destination:
  assumes "room d s" "room q s" "owns d a s" "owns q b s" and "d + 64 \<le> q \<or> q + 64 \<le> d" and "c_next s < 2 ^ 64" "0 < c_next s" "a < c_next s"
  shows "\<exists>s'. zmq_msg_move d q s = (Inr 0, s') \<and> owns d b s' \<and> owns q (c_next s) s' \<and> c_messages s' a = c_messages s a
    \<and> c_free_calls s' = c_free_calls s"
proof -
  let ?m1 = "write_bytes (c_mem s) q (replicate 64 0)" and ?h = "to_ne 8 b @ replicate 56 0" and ?e = "to_ne 8 (c_next s) @ replicate 56 0"
  let ?s2 = "s\<lparr>c_mem := write_bytes ?m1 d ?h\<rparr>"
  have r: "d \<noteq> 0" "q \<noteq> 0" "mem_load (c_mem s) d 64 \<noteq> None" "mem_load (c_mem s) q 64 \<noteq> None"
    using assms(1,2) by (simp_all add: room_def)
  have "read_msg_inner q s = (Inr b, s)"
    using assms(4) by (simp add: read_msg_inner_def owns_def c_load_def bnd_apply from_ne_to_ne)
  then have 1: "take_msg_inner q s = (Inr b, s\<lparr>c_mem := ?m1\<rparr>)"
    using r(4) by (simp add: take_msg_inner_def bnd_apply c_store_ok)
  have 2: "write_msg_inner d b (s\<lparr>c_mem := ?m1\<rparr>) = (Inr (), ?s2)"
    using written_defined [OF r(3), of q "replicate 64 0"] by (simp add: write_msg_inner_def c_store_ok)
  have "room q ?s2"
    using r by (simp add: room_def written_defined)
  then have 3: "init_message q inner_empty ?s2 = (Inr 0, ?s2\<lparr>c_next := c_next s + 1,
      c_messages := (c_messages s)(c_next s \<mapsto> inner_empty), c_mem := write_bytes (c_mem ?s2) q ?e, c_errno := 0\<rparr>)"
    using assms(6) by (simp add: init_message_run)
  have "mem_load (write_bytes (write_bytes ?m1 d ?h) q ?e) d 8 = Some (to_ne 8 b)"
    using load_written [of ?m1 d "to_ne 8 b" "replicate 56 0"] assms(5) by (subst load_other) auto
  moreover have "mem_load (write_bytes (write_bytes ?m1 d ?h) q ?e) q 8 = Some (to_ne 8 (c_next s))"
    using load_written [of "write_bytes ?m1 d ?h" q "to_ne 8 (c_next s)" "replicate 56 0"] by simp
  ultimately show ?thesis
    using assms(4,6-8) r 1 2 3 by (simp add: zmq_msg_move_def bnd_apply owns_def)
qed

end
