(* ===== verification/Ffi_Data.thy ===== *)
theory Ffi_Data
  imports Ffi_Buffers Inproc_Delivery
begin

text \<open>
  Data through the C interface: an option that was set is read back, byte for byte; a receive writes into
  the buffer of the caller and nowhere else; what is sent from one buffer arrives in another.
\<close>

section \<open>Calls on live handles\<close>

lemma with_socket_live: "p \<noteq> 0 \<Longrightarrow> c_sockets s p = Some (i, k) \<Longrightarrow> with_socket p f s = f i k s"
  by (simp add: with_socket_def socket_from_raw_def from_raw_def deref_def bnd_apply)

lemma finish_run: "finish (Inr v) s = (Inr v, s\<lparr>c_errno := 0\<rparr>)" "finish (Inl e) s = (Inr (- 1), s\<lparr>c_errno := errno e\<rparr>)"
  "set_error e s = (Inr (- 1), s\<lparr>c_errno := errno e\<rparr>)"
  by (simp_all add: finish_def set_error_def clear_errno_def set_errno_def)

lemma c_load_run: "mem_load (c_mem s) p n = Some bs \<Longrightarrow> c_load p n s = (Inr bs, s)"
  by (simp add: c_load_def)

lemma slice_arg_run:
  "mem_load (c_mem s) p n = Some bs \<Longrightarrow> p \<noteq> 0 \<or> n = 0 \<Longrightarrow> slice_arg p n s = (Inr (Inr bs), s)"
  by (auto simp: slice_arg_def bnd_apply c_load_run)

lemma slice_arg_null: "n \<noteq> 0 \<Longrightarrow> slice_arg 0 n s = (Inr (Inl InvalidArgument), s)"
  by (simp add: slice_arg_def)

lemma give_bytes_run:
  assumes "mem_load (c_mem s) q (length v) \<noteq> None" "mem_load (c_mem s) l 8 \<noteq> None" and "q + length v \<le> l \<or> l + 8 \<le> q"
  shows "\<exists>s'. give_bytes q l v s = (Inr 0, s') \<and> mem_load (c_mem s') q (length v) = Some v
    \<and> mem_load (c_mem s') l 8 = Some (to_ne 8 (length v))"
proof -
  let ?m1 = "if v = [] then c_mem s else write_bytes (c_mem s) q v" and ?n = "to_ne 8 (length v)"
  have "(if v = [] then ret () else c_store q v) s = (Inr (), s\<lparr>c_mem := ?m1\<rparr>)"
    using assms(1) by (simp add: c_store_ok)
  moreover have "mem_load ?m1 l 8 \<noteq> None"
    using assms(2) written_defined [OF assms(2)] by simp
  ultimately have "give_bytes q l v s = (Inr 0, s\<lparr>c_mem := write_bytes ?m1 l ?n, c_errno := 0\<rparr>)"
    by (simp add: give_bytes_def bnd_apply c_store_ok finish_run del: ret_apply)
  moreover have "mem_load (write_bytes ?m1 l ?n) q (length v) = Some v"
    using load_written [of "c_mem s" q v "[]"] assms(3) by (cases "v = []") (simp_all add: load_other)
  moreover have "mem_load (write_bytes ?m1 l ?n) l 8 = Some ?n"
    using load_written [of ?m1 l ?n "[]"] by simp
  ultimately show ?thesis
    by simp
qed


section \<open>Options\<close>

text \<open>Numbers of the full width are their bytes.\<close>

lemma to_ne_from_ne: "length bs = n \<Longrightarrow> to_ne n (from_ne bs) = bs"
  using to_be_from_be_id [of "rev bs"] by (auto simp: to_ne_def from_ne_def)

lemma from_ne_less: "from_ne bs < 256 ^ length bs"
  using from_be_less [of "rev bs"] by (simp add: from_ne_def)

lemma to_ne_from_ne_int:
  assumes "length bs = n"
  shows "to_ne_int n (from_ne_int bs) = bs"
proof -
  have "from_ne_int bs mod 256 ^ n = int (from_ne bs)"
  proof -
    have "(int (from_ne bs) - 256 ^ n) mod 256 ^ n = int (from_ne bs) mod 256 ^ n"
      by (simp add: mod_diff_right_eq)
    moreover have "int (from_ne bs) mod 256 ^ n = int (from_ne bs)"
      using from_ne_less [of bs] assms by (intro mod_pos_pos_trivial) (auto simp flip: of_nat_less_iff)
    ultimately show ?thesis
      using assms by (simp add: from_ne_int_def Let_def)
  qed
  then show ?thesis
    using to_ne_from_ne [OF assms] by (simp add: to_ne_int_def)
qed

text \<open>Options that can be read, the bytes a set option reads as, and the space a read needs.\<close>

definition readable :: "i32 \<Rightarrow> bool" where
  "readable opt \<longleftrightarrow> opt \<notin> write_only_options \<and> opt \<notin> {ZMQ_SUBSCRIBE, ZMQ_UNSUBSCRIBE, ZMQ_XPUB_WELCOME_MSG,
     ZMQ_CONNECT_ROUTING_ID, ZMQ_HELLO_MSG, ZMQ_DISCONNECT_MSG, ZMQ_HICCUP_MSG}"

definition reads_as :: "i32 \<Rightarrow> bytes \<Rightarrow> bytes" where
  "reads_as opt bs =
     (if opt \<in> {ZMQ_SOCKS_PROXY, ZMQ_SOCKS_USERNAME, ZMQ_SOCKS_PASSWORD, ZMQ_BINDTODEVICE} then bs @ [0]
      else if is_settable_bytes_sockopt opt \<or> opt \<in> {ZMQ_AFFINITY, ZMQ_MAXMSGSIZE} then bs
      else to_ne_int 4 (stored_value opt (from_ne_int bs)))"

definition enough :: "i32 \<Rightarrow> nat \<Rightarrow> nat \<Rightarrow> bool" where
  "enough opt available n \<longleftrightarrow> (if opt \<in> {ZMQ_AFFINITY, ZMQ_MAXMSGSIZE} then available = 8 else n \<le> available)"

lemma sk_options_store_cells: "sk_options (w_sockets (store_cells k oc w) k) = oc_options oc"
  by (simp add: store_cells_def Let_def update_socket_def)

lemma set_bytes_reads:
  assumes "set_option_bytes st opt bs oc = (Inr (), oc')" and "is_settable_bytes_sockopt opt" "readable opt"
  shows "get_option_bytes opt (oc_options oc') = Inr (reads_as opt bs)"
  using assms
  by (auto simp: is_settable_bytes_sockopt_def readable_def reads_as_def set_option_bytes_def get_option_bytes_def set_curve_key_def
      c_string_option_def Let_def split: if_splits)

lemma set_i32_ordinary:
  assumes "set_option_i32 st opt v oc = (Inr (), oc')"
  shows "opt \<notin> {ZMQ_TYPE, ZMQ_TOPICS_COUNT, ZMQ_EVENTS, ZMQ_RCVMORE}"
  using assms by (cases rule: set_option_i32_cases)
    (auto simp: set_i32_basic_def set_i32_tcp_def set_i32_pattern_def set_i32_norm_security_def Let_def split: if_splits)

text \<open>Each way of setting a readable option leaves it to be read back.\<close>

definition option_bytes :: "ref \<Rightarrow> i32 \<Rightarrow> 'w world \<Rightarrow> bytes result" where
  "option_bytes k opt w =
     (let os = sk_options (w_sockets w k)
      in if is_gettable_bytes_sockopt opt then get_option_bytes opt os
         else if opt = ZMQ_AFFINITY then map_ok (\<lambda>v. to_ne 8 (unat v)) (get_option_u64 opt os)
         else if opt = ZMQ_MAXMSGSIZE then map_ok (to_ne_int 8) (get_option_i64 opt os)
         else map_ok (to_ne_int 4) (get_option_i32 opt os))"

lemma option_kinds:
  "\<not> is_settable_bytes_sockopt ZMQ_AFFINITY" "\<not> is_settable_bytes_sockopt ZMQ_MAXMSGSIZE"
  "\<not> is_gettable_bytes_sockopt ZMQ_AFFINITY" "\<not> is_gettable_bytes_sockopt ZMQ_MAXMSGSIZE"
  by (simp_all add: is_settable_bytes_sockopt_def is_gettable_bytes_sockopt_def)

lemma gettable_readable: "readable opt \<Longrightarrow> opt \<noteq> ZMQ_LAST_ENDPOINT \<Longrightarrow> is_gettable_bytes_sockopt opt \<longleftrightarrow> is_settable_bytes_sockopt opt"
  by (auto simp: readable_def is_gettable_bytes_sockopt_def)

lemma set_i32_no_endpoint: "set_option_i32 st ZMQ_LAST_ENDPOINT v oc = (Inl InvalidArgument, oc)"
  by (simp add: set_option_i32_def set_i32_basic_def set_i32_tcp_def set_i32_pattern_def set_i32_norm_security_def Let_def)

lemma read_back_u64: "length bs = 8 \<Longrightarrow> to_ne 8 (unat (word_of_nat (from_ne bs) :: u64)) = bs"
  using from_ne_less [of bs] to_ne_from_ne [of bs 8] by (simp add: unat_of_nat)

text \<open>What a successful \<open>zmq_setsockopt\<close> has done, for each kind of option.\<close>

definition option_was_set :: "nat \<Rightarrow> ref \<Rightarrow> i32 \<Rightarrow> bytes \<Rightarrow> 'w ffi \<Rightarrow> 'w ffi \<Rightarrow> bool" where
  "option_was_set i k opt bs s s' \<longleftrightarrow> s' = s\<lparr>c_worlds := c_worlds s', c_errno := 0\<rparr>
     \<and> option_bytes k opt (c_worlds s' i) = Inr (reads_as opt bs) \<and> opt \<notin> {ZMQ_TYPE, ZMQ_TOPICS_COUNT, ZMQ_EVENTS, ZMQ_RCVMORE}"

lemma set_bytes_effect:
  assumes "p \<noteq> 0" "c_sockets s p = Some (i, k)" and "mem_load (c_mem s) v n = Some bs"
    and set: "zmq_setsockopt p opt v n s = (Inr 0, s')" and "readable opt" and bytes: "is_settable_bytes_sockopt opt"
  shows "option_was_set i k opt bs s s'"
proof -
  have r: "opt \<notin> {ZMQ_SUBSCRIBE, ZMQ_UNSUBSCRIBE}"
    using assms(5) by (auto simp: readable_def)
  have "v \<noteq> 0 \<or> n = 0"
    using set bytes r assms(1,2) by (cases "v = 0 \<and> n \<noteq> 0") (auto simp: zmq_setsockopt_def with_socket_live bnd_apply slice_arg_null finish_run)
  then have "bnd (on_world i (socket_set_option_bytes k opt bs)) (\<lambda>r. finish (map_ok (\<lambda>_. 0) r)) s = (Inr 0, s')"
    using set bytes r assms(1-3) by (simp add: zmq_setsockopt_def with_socket_live bnd_apply slice_arg_run)
  then obtain oc' where o: "set_option_bytes (sk_type (w_sockets (c_worlds s i) k)) opt bs (socket_cells k (c_worlds s i)) = (Inr (), oc')"
    and s': "s' = s\<lparr>c_worlds := (c_worlds s)(i := store_cells k oc' (c_worlds s i)), c_errno := 0\<rparr>"
    by (auto simp: bnd_apply on_world_def socket_set_option_bytes_def finish_run map_prod_def map_ok_def split: prod.splits sum.splits)
  have "is_gettable_bytes_sockopt opt" "opt \<notin> {ZMQ_TYPE, ZMQ_TOPICS_COUNT, ZMQ_EVENTS, ZMQ_RCVMORE}"
    using bytes assms(5) by (auto simp: is_gettable_bytes_sockopt_def readable_def is_settable_bytes_sockopt_def)
  then show ?thesis
    using s' set_bytes_reads [OF o bytes assms(5)] by (simp add: option_was_set_def option_bytes_def sk_options_store_cells)
qed

lemma set_u64_effect:
  assumes "p \<noteq> 0" "c_sockets s p = Some (i, k)" and "mem_load (c_mem s) v n = Some bs"
    and set: "zmq_setsockopt p ZMQ_AFFINITY v n s = (Inr 0, s')"
  shows "option_was_set i k ZMQ_AFFINITY bs s s'"
proof -
  have n: "v \<noteq> 0" "n = 8"
    using set assms(1,2) by (auto simp: zmq_setsockopt_def with_socket_live option_kinds set_fixed_def finish_run split: if_splits)
  then have "s' = s\<lparr>c_worlds := (c_worlds s)(i := store_cells k
      (snd (set_option_u64 ZMQ_AFFINITY (word_of_nat (from_ne bs)) (socket_cells k (c_worlds s i)))) (c_worlds s i)), c_errno := 0\<rparr>"
    using set assms(1-3) by (simp add: zmq_setsockopt_def with_socket_live option_kinds set_fixed_def bnd_apply c_load_run
        on_world_def socket_set_option_u64_def set_option_u64_def finish_run)
  then show ?thesis
    using n mem_load_length [OF assms(3)]
    by (simp add: option_was_set_def option_bytes_def sk_options_store_cells option_kinds set_option_u64_def get_option_u64_def
        reads_as_def read_back_u64)
qed

lemma set_i64_effect:
  assumes "p \<noteq> 0" "c_sockets s p = Some (i, k)" and "mem_load (c_mem s) v n = Some bs"
    and set: "zmq_setsockopt p ZMQ_MAXMSGSIZE v n s = (Inr 0, s')"
  shows "option_was_set i k ZMQ_MAXMSGSIZE bs s s'"
proof -
  have n: "v \<noteq> 0" "n = 8"
    using set assms(1,2) by (auto simp: zmq_setsockopt_def with_socket_live option_kinds set_fixed_def finish_run split: if_splits)
  then have "s' = s\<lparr>c_worlds := (c_worlds s)(i := store_cells k
      (snd (set_option_i64 ZMQ_MAXMSGSIZE (from_ne_int bs) (socket_cells k (c_worlds s i)))) (c_worlds s i)), c_errno := 0\<rparr>"
    using set assms(1-3) by (simp add: zmq_setsockopt_def with_socket_live option_kinds set_fixed_def bnd_apply c_load_run
        on_world_def socket_set_option_i64_def set_option_i64_def finish_run)
  then show ?thesis
    using n mem_load_length [OF assms(3)]
    by (simp add: option_was_set_def option_bytes_def sk_options_store_cells option_kinds set_option_i64_def get_option_i64_def
        reads_as_def to_ne_from_ne_int)
qed

lemma set_i32_effect:
  assumes "p \<noteq> 0" "c_sockets s p = Some (i, k)" and "mem_load (c_mem s) v n = Some bs"
    and set: "zmq_setsockopt p opt v n s = (Inr 0, s')" and "readable opt"
    and i32: "\<not> is_settable_bytes_sockopt opt" "opt \<noteq> ZMQ_AFFINITY" "opt \<noteq> ZMQ_MAXMSGSIZE"
  shows "option_was_set i k opt bs s s'"
proof -
  have r: "opt \<notin> {ZMQ_SUBSCRIBE, ZMQ_UNSUBSCRIBE}" "opt \<noteq> ZMQ_XPUB_WELCOME_MSG"
    using assms(5) by (auto simp: readable_def)
  have n: "v \<noteq> 0" "n = 4"
    using set i32 r assms(1,2) by (auto simp: zmq_setsockopt_def with_socket_live set_fixed_def finish_run split: if_splits)
  then have "bnd (on_world i (socket_set_option_i32 k opt (from_ne_int bs))) (\<lambda>r. finish (map_ok (\<lambda>_. 0) r)) s = (Inr 0, s')"
    using set i32 r assms(1-3) by (simp add: zmq_setsockopt_def with_socket_live set_fixed_def bnd_apply c_load_run)
  then obtain oc' where o: "set_option_i32 (sk_type (w_sockets (c_worlds s i) k)) opt (from_ne_int bs) (socket_cells k (c_worlds s i)) = (Inr (), oc')"
    and s': "s' = s\<lparr>c_worlds := (c_worlds s)(i := store_cells k oc' (c_worlds s i)), c_errno := 0\<rparr>"
    by (auto simp: bnd_apply on_world_def socket_set_option_i32_def finish_run map_prod_def map_ok_def split: prod.splits sum.splits)
  have "opt \<noteq> ZMQ_LAST_ENDPOINT"
    using o set_i32_no_endpoint by auto
  then have "\<not> is_gettable_bytes_sockopt opt"
    using i32 assms(5) gettable_readable by blast
  moreover have "reads_as opt bs = to_ne_int 4 (stored_value opt (from_ne_int bs))"
    using i32 by (auto simp: reads_as_def is_settable_bytes_sockopt_def)
  moreover have "get_option_i32 opt (oc_options oc') = Inr (stored_value opt (from_ne_int bs))"
    using set_option_i32_reads_back [OF o] assms(5) by (simp add: reads_back_def readable_def)
  ultimately show ?thesis
    using s' set_i32_ordinary [OF o] i32 by (simp add: option_was_set_def option_bytes_def sk_options_store_cells)
qed

lemma getsockopt_run:
  assumes "p \<noteq> 0" "c_sockets s p = Some (i, k)" and "option_bytes k opt (c_worlds s i) = Inr bs"
    and "opt \<notin> {ZMQ_TYPE, ZMQ_TOPICS_COUNT, ZMQ_EVENTS, ZMQ_RCVMORE}" and "q \<noteq> 0" "l \<noteq> 0"
    and "mem_load (c_mem s) l 8 = Some (to_ne 8 available)" "available < 2 ^ 64" "enough opt available (length bs)"
  shows "zmq_getsockopt p opt q l s = give_bytes q l bs s"
proof -
  have w: "s\<lparr>c_worlds := (c_worlds s)(i := c_worlds s i)\<rparr> = s"
    by simp
  have a: "from_ne (to_ne 8 available) = available"
    using assms(8) by (simp add: from_ne_to_ne)
  note run = zmq_getsockopt_def with_socket_live [OF assms(1,2)] bnd_apply c_load_run [OF assms(7)] on_world_def w a Let_def assms(5,6)
  consider "is_gettable_bytes_sockopt opt" | "opt = ZMQ_AFFINITY" | "opt = ZMQ_MAXMSGSIZE"
    | (i32) "\<not> is_gettable_bytes_sockopt opt" "opt \<noteq> ZMQ_AFFINITY" "opt \<noteq> ZMQ_MAXMSGSIZE"
    by blast
  then show ?thesis
  proof cases
    case 1
    then have "available \<ge> length bs"
      using assms(9) option_kinds(3,4) unfolding enough_def by (metis empty_iff insert_iff)
    with 1 show ?thesis
      using assms(3) by (simp add: run read_option_def option_bytes_def)
  next
    case i32
    then obtain x where x: "get_option_i32 opt (sk_options (w_sockets (c_worlds s i) k)) = Inr x" "bs = to_ne_int 4 x"
      using assms(3) by (auto simp: option_bytes_def Let_def map_ok_def split: sum.splits)
    moreover have "\<not> available < 4"
      using assms(9) i32 x by (simp add: enough_def)
    ultimately show ?thesis
      using i32 assms(4) by (simp add: run get_fixed_def socket_get_option_i32_def)
  qed (use assms(3,9) in \<open>simp_all add: run option_kinds get_fixed_def read_option_def option_bytes_def enough_def from_ne_to_ne\<close>)
qed

text \<open>
  C21. Options cross the C interface unchanged. When \<open>zmq_setsockopt\<close> has accepted the bytes of a value
  for an option that can be read, \<open>zmq_getsockopt\<close> with a buffer that is large enough succeeds and stores
  there the same bytes, with the reduction of flags and heartbeat times and the closing NUL of the text
  options, and their number.
\<close>

theorem c_option_round_trip:
  assumes "p \<noteq> 0" "c_sockets s p = Some (i, k)" and "mem_load (c_mem s) v n = Some bs"
    and "zmq_setsockopt p opt v n s = (Inr 0, s')" and "readable opt"
    and "q \<noteq> 0" "l \<noteq> 0" "mem_load (c_mem s) q (length (reads_as opt bs)) \<noteq> None"
    and "mem_load (c_mem s) l 8 = Some (to_ne 8 available)" "available < 2 ^ 64" "enough opt available (length (reads_as opt bs))"
    and "q + length (reads_as opt bs) \<le> l \<or> l + 8 \<le> q"
  shows "\<exists>s''. zmq_getsockopt p opt q l s' = (Inr 0, s'') \<and> mem_load (c_mem s'') q (length (reads_as opt bs)) = Some (reads_as opt bs)
    \<and> mem_load (c_mem s'') l 8 = Some (to_ne 8 (length (reads_as opt bs)))"
proof -
  have "option_was_set i k opt bs s s'"
    using set_bytes_effect [OF assms(1-5)] set_i32_effect [OF assms(1-5)] set_u64_effect [OF assms(1-3)] set_i64_effect [OF assms(1-3)] assms(4)
    by blast
  then have o: "option_bytes k opt (c_worlds s' i) = Inr (reads_as opt bs)" "opt \<notin> {ZMQ_TYPE, ZMQ_TOPICS_COUNT, ZMQ_EVENTS, ZMQ_RCVMORE}"
    and "s' = s\<lparr>c_worlds := c_worlds s', c_errno := 0\<rparr>"
    by (simp_all add: option_was_set_def)
  then have "c_sockets s' = c_sockets s" "c_mem s' = c_mem s"
    by (metis ffi.select_convs(2,8) ffi.surjective ffi.update_convs(1,5))+
  then show ?thesis
    using getsockopt_run [of p s' i k opt "reads_as opt bs" q l available] give_bytes_run [of s' q "reads_as opt bs" l] assms o by simp
qed

text \<open>A socket behind the handle 5 in a state with the value 7 at the address 1000 and a buffer at 1100.\<close>

definition option_example :: "unit ffi" where
  "option_example = ffi_example\<lparr>c_sockets := [5 \<mapsto> (0, 0)],
     c_mem := write_bytes (write_bytes (c_mem ffi_example) 1000 (to_ne_int 4 7)) 1150 (to_ne 8 4)\<rparr>"

theorem c_option_round_trip_witness:
  "\<exists>s' s''. zmq_setsockopt 5 ZMQ_SNDHWM 1000 4 option_example = (Inr 0, s')
    \<and> zmq_getsockopt 5 ZMQ_SNDHWM 1100 1150 s' = (Inr 0, s'') \<and> mem_load (c_mem s'') 1100 4 = Some (to_ne_int 4 7)"
proof -
  let ?s = option_example
  have m: "mem_load (c_mem ?s) 1000 4 = Some (to_ne_int 4 7)" "mem_load (c_mem ?s) 1150 8 = Some (to_ne 8 4)"
    using load_written [of "c_mem ffi_example" 1000 "to_ne_int 4 7" "[]"] load_written [of _ 1150 "to_ne 8 4" "[]"]
    by (simp_all add: option_example_def load_other)
  have q: "mem_load (c_mem ?s) 1100 4 \<noteq> None"
    unfolding mem_load_defined by (simp add: option_example_def write_bytes_def ffi_example_def)
  have n: "from_ne_int (to_ne_int 4 7) = 7"
    by (rule from_ne_to_ne_int) simp_all
  have r: "reads_as ZMQ_SNDHWM (to_ne_int 4 7) = to_ne_int 4 7"
    by (simp add: reads_as_def is_settable_bytes_sockopt_def n stored_value_def flag_options_def)
  obtain s' where s': "zmq_setsockopt 5 ZMQ_SNDHWM 1000 4 ?s = (Inr 0, s')"
  proof -
    have "c_sockets ?s 5 = Some (0, 0)"
      by (simp add: option_example_def)
    then have "zmq_setsockopt 5 ZMQ_SNDHWM 1000 4 ?s =
        bnd (on_world 0 (socket_set_option_i32 0 ZMQ_SNDHWM 7)) (\<lambda>r. finish (map_ok (\<lambda>_. 0) r)) ?s"
      using c_load_run [OF m(1)]
      by (simp add: zmq_setsockopt_def with_socket_live is_settable_bytes_sockopt_def set_fixed_def bnd_apply n)
    then show thesis
      using that by (simp add: bnd_apply on_world_def socket_set_option_i32_def set_option_i32_def set_i32_basic_def finish_run)
  qed
  then have "\<exists>s''. zmq_getsockopt 5 ZMQ_SNDHWM 1100 1150 s' = (Inr 0, s'')
    \<and> mem_load (c_mem s'') 1100 (length (to_ne_int 4 7)) = Some (to_ne_int 4 7) \<and> mem_load (c_mem s'') 1150 8 = Some (to_ne 8 (length (to_ne_int 4 7)))"
    using c_option_round_trip [of 5 ?s 0 0 1000 4 "to_ne_int 4 7" ZMQ_SNDHWM s' 1100 1150 4] m q
    unfolding r by (simp add: option_example_def readable_def write_only_options_def enough_def)
  with s' show ?thesis
    by auto
qed


section \<open>Receiving into a buffer\<close>

lemma write_nothing [simp]: "write_bytes m a [] = m"
  by (rule ext) (auto simp: write_bytes_def)

lemma mem_load_shorter: "mem_load m p n \<noteq> None \<Longrightarrow> k \<le> n \<Longrightarrow> mem_load m p k \<noteq> None"
  unfolding mem_load_defined by simp

lemma copy_out_run:
  assumes "mem_load (c_mem s) buf (length d) \<noteq> None"
  shows "(if length d = 0 then ret () else c_store buf d) s = (Inr (), s\<lparr>c_mem := write_bytes (c_mem s) buf d\<rparr>)"
proof (cases "d = []")
  case True
  then show ?thesis by simp
next
  case False
  with assms show ?thesis by (simp add: c_store_ok)
qed

lemma zmq_recv_run:
  assumes "p \<noteq> 0" "c_sockets s p = Some (i, k)" and "recv W k flags (c_worlds s i) = (Inr m, w)"
    and "len = 0 \<or> buf \<noteq> 0" and "mem_load (c_mem s) buf (length (take len (data m))) \<noteq> None"
  shows "zmq_recv W p buf len flags s =
    (Inr (as_i32 (message_len m)), s\<lparr>c_worlds := (c_worlds s)(i := w), c_mem := write_bytes (c_mem s) buf (take len (data m)), c_errno := 0\<rparr>)"
proof -
  let ?s = "s\<lparr>c_worlds := (c_worlds s)(i := w)\<rparr>"
  have n: "min len (message_len m) = length (take len (data m))"
    by (simp add: message_len_def)
  let ?d = "take len (data m)"
  let ?copy = "if length ?d = 0 then ret () else c_store buf ?d"
  have copy: "?copy ?s = (Inr (), ?s\<lparr>c_mem := write_bytes (c_mem ?s) buf ?d\<rparr>)"
    using assms(5) by (intro copy_out_run) simp
  have "zmq_recv W p buf len flags s =
      bnd (if min len (message_len m) = 0 then ret () else c_store buf (take (min len (message_len m)) (data m)))
        (\<lambda>_. finish (Inr (as_i32 (message_len m)))) ?s"
    using assms(1-4) by (auto simp: zmq_recv_def with_socket_live Let_def bnd_apply [of "on_world _ _"] on_world_def)
  also have "\<dots> = bnd ?copy (\<lambda>_. finish (Inr (as_i32 (message_len m)))) ?s"
    unfolding n by (simp add: min_def)
  also have "\<dots> = finish (Inr (as_i32 (message_len m))) (?s\<lparr>c_mem := write_bytes (c_mem ?s) buf ?d\<rparr>)"
    by (simp only: bnd_ok [of ?copy, OF copy, of "\<lambda>_. finish (Inr (as_i32 (message_len m)))"])
  finally show ?thesis
    by (simp add: finish_run)
qed

text \<open>
  C15. \<open>zmq_recv\<close> stays in the buffer it is given. With a null or live socket handle and a buffer of \<open>len\<close>
  bytes the call returns whatever the socket does, never uses a pointer out of place, and leaves every
  byte outside of the buffer as it was. When it returns the length of a message, the buffer begins with
  the bytes of the message, as many as fit, and the rest of the buffer is unchanged.
\<close>

theorem zmq_recv_in_bounds:
  assumes "p = 0 \<or> c_sockets s p \<noteq> None" and "buf = 0 \<or> mem_load (c_mem s) buf len \<noteq> None"
  shows "\<exists>r s' d. zmq_recv W p buf len flags s = (Inr r, s') \<and> length d \<le> len \<and> c_mem s' = write_bytes (c_mem s) buf d
    \<and> (r \<noteq> - 1 \<longrightarrow> (\<exists>i k m w. c_sockets s p = Some (i, k) \<and> recv W k flags (c_worlds s i) = (Inr m, w)
          \<and> r = as_i32 (message_len m) \<and> d = take len (data m) \<and> c_worlds s' = (c_worlds s)(i := w)))"
proof -
  have refused: ?thesis if "zmq_recv W p buf len flags s = (Inr (- 1), s1)" "c_mem s1 = c_mem s" for s1
    using that by (intro exI [of _ "- 1"] exI [of _ s1] exI [of _ "[]"]) simp
  consider (null) "p = 0" | (live) i k where "p \<noteq> 0" "c_sockets s p = Some (i, k)"
    using assms(1) by auto
  then show ?thesis
  proof cases
    case null
    then have "zmq_recv W p buf len flags s = (Inr (- 1), s\<lparr>c_errno := errno InvalidSocket\<rparr>)"
      by (simp add: zmq_recv_def with_socket_def socket_from_raw_def from_raw_def bnd_apply finish_run)
    then show ?thesis
      by (rule refused) simp
  next
    case live
    obtain r w where w: "recv W k flags (c_worlds s i) = (r, w)"
      by fastforce
    note run = zmq_recv_def with_socket_live [OF live] bnd_apply on_world_def w Let_def finish_run
    show ?thesis
    proof (cases "buf = 0 \<and> len \<noteq> 0")
      case True
      then show ?thesis
        by (intro refused [of "s\<lparr>c_errno := errno InvalidArgument\<rparr>"]) (simp_all add: run)
    next
      case False
      show ?thesis
      proof (cases r)
        case (Inl e)
        with False show ?thesis
          by (intro refused [of "s\<lparr>c_worlds := (c_worlds s)(i := w), c_errno := errno e\<rparr>"]) (auto simp: run)
      next
        case (Inr m)
        let ?d = "take len (data m)"
        have "mem_load (c_mem s) buf (length ?d) \<noteq> None"
          using assms(2) False mem_load_shorter [of "c_mem s" buf len "length ?d"] by (cases "len = 0") auto
        then have "zmq_recv W p buf len flags s =
            (Inr (as_i32 (message_len m)), s\<lparr>c_worlds := (c_worlds s)(i := w), c_mem := write_bytes (c_mem s) buf ?d, c_errno := 0\<rparr>)"
          using False Inr w live by (intro zmq_recv_run) auto
        then show ?thesis
          using live(2) w Inr by (intro exI conjI impI) (auto intro!: exI)
      qed
    qed
  qed
qed

theorem zmq_recv_in_bounds_witness:
  "\<exists>r s' d. zmq_recv no_wires 5 1100 4 0 option_example = (Inr r, s') \<and> length d \<le> 4 \<and> c_mem s' = write_bytes (c_mem option_example) 1100 d"
proof -
  have "mem_load (c_mem option_example) 1100 4 \<noteq> None"
    unfolding mem_load_defined by (simp add: option_example_def write_bytes_def ffi_example_def)
  moreover have "c_sockets option_example 5 \<noteq> None"
    by (simp add: option_example_def)
  ultimately show ?thesis
    using zmq_recv_in_bounds [of 5 option_example 1100 4 no_wires 0] by blast
qed


section \<open>A program over the C interface\<close>

text \<open>
  Two sockets of one context are joined over an in-process name; a buffer is sent from the one and received
  into a buffer by the other.
\<close>

definition c_open_pair :: "'w wires \<Rightarrow> 'w \<Rightarrow> ptr \<Rightarrow> ('w, ptr \<times> ptr) c_fun" where
  "c_open_pair W w0 ep =
     bnd (zmq_ctx_new w0) (\<lambda>ctx. bnd (zmq_socket ctx ZMQ_PAIR) (\<lambda>a. bnd (zmq_socket ctx ZMQ_PAIR) (\<lambda>b.
     bnd (zmq_bind W a ep) (\<lambda>_. bnd (zmq_connect W b ep) (\<lambda>_. ret (a, b))))))"

definition c_transfer :: "'w wires \<Rightarrow> ptr \<Rightarrow> ptr \<Rightarrow> ptr \<Rightarrow> nat \<Rightarrow> ptr \<Rightarrow> nat \<Rightarrow> ('w, i32 \<times> i32) c_fun" where
  "c_transfer W a b buf len out cap =
     bnd (zmq_send W b buf len 0) (\<lambda>sent. bnd (zmq_recv W a out cap 0) (\<lambda>got. ret (sent, got)))"

lemma bnd_InrE:
  assumes "bnd m f s = (Inr x, s')"
  obtains y s1 where "m s = (Inr y, s1)" "f y s1 = (Inr x, s')"
  using assms by (cases "m s") (auto simp: bnd_apply split: sum.splits)

lemma context_live: "ctx \<noteq> 0 \<Longrightarrow> c_contexts s ctx = Some i \<Longrightarrow> context_from_raw ctx s = (Inr (Inr i), s)"
  by (simp add: context_from_raw_def from_raw_def deref_def bnd_apply)

lemma zmq_socket_run:
  assumes "ctx \<noteq> 0" "c_contexts s ctx = Some i" and "context_socket Pair (c_worlds s i) = (Inr k, w)" and "c_next s < 2 ^ 64"
  shows "zmq_socket ctx ZMQ_PAIR s = (Inr (c_next s), s\<lparr>c_worlds := (c_worlds s)(i := w), c_errno := 0, c_next := c_next s + 1,
      c_sockets := (c_sockets s)(c_next s \<mapsto> (i, k))\<rparr>)"
proof -
  have "socket_type_try_from ZMQ_PAIR = Inr Pair"
    by (simp add: socket_type_try_from_def)
  then show ?thesis
    using assms by (simp add: zmq_socket_def bnd_apply context_live on_world_def clear_errno_def set_errno_def fresh_ptr_def)
qed

lemma endpoint_call_run:
  assumes "p \<noteq> 0" "c_sockets s p = Some (i, k)" and "ep \<noteq> 0" "c_string_at (c_mem s) ep = Some name" "utf8_valid name"
    and "f k name (c_worlds s i) = (Inr (), w)"
  shows "endpoint_call f p ep s = (Inr 0, s\<lparr>c_worlds := (c_worlds s)(i := w), c_errno := 0\<rparr>)"
  using assms by (simp add: endpoint_call_def with_socket_live bnd_apply endpoint_from_raw_def c_string_def on_world_def finish_run)

lemma c_string_loaded:
  assumes "mem_load m p (length bs + 1) = Some (bs @ [0])" and "0 \<notin> set bs" and "p + length bs < 2 ^ 64"
  shows "c_string_at m p = Some bs"
  using assms
proof (induction bs arbitrary: p)
  case Nil
  then show ?case
    by (simp add: c_string_at.simps [of m p] mem_load_Some_iff)
next
  case (Cons b bs)
  have b: "m (p + i) = Some ((b # bs @ [0]) ! i)" if "i < length bs + 2" for i
    using Cons.prems(1) that by (simp add: mem_load_Some_iff)
  have "m (p + 1 + i) = Some ((bs @ [0]) ! i)" if "i < length bs + 1" for i
    using b [of "Suc i"] that by simp
  then have "c_string_at m (p + 1) = Some bs"
    using Cons.prems by (intro Cons.IH) (auto simp: mem_load_Some_iff)
  then show ?case
    using b [of 0] Cons.prems by (simp add: c_string_at.simps [of m p])
qed

lemma open_pair_worlds:
  fixes W :: "'w wires"
  assumes "\<forall>k. active_wire W k (world_new w0) = None"
  obtains w1 w2 w3 w4 a b where "context_socket Pair (world_new w0) = (Inr a, w1)" "context_socket Pair w1 = (Inr b, w2)"
    "bind W a (lit ''inproc://'' @ name) w2 = (Inr (), w3)" "connect W b (lit ''inproc://'' @ name) w3 = (Inr (), w4)"
    "direct_link W a b w4" "link_queue a w4 = []"
proof -
  let ?w = "world_new w0"
  have "ctx_state ?w = STATE_RUNNING" "ctx_inproc_endpoints ?w name = None" "ctx_pending_inproc ?w name = None"
    and c: "inproc_types_compatible Pair Pair" "Pair \<noteq> Xsub"
    by (simp_all add: inproc_types_compatible_def)
  then obtain w' ka kb where o: "open_link W Pair Pair (lit ''inproc://'' @ name) ?w = (Inr (next_ref ?w, next_ref ?w + 1), w')"
    and k: "w_sockets w' = (w_sockets ?w)(next_ref ?w := ka, next_ref ?w + 1 := kb)" "sk_type ka = Pair" "sk_inbox ka = next_ref ?w"
    "sk_type kb = Pair" "sk_inproc_fast_send_enabled kb"
    "sk_inproc kb = \<lparr>ip_direct_outbox = Some (next_ref ?w), ip_connected_endpoint = Some name,
       ip_bound_endpoint_name = None, ip_bound_endpoint = None\<rparr>"
    "ctx_inproc_endpoints w' = (ctx_inproc_endpoints ?w)(name \<mapsto> next_ref ?w + 2)"
    "ep_binder_type (endpoints w' (next_ref ?w + 2)) = Pair"
    "queues w' = (queues ?w)(next_ref ?w := [], next_ref ?w + 1 := [])" "w_wire w' = w_wire ?w"
    by (rule open_link_ok [of ?w name Pair Pair W]) blast
  have l: "direct_link W (next_ref ?w) (next_ref ?w + 1) w'" "link_queue (next_ref ?w) w' = []"
    using k assms active_wire_cong [OF k(10), of W "next_ref ?w"]
    by (auto simp: direct_link_def connected_bound_def inproc_endpoint_of_def can_recv_def)
  from o show thesis
    unfolding open_link_def by (elim bnd_InrE) (use l that in auto)
qed

lemma c_open_pair_run:
  fixes W :: "'w wires" and s :: "'w ffi"
  assumes "\<forall>k. active_wire W k (world_new w0) = None"
    and "0 < c_next s" "c_next s + 2 < 2 ^ 64"
    and "ep \<noteq> 0" "c_string_at (c_mem s) ep = Some (lit ''inproc://'' @ name)" "utf8_valid (lit ''inproc://'' @ name)"
  obtains s' i a b where "c_open_pair W w0 ep s = (Inr (c_next s + 1, c_next s + 2), s')" "c_mem s' = c_mem s"
    "c_sockets s' (c_next s + 1) = Some (i, a)" "c_sockets s' (c_next s + 2) = Some (i, b)"
    "direct_link W a b (c_worlds s' i)" "link_queue a (c_worlds s' i) = []"
proof -
  obtain w1 w2 w3 w4 a b where w: "context_socket Pair (world_new w0) = (Inr a, w1)" "context_socket Pair w1 = (Inr b, w2)"
    "bind W a (lit ''inproc://'' @ name) w2 = (Inr (), w3)" "connect W b (lit ''inproc://'' @ name) w3 = (Inr (), w4)"
    and l: "direct_link W a b w4" "link_queue a w4 = []"
    using open_pair_worlds [OF assms(1)] by metis
  let ?i = "c_next_world s"
  let ?s1 = "s\<lparr>c_errno := 0, c_next := c_next s + 1, c_worlds := (c_worlds s)(?i := world_new w0), c_next_world := ?i + 1,
      c_contexts := (c_contexts s)(c_next s \<mapsto> ?i)\<rparr>"
  let ?s2 = "?s1\<lparr>c_worlds := (c_worlds ?s1)(?i := w1), c_errno := 0, c_next := c_next ?s1 + 1,
      c_sockets := (c_sockets ?s1)(c_next ?s1 \<mapsto> (?i, a))\<rparr>"
  let ?s3 = "?s2\<lparr>c_worlds := (c_worlds ?s2)(?i := w2), c_errno := 0, c_next := c_next ?s2 + 1,
      c_sockets := (c_sockets ?s2)(c_next ?s2 \<mapsto> (?i, b))\<rparr>"
  let ?s4 = "?s3\<lparr>c_worlds := (c_worlds ?s3)(?i := w3), c_errno := 0\<rparr>"
  let ?s5 = "?s4\<lparr>c_worlds := (c_worlds ?s4)(?i := w4), c_errno := 0\<rparr>"
  have 1: "zmq_ctx_new w0 s = (Inr (c_next s), ?s1)"
    using assms(3) by (simp add: zmq_ctx_new_def bnd_apply clear_errno_def set_errno_def fresh_ptr_def)
  have 2: "zmq_socket (c_next s) ZMQ_PAIR ?s1 = (Inr (c_next s + 1), ?s2)"
    using zmq_socket_run [of "c_next s" ?s1 ?i a w1] assms(2,3) w(1) by simp
  have 3: "zmq_socket (c_next s) ZMQ_PAIR ?s2 = (Inr (c_next s + 2), ?s3)"
    using zmq_socket_run [of "c_next s" ?s2 ?i b w2] assms(2,3) w(2) by simp
  have 4: "zmq_bind W (c_next s + 1) ep ?s3 = (Inr 0, ?s4)"
    unfolding zmq_bind_def using w(3) assms(4-6) by (intro endpoint_call_run) auto
  have 5: "zmq_connect W (c_next s + 2) ep ?s4 = (Inr 0, ?s5)"
    unfolding zmq_connect_def using w(4) assms(4-6) by (intro endpoint_call_run) auto
  have "c_open_pair W w0 ep s = (Inr (c_next s + 1, c_next s + 2), ?s5)"
    unfolding c_open_pair_def by (simp only: bnd_ok [of "zmq_ctx_new w0", OF 1] bnd_ok [of "zmq_socket _ _", OF 2]
        bnd_ok [of "zmq_socket _ _", OF 3] bnd_ok [of "zmq_bind _ _ _", OF 4] bnd_ok [of "zmq_connect _ _ _", OF 5] ret_apply)
  then show thesis
    by (rule that) (use l in auto)
qed

lemma c_transfer_run:
  fixes W :: "'w wires" and s :: "'w ffi"
  assumes "p \<noteq> 0" "c_sockets s p = Some (i, a)" and "q \<noteq> 0" "c_sockets s q = Some (i, b)"
    and l: "direct_link W a b (c_worlds s i)" "link_queue a (c_worlds s i) = []"
    and "mem_load (c_mem s) buf len = Some bs" "buf \<noteq> 0 \<or> len = 0" "len < 2 ^ 31"
    and "mem_load (c_mem s) out cap \<noteq> None" "cap = 0 \<or> out \<noteq> 0"
  shows "\<exists>s'. c_transfer W p q buf len out cap s = (Inr (int len, int len), s') \<and> c_mem s' = write_bytes (c_mem s) out (take cap bs)"
proof -
  let ?m = "message_from_slice bs" and ?w = "c_worlds s i"
  let ?w1 = "push_back (sk_inbox (w_sockets ?w a)) (set_more False ?m) ?w"
  let ?s1 = "s\<lparr>c_worlds := (c_worlds s)(i := ?w1), c_errno := 0\<rparr>"
  have len: "length bs = len"
    using mem_load_length [OF assms(7)] .
  then have m: "message_len ?m = len" "as_i32 len = int len" "data (set_more False ?m) = bs"
    using assms(9) by (simp_all add: message_len_def as_i32_def)
  have "send W b ?m 0 ?w = (Inr len, ?w1)"
    using link_send [OF l(1), of ?m 0] m by simp
  then have 1: "zmq_send W q buf len 0 s = (Inr (int len), ?s1)"
    using assms(3,4) m slice_arg_run [OF assms(7,8)] by (simp add: zmq_send_def with_socket_live bnd_apply on_world_def finish_run)
  have l1: "direct_link W a b ?w1"
    using l(1) by (subst direct_link_cong [of _ b ?w]) simp_all
  have q1: "link_queue a ?w1 = [set_more False ?m]"
    using l(2) by simp
  obtain r w2 where "recv W a 0 ?w1 = (r, w2)"
    by fastforce
  with link_recv [OF l1 this] q1 have r: "recv W a 0 ?w1 = (Inr (set_more False ?m), w2)"
    by auto
  have "zmq_recv W p out cap 0 ?s1 = (Inr (as_i32 (message_len (set_more False ?m))), ?s1\<lparr>c_worlds := (c_worlds ?s1)(i := w2),
      c_mem := write_bytes (c_mem ?s1) out (take cap (data (set_more False ?m))), c_errno := 0\<rparr>)"
    using assms(1,2,10,11) r mem_load_shorter [OF assms(10), of "length (take cap bs)"] m by (intro zmq_recv_run) auto
  then have 2: "\<exists>s2. zmq_recv W p out cap 0 ?s1 = (Inr (int len), s2) \<and> c_mem s2 = write_bytes (c_mem s) out (take cap bs)"
    using m len by (simp add: message_len_def)
  then show ?thesis
    unfolding c_transfer_def by (auto simp: bnd_apply 1)
qed

text \<open>
  C8. A C program delivers its data. In any state with addresses left, \<open>zmq_ctx_new\<close>, two calls of \<open>zmq_socket\<close>,
  \<open>zmq_bind\<close> and \<open>zmq_connect\<close> on the same in-process name all succeed; a \<open>zmq_send\<close> of a buffer and a
  \<open>zmq_recv\<close> into another then both return the length of the buffer sent, and the receiving buffer begins with
  its bytes, as many as fit; the rest of the memory is unchanged.
\<close>

theorem c_program_delivers:
  fixes W :: "'w wires" and s :: "'w ffi"
  assumes "\<forall>k. active_wire W k (world_new w0) = None"
    and "0 < c_next s" "c_next s + 2 < 2 ^ 64"
    and "ep \<noteq> 0" "c_string_at (c_mem s) ep = Some (lit ''inproc://'' @ name)" "utf8_valid (lit ''inproc://'' @ name)"
    and "mem_load (c_mem s) buf len = Some bs" "buf \<noteq> 0 \<or> len = 0" "len < 2 ^ 31"
    and "mem_load (c_mem s) out cap \<noteq> None" "cap = 0 \<or> out \<noteq> 0"
  shows "\<exists>s'. bnd (c_open_pair W w0 ep) (\<lambda>(a, b). c_transfer W a b buf len out cap) s = (Inr (int len, int len), s')
    \<and> c_mem s' = write_bytes (c_mem s) out (take cap bs)"
proof -
  obtain s1 i a b where 1: "c_open_pair W w0 ep s = (Inr (c_next s + 1, c_next s + 2), s1)" and s1: "c_mem s1 = c_mem s"
    "c_sockets s1 (c_next s + 1) = Some (i, a)" "c_sockets s1 (c_next s + 2) = Some (i, b)"
    "direct_link W a b (c_worlds s1 i)" "link_queue a (c_worlds s1 i) = []"
    by (rule c_open_pair_run [OF assms(1-6)]) blast
  have "\<exists>s'. c_transfer W (c_next s + 1) (c_next s + 2) buf len out cap s1 = (Inr (int len, int len), s')
      \<and> c_mem s' = write_bytes (c_mem s1) out (take cap bs)"
    using s1 assms(7-11) by (intro c_transfer_run) auto
  then show ?thesis
    by (simp only: bnd_ok [of "c_open_pair _ _ _", OF 1] prod.case s1(1))
qed

definition program_example :: "unit ffi" where
  "program_example = ffi_example\<lparr>c_next := 5, c_mem := write_bytes (write_bytes (c_mem ffi_example) 1000 (lit ''inproc://a'' @ [0])) 1100 [1, 2, 3]\<rparr>"

theorem c_program_delivers_witness:
  "\<exists>s'. bnd (c_open_pair no_wires () 1000) (\<lambda>(a, b). c_transfer no_wires a b 1100 3 1150 2) program_example = (Inr (3, 3), s')
    \<and> mem_load (c_mem s') 1150 2 = Some [1, 2]"
proof -
  let ?s = program_example
  have a: "lit ''inproc://'' @ lit ''a'' = lit ''inproc://a''" "length (lit ''inproc://a'') = 10" "0 \<notin> set (lit ''inproc://a'')"
    by (simp_all add: lit_def)
  have "c_string_at (c_mem ?s) 1000 = Some (lit ''inproc://'' @ lit ''a'')"
    unfolding a(1) using a(2,3) load_written [of "c_mem ffi_example" 1000 "lit ''inproc://a'' @ [0]" "[]"]
    by (intro c_string_loaded) (simp_all add: program_example_def load_other)
  moreover have "utf8_valid (lit ''inproc://'' @ lit ''a'')"
    by code_simp
  moreover have "mem_load (c_mem ?s) 1100 3 = Some [1, 2, 3]"
    using load_written [of _ 1100 "[1, 2, 3]" "[]"] by (simp add: program_example_def numeral_3_eq_3)
  moreover have "mem_load (c_mem ?s) 1150 2 \<noteq> None"
    unfolding mem_load_defined by (simp add: program_example_def write_bytes_def ffi_example_def)
  ultimately have "\<exists>s'. bnd (c_open_pair no_wires () 1000) (\<lambda>(a, b). c_transfer no_wires a b 1100 3 1150 2) ?s = (Inr (int 3, int 3), s')
      \<and> c_mem s' = write_bytes (c_mem ?s) 1150 (take 2 [1, 2, 3])"
    by (intro c_program_delivers [of no_wires "()" ?s 1000 "lit ''a''" 1100 3 "[1, 2, 3]" 1150 2]) (simp_all add: program_example_def)
  then show ?thesis
    using load_written [of "c_mem ?s" 1150 "[1, 2]" "[]"] by (auto simp: numeral_2_eq_2)
qed

end
