(* ===== verification/Ffi_Objects.thy ===== *)
theory Ffi_Objects
  imports Ffi_Data
begin

text \<open>
  The objects of the C interface that keep tables: a poller is a finite map from sockets and descriptors to
  their events; a set of timers tells how long to wait, and fires what is due.
\<close>

section \<open>A poller is a map\<close>

datatype watched = Sock ptr | Desc i32

datatype poller_op = Watch watched ptr int | Rewatch watched int | Unwatch watched

type_synonym registry = "watched \<rightharpoonup> ptr \<times> int"

text \<open>The specification: a change of the map, or a refusal.\<close>

fun registry_step :: "poller_op \<Rightarrow> registry \<Rightarrow> registry option" where
  "registry_step (Watch k u ev) m = (if m k = None then Some (m(k \<mapsto> (u, ev))) else None)"
| "registry_step (Rewatch k ev) m = (case m k of None \<Rightarrow> None | Some (u, _) \<Rightarrow> Some (m(k \<mapsto> (u, ev))))"
| "registry_step (Unwatch k) m = (if m k = None then None else Some (m(k := None)))"

definition known_events :: "int \<Rightarrow> bool" where
  "known_events ev \<longleftrightarrow> validate_poller_events ev = Inr ()"

fun op_key :: "poller_op \<Rightarrow> watched" where
  "op_key (Watch k u ev) = k"
| "op_key (Rewatch k ev) = k"
| "op_key (Unwatch k) = k"

fun op_events_ok :: "poller_op \<Rightarrow> bool" where
  "op_events_ok (Watch k u ev) = known_events ev"
| "op_events_ok (Rewatch k ev) = known_events ev"
| "op_events_ok (Unwatch k) = True"

definition registry_call :: "poller_op \<Rightarrow> registry \<Rightarrow> i32 \<times> registry" where
  "registry_call op m =
     (if op_key op = Sock 0 \<or> \<not> op_events_ok op then (- 1, m)
      else case registry_step op m of None \<Rightarrow> (- 1, m) | Some m' \<Rightarrow> (0, m'))"

fun registry_run :: "poller_op list \<Rightarrow> registry \<Rightarrow> i32 list \<times> registry" where
  "registry_run [] m = ([], m)"
| "registry_run (op # ops) m = (case registry_call op m of (r, m1) \<Rightarrow> map_prod ((#) r) id (registry_run ops m1))"

text \<open>The calls of the interface.\<close>

fun poller_call :: "ptr \<Rightarrow> poller_op \<Rightarrow> ('w, i32) c_fun" where
  "poller_call p (Watch (Sock k) u ev) = zmq_poller_add p k u ev"
| "poller_call p (Watch (Desc fd) u ev) = zmq_poller_add_fd p fd u ev"
| "poller_call p (Rewatch (Sock k) ev) = zmq_poller_modify p k ev"
| "poller_call p (Rewatch (Desc fd) ev) = zmq_poller_modify_fd p fd ev"
| "poller_call p (Unwatch (Sock k)) = zmq_poller_remove p k"
| "poller_call p (Unwatch (Desc fd)) = zmq_poller_remove_fd p fd"

fun poller_run :: "ptr \<Rightarrow> poller_op list \<Rightarrow> ('w, i32 list) c_fun" where
  "poller_run p [] = ret []"
| "poller_run p (op # ops) = bnd (poller_call p op) (\<lambda>r. bnd (poller_run p ops) (\<lambda>rs. ret (r # rs)))"

text \<open>The map a list of entries stands for.\<close>

definition entry_key :: "poller_entry \<Rightarrow> watched" where
  "entry_key e = (if pe_is_fd e then Desc (pe_fd e) else Sock (pe_socket e))"

definition registry_of :: "poller_entry list \<Rightarrow> registry" where
  "registry_of es = map_of (map (\<lambda>e. (entry_key e, pe_user_data e, pe_events e)) es)"

definition entries_inv :: "poller_entry list \<Rightarrow> bool" where
  "entries_inv es \<longleftrightarrow> distinct (map entry_key es)"

lemma entry_tests: "is_socket_entry p = (\<lambda>e. entry_key e = Sock p)" "is_fd_entry fd = (\<lambda>e. entry_key e = Desc fd)"
  "(\<not> pe_is_fd e \<and> pe_socket e = p) = (entry_key e = Sock p)" "(pe_is_fd e \<and> pe_fd e = fd) = (entry_key e = Desc fd)"
  by (auto simp: fun_eq_iff is_socket_entry_def is_fd_entry_def entry_key_def)

lemma registry_of_simps [simp]: "registry_of [] = Map.empty"
  "registry_of (e # es) = (registry_of es)(entry_key e \<mapsto> (pe_user_data e, pe_events e))"
  by (simp_all add: registry_of_def)

lemma registry_of_None: "registry_of es k = None \<longleftrightarrow> k \<notin> entry_key ` set es"
  by (induction es) auto

lemma dom_registry_of: "dom (registry_of es) = entry_key ` set es"
  by (simp add: registry_of_def dom_map_of_conv_image_fst image_image)

lemma card_registry: "entries_inv es \<Longrightarrow> card (dom (registry_of es)) = length es"
  using distinct_card [of "map entry_key es"] by (simp add: dom_registry_of entries_inv_def)

lemma registry_snoc:
  "registry_of es (entry_key e) = None \<Longrightarrow> registry_of (es @ [e]) = (registry_of es)(entry_key e \<mapsto> (pe_user_data e, pe_events e))"
  by (induction es) (auto simp: fun_upd_twist split: if_splits)

text \<open>Each change of the entries is the change of the map.\<close>

lemma entries_add_key:
  "entries_add p u ev es = (if Sock p \<in> entry_key ` set es then Inl InvalidArgument
     else Inr (es @ [\<lparr>pe_socket = p, pe_fd = 0, pe_user_data = u, pe_events = ev, pe_is_fd = False\<rparr>]))"
  "entries_add_fd fd u ev es = (if Desc fd \<in> entry_key ` set es then Inl InvalidArgument
     else Inr (es @ [\<lparr>pe_socket = 0, pe_fd = fd, pe_user_data = u, pe_events = ev, pe_is_fd = True\<rparr>]))"
  unfolding entries_add_def entries_add_fd_def entry_tests list_ex_iff image_iff by (auto simp: eq_commute)

lemma entries_add_refines:
  assumes "entries_inv es" and "entry_key e = k" "pe_user_data e = u" "pe_events e = ev"
    and "r = (if k \<in> entry_key ` set es then Inl x else Inr (es @ [e]))"
  shows "case r of Inl x \<Rightarrow> registry_step (Watch k u ev) (registry_of es) = None
    | Inr es' \<Rightarrow> entries_inv es' \<and> registry_step (Watch k u ev) (registry_of es) = Some (registry_of es')"
proof (cases "registry_of es k")
  case None
  then show ?thesis
    using assms registry_snoc [of es e] registry_of_None [of es k] by (auto simp: entries_inv_def)
next
  case (Some v)
  then show ?thesis
    using assms registry_of_None [of es k] by auto
qed

lemma entries_modify_refines:
  assumes "entries_inv es"
  shows "case entries_modify (\<lambda>e. entry_key e = k) ev es of Inl e \<Rightarrow> registry_step (Rewatch k ev) (registry_of es) = None
    | Inr es' \<Rightarrow> map entry_key es' = map entry_key es \<and> registry_step (Rewatch k ev) (registry_of es) = Some (registry_of es')"
  using assms
proof (induction es)
  case (Cons e es)
  have key: "entry_key (e\<lparr>pe_events := ev\<rparr>) = entry_key e"
    by (simp add: entry_key_def)
  show ?case
  proof (cases "entry_key e = k")
    case False
    moreover have "entries_inv es"
      using Cons.prems by (simp add: entries_inv_def)
    ultimately show ?thesis
      using Cons.IH by (auto simp: map_ok_def fun_eq_iff split: sum.splits option.splits) metis+
  qed (simp add: key)
qed simp

lemma entries_remove_refines:
  assumes "entries_inv es"
  shows "case entries_remove (\<lambda>e. entry_key e = k) es of Inl e \<Rightarrow> registry_step (Unwatch k) (registry_of es) = None
    | Inr es' \<Rightarrow> entries_inv es' \<and> registry_step (Unwatch k) (registry_of es) = Some (registry_of es')"
proof -
  let ?l = "filter (\<lambda>e. entry_key e \<noteq> k) es"
  have "registry_of ?l = (registry_of es)(k := None)"
    by (induction es) (auto simp: fun_upd_twist)
  moreover have "length ?l \<noteq> length es \<longleftrightarrow> k \<in> entry_key ` set es"
    by (induction es) (auto simp: image_iff, metis le_imp_less_Suc length_filter_le less_irrefl)
  moreover have "entries_inv ?l"
    using assms by (simp add: entries_inv_def distinct_map_filter)
  ultimately show ?thesis
    using registry_of_None [of es k] by (auto simp: entries_remove_def Let_def)
qed

text \<open>Every call is the call of the specification.\<close>

lemma with_poller_live: "p \<noteq> 0 \<Longrightarrow> c_pollers s p = Some es \<Longrightarrow> with_poller p f s = f es s"
  by (simp add: with_poller_def poller_from_raw_def from_raw_def deref_def bnd_apply)

lemma change_entries_run:
  "change_entries p (Inl e) s = (Inr (- 1), s\<lparr>c_errno := errno e\<rparr>)"
  "change_entries p (Inr es) s = (Inr 0, s\<lparr>c_pollers := (c_pollers s)(p \<mapsto> es), c_errno := 0\<rparr>)"
  by (simp_all add: change_entries_def set_entries_def bnd_apply finish_run)

lemma events_checked: "known_events ev \<Longrightarrow> validate_poller_events ev = Inr ()" "\<not> known_events ev \<Longrightarrow> validate_poller_events ev = Inl InvalidArgument"
  by (auto simp: known_events_def validate_poller_events_def split: if_splits)

lemma socket_checked:
  "k \<noteq> 0 \<Longrightarrow> c_sockets s k \<noteq> None \<Longrightarrow> \<exists>h. socket_from_raw k s = (Inr (Inr h), s)" "socket_from_raw 0 s = (Inr (Inl InvalidSocket), s)"
  by (auto simp: socket_from_raw_def from_raw_def deref_def bnd_apply)

text \<open>The state after a call on the poller \<open>p\<close>: only the error number and the entries may differ.\<close>

definition poller_follows :: "ptr \<Rightarrow> 'w ffi \<Rightarrow> (ffi_fault + i32) \<times> 'w ffi \<Rightarrow> i32 \<times> registry \<Rightarrow> bool" where
  "poller_follows p s result spec \<longleftrightarrow>
     (\<exists>e es'. result = (Inr (fst spec), s\<lparr>c_pollers := (c_pollers s)(p \<mapsto> es'), c_errno := e\<rparr>) \<and> entries_inv es' \<and> registry_of es' = snd spec)"

lemma poller_refused:
  "c_pollers s p = Some es \<Longrightarrow> entries_inv es \<Longrightarrow> poller_follows p s (Inr (- 1), s\<lparr>c_errno := e\<rparr>) (- 1, registry_of es)"
  unfolding poller_follows_def by (rule exI [of _ e], rule exI [of _ es]) (simp add: fun_upd_idem)

lemma poller_changed:
  assumes "c_pollers s p = Some es" "entries_inv es" and "op_key op \<noteq> Sock 0" "op_events_ok op"
    and "case r of Inl e \<Rightarrow> registry_step op (registry_of es) = None
      | Inr es' \<Rightarrow> entries_inv es' \<and> registry_step op (registry_of es) = Some (registry_of es')"
  shows "poller_follows p s (change_entries p r s) (registry_call op (registry_of es))"
proof (cases r)
  case (Inl e)
  then show ?thesis
    using assms poller_refused [OF assms(1,2), of "errno e"] by (simp add: registry_call_def change_entries_run)
next
  case (Inr es')
  then show ?thesis
    using assms by (auto simp: registry_call_def change_entries_run poller_follows_def)
qed

text \<open>The handle of an operation on a socket is null or that of a socket.\<close>

definition op_safe :: "(ptr \<rightharpoonup> nat \<times> ref) \<Rightarrow> poller_op \<Rightarrow> bool" where
  "op_safe socks op \<longleftrightarrow> (case op_key op of Sock k \<Rightarrow> k = 0 \<or> socks k \<noteq> None | Desc _ \<Rightarrow> True)"

lemma op_safe_live:
  assumes "op_safe (c_sockets s) op" "op_key op = Sock k" "op_key op \<noteq> Sock 0"
  shows "\<exists>h. socket_from_raw k s = (Inr (Inr h), s)"
  using assms socket_checked(1) [of k s] by (auto simp: op_safe_def)

lemma poller_call_refused:
  assumes "p \<noteq> 0" "c_pollers s p = Some es" "op_safe (c_sockets s) op" and "op_key op = Sock 0 \<or> \<not> op_events_ok op"
  shows "\<exists>e. poller_call p op s = (Inr (- 1), s\<lparr>c_errno := e\<rparr>)"
proof (cases "op_key op = Sock 0")
  case True
  then show ?thesis
    using assms(1,2) by (cases op) (auto simp: zmq_poller_add_def zmq_poller_modify_def zmq_poller_remove_def with_poller_live
        bnd_apply socket_checked finish_run and_then_def)
next
  case False
  then have "\<not> op_events_ok op" "\<And>k. op_key op = Sock k \<Longrightarrow> \<exists>h. socket_from_raw k s = (Inr (Inr h), s)"
    using assms(4) op_safe_live [OF assms(3)] by auto
  then show ?thesis
    using assms(1,2) by (cases op; cases "op_key op") (auto simp: zmq_poller_add_def zmq_poller_modify_def zmq_poller_add_fd_def
        zmq_poller_modify_fd_def with_poller_live bnd_apply finish_run and_then_def events_checked)
qed

lemma poller_call_accepted:
  assumes "p \<noteq> 0" "c_pollers s p = Some es" "entries_inv es" "op_safe (c_sockets s) op" and ok: "op_key op \<noteq> Sock 0" "op_events_ok op"
  shows "\<exists>r. poller_call p op s = change_entries p r s \<and> (case r of Inl e \<Rightarrow> registry_step op (registry_of es) = None
      | Inr es' \<Rightarrow> entries_inv es' \<and> registry_step op (registry_of es) = Some (registry_of es'))"
proof -
  note live = op_safe_live [OF assms(4) _ ok(1)]
  note run = zmq_poller_add_def zmq_poller_modify_def zmq_poller_remove_def zmq_poller_add_fd_def zmq_poller_modify_fd_def
    zmq_poller_remove_fd_def with_poller_live [OF assms(1,2)] bnd_apply and_then_def events_checked entry_tests(1,2)
  show ?thesis
  proof (cases op)
    case (Watch k u ev)
    then show ?thesis
      using ok live by (cases k) (auto simp: run simp del: registry_step.simps
          intro!: exI entries_add_refines [OF assms(3) _ _ _ entries_add_key(1)] entries_add_refines [OF assms(3) _ _ _ entries_add_key(2)]
          simp: entry_key_def)
  next
    case (Rewatch k ev)
    then have "poller_call p op s = change_entries p (entries_modify (\<lambda>e. entry_key e = k) ev es) s"
      using ok live by (cases k) (auto simp: run)
    then show ?thesis
      using entries_modify_refines [OF assms(3), of k ev] assms(3) Rewatch
      by (intro exI [of _ "entries_modify (\<lambda>e. entry_key e = k) ev es"]) (auto simp: entries_inv_def split: sum.splits)
  next
    case (Unwatch k)
    then have "poller_call p op s = change_entries p (entries_remove (\<lambda>e. entry_key e = k) es) s"
      using ok live by (cases k) (auto simp: run)
    then show ?thesis
      using entries_remove_refines [OF assms(3), of k] Unwatch by blast
  qed
qed

lemma poller_call_refines:
  assumes "p \<noteq> 0" "c_pollers s p = Some es" "entries_inv es" "op_safe (c_sockets s) op"
  shows "poller_follows p s (poller_call p op s) (registry_call op (registry_of es))"
proof (cases "op_key op = Sock 0 \<or> \<not> op_events_ok op")
  case True
  with poller_call_refused [OF assms(1,2,4)] show ?thesis
    using poller_refused [OF assms(2,3)] by (auto simp: registry_call_def)
next
  case False
  with poller_call_accepted [OF assms] show ?thesis
    using poller_changed [OF assms(2,3)] by auto
qed

lemma poller_run_refines:
  assumes "p \<noteq> 0" "c_pollers s p = Some es" "entries_inv es" "list_all (op_safe (c_sockets s)) ops"
  shows "\<exists>s' es'. poller_run p ops s = (Inr (fst (registry_run ops (registry_of es))), s') \<and> c_pollers s' p = Some es'
    \<and> entries_inv es' \<and> registry_of es' = snd (registry_run ops (registry_of es)) \<and> c_sockets s' = c_sockets s"
  using assms
proof (induction ops arbitrary: s es)
  case (Cons op ops)
  obtain r m where rm: "registry_call op (registry_of es) = (r, m)"
    by fastforce
  then obtain e es1 where 1: "poller_call p op s = (Inr r, s\<lparr>c_pollers := (c_pollers s)(p \<mapsto> es1), c_errno := e\<rparr>)"
    "entries_inv es1" "registry_of es1 = m"
    using poller_call_refines [of p s es op] Cons.prems by (auto simp: poller_follows_def)
  let ?s = "s\<lparr>c_pollers := (c_pollers s)(p \<mapsto> es1), c_errno := e\<rparr>"
  obtain s' es' where "poller_run p ops ?s = (Inr (fst (registry_run ops m)), s')" "c_pollers s' p = Some es'"
    "entries_inv es'" "registry_of es' = snd (registry_run ops m)" "c_sockets s' = c_sockets s"
    using Cons.IH [of ?s es1] Cons.prems 1 by auto
  with 1 rm show ?case
    by (intro exI [of _ s'] exI [of _ es']) (simp add: bnd_apply)
qed simp

text \<open>
  C19. A poller is a finite map. A new poller followed by any calls that add, modify and remove sockets and
  descriptors, with handles that are null or live, returns exactly what a map from sockets and
  descriptors to user data and events would: adding is refused when the key is there, modifying and
  removing when it is not, and each is refused for a null socket or unknown event bits; a refused call
  changes nothing. At the end the poller has one entry for each key of the map, with its data, and
  \<open>zmq_poller_size\<close> is their number.
\<close>

theorem poller_refines_map:
  assumes "0 < c_next s" "c_next s < 2 ^ 64" and "list_all (op_safe (c_sockets s)) ops"
    and "registry_run ops Map.empty = (rs, m)"
  shows "\<exists>s' es e. bnd zmq_poller_new (\<lambda>p. poller_run p ops) s = (Inr rs, s') \<and> c_pollers s' (c_next s) = Some es
    \<and> registry_of es = m \<and> length es = card (dom m) \<and> zmq_poller_size (c_next s) s' = (Inr (as_i32 (card (dom m))), s'\<lparr>c_errno := e\<rparr>)"
proof -
  let ?s = "s\<lparr>c_errno := 0, c_next := c_next s + 1, c_pollers := (c_pollers s)(c_next s \<mapsto> [])\<rparr>"
  have new: "zmq_poller_new s = (Inr (c_next s), ?s)"
    using assms(2) by (simp add: zmq_poller_new_def bnd_apply clear_errno_def set_errno_def fresh_ptr_def)
  obtain s' es where r: "poller_run (c_next s) ops ?s = (Inr rs, s')" "c_pollers s' (c_next s) = Some es" "entries_inv es" "registry_of es = m"
    using poller_run_refines [of "c_next s" ?s "[]" ops] assms by (auto simp: entries_inv_def)
  moreover have "length es = card (dom m)"
    using card_registry [OF r(3)] r(4) by simp
  moreover have "zmq_poller_size (c_next s) s' = (Inr (as_i32 (card (dom m))), s'\<lparr>c_errno := 0\<rparr>)"
    using assms(1) r(2) calculation(5) by (simp add: zmq_poller_size_def with_poller_live finish_run)
  ultimately show ?thesis
    using new by (auto simp: bnd_apply)
qed

theorem poller_refines_map_witness:
  "\<exists>s' es. bnd zmq_poller_new (\<lambda>p. poller_run p [Watch (Sock 5) 9 1, Watch (Sock 5) 9 1, Rewatch (Desc 3) 1, Watch (Desc 3) 0 2,
       Unwatch (Sock 5), Watch (Sock 0) 0 1, Unwatch (Sock 5)]) option_example = (Inr [0, - 1, - 1, 0, 0, - 1, - 1], s')
     \<and> c_pollers s' (c_next option_example) = Some es \<and> registry_of es = [Desc 3 \<mapsto> (0, 2)] \<and> length es = 1"
proof -
  let ?ops = "[Watch (Sock 5) 9 1, Watch (Sock 5) 9 1, Rewatch (Desc 3) 1, Watch (Desc 3) 0 2, Unwatch (Sock 5), Watch (Sock 0) 0 1, Unwatch (Sock 5)]"
  have k: "known_events 1" "known_events 2"
    by (simp_all add: known_events_def validate_poller_events_def)
  have run: "registry_run ?ops Map.empty = ([0, - 1, - 1, 0, 0, - 1, - 1], [Desc 3 \<mapsto> (0, 2)])"
    by (simp add: registry_call_def k)
  have "0 < c_next option_example" "c_next option_example < 2 ^ 64" "list_all (op_safe (c_sockets option_example)) ?ops"
    by (simp_all add: option_example_def ffi_example_def op_safe_def)
  from poller_refines_map [OF this run] show ?thesis
    by auto
qed


section \<open>Timers\<close>

definition handler_calls :: "timer_entry list \<Rightarrow> (ptr \<times> i32 \<times> ptr) list" where
  "handler_calls ts = concat (map (\<lambda>t. case te_handler t of None \<Rightarrow> [] | Some h \<Rightarrow> [(h, te_id t, te_arg t)]) ts)"

definition rearm :: "nat \<Rightarrow> timer_entry \<Rightarrow> timer_entry" where
  "rearm now t = (if timer_due now t then t\<lparr>te_deadline := now + te_interval t\<rparr> else t)"

lemma execute_loop_eq:
  "execute_loop now ts = (map (rearm now) ts, handler_calls (filter (timer_due now) ts), length (filter (timer_due now) ts))"
  by (induction ts) (auto simp: handler_calls_def rearm_def)

lemma with_timers_live: "p \<noteq> 0 \<Longrightarrow> c_timers s p = Some ts \<Longrightarrow> with_timers p f s = f ts s"
  by (simp add: with_timers_def timers_from_raw_def from_raw_def deref_def bnd_apply)

lemma execute_run:
  assumes "p \<noteq> 0" "c_timers s p = Some ts"
  shows "zmq_timers_execute p s = (Inr (int (length (filter (timer_due (c_now s)) (tm_timers ts)))),
    s\<lparr>c_handler_calls := c_handler_calls s @ handler_calls (filter (timer_due (c_now s)) (tm_timers ts)),
      c_timers := (c_timers s)(p \<mapsto> ts\<lparr>tm_timers := map (rearm (c_now s)) (tm_timers ts)\<rparr>), c_errno := 0\<rparr>)"
  using assms by (simp add: zmq_timers_execute_def with_timers_live execute_loop_eq bnd_apply set_timers_def finish_run)

lemma next_deadline_eq:
  "next_deadline ts = (if filter te_active ts = [] then None else Some (Min (te_deadline ` set (filter te_active ts))))"
proof (cases "filter te_active ts")
  case (Cons t us)
  then show ?thesis
    using Min.set_eq_fold [of "te_deadline t" "map te_deadline us"] by (simp add: next_deadline_def)
qed (simp add: next_deadline_def)

lemma next_deadline_Some:
  assumes "next_deadline ts = Some d"
  shows "(\<exists>t \<in> set ts. timer_due now t) \<longleftrightarrow> d \<le> now"
proof -
  let ?D = "te_deadline ` set (filter te_active ts)"
  have "d = Min ?D" "set (filter te_active ts) \<noteq> {}"
    using assms by (auto simp: next_deadline_eq simp del: set_filter split: if_splits)
  then have "d \<le> now \<longleftrightarrow> (\<exists>x \<in> ?D. x \<le> now)"
    by (simp add: Min_le_iff del: set_filter)
  then show ?thesis
    by (auto simp: timer_due_def)
qed

lemma next_deadline_in: "next_deadline ts = Some d \<Longrightarrow> \<exists>t \<in> set ts. te_active t \<and> d = te_deadline t"
proof -
  assume a: "next_deadline ts = Some d"
  then have "d = Min (te_deadline ` set (filter te_active ts))" "set (filter te_active ts) \<noteq> {}"
    by (auto simp: next_deadline_eq simp del: set_filter split: if_splits)
  then have "d \<in> te_deadline ` set (filter te_active ts)"
    using Min_in [of "te_deadline ` set (filter te_active ts)"] by (simp del: set_filter)
  then show ?thesis
    by auto
qed

lemma as_isize_id: "n < 2 ^ 63 \<Longrightarrow> as_isize n = int n"
  by (simp add: as_isize_def)

text \<open>
  C20. Timers fire when they are told to. While no active timer is due in \<open>2 ^ 63\<close> milliseconds or more,
  \<open>zmq_timers_timeout\<close> returns \<open>-1\<close> exactly when no timer is active, and then
  nothing fires however long one waits; otherwise a number of milliseconds such that executing the timers
  any earlier fires none, and executing them a millisecond later or more fires at least one. Executing
  calls the handler of every active timer whose deadline has come, in the order the timers were added and
  each once, returns their number, moves their deadlines one interval on from now and leaves the others.
\<close>

theorem timers_wait_and_fire:
  assumes "p \<noteq> 0" "c_timers s p = Some ts" and "d = waited * 1000000"
    and near: "\<forall>e \<in> set (tm_timers ts). te_active e \<longrightarrow> (te_deadline e - c_now s) div 1000000 < 2 ^ 63"
  shows "\<exists>t s1 n s2. zmq_timers_timeout p s = (Inr t, s1)
    \<and> zmq_timers_execute p (s1\<lparr>c_now := c_now s1 + d\<rparr>) = (Inr (int n), s2)
    \<and> (t = - 1 \<longleftrightarrow> (\<forall>e \<in> set (tm_timers ts). \<not> te_active e)) \<and> (t = - 1 \<longrightarrow> n = 0)
    \<and> (int waited < t \<longrightarrow> n = 0) \<and> (- 1 < t \<and> t < int waited \<longrightarrow> 0 < n)
    \<and> n = length (filter (timer_due (c_now s + d)) (tm_timers ts))
    \<and> c_handler_calls s2 = c_handler_calls s @ handler_calls (filter (timer_due (c_now s + d)) (tm_timers ts))
    \<and> c_timers s2 p = Some (ts\<lparr>tm_timers := map (rearm (c_now s + d)) (tm_timers ts)\<rparr>)"
proof -
  let ?due = "filter (timer_due (c_now s + d)) (tm_timers ts)"
  obtain t s1 where t: "zmq_timers_timeout p s = (Inr t, s1)" and s1: "s1 = s\<lparr>c_errno := 0\<rparr>"
    and tw: "t = (case next_deadline (tm_timers ts) of None \<Rightarrow> - 1 | Some e \<Rightarrow> as_isize ((e - c_now s) div 1000000))"
    using assms(1,2) by (cases "next_deadline (tm_timers ts)")
      (auto simp: zmq_timers_timeout_def with_timers_live bnd_apply clear_errno_def set_errno_def finish_run)
  have "as_isize ((e - c_now s) div 1000000) = int ((e - c_now s) div 1000000)" if "next_deadline (tm_timers ts) = Some e" for e
    using next_deadline_in [OF that] near by (intro as_isize_id) blast
  then have tv: "t = (case next_deadline (tm_timers ts) of None \<Rightarrow> - 1 | Some e \<Rightarrow> int ((e - c_now s) div 1000000))"
    using tw by (simp split: option.split)
  have none: "t = - 1 \<longleftrightarrow> (\<forall>e \<in> set (tm_timers ts). \<not> te_active e)"
    using tv by (auto simp: next_deadline_eq filter_empty_conv split: option.splits if_splits)
  have some: "?due \<noteq> [] \<longleftrightarrow> e \<le> c_now s + d" if "next_deadline (tm_timers ts) = Some e" for e
    using next_deadline_Some [OF that, of "c_now s + d"] by (auto simp: filter_empty_conv)
  have "t = - 1 \<longrightarrow> ?due = []"
    using none by (auto simp: filter_empty_conv timer_due_def)
  moreover have "int waited < t \<longrightarrow> ?due = []" "- 1 < t \<and> t < int waited \<longrightarrow> ?due \<noteq> []"
  proof -
    have "waited * 1000000 + c_now s < e" if "waited < (e - c_now s) div 1000000" for e
      using that by (simp add: less_eq_div_iff_mult_less_eq Suc_le_eq [symmetric])
    then show "int waited < t \<longrightarrow> ?due = []"
      using tv some assms(3) by (fastforce split: option.splits)
    have "e \<le> waited * 1000000 + c_now s" if "(e - c_now s) div 1000000 < waited" for e
      using that by (simp add: div_less_iff_less_mult)
    then show "- 1 < t \<and> t < int waited \<longrightarrow> ?due \<noteq> []"
      using tv some assms(3) by (fastforce split: option.splits)
  qed
  ultimately show ?thesis
    using t none execute_run [of p "s1\<lparr>c_now := c_now s1 + d\<rparr>" ts] assms(1,2) s1 by simp
qed

text \<open>One timer every two milliseconds, half a millisecond after it was added: the wait is rounded down to one millisecond.\<close>

definition timer_example :: "unit ffi" where
  "timer_example = ffi_example\<lparr>c_now := 500000,
     c_timers := [5 \<mapsto> timers_add 0 2 (Some 7) 9 \<lparr>tm_next_id = 1, tm_timers = []\<rparr>]\<rparr>"

theorem timers_wait_and_fire_witness:
  "\<exists>s1 s2. zmq_timers_timeout 5 timer_example = (Inr 1, s1)
    \<and> zmq_timers_execute 5 (s1\<lparr>c_now := c_now s1 + 2000000\<rparr>) = (Inr 1, s2) \<and> c_handler_calls s2 = [(7, 1, 9)]"
proof -
  let ?ts = "timers_add 0 2 (Some 7) 9 \<lparr>tm_next_id = 1, tm_timers = []\<rparr>"
  have "zmq_timers_timeout 5 timer_example = (Inr 1, timer_example\<lparr>c_errno := 0\<rparr>)"
    by (simp add: zmq_timers_timeout_def with_timers_live timer_example_def timers_add_def next_deadline_def millis_def bnd_apply finish_run as_isize_def)
  moreover have "filter (timer_due (c_now timer_example + 2000000)) (tm_timers ?ts) = tm_timers ?ts" "length (tm_timers ?ts) = 1"
    "handler_calls (tm_timers ?ts) = [(7, 1, 9)]" "c_handler_calls timer_example = []" "c_timers timer_example 5 = Some ?ts"
    by (simp_all add: timer_example_def timers_add_def timer_due_def millis_def handler_calls_def ffi_example_def)
  moreover from this(5) have "\<exists>t s1 n s2. zmq_timers_timeout 5 timer_example = (Inr t, s1)
      \<and> zmq_timers_execute 5 (s1\<lparr>c_now := c_now s1 + 2000000\<rparr>) = (Inr (int n), s2)
      \<and> n = length (filter (timer_due (c_now timer_example + 2000000)) (tm_timers ?ts))
      \<and> c_handler_calls s2 = c_handler_calls timer_example @ handler_calls (filter (timer_due (c_now timer_example + 2000000)) (tm_timers ?ts))"
    using timers_wait_and_fire [of 5 timer_example ?ts 2000000 2]
    by (fastforce simp: timer_example_def timers_add_def millis_def)
  ultimately show ?thesis
    by auto
qed

lemma timeout_rounds_down:
  "fst (zmq_timers_timeout 5 timer_example) = Inr 1"
  "fst (zmq_timers_execute 5 (timer_example\<lparr>c_now := c_now timer_example + 1000000\<rparr>)) = Inr 0"
  by (simp_all add: zmq_timers_timeout_def zmq_timers_execute_def with_timers_live timer_example_def timers_add_def next_deadline_def
      millis_def bnd_apply finish_run timer_due_def set_timers_def as_isize_def)


text \<open>With an interval of \<open>2 ^ 63\<close> milliseconds the result is cut to a negative number, although the timer is active.\<close>

lemma timeout_wraps:
  "fst (zmq_timers_timeout 5 (ffi_example\<lparr>c_timers := [5 \<mapsto> timers_add 0 (2 ^ 63) (Some 7) 9 \<lparr>tm_next_id = 1, tm_timers = []\<rparr>]\<rparr>)) =
     Inr (- (2 ^ 63))"
  by (simp add: zmq_timers_timeout_def with_timers_live timers_add_def next_deadline_def millis_def bnd_apply finish_run as_isize_def ffi_example_def)


section \<open>What closing and forwarding leave out\<close>

text \<open>
  Closing a socket frees its handle only: the names it has bound stay in the registry of the context, and
  the inbox behind them still takes messages that nobody can receive.
\<close>

lemma close_keeps_names:
  assumes "p \<noteq> 0" "c_sockets s p = Some h"
  shows "zmq_close p s = (Inr 0, s\<lparr>c_sockets := (c_sockets s)(p := None), c_errno := 0\<rparr>)"
  using assms by (simp add: zmq_close_def deref_def bnd_apply finish_run)

text \<open>
  The proxy hands on one message, from the front to the back. It sends with the flags 0, and \<open>send\<close>
  sets the more flag from its flags: the parts of a message arrive as messages of their own.
\<close>

lemma proxy_forgets_more:
  assumes "p \<noteq> 0" "q \<noteq> 0" "c_sockets s p = Some (i, a)" "c_sockets s q = Some (i, b)"
    and "recv W a ZMQ_DONTWAIT (c_worlds s i) = (Inr m, w)" and l: "direct_link W d b w"
  shows "\<exists>s'. zmq_proxy W p q 0 s = (Inr 0, s') \<and> c_worlds s' i = push_back (sk_inbox (w_sockets w d)) (set_more False m) w"
  using assms link_send [OF l, of m 0] by (simp add: zmq_proxy_def with_socket_live bnd_apply on_world_def finish_run)

end
