(* ===== verification/Ffi_Ownership.thy ===== *)
theory Ffi_Ownership
  imports Ffi_Buffers
begin

text \<open>
  Programs that keep to the life cycle of a \<open>zmq_msg_t\<close>: a message is initialised in storage that holds none, and
  closed at most once; the destination of a move or a copy holds no message. For them every message
  object is the one of exactly one message of the program, so that closing the last message with a buffer frees it.
\<close>

section \<open>The messages of the program\<close>

text \<open>The handle a message holds, and storage that does not overlap with other messages.\<close>

definition handle :: "'w ffi \<Rightarrow> ptr \<Rightarrow> ptr" where
  "handle s msg = from_ne (the (mem_load (c_mem s) msg 8))"

definition apart :: "ptr \<Rightarrow> ptr set \<Rightarrow> bool" where
  "apart msg S \<longleftrightarrow> (\<forall>p \<in> S. msg + 64 \<le> p \<or> p + 64 \<le> msg)"

text \<open>The messages at \<open>S\<close> hold the handles of all message objects, each of one of them.\<close>

definition tidy :: "ptr set \<Rightarrow> 'w ffi \<Rightarrow> bool" where
  "tidy S s \<longleftrightarrow> bij_betw (handle s) S (dom (c_messages s)) \<and> (\<forall>msg \<in> S. apart msg (S - {msg}) \<and> mem_load (c_mem s) msg 8 \<noteq> None)
     \<and> 0 \<notin> S \<and> c_messages s 0 = None \<and> 0 < c_next s \<and> (\<forall>p \<in> dom (c_messages s). p < c_next s)"

lemma apart_sym: "apart m S \<Longrightarrow> p \<in> S \<Longrightarrow> apart p {m}"
  by (auto simp: apart_def)

lemma apart_mono: "apart m S \<Longrightarrow> T \<subseteq> S \<Longrightarrow> apart m T"
  by (auto simp: apart_def)

lemma apart_notin: "apart m S \<Longrightarrow> m \<notin> S"
  by (auto simp: apart_def)

lemma handle_cong: "mem_load (c_mem s') m 8 = mem_load (c_mem s) m 8 \<Longrightarrow> handle s' m = handle s m"
  by (simp add: handle_def)

lemma handle_written:
  assumes "c_mem s' = write_bytes mem msg (to_ne 8 q @ r)" and "q < 2 ^ 64"
  shows "handle s' msg = q" "mem_load (c_mem s') msg 8 \<noteq> None"
  using load_written [of mem msg "to_ne 8 q" r] assms by (simp_all add: handle_def from_ne_to_ne)

lemma load_apart:
  assumes "apart msg S" "p \<in> S" "length bs \<le> 64"
  shows "mem_load (write_bytes m msg bs) p 8 = mem_load m p 8"
  using assms by (intro load_other) (auto simp: apart_def)

lemma tidyD:
  assumes "tidy S s"
  shows "bij_betw (handle s) S (dom (c_messages s))" "msg \<in> S \<Longrightarrow> apart msg (S - {msg})" "msg \<in> S \<Longrightarrow> mem_load (c_mem s) msg 8 \<noteq> None"
    "0 \<notin> S" "c_messages s 0 = None" "0 < c_next s" "msg \<in> S \<Longrightarrow> handle s msg \<noteq> 0" "msg \<in> S \<Longrightarrow> c_messages s (handle s msg) \<noteq> None"
proof -
  show b: "bij_betw (handle s) S (dom (c_messages s))" and "0 \<notin> S" "c_messages s 0 = None" "0 < c_next s"
    using assms by (simp_all add: tidy_def)
  show "apart msg (S - {msg})" "mem_load (c_mem s) msg 8 \<noteq> None" if "msg \<in> S"
    using assms that by (auto simp: tidy_def)
  show live: "c_messages s (handle s msg) \<noteq> None" if "msg \<in> S"
    using bij_betwE [OF b] that by auto
  show "handle s msg \<noteq> 0" if "msg \<in> S"
    using live [OF that] \<open>c_messages s 0 = None\<close> by metis
qed

text \<open>A message at new storage with a new object.\<close>

lemma tidy_insert:
  assumes t: "tidy S s" and a: "apart msg S" and "msg \<noteq> 0" and q: "q < 2 ^ 64" "q = c_next s"
    and s': "c_mem s' = write_bytes (c_mem s) msg (to_ne 8 q @ replicate 56 0)" "c_messages s' = (c_messages s)(q \<mapsto> inner)" "q < c_next s'"
  shows "tidy (insert msg S) s'"
proof -
  have new: "c_messages s q = None"
    using t q(2) by (auto simp: tidy_def)
  have same: "mem_load (c_mem s') p 8 = mem_load (c_mem s) p 8" if "p \<in> S" for p
    using that load_apart [OF a that] by (simp add: s'(1))
  then have h: "handle s' p = handle s p" if "p \<in> S" for p
    using that by (intro handle_cong) simp
  have m: "handle s' msg = q" "mem_load (c_mem s') msg 8 \<noteq> None"
    using handle_written [OF s'(1) q(1)] by simp_all
  have "bij_betw (handle s') S (dom (c_messages s))"
    using tidyD(1) [OF t] h by (simp cong: bij_betw_cong)
  then have "bij_betw (handle s') (insert msg S) (insert q (dom (c_messages s)))"
    using m(1) new apart_notin [OF a] by (auto simp: bij_betw_def)
  moreover have "apart p (insert msg S - {p})" if "p \<in> S" for p
    using tidyD(2) [OF t that] apart_sym [OF a that] apart_notin [OF a] that
    by (auto simp: apart_def)
  moreover have "apart msg (insert msg S - {msg})"
    using a by (rule apart_mono) auto
  ultimately show ?thesis
    using m(2) same t assms(3) s'(2,3) q(2) by (auto simp: tidy_def dest: order_less_trans)
qed

text \<open>A message whose object is taken and dropped.\<close>

lemma tidy_remove:
  assumes t: "tidy S s" and "msg \<in> S"
    and s': "c_mem s' = write_bytes (c_mem s) msg (replicate 64 0)" "c_messages s' = (c_messages s)(handle s msg := None)" "c_next s \<le> c_next s'"
  shows "tidy (S - {msg}) s'"
proof -
  have same: "mem_load (c_mem s') p 8 = mem_load (c_mem s) p 8" if "p \<in> S - {msg}" for p
    using load_apart [OF tidyD(2) [OF t \<open>msg \<in> S\<close>] that] by (simp add: s'(1))
  then have h: "handle s' p = handle s p" if "p \<in> S - {msg}" for p
    using that by (intro handle_cong) simp
  have "bij_betw (handle s) (S - {msg}) (dom (c_messages s) - {handle s msg})"
    using tidyD(1) [OF t] \<open>msg \<in> S\<close> by (auto simp: bij_betw_def inj_on_def)
  then have "bij_betw (handle s') (S - {msg}) (dom (c_messages s'))"
    using bij_betw_cong [of "S - {msg}" "handle s'" "handle s"] h by (simp add: s'(2))
  moreover have "apart p (S - {msg} - {p})" if "p \<in> S" for p
    using tidyD(2) [OF t that] by (rule apart_mono) auto
  ultimately show ?thesis
    using same t s'(2,3) by (auto simp: tidy_def dest: order_less_le_trans)
qed

text \<open>A handle that moves to new storage.\<close>

lemma tidy_move:
  assumes t: "tidy S s" and "src \<in> S" and a: "apart dest S" and "dest \<noteq> 0" and q: "handle s src < 2 ^ 64"
    and s': "c_mem s' = write_bytes (write_bytes (c_mem s) src (replicate 64 0)) dest (to_ne 8 (handle s src) @ replicate 56 0)"
    "c_messages s' = c_messages s" "c_next s \<le> c_next s'"
  shows "tidy (insert dest (S - {src})) s'"
proof -
  have same: "mem_load (c_mem s') p 8 = mem_load (c_mem s) p 8" if "p \<in> S - {src}" for p
    using load_apart [OF tidyD(2) [OF t \<open>src \<in> S\<close>] that, of "replicate 64 0"] load_apart [OF a, of p] that by (simp add: s'(1))
  then have h: "handle s' p = handle s p" if "p \<in> S - {src}" for p
    using that by (intro handle_cong) simp
  have m: "handle s' dest = handle s src" "mem_load (c_mem s') dest 8 \<noteq> None"
    using handle_written [OF s'(1) q] by simp_all
  have "dest \<notin> S"
    by (rule apart_notin [OF a])
  then have "bij_betw (handle s') (insert dest (S - {src})) (dom (c_messages s))"
    using tidyD(1) [OF t] h m(1) \<open>src \<in> S\<close> by (auto simp: bij_betw_def inj_on_def)
  moreover have "apart p (insert dest (S - {src}) - {p})" if "p \<in> S" for p
    using apart_mono [OF tidyD(2) [OF t that], of "S - {src} - {p}"] apart_sym [OF a that] \<open>dest \<notin> S\<close> that
    by (auto simp: apart_def)
  moreover have "apart dest (insert dest (S - {src}) - {dest})"
    using a by (rule apart_mono) auto
  ultimately show ?thesis
    using m(2) same t s'(2,3) assms(4) by (auto simp: tidy_def dest: order_less_le_trans)
qed

text \<open>Anything that keeps the objects and what the messages hold.\<close>

lemma tidy_same:
  assumes "tidy S s" and "dom (c_messages s') = dom (c_messages s)" "\<And>m. m \<in> S \<Longrightarrow> mem_load (c_mem s') m 8 = mem_load (c_mem s) m 8"
    and "c_next s \<le> c_next s'"
  shows "tidy S s'"
proof -
  have "handle s' m = handle s m" if "m \<in> S" for m
    using assms(3) [OF that] by (rule handle_cong)
  then have "bij_betw (handle s') S (dom (c_messages s'))"
    using tidyD(1) [OF assms(1)] assms(2) bij_betw_cong [of S "handle s'" "handle s"] by simp
  then show ?thesis
    using assms by (auto simp: tidy_def domIff dest: order_less_le_trans)
qed

lemma tidy_update: "tidy S s \<Longrightarrow> dom (c_messages s') = dom (c_messages s) \<Longrightarrow> c_mem s' = c_mem s \<Longrightarrow> c_next s \<le> c_next s' \<Longrightarrow> tidy S s'"
  by (rule tidy_same) simp_all

lemma handle_small:
  assumes "tidy S s" "msg \<in> S"
  shows "handle s msg < 2 ^ 64"
proof -
  obtain bs where bs: "mem_load (c_mem s) msg 8 = Some bs"
    using tidyD(3) [OF assms] by blast
  then have "length bs = 8"
    by (simp add: mem_load_Some_iff)
  then show ?thesis
    using from_be_less [of "rev bs"] bs by (simp add: handle_def from_ne_def)
qed


section \<open>The calls\<close>

lemma c_store_returns: "c_store p bs s = (Inr r, s') \<Longrightarrow> s' = s\<lparr>c_mem := write_bytes (c_mem s) p bs\<rparr>"
  by (auto simp: c_store_def mem_store_def split: if_splits)

lemma finish_returns: "finish r s = (Inr v, s') \<Longrightarrow> \<exists>n. s' = s\<lparr>c_errno := n\<rparr>"
  by (cases r) (auto simp: finish_def set_error_def clear_errno_def set_errno_def bnd_apply)

lemma set_error_returns: "set_error e s = (Inr v, s') \<Longrightarrow> v = - 1 \<and> s' = s\<lparr>c_errno := errno e\<rparr>"
  by (auto simp: set_error_def set_errno_def bnd_apply)

lemma tidy_errno [simp]: "tidy S (s\<lparr>c_errno := n\<rparr>) \<longleftrightarrow> tidy S s"
  by (simp add: tidy_def handle_def [abs_def])

lemma box_write_tidy:
  assumes t: "tidy S s" and "apart msg S" "msg \<noteq> 0"
    and r: "bnd (box_message inner) (\<lambda>q. bnd (write_msg_inner msg q) (\<lambda>_. finish v)) s = (Inr r, s')"
  shows "tidy (insert msg S) s'"
proof -
  let ?q = "c_next s"
  let ?s1 = "s\<lparr>c_next := ?q + 1, c_messages := (c_messages s)(?q \<mapsto> inner), c_mem := write_bytes (c_mem s) msg (to_ne 8 ?q @ replicate 56 0)\<rparr>"
  obtain n where q: "?q < 2 ^ 64" and s': "s' = ?s1\<lparr>c_errno := n\<rparr>"
    using r by (auto simp: bnd_returns box_message_def fresh_ptr_def write_msg_inner_def dest!: c_store_returns finish_returns split: if_splits)
  have "tidy (insert msg S) ?s1"
    by (rule tidy_insert [OF t assms(2,3) q refl, of _ inner]) simp_all
  then show ?thesis
    unfolding s' tidy_errno .
qed

lemma init_message_tidy:
  "tidy S s \<Longrightarrow> apart msg S \<Longrightarrow> msg \<noteq> 0 \<Longrightarrow> init_message msg inner s = (Inr r, s') \<Longrightarrow> r = 0 \<and> tidy (insert msg S) s'"
  using box_write_tidy [of S s msg inner "Inr 0" r s']
  by (auto simp: init_message_def bnd_returns finish_def clear_errno_def set_errno_def)

lemma take_tidy:
  assumes t: "tidy S s" and "msg \<in> S" and r: "take_msg_inner msg s = (Inr p, s1)"
  shows "p = handle s msg" "s1 = s\<lparr>c_mem := write_bytes (c_mem s) msg (replicate 64 0)\<rparr>"
  using r by (auto simp: take_msg_inner_def read_msg_inner_def c_load_def bnd_returns handle_def dest!: c_store_returns split: option.splits)

lemma drop_message_objects:
  assumes "drop_message p s = (Inr r, s')" "p \<noteq> 0"
  shows "c_messages s' = (c_messages s)(p := None)" "c_mem s' = c_mem s" "c_next s' = c_next s"
  using assms by (auto simp: drop_message_def bnd_returns deref_def arc_drop_def split: option.splits message_storage.splits)

lemma take_drop_tidy:
  assumes t: "tidy S s" and "msg \<in> S" and r: "take_msg_inner msg s = (Inr p, s1)" "drop_message p s1 = (Inr u, s2)"
  shows "tidy (S - {msg}) s2"
  using take_tidy [OF assms(1-3)] drop_message_objects [OF r(2)] tidyD(7) [OF t \<open>msg \<in> S\<close>]
  by (intro tidy_remove [OF t \<open>msg \<in> S\<close>]) simp_all

lemma close_tidy: "tidy S s \<Longrightarrow> msg \<in> S \<Longrightarrow> zmq_msg_close msg s = (Inr r, s') \<Longrightarrow> tidy (S - {msg}) s'"
  using tidyD(4) [of S s]
  by (auto simp: zmq_msg_close_def bnd_returns dest: take_drop_tidy dest!: finish_returns split: if_splits)

definition added :: "i32 \<Rightarrow> ptr \<Rightarrow> ptr set \<Rightarrow> ptr set" where
  "added r msg S = (if r = 0 then insert msg S else S)"

lemma refused_tidy: "tidy S s \<Longrightarrow> set_error e s = (Inr r, s') \<Longrightarrow> tidy (added r msg S) s'"
  by (auto simp: added_def dest!: set_error_returns)

lemma slice_arg_returns: "slice_arg p n s = (Inr r, s') \<Longrightarrow> s' = s"
  by (auto simp: slice_arg_def c_load_def bnd_returns split: if_splits option.splits)

lemma init_tidy:
  assumes t: "tidy S s" and a: "apart msg S"
  shows "zmq_msg_init msg s = (Inr r, s') \<Longrightarrow> tidy (added r msg S) s'"
    "zmq_msg_init_size msg n s = (Inr r, s') \<Longrightarrow> tidy (added r msg S) s'"
    "zmq_msg_init_buffer msg p n s = (Inr r, s') \<Longrightarrow> tidy (added r msg S) s'"
    "zmq_msg_init_data msg p n fn h s = (Inr r, s') \<Longrightarrow> tidy (added r msg S) s'"
proof -
  have i: "tidy (added r msg S) s'" if "init_message msg inner s1 = (Inr r, s')" "msg \<noteq> 0" "tidy S s1" for inner s1
    using init_message_tidy [OF that(3) a that(2,1)] by (simp add: added_def)
  have e: "tidy S (s\<lparr>c_externals := x, c_next_external := y\<rparr>)" for x y
    using t by (rule tidy_update) simp_all
  show "zmq_msg_init msg s = (Inr r, s') \<Longrightarrow> tidy (added r msg S) s'"
    using i t refused_tidy [OF t] by (auto simp: zmq_msg_init_def split: if_splits)
  show "zmq_msg_init_size msg n s = (Inr r, s') \<Longrightarrow> tidy (added r msg S) s'"
    using i t refused_tidy [OF t] by (auto simp: zmq_msg_init_size_def inner_with_size_def bnd_returns split: if_splits)
  show "tidy (added r msg S) s'" if r: "zmq_msg_init_buffer msg p n s = (Inr r, s')"
  proof (cases "msg = 0")
    case True
    then show ?thesis
      using r refused_tidy [OF t] by (simp add: zmq_msg_init_buffer_def)
  next
    case False
    then obtain x where "(case x of Inl e \<Rightarrow> set_error e | Inr bs \<Rightarrow> init_message msg (inner_new (Owned (message_from_vec bs)))) s = (Inr r, s')"
      using r by (auto simp: zmq_msg_init_buffer_def bnd_returns dest: slice_arg_returns)
    then show ?thesis
      using i [OF _ False t] refused_tidy [OF t] by (cases x) auto
  qed
  show "zmq_msg_init_data msg p n fn h s = (Inr r, s') \<Longrightarrow> tidy (added r msg S) s'"
    using i [OF _ _ e] refused_tidy [OF t]
    by (auto simp: zmq_msg_init_data_def inner_with_external_def arc_new_def Let_def bnd_returns split: if_splits)
qed

lemma with_socket_returns:
  assumes "with_socket p f s = (Inr r, s')"
  obtains e where "set_error e s = (Inr r, s')" | i k where "f i k s = (Inr r, s')"
proof -
  obtain x s1 where x: "socket_from_raw p s = (Inr x, s1)" "(case x of Inl e \<Rightarrow> set_error e | Inr (i, k) \<Rightarrow> f i k) s1 = (Inr r, s')"
    using assms by (auto simp: with_socket_def bnd_returns)
  moreover have "s1 = s"
    using x(1) by (auto simp: socket_from_raw_def from_raw_def deref_def bnd_returns split: if_splits option.splits)
  ultimately show thesis
    using that by (cases x) auto
qed

lemma message_at_returns: "message_at msg s = (Inr r, s') \<Longrightarrow> s' = s \<and> (\<forall>p inner. r = Inr (p, inner) \<longrightarrow> c_messages s p = Some inner)"
  by (auto simp: message_at_def read_msg_inner_def c_load_def deref_def bnd_returns split: if_splits option.splits)

lemma with_message_returns:
  assumes "with_message msg f s = (Inr r, s')"
  obtains e where "set_error e s = (Inr r, s')" | p inner where "c_messages s p = Some inner" "f p inner s = (Inr r, s')"
proof -
  obtain x s1 where x: "message_at msg s = (Inr x, s1)" "(case x of Inl e \<Rightarrow> set_error e | Inr (p, inner) \<Rightarrow> f p inner) s1 = (Inr r, s')"
    using assms by (auto simp: with_message_def bnd_returns)
  then show thesis
    using that message_at_returns [OF x(1)] by (cases x) auto
qed

lemma copy_tidy:
  assumes t: "tidy S s" and a: "apart dest S" and r: "zmq_msg_copy dest src s = (Inr r, s')"
  shows "tidy (added r dest S) s'"
proof -
  have "tidy S s1" if "copy_message inner s = (Inr c, s1)" for inner c s1
    using t by (rule tidy_update)
      (use that in \<open>auto simp: copy_message_def arc_clone_def bnd_returns split: message_storage.splits option.splits\<close>)
  then show ?thesis
    using r init_message_tidy [OF _ a] refused_tidy [OF t]
    by (fastforce simp: zmq_msg_copy_def with_message_def bnd_returns added_def dest!: message_at_returns split: if_splits sum.splits)
qed

lemma move_tidy:
  assumes t: "tidy S s" and a: "apart dest S" and "src \<in> S" and r: "zmq_msg_move dest src s = (Inr r, s')"
  shows "tidy (added r dest S) s'"
proof (cases "dest = 0")
  case True
  then show ?thesis
    using r refused_tidy [OF t] by (simp add: zmq_msg_move_def)
next
  case False
  have "src \<noteq> 0"
    using tidyD(4) [OF t] \<open>src \<in> S\<close> by metis
  then obtain p s1 s2 where 1: "take_msg_inner src s = (Inr p, s1)" and 2: "write_msg_inner dest p s1 = (Inr (), s2)"
    and 3: "init_message src inner_empty s2 = (Inr r, s')"
    using r False by (auto simp: zmq_msg_move_def bnd_returns)
  have "tidy (insert dest (S - {src})) s2"
    using 2 take_tidy [OF t \<open>src \<in> S\<close> 1] handle_small [OF t \<open>src \<in> S\<close>]
    by (intro tidy_move [OF t \<open>src \<in> S\<close> a False]) (auto simp: write_msg_inner_def dest!: c_store_returns)
  moreover have "apart src (insert dest (S - {src}))"
    using tidyD(2) [OF t \<open>src \<in> S\<close>] a \<open>src \<in> S\<close> by (auto simp: apart_def)
  ultimately have "r = 0 \<and> tidy (insert src (insert dest (S - {src}))) s'"
    using init_message_tidy [OF _ _ \<open>src \<noteq> 0\<close> 3] by blast
  moreover have "insert src (insert dest (S - {src})) = insert dest S"
    using \<open>src \<in> S\<close> by auto
  ultimately show ?thesis
    by (simp add: added_def)
qed

lemma update_tidy:
  assumes t: "tidy S s"
  shows "zmq_msg_set_routing_id msg rid s = (Inr r, s') \<Longrightarrow> tidy S s'" "zmq_msg_set_group msg g s = (Inr r, s') \<Longrightarrow> tidy S s'"
proof -
  have u: "tidy S (s\<lparr>c_messages := (c_messages s)(p \<mapsto> i)\<rparr>)" "tidy S (s\<lparr>c_messages := (c_messages s)(p \<mapsto> i, p \<mapsto> j)\<rparr>)"
    if "c_messages s p = Some x" for p i j x
    using that by (auto intro!: tidy_update [OF t] split: if_splits)
  show "tidy S s'" if "zmq_msg_set_routing_id msg rid s = (Inr r, s')"
    using that unfolding zmq_msg_set_routing_id_def Let_def
  proof (cases rule: with_message_returns)
    case (2 p inner)
    then show ?thesis
      using u by (auto simp: update_message_def bnd_returns dest!: set_error_returns finish_returns split: sum.split_asm)
  qed (use t in \<open>auto dest!: set_error_returns\<close>)
  show "tidy S s'" if r: "zmq_msg_set_group msg g s = (Inr r, s')"
  proof (cases "msg = 0 \<or> g = 0")
    case True
    then show ?thesis
      using r t by (auto simp: zmq_msg_set_group_def dest!: set_error_returns)
  next
    case False
    then have "with_message msg (\<lambda>p inner. bnd (c_string g) (\<lambda>g. if length g > 255 then set_error InvalidArgument
        else bnd (update_message p (inner\<lparr>fm_group := Some g\<rparr>)) (\<lambda>_. finish (Inr 0)))) s = (Inr r, s')"
      using r by (auto simp: zmq_msg_set_group_def)
    then show ?thesis
    proof (cases rule: with_message_returns)
      case (2 p inner)
      then show ?thesis
        using u t by (auto simp: update_message_def c_string_def bnd_returns dest!: set_error_returns finish_returns split: option.split_asm if_split_asm)
    qed (use t in \<open>auto dest!: set_error_returns\<close>)
  qed
qed

lemma recvmsg_tidy:
  assumes t: "tidy S s" and "msg \<in> S" and r: "zmq_recvmsg W p msg flags s = (Inr r, s')"
  shows "tidy S s'"
proof -
  have w: "tidy S (s\<lparr>c_worlds := x\<rparr>)" for x
    using t by (rule tidy_update) simp_all
  have e: "tidy S s'" if "set_error e s1 = (Inr r, s')" "tidy S s1" for e s1
    using that by (auto dest!: set_error_returns)
  have f: "tidy S s'" if 1: "take_msg_inner msg s1 = (Inr q, s2)" "drop_message q s2 = (Inr u, s3)"
    "bnd (box_message i) (\<lambda>q. bnd (write_msg_inner msg q) (\<lambda>_. finish v)) s3 = (Inr r, s')" and t1: "tidy S s1" for s1 s2 s3 q u v i
  proof -
    have "tidy (insert msg (S - {msg})) s'"
      using box_write_tidy [OF take_drop_tidy [OF t1 \<open>msg \<in> S\<close> 1(1,2)] tidyD(2) [OF t1 \<open>msg \<in> S\<close>] _ 1(3)] tidyD(4) [OF t1] \<open>msg \<in> S\<close>
      by metis
    then show ?thesis
      using \<open>msg \<in> S\<close> by (simp add: insert_absorb)
  qed
  show ?thesis
    using r unfolding zmq_recvmsg_def
  proof (cases rule: with_socket_returns)
    case (2 i k)
    show ?thesis
    proof (cases "msg = 0")
      case True
      then show ?thesis
        using 2 e t by auto
    next
      case False
      obtain x w1 where x: "recv W k flags (c_worlds s i) = (x, w1)"
        by fastforce
      show ?thesis
      proof (cases x)
        case (Inl y)
        then show ?thesis
          using 2 False x e [OF _ w] by (simp add: bnd_apply on_world_def)
      next
        case (Inr m)
        then have "bnd (take_msg_inner msg) (\<lambda>previous. bnd (drop_message previous) (\<lambda>_.
            bnd (box_message (from_core_message m)) (\<lambda>q. bnd (write_msg_inner msg q) (\<lambda>_.
              finish (Inr (as_i32 (message_len m))))))) (s\<lparr>c_worlds := (c_worlds s)(i := w1)\<rparr>) = (Inr r, s')"
          using 2 False x by (simp add: bnd_apply on_world_def)
        then show ?thesis
          unfolding bnd_returns [of "take_msg_inner msg"] bnd_returns [of "drop_message _"] using f w by blast
      qed
    qed
  qed (use e t in blast)
qed

text \<open>Sending reads the message.\<close>

definition mem_kept :: "('w, 'a) c_fun \<Rightarrow> bool" where
  "mem_kept m \<longleftrightarrow> (\<forall>s. c_mem (snd (m s)) = c_mem s)"

lemma mem_kept_bnd: "mem_kept m \<Longrightarrow> (\<And>x. mem_kept (f x)) \<Longrightarrow> mem_kept (bnd m f)"
  by (simp add: mem_kept_def bnd_apply split: sum.split)

lemma mem_kept_basic:
  "mem_kept (ret x)" "mem_kept (throw e)" "mem_kept (gets g)" "mem_kept (c_load p n)" "mem_kept (set_errno v)" "mem_kept (on_world i f)"
  by (auto simp: mem_kept_def c_load_def set_errno_def on_world_def split: option.splits prod.splits)

lemma mem_kept_cases:
  "(b \<Longrightarrow> mem_kept m1) \<Longrightarrow> (\<not> b \<Longrightarrow> mem_kept m2) \<Longrightarrow> mem_kept (if b then m1 else m2)"
  "(\<And>x. mem_kept (f1 x)) \<Longrightarrow> (\<And>y. mem_kept (f2 y)) \<Longrightarrow> mem_kept (case r of Inl x \<Rightarrow> f1 x | Inr y \<Rightarrow> f2 y)"
  "mem_kept m1 \<Longrightarrow> (\<And>y. mem_kept (f2 y)) \<Longrightarrow> mem_kept (case v of None \<Rightarrow> m1 | Some y \<Rightarrow> f2 y)"
  "(\<And>x y. mem_kept (g x y)) \<Longrightarrow> mem_kept (case q of (x, y) \<Rightarrow> g x y)"
  "(\<And>m. mem_kept (h1 m)) \<Longrightarrow> (\<And>e. mem_kept (h2 e)) \<Longrightarrow> mem_kept (case st of Owned m \<Rightarrow> h1 m | External e \<Rightarrow> h2 e)"
  by (auto split: sum.splits option.splits prod.splits message_storage.splits)

lemma sendmsg_tidy:
  assumes t: "tidy S s" and r: "zmq_sendmsg W p msg flags s = (Inr r, s')"
  shows "tidy S s'"
proof -
  have "mem_kept (zmq_sendmsg W p msg flags)"
    unfolding zmq_sendmsg_def with_socket_def with_message_def socket_from_raw_def from_raw_def deref_def message_at_def
      read_msg_inner_def to_core_message_def inner_bytes_def external_of_def slice_arg_def finish_def set_error_def clear_errno_def
    by (intro mem_kept_bnd mem_kept_basic mem_kept_cases)
  then show ?thesis
    using zmq_sendmsg_quiet [of W p msg flags] r
    by (intro tidy_update [OF t]) (auto simp: mem_kept_def quiet_def same_messages_def dest!: spec [of _ s])
qed


section \<open>Programs that keep to the life cycle\<close>

text \<open>
  The messages \<open>S\<close> the program has initialised and not closed, and the callbacks it has handed over. Between the
  calls it may do what leaves its messages and their objects alone.
\<close>

inductive message_run :: "'w wires \<Rightarrow> 'w ffi \<Rightarrow> ptr set \<Rightarrow> (ptr \<times> ptr \<times> ptr) list \<Rightarrow> 'w ffi \<Rightarrow> bool" for W s0 where
  Begin: "message_run W s0 {} [] s0"
| Init_message: "message_run W s0 S g s \<Longrightarrow> apart msg S \<Longrightarrow> zmq_msg_init msg s = (Inr r, s') \<Longrightarrow> message_run W s0 (added r msg S) g s'"
| Init_with_size: "message_run W s0 S g s \<Longrightarrow> apart msg S \<Longrightarrow> zmq_msg_init_size msg n s = (Inr r, s') \<Longrightarrow> message_run W s0 (added r msg S) g s'"
| Init_with_buffer: "message_run W s0 S g s \<Longrightarrow> apart msg S \<Longrightarrow> zmq_msg_init_buffer msg p n s = (Inr r, s')
    \<Longrightarrow> message_run W s0 (added r msg S) g s'"
| Init_external: "message_run W s0 S g s \<Longrightarrow> apart msg S \<Longrightarrow> zmq_msg_init_data msg p n fn h s = (Inr r, s')
    \<Longrightarrow> message_run W s0 (added r msg S) (g @ (case fn of Some f \<Rightarrow> if r = 0 then [(f, p, h)] else [] | None \<Rightarrow> [])) s'"
| Close_message: "message_run W s0 S g s \<Longrightarrow> msg \<in> S \<Longrightarrow> zmq_msg_close msg s = (Inr r, s') \<Longrightarrow> message_run W s0 (S - {msg}) g s'"
| Move_message: "message_run W s0 S g s \<Longrightarrow> apart dest S \<Longrightarrow> src \<in> S \<Longrightarrow> zmq_msg_move dest src s = (Inr r, s')
    \<Longrightarrow> message_run W s0 (added r dest S) g s'"
| Copy_message: "message_run W s0 S g s \<Longrightarrow> apart dest S \<Longrightarrow> src \<in> S \<Longrightarrow> zmq_msg_copy dest src s = (Inr r, s')
    \<Longrightarrow> message_run W s0 (added r dest S) g s'"
| Change_routing_id: "message_run W s0 S g s \<Longrightarrow> msg \<in> S \<Longrightarrow> zmq_msg_set_routing_id msg rid s = (Inr r, s') \<Longrightarrow> message_run W s0 S g s'"
| Change_group: "message_run W s0 S g s \<Longrightarrow> msg \<in> S \<Longrightarrow> zmq_msg_set_group msg name s = (Inr r, s') \<Longrightarrow> message_run W s0 S g s'"
| Receive_message: "message_run W s0 S g s \<Longrightarrow> msg \<in> S \<Longrightarrow> zmq_recvmsg W p msg flags s = (Inr r, s') \<Longrightarrow> message_run W s0 S g s'"
| Send_message: "message_run W s0 S g s \<Longrightarrow> msg \<in> S \<Longrightarrow> zmq_sendmsg W p msg flags s = (Inr r, s') \<Longrightarrow> message_run W s0 S g s'"
| Elsewhere: "message_run W s0 S g s \<Longrightarrow> same_messages s s' \<Longrightarrow> (\<And>msg. msg \<in> S \<Longrightarrow> mem_load (c_mem s') msg 8 = mem_load (c_mem s) msg 8)
    \<Longrightarrow> message_run W s0 S g s'"

lemma message_run_tidy:
  assumes "message_run W s0 S g s" and "c_messages s0 = Map.empty" "0 < c_next s0"
  shows "tidy S s"
  using assms
proof (induction rule: message_run.induct)
  case Begin
  then show ?case
    by (simp add: tidy_def bij_betw_def)
next
  case (Elsewhere S g s s')
  then show ?case
    by (intro tidy_same [OF Elsewhere.IH]) (simp_all add: same_messages_def)
qed (blast intro: init_tidy close_tidy move_tidy copy_tidy update_tidy recvmsg_tidy sendmsg_tidy)+

lemma refused_data: "zmq_msg_init_data msg p n fn h s = (Inr r, s') \<Longrightarrow> r \<noteq> 0 \<Longrightarrow> same_messages s s'"
  by (cases "msg = 0")
    (auto simp: zmq_msg_init_data_def init_message_def finish_def clear_errno_def set_errno_def bnd_returns same_messages_def dest!: set_error_returns)

lemma message_run_buffer_run: "message_run W s0 S g s \<Longrightarrow> buffer_run W s0 g s"
proof (induction rule: message_run.induct)
  case (Init_external S g s msg p n fn h r s')
  then show ?case
    using Init_data [of W s0 g s msg p n] Init_plain [of W s0 g s msg p n] Other [OF Init_external.IH refused_data]
    by (cases fn; cases "r = 0") auto
qed (blast intro: buffer_run.intros)+

text \<open>The buffers of the messages the program has.\<close>

definition used_by :: "ptr set \<Rightarrow> 'w ffi \<Rightarrow> ref set" where
  "used_by S s = {e. \<exists>msg \<in> S. \<exists>inner. c_messages s (handle s msg) = Some inner \<and> fm_storage inner = External e}"

lemma used_by_tidy: "tidy S s \<Longrightarrow> used_by S s = in_use s"
proof -
  assume t: "tidy S s"
  have "\<exists>msg \<in> S. p = handle s msg" if "c_messages s p = Some inner" for p inner
    using bij_betw_imp_surj_on [OF tidyD(1) [OF t]] that by blast
  then show ?thesis
    unfolding used_by_def in_use_def by blast
qed

text \<open>
  C9. Free callbacks run exactly once, when the last message with the buffer is closed. In every run of a program
  that initialises messages in free storage, closes each at most once and moves and copies into storage that holds none, while it
  sends, receives and changes its messages in any way: the callbacks it has handed over are those that have run
  and those of the buffers of the messages it has not closed, each counted once; no such buffer has been freed; and when
  every message is closed all the callbacks have run.
\<close>

theorem free_callbacks_once:
  assumes "message_run W s0 S given s"
    and "c_messages s0 = Map.empty" "c_externals s0 = Map.empty" "c_free_calls s0 = []" "0 < c_next s0"
  shows "mset given = mset (c_free_calls s) + (\<Sum>e \<in> used_by S s. callback_of s e) \<and> used_by S s \<subseteq> dom (c_externals s)
    \<and> (S = {} \<longrightarrow> mset given = mset (c_free_calls s))"
  using objects_accounted [OF message_run_buffer_run [OF assms(1)] assms(2-4)] used_by_tidy [OF message_run_tidy [OF assms(1,2,5)]]
  by (auto simp: used_by_def)

text \<open>The message is made at 1000 and copied to 1100, and both are closed: the callback has run once.\<close>

theorem free_callbacks_once_witness:
  "message_run no_wires ffi_example {} [(7, 50, 9)] closed_example \<and> mset [(7, 50, 9)] = mset (c_free_calls closed_example)
    \<and> c_free_calls closed_example = [(7, 50, 9)]"
proof -
  have "message_run no_wires ffi_example {1000} [(7, 50, 9)] made_example"
    using Init_external [OF Begin _ made_eq(1)] by (simp add: apart_def added_def)
  then have "message_run no_wires ffi_example {1100, 1000} [(7, 50, 9)] copied_example"
    using Copy_message [OF _ _ _ copied_eq(1)] by (fastforce simp: apart_def added_def)
  then have "message_run no_wires ffi_example ({1100, 1000} - {1000}) [(7, 50, 9)] half_closed_example"
    by (rule Close_message [OF _ _ half_closed_eq(1)]) simp
  moreover have "{1100, 1000} - {1000} = {1100 :: nat}"
    by auto
  ultimately have "message_run no_wires ffi_example {1100} [(7, 50, 9)] half_closed_example"
    by simp
  then have r: "message_run no_wires ffi_example {} [(7, 50, 9)] closed_example"
    using Close_message [where S = "{1100}", OF _ _ closed_eq(1)] by simp
  then show ?thesis
    using free_callbacks_once [OF r] closed_eq(3) by (simp add: ffi_example_def)
qed

end
