(* ===== verification/Spec2Isabelle.thy ===== *)
theory Spec2Isabelle
  imports Pipe Reply_Routing Polling WebSocket_Link Receive_Loops Wired_Others Gssapi Ffi_Objects Ffi_Ownership
begin

text \<open>
  A verification library for \<open>libzmq-ru\<close>, a Rust implementation of the ZeroMQ messaging library. The paths
  below are under \<open>src/crates/\<close>.

  \<^bold>\<open>The program.\<close> The core crate (\<open>libzmq-core\<close>) keeps a context, which owns the registry of in-process
  names, and sockets, each of one of twenty types, with an inbox, options, a subscription filter and the state of
  its transports. A message sent over an in-process name is appended to the inbox of the peer; a publisher
  asks the filters of its peers, a request-reply socket alternates, a router answers by the id of the peer. Over
  TCP and IPC a message is a ZMTP frame on a stream, after a greeting and a handshake of the configured
  security mechanism (NULL, PLAIN, CURVE, or GSSAPI and its placeholder), and a ZAP handler of the same
  context may be asked to admit the peer. Over a WebSocket it is a ZMTP frame in a binary frame after an HTTP
  upgrade, and over UDP a datagram. The crate \<open>libzmq\<close> passes the calls of a Rust program on to the core; the
  crate \<open>libzmq-ffi\<close> exports the C interface \<open>zmq.h\<close>, with handles, the buffers of the caller, an error number
  for each thread, pollers, timers and counters.

  \<^bold>\<open>How the code is modelled.\<close> Structs are records, enums are datatypes with the names of the source, machine
  integers are words or integers with the wrap-around written out, byte strings are lists of 8-bit words.
  A fallible function returns \<open>error + 'a\<close>; a function that also changes state is a computation \<open>comp\<close> (state to
  result and state, \<open>Prelude\<close>). Shared cells (\<open>Arc<Mutex<..>>\<close>) live in a heap of numbered cells in the record
  \<open>world\<close>, so that two owners of a cell see the same value; locks are never poisoned. The six wire transports
  enter \<open>send\<close>, \<open>recv\<close>, \<open>bind\<close> and \<open>connect\<close> as a record \<open>wires\<close> of operations, which \<open>Wires\<close> fills with the models of
  the default build. A stream is the bytes that will arrive, the bytes written, whether the peer then closes and
  whether a read timeout is set (\<open>io\<close>); the operating system answers each call to listen, connect, accept, send or
  receive with the next of a list of replies, so that every theorem holds for all its behaviours. A fault that does
  not return to the caller (a panic, a read that blocks for ever) is a value of its own.

  \<^bold>\<open>The theories and the code they model.\<close>
  \<^item> \<open>Prelude\<close>, \<open>Rust_Std\<close>: results, the computation monad and its rules, byte strings, and what the code uses of
    the Rust standard library (UTF-8, integer and address parsing and printing).
  \<^item> \<open>Constants\<close>, \<open>Errors\<close>, \<open>Message\<close>, \<open>Pipe\<close>: \<open>libzmq-core/src/constants.rs\<close>, \<open>error.rs\<close>, \<open>message.rs\<close>, \<open>pipe.rs\<close>.
  \<^item> \<open>Security\<close>: \<open>security.rs\<close> (Z85, key derivation, ZAP requests and replies).
  \<^item> \<open>Transport\<close>: \<open>transport.rs\<close> (endpoint addresses; ZMTP greeting, frames, metadata).
  \<^item> \<open>Subscription\<close>, \<open>Inproc\<close>, \<open>Zmq_Context\<close>: \<open>context.rs\<close> (subscription counts and index; endpoints with their
    peers, round robin, publication and XPUB topics; life cycle, options, registry).
  \<^item> \<open>Socket_Type\<close>, \<open>Socket_Options\<close>, \<open>Socket\<close>, \<open>Socket_Endpoints\<close>: the socket of \<open>socket.rs\<close> (types and their
    compatibility; options; send and receive; bind, connect, monitor, subscribe, groups, poll events).
  \<^item> \<open>Zmtp_Commands\<close>, \<open>Curve\<close>, \<open>Curve_Handshake\<close>, \<open>Handshake\<close>: the ZMTP commands, the four mechanisms, ZAP
    authorisation, and frames and handshakes over a stream (\<open>socket.rs\<close>). \<open>Gssapi\<close>: the GSSAPI handshake and messages of
    the feature \<open>gssapi\<close>, over the contexts of the GSS library.
  \<^item> \<open>Tcp\<close>, \<open>Ipc\<close>, \<open>WebSocket\<close>, \<open>Udp\<close>: the transports of \<open>socket.rs\<close>, each with its state record (\<open>TcpState\<close>,
    \<open>IpcState\<close>, \<open>WsState\<close>, \<open>UdpState\<close>), its binds and connects and their inverses, sending and receiving.
  \<^item> \<open>Wires\<close>: all transports of a process and the operations a socket calls; NORM and TLS answer that they are
    not supported, as the code does when they are not compiled in.
  \<^item> \<open>Wrapper\<close>: \<open>libzmq/src/lib.rs\<close>.
  \<^item> \<open>Ffi\<close>, \<open>Ffi_Options\<close>, \<open>Ffi_Message\<close>, \<open>Ffi_Poll\<close>, \<open>Ffi_Timers\<close>: \<open>libzmq-ffi/src/lib.rs\<close> (handles, error numbers,
    contexts and sockets; options; messages and their buffers; polling, pollers and proxies; timers, atomic
    counters, threads and the rest).

  \<^bold>\<open>What the lemmas show.\<close>
  \<^item> Codecs: frames, READY metadata, Z85, ZAP messages and WebSocket frames come back from their encodings, and
    where it holds the decoder accepts nothing else (\<open>Transport\<close>, \<open>Security\<close>, \<open>WebSocket_Link\<close>); accepted endpoints
    are well formed.
  \<^item> Data structures, as interpretations of locales: queue and mailbox are first-in first-out queues
    (\<open>fifo_queue\<close>), the subscription set is a topic filter with counts (\<open>topic_filter\<close>), the memory of the caller
    is a byte store (\<open>byte_store\<close>), updates of the registry leave the heap alone (\<open>frame_update\<close>).
  \<^item> Contexts: the registry invariant in every reachable context; connecting before or after the bind makes no
    difference; XPUB notifications describe the topics of the peers (\<open>Zmq_Context\<close>, \<open>Inproc\<close>).
  \<^item> In-process messaging: a pair of sockets is a queue for every interleaving (\<open>Inproc_Delivery\<close>); requests and replies
    alternate and reach the one who asked (\<open>Request_Reply\<close>, \<open>Reply_Routing\<close>); the high-water mark is kept
    and a full peer interrupts a send (\<open>High_Water\<close>); the input flag of a poll tells what the next receive does
    (\<open>Polling\<close>); options stay in range and read back (\<open>Socket_Options\<close>).
  \<^item> Handshakes: the two sides of each mechanism finish together, with matching CURVE sessions, and a session accepts
    no message whose nonce does not grow (\<open>Handshake_Agreement\<close>, \<open>Curve\<close>). The GSSAPI handshake completes when
    the client has the last token, and fails in the usual mutual exchange, where the server has it (\<open>Gssapi\<close>).
  \<^item> Streams: what one side sends over TCP or a WebSocket the other receives (\<open>Tcp_Link\<close>, \<open>WebSocket_Link\<close>); the IPC
    transport does what TCP does on the same stream, for every input (\<open>Ipc_Link\<close>); nothing of a connection
    outlives its stream but the end of a disconnect notice (\<open>Tcp_Failure\<close>); the receive loops end (\<open>Receive_Loops\<close>); without a ZAP
    handler a transport leaves the context alone (\<open>Tcp_World\<close>); a datagram socket answers the peer it heard last (\<open>Udp\<close>).
  \<^item> From program to program: the interface between a socket and a transport is the locale \<open>carrier\<close> (\<open>Carrier\<close>),
    which TCP, IPC, WebSocket and UDP interpret (\<open>Carriers\<close>); over it, messages sent through the Rust interface of one
    process arrive in another (\<open>Wired_Link\<close>, \<open>Wired_Others\<close>).
  \<^item> The C interface: results and error numbers (\<open>Ffi_Errno\<close>, with the locale \<open>c_convention\<close>), bounds of what is written
    and option round trips and a whole C program (\<open>Ffi_Data\<close>), free callbacks exactly once, when the last
    message with the buffer is closed (\<open>Ffi_Buffers\<close>, \<open>Ffi_Ownership\<close>), pollers as finite maps and timers (\<open>Ffi_Objects\<close>).

  \<^bold>\<open>Parameters and hypotheses.\<close> Code outside the repository is an argument: \<open>crypto\<close> for the boxes of the cryptography
  crates (\<open>crypto_laws\<close>: opening a box with the matching key gives its content, and the shared keys agree),
  \<open>hashes\<close> for SHA-1 and Base64 (\<open>hash_laws\<close>: lengths and alphabet), \<open>gss\<close> for the contexts of the GSS library
  (\<open>gss_laws\<close>: a context unwraps what its counterpart has wrapped), the supply of random bytes, the allocator of the C
  program, what other threads do to the context while a thread waits (\<open>io_others\<close>). The witnesses instantiate them with
  concrete functions. The model has 64-bit words for \<open>usize\<close> and the little-endian byte order in the memory of the caller.

  \<^bold>\<open>Bounds and termination.\<close> No definition needs fuel. The loops that read from a peer take at least one byte in
  each round and end by the length of the input; the HTTP reader stops at 8192 bytes as the code does. Theorems
  about streams ask for payloads below \<open>2 ^ 60\<close> bytes and fewer than \<open>2 ^ 62\<close> messages, so that lengths fit the frame header and
  the nonce of a CURVE session does not run out; the code panics or fails beyond, which has lemmas of its own.

  \<^bold>\<open>Not modelled.\<close> The features \<open>norm\<close>, \<open>wss\<close> and \<open>sodium\<close>, which are off by default and call libraries outside the
  repository; the place of a GSSAPI session in the state of the transports (they are modelled as in the default build); \<open>libzmq-sys\<close>, which binds the operating system (its calls are the replies of the model); the
  test harness; writes that fail or are cut short; poisoned locks; the erasure of secrets on drop; the texts of
  \<open>Display\<close>. Callbacks and threads of a C program are recorded, not run.
\<close>

end
